(* ===== verification/Quip_Prelude.thy ===== *)
theory Quip_Prelude
  imports Main "HOL-Library.Word" "HOL-Library.Char_ord" "HOL-Library.List_Lexorder"
    "HOL-Library.Sublist"
begin

text \<open>
  The vocabulary of Rust and of its standard library that the crates of the repository use:
  machine integers at their width, \<open>Result\<close>, \<open>str\<close> and \<open>String\<close> (a string is the list of its
  UTF-8 bytes, each byte a \<^typ>\<open>char\<close>), \<open>Vec\<close> searches and in-place updates, \<open>BTreeMap\<close>
  (an association list in strictly ascending key order), and the bounded buffers of the runtime.
  Operations that panic or that fail in Rust return an error or \<^term>\<open>None\<close>.
  The generic laws of these operations are collected here, the laws of \<open>BTreeMap\<close>, of keyed
  vectors and of deduplicated logs as locales, which the components interpret.
\<close>

named_theorems rust_std \<open>definitions of the standard-library operations\<close>
named_theorems upsert_simps \<open>laws of in-place updates of vectors\<close>

section \<open>Integers and results\<close>

type_synonym u8 = "8 word"
type_synonym u16 = "16 word"
type_synonym u32 = "32 word"
type_synonym u64 = "64 word"
type_synonym bytes = "u8 list"

datatype ('a, 'e) result = Ok 'a | Err 'e

definition map_err :: "('e \<Rightarrow> 'f) \<Rightarrow> ('a, 'e) result \<Rightarrow> ('a, 'f) result" where
  "map_err f r = (case r of Ok a \<Rightarrow> Ok a | Err e \<Rightarrow> Err (f e))"

definition is_ok :: "('a, 'e) result \<Rightarrow> bool" where
  "is_ok r = (case r of Ok _ \<Rightarrow> True | Err _ \<Rightarrow> False)"

lemma is_ok_simps [simp]: "is_ok (Ok a)" "\<not> is_ok (Err e)"
  by (simp_all add: is_ok_def)

lemma map_err_simps [simp]: "map_err f (Ok a) = Ok a" "map_err f (Err e) = Err (f e)"
  by (simp_all add: map_err_def)

lemma map_err_eq_Ok [simp]: "map_err f r = Ok a \<longleftrightarrow> r = Ok a"
  by (cases r) simp_all

definition sat_add :: "'l::len word \<Rightarrow> 'l word \<Rightarrow> 'l word" where
  "sat_add a b = (if unat a + unat b < 2 ^ LENGTH('l) then a + b else - 1)"

definition sat_sub :: "'l::len word \<Rightarrow> 'l word \<Rightarrow> 'l word" where
  "sat_sub a b = (if a < b then 0 else a - b)"

definition sat_mul :: "'l::len word \<Rightarrow> 'l word \<Rightarrow> 'l word" where
  "sat_mul a b = (if unat a * unat b < 2 ^ LENGTH('l) then a * b else - 1)"

lemma unat_max_word: "unat (- 1 :: 'l::len word) = 2 ^ LENGTH('l) - 1"
  by transfer (simp add: mask_eq_exp_minus_1 nat_diff_distrib nat_power_eq)

lemma unat_sat_add: "unat (sat_add a b) = min (unat a + unat b) (2 ^ LENGTH('l) - 1)"
  for a b :: "'l::len word"
proof (cases "unat a + unat b < 2 ^ LENGTH('l)")
  case True
  then show ?thesis
    by (simp add: sat_add_def unat_word_ariths take_bit_nat_eq_self)
next
  case False
  then show ?thesis
    unfolding sat_add_def by (simp add: unat_max_word del: One_nat_def)
qed

lemma unat_sat_sub: "unat (sat_sub a b) = unat a - unat b"
  by (auto simp: sat_sub_def word_less_nat_alt unat_sub word_le_nat_alt)

lemma unat_sat_mul: "unat (sat_mul a b) = min (unat a * unat b) (2 ^ LENGTH('l) - 1)"
  for a b :: "'l::len word"
proof (cases "unat a * unat b < 2 ^ LENGTH('l)")
  case True
  then show ?thesis
    by (simp add: sat_mul_def unat_word_ariths take_bit_nat_eq_self)
next
  case False
  then show ?thesis
    unfolding sat_mul_def by (simp add: unat_max_word del: One_nat_def)
qed

lemma sat_add_ge: "a \<le> sat_add a b"
proof -
  have "unat a < 2 ^ LENGTH('a)" by (rule unsigned_less)
  then show ?thesis
    unfolding word_le_nat_alt unat_sat_add by (auto simp: less_eq_Suc_le)
qed

section \<open>Strings\<close>

definition starts_with :: "string \<Rightarrow> string \<Rightarrow> bool" where
  "starts_with p s = (take (length p) s = p)"

definition strip_prefix :: "string \<Rightarrow> string \<Rightarrow> string option" where
  "strip_prefix p s = (if starts_with p s then Some (drop (length p) s) else None)"

fun contains :: "string \<Rightarrow> string \<Rightarrow> bool" where
  "contains p [] = (p = [])"
| "contains p (c # s) = (starts_with p (c # s) \<or> contains p s)"

definition count_char :: "char \<Rightarrow> string \<Rightarrow> nat" where
  "count_char c s = length (filter (\<lambda>d. d = c) s)"

text \<open>\<open>str::replace\<close>: left to right, non-overlapping; the pattern is never empty in the sources.\<close>

function replace_str :: "string \<Rightarrow> string \<Rightarrow> string \<Rightarrow> string" where
  "replace_str p q s =
     (if s = [] \<or> p = [] then s
      else if starts_with p s then q @ replace_str p q (drop (length p) s)
      else hd s # replace_str p q (tl s))"
  by pat_completeness auto
termination
  by (relation "measure (\<lambda>(p, q, s). length s)") auto

declare replace_str.simps [simp del]

lemma starts_with_prefix: "starts_with p s \<longleftrightarrow> prefix p s"
  unfolding starts_with_def prefix_def by (metis append_eq_conv_conj append_take_drop_id)

lemma strip_prefix_append [simp]: "strip_prefix p (p @ s) = Some s"
  by (simp add: strip_prefix_def starts_with_def)

lemma strip_prefix_SomeD: "strip_prefix p s = Some t \<Longrightarrow> s = p @ t"
  by (auto simp: strip_prefix_def starts_with_def split: if_splits)
     (metis append_take_drop_id)

lemma contains_sublist: "contains p s \<longleftrightarrow> sublist p s"
proof (induction p s rule: contains.induct)
  case (2 p c s)
  then show ?case
    by (auto simp: starts_with_prefix sublist_Cons_right)
qed (auto simp: sublist_def)

lemma replace_str_same: "replace_str p p s = s"
proof (induction "length s" arbitrary: s rule: less_induct)
  case less
  show ?case
  proof (cases "s = [] \<or> p = []")
    case True
    then show ?thesis by (simp add: replace_str.simps)
  next
    case False
    show ?thesis
    proof (cases "starts_with p s")
      case True
      with False less have "replace_str p p (drop (length p) s) = drop (length p) s" by simp
      with True False show ?thesis
        unfolding replace_str.simps [of p p s] starts_with_def
        by (metis append_take_drop_id)
    next
      case nst: False
      with False less have "replace_str p p (tl s) = tl s" by simp
      with nst False show ?thesis
        by (simp add: replace_str.simps [of p p s])
    qed
  qed
qed

fun split_on :: "char \<Rightarrow> string \<Rightarrow> string list" where
  "split_on c [] = [[]]"
| "split_on c (x # s) =
     (if x = c then [] # split_on c s
      else case split_on c s of [] \<Rightarrow> [[x]] | w # ws \<Rightarrow> (x # w) # ws)"

definition split_once :: "char \<Rightarrow> string \<Rightarrow> (string \<times> string) option" where
  "split_once c s =
     (if c \<in> set s then Some (takeWhile (\<lambda>x. x \<noteq> c) s, tl (dropWhile (\<lambda>x. x \<noteq> c) s)) else None)"

fun join :: "string \<Rightarrow> string list \<Rightarrow> string" where
  "join sep [] = []"
| "join sep [w] = w"
| "join sep (w # ws) = w @ sep @ join sep ws"

lemma split_on_nonempty [simp]: "split_on c s \<noteq> []"
  by (induction c s rule: split_on.induct) (auto split: list.splits)

lemma join_Cons: "ws \<noteq> [] \<Longrightarrow> join sep (w # ws) = w @ sep @ join sep ws"
  by (cases ws) simp_all

lemma join_split_on: "join [c] (split_on c s) = s"
proof (induction s)
  case (Cons x s)
  obtain w ws where w: "split_on c s = w # ws"
    using split_on_nonempty [of c s] by (cases "split_on c s") auto
  have "join [c] ((x # w) # ws) = x # join [c] (w # ws)"
    by (cases ws) simp_all
  with Cons w show ?case by (simp add: join_Cons)
qed simp

lemma split_once_spec:
  "split_once c s = Some (a, b) \<longleftrightarrow> s = a @ c # b \<and> c \<notin> set a"
proof
  assume "split_once c s = Some (a, b)"
  then have c: "c \<in> set s" and a: "a = takeWhile (\<lambda>x. x \<noteq> c) s"
    and b: "b = tl (dropWhile (\<lambda>x. x \<noteq> c) s)"
    by (auto simp: split_once_def split: if_splits)
  from c have "dropWhile (\<lambda>x. x \<noteq> c) s \<noteq> []" by (auto simp: dropWhile_eq_Nil_conv)
  then have "dropWhile (\<lambda>x. x \<noteq> c) s = c # b"
    using hd_dropWhile [of "\<lambda>x. x \<noteq> c" s] b by (metis list.collapse)
  then have "s = a @ c # b"
    using takeWhile_dropWhile_id [of "\<lambda>x. x \<noteq> c" s] a by simp
  moreover have "c \<notin> set a" using a by (auto dest: set_takeWhileD)
  ultimately show "s = a @ c # b \<and> c \<notin> set a" by simp
next
  assume s: "s = a @ c # b \<and> c \<notin> set a"
  then have "takeWhile (\<lambda>x. x \<noteq> c) s = a" "dropWhile (\<lambda>x. x \<noteq> c) s = c # b"
    by (auto simp: takeWhile_append dropWhile_append)
  with s show "split_once c s = Some (a, b)" by (simp add: split_once_def)
qed

text \<open>\<open>str::trim\<close> removes the Unicode \<open>White_Space\<close> characters, here as UTF-8 sequences.\<close>

definition white_space :: "string list" where
  "white_space =
     map (\<lambda>n. [char_of (n::nat)]) [9, 10, 11, 12, 13, 32] @
     map (map char_of)
       [[0xC2, 0x85], [0xC2, 0xA0], [0xE1, 0x9A, 0x80],
        [0xE2, 0x80, 0x80], [0xE2, 0x80, 0x81], [0xE2, 0x80, 0x82], [0xE2, 0x80, 0x83],
        [0xE2, 0x80, 0x84], [0xE2, 0x80, 0x85], [0xE2, 0x80, 0x86], [0xE2, 0x80, 0x87],
        [0xE2, 0x80, 0x88], [0xE2, 0x80, 0x89], [0xE2, 0x80, 0x8A], [0xE2, 0x80, 0xA8],
        [0xE2, 0x80, 0xA9], [0xE2, 0x80, 0xAF], [0xE2, 0x81, 0x9F], [0xE3, 0x80, 0x80 :: nat]]"

function strip_seqs :: "string list \<Rightarrow> string \<Rightarrow> string" where
  "strip_seqs ws s =
     (case find (\<lambda>w. w \<noteq> [] \<and> starts_with w s) ws of
        None \<Rightarrow> s
      | Some w \<Rightarrow> strip_seqs ws (drop (length w) s))"
  by pat_completeness auto
termination
  by (relation "measure (\<lambda>(ws, s). length s)")
     (auto simp: find_Some_iff starts_with_def intro!: diff_less)

declare strip_seqs.simps [simp del]

definition trim :: "string \<Rightarrow> string" where
  "trim s = rev (strip_seqs (map rev white_space) (rev (strip_seqs white_space s)))"

fun trim_end_matches :: "char \<Rightarrow> string \<Rightarrow> string" where
  "trim_end_matches c s = rev (dropWhile (\<lambda>x. x = c) (rev s))"

text \<open>ASCII case mapping; the sources apply it to base32 text only.\<close>

definition ascii_lower :: "char \<Rightarrow> char" where
  "ascii_lower c = (let n = of_char c :: nat in if 65 \<le> n \<and> n \<le> 90 then char_of (n + 32) else c)"

definition ascii_upper :: "char \<Rightarrow> char" where
  "ascii_upper c = (let n = of_char c :: nat in if 97 \<le> n \<and> n \<le> 122 then char_of (n - 32) else c)"

lemma ascii_upper_lower:
  assumes "\<not> (97 \<le> (of_char c :: nat) \<and> (of_char c :: nat) \<le> 122)"
  shows "ascii_upper (ascii_lower c) = c"
proof (cases "65 \<le> (of_char c :: nat) \<and> (of_char c :: nat) \<le> 90")
  case True
  then have "(of_char c + 32 :: nat) < 256" by simp
  with True show ?thesis
    by (simp add: ascii_upper_def ascii_lower_def Let_def)
next
  case False
  then have "ascii_lower c = c" by (auto simp: ascii_lower_def Let_def)
  with assms show ?thesis by (auto simp: ascii_upper_def Let_def)
qed

fun show_nat :: "nat \<Rightarrow> string" where
  "show_nat n = (if n < 10 then [char_of (48 + n)] else show_nat (n div 10) @ [char_of (48 + n mod 10)])"

declare show_nat.simps [simp del]

definition show_word :: "'l::len word \<Rightarrow> string" where
  "show_word w = show_nat (unat w)"

definition show_bool :: "bool \<Rightarrow> string" where
  "show_bool b = (if b then ''true'' else ''false'')"

text \<open>\<open>str::as_bytes\<close>.\<close>

definition as_bytes :: "string \<Rightarrow> bytes" where
  "as_bytes s = map (\<lambda>c. word_of_nat (of_char c)) s"

lemma as_bytes_inj: "as_bytes s = as_bytes t \<Longrightarrow> s = t"
proof -
  have inj: "inj (\<lambda>c :: char. word_of_nat (of_char c) :: u8)"
  proof (rule injI)
    fix c d :: char
    assume "(word_of_nat (of_char c) :: u8) = word_of_nat (of_char d)"
    then have "unat (word_of_nat (of_char c) :: u8) = unat (word_of_nat (of_char d) :: u8)" by simp
    moreover have "(of_char c :: nat) < 256" "(of_char d :: nat) < 256" by simp_all
    ultimately have "(of_char c :: nat) = of_char d"
      by (simp add: unat_of_nat take_bit_nat_eq_self)
    then show "c = d" by simp
  qed
  assume "as_bytes s = as_bytes t"
  then show ?thesis using inj by (simp add: as_bytes_def inj_map_eq_map)
qed

text \<open>\<open>{byte:02x}\<close> and \<open>u8::from_str_radix(_, 16)\<close>; the latter accepts a leading plus sign.\<close>

definition hex_digit :: "nat \<Rightarrow> char" where
  "hex_digit n = (if n < 10 then char_of (48 + n) else char_of (87 + n))"

definition hex_byte :: "u8 \<Rightarrow> string" where
  "hex_byte b = [hex_digit (unat b div 16), hex_digit (unat b mod 16)]"

definition hex_bytes :: "bytes \<Rightarrow> string" where
  "hex_bytes bs = concat (map hex_byte bs)"

definition hex_value :: "char \<Rightarrow> nat option" where
  "hex_value c = (let n = of_char c :: nat in
     if 48 \<le> n \<and> n \<le> 57 then Some (n - 48)
     else if 97 \<le> n \<and> n \<le> 102 then Some (n - 87)
     else if 65 \<le> n \<and> n \<le> 70 then Some (n - 55)
     else None)"

lemma hex_value_hex_digit: "n < 16 \<Longrightarrow> hex_value (hex_digit n) = Some n"
  by (auto simp: hex_value_def hex_digit_def Let_def)

lemma hex_digit_inj: "m < 16 \<Longrightarrow> n < 16 \<Longrightarrow> hex_digit m = hex_digit n \<Longrightarrow> m = n"
  by (metis hex_value_hex_digit option.inject)

lemma length_hex_bytes [simp]: "length (hex_bytes bs) = 2 * length bs"
  by (induction bs) (simp_all add: hex_bytes_def hex_byte_def)

section \<open>Vectors\<close>

text \<open>\<open>iter_mut().find(p)\<close> followed by an assignment, and the same with \<open>push\<close> as the fallback.\<close>

fun update_first :: "('a \<Rightarrow> bool) \<Rightarrow> ('a \<Rightarrow> 'a) \<Rightarrow> 'a list \<Rightarrow> 'a list" where
  "update_first p f [] = []"
| "update_first p f (x # xs) = (if p x then f x # xs else x # update_first p f xs)"

definition upsert_by :: "('a \<Rightarrow> bool) \<Rightarrow> ('a \<Rightarrow> 'a) \<Rightarrow> 'a \<Rightarrow> 'a list \<Rightarrow> 'a list" where
  "upsert_by p f y xs = (if \<exists>x \<in> set xs. p x then update_first p f xs else xs @ [y])"

text \<open>\<open>iter().position(p)\<close>.\<close>

fun position :: "('a \<Rightarrow> bool) \<Rightarrow> 'a list \<Rightarrow> nat option" where
  "position p [] = None"
| "position p (x # xs) = (if p x then Some 0 else map_option Suc (position p xs))"

text \<open>\<open>min_by_key\<close> returns the first of several minimal elements.\<close>

fun min_by_key :: "('a \<Rightarrow> 'k::linorder) \<Rightarrow> 'a list \<Rightarrow> 'a option" where
  "min_by_key f [] = None"
| "min_by_key f (x # xs) =
     (case min_by_key f xs of
        None \<Rightarrow> Some x
      | Some y \<Rightarrow> if f x \<le> f y then Some x else Some y)"

definition min_opt :: "'a::linorder list \<Rightarrow> 'a option" where
  "min_opt xs = (if xs = [] then None else Some (fold min (tl xs) (hd xs)))"

definition max_opt :: "'a::linorder list \<Rightarrow> 'a option" where
  "max_opt xs = (if xs = [] then None else Some (fold max (tl xs) (hd xs)))"

text \<open>\<open>while v.len() > cap { v.pop_front(); }\<close>.\<close>

fun pop_front_to :: "nat \<Rightarrow> 'a list \<Rightarrow> 'a list" where
  "pop_front_to cap [] = []"
| "pop_front_to cap (x # xs) = (if cap < length (x # xs) then pop_front_to cap xs else x # xs)"

lemma fold_min_Min: "fold min xs (x::'a::linorder) = Min (insert x (set xs))"
  by (metis List.finite_set Min.set_eq_fold list.simps(15))

lemma fold_max_Max: "fold max xs (x::'a::linorder) = Max (insert x (set xs))"
  by (metis List.finite_set Max.set_eq_fold list.simps(15))

lemma min_opt_Min: "min_opt xs = (if xs = [] then None else Some (Min (set xs)))"
  by (cases xs) (simp_all add: min_opt_def fold_min_Min)

lemma max_opt_Max: "max_opt xs = (if xs = [] then None else Some (Max (set xs)))"
  by (cases xs) (simp_all add: max_opt_def fold_max_Max)

lemma pop_front_to_drop: "pop_front_to cap xs = drop (length xs - cap) xs"
  by (induction cap xs rule: pop_front_to.induct) (auto simp: Suc_diff_le)

lemma length_pop_front_to [simp]: "length (pop_front_to cap xs) = min cap (length xs)"
  by (simp add: pop_front_to_drop)

lemma pop_front_to_id [simp]: "length xs \<le> cap \<Longrightarrow> pop_front_to cap xs = xs"
  by (simp add: pop_front_to_drop)

lemma set_pop_front_to: "set (pop_front_to cap xs) \<subseteq> set xs"
  by (simp add: pop_front_to_drop set_drop_subset)

lemma last_pop_front_to:
  "0 < cap \<Longrightarrow> xs \<noteq> [] \<Longrightarrow> last (pop_front_to cap xs) = last xs"
  by (cases xs) (simp_all add: pop_front_to_drop)

lemma position_None [simp]: "position p xs = None \<longleftrightarrow> (\<forall>x \<in> set xs. \<not> p x)"
  by (induction p xs rule: position.induct) auto

lemma position_update: "position p xs = Some i \<Longrightarrow> xs[i := y] = update_first p (\<lambda>_. y) xs"
  by (induction p xs arbitrary: i rule: position.induct) (auto split: if_splits)

lemma update_first_none [upsert_simps]:
  "\<forall>x \<in> set xs. \<not> p x \<Longrightarrow> update_first p f xs = xs"
  by (induction xs) auto

lemma length_update_first [upsert_simps, simp]: "length (update_first p f xs) = length xs"
  by (induction xs) auto

lemma set_update_first: "set (update_first p f xs) \<subseteq> set xs \<union> f ` {x \<in> set xs. p x}"
  by (induction xs) auto

lemma find_update_first:
  "(\<And>x. p x \<Longrightarrow> p (f x)) \<Longrightarrow> find p (update_first p f xs) = map_option f (find p xs)"
  by (induction xs) auto

lemma find_update_first_other:
  "(\<And>x. p x \<Longrightarrow> \<not> q x) \<Longrightarrow> (\<And>x. p x \<Longrightarrow> \<not> q (f x)) \<Longrightarrow>
   find q (update_first p f xs) = find q xs"
  by (induction xs) auto

lemma map_key_update_first:
  "(\<And>x. p x \<Longrightarrow> key (f x) = key x) \<Longrightarrow> map key (update_first p f xs) = map key xs"
  by (induction xs) auto

lemma find_append: "find p (xs @ ys) = (case find p xs of None \<Rightarrow> find p ys | Some x \<Rightarrow> Some x)"
  by (induction xs) auto

lemma find_filter: "find p (filter q xs) = find (\<lambda>x. q x \<and> p x) xs"
  by (induction xs) auto

lemma find_SomeD: "find p xs = Some x \<Longrightarrow> x \<in> set xs \<and> p x"
  by (auto simp: find_Some_iff)

lemma filter_split:
  "filter P xs = us @ x # vs \<Longrightarrow>
   \<exists>as bs. xs = as @ x # bs \<and> P x \<and> filter P as = us \<and> filter P bs = vs"
proof (induction xs arbitrary: us)
  case (Cons a xs)
  show ?case
  proof (cases "P a")
    case True
    show ?thesis
    proof (cases us)
      case Nil
      with True Cons.prems show ?thesis by (intro exI [of _ "[]"] exI [of _ xs]) simp
    next
      case (Cons u us')
      with True Cons.prems have "filter P xs = us' @ x # vs" "u = a" by simp_all
      with Cons.IH obtain as bs where "xs = as @ x # bs" "P x" "filter P as = us'" "filter P bs = vs"
        by blast
      with True Cons \<open>u = a\<close> show ?thesis by (intro exI [of _ "a # as"] exI [of _ bs]) simp
    qed
  next
    case False
    with Cons obtain as bs where "xs = as @ x # bs" "P x" "filter P as = us" "filter P bs = vs"
      by auto
    with False show ?thesis by (intro exI [of _ "a # as"] exI [of _ bs]) simp
  qed
qed simp

lemma min_by_key_None [simp]: "min_by_key f xs = None \<longleftrightarrow> xs = []"
  by (cases xs) (auto split: option.splits if_splits)

lemma min_by_key_Some:
  "min_by_key f xs = Some x \<Longrightarrow> x \<in> set xs \<and> (\<forall>y \<in> set xs. f x \<le> f y)"
proof (induction xs arbitrary: x)
  case (Cons a xs)
  show ?case
  proof (cases "min_by_key f xs")
    case None
    with Cons.prems show ?thesis by simp
  next
    case (Some b)
    from Cons.IH [OF this] Cons.prems Some show ?thesis
      by (auto split: if_splits dest: order_trans)
  qed
qed simp

text \<open>The minimum is the earliest one: everything before it has a strictly larger key.\<close>

lemma min_by_key_first:
  "min_by_key f xs = Some x \<Longrightarrow>
   \<exists>us vs. xs = us @ x # vs \<and> (\<forall>u \<in> set us. f x < f u) \<and> (\<forall>v \<in> set vs. f x \<le> f v)"
proof (induction xs arbitrary: x)
  case (Cons a xs)
  show ?case
  proof (cases "min_by_key f xs")
    case None
    with Cons.prems show ?thesis by (intro exI [of _ "[]"] exI [of _ xs]) simp
  next
    case (Some b)
    show ?thesis
    proof (cases "f a \<le> f b")
      case True
      with Some Cons.prems have "x = a" by simp
      moreover have "\<forall>v \<in> set xs. f a \<le> f v"
        using min_by_key_Some [OF Some] True by (auto dest: order_trans)
      ultimately show ?thesis by (intro exI [of _ "[]"] exI [of _ xs]) simp
    next
      case False
      with Some Cons.prems have x: "x = b" by simp
      from Cons.IH [OF Some] obtain us vs where
        "xs = us @ b # vs" "\<forall>u \<in> set us. f b < f u" "\<forall>v \<in> set vs. f b \<le> f v"
        by blast
      with x False show ?thesis by (intro exI [of _ "a # us"] exI [of _ vs]) auto
    qed
  qed
qed simp

section \<open>Keyed vectors\<close>

text \<open>
  Several registries are vectors searched by a key and updated in place, with \<open>push\<close> when the
  key is new. What a client relies on: a lookup finds what was stored last, other keys are
  untouched, and one entry per key stays one entry per key.
\<close>

locale keyed_vector =
  fixes key :: "'a \<Rightarrow> 'k"
    and upsert :: "'a \<Rightarrow> 'a list \<Rightarrow> 'a list"
  assumes lookup_upsert:
      "find (\<lambda>y. key y = k) (upsert x xs) = (if k = key x then Some x else find (\<lambda>y. key y = k) xs)"
    and keys_upsert: "set (map key (upsert x xs)) = insert (key x) (set (map key xs))"
    and distinct_upsert: "distinct (map key xs) \<Longrightarrow> distinct (map key (upsert x xs))"
begin

lemma lookup_fold_upsert:
  "find (\<lambda>y. key y = k) (fold upsert zs xs) =
   (case find (\<lambda>y. key y = k) (rev zs) of
      Some z \<Rightarrow> Some z
    | None \<Rightarrow> find (\<lambda>y. key y = k) xs)"
  by (induction zs arbitrary: xs) (auto simp: lookup_upsert find_append split: option.splits)

lemma distinct_fold_upsert:
  "distinct (map key xs) \<Longrightarrow> distinct (map key (fold upsert zs xs))"
  by (induction zs arbitrary: xs) (simp_all add: distinct_upsert)

lemma upsert_idem_lookup:
  "find (\<lambda>y. key y = k) (upsert x (upsert x xs)) = find (\<lambda>y. key y = k) (upsert x xs)"
  by (simp add: lookup_upsert)

end

text \<open>The law holds for every registry written as \<^const>\<open>upsert_by\<close> on a key.\<close>

lemma map_key_replace:
  "map key (update_first (\<lambda>y. key y = key x) (\<lambda>_. x) xs) = map key xs"
  by (rule map_key_update_first) simp

lemma find_replace:
  "find (\<lambda>y. key y = k) (update_first (\<lambda>y. key y = key x) (\<lambda>_. x) xs) =
   (if k = key x then map_option (\<lambda>_. x) (find (\<lambda>y. key y = k) xs) else find (\<lambda>y. key y = k) xs)"
  by (induction xs) auto

lemma upsert_by_lookup:
  "find (\<lambda>y. key y = k) (upsert_by (\<lambda>y. key y = key x) (\<lambda>_. x) x xs) =
   (if k = key x then Some x else find (\<lambda>y. key y = k) xs)"
proof (cases "\<exists>y \<in> set xs. key y = key x")
  case True
  then have "find (\<lambda>y. key y = key x) xs \<noteq> None" by (auto simp: find_None_iff)
  then show ?thesis using True by (auto simp: upsert_by_def find_replace)
next
  case False
  then have "find (\<lambda>y. key y = key x) xs = None" by (auto simp: find_None_iff)
  with False show ?thesis
    by (auto simp: upsert_by_def find_append split: option.splits)
qed

lemma upsert_by_keys:
  "set (map key (upsert_by (\<lambda>y. key y = key x) (\<lambda>_. x) x xs)) = insert (key x) (set (map key xs))"
proof (cases "\<exists>y \<in> set xs. key y = key x")
  case True
  then have "key x \<in> set (map key xs)" by (metis image_eqI list.set_map)
  with True show ?thesis unfolding upsert_by_def map_key_replace if_P [OF True] by auto
next
  case False
  then show ?thesis by (auto simp: upsert_by_def)
qed

lemma upsert_by_distinct:
  "distinct (map key xs) \<Longrightarrow>
   distinct (map key (upsert_by (\<lambda>y. key y = key x) (\<lambda>_. x) x xs))"
  by (auto simp: upsert_by_def map_key_replace)

lemmas upsert_by_keyed = upsert_by_lookup upsert_by_keys upsert_by_distinct

section \<open>Deduplicated logs\<close>

text \<open>
  Revocations, grants and path candidates accumulate in vectors to which an entry is pushed only
  when no entry with the same identity is present. The client relies on: nothing present is
  lost, everything offered is present up to identity, and offering the same again adds nothing.
\<close>

definition push_new :: "('a \<Rightarrow> 'a \<Rightarrow> bool) \<Rightarrow> 'a \<Rightarrow> 'a list \<Rightarrow> 'a list" where
  "push_new same x xs = (if \<exists>y \<in> set xs. same y x then xs else xs @ [x])"

fun merge_log :: "('a \<Rightarrow> 'a \<Rightarrow> bool) \<Rightarrow> 'a list \<Rightarrow> 'a list \<Rightarrow> 'a list \<times> nat" where
  "merge_log same xs [] = (xs, 0)"
| "merge_log same xs (z # zs) =
     (if \<exists>y \<in> set xs. same y z then merge_log same xs zs
      else case merge_log same (xs @ [z]) zs of (ys, n) \<Rightarrow> (ys, Suc n))"

locale identity_log =
  fixes same :: "'a \<Rightarrow> 'a \<Rightarrow> bool"
  assumes same_refl: "same x x"
    and same_trans: "same x y \<Longrightarrow> same y z \<Longrightarrow> same x z"
begin

lemma merge_log_prefix: "\<exists>ys. fst (merge_log same xs zs) = xs @ ys \<and> set ys \<subseteq> set zs"
proof (induction zs arbitrary: xs)
  case (Cons z zs)
  show ?case
  proof (cases "\<exists>y \<in> set xs. same y z")
    case True
    with Cons [of xs] show ?thesis by auto
  next
    case False
    obtain ys where "fst (merge_log same (xs @ [z]) zs) = xs @ [z] @ ys" "set ys \<subseteq> set zs"
      using Cons [of "xs @ [z]"] by auto
    with False show ?thesis by (auto simp: case_prod_unfold intro!: exI [of _ "z # ys"])
  qed
qed simp

lemma merge_log_keeps: "x \<in> set xs \<Longrightarrow> x \<in> set (fst (merge_log same xs zs))"
  using merge_log_prefix [of xs zs] by auto

lemma merge_log_set: "set (fst (merge_log same xs zs)) \<subseteq> set xs \<union> set zs"
  using merge_log_prefix [of xs zs] by auto

lemma merge_log_count:
  "length (fst (merge_log same xs zs)) = length xs + snd (merge_log same xs zs)"
  by (induction zs arbitrary: xs) (auto simp: case_prod_unfold)

lemma merge_log_covers:
  "z \<in> set zs \<Longrightarrow> \<exists>y \<in> set (fst (merge_log same xs zs)). same y z"
proof (induction zs arbitrary: xs)
  case (Cons w zs)
  show ?case
  proof (cases "\<exists>y \<in> set xs. same y w")
    case True
    with Cons show ?thesis by (auto dest: merge_log_keeps)
  next
    case False
    then show ?thesis
      using Cons merge_log_keeps [of w "xs @ [w]" zs] same_refl
      by (auto simp: case_prod_unfold)
  qed
qed simp

lemma merge_log_idle:
  "(\<And>z. z \<in> set zs \<Longrightarrow> \<exists>y \<in> set xs. same y z) \<Longrightarrow> merge_log same xs zs = (xs, 0)"
  by (induction zs) auto

lemma merge_log_again:
  "merge_log same (fst (merge_log same xs zs)) zs = (fst (merge_log same xs zs), 0)"
  by (rule merge_log_idle) (rule merge_log_covers)

lemma merge_log_distinct:
  assumes "sorted_wrt (\<lambda>x y. \<not> same x y) xs"
  shows "sorted_wrt (\<lambda>x y. \<not> same x y) (fst (merge_log same xs zs))"
  using assms by (induction zs arbitrary: xs) (auto simp: case_prod_unfold sorted_wrt_append)

lemma push_new_distinct:
  "sorted_wrt (\<lambda>x y. \<not> same x y) xs \<Longrightarrow> sorted_wrt (\<lambda>x y. \<not> same x y) (push_new same x xs)"
  by (auto simp: push_new_def sorted_wrt_append)

lemma fold_push_new_distinct:
  "sorted_wrt (\<lambda>x y. \<not> same x y) xs \<Longrightarrow>
   sorted_wrt (\<lambda>x y. \<not> same x y) (fold (push_new same) zs xs)"
  by (induction zs arbitrary: xs) (simp_all add: push_new_distinct)

lemma fold_push_new_keeps: "\<exists>ys. fold (push_new same) zs xs = xs @ ys \<and> set ys \<subseteq> set zs"
proof (induction zs arbitrary: xs)
  case (Cons z zs)
  show ?case
  proof (cases "\<exists>y \<in> set xs. same y z")
    case True
    with Cons [of xs] show ?thesis by (auto simp: push_new_def)
  next
    case False
    obtain ys where "fold (push_new same) zs (xs @ [z]) = (xs @ [z]) @ ys" "set ys \<subseteq> set zs"
      using Cons [of "xs @ [z]"] by auto
    moreover have "push_new same z xs = xs @ [z]" using False by (simp add: push_new_def)
    ultimately show ?thesis by (auto intro!: exI [of _ "z # ys"])
  qed
qed simp

lemma fold_push_new_covers:
  "z \<in> set zs \<Longrightarrow> \<exists>y \<in> set (fold (push_new same) zs xs). same y z"
proof (induction zs arbitrary: xs)
  case (Cons w zs)
  have "\<exists>y \<in> set (push_new same w xs). same y w"
    using same_refl by (auto simp: push_new_def)
  then obtain y where y: "y \<in> set (push_new same w xs)" "same y w" by blast
  obtain ys where ys: "fold (push_new same) zs (push_new same w xs) = push_new same w xs @ ys"
    using fold_push_new_keeps by blast
  show ?case
  proof (cases "z = w")
    case True
    with y ys show ?thesis by auto
  next
    case False
    with Cons show ?thesis by simp
  qed
qed simp

end

section \<open>BTreeMap\<close>

text \<open>
  An ordered map is the list of its entries in iteration order. Every operation keeps the keys
  strictly ascending, so that iteration order is key order as in \<open>std::collections::BTreeMap\<close>.
\<close>

type_synonym ('k, 'v) btree_map = "('k \<times> 'v) list"

definition bt_get :: "('k, 'v) btree_map \<Rightarrow> 'k \<Rightarrow> 'v option" where
  "bt_get m k = map_of m k"

definition bt_insert :: "'k::linorder \<Rightarrow> 'v \<Rightarrow> ('k, 'v) btree_map \<Rightarrow> ('k, 'v) btree_map" where
  "bt_insert k v m = filter (\<lambda>e. fst e < k) m @ (k, v) # filter (\<lambda>e. k < fst e) m"

definition bt_remove :: "'k \<Rightarrow> ('k, 'v) btree_map \<Rightarrow> ('k, 'v) btree_map" where
  "bt_remove k m = filter (\<lambda>e. fst e \<noteq> k) m"

definition bt_modify :: "'k \<Rightarrow> ('v \<Rightarrow> 'v) \<Rightarrow> ('k, 'v) btree_map \<Rightarrow> ('k, 'v) btree_map" where
  "bt_modify k f m = map (\<lambda>e. if fst e = k then (k, f (snd e)) else e) m"

definition bt_keys :: "('k, 'v) btree_map \<Rightarrow> 'k list" where
  "bt_keys m = map fst m"

definition bt_values :: "('k, 'v) btree_map \<Rightarrow> 'v list" where
  "bt_values m = map snd m"

definition bt_wf :: "('k::linorder, 'v) btree_map \<Rightarrow> bool" where
  "bt_wf m = sorted_wrt (<) (map fst m)"

text \<open>\<open>collect::<BTreeMap<_, _>>()\<close> and \<open>collect::<BTreeSet<_>>()\<close>.\<close>

definition bt_of_list :: "('k::linorder \<times> 'v) list \<Rightarrow> ('k, 'v) btree_map" where
  "bt_of_list es = fold (\<lambda>(k, v). bt_insert k v) es []"

definition btree_set :: "'k::linorder list \<Rightarrow> 'k list" where
  "btree_set xs = remdups_adj (sort xs)"

lemma set_btree_set [simp]: "set (btree_set xs) = set xs"
  by (simp add: btree_set_def)

lemma distinct_remdups_adj_sorted: "sorted xs \<Longrightarrow> distinct (remdups_adj xs)"
  by (induction xs rule: remdups_adj.induct) auto

lemma sorted_btree_set: "sorted_wrt (<) (btree_set xs)"
  by (simp add: btree_set_def strict_sorted_iff sorted_remdups_adj distinct_remdups_adj_sorted)

lemma bt_wf_distinct: "bt_wf m \<Longrightarrow> distinct (map fst m)"
  by (simp add: bt_wf_def strict_sorted_iff)

lemma map_of_filter_less: "map_of (filter (\<lambda>e. Q (fst e)) m) k = (if Q k then map_of m k else None)"
  by (induction m) auto

lemma bt_get_insert: "bt_get (bt_insert k v m) j = (if j = k then Some v else bt_get m j)"
  using map_of_filter_less [of "\<lambda>x. x < k" m j] map_of_filter_less [of "\<lambda>x. k < x" m j]
  by (auto simp: bt_get_def bt_insert_def map_add_def split: option.splits)

lemma bt_get_remove: "bt_get (bt_remove k m) j = (if j = k then None else bt_get m j)"
  using map_of_filter_less [of "\<lambda>x. x \<noteq> k" m j] by (auto simp: bt_get_def bt_remove_def)

lemma bt_get_modify: "bt_get (bt_modify k f m) j = (if j = k then map_option f (bt_get m j) else bt_get m j)"
  by (induction m) (auto simp: bt_get_def bt_modify_def)

lemma bt_wf_insert: "bt_wf m \<Longrightarrow> bt_wf (bt_insert k v m)"
  by (auto simp: bt_wf_def bt_insert_def sorted_wrt_append sorted_wrt_map
      intro: sorted_wrt_filter)

lemma bt_wf_remove: "bt_wf m \<Longrightarrow> bt_wf (bt_remove k m)"
  by (auto simp: bt_wf_def bt_remove_def sorted_wrt_map intro: sorted_wrt_filter)

lemma bt_modify_keys [simp]: "map fst (bt_modify k f m) = map fst m"
  by (induction m) (auto simp: bt_modify_def)

lemma bt_wf_modify: "bt_wf m \<Longrightarrow> bt_wf (bt_modify k f m)"
  by (simp add: bt_wf_def)

lemma bt_keys_insert: "set (bt_keys (bt_insert k v m)) = insert k (set (bt_keys m))"
  by (force simp: bt_keys_def bt_insert_def)

lemma bt_keys_remove: "set (bt_keys (bt_remove k m)) = set (bt_keys m) - {k}"
  by (auto simp: bt_keys_def bt_remove_def)

lemma bt_get_keys: "bt_get m k \<noteq> None \<longleftrightarrow> k \<in> set (bt_keys m)"
  by (simp add: bt_get_def bt_keys_def map_of_eq_None_iff)

lemma bt_mem_get: "bt_wf m \<Longrightarrow> (k, v) \<in> set m \<longleftrightarrow> bt_get m k = Some v"
  by (simp add: bt_get_def bt_wf_distinct)

text \<open>Counting entries of an ordered map after each operation.\<close>

lemma count_insert:
  assumes "bt_wf m"
  shows "length (filter P (bt_values (bt_insert k v m))) + (case bt_get m k of Some w \<Rightarrow> of_bool (P w) | None \<Rightarrow> 0)
         = length (filter P (bt_values m)) + of_bool (P v)"
  using assms
proof (induction m)
  case (Cons e m)
  obtain j w where e: "e = (j, w)" by fastforce
  have wf: "bt_wf m" and lt: "\<forall>x \<in> set m. j < fst x"
    using Cons.prems by (auto simp: bt_wf_def e)
  consider "j < k" | "j = k" | "k < j" by (rule linorder_cases)
  then show ?case
  proof cases
    case 1
    with Cons.IH [OF wf] show ?thesis
      by (cases "P v") (auto simp: bt_insert_def bt_values_def bt_get_def e split: option.splits)
  next
    case 2
    have "filter (\<lambda>x. fst x < k) m = []" "filter (\<lambda>x. k < fst x) m = m"
      using lt 2 by (auto simp: filter_empty_conv filter_id_conv)
    with 2 show ?thesis by (simp add: bt_insert_def bt_values_def bt_get_def e)
  next
    case 3
    have "filter (\<lambda>x. fst x < k) m = []" "filter (\<lambda>x. k < fst x) m = m" "map_of m k = None"
      using lt 3 by (auto simp: filter_empty_conv filter_id_conv map_of_eq_None_iff)
    with 3 show ?thesis by (simp add: bt_insert_def bt_values_def bt_get_def e)
  qed
qed (simp add: bt_insert_def bt_values_def bt_get_def)

lemma count_modify_le:
  assumes "\<And>v. P (f v) \<Longrightarrow> P v"
  shows "length (filter P (bt_values (bt_modify k f m))) \<le> length (filter P (bt_values m))"
  using assms by (induction m) (auto simp: bt_modify_def bt_values_def)

text \<open>The interface its clients use: what each operation does to every lookup, and key order.\<close>

locale ordered_map =
  fixes empty :: "'m"
    and insert :: "'k::linorder \<Rightarrow> 'v \<Rightarrow> 'm \<Rightarrow> 'm"
    and remove :: "'k \<Rightarrow> 'm \<Rightarrow> 'm"
    and get :: "'m \<Rightarrow> 'k \<Rightarrow> 'v option"
    and keys :: "'m \<Rightarrow> 'k list"
    and wf :: "'m \<Rightarrow> bool"
  assumes get_empty: "get empty k = None"
    and get_insert: "get (insert k v m) j = (if j = k then Some v else get m j)"
    and get_remove: "get (remove k m) j = (if j = k then None else get m j)"
    and wf_empty: "wf empty"
    and wf_insert: "wf m \<Longrightarrow> wf (insert k v m)"
    and wf_remove: "wf m \<Longrightarrow> wf (remove k m)"
    and set_keys: "set (keys m) = {k. get m k \<noteq> None}"
    and keys_ascending: "wf m \<Longrightarrow> sorted_wrt (<) (keys m)"
begin

text \<open>Building a map from a list: the last entry offered for a key is the one found.\<close>

lemma get_fold_insert:
  "get (fold (\<lambda>x. insert (f x) (g x)) xs m) k =
   (case find (\<lambda>x. f x = k) (rev xs) of Some x \<Rightarrow> Some (g x) | None \<Rightarrow> get m k)"
  by (induction xs arbitrary: m) (auto simp: get_insert find_append split: option.splits)

lemma wf_fold_insert: "wf m \<Longrightarrow> wf (fold (\<lambda>x. insert (f x) (g x)) xs m)"
  by (induction xs arbitrary: m) (simp_all add: wf_insert)

lemma keys_fold_insert:
  "set (keys (fold (\<lambda>x. insert (f x) (g x)) xs m)) = f ` set xs \<union> set (keys m)"
proof (induction xs arbitrary: m)
  case (Cons x xs)
  have "set (keys (insert (f x) (g x) m)) = Set.insert (f x) (set (keys m))"
    by (auto simp: set_keys get_insert)
  with Cons show ?case by auto
qed simp

lemma keys_distinct: "wf m \<Longrightarrow> distinct (keys m)"
  by (drule keys_ascending) (simp add: strict_sorted_iff)

text \<open>Two maps with the same lookups iterate over the same keys in the same order.\<close>

lemma keys_determined:
  "wf m \<Longrightarrow> wf m' \<Longrightarrow> (\<And>k. get m k = get m' k) \<Longrightarrow> keys m = keys m'"
  using keys_ascending [of m] keys_ascending [of m'] set_keys [of m] set_keys [of m']
  by (simp add: strict_sorted_equal)

lemma remove_insert_same: "wf m \<Longrightarrow> get (remove k (insert k v m)) j = get (remove k m) j"
  by (simp add: get_insert get_remove)

end

interpretation bt: ordered_map "[]" bt_insert bt_remove bt_get bt_keys bt_wf
proof unfold_locales
  show "sorted_wrt (<) (bt_keys m)" if "bt_wf m" for m :: "('a \<times> 'b) list"
    using that by (simp add: bt_wf_def bt_keys_def)
  show "set (bt_keys m) = {k. bt_get m k \<noteq> None}" for m :: "('a \<times> 'b) list"
    using bt_get_keys [of m] by blast
  show "bt_wf ([] :: ('a \<times> 'b) list)" by (simp add: bt_wf_def)
  show "bt_get [] k = None" for k :: 'a
    by (simp add: bt_get_def)
qed (simp_all add: bt_get_insert bt_get_remove bt_wf_insert bt_wf_remove)

lemmas bt_simps [simp] = bt.get_empty bt_get_insert bt_get_remove bt_get_modify bt.wf_empty
lemmas bt_intros [intro] = bt_wf_insert bt_wf_remove bt_wf_modify

end
