(* ===== verification/Quip_Model.thy ===== *)
theory Quip_Model
  imports Quip_Prelude
begin

text \<open>
  The crate \<open>model\<close>: peer, network, content and protocol identifiers, traffic classes and path
  kinds. The hash, the multiformat varint and the base32 codec are third-party code; they are
  the fields of a record of parameters, and what the identifiers rely on of them is stated as
  predicates on that record.
\<close>

section \<open>Third-party codecs\<close>

record codecs =
  blake3 :: "bytes \<Rightarrow> bytes"
  varint_u64 :: "u64 \<Rightarrow> bytes"
  base32_encode :: "bytes \<Rightarrow> string"
  base32_decode :: "string \<Rightarrow> (bytes, string) result"

text \<open>\<open>BASE32_NOPAD\<close> decodes what it encodes and writes no lower-case letter.\<close>

definition base32_ok :: "'x codecs_scheme \<Rightarrow> bool" where
  "base32_ok X \<longleftrightarrow>
     (\<forall>bs. base32_decode X (base32_encode X bs) = Ok bs) \<and>
     (\<forall>bs. \<forall>c \<in> set (base32_encode X bs). \<not> (97 \<le> (of_char c :: nat) \<and> (of_char c :: nat) \<le> 122))"

text \<open>An unsigned varint is self-delimiting.\<close>

definition varint_ok :: "'x codecs_scheme \<Rightarrow> bool" where
  "varint_ok X \<longleftrightarrow>
     (\<forall>m n xs ys. varint_u64 X m @ xs = varint_u64 X n @ ys \<longrightarrow> m = n \<and> xs = ys)"

section \<open>Identifiers\<close>

datatype key_algorithm = Ed25519 | X25519

definition codec :: "key_algorithm \<Rightarrow> u64" where
  "codec a = (case a of Ed25519 \<Rightarrow> 0xED | X25519 \<Rightarrow> 0xEC)"

datatype type_error =
    InvalidPeerIdPrefix
  | InvalidPeerIdEncoding string
  | InvalidProtocolId

definition type_error_text :: "type_error \<Rightarrow> string" where
  "type_error_text e = (case e of
     InvalidPeerIdPrefix \<Rightarrow> ''peer id text prefix is invalid''
   | InvalidPeerIdEncoding s \<Rightarrow> ''peer id encoding is invalid: '' @ s
   | InvalidProtocolId \<Rightarrow>
       ''protocol id must start with '' @ [CHR 0x27] @ ''/'' @ [CHR 0x27] @
       '' and contain at least one namespace'')"

datatype peer_id = PeerId bytes
datatype network_id = NetworkId bytes
datatype content_id = ContentId bytes
datatype protocol_id = ProtocolId string
datatype record_namespace = RecordNamespace string

text \<open>The derived orders: \<open>BTreeMap\<close>s are keyed by peer identifiers, sets by protocols.\<close>

instantiation peer_id :: linorder
begin
fun less_eq_peer_id :: "peer_id \<Rightarrow> peer_id \<Rightarrow> bool" where
  "PeerId a \<le> PeerId b \<longleftrightarrow> a \<le> b"
fun less_peer_id :: "peer_id \<Rightarrow> peer_id \<Rightarrow> bool" where
  "PeerId a < PeerId b \<longleftrightarrow> a < b"
instance
proof
  fix x y z :: peer_id
  show "(x < y) = (x \<le> y \<and> \<not> y \<le> x)" by (cases x; cases y) auto
  show "x \<le> x" by (cases x) auto
  show "x \<le> y \<Longrightarrow> y \<le> z \<Longrightarrow> x \<le> z" by (cases x; cases y; cases z) auto
  show "x \<le> y \<Longrightarrow> y \<le> x \<Longrightarrow> x = y" by (cases x; cases y) auto
  show "x \<le> y \<or> y \<le> x" by (cases x; cases y) auto
qed
end

instantiation protocol_id :: linorder
begin
fun less_eq_protocol_id :: "protocol_id \<Rightarrow> protocol_id \<Rightarrow> bool" where
  "ProtocolId a \<le> ProtocolId b \<longleftrightarrow> a \<le> b"
fun less_protocol_id :: "protocol_id \<Rightarrow> protocol_id \<Rightarrow> bool" where
  "ProtocolId a < ProtocolId b \<longleftrightarrow> a < b"
instance
proof
  fix x y z :: protocol_id
  show "(x < y) = (x \<le> y \<and> \<not> y \<le> x)" by (cases x; cases y) auto
  show "x \<le> x" by (cases x) auto
  show "x \<le> y \<Longrightarrow> y \<le> z \<Longrightarrow> x \<le> z" by (cases x; cases y; cases z) auto
  show "x \<le> y \<Longrightarrow> y \<le> x \<Longrightarrow> x = y" by (cases x; cases y) auto
  show "x \<le> y \<or> y \<le> x" by (cases x; cases y) auto
qed
end

definition NETWORK_ID_DOMAIN :: bytes where
  "NETWORK_ID_DOMAIN = as_bytes ''quip:network-id:v1''"

definition CONTENT_ID_DOMAIN :: bytes where
  "CONTENT_ID_DOMAIN = as_bytes ''quip:content-id:v1''"

definition BLAKE3_256_MULTIHASH_CODE :: u64 where
  "BLAKE3_256_MULTIHASH_CODE = 0x1E"

definition encode_multihash :: "'x codecs_scheme \<Rightarrow> bytes \<Rightarrow> bytes" where
  "encode_multihash X payload =
     (let digest = blake3 X payload;
          code = varint_u64 X BLAKE3_256_MULTIHASH_CODE;
          size = varint_u64 X (word_of_nat (length digest))
      in code @ size @ digest)"

definition PeerId_from_public_key :: "'x codecs_scheme \<Rightarrow> key_algorithm \<Rightarrow> bytes \<Rightarrow> peer_id" where
  "PeerId_from_public_key X algorithm public_key =
     (let codec_bytes = varint_u64 X (codec algorithm);
          multihash = encode_multihash X public_key
      in PeerId (codec_bytes @ multihash))"

definition PeerId_as_bytes :: "peer_id \<Rightarrow> bytes" where
  "PeerId_as_bytes p = (case p of PeerId bs \<Rightarrow> bs)"

definition PeerId_to_text :: "'x codecs_scheme \<Rightarrow> peer_id \<Rightarrow> string" where
  "PeerId_to_text X p = ''peer1'' @ map ascii_lower (base32_encode X (PeerId_as_bytes p))"

definition PeerId_from_str :: "'x codecs_scheme \<Rightarrow> string \<Rightarrow> (peer_id, type_error) result" where
  "PeerId_from_str X value =
     (case strip_prefix ''peer1'' value of
        None \<Rightarrow> Err InvalidPeerIdPrefix
      | Some encoded \<Rightarrow>
          (case base32_decode X (map ascii_upper encoded) of
             Err e \<Rightarrow> Err (InvalidPeerIdEncoding e)
           | Ok bs \<Rightarrow> Ok (PeerId bs)))"

definition NetworkId_derive :: "'x codecs_scheme \<Rightarrow> string \<Rightarrow> network_id" where
  "NetworkId_derive X scope = NetworkId (blake3 X (NETWORK_ID_DOMAIN @ as_bytes scope))"

definition NetworkId_to_text :: "'x codecs_scheme \<Rightarrow> network_id \<Rightarrow> string" where
  "NetworkId_to_text X n =
     (case n of NetworkId bs \<Rightarrow> ''net1'' @ map ascii_lower (base32_encode X bs))"

definition ContentId_hash :: "'x codecs_scheme \<Rightarrow> bytes \<Rightarrow> content_id" where
  "ContentId_hash X content = ContentId (blake3 X (CONTENT_ID_DOMAIN @ content))"

definition ContentId_display :: "'x codecs_scheme \<Rightarrow> content_id \<Rightarrow> string" where
  "ContentId_display X c = (case c of ContentId bs \<Rightarrow> map ascii_lower (base32_encode X bs))"

definition ProtocolId_new :: "string \<Rightarrow> (protocol_id, type_error) result" where
  "ProtocolId_new value =
     (if \<not> starts_with ''/'' value \<or> count_char (CHR ''/'') value < 2 then Err InvalidProtocolId
      else Ok (ProtocolId value))"

definition ProtocolId_as_str :: "protocol_id \<Rightarrow> string" where
  "ProtocolId_as_str p = (case p of ProtocolId s \<Rightarrow> s)"

lemma ProtocolId_as_str_simp [simp]: "ProtocolId_as_str (ProtocolId s) = s"
  by (simp add: ProtocolId_as_str_def)

lemma PeerId_as_bytes_simp [simp]: "PeerId_as_bytes (PeerId bs) = bs"
  by (simp add: PeerId_as_bytes_def)

section \<open>Traffic classes, paths and peer views\<close>

datatype traffic_class = Control | Interactive | Bulk | Background

datatype path_kind = DirectUdp | DirectIpv6 | Relay | Loopback | Lan

definition traffic_class_debug :: "traffic_class \<Rightarrow> string" where
  "traffic_class_debug c = (case c of
     Control \<Rightarrow> ''Control'' | Interactive \<Rightarrow> ''Interactive'' | Bulk \<Rightarrow> ''Bulk''
   | Background \<Rightarrow> ''Background'')"

definition path_kind_debug :: "path_kind \<Rightarrow> string" where
  "path_kind_debug k = (case k of
     DirectUdp \<Rightarrow> ''DirectUdp'' | DirectIpv6 \<Rightarrow> ''DirectIpv6'' | Relay \<Rightarrow> ''Relay''
   | Loopback \<Rightarrow> ''Loopback'' | Lan \<Rightarrow> ''Lan'')"

section \<open>Laws of the identifiers\<close>

lemma map_upper_lower:
  "(\<forall>c \<in> set s. \<not> (97 \<le> (of_char c :: nat) \<and> (of_char c :: nat) \<le> 122)) \<Longrightarrow>
   map ascii_upper (map ascii_lower s) = s"
  by (induction s) (auto intro: ascii_upper_lower)

lemma PeerId_text_parse:
  assumes "base32_ok X"
  shows "PeerId_from_str X (PeerId_to_text X p) = Ok p"
proof -
  let ?e = "base32_encode X (PeerId_as_bytes p)"
  from assms have "map ascii_upper (map ascii_lower ?e) = ?e"
    by (intro map_upper_lower) (simp add: base32_ok_def)
  moreover from assms have "base32_decode X ?e = Ok (PeerId_as_bytes p)"
    by (simp add: base32_ok_def)
  ultimately show ?thesis
    unfolding PeerId_from_str_def PeerId_to_text_def strip_prefix_append
    by (cases p) (simp del: map_map)
qed

lemma PeerId_to_text_inj: "base32_ok X \<Longrightarrow> PeerId_to_text X p = PeerId_to_text X q \<Longrightarrow> p = q"
  by (metis PeerId_text_parse result.inject(1))

lemma codec_inj: "codec a = codec b \<Longrightarrow> a = b"
  by (cases a; cases b) (simp_all add: codec_def)

lemma PeerId_from_public_key_eq:
  assumes "varint_ok X"
  shows "PeerId_from_public_key X a k = PeerId_from_public_key X b l \<longleftrightarrow>
         a = b \<and> blake3 X k = blake3 X l"
proof
  assume eq: "PeerId_from_public_key X a k = PeerId_from_public_key X b l"
  have split: "m = n \<and> xs = ys" if "varint_u64 X m @ xs = varint_u64 X n @ ys" for m n xs ys
    using assms that by (simp add: varint_ok_def)
  from eq have "codec a = codec b" and mh: "encode_multihash X k = encode_multihash X l"
    by (auto simp: PeerId_from_public_key_def dest: split)
  from mh have "blake3 X k = blake3 X l"
    by (auto simp: encode_multihash_def Let_def dest!: split)
  with codec_inj [OF \<open>codec a = codec b\<close>] show "a = b \<and> blake3 X k = blake3 X l" by simp
qed (simp add: PeerId_from_public_key_def encode_multihash_def)

lemma ProtocolId_new_Ok:
  "ProtocolId_new s = Ok p \<longleftrightarrow>
   p = ProtocolId s \<and> (\<exists>a b. s = CHR ''/'' # a @ CHR ''/'' # b)"
proof -
  have "starts_with ''/'' s \<and> 2 \<le> count_char (CHR ''/'') s \<longleftrightarrow>
        (\<exists>a b. s = CHR ''/'' # a @ CHR ''/'' # b)"
  proof (cases s)
    case (Cons x t)
    have "0 < count_char (CHR ''/'') t \<longleftrightarrow> CHR ''/'' \<in> set t"
      by (auto simp: count_char_def length_greater_0_conv filter_empty_conv)
    moreover have "CHR ''/'' \<in> set t \<longleftrightarrow> (\<exists>a b. t = a @ CHR ''/'' # b)"
      by (metis in_set_conv_decomp)
    ultimately show ?thesis
      using Cons by (auto simp: starts_with_def count_char_def)
  qed (simp add: starts_with_def)
  then show ?thesis by (auto simp: ProtocolId_new_def not_less)
qed

end
