(* ===== verification/Quip_Crypto.thy ===== *)
theory Quip_Crypto
  imports Quip_Model
begin

text \<open>
  The crate \<open>crypto\<close>: identity keys, signatures, session keys and key derivation. Ed25519,
  X25519 and HKDF are third-party code and parameters of the model; the checks the crate makes
  around them (key and signature lengths, the order of the errors) are modelled as written.
\<close>

record primitives = codecs +
  ed_public :: "bytes \<Rightarrow> bytes"                     \<comment> \<open>verifying key of a secret\<close>
  ed_sign :: "bytes \<Rightarrow> bytes \<Rightarrow> bytes"              \<comment> \<open>secret, payload\<close>
  ed_key_valid :: "bytes \<Rightarrow> bool"                   \<comment> \<open>\<open>VerifyingKey::from_bytes\<close> succeeds\<close>
  ed_verify :: "bytes \<Rightarrow> bytes \<Rightarrow> bytes \<Rightarrow> bool"    \<comment> \<open>key, payload, signature\<close>
  x_public :: "bytes \<Rightarrow> bytes"
  x_dh :: "bytes \<Rightarrow> bytes \<Rightarrow> bytes"                 \<comment> \<open>own secret, remote public key\<close>
  hkdf_sha256 :: "bytes \<Rightarrow> bytes \<Rightarrow> bytes option"   \<comment> \<open>key material, info; 32 bytes\<close>

text \<open>What Ed25519 and X25519 document: keys and signatures have their sizes, an own signature
  verifies, and both ends of a key agreement compute the same secret.\<close>

definition ed25519_ok :: "'a primitives_scheme \<Rightarrow> bool" where
  "ed25519_ok X \<longleftrightarrow> (\<forall>sk. length (ed_public X sk) = 32 \<and> ed_key_valid X (ed_public X sk) \<and>
     (\<forall>m. length (ed_sign X sk m) = 64 \<and> ed_verify X (ed_public X sk) m (ed_sign X sk m)))"

definition x25519_ok :: "'a primitives_scheme \<Rightarrow> bool" where
  "x25519_ok X \<longleftrightarrow> (\<forall>a b. x_dh X a (x_public X b) = x_dh X b (x_public X a))"

datatype crypto_error =
    CE_InvalidSignature
  | InvalidPublicKey
  | InvalidKeyMaterial
  | KeyDerivationFailed

record public_identity_key =
  pk_algorithm :: key_algorithm
  pk_bytes :: bytes

datatype identity_keypair = IdentityKeypair (signing_key: bytes)
datatype signature_bytes = SignatureBytes bytes
datatype session_keypair = SessionKeypair (session_secret: bytes) (session_public: bytes)

definition as_verifying_key :: "'a primitives_scheme \<Rightarrow> public_identity_key \<Rightarrow> (bytes, crypto_error) result" where
  "as_verifying_key X k =
     (if length (pk_bytes k) \<noteq> 32 then Err InvalidPublicKey
      else if \<not> ed_key_valid X (pk_bytes k) then Err InvalidPublicKey
      else Ok (pk_bytes k))"

definition PublicIdentityKey_peer_id :: "'a primitives_scheme \<Rightarrow> public_identity_key \<Rightarrow> peer_id" where
  "PublicIdentityKey_peer_id X k =
     PeerId_from_public_key X (pk_algorithm k) (pk_bytes k)"

definition from_secret_bytes :: "bytes \<Rightarrow> identity_keypair" where
  "from_secret_bytes bs = IdentityKeypair bs"

definition public_key :: "'a primitives_scheme \<Rightarrow> identity_keypair \<Rightarrow> public_identity_key" where
  "public_key X kp = \<lparr>pk_algorithm = Ed25519, pk_bytes = ed_public X (signing_key kp)\<rparr>"

definition IdentityKeypair_peer_id :: "'a primitives_scheme \<Rightarrow> identity_keypair \<Rightarrow> peer_id" where
  "IdentityKeypair_peer_id X kp = PublicIdentityKey_peer_id X (public_key X kp)"

definition IdentityKeypair_sign :: "'a primitives_scheme \<Rightarrow> identity_keypair \<Rightarrow> bytes \<Rightarrow> signature_bytes" where
  "IdentityKeypair_sign X kp payload = SignatureBytes (ed_sign X (signing_key kp) payload)"

definition secret_bytes :: "identity_keypair \<Rightarrow> bytes" where
  "secret_bytes kp = signing_key kp"

definition SignatureBytes_verify ::
  "'a primitives_scheme \<Rightarrow> signature_bytes \<Rightarrow> public_identity_key \<Rightarrow> bytes \<Rightarrow> (unit, crypto_error) result" where
  "SignatureBytes_verify X sig k payload =
     (case sig of SignatureBytes bs \<Rightarrow>
        if length bs \<noteq> 64 then Err CE_InvalidSignature
        else case as_verifying_key X k of
               Err e \<Rightarrow> Err e
             | Ok vk \<Rightarrow> if ed_verify X vk payload bs then Ok () else Err CE_InvalidSignature)"

definition SignatureBytes_display :: "signature_bytes \<Rightarrow> string" where
  "SignatureBytes_display sig = (case sig of SignatureBytes bs \<Rightarrow> hex_bytes bs)"

definition SessionKeypair_generate :: "'a primitives_scheme \<Rightarrow> bytes \<Rightarrow> session_keypair" where
  "SessionKeypair_generate X secret = SessionKeypair secret (x_public X secret)"

definition derive_shared_secret ::
  "'a primitives_scheme \<Rightarrow> session_keypair \<Rightarrow> bytes \<Rightarrow> bytes \<Rightarrow> (bytes, crypto_error) result" where
  "derive_shared_secret X kp remote_public_key info =
     (case hkdf_sha256 X (x_dh X (session_secret kp) remote_public_key) info of
        None \<Rightarrow> Err KeyDerivationFailed
      | Some output \<Rightarrow> Ok output)"

definition hash_bytes :: "'a codecs_scheme \<Rightarrow> bytes \<Rightarrow> bytes" where
  "hash_bytes X payload = blake3 X payload"

definition hkdf_derive :: "'a primitives_scheme \<Rightarrow> bytes \<Rightarrow> bytes \<Rightarrow> (bytes, crypto_error) result" where
  "hkdf_derive X secret ctx =
     (case hkdf_sha256 X secret ctx of None \<Rightarrow> Err KeyDerivationFailed | Some output \<Rightarrow> Ok output)"

lemma SignatureBytes_verify_Ok:
  "SignatureBytes_verify X (SignatureBytes bs) k m = Ok u \<longleftrightarrow>
   length bs = 64 \<and> length (pk_bytes k) = 32 \<and> ed_key_valid X (pk_bytes k) \<and>
   ed_verify X (pk_bytes k) m bs"
  by (auto simp: SignatureBytes_verify_def as_verifying_key_def split: if_splits result.splits)

lemma sign_verify:
  "ed25519_ok X \<Longrightarrow>
   SignatureBytes_verify X (IdentityKeypair_sign X kp m) (public_key X kp) m = Ok ()"
  by (simp add: IdentityKeypair_sign_def SignatureBytes_verify_Ok public_key_def ed25519_ok_def)

lemma key_agreement:
  assumes "x25519_ok X"
  shows "derive_shared_secret X (SessionKeypair_generate X a)
           (session_public (SessionKeypair_generate X b)) info =
         derive_shared_secret X (SessionKeypair_generate X b)
           (session_public (SessionKeypair_generate X a)) info"
  using assms by (simp add: derive_shared_secret_def SessionKeypair_generate_def x25519_ok_def)

lemma peer_id_tracks_public_key:
  "IdentityKeypair_peer_id X kp =
   PeerId_from_public_key X Ed25519 (ed_public X (signing_key kp))"
  by (simp add: IdentityKeypair_peer_id_def PublicIdentityKey_peer_id_def public_key_def)

section \<open>A concrete instance of the parameters\<close>

text \<open>
  A small executable instance that satisfies the assumptions above. It shows that they can hold
  together and lets the theorems be applied at concrete inputs. The varint is the LEB128 format
  of \<open>unsigned-varint\<close>; the other functions stand for the real algorithms.
\<close>

fun leb128 :: "nat \<Rightarrow> bytes" where
  "leb128 n = (if n < 128 then [word_of_nat n] else word_of_nat (128 + n mod 128) # leb128 (n div 128))"

declare leb128.simps [simp del]

definition nibble_text :: "bytes \<Rightarrow> string" where
  "nibble_text bs = concat (map (\<lambda>b. [char_of (65 + unat b div 16), char_of (65 + unat b mod 16)]) bs)"

fun text_nibbles :: "string \<Rightarrow> (bytes, string) result" where
  "text_nibbles [] = Ok []"
| "text_nibbles [c] = Err ''odd length''"
| "text_nibbles (c # d # s) =
     (case text_nibbles s of
        Err e \<Rightarrow> Err e
      | Ok bs \<Rightarrow> Ok (word_of_nat (16 * (of_char c - 65) + (of_char d - 65)) # bs))"

definition pad_to :: "nat \<Rightarrow> bytes \<Rightarrow> bytes" where
  "pad_to n bs = take n (bs @ replicate n 0)"

definition sample_codecs :: codecs where
  "sample_codecs = \<lparr>
     blake3 = pad_to 32 \<circ> (\<lambda>bs. word_of_nat (length bs) # rev bs),
     varint_u64 = (\<lambda>n. leb128 (unat n)),
     base32_encode = nibble_text,
     base32_decode = text_nibbles\<rparr>"

definition sample_primitives :: "'a \<Rightarrow> 'a primitives_scheme" where
  "sample_primitives rest = \<lparr>
     blake3 = pad_to 32 \<circ> (\<lambda>bs. word_of_nat (length bs) # rev bs),
     varint_u64 = (\<lambda>n. leb128 (unat n)),
     base32_encode = nibble_text,
     base32_decode = text_nibbles,
     ed_public = pad_to 32,
     ed_sign = (\<lambda>sk m. pad_to 64 (pad_to 32 sk @ m)),
     ed_key_valid = (\<lambda>_. True),
     ed_verify = (\<lambda>pk m s. s = pad_to 64 (pad_to 32 pk @ m)),
     x_public = (\<lambda>sk. map ((*) 3) sk),
     x_dh = (\<lambda>sk pk. map2 (*) sk pk),
     hkdf_sha256 = (\<lambda>k info. Some (pad_to 32 (k @ info))),
     \<dots> = rest\<rparr>"

lemma length_pad_to [simp]: "length (pad_to n bs) = n"
  by (simp add: pad_to_def)

lemma pad_to_pad_to [simp]: "pad_to n (pad_to n bs) = pad_to n bs"
  by (simp add: pad_to_def)

lemma leb128_byte: "k < 256 \<Longrightarrow> unat (word_of_nat k :: u8) = k"
  by (simp add: unat_of_nat take_bit_nat_eq_self)

text \<open>The head of an encoding tells whether it ends there.\<close>

lemma unat_hd_leb128: "unat (hd (leb128 n)) = (if n < 128 then n else 128 + n mod 128)"
proof -
  have "128 + n mod 128 < 256" by simp
  then have "unat (word_of_nat (128 + n mod 128) :: u8) = 128 + n mod 128" by (rule leb128_byte)
  then show ?thesis
    unfolding leb128.simps [of n] by (cases "n < 128") (simp_all add: leb128_byte)
qed

lemma leb128_Cons: "leb128 n = hd (leb128 n) # (if n < 128 then [] else leb128 (n div 128))"
  by (simp add: leb128.simps [of n])

lemma leb128_prefix_free:
  "leb128 m @ xs = leb128 n @ ys \<Longrightarrow> m = n \<and> xs = ys"
proof (induction m arbitrary: n rule: leb128.induct)
  case (1 m)
  have "hd (leb128 m) # (if m < 128 then [] else leb128 (m div 128)) @ xs =
        hd (leb128 n) # (if n < 128 then [] else leb128 (n div 128)) @ ys"
    using "1.prems" leb128_Cons [of m] leb128_Cons [of n] by (metis append_Cons)
  then have hd: "unat (hd (leb128 m)) = unat (hd (leb128 n))"
    and r: "(if m < 128 then [] else leb128 (m div 128)) @ xs =
            (if n < 128 then [] else leb128 (n div 128)) @ ys" by simp_all
  show ?case
  proof (cases "m < 128")
    case True
    with hd r show ?thesis by (auto simp: unat_hd_leb128 split: if_splits)
  next
    case False
    with hd have n: "\<not> n < 128" "m mod 128 = n mod 128"
      by (auto simp: unat_hd_leb128 split: if_splits)
    with "1.IH" [OF False, of "n div 128"] r False have "m div 128 = n div 128 \<and> xs = ys" by simp
    with n show ?thesis by (metis mult_div_mod_eq)
  qed
qed

lemma text_nibbles_inverse: "text_nibbles (nibble_text bs) = Ok bs"
proof (induction bs)
  case (Cons b bs)
  have b: "unat b < 256" using unsigned_less [of b] by simp
  then have "(of_char (char_of (65 + unat b div 16) :: char) :: nat) = 65 + unat b div 16"
    "(of_char (char_of (65 + unat b mod 16) :: char) :: nat) = 65 + unat b mod 16"
    by simp_all
  with Cons show ?case by (simp add: nibble_text_def)
qed (simp add: nibble_text_def)

lemma nibble_text_upper:
  "c \<in> set (nibble_text bs) \<Longrightarrow> \<not> (97 \<le> (of_char c :: nat) \<and> (of_char c :: nat) \<le> 122)"
proof (induction bs)
  case (Cons b bs)
  have "unat b < 256" using unsigned_less [of b] by simp
  then have "unat b div 16 < 16" "unat b mod 16 < 16" by simp_all
  with Cons show ?case by (auto simp: nibble_text_def)
qed (simp add: nibble_text_def)

lemma sample_base32_ok: "base32_ok (sample_primitives rest)"
  by (auto simp: base32_ok_def sample_primitives_def text_nibbles_inverse dest: nibble_text_upper)

lemma sample_varint_ok: "varint_ok (sample_primitives rest)"
proof -
  have "m = n \<and> xs = ys" if "leb128 (unat m) @ xs = leb128 (unat n) @ ys" for m n :: u64 and xs ys
    using leb128_prefix_free [OF that] by (simp add: word_unat_eq_iff)
  then show ?thesis unfolding varint_ok_def by (simp add: sample_primitives_def)
qed

lemma sample_ed25519_ok: "ed25519_ok (sample_primitives rest)"
  by (simp add: ed25519_ok_def sample_primitives_def)

lemma sample_x25519_ok: "x25519_ok (sample_primitives rest)"
proof -
  have "map2 (*) a (map ((*) 3) b) = map2 (*) b (map ((*) 3) a)" for a b :: bytes
    by (induction a arbitrary: b; case_tac b) (auto simp: mult_ac)
  then show ?thesis by (simp add: x25519_ok_def sample_primitives_def)
qed

lemmas sample_ok = sample_base32_ok sample_varint_ok sample_ed25519_ok sample_x25519_ok

section \<open>Identity of peers\<close>

text \<open>The textual peer identifier is faithful: it parses back to the identifier it prints, and two
  keys print alike exactly when algorithm and key hash agree.\<close>

theorem peer_id_text_faithful:
  assumes "base32_ok X" and "varint_ok X"
  shows "PeerId_from_str X (PeerId_to_text X p) = Ok p \<and>
         (PeerId_to_text X (PeerId_from_public_key X a k) = PeerId_to_text X (PeerId_from_public_key X b l)
          \<longleftrightarrow> a = b \<and> blake3 X k = blake3 X l)"
proof -
  have "PeerId_to_text X (PeerId_from_public_key X a k) = PeerId_to_text X (PeerId_from_public_key X b l)
        \<longleftrightarrow> PeerId_from_public_key X a k = PeerId_from_public_key X b l"
    using PeerId_to_text_inj [OF assms(1)] by auto
  then show ?thesis
    using PeerId_text_parse [OF assms(1), of p] PeerId_from_public_key_eq [OF assms(2), of a k b l]
    by simp
qed

theorem peer_id_text_faithful_witness:
  "PeerId_from_str (sample_primitives ()) (PeerId_to_text (sample_primitives ()) (PeerId [1, 255])) = Ok (PeerId [1, 255])"
  by (rule peer_id_text_faithful [OF sample_base32_ok sample_varint_ok, THEN conjunct1])

text \<open>A signature made with an identity key verifies under the public key whose hash is the peer
  identifier of that identity, and two session keys agree on the derived secret.\<close>

theorem identity_signs_and_agrees:
  assumes "ed25519_ok X" and "x25519_ok X"
  shows "SignatureBytes_verify X (IdentityKeypair_sign X kp m) (public_key X kp) m = Ok () \<and>
         PublicIdentityKey_peer_id X (public_key X kp) = IdentityKeypair_peer_id X kp \<and>
         derive_shared_secret X (SessionKeypair_generate X a)
           (session_public (SessionKeypair_generate X b)) info =
         derive_shared_secret X (SessionKeypair_generate X b)
           (session_public (SessionKeypair_generate X a)) info"
  using sign_verify [OF assms(1)] key_agreement [OF assms(2)]
  by (simp add: IdentityKeypair_peer_id_def)

theorem identity_signs_and_agrees_witness:
  "SignatureBytes_verify (sample_primitives ()) (IdentityKeypair_sign (sample_primitives ()) (IdentityKeypair [1]) [2])
     (public_key (sample_primitives ()) (IdentityKeypair [1])) [2] = Ok ()"
  by (rule identity_signs_and_agrees [OF sample_ed25519_ok sample_x25519_ok, THEN conjunct1])

end
