(* ===== verification/Quip_Files.thy ===== *)
theory Quip_Files
  imports Quip_Prelude
begin

text \<open>
  The file operations of the standard library the sources use, on a store of files by path. A path
  may be refused altogether (permissions, a missing parent): every access returns the error of the
  store. Or its disk may have room for so many bytes only: \<open>std::fs::write\<close> truncates the file
  when it opens it and then writes, so that a content that does not fit leaves the file with the
  part that did.
\<close>

datatype fs_fault =
    Refused string
  | Room nat string

record filesystem =
  fs_files :: "string \<rightharpoonup> bytes"
  fs_fault :: "string \<Rightarrow> fs_fault option"

definition fs_refusal :: "filesystem \<Rightarrow> string \<Rightarrow> string option" where
  "fs_refusal fs path = (case fs_fault fs path of Some (Refused e) \<Rightarrow> Some e | _ \<Rightarrow> None)"

definition fs_read :: "filesystem \<Rightarrow> string \<Rightarrow> (bytes, string) result" where
  "fs_read fs path =
     (case fs_refusal fs path of
        Some e \<Rightarrow> Err e
      | None \<Rightarrow> (case fs_files fs path of
                   None \<Rightarrow> Err ''No such file or directory (os error 2)''
                 | Some content \<Rightarrow> Ok content))"

definition fs_write :: "filesystem \<Rightarrow> string \<Rightarrow> bytes \<Rightarrow> (unit, string) result \<times> filesystem" where
  "fs_write fs path content =
     (case fs_fault fs path of
        Some (Refused e) \<Rightarrow> (Err e, fs)
      | Some (Room n e) \<Rightarrow>
          (if n < length content then Err e else Ok (), fs\<lparr>fs_files := (fs_files fs)(path \<mapsto> take n content)\<rparr>)
      | None \<Rightarrow> (Ok (), fs\<lparr>fs_files := (fs_files fs)(path \<mapsto> content)\<rparr>))"

text \<open>\<open>Path::exists\<close> is false when the path cannot be read.\<close>

definition fs_exists :: "filesystem \<Rightarrow> string \<Rightarrow> bool" where
  "fs_exists fs path = (fs_refusal fs path = None \<and> fs_files fs path \<noteq> None)"

text \<open>\<open>Path::parent\<close>, and \<open>create_dir_all\<close> of it: creating directories changes no file and fails when the
  directory cannot be accessed. The empty path needs no directory.\<close>

definition parent_dir :: "string \<Rightarrow> string option" where
  "parent_dir path =
     (let q = trim_end_matches (CHR ''/'') path
      in if q = [] then None
         else let d = rev (dropWhile (\<lambda>c. c \<noteq> CHR ''/'') (rev q)); t = trim_end_matches (CHR ''/'') d
              in Some (if d \<noteq> [] \<and> t = [] then ''/'' else t))"

definition fs_create_parent :: "filesystem \<Rightarrow> string \<Rightarrow> (unit, string) result" where
  "fs_create_parent fs path =
     (case parent_dir path of
        None \<Rightarrow> Ok ()
      | Some dir \<Rightarrow> if dir = [] then Ok () else (case fs_refusal fs dir of Some e \<Rightarrow> Err e | None \<Rightarrow> Ok ()))"

definition fs_remove :: "filesystem \<Rightarrow> string \<Rightarrow> (unit, string) result \<times> filesystem" where
  "fs_remove fs path =
     (case fs_refusal fs path of
        Some e \<Rightarrow> (Err e, fs)
      | None \<Rightarrow> (case fs_files fs path of
                   None \<Rightarrow> (Err ''No such file or directory (os error 2)'', fs)
                 | Some _ \<Rightarrow> (Ok (), fs\<lparr>fs_files := (fs_files fs)(path := None)\<rparr>)))"

lemma fs_refusal_simps [simp]:
  "fs_fault fs path = None \<Longrightarrow> fs_refusal fs path = None"
  "fs_refusal (fs\<lparr>fs_files := m\<rparr>) path = fs_refusal fs path"
  by (simp_all add: fs_refusal_def)

text \<open>What a write that fails leaves: everything as it was, or the file cut short.\<close>

definition cut_short :: "string \<Rightarrow> bytes \<Rightarrow> filesystem \<Rightarrow> filesystem \<Rightarrow> bool" where
  "cut_short path content fs fs' \<longleftrightarrow>
     (\<exists>n < length content. fs' = fs\<lparr>fs_files := (fs_files fs)(path \<mapsto> take n content)\<rparr>)"

lemma fs_write_Ok:
  "fs_write fs path content = (Ok (), fs') \<Longrightarrow>
   fs' = fs\<lparr>fs_files := (fs_files fs)(path \<mapsto> content)\<rparr> \<and> fs_refusal fs path = None"
  by (auto simp: fs_write_def fs_refusal_def split: option.splits if_splits fs_fault.splits)

lemma fs_read_write:
  assumes "fs_write fs path content = (Ok (), fs')"
  shows "fs_read fs' p = (if p = path then Ok content else fs_read fs p)"
  using fs_write_Ok [OF assms] by (auto simp: fs_read_def split: option.split)

lemma fs_write_fault:
  "fs_write fs path content = (Err e, fs') \<Longrightarrow> fs' = fs \<and> fs_refusal fs path = Some e \<or> cut_short path content fs fs'"
  by (auto simp: fs_write_def fs_refusal_def cut_short_def split: option.splits if_splits fs_fault.splits)

lemma fs_write_kept:
  assumes "fs_write fs path content = (r, fs')"
  shows "fs_fault fs' = fs_fault fs" and "p \<noteq> path \<Longrightarrow> fs_files fs' p = fs_files fs p"
    and "p \<noteq> path \<Longrightarrow> fs_read fs' p = fs_read fs p" and "fs_exists fs p \<Longrightarrow> fs_exists fs' p"
proof -
  have "fs' = fs \<or> (\<exists>c. fs' = fs\<lparr>fs_files := (fs_files fs)(path \<mapsto> c)\<rparr>)"
    using assms by (auto simp: fs_write_def split: option.splits fs_fault.splits)
  then show "fs_fault fs' = fs_fault fs" "p \<noteq> path \<Longrightarrow> fs_files fs' p = fs_files fs p"
    "p \<noteq> path \<Longrightarrow> fs_read fs' p = fs_read fs p" "fs_exists fs p \<Longrightarrow> fs_exists fs' p"
    by (auto simp: fs_read_def fs_exists_def split: option.split)
qed

end
