(* ===== verification/Quip_Wire.thy ===== *)
theory Quip_Wire
  imports Quip_Prelude
begin

text \<open>
  Self-delimiting byte formats, put together from combinators. The serializers of the sources are
  third-party code and parameters of the model, with the round trip as a named hypothesis; the
  formats here are concrete serializers that satisfy it, so that every theorem with such a
  hypothesis can be applied.
\<close>

section \<open>Byte strings and text\<close>

fun framed :: "bytes \<Rightarrow> bytes" where
  "framed [] = [0]"
| "framed (b # bs) = 1 # b # framed bs"

fun unframe :: "bytes \<Rightarrow> (bytes \<times> bytes) option" where
  "unframe [] = None"
| "unframe (t # r) =
     (if t = 0 then Some ([], r)
      else case r of
             [] \<Rightarrow> None
           | b # r' \<Rightarrow> (case unframe r' of None \<Rightarrow> None | Some (bs, q) \<Rightarrow> Some (b # bs, q)))"

definition bytes_text :: "bytes \<Rightarrow> string" where
  "bytes_text bs = map (\<lambda>b. char_of (unat b)) bs"

lemma unframe_frame [simp]: "unframe (framed bs @ r) = Some (bs, r)"
  by (induction bs) simp_all

lemma unframe_frame_end [simp]: "unframe (framed bs) = Some (bs, [])"
  using unframe_frame [of bs "[]"] by simp

lemma bytes_text_as_bytes [simp]: "bytes_text (as_bytes s) = s"
proof (induction s)
  case (Cons c s)
  have "(of_char c :: nat) < 256" by simp
  then have "unat (word_of_nat (of_char c) :: u8) = of_char c"
    by (simp add: unat_of_nat take_bit_nat_eq_self)
  with Cons show ?case by (simp add: bytes_text_def as_bytes_def)
qed (simp add: bytes_text_def as_bytes_def)

lemma as_bytes_bytes_text [simp]: "as_bytes (bytes_text bs) = bs"
proof (induction bs)
  case (Cons b bs)
  have "unat b < 256" using unsigned_less [of b] by simp
  with Cons show ?case by (simp add: bytes_text_def as_bytes_def)
qed (simp add: bytes_text_def as_bytes_def)

section \<open>Formats\<close>

record 'a wire =
  enc :: "'a \<Rightarrow> bytes"
  dec :: "bytes \<Rightarrow> ('a \<times> bytes) option"

definition wire_ok :: "'a wire \<Rightarrow> bool" where
  "wire_ok c \<longleftrightarrow> (\<forall>a r. dec c (enc c a @ r) = Some (a, r))"

definition w_bytes :: "bytes wire" where
  "w_bytes = \<lparr>enc = framed, dec = unframe\<rparr>"

definition w_iso :: "('a \<Rightarrow> 'b) \<Rightarrow> ('b \<Rightarrow> 'a) \<Rightarrow> 'b wire \<Rightarrow> 'a wire" where
  "w_iso f g c = \<lparr>enc = (\<lambda>a. enc c (f a)), dec = (\<lambda>bs. map_option (\<lambda>(b, r). (g b, r)) (dec c bs))\<rparr>"

definition w_pair :: "'a wire \<Rightarrow> 'b wire \<Rightarrow> ('a \<times> 'b) wire" where
  "w_pair c d = \<lparr>enc = (\<lambda>(a, b). enc c a @ enc d b),
     dec = (\<lambda>bs. case dec c bs of None \<Rightarrow> None
                 | Some (a, r) \<Rightarrow> map_option (\<lambda>(b, q). ((a, b), q)) (dec d r))\<rparr>"

definition w_option :: "'a wire \<Rightarrow> 'a option wire" where
  "w_option c = \<lparr>enc = (\<lambda>x. case x of None \<Rightarrow> [0] | Some a \<Rightarrow> 1 # enc c a),
     dec = (\<lambda>bs. case bs of [] \<Rightarrow> None
                 | t # r \<Rightarrow> if t = 0 then Some (None, r)
                           else map_option (\<lambda>(a, q). (Some a, q)) (dec c r))\<rparr>"

fun dec_count :: "'a wire \<Rightarrow> nat \<Rightarrow> bytes \<Rightarrow> ('a list \<times> bytes) option" where
  "dec_count c 0 bs = Some ([], bs)"
| "dec_count c (Suc n) bs =
     (case dec c bs of None \<Rightarrow> None
      | Some (a, r) \<Rightarrow> map_option (\<lambda>(as, q). (a # as, q)) (dec_count c n r))"

definition w_list :: "'a wire \<Rightarrow> 'a list wire" where
  "w_list c = \<lparr>enc = (\<lambda>xs. framed (replicate (length xs) 0) @ concat (map (enc c) xs)),
     dec = (\<lambda>bs. case unframe bs of None \<Rightarrow> None | Some (ns, r) \<Rightarrow> dec_count c (length ns) r)\<rparr>"

definition w_nat :: "nat wire" where
  "w_nat = w_iso (\<lambda>n. replicate n 0) length w_bytes"

definition w_word :: "'l::len word wire" where
  "w_word = w_iso unat word_of_nat w_nat"

definition w_string :: "string wire" where
  "w_string = w_iso as_bytes bytes_text w_bytes"

definition w_bool :: "bool wire" where
  "w_bool = w_iso (\<lambda>b. if b then 1 else 0) (\<lambda>n. n = 1) w_nat"

lemma wire_okD: "wire_ok c \<Longrightarrow> dec c (enc c a @ r) = Some (a, r)"
  by (simp add: wire_ok_def)

lemma wire_ok_end: "wire_ok c \<Longrightarrow> dec c (enc c a) = Some (a, [])"
  using wire_okD [of c a "[]"] by simp

lemma w_bytes_ok: "wire_ok w_bytes"
  by (simp add: wire_ok_def w_bytes_def)

lemma w_iso_ok: "wire_ok c \<Longrightarrow> (\<And>a. g (f a) = a) \<Longrightarrow> wire_ok (w_iso f g c)"
  by (simp add: wire_ok_def w_iso_def)

lemma w_pair_ok: "wire_ok c \<Longrightarrow> wire_ok d \<Longrightarrow> wire_ok (w_pair c d)"
  by (simp add: wire_ok_def w_pair_def)

lemma w_option_ok: "wire_ok c \<Longrightarrow> wire_ok (w_option c)"
  by (simp add: wire_ok_def w_option_def split: option.split)

lemma w_list_ok:
  assumes "wire_ok c"
  shows "wire_ok (w_list c)"
proof -
  have "dec_count c (length xs) (concat (map (enc c) xs) @ r) = Some (xs, r)" for xs r
    using wire_okD [OF assms] by (induction xs) simp_all
  then show ?thesis by (simp add: wire_ok_def w_list_def)
qed

lemma w_nat_ok: "wire_ok w_nat"
  unfolding w_nat_def by (rule w_iso_ok [OF w_bytes_ok]) simp

lemma w_word_ok: "wire_ok w_word"
  unfolding w_word_def by (rule w_iso_ok [OF w_nat_ok]) simp

lemma w_string_ok: "wire_ok w_string"
  unfolding w_string_def by (rule w_iso_ok [OF w_bytes_ok]) simp

lemma w_bool_ok: "wire_ok w_bool"
  unfolding w_bool_def by (rule w_iso_ok [OF w_nat_ok]) simp

lemmas wire_oks = w_bytes_ok w_nat_ok w_word_ok w_string_ok w_bool_ok w_pair_ok w_option_ok w_list_ok

section \<open>Serializers of a format\<close>

definition w_to_vec :: "'a wire \<Rightarrow> 'a \<Rightarrow> bytes" where
  "w_to_vec c a = enc c a"

definition w_from_slice :: "'a wire \<Rightarrow> bytes \<Rightarrow> ('a, string) result" where
  "w_from_slice c bs = (case dec c bs of Some (a, _) \<Rightarrow> Ok a | None \<Rightarrow> Err ''malformed input'')"

definition w_to_string :: "'a wire \<Rightarrow> 'a \<Rightarrow> string" where
  "w_to_string c a = bytes_text (enc c a)"

definition w_from_str :: "'a wire \<Rightarrow> string \<Rightarrow> ('a, string) result" where
  "w_from_str c s = w_from_slice c (as_bytes s)"

lemma w_roundtrips [simp]:
  "wire_ok c \<Longrightarrow> w_from_slice c (w_to_vec c a) = Ok a"
  "wire_ok c \<Longrightarrow> w_from_str c (w_to_string c a) = Ok a"
  "wire_ok c \<Longrightarrow> w_from_slice c (as_bytes (w_to_string c a)) = Ok a"
  by (simp_all add: w_from_slice_def w_from_str_def w_to_vec_def w_to_string_def wire_ok_end)

end
