(* ===== verification/Quip_Identity.thy ===== *)
theory Quip_Identity
  imports Quip_Crypto Quip_Files Quip_Wire
begin

text \<open>
  The crate \<open>identity\<close>: session credentials signed by an identity key, and the encrypted key
  file. The serializer, scrypt, ChaCha20-Poly1305, base64 and hex are third-party parameters;
  the clock reading and the random bytes a call draws are arguments of it.

  The shape \<open>issue\<close>/\<open>verify\<close> shared by every signed structure of the repository is stated here
  as the interface \<open>signed_artifact\<close>: some checks, in order, then one signature check over the
  canonical serialization of all fields but the signature.
\<close>

section \<open>The contract of signed structures\<close>

locale signed_artifact =
  fixes X :: "'x primitives_scheme"
    and canonical :: "'u \<Rightarrow> bytes"
    and unsigned :: "'a \<Rightarrow> 'u"
    and signature :: "'a \<Rightarrow> signature_bytes"
    and checks :: "'c \<Rightarrow> 'a \<Rightarrow> 'e option"
    and bad_signature :: 'e
    and verify :: "'a \<Rightarrow> public_identity_key \<Rightarrow> 'c \<Rightarrow> (unit, 'e) result"
  assumes verify_eq:
    "verify a k c =
       (case checks c a of
          Some e \<Rightarrow> Err e
        | None \<Rightarrow> map_err (\<lambda>_. bad_signature)
                   (SignatureBytes_verify X (signature a) k (canonical (unsigned a))))"
begin

lemma verify_accepts:
  "verify a k c = Ok u \<longleftrightarrow>
   checks c a = None \<and> SignatureBytes_verify X (signature a) k (canonical (unsigned a)) = Ok u"
  by (simp add: verify_eq split: option.splits)

lemma verify_sealed:
  assumes "ed25519_ok X"
    and "signature a = IdentityKeypair_sign X kp (canonical (unsigned a))"
  shows "verify a (public_key X kp) c = (case checks c a of Some e \<Rightarrow> Err e | None \<Rightarrow> Ok ())"
  using assms by (simp add: verify_eq sign_verify split: option.splits)

text \<open>A signature carried over to other fields is accepted only if it signs those too.\<close>

lemma verify_transplanted:
  assumes "signature b = SignatureBytes s" and "verify b k c = Ok ()"
  shows "ed_verify X (pk_bytes k) (canonical (unsigned b)) s"
  using assms by (simp add: verify_accepts SignatureBytes_verify_Ok)

lemma verify_error:
  "verify a k c = Err e \<Longrightarrow> e = bad_signature \<or> checks c a = Some e"
  by (auto simp: verify_eq map_err_def split: option.splits result.splits)

end

section \<open>Session credentials\<close>

datatype identity_error =
    Io string
  | Serialization string
  | InvalidKeystore
  | KeyDerivation

record session_credential_unsigned =
  sc_network_id :: network_id
  sc_peer_id :: peer_id
  sc_session_public_key :: bytes
  sc_issued_at :: u64
  sc_expires_at :: u64
  sc_protocol_versions :: "string list"
  sc_key_epoch :: u64
  sc_nonce :: bytes

record session_credential = session_credential_unsigned +
  sc_identity_signature :: signature_bytes

record encrypted_key_file =
  kf_version :: u8
  kf_kdf :: string
  kf_salt :: bytes
  kf_nonce :: bytes
  kf_ciphertext :: string
  kf_public_key_hash :: string

record keystore_env = primitives +
  canonical_credential :: "session_credential_unsigned \<Rightarrow> bytes"
  scrypt_recommended :: "bytes \<Rightarrow> bytes \<Rightarrow> bytes option"         \<comment> \<open>passphrase, salt\<close>
  chacha_encrypt :: "bytes \<Rightarrow> bytes \<Rightarrow> bytes \<Rightarrow> bytes option"    \<comment> \<open>key, nonce, plaintext\<close>
  chacha_decrypt :: "bytes \<Rightarrow> bytes \<Rightarrow> bytes \<Rightarrow> bytes option"
  base64_encode :: "bytes \<Rightarrow> string"
  base64_decode :: "string \<Rightarrow> bytes option"
  hex_encode :: "bytes \<Rightarrow> string"
  key_file_to_vec :: "encrypted_key_file \<Rightarrow> bytes"
  key_file_from_slice :: "bytes \<Rightarrow> (encrypted_key_file, string) result"

definition SessionCredentialUnsigned_from :: "'s session_credential_unsigned_scheme \<Rightarrow> session_credential_unsigned" where
  "SessionCredentialUnsigned_from c =
     \<lparr>sc_network_id = sc_network_id c, sc_peer_id = sc_peer_id c,
      sc_session_public_key = sc_session_public_key c, sc_issued_at = sc_issued_at c,
      sc_expires_at = sc_expires_at c, sc_protocol_versions = sc_protocol_versions c,
      sc_key_epoch = sc_key_epoch c, sc_nonce = sc_nonce c\<rparr>"

text \<open>\<open>issued_at + ttl_secs\<close> wraps in a release build.\<close>

definition SessionCredential_issue ::
  "'x keystore_env_scheme \<Rightarrow> u64 \<Rightarrow> bytes \<Rightarrow> network_id \<Rightarrow> identity_keypair \<Rightarrow> bytes \<Rightarrow> string list \<Rightarrow>
   u64 \<Rightarrow> u64 \<Rightarrow> session_credential" where
  "SessionCredential_issue X now rand16 network_id identity session_public_key protocol_versions
     ttl_secs key_epoch =
     (let issued_at = now;
          expires_at = issued_at + ttl_secs;
          peer_id = IdentityKeypair_peer_id X identity;
          unsigned = \<lparr>sc_network_id = network_id, sc_peer_id = peer_id,
            sc_session_public_key = session_public_key, sc_issued_at = issued_at,
            sc_expires_at = expires_at, sc_protocol_versions = protocol_versions,
            sc_key_epoch = key_epoch, sc_nonce = rand16\<rparr>;
          canonical = canonical_credential X unsigned
      in \<lparr>sc_network_id = network_id, sc_peer_id = peer_id,
          sc_session_public_key = session_public_key, sc_issued_at = issued_at,
          sc_expires_at = expires_at, sc_protocol_versions = protocol_versions,
          sc_key_epoch = key_epoch, sc_nonce = rand16,
          sc_identity_signature = IdentityKeypair_sign X identity canonical\<rparr>)"

definition SessionCredential_verify ::
  "'x keystore_env_scheme \<Rightarrow> session_credential \<Rightarrow> public_identity_key \<Rightarrow> (unit, identity_error) result" where
  "SessionCredential_verify X c k =
     (let canonical = canonical_credential X (SessionCredentialUnsigned_from c)
      in map_err (\<lambda>_. InvalidKeystore)
           (SignatureBytes_verify X (sc_identity_signature c) k canonical))"

interpretation credential: signed_artifact X "canonical_credential X"
  SessionCredentialUnsigned_from sc_identity_signature "\<lambda>_ _. None" InvalidKeystore
  "\<lambda>a k _. SessionCredential_verify X a k" for X :: "'x keystore_env_scheme"
  by unfold_locales (simp add: SessionCredential_verify_def)

section \<open>The key file\<close>

definition derive_file_key :: "'x keystore_env_scheme \<Rightarrow> bytes \<Rightarrow> bytes \<Rightarrow> (bytes, identity_error) result" where
  "derive_file_key X passphrase salt =
     (case scrypt_recommended X passphrase salt of None \<Rightarrow> Err KeyDerivation | Some key \<Rightarrow> Ok key)"

definition FileKeystore_load ::
  "'x keystore_env_scheme \<Rightarrow> filesystem \<Rightarrow> string \<Rightarrow> string \<Rightarrow> (identity_keypair, identity_error) result" where
  "FileKeystore_load X fs routing passphrase =
     (case fs_read fs routing of Err e \<Rightarrow> Err (Io e) | Ok raw \<Rightarrow>
      case key_file_from_slice X raw of Err e \<Rightarrow> Err (Serialization e) | Ok blob \<Rightarrow>
      case derive_file_key X (as_bytes passphrase) (kf_salt blob) of Err e \<Rightarrow> Err e | Ok key \<Rightarrow>
      case base64_decode X (kf_ciphertext blob) of None \<Rightarrow> Err InvalidKeystore | Some ciphertext \<Rightarrow>
      case chacha_decrypt X key (kf_nonce blob) ciphertext of
        None \<Rightarrow> Err InvalidKeystore
      | Some plaintext \<Rightarrow>
          if length plaintext \<noteq> 32 then Err InvalidKeystore
          else Ok (from_secret_bytes plaintext))"

definition FileKeystore_store ::
  "'x keystore_env_scheme \<Rightarrow> bytes \<Rightarrow> bytes \<Rightarrow> filesystem \<Rightarrow> string \<Rightarrow> identity_keypair \<Rightarrow> string \<Rightarrow>
   (unit, identity_error) result \<times> filesystem" where
  "FileKeystore_store X salt nonce fs routing keypair passphrase =
     (case derive_file_key X (as_bytes passphrase) salt of Err e \<Rightarrow> (Err e, fs) | Ok key \<Rightarrow>
      case chacha_encrypt X key nonce (secret_bytes keypair) of
        None \<Rightarrow> (Err InvalidKeystore, fs)
      | Some ciphertext \<Rightarrow>
          let blob = \<lparr>kf_version = 1, kf_kdf = ''scrypt'', kf_salt = salt, kf_nonce = nonce,
                kf_ciphertext = base64_encode X ciphertext,
                kf_public_key_hash =
                  hex_encode X (hash_bytes X (pk_bytes (public_key X keypair)))\<rparr>
          in case fs_write fs routing (key_file_to_vec X blob) of
               (Err e, fs') \<Rightarrow> (Err (Io e), fs')
             | (Ok _, fs') \<Rightarrow> (Ok (), fs'))"

text \<open>What the key file relies on: decoding inverts encoding, decryption inverts encryption.\<close>

definition keystore_ok :: "'x keystore_env_scheme \<Rightarrow> bool" where
  "keystore_ok X \<longleftrightarrow>
     (\<forall>bs. base64_decode X (base64_encode X bs) = Some bs) \<and>
     (\<forall>f. key_file_from_slice X (key_file_to_vec X f) = Ok f) \<and>
     (\<forall>k n p c. chacha_encrypt X k n p = Some c \<longrightarrow> chacha_decrypt X k n c = Some p)"

text \<open>A stored key is loaded back with the same passphrase, and no other file changes.\<close>

lemma FileKeystore_store_load:
  assumes "keystore_ok X" and "length (signing_key kp) = 32"
    and "FileKeystore_store X salt nonce fs path kp pass = (Ok (), fs')"
  shows "FileKeystore_load X fs' path pass = Ok kp"
    and "p \<noteq> path \<Longrightarrow> fs_read fs' p = fs_read fs p"
proof -
  let ?blob = "\<lambda>c. \<lparr>kf_version = 1, kf_kdf = ''scrypt'', kf_salt = salt, kf_nonce = nonce,
    kf_ciphertext = base64_encode X c,
    kf_public_key_hash = hex_encode X (hash_bytes X (pk_bytes (public_key X kp)))\<rparr>"
  from assms(3) obtain key c where
    key: "derive_file_key X (as_bytes pass) salt = Ok key" and
    c: "chacha_encrypt X key nonce (signing_key kp) = Some c" and
    w: "fs_write fs path (key_file_to_vec X (?blob c)) = (Ok (), fs')"
    by (auto simp: FileKeystore_store_def Let_def secret_bytes_def
        split: result.splits option.splits prod.splits)
  from w have rd: "fs_read fs' q = (if q = path then Ok (key_file_to_vec X (?blob c)) else fs_read fs q)" for q
    by (rule fs_read_write)
  with assms(1,2) key c show "FileKeystore_load X fs' path pass = Ok kp"
    by (auto simp: FileKeystore_load_def keystore_ok_def from_secret_bytes_def)
  show "fs_read fs' p = fs_read fs p" if "p \<noteq> path"
    using that rd by simp
qed

lemma FileKeystore_store_error:
  "FileKeystore_store X salt nonce fs path kp pass = (Err e, fs') \<Longrightarrow> fs' = fs \<or> (\<exists>content. cut_short path content fs fs')"
  by (auto simp: FileKeystore_store_def Let_def dest: fs_write_fault
      split: result.splits option.splits prod.splits)

lemma SessionCredential_issue_verify:
  assumes "ed25519_ok X"
  shows "SessionCredential_verify X
           (SessionCredential_issue X now rand16 n kp spk pv ttl epoch) (public_key X kp) = Ok ()"
  using credential.verify_sealed [OF assms, of
      "SessionCredential_issue X now rand16 n kp spk pv ttl epoch" kp]
  by (simp add: SessionCredential_issue_def SessionCredentialUnsigned_from_def Let_def)

section \<open>A concrete key file\<close>

text \<open>A framed file, a cipher that checks its key, and text as its bytes.\<close>

definition framed_key_file :: "encrypted_key_file \<Rightarrow> bytes" where
  "framed_key_file f = kf_version f # framed (as_bytes (kf_kdf f)) @ framed (kf_salt f) @
     framed (kf_nonce f) @ framed (as_bytes (kf_ciphertext f)) @ framed (as_bytes (kf_public_key_hash f))"

definition unframe_key_file :: "bytes \<Rightarrow> (encrypted_key_file, string) result" where
  "unframe_key_file raw =
     (case raw of [] \<Rightarrow> Err ''EOF'' | v # r1 \<Rightarrow>
      case unframe r1 of None \<Rightarrow> Err ''EOF'' | Some (kdf, r2) \<Rightarrow>
      case unframe r2 of None \<Rightarrow> Err ''EOF'' | Some (salt, r3) \<Rightarrow>
      case unframe r3 of None \<Rightarrow> Err ''EOF'' | Some (nonce, r4) \<Rightarrow>
      case unframe r4 of None \<Rightarrow> Err ''EOF'' | Some (ct, r5) \<Rightarrow>
      case unframe r5 of None \<Rightarrow> Err ''EOF'' | Some (h, _) \<Rightarrow>
      Ok \<lparr>kf_version = v, kf_kdf = bytes_text kdf, kf_salt = salt, kf_nonce = nonce,
          kf_ciphertext = bytes_text ct, kf_public_key_hash = bytes_text h\<rparr>)"

definition sample_keystore :: "'a \<Rightarrow> 'a keystore_env_scheme" where
  "sample_keystore rest = sample_primitives
     (keystore_env_ext (\<lambda>c. sc_nonce c @ sc_session_public_key c)
        (\<lambda>p s. Some (pad_to 32 (p @ s)))
        (\<lambda>k n p. Some (k @ p))
        (\<lambda>k n c. if take (length k) c = k then Some (drop (length k) c) else None)
        bytes_text (\<lambda>s. Some (as_bytes s)) hex_bytes framed_key_file unframe_key_file rest)"

lemma unframe_frame_key_file: "unframe_key_file (framed_key_file f) = Ok f"
  by (simp add: unframe_key_file_def framed_key_file_def)

lemma sample_keystore_sel:
  "base64_decode (sample_keystore rest) = (\<lambda>s. Some (as_bytes s))"
  "base64_encode (sample_keystore rest) = bytes_text"
  "key_file_to_vec (sample_keystore rest) = framed_key_file"
  "key_file_from_slice (sample_keystore rest) = unframe_key_file"
  "chacha_encrypt (sample_keystore rest) = (\<lambda>k n p. Some (k @ p))"
  "chacha_decrypt (sample_keystore rest) =
     (\<lambda>k n c. if take (length k) c = k then Some (drop (length k) c) else None)"
  "scrypt_recommended (sample_keystore rest) = (\<lambda>p s. Some (pad_to 32 (p @ s)))"
  by (simp_all add: sample_keystore_def sample_primitives_def)

lemma sample_keystore_ok: "keystore_ok (sample_keystore rest)"
  by (auto simp: keystore_ok_def sample_keystore_sel unframe_frame_key_file)

lemma sample_keystore_primitives_ok:
  "base32_ok (sample_keystore rest)" "varint_ok (sample_keystore rest)"
  "ed25519_ok (sample_keystore rest)" "x25519_ok (sample_keystore rest)"
  unfolding sample_keystore_def by (rule sample_ok)+

text \<open>Key files round-trip. A key stored under a passphrase is loaded back with it, for every
  outcome of the random salt and nonce, and storing touches no other file.\<close>

theorem keystore_roundtrip:
  assumes "keystore_ok X" and "length (signing_key kp) = 32"
    and "FileKeystore_store X salt nonce fs path kp pass = (Ok (), fs')"
  shows "FileKeystore_load X fs' path pass = Ok kp \<and>
         (\<forall>p. p \<noteq> path \<longrightarrow> fs_read fs' p = fs_read fs p)"
  using FileKeystore_store_load [OF assms] by blast

theorem keystore_roundtrip_witness:
  "\<exists>fs'. FileKeystore_load (sample_keystore ()) fs' ''id'' ''pw'' =
         Ok (IdentityKeypair (replicate 32 7))"
proof -
  let ?fs = "\<lparr>fs_files = Map.empty, fs_fault = \<lambda>_. None\<rparr>"
  let ?kp = "IdentityKeypair (replicate 32 7)"
  obtain fs' where "FileKeystore_store (sample_keystore ()) [1] [2] ?fs ''id'' ?kp ''pw'' = (Ok (), fs')"
    by (simp add: FileKeystore_store_def derive_file_key_def sample_keystore_sel fs_write_def Let_def)
  then show ?thesis
    using keystore_roundtrip [OF sample_keystore_ok, where kp = ?kp] by fastforce
qed

end
