(* ===== verification/Quip_Membership.thy ===== *)
theory Quip_Membership
  imports Quip_Identity
begin

text \<open>
  The crate \<open>membership\<close>: enrollment tokens, membership certificates, capability grants and
  revocation records. \<open>canonical_json\<close> is the serializer of \<open>serde_json\<close>, one parameter per
  structure. Each structure extends its unsigned form by the signature, as the pairs of structs
  of the source do; the four \<open>verify\<close> functions are instances of \<open>signed_artifact\<close>.
\<close>

datatype membership_error =
    InvalidSignature
  | ExpiredArtifact
  | NotYetValid
  | SubjectMismatch
  | ArtifactIdMismatch

record bootstrap_hint =
  bh_peer_id :: "peer_id option"
  bh_addresses :: "string list"
  bh_metadata :: "(string, string) btree_map"

record unsigned_enrollment_token =
  et_network_id :: network_id
  et_issuer_peer_id :: peer_id
  et_issued_at :: u64
  et_expires_at :: u64
  et_realm :: string
  et_subject_alias :: "string option"
  et_requested_roles :: "string list"
  et_bootstrap_hints :: "bootstrap_hint list"
  et_nonce :: bytes

record enrollment_token = unsigned_enrollment_token +
  et_token_id :: bytes
  et_signature :: signature_bytes

record unsigned_membership_certificate =
  mc_network_id :: network_id
  mc_subject_peer_id :: peer_id
  mc_issuer_peer_id :: peer_id
  mc_issued_at :: u64
  mc_expires_at :: u64
  mc_roles :: "string list"

record membership_certificate = unsigned_membership_certificate +
  mc_signature :: signature_bytes

record resource_limits =
  rl_bandwidth_bps :: "u64 option"
  rl_concurrent_streams :: "u32 option"
  rl_max_object_bytes :: "u64 option"

definition ResourceLimits_default :: resource_limits where
  "ResourceLimits_default =
     \<lparr>rl_bandwidth_bps = None, rl_concurrent_streams = None, rl_max_object_bytes = None\<rparr>"

record unsigned_capability_grant =
  cg_network_id :: network_id
  cg_subject_peer_id :: peer_id
  cg_issuer_peer_id :: peer_id
  cg_capabilities :: "string list"
  cg_protocol_scopes :: "protocol_id list"
  cg_resource_limits :: resource_limits
  cg_constraints :: "string list"
  cg_not_before :: u64
  cg_expires_at :: u64
  cg_sequence :: u64

record capability_grant = unsigned_capability_grant +
  cg_signature :: signature_bytes

datatype revocation_reason = Administrative | KeyCompromise | Superseded | Unspecified

datatype revocation_target =
    TokenTarget (rt_token_id: bytes)
  | CertificateTarget (rt_subject: peer_id) (rt_issued_at: u64)
  | GrantTarget (rt_subject: peer_id) (rt_sequence: u64)
  | PeerTarget (rt_peer_id: peer_id)

record unsigned_revocation_record =
  rr_network_id :: network_id
  rr_issuer_peer_id :: peer_id
  rr_target :: revocation_target
  rr_reason :: revocation_reason
  rr_issued_at :: u64
  rr_effective_at :: u64
  rr_sequence :: u64
  rr_note :: "string option"

record revocation_record = unsigned_revocation_record +
  rr_signature :: signature_bytes

record artifact_env = keystore_env +
  canonical_token :: "unsigned_enrollment_token \<Rightarrow> bytes"
  canonical_certificate :: "unsigned_membership_certificate \<Rightarrow> bytes"
  canonical_grant :: "unsigned_capability_grant \<Rightarrow> bytes"
  canonical_revocation :: "unsigned_revocation_record \<Rightarrow> bytes"

section \<open>Enrollment tokens\<close>

definition UnsignedEnrollmentToken_from :: "'s unsigned_enrollment_token_scheme \<Rightarrow> unsigned_enrollment_token" where
  "UnsignedEnrollmentToken_from t =
     \<lparr>et_network_id = et_network_id t, et_issuer_peer_id = et_issuer_peer_id t,
      et_issued_at = et_issued_at t, et_expires_at = et_expires_at t, et_realm = et_realm t,
      et_subject_alias = et_subject_alias t, et_requested_roles = et_requested_roles t,
      et_bootstrap_hints = et_bootstrap_hints t, et_nonce = et_nonce t\<rparr>"

definition EnrollmentToken_issue ::
  "'x artifact_env_scheme \<Rightarrow> identity_keypair \<Rightarrow> network_id \<Rightarrow> u64 \<Rightarrow> u64 \<Rightarrow> string \<Rightarrow> string option \<Rightarrow>
   string list \<Rightarrow> bootstrap_hint list \<Rightarrow> bytes \<Rightarrow> enrollment_token" where
  "EnrollmentToken_issue X issuer network_id issued_at expires_at realm subject_alias
     requested_roles bootstrap_hints nonce =
     (let unsigned = \<lparr>et_network_id = network_id,
            et_issuer_peer_id = IdentityKeypair_peer_id X issuer,
            et_issued_at = issued_at, et_expires_at = expires_at, et_realm = realm,
            et_subject_alias = subject_alias, et_requested_roles = requested_roles,
            et_bootstrap_hints = bootstrap_hints, et_nonce = nonce\<rparr>;
          canonical = canonical_token X unsigned;
          token_id = hash_bytes X canonical;
          signature = IdentityKeypair_sign X issuer canonical
      in \<lparr>et_network_id = network_id, et_issuer_peer_id = et_issuer_peer_id unsigned,
          et_issued_at = issued_at, et_expires_at = expires_at, et_realm = et_realm unsigned,
          et_subject_alias = et_subject_alias unsigned,
          et_requested_roles = et_requested_roles unsigned,
          et_bootstrap_hints = et_bootstrap_hints unsigned, et_nonce = nonce,
          et_token_id = token_id, et_signature = signature\<rparr>)"

definition EnrollmentToken_verify ::
  "'x artifact_env_scheme \<Rightarrow> enrollment_token \<Rightarrow> public_identity_key \<Rightarrow> network_id \<Rightarrow> u64 \<Rightarrow>
   (unit, membership_error) result" where
  "EnrollmentToken_verify X t issuer_key expected_network now =
     (if et_network_id t \<noteq> expected_network then Err SubjectMismatch
      else if now > et_expires_at t then Err ExpiredArtifact
      else let canonical = canonical_token X (UnsignedEnrollmentToken_from t)
           in if hash_bytes X canonical \<noteq> et_token_id t then Err ArtifactIdMismatch
              else map_err (\<lambda>_. InvalidSignature)
                     (SignatureBytes_verify X (et_signature t) issuer_key canonical))"

definition token_checks :: "'x artifact_env_scheme \<Rightarrow> network_id \<times> u64 \<Rightarrow> enrollment_token \<Rightarrow> membership_error option" where
  "token_checks X c t = (case c of (network, now) \<Rightarrow>
     if et_network_id t \<noteq> network then Some SubjectMismatch
     else if now > et_expires_at t then Some ExpiredArtifact
     else if hash_bytes X (canonical_token X (UnsignedEnrollmentToken_from t)) \<noteq> et_token_id t
     then Some ArtifactIdMismatch else None)"

interpretation token: signed_artifact X "canonical_token X" UnsignedEnrollmentToken_from
  et_signature "token_checks X" InvalidSignature
  "\<lambda>t k (network, now). EnrollmentToken_verify X t k network now" for X :: "'x artifact_env_scheme"
  by unfold_locales (auto simp: EnrollmentToken_verify_def token_checks_def Let_def)

section \<open>Membership certificates\<close>

definition UnsignedMembershipCertificate_from ::
  "'s unsigned_membership_certificate_scheme \<Rightarrow> unsigned_membership_certificate" where
  "UnsignedMembershipCertificate_from m =
     \<lparr>mc_network_id = mc_network_id m, mc_subject_peer_id = mc_subject_peer_id m,
      mc_issuer_peer_id = mc_issuer_peer_id m, mc_issued_at = mc_issued_at m,
      mc_expires_at = mc_expires_at m, mc_roles = mc_roles m\<rparr>"

definition MembershipCertificate_issue ::
  "'x artifact_env_scheme \<Rightarrow> identity_keypair \<Rightarrow> network_id \<Rightarrow> peer_id \<Rightarrow> u64 \<Rightarrow> u64 \<Rightarrow> string list \<Rightarrow>
   membership_certificate" where
  "MembershipCertificate_issue X issuer network_id subject_peer_id issued_at expires_at roles =
     (let unsigned = \<lparr>mc_network_id = network_id, mc_subject_peer_id = subject_peer_id,
            mc_issuer_peer_id = IdentityKeypair_peer_id X issuer, mc_issued_at = issued_at,
            mc_expires_at = expires_at, mc_roles = roles\<rparr>;
          canonical = canonical_certificate X unsigned;
          signature = IdentityKeypair_sign X issuer canonical
      in \<lparr>mc_network_id = network_id, mc_subject_peer_id = mc_subject_peer_id unsigned,
          mc_issuer_peer_id = mc_issuer_peer_id unsigned, mc_issued_at = issued_at,
          mc_expires_at = expires_at, mc_roles = mc_roles unsigned, mc_signature = signature\<rparr>)"

definition MembershipCertificate_verify ::
  "'x artifact_env_scheme \<Rightarrow> membership_certificate \<Rightarrow> public_identity_key \<Rightarrow> network_id \<Rightarrow> peer_id \<Rightarrow>
   u64 \<Rightarrow> (unit, membership_error) result" where
  "MembershipCertificate_verify X m issuer_key expected_network expected_subject now =
     (if mc_network_id m \<noteq> expected_network \<or> mc_subject_peer_id m \<noteq> expected_subject
      then Err SubjectMismatch
      else if now > mc_expires_at m then Err ExpiredArtifact
      else let canonical = canonical_certificate X (UnsignedMembershipCertificate_from m)
           in map_err (\<lambda>_. InvalidSignature)
                (SignatureBytes_verify X (mc_signature m) issuer_key canonical))"

definition certificate_checks :: "network_id \<times> peer_id \<times> u64 \<Rightarrow> membership_certificate \<Rightarrow> membership_error option" where
  "certificate_checks c m = (case c of (network, subject, now) \<Rightarrow>
     if mc_network_id m \<noteq> network \<or> mc_subject_peer_id m \<noteq> subject then Some SubjectMismatch
     else if now > mc_expires_at m then Some ExpiredArtifact else None)"

interpretation certificate: signed_artifact X "canonical_certificate X"
  UnsignedMembershipCertificate_from mc_signature certificate_checks InvalidSignature
  "\<lambda>m k (network, subject, now). MembershipCertificate_verify X m k network subject now"
  for X :: "'x artifact_env_scheme"
  by unfold_locales (auto simp: MembershipCertificate_verify_def certificate_checks_def Let_def)

section \<open>Capability grants\<close>

definition UnsignedCapabilityGrant_from :: "'s unsigned_capability_grant_scheme \<Rightarrow> unsigned_capability_grant" where
  "UnsignedCapabilityGrant_from g =
     \<lparr>cg_network_id = cg_network_id g, cg_subject_peer_id = cg_subject_peer_id g,
      cg_issuer_peer_id = cg_issuer_peer_id g, cg_capabilities = cg_capabilities g,
      cg_protocol_scopes = cg_protocol_scopes g, cg_resource_limits = cg_resource_limits g,
      cg_constraints = cg_constraints g, cg_not_before = cg_not_before g,
      cg_expires_at = cg_expires_at g, cg_sequence = cg_sequence g\<rparr>"

definition CapabilityGrant_issue ::
  "'x artifact_env_scheme \<Rightarrow> identity_keypair \<Rightarrow> network_id \<Rightarrow> peer_id \<Rightarrow> string list \<Rightarrow> protocol_id list \<Rightarrow>
   resource_limits \<Rightarrow> string list \<Rightarrow> u64 \<Rightarrow> u64 \<Rightarrow> u64 \<Rightarrow> capability_grant" where
  "CapabilityGrant_issue X issuer network_id subject_peer_id capabilities protocol_scopes
     resource_limits constraints not_before expires_at sequence =
     (let unsigned = \<lparr>cg_network_id = network_id, cg_subject_peer_id = subject_peer_id,
            cg_issuer_peer_id = IdentityKeypair_peer_id X issuer, cg_capabilities = capabilities,
            cg_protocol_scopes = protocol_scopes, cg_resource_limits = resource_limits,
            cg_constraints = constraints, cg_not_before = not_before,
            cg_expires_at = expires_at, cg_sequence = sequence\<rparr>;
          canonical = canonical_grant X unsigned;
          signature = IdentityKeypair_sign X issuer canonical
      in \<lparr>cg_network_id = network_id, cg_subject_peer_id = cg_subject_peer_id unsigned,
          cg_issuer_peer_id = cg_issuer_peer_id unsigned,
          cg_capabilities = cg_capabilities unsigned,
          cg_protocol_scopes = cg_protocol_scopes unsigned,
          cg_resource_limits = cg_resource_limits unsigned,
          cg_constraints = cg_constraints unsigned, cg_not_before = not_before,
          cg_expires_at = expires_at, cg_sequence = sequence, cg_signature = signature\<rparr>)"

definition CapabilityGrant_verify ::
  "'x artifact_env_scheme \<Rightarrow> capability_grant \<Rightarrow> public_identity_key \<Rightarrow> network_id \<Rightarrow> peer_id \<Rightarrow> u64 \<Rightarrow>
   (unit, membership_error) result" where
  "CapabilityGrant_verify X g issuer_key expected_network expected_subject now =
     (if cg_network_id g \<noteq> expected_network \<or> cg_subject_peer_id g \<noteq> expected_subject
      then Err SubjectMismatch
      else if now < cg_not_before g then Err NotYetValid
      else if now > cg_expires_at g then Err ExpiredArtifact
      else let canonical = canonical_grant X (UnsignedCapabilityGrant_from g)
           in map_err (\<lambda>_. InvalidSignature)
                (SignatureBytes_verify X (cg_signature g) issuer_key canonical))"

definition grant_checks :: "network_id \<times> peer_id \<times> u64 \<Rightarrow> capability_grant \<Rightarrow> membership_error option" where
  "grant_checks c g = (case c of (network, subject, now) \<Rightarrow>
     if cg_network_id g \<noteq> network \<or> cg_subject_peer_id g \<noteq> subject then Some SubjectMismatch
     else if now < cg_not_before g then Some NotYetValid
     else if now > cg_expires_at g then Some ExpiredArtifact else None)"

interpretation grant: signed_artifact X "canonical_grant X"
  UnsignedCapabilityGrant_from cg_signature grant_checks InvalidSignature
  "\<lambda>g k (network, subject, now). CapabilityGrant_verify X g k network subject now"
  for X :: "'x artifact_env_scheme"
  by unfold_locales (auto simp: CapabilityGrant_verify_def grant_checks_def Let_def)

section \<open>Revocation records\<close>

definition UnsignedRevocationRecord_from :: "'s unsigned_revocation_record_scheme \<Rightarrow> unsigned_revocation_record" where
  "UnsignedRevocationRecord_from r =
     \<lparr>rr_network_id = rr_network_id r, rr_issuer_peer_id = rr_issuer_peer_id r,
      rr_target = rr_target r, rr_reason = rr_reason r, rr_issued_at = rr_issued_at r,
      rr_effective_at = rr_effective_at r, rr_sequence = rr_sequence r, rr_note = rr_note r\<rparr>"

definition RevocationRecord_issue ::
  "'x artifact_env_scheme \<Rightarrow> identity_keypair \<Rightarrow> network_id \<Rightarrow> revocation_target \<Rightarrow> revocation_reason \<Rightarrow>
   u64 \<Rightarrow> u64 \<Rightarrow> u64 \<Rightarrow> string option \<Rightarrow> revocation_record" where
  "RevocationRecord_issue X issuer network_id target reason issued_at effective_at sequence note =
     (let unsigned = \<lparr>rr_network_id = network_id,
            rr_issuer_peer_id = IdentityKeypair_peer_id X issuer, rr_target = target,
            rr_reason = reason, rr_issued_at = issued_at, rr_effective_at = effective_at,
            rr_sequence = sequence, rr_note = note\<rparr>;
          canonical = canonical_revocation X unsigned;
          signature = IdentityKeypair_sign X issuer canonical
      in \<lparr>rr_network_id = network_id, rr_issuer_peer_id = rr_issuer_peer_id unsigned,
          rr_target = rr_target unsigned, rr_reason = rr_reason unsigned,
          rr_issued_at = issued_at, rr_effective_at = effective_at,
          rr_sequence = sequence, rr_note = rr_note unsigned, rr_signature = signature\<rparr>)"

definition RevocationRecord_verify ::
  "'x artifact_env_scheme \<Rightarrow> revocation_record \<Rightarrow> public_identity_key \<Rightarrow> network_id \<Rightarrow> u64 \<Rightarrow>
   (unit, membership_error) result" where
  "RevocationRecord_verify X r issuer_key expected_network now =
     (if rr_network_id r \<noteq> expected_network then Err SubjectMismatch
      else if now < rr_effective_at r then Err NotYetValid
      else let canonical = canonical_revocation X (UnsignedRevocationRecord_from r)
           in map_err (\<lambda>_. InvalidSignature)
                (SignatureBytes_verify X (rr_signature r) issuer_key canonical))"

definition revocation_checks :: "network_id \<times> u64 \<Rightarrow> revocation_record \<Rightarrow> membership_error option" where
  "revocation_checks c r = (case c of (network, now) \<Rightarrow>
     if rr_network_id r \<noteq> network then Some SubjectMismatch
     else if now < rr_effective_at r then Some NotYetValid else None)"

interpretation revocation: signed_artifact X "canonical_revocation X"
  UnsignedRevocationRecord_from rr_signature revocation_checks InvalidSignature
  "\<lambda>r k (network, now). RevocationRecord_verify X r k network now" for X :: "'x artifact_env_scheme"
  by unfold_locales (auto simp: RevocationRecord_verify_def revocation_checks_def Let_def)

section \<open>Issued artifacts\<close>

lemmas artifact_issue_defs =
  EnrollmentToken_issue_def MembershipCertificate_issue_def CapabilityGrant_issue_def
  RevocationRecord_issue_def UnsignedEnrollmentToken_from_def UnsignedMembershipCertificate_from_def
  UnsignedCapabilityGrant_from_def UnsignedRevocationRecord_from_def

text \<open>A concrete environment: the canonical form of a structure lists the fields a witness varies.\<close>

definition sample_artifact_env :: artifact_env where
  "sample_artifact_env = sample_keystore
     (artifact_env_ext
        (\<lambda>t. et_nonce t @ concat (map (\<lambda>h. concat (map as_bytes (bh_addresses h))) (et_bootstrap_hints t)))
        (\<lambda>m. concat (map as_bytes (mc_roles m)))
        (\<lambda>g. [ucast (cg_sequence g)]) (\<lambda>r. [ucast (rr_sequence r)]) ())"

lemma sample_artifact_env_ok:
  "base32_ok sample_artifact_env" "varint_ok sample_artifact_env"
  "ed25519_ok sample_artifact_env" "x25519_ok sample_artifact_env" "keystore_ok sample_artifact_env"
  unfolding sample_artifact_env_def by (rule sample_keystore_primitives_ok sample_keystore_ok)+

lemma sample_artifact_env_sel:
  "blake3 sample_artifact_env = (\<lambda>bs. pad_to 32 (word_of_nat (length bs) # rev bs))"
  "canonical_token sample_artifact_env =
     (\<lambda>t. et_nonce t @ concat (map (\<lambda>h. concat (map as_bytes (bh_addresses h))) (et_bootstrap_hints t)))"
  by (simp_all add: sample_artifact_env_def sample_keystore_def sample_primitives_def fun_eq_iff)

lemma issued_token:
  assumes "ed25519_ok X"
  shows "EnrollmentToken_verify X
           (EnrollmentToken_issue X kp net iat exp realm alias roles hints nonce)
           (public_key X kp) expected now =
         (if net \<noteq> expected then Err SubjectMismatch
          else if exp < now then Err ExpiredArtifact else Ok ())"
  using token.verify_sealed [OF assms, of
      "EnrollmentToken_issue X kp net iat exp realm alias roles hints nonce" kp "(expected, now)"]
  by (auto simp: artifact_issue_defs token_checks_def Let_def)

lemma issued_certificate:
  assumes "ed25519_ok X"
  shows "MembershipCertificate_verify X (MembershipCertificate_issue X kp net sub iat exp roles)
           (public_key X kp) expected subject now =
         (if net \<noteq> expected \<or> sub \<noteq> subject then Err SubjectMismatch
          else if exp < now then Err ExpiredArtifact else Ok ())"
  using certificate.verify_sealed [OF assms, of
      "MembershipCertificate_issue X kp net sub iat exp roles" kp "(expected, subject, now)"]
  by (auto simp: artifact_issue_defs certificate_checks_def Let_def)

lemma issued_grant:
  assumes "ed25519_ok X"
  shows "CapabilityGrant_verify X (CapabilityGrant_issue X kp net sub caps scopes limits cons nbf exp sq)
           (public_key X kp) expected subject now =
         (if net \<noteq> expected \<or> sub \<noteq> subject then Err SubjectMismatch
          else if now < nbf then Err NotYetValid
          else if exp < now then Err ExpiredArtifact else Ok ())"
  using grant.verify_sealed [OF assms, of
      "CapabilityGrant_issue X kp net sub caps scopes limits cons nbf exp sq" kp "(expected, subject, now)"]
  by (auto simp: artifact_issue_defs grant_checks_def Let_def)

lemma issued_revocation:
  assumes "ed25519_ok X"
  shows "RevocationRecord_verify X (RevocationRecord_issue X kp net target reason iat eff sq note)
           (public_key X kp) expected now =
         (if net \<noteq> expected then Err SubjectMismatch
          else if now < eff then Err NotYetValid else Ok ())"
  using revocation.verify_sealed [OF assms, of
      "RevocationRecord_issue X kp net target reason iat eff sq note" kp "(expected, now)"]
  by (auto simp: artifact_issue_defs revocation_checks_def Let_def)

text \<open>C21: Every artifact an issuer makes is accepted under the issuer's key exactly inside its
  network, subject and validity window, and the first failing check names the error.\<close>

theorem issued_artifacts_verify:
  assumes "ed25519_ok X"
  shows "EnrollmentToken_verify X
           (EnrollmentToken_issue X kp net iat exp realm alias roles hints nonce)
           (public_key X kp) expected now =
           (if net \<noteq> expected then Err SubjectMismatch
            else if exp < now then Err ExpiredArtifact else Ok ()) \<and>
         MembershipCertificate_verify X (MembershipCertificate_issue X kp net sub iat exp roles)
           (public_key X kp) expected subject now =
           (if net \<noteq> expected \<or> sub \<noteq> subject then Err SubjectMismatch
            else if exp < now then Err ExpiredArtifact else Ok ()) \<and>
         CapabilityGrant_verify X (CapabilityGrant_issue X kp net sub caps scopes limits cons nbf exp sq)
           (public_key X kp) expected subject now =
           (if net \<noteq> expected \<or> sub \<noteq> subject then Err SubjectMismatch
            else if now < nbf then Err NotYetValid
            else if exp < now then Err ExpiredArtifact else Ok ()) \<and>
         RevocationRecord_verify X (RevocationRecord_issue X kp net target reason iat eff sq note)
           (public_key X kp) expected now =
           (if net \<noteq> expected then Err SubjectMismatch
            else if now < eff then Err NotYetValid else Ok ())"
  by (intro conjI issued_token issued_certificate issued_grant issued_revocation assms)

theorem issued_artifacts_verify_witness:
  "CapabilityGrant_verify sample_artifact_env
     (CapabilityGrant_issue sample_artifact_env (IdentityKeypair [1]) (NetworkId [2]) (PeerId [3])
        [''relay''] [ProtocolId ''/quip/x''] ResourceLimits_default [] 10 20 7)
     (public_key sample_artifact_env (IdentityKeypair [1])) (NetworkId [2]) (PeerId [3]) 15 = Ok ()"
  using issued_artifacts_verify [OF sample_artifact_env_ok(3), THEN conjunct2, THEN conjunct2, THEN conjunct1]
  by simp

text \<open>C22: The identifier of a token binds every signed field. Serialization of the unsigned form is
  injective and the hash does not collide on the two serializations at hand. Then a token that
  differs from an issued one in any field but identifier and signature, and keeps the identifier, is
  accepted under no key; in its network and before expiry it is reported as an identifier
  mismatch.\<close>

theorem altered_token_rejected:
  assumes "inj (canonical_token X)"
    and "t = EnrollmentToken_issue X kp net iat exp realm alias roles hints nonce"
    and "inj_on (blake3 X) {canonical_token X (UnsignedEnrollmentToken_from t), canonical_token X (UnsignedEnrollmentToken_from t')}"
    and "et_token_id t' = et_token_id t"
    and "et_network_id t' \<noteq> et_network_id t \<or> et_issuer_peer_id t' \<noteq> et_issuer_peer_id t \<or>
         et_issued_at t' \<noteq> et_issued_at t \<or> et_expires_at t' \<noteq> et_expires_at t \<or> et_realm t' \<noteq> et_realm t \<or>
         et_subject_alias t' \<noteq> et_subject_alias t \<or> et_requested_roles t' \<noteq> et_requested_roles t \<or>
         et_bootstrap_hints t' \<noteq> et_bootstrap_hints t \<or> et_nonce t' \<noteq> et_nonce t"
  shows "EnrollmentToken_verify X t' k expected now =
           (if et_network_id t' \<noteq> expected then Err SubjectMismatch
            else if et_expires_at t' < now then Err ExpiredArtifact else Err ArtifactIdMismatch)"
proof -
  have id: "et_token_id t = blake3 X (canonical_token X (UnsignedEnrollmentToken_from t))"
    by (simp add: assms(2) artifact_issue_defs hash_bytes_def Let_def)
  have "UnsignedEnrollmentToken_from t' \<noteq> UnsignedEnrollmentToken_from t"
    using assms(5) by (auto simp: UnsignedEnrollmentToken_from_def)
  with assms(1) have "canonical_token X (UnsignedEnrollmentToken_from t') \<noteq> canonical_token X (UnsignedEnrollmentToken_from t)"
    by (simp add: inj_eq)
  with assms(3) have "blake3 X (canonical_token X (UnsignedEnrollmentToken_from t')) \<noteq>
      blake3 X (canonical_token X (UnsignedEnrollmentToken_from t))"
    by (simp add: inj_on_def)
  with assms(4) id show ?thesis by (simp add: EnrollmentToken_verify_def hash_bytes_def Let_def)
qed

end
