(* ===== verification/Quip_Records.thy ===== *)
theory Quip_Records
  imports Quip_Identity
begin

text \<open>
  The crates \<open>records\<close>, \<open>peerstore\<close> and \<open>discovery\<close>: signed records, the store of peers with
  their status and records, and the ingestion of bootstrap hints into it. The serializer of
  records is the parameter \<open>to_vec\<close>.
\<close>

section \<open>Signed records\<close>

datatype record_error = RE_InvalidSignature | PayloadHashMismatch

record unsigned_record =
  sr_network_id :: network_id
  sr_namespace :: record_namespace
  sr_record_type :: string
  sr_schema_version :: u16
  sr_author_peer_id :: peer_id
  sr_sequence :: u64
  sr_issued_at :: u64
  sr_expires_at :: u64
  sr_previous_hash :: "bytes option"
  sr_payload_hash :: bytes
  sr_payload :: bytes

record signed_record = unsigned_record +
  sr_signature :: signature_bytes

definition UnsignedRecord_from :: "'s unsigned_record_scheme \<Rightarrow> unsigned_record" where
  "UnsignedRecord_from r =
     \<lparr>sr_network_id = sr_network_id r, sr_namespace = sr_namespace r,
      sr_record_type = sr_record_type r, sr_schema_version = sr_schema_version r,
      sr_author_peer_id = sr_author_peer_id r, sr_sequence = sr_sequence r,
      sr_issued_at = sr_issued_at r, sr_expires_at = sr_expires_at r,
      sr_previous_hash = sr_previous_hash r, sr_payload_hash = sr_payload_hash r,
      sr_payload = sr_payload r\<rparr>"

definition SignedRecord_sign ::
  "'x primitives_scheme \<Rightarrow> (unsigned_record \<Rightarrow> bytes) \<Rightarrow> network_id \<Rightarrow> record_namespace \<Rightarrow> string \<Rightarrow>
   u16 \<Rightarrow> identity_keypair \<Rightarrow> u64 \<Rightarrow> u64 \<Rightarrow> u64 \<Rightarrow> bytes option \<Rightarrow> bytes \<Rightarrow> signed_record" where
  "SignedRecord_sign X to_vec network_id namespace record_type schema_version author sequence
     issued_at expires_at previous_hash payload =
     (let payload_hash = hash_bytes X payload;
          unsigned = \<lparr>sr_network_id = network_id, sr_namespace = namespace,
            sr_record_type = record_type, sr_schema_version = schema_version,
            sr_author_peer_id = IdentityKeypair_peer_id X author, sr_sequence = sequence,
            sr_issued_at = issued_at, sr_expires_at = expires_at,
            sr_previous_hash = previous_hash, sr_payload_hash = payload_hash,
            sr_payload = payload\<rparr>;
          signature = IdentityKeypair_sign X author (to_vec unsigned)
      in \<lparr>sr_network_id = network_id, sr_namespace = namespace,
          sr_record_type = sr_record_type unsigned, sr_schema_version = schema_version,
          sr_author_peer_id = sr_author_peer_id unsigned, sr_sequence = sequence,
          sr_issued_at = issued_at, sr_expires_at = expires_at,
          sr_previous_hash = previous_hash, sr_payload_hash = payload_hash,
          sr_payload = payload, sr_signature = signature\<rparr>)"

definition SignedRecord_verify ::
  "'x primitives_scheme \<Rightarrow> (unsigned_record \<Rightarrow> bytes) \<Rightarrow> signed_record \<Rightarrow> public_identity_key \<Rightarrow>
   (unit, record_error) result" where
  "SignedRecord_verify X to_vec r k =
     (if hash_bytes X (sr_payload r) \<noteq> sr_payload_hash r then Err PayloadHashMismatch
      else let canonical = to_vec (UnsignedRecord_from r)
           in map_err (\<lambda>_. RE_InvalidSignature)
                (SignatureBytes_verify X (sr_signature r) k canonical))"

definition record_checks :: "'x primitives_scheme \<Rightarrow> unit \<Rightarrow> signed_record \<Rightarrow> record_error option" where
  "record_checks X c r =
     (if hash_bytes X (sr_payload r) \<noteq> sr_payload_hash r then Some PayloadHashMismatch else None)"

interpretation srecord: signed_artifact X to_vec UnsignedRecord_from sr_signature "record_checks X"
  RE_InvalidSignature "\<lambda>r k _. SignedRecord_verify X to_vec r k"
  for X :: "'x primitives_scheme" and to_vec
  by unfold_locales (auto simp: SignedRecord_verify_def record_checks_def Let_def)

lemma signed_record_verifies:
  assumes "ed25519_ok X"
  shows "SignedRecord_verify X to_vec
           (SignedRecord_sign X to_vec net ns ty ver kp sq iat exp prev payload) (public_key X kp) = Ok ()"
  using srecord.verify_sealed [OF assms, of
      "SignedRecord_sign X to_vec net ns ty ver kp sq iat exp prev payload" kp to_vec "()"]
  by (simp add: SignedRecord_sign_def UnsignedRecord_from_def record_checks_def Let_def)

section \<open>The peer store\<close>

record peer_snapshot =
  ps_peer :: peer_id
  ps_protocols :: "string list"
  ps_addresses :: "string list"

datatype peer_source = PS_Bootstrap | PS_RelayMap | PS_Discovery | PS_Manual | PS_Observed
datatype peer_reachability = PR_Unknown | PR_Direct | PR_Relayed | PR_Unreachable

record peer_status =
  pst_source :: peer_source
  pst_reachability :: peer_reachability
  pst_last_seen_unix_secs :: "u64 option"

definition PeerStatus_default :: peer_status where
  "PeerStatus_default =
     \<lparr>pst_source = PS_Observed, pst_reachability = PR_Unknown, pst_last_seen_unix_secs = None\<rparr>"

record peer_inspection =
  pi_snapshot :: peer_snapshot
  pi_status :: peer_status
  pi_record_count :: nat

record peer_store =
  pt_peers :: "(peer_id, peer_snapshot) btree_map"
  pt_statuses :: "(peer_id, peer_status) btree_map"
  pt_records :: "(peer_id, signed_record list) btree_map"

definition PeerStore_default :: peer_store where
  "PeerStore_default = \<lparr>pt_peers = [], pt_statuses = [], pt_records = []\<rparr>"

definition upsert_peer :: "peer_snapshot \<Rightarrow> peer_store \<Rightarrow> peer_store" where
  "upsert_peer snapshot s =
     (let peer = ps_peer snapshot;
          s1 = s\<lparr>pt_peers := bt_insert peer snapshot (pt_peers s)\<rparr>
      in case bt_get (pt_statuses s1) peer of
           None \<Rightarrow> s1\<lparr>pt_statuses := bt_insert peer PeerStatus_default (pt_statuses s1)\<rparr>
         | Some _ \<Rightarrow> s1)"

definition upsert_peer_with_status :: "peer_snapshot \<Rightarrow> peer_status \<Rightarrow> peer_store \<Rightarrow> peer_store" where
  "upsert_peer_with_status snapshot status s =
     (let peer = ps_peer snapshot
      in s\<lparr>pt_peers := bt_insert peer snapshot (pt_peers s),
           pt_statuses := bt_insert peer status (pt_statuses s)\<rparr>)"

definition append_record :: "peer_id \<Rightarrow> signed_record \<Rightarrow> peer_store \<Rightarrow> peer_store" where
  "append_record peer r s =
     (let rs = (case bt_get (pt_records s) peer of None \<Rightarrow> [] | Some rs \<Rightarrow> rs)
      in s\<lparr>pt_records := bt_insert peer (rs @ [r]) (pt_records s)\<rparr>)"

definition PeerStore_peer :: "peer_store \<Rightarrow> peer_id \<Rightarrow> peer_snapshot option" where
  "PeerStore_peer s peer = bt_get (pt_peers s) peer"

definition PeerStore_peer_status :: "peer_store \<Rightarrow> peer_id \<Rightarrow> peer_status option" where
  "PeerStore_peer_status s peer = bt_get (pt_statuses s) peer"

definition record_count :: "peer_store \<Rightarrow> peer_id \<Rightarrow> nat" where
  "record_count s peer = (case bt_get (pt_records s) peer of None \<Rightarrow> 0 | Some rs \<Rightarrow> length rs)"

definition inspection :: "peer_store \<Rightarrow> peer_id \<Rightarrow> peer_inspection option" where
  "inspection s peer =
     (case bt_get (pt_peers s) peer of
        None \<Rightarrow> None
      | Some snapshot \<Rightarrow>
          Some \<lparr>pi_snapshot = snapshot,
                pi_status = (case bt_get (pt_statuses s) peer of
                               None \<Rightarrow> PeerStatus_default | Some st \<Rightarrow> st),
                pi_record_count = record_count s peer\<rparr>)"

definition PeerStore_peers :: "peer_store \<Rightarrow> peer_inspection list" where
  "PeerStore_peers s = List.map_filter (inspection s) (bt_keys (pt_peers s))"

text \<open>Every peer has a status, filed under its own identifier, and the maps are ordered.\<close>

definition store_wf :: "peer_store \<Rightarrow> bool" where
  "store_wf s \<longleftrightarrow> bt_wf (pt_peers s) \<and> bt_wf (pt_statuses s) \<and> bt_wf (pt_records s) \<and>
     (\<forall>p sn. bt_get (pt_peers s) p = Some sn \<longrightarrow>
        ps_peer sn = p \<and> bt_get (pt_statuses s) p \<noteq> None)"

lemma store_wf_default: "store_wf PeerStore_default"
  by (simp add: store_wf_def PeerStore_default_def)

lemma store_wf_upsert_peer: "store_wf s \<Longrightarrow> store_wf (upsert_peer sn s)"
  by (auto simp: store_wf_def upsert_peer_def Let_def split: option.splits)

lemma store_wf_upsert_peer_with_status: "store_wf s \<Longrightarrow> store_wf (upsert_peer_with_status sn st s)"
  by (auto simp: store_wf_def upsert_peer_with_status_def Let_def)

lemma store_wf_append_record: "store_wf s \<Longrightarrow> store_wf (append_record p r s)"
  by (auto simp: store_wf_def append_record_def Let_def)

lemmas store_wf_intros =
  store_wf_default store_wf_upsert_peer store_wf_upsert_peer_with_status store_wf_append_record

lemma PeerStore_peer_upsert:
  "PeerStore_peer (upsert_peer_with_status sn st s) p =
   (if p = ps_peer sn then Some sn else PeerStore_peer s p)"
  by (simp add: PeerStore_peer_def upsert_peer_with_status_def Let_def)

text \<open>The listing has one entry per peer, in the order of the identifiers.\<close>

lemma PeerStore_peers_listing:
  assumes "store_wf s"
  shows "map (\<lambda>i. ps_peer (pi_snapshot i)) (PeerStore_peers s) = bt_keys (pt_peers s)"
proof -
  have "map (\<lambda>i. ps_peer (pi_snapshot i)) (List.map_filter (inspection s) ks) = ks"
    if "\<forall>k \<in> set ks. bt_get (pt_peers s) k \<noteq> None" for ks
    using that assms
    by (induction ks) (auto simp: map_filter_simps inspection_def store_wf_def split: option.splits)
  moreover have "\<forall>k \<in> set (bt_keys (pt_peers s)). bt_get (pt_peers s) k \<noteq> None"
    by (simp only: bt_get_keys) simp
  ultimately show ?thesis unfolding PeerStore_peers_def by blast
qed

section \<open>Discovery\<close>

record discovery_hint =
  dh_peer :: peer_id
  dh_addresses :: "string list"
  dh_protocols :: "string list"

record bootstrap_ingest_report =
  ir_imported :: nat
  ir_updated :: nat
  ir_skipped :: nat

definition hint_snapshot :: "discovery_hint \<Rightarrow> peer_snapshot" where
  "hint_snapshot hint =
     \<lparr>ps_peer = dh_peer hint, ps_protocols = dh_protocols hint, ps_addresses = dh_addresses hint\<rparr>"

definition ingest_hint ::
  "u64 \<Rightarrow> discovery_hint \<Rightarrow> peer_store \<times> bootstrap_ingest_report \<Rightarrow> peer_store \<times> bootstrap_ingest_report" where
  "ingest_hint seen_at hint acc =
     (case acc of (s, report) \<Rightarrow>
      let snapshot = hint_snapshot hint;
          report' = (case PeerStore_peer s (dh_peer hint) of
              Some existing \<Rightarrow>
                if existing = snapshot then report\<lparr>ir_skipped := ir_skipped report + 1\<rparr>
                else report\<lparr>ir_updated := ir_updated report + 1\<rparr>
            | None \<Rightarrow> report\<lparr>ir_imported := ir_imported report + 1\<rparr>)
      in (upsert_peer_with_status snapshot
            \<lparr>pst_source = PS_Bootstrap, pst_reachability = PR_Unknown,
             pst_last_seen_unix_secs = Some seen_at\<rparr> s, report'))"

definition ingest_bootstrap ::
  "discovery_hint list \<Rightarrow> peer_store \<Rightarrow> u64 \<Rightarrow> peer_store \<times> bootstrap_ingest_report" where
  "ingest_bootstrap bootstrap s seen_at =
     fold (ingest_hint seen_at) bootstrap (s, \<lparr>ir_imported = 0, ir_updated = 0, ir_skipped = 0\<rparr>)"

definition merge_peer_snapshot :: "discovery_hint list \<Rightarrow> peer_snapshot \<Rightarrow> peer_snapshot" where
  "merge_peer_snapshot bootstrap snapshot =
     (case find (\<lambda>hint. dh_peer hint = ps_peer snapshot) bootstrap of
        Some existing \<Rightarrow>
          \<lparr>ps_peer = ps_peer snapshot,
           ps_protocols = btree_set (ps_protocols snapshot @ dh_protocols existing),
           ps_addresses = btree_set (ps_addresses snapshot @ dh_addresses existing)\<rparr>
      | None \<Rightarrow> snapshot)"

definition report_total :: "bootstrap_ingest_report \<Rightarrow> nat" where
  "report_total r = ir_imported r + ir_updated r + ir_skipped r"

lemma ingest_hint_store: "fst (ingest_hint t h (s, r)) = upsert_peer_with_status (hint_snapshot h)
    \<lparr>pst_source = PS_Bootstrap, pst_reachability = PR_Unknown, pst_last_seen_unix_secs = Some t\<rparr> s"
  by (simp add: ingest_hint_def Let_def)

lemma ingest_hint_report:
  "report_total (snd (ingest_hint t h (s, r))) = Suc (report_total r)"
  "ir_imported (snd (ingest_hint t h (s, r))) =
     ir_imported r + (if PeerStore_peer s (dh_peer h) = None then 1 else 0)"
  by (auto simp: ingest_hint_def Let_def report_total_def split: option.splits)

lemma ingest_fold:
  assumes "fold (ingest_hint t) hs (s, r) = (s', r')"
  shows "report_total r' = report_total r + length hs" (is ?total)
    and "store_wf s \<Longrightarrow> store_wf s'" (is "_ \<Longrightarrow> ?wf")
    and "PeerStore_peer s' p =
           (case find (\<lambda>h. dh_peer h = p) (rev hs) of
              Some h \<Rightarrow> Some (hint_snapshot h) | None \<Rightarrow> PeerStore_peer s p)" (is ?get)
    and "ir_imported r' + card {q. PeerStore_peer s q \<noteq> None} =
         ir_imported r + card {q. PeerStore_peer s' q \<noteq> None}" (is ?count)
proof -
  have fin: "finite {q. PeerStore_peer s q \<noteq> None}" for s
    unfolding PeerStore_peer_def bt_get_keys by simp
  have "?total \<and> (store_wf s \<longrightarrow> ?wf) \<and> ?get \<and> ?count"
    using assms
  proof (induction hs arbitrary: s r)
    case (Cons h hs)
    obtain s1 r1 where h: "ingest_hint t h (s, r) = (s1, r1)" by fastforce
    have s1: "s1 = upsert_peer_with_status (hint_snapshot h)
        \<lparr>pst_source = PS_Bootstrap, pst_reachability = PR_Unknown, pst_last_seen_unix_secs = Some t\<rparr> s"
      using ingest_hint_store [of t h s r] h by simp
    then have "{q. PeerStore_peer s1 q \<noteq> None} = insert (dh_peer h) {q. PeerStore_peer s q \<noteq> None}"
      by (auto simp: PeerStore_peer_upsert hint_snapshot_def)
    then have "card {q. PeerStore_peer s1 q \<noteq> None} =
        card {q. PeerStore_peer s q \<noteq> None} + (if PeerStore_peer s (dh_peer h) = None then 1 else 0)"
      using fin [of s] by (simp add: card_insert_if)
    moreover have "fold (ingest_hint t) hs (s1, r1) = (s', r')" using Cons.prems h by simp
    note Cons.IH [OF this]
    ultimately show ?case
      using ingest_hint_report [of t h s r] h s1
      by (auto simp: PeerStore_peer_upsert find_append hint_snapshot_def
          intro: store_wf_upsert_peer_with_status split: option.splits)
  qed simp
  then show ?total "store_wf s \<Longrightarrow> ?wf" ?get ?count by auto
qed

text \<open>Ingesting bootstrap hints keeps the store well formed, counts every hint exactly once,
  counts as imported exactly the peers that were not known before, and leaves under each peer
  its last hint (peers without a hint keep their snapshot).\<close>

theorem ingest_bootstrap_spec:
  assumes "store_wf s" and "ingest_bootstrap hs s t = (s', r)"
  shows "store_wf s' \<and> ir_imported r + ir_updated r + ir_skipped r = length hs \<and>
         card {q. PeerStore_peer s' q \<noteq> None} = card {q. PeerStore_peer s q \<noteq> None} + ir_imported r \<and>
         (\<forall>p. PeerStore_peer s' p =
           (case find (\<lambda>h. dh_peer h = p) (rev hs) of
              Some h \<Rightarrow> Some (hint_snapshot h) | None \<Rightarrow> PeerStore_peer s p))"
  using ingest_fold [OF assms(2) [unfolded ingest_bootstrap_def]] assms(1)
  by (auto simp: report_total_def)

theorem ingest_bootstrap_spec_witness:
  "let h = \<lparr>dh_peer = PeerId [1], dh_addresses = [''a''], dh_protocols = []\<rparr>;
       (s', r) = ingest_bootstrap [h, h] PeerStore_default 5
   in store_wf s' \<and> ir_imported r + ir_updated r + ir_skipped r = 2"
proof -
  let ?h = "\<lparr>dh_peer = PeerId [1], dh_addresses = [''a''], dh_protocols = []\<rparr>"
  obtain s' r where "ingest_bootstrap [?h, ?h] PeerStore_default 5 = (s', r)" by fastforce
  with ingest_bootstrap_spec [OF store_wf_default this] show ?thesis by simp
qed

text \<open>A merged snapshot keeps the peer, loses no protocol and no address, and is canonical.\<close>

lemma merge_peer_snapshot_spec:
  "ps_peer (merge_peer_snapshot hs sn) = ps_peer sn"
  "set (ps_addresses sn) \<subseteq> set (ps_addresses (merge_peer_snapshot hs sn))"
  "set (ps_protocols sn) \<subseteq> set (ps_protocols (merge_peer_snapshot hs sn))"
  "merge_peer_snapshot hs (merge_peer_snapshot hs sn) = merge_peer_snapshot hs sn"
proof -
  have eq: "btree_set (btree_set (xs @ ys) @ ys) = btree_set (xs @ ys)" for xs ys :: "string list"
    using sorted_btree_set [of "btree_set (xs @ ys) @ ys"] sorted_btree_set [of "xs @ ys"]
    by (intro strict_sorted_equal) auto
  then show "merge_peer_snapshot hs (merge_peer_snapshot hs sn) = merge_peer_snapshot hs sn"
    by (auto simp: merge_peer_snapshot_def split: option.splits)
qed (auto simp: merge_peer_snapshot_def split: option.splits)

end
