(* ===== verification/Quip_Policy.thy ===== *)
theory Quip_Policy
  imports Quip_Membership
begin

text \<open>
  The crates \<open>policy\<close>, \<open>protocol\<close> and \<open>scheduler\<close>: the rule engine, the registry of protocols
  with version negotiation, and the queue policy of each traffic class.
\<close>

section \<open>Policy rules\<close>

datatype effect = Allow | Deny

definition effect_debug :: "effect \<Rightarrow> string" where
  "effect_debug e = (case e of Allow \<Rightarrow> ''Allow'' | Deny \<Rightarrow> ''Deny'')"

record policy_rule =
  pr_effect :: effect
  pr_network_id :: "network_id option"
  pr_protocol :: "protocol_id option"
  pr_source_peer :: "peer_id option"
  pr_required_capability :: "string option"

record decision =
  dc_allowed :: bool
  dc_reason :: string

definition has_capability :: "capability_grant list \<Rightarrow> string \<Rightarrow> protocol_id \<Rightarrow> bool" where
  "has_capability grants capability protocol \<longleftrightarrow>
     (\<exists>g \<in> set grants. capability \<in> set (cg_capabilities g) \<and> protocol \<in> set (cg_protocol_scopes g))"

fun evaluate ::
  "policy_rule list \<Rightarrow> network_id \<Rightarrow> peer_id \<Rightarrow> protocol_id \<Rightarrow> capability_grant list \<Rightarrow> decision" where
  "evaluate [] network_id source_peer protocol grants =
     \<lparr>dc_allowed = False,
      dc_reason = ''no matching policy rule for '' @ ProtocolId_as_str protocol\<rparr>"
| "evaluate (rule # rules) network_id source_peer protocol grants =
     (if (case pr_network_id rule of None \<Rightarrow> False | Some n \<Rightarrow> n \<noteq> network_id)
      then evaluate rules network_id source_peer protocol grants
      else if (case pr_source_peer rule of None \<Rightarrow> False | Some p \<Rightarrow> p \<noteq> source_peer)
      then evaluate rules network_id source_peer protocol grants
      else if (case pr_protocol rule of None \<Rightarrow> False | Some p \<Rightarrow> p \<noteq> protocol)
      then evaluate rules network_id source_peer protocol grants
      else if (case pr_required_capability rule of
                 None \<Rightarrow> False | Some c \<Rightarrow> \<not> has_capability grants c protocol)
      then evaluate rules network_id source_peer protocol grants
      else \<lparr>dc_allowed = (pr_effect rule = Allow),
            dc_reason = effect_debug (pr_effect rule) @ '' rule matched for '' @
                        ProtocolId_as_str protocol\<rparr>)"

text \<open>What a rule matches, as a predicate: every field it sets agrees with the request.\<close>

definition rule_matches ::
  "network_id \<Rightarrow> peer_id \<Rightarrow> protocol_id \<Rightarrow> capability_grant list \<Rightarrow> policy_rule \<Rightarrow> bool" where
  "rule_matches n p pr gs r \<longleftrightarrow>
     pr_network_id r \<in> {None, Some n} \<and> pr_source_peer r \<in> {None, Some p} \<and>
     pr_protocol r \<in> {None, Some pr} \<and>
     (\<forall>c. pr_required_capability r = Some c \<longrightarrow> has_capability gs c pr)"

lemma evaluate_Cons:
  "evaluate (r # rs) n p pr gs =
     (if rule_matches n p pr gs r
      then \<lparr>dc_allowed = (pr_effect r = Allow),
            dc_reason = effect_debug (pr_effect r) @ '' rule matched for '' @ ProtocolId_as_str pr\<rparr>
      else evaluate rs n p pr gs)"
  by (auto simp: rule_matches_def split: option.splits)

declare evaluate.simps(2) [simp del]

text \<open>The policy engine is first match with default deny: a request is allowed exactly when a
  rule matches it and the first such rule allows; the rules after it have no influence.\<close>

theorem evaluate_first_match:
  "evaluate rules n p pr gs =
     (case find (rule_matches n p pr gs) rules of
        None \<Rightarrow> \<lparr>dc_allowed = False,
                 dc_reason = ''no matching policy rule for '' @ ProtocolId_as_str pr\<rparr>
      | Some r \<Rightarrow> \<lparr>dc_allowed = (pr_effect r = Allow),
                   dc_reason = effect_debug (pr_effect r) @ '' rule matched for '' @
                               ProtocolId_as_str pr\<rparr>)"
  by (induction rules) (simp_all add: evaluate_Cons)

text \<open>More grants can only make more capability rules match.\<close>

lemma rule_matches_mono: "set gs \<subseteq> set gs' \<Longrightarrow> rule_matches n p pr gs r \<Longrightarrow> rule_matches n p pr gs' r"
  unfolding rule_matches_def has_capability_def by blast

section \<open>Protocol negotiation\<close>

datatype protocol_error = Unregistered string | NoCompatibleVersion string

record protocol_descriptor =
  pdx_id :: protocol_id
  pdx_compatible_versions :: "u16 list"
  pdx_required_features :: "string list"
  pdx_optional_features :: "string list"

record negotiated_protocol =
  np_id :: protocol_id
  np_version :: u16
  np_enabled_features :: "string list"

type_synonym protocol_registry = "(string, protocol_descriptor) btree_map"

definition register :: "protocol_descriptor \<Rightarrow> protocol_registry \<Rightarrow> protocol_registry" where
  "register d reg = bt_insert (ProtocolId_as_str (pdx_id d)) d reg"

text \<open>\<open>BTreeSet::intersection\<close>, in ascending order.\<close>

definition bs_inter :: "'a list \<Rightarrow> 'a list \<Rightarrow> 'a list" where
  "bs_inter xs ys = filter (\<lambda>x. x \<in> set ys) xs"

fun negotiate ::
  "protocol_registry \<Rightarrow> protocol_descriptor list \<Rightarrow> (negotiated_protocol list, protocol_error) result" where
  "negotiate reg [] = Ok []"
| "negotiate reg (offer # offers) =
     (case bt_get reg (ProtocolId_as_str (pdx_id offer)) of
        None \<Rightarrow> Err (Unregistered (ProtocolId_as_str (pdx_id offer)))
      | Some local_d \<Rightarrow>
          (case max_opt (bs_inter (pdx_compatible_versions local_d) (pdx_compatible_versions offer)) of
             None \<Rightarrow> Err (NoCompatibleVersion (ProtocolId_as_str (pdx_id offer)))
           | Some version \<Rightarrow>
               (case negotiate reg offers of
                  Err e \<Rightarrow> Err e
                | Ok negotiated \<Rightarrow>
                    Ok (\<lparr>np_id = pdx_id offer, np_version = version,
                         np_enabled_features =
                           bs_inter (pdx_optional_features local_d) (pdx_optional_features offer)\<rparr>
                        # negotiated))))"

text \<open>An agreement on one offer: the highest version both sides list, and their common options.\<close>

definition agreed :: "protocol_registry \<Rightarrow> protocol_descriptor \<Rightarrow> negotiated_protocol \<Rightarrow> bool" where
  "agreed reg offer n \<longleftrightarrow>
     (\<exists>l. bt_get reg (ProtocolId_as_str (pdx_id offer)) = Some l \<and> np_id n = pdx_id offer \<and>
        np_version n \<in> set (pdx_compatible_versions l) \<inter> set (pdx_compatible_versions offer) \<and>
        (\<forall>v \<in> set (pdx_compatible_versions l) \<inter> set (pdx_compatible_versions offer). v \<le> np_version n) \<and>
        set (np_enabled_features n) = set (pdx_optional_features l) \<inter> set (pdx_optional_features offer))"

lemma set_bs_inter [simp]: "set (bs_inter xs ys) = set xs \<inter> set ys"
  by (auto simp: bs_inter_def)

lemma max_opt_SomeD: "max_opt xs = Some m \<Longrightarrow> m \<in> set xs \<and> (\<forall>x \<in> set xs. x \<le> m)"
  by (auto simp: max_opt_Max split: if_splits)

text \<open>What an offer fails with, if it does.\<close>

definition refused :: "protocol_registry \<Rightarrow> protocol_descriptor \<Rightarrow> protocol_error option" where
  "refused reg offer =
     (case bt_get reg (ProtocolId_as_str (pdx_id offer)) of
        None \<Rightarrow> Some (Unregistered (ProtocolId_as_str (pdx_id offer)))
      | Some l \<Rightarrow>
          if set (pdx_compatible_versions l) \<inter> set (pdx_compatible_versions offer) = {}
          then Some (NoCompatibleVersion (ProtocolId_as_str (pdx_id offer))) else None)"

lemma max_opt_inter:
  "set xs \<inter> set ys = {} \<Longrightarrow> max_opt (bs_inter xs ys) = None"
  "set xs \<inter> set ys \<noteq> {} \<Longrightarrow> \<exists>v. max_opt (bs_inter xs ys) = Some v"
  by (auto simp: max_opt_def bs_inter_def filter_empty_conv)

text \<open>The first refused offer decides the error.\<close>

lemma negotiate_error:
  "(case negotiate reg offers of Ok _ \<Rightarrow> None | Err e \<Rightarrow> Some e) =
   (case List.map_filter (refused reg) offers of [] \<Rightarrow> None | e # _ \<Rightarrow> Some e)"
proof (induction offers)
  case (Cons offer offers)
  show ?case
  proof (cases "bt_get reg (ProtocolId_as_str (pdx_id offer))")
    case None
    then show ?thesis by (simp add: refused_def map_filter_simps)
  next
    case (Some l)
    show ?thesis
    proof (cases "set (pdx_compatible_versions l) \<inter> set (pdx_compatible_versions offer) = {}")
      case True
      with Some show ?thesis by (simp add: refused_def map_filter_simps max_opt_inter)
    next
      case False
      with max_opt_inter(2) obtain v where
        "max_opt (bs_inter (pdx_compatible_versions l) (pdx_compatible_versions offer)) = Some v" by blast
      with False Some Cons show ?thesis
        by (cases "negotiate reg offers") (simp_all add: refused_def map_filter_simps)
    qed
  qed
qed (simp add: map_filter_simps)

lemma negotiate_agreed:
  "negotiate reg offers = Ok ns \<Longrightarrow> list_all2 (agreed reg) offers ns"
proof (induction offers arbitrary: ns)
  case (Cons offer offers)
  from Cons.prems obtain l v ns' where
    l: "bt_get reg (ProtocolId_as_str (pdx_id offer)) = Some l" and
    v: "max_opt (bs_inter (pdx_compatible_versions l) (pdx_compatible_versions offer)) = Some v" and
    ns': "negotiate reg offers = Ok ns'" and
    ns: "ns = \<lparr>np_id = pdx_id offer, np_version = v, np_enabled_features =
           bs_inter (pdx_optional_features l) (pdx_optional_features offer)\<rparr> # ns'"
    by (auto split: option.splits result.splits)
  from l max_opt_SomeD [OF v] have "agreed reg offer (hd ns)"
    by (simp add: agreed_def ns)
  with Cons.IH [OF ns'] show ?case by (simp add: ns)
qed simp

text \<open>Negotiation fails with the error of the first offer that is not registered or shares no
  version, and with none such it gives for each offer, in order, the highest common version and
  the common optional features.\<close>

theorem negotiate_spec:
  "case List.map_filter (refused reg) offers of
     e # _ \<Rightarrow> negotiate reg offers = Err e
   | [] \<Rightarrow> \<exists>ns. negotiate reg offers = Ok ns \<and> list_all2 (agreed reg) offers ns"
  using negotiate_error [of reg offers] negotiate_agreed [of reg offers]
  by (auto split: list.splits result.splits)

section \<open>Queue policies\<close>

record queue_policy =
  qp_class :: traffic_class
  qp_max_inflight_messages :: nat
  qp_drop_stale :: bool

definition default_queue_policies :: "queue_policy list" where
  "default_queue_policies =
     [\<lparr>qp_class = Control, qp_max_inflight_messages = 1024, qp_drop_stale = False\<rparr>,
      \<lparr>qp_class = Interactive, qp_max_inflight_messages = 4096, qp_drop_stale = True\<rparr>,
      \<lparr>qp_class = Bulk, qp_max_inflight_messages = 16384, qp_drop_stale = False\<rparr>,
      \<lparr>qp_class = Background, qp_max_inflight_messages = 2048, qp_drop_stale = False\<rparr>]"

text \<open>The \<open>expect\<close> of the source is the \<^term>\<open>None\<close> here; it never happens.\<close>

definition policy_for :: "traffic_class \<Rightarrow> queue_policy option" where
  "policy_for tc = find (\<lambda>policy. qp_class policy = tc) default_queue_policies"

lemma policy_for_total: "\<exists>q. policy_for tc = Some q \<and> qp_class q = tc"
  by (cases tc) (simp_all add: policy_for_def default_queue_policies_def)

end
