(* ===== verification/Quip_Netcheck.thy ===== *)
theory Quip_Netcheck
  imports Quip_Prelude
begin

text \<open>The crate \<open>netcheck\<close>: the reachability report of a host and what is derived from it.\<close>

datatype nat_type =
    NT_Unknown | OpenInternet | FullCone | RestrictedCone | PortRestrictedCone | Symmetric | UdpBlocked

datatype probe_status = Probe_Pending | Probe_Passed | Probe_Failed

record probe_observation =
  po_vantage :: string
  po_status :: probe_status
  po_latency_ms :: "u32 option"
  po_detail :: string

record netcheck_report =
  nr_nat_type :: nat_type
  nr_udp_reachable :: bool
  nr_ipv6_reachable :: bool
  nr_hairpin_supported :: bool
  nr_public_udp_addr :: "string option"
  nr_port_mapped :: bool
  nr_probe_observations :: "probe_observation list"

definition nat_type_debug :: "nat_type \<Rightarrow> string" where
  "nat_type_debug t = (case t of
     NT_Unknown \<Rightarrow> ''Unknown'' | OpenInternet \<Rightarrow> ''OpenInternet'' | FullCone \<Rightarrow> ''FullCone''
   | RestrictedCone \<Rightarrow> ''RestrictedCone'' | PortRestrictedCone \<Rightarrow> ''PortRestrictedCone''
   | Symmetric \<Rightarrow> ''Symmetric'' | UdpBlocked \<Rightarrow> ''UdpBlocked'')"

definition relay_required :: "netcheck_report \<Rightarrow> bool" where
  "relay_required r \<longleftrightarrow>
     \<not> nr_udp_reachable r \<or> nr_nat_type r = Symmetric \<or> nr_nat_type r = UdpBlocked"

definition NetcheckReport_summary :: "netcheck_report \<Rightarrow> string" where
  "NetcheckReport_summary r =
     (let parts =
        [''nat='' @ nat_type_debug (nr_nat_type r),
         ''udp='' @ (if nr_udp_reachable r then ''reachable'' else ''blocked''),
         ''ipv6='' @ (if nr_ipv6_reachable r then ''reachable'' else ''unavailable''),
         ''hairpin='' @ (if nr_hairpin_supported r then ''supported'' else ''unsupported'')];
        parts = (case nr_public_udp_addr r of
                   Some addr \<Rightarrow> parts @ [''public_addr='' @ addr] | None \<Rightarrow> parts);
        parts = (if nr_port_mapped r then parts @ [''portmap=active''] else parts);
        parts = (if relay_required r then parts @ [''relay=fallback-required''] else parts)
      in join '', '' parts)"

definition NetcheckReport_warnings :: "netcheck_report \<Rightarrow> string list" where
  "NetcheckReport_warnings r =
     (let warnings = [];
          warnings = (if \<not> nr_udp_reachable r then warnings @
            [''UDP connectivity is blocked; direct QUIC paths will fail.''] else warnings);
          warnings = (if nr_nat_type r = Symmetric then warnings @
            [''Symmetric NAT detected; relay capacity should be kept warm.''] else warnings);
          warnings = (if \<not> nr_ipv6_reachable r then warnings @
            [''IPv6 pathing is unavailable; dual-stack upgrades are disabled.''] else warnings);
          warnings = (if \<not> nr_hairpin_supported r then warnings @
            [''Hairpinning is unavailable; same-site reflexive testing may degrade.''] else warnings)
      in warnings)"

lemma warnings_empty_iff:
  "NetcheckReport_warnings r = [] \<longleftrightarrow>
   nr_udp_reachable r \<and> nr_nat_type r \<noteq> Symmetric \<and> nr_ipv6_reachable r \<and> nr_hairpin_supported r"
  by (simp add: NetcheckReport_warnings_def Let_def)

end
