(* ===== verification/Quip_Float.thy ===== *)
theory Quip_Float
  imports Quip_Prelude
begin

text \<open>
  IEEE 754 binary32, as far as the routing code computes with it: literals, multiplication,
  addition, comparison, \<open>as u32\<close> and \<open>{:.1}\<close>. A finite value is a sign, a significand below
  \<open>2 ^ 24\<close> and an exponent of at least \<open>-149\<close>; results are the exact rational, rounded to nearest
  with ties to even.
\<close>

datatype f32 = NaN | Inf bool | Fin (f_neg: bool) (f_sig: nat) (f_exp: int)

fun bit_length :: "nat \<Rightarrow> nat" where
  "bit_length n = (if n = 0 then 0 else Suc (bit_length (n div 2)))"

declare bit_length.simps [simp del]

text \<open>\<open>p / q / 2 ^ e\<close> as a fraction.\<close>

definition scale :: "nat \<Rightarrow> nat \<Rightarrow> int \<Rightarrow> nat \<times> nat" where
  "scale p q e = (if 0 \<le> e then (p, q * 2 ^ nat e) else (p * 2 ^ nat (- e), q))"

definition round_half_even :: "nat \<Rightarrow> nat \<Rightarrow> nat" where
  "round_half_even p q =
     (let n = p div q; r = p mod q
      in if 2 * r < q \<or> (2 * r = q \<and> even n) then n else n + 1)"

definition f32_of_ratio :: "bool \<Rightarrow> nat \<Rightarrow> nat \<Rightarrow> f32" where
  "f32_of_ratio neg p q =
     (if p = 0 then Fin neg 0 (- 149)
      else let e0 = int (bit_length p) - int (bit_length q) - 24;
               (a0, b0) = scale p q e0;
               e1 = max (- 149) (if b0 * 2 ^ 24 \<le> a0 then e0 + 1 else e0);
               (a, b) = scale p q e1;
               n = round_half_even a b;
               (m, e) = (if n = 2 ^ 24 then (2 ^ 23, e1 + 1) else (n, e1))
           in if 104 < e then Inf neg else Fin neg m e)"

text \<open>The exact value of a finite number as a fraction.\<close>

definition ratio :: "nat \<Rightarrow> int \<Rightarrow> nat \<times> nat" where
  "ratio m e = (if 0 \<le> e then (m * 2 ^ nat e, 1) else (m, 2 ^ nat (- e)))"

text \<open>A decimal literal \<open>p / q\<close> of the source.\<close>

definition f32_lit :: "nat \<Rightarrow> nat \<Rightarrow> f32" where
  "f32_lit p q = f32_of_ratio False p q"

fun f32_mul :: "f32 \<Rightarrow> f32 \<Rightarrow> f32" where
  "f32_mul NaN y = NaN"
| "f32_mul x NaN = NaN"
| "f32_mul (Inf s) (Inf t) = Inf (s \<noteq> t)"
| "f32_mul (Inf s) (Fin t m e) = (if m = 0 then NaN else Inf (s \<noteq> t))"
| "f32_mul (Fin s m e) (Inf t) = (if m = 0 then NaN else Inf (s \<noteq> t))"
| "f32_mul (Fin s m e) (Fin t n f) =
     (case ratio (m * n) (e + f) of (p, q) \<Rightarrow> f32_of_ratio (s \<noteq> t) p q)"

fun f32_add :: "f32 \<Rightarrow> f32 \<Rightarrow> f32" where
  "f32_add NaN y = NaN"
| "f32_add x NaN = NaN"
| "f32_add (Inf s) (Inf t) = (if s = t then Inf s else NaN)"
| "f32_add (Inf s) (Fin t m e) = Inf s"
| "f32_add (Fin s m e) (Inf t) = Inf t"
| "f32_add (Fin s m e) (Fin t n f) =
     (let g = min e f;
          a = m * 2 ^ nat (e - g); b = n * 2 ^ nat (f - g);
          (r, c) = (if s = t then (s, a + b) else if b \<le> a then (s, a - b) else (t, b - a));
          sign = (if c = 0 then s \<and> t else r);
          (p, q) = ratio c g
      in f32_of_ratio sign p q)"

definition f32_ge_one :: "f32 \<Rightarrow> bool" where
  "f32_ge_one x = (case x of
     NaN \<Rightarrow> False | Inf s \<Rightarrow> \<not> s
   | Fin s m e \<Rightarrow> \<not> s \<and> (case ratio m e of (p, q) \<Rightarrow> q \<le> p))"

text \<open>\<open>as u32\<close> truncates, saturates and sends NaN to zero.\<close>

definition f32_as_u32 :: "f32 \<Rightarrow> u32" where
  "f32_as_u32 x = (case x of
     NaN \<Rightarrow> 0
   | Inf s \<Rightarrow> if s then 0 else - 1
   | Fin s m e \<Rightarrow>
       if s then 0
       else (case ratio m e of (p, q) \<Rightarrow>
               if p div q < 2 ^ 32 then word_of_nat (p div q) else - 1))"

text \<open>\<open>{:.1}\<close>: the exact value to one decimal.\<close>

definition f32_display1 :: "f32 \<Rightarrow> string" where
  "f32_display1 x = (case x of
     NaN \<Rightarrow> ''NaN''
   | Inf s \<Rightarrow> if s then ''-inf'' else ''inf''
   | Fin s m e \<Rightarrow> (case ratio m e of (p, q) \<Rightarrow>
       let n = round_half_even (10 * p) q
       in (if s then ''-'' else '''') @ show_nat (n div 10) @ ''.'' @ show_nat (n mod 10)))"

text \<open>\<open>PartialEq\<close>: NaN differs from itself, the zeros are equal.\<close>

definition f32_eq :: "f32 \<Rightarrow> f32 \<Rightarrow> bool" where
  "f32_eq x y = (case (x, y) of
     (Inf s, Inf t) \<Rightarrow> s = t
   | (Fin s m e, Fin t n f) \<Rightarrow> (m = 0 \<and> n = 0) \<or> (s = t \<and> m = n \<and> e = f)
   | _ \<Rightarrow> False)"

section \<open>Laws\<close>

lemma f32_as_u32_special [simp]: "f32_as_u32 NaN = 0" "f32_as_u32 (Inf True) = 0" "f32_as_u32 (Inf False) = - 1"
  by (simp_all add: f32_as_u32_def)

text \<open>Rounding to nearest: the result is within half a unit, and exact where it can be.\<close>

lemma round_half_even_near:
  assumes "0 < q"
  shows "\<bar>2 * int (round_half_even p q) * int q - 2 * int p\<bar> \<le> int q"
proof -
  have p: "int p = int (p div q) * int q + int (p mod q)"
    by (metis div_mult_mod_eq of_nat_add of_nat_mult)
  have "p mod q < q" using assms by simp
  then show ?thesis
    by (auto simp: round_half_even_def Let_def p algebra_simps)
qed

lemma round_half_even_exact [simp]: "0 < q \<Longrightarrow> round_half_even (n * q) q = n"
  by (simp add: round_half_even_def)

text \<open>The literals and scaled losses of the routing code, evaluated.\<close>

lemmas f32_eval = f32_lit_def f32_of_ratio_def bit_length.simps scale_def round_half_even_def
  ratio_def f32_as_u32_def f32_display1_def show_nat.simps Let_def

lemma f32_examples:
  "f32_lit 1 1 = Fin False (2 ^ 23) (- 23)"
  "f32_lit 1 10 = Fin False 13421773 (- 27)"
  "f32_as_u32 (f32_mul (f32_lit 3 10) (f32_lit 10 1)) = 3"
  by (simp_all add: f32_eval)

end
