(* ===== verification/Quip_Routing.thy ===== *)
theory Quip_Routing
  imports Quip_Crypto Quip_Float
begin

text \<open>
  The crate \<open>routing\<close>: the cost of a path for a traffic class, its explanation, and the
  selection of the best path. Costs are \<open>u32\<close>; sums and products wrap, as they do in a release
  build.
\<close>

record path_score_breakdown =
  sb_total :: u32
  sb_latency_cost :: u32
  sb_jitter_cost :: u32
  sb_loss_cost :: u32
  sb_throughput_cost :: u32
  sb_relay_cost :: u32

record path_explanation =
  pe_class :: traffic_class
  pe_score :: path_score_breakdown
  pe_summary :: string
  pe_strengths :: "string list"
  pe_tradeoffs :: "string list"

datatype path_source = Observed | Bootstrap | AuthorityRelay

definition path_source_debug :: "path_source \<Rightarrow> string" where
  "path_source_debug s = (case s of
     Observed \<Rightarrow> ''Observed'' | Bootstrap \<Rightarrow> ''Bootstrap'' | AuthorityRelay \<Rightarrow> ''AuthorityRelay'')"

record path_candidate =
  pc_peer :: peer_id
  pc_path_kind :: path_kind
  pc_relay_peer :: "peer_id option"
  pc_source :: path_source
  pc_traffic_classes :: "traffic_class list"
  pc_rtt_ms :: u32
  pc_jitter_ms :: u32
  pc_loss_pct :: f32
  pc_throughput_mbps :: u32
  pc_relay_penalty :: u32

record path_decision =
  pd_selected :: path_candidate
  pd_class :: traffic_class
  pd_explanation :: path_explanation

definition supports_class :: "path_candidate \<Rightarrow> traffic_class \<Rightarrow> bool" where
  "supports_class c class \<longleftrightarrow> class \<in> set (pc_traffic_classes c)"

definition score_breakdown :: "path_candidate \<Rightarrow> traffic_class \<Rightarrow> path_score_breakdown" where
  "score_breakdown c class =
     (let interactive =
            \<lparr>sb_total = pc_rtt_ms c + pc_jitter_ms c * 2 + pc_relay_penalty c +
                        f32_as_u32 (f32_mul (pc_loss_pct c) (f32_lit 10 1)),
             sb_latency_cost = pc_rtt_ms c,
             sb_jitter_cost = pc_jitter_ms c * 2,
             sb_loss_cost = f32_as_u32 (f32_mul (pc_loss_pct c) (f32_lit 10 1)),
             sb_throughput_cost = 0,
             sb_relay_cost = pc_relay_penalty c\<rparr>
      in case class of
           Control \<Rightarrow> interactive
         | Interactive \<Rightarrow> interactive
         | Bulk \<Rightarrow>
             \<lparr>sb_total = pc_relay_penalty c + sat_sub 250 (pc_throughput_mbps c div 4),
              sb_latency_cost = 0,
              sb_jitter_cost = 0,
              sb_loss_cost = f32_as_u32 (f32_mul (pc_loss_pct c) (f32_lit 20 1)),
              sb_throughput_cost = sat_sub 250 (pc_throughput_mbps c div 4),
              sb_relay_cost = pc_relay_penalty c\<rparr>
         | Background \<Rightarrow>
             \<lparr>sb_total = pc_relay_penalty c + pc_rtt_ms c div 2 +
                         f32_as_u32 (f32_mul (pc_loss_pct c) (f32_lit 8 1)),
              sb_latency_cost = pc_rtt_ms c div 2,
              sb_jitter_cost = 0,
              sb_loss_cost = f32_as_u32 (f32_mul (pc_loss_pct c) (f32_lit 8 1)),
              sb_throughput_cost = 0,
              sb_relay_cost = pc_relay_penalty c\<rparr>)"

definition score :: "path_candidate \<Rightarrow> traffic_class \<Rightarrow> u32" where
  "score c class = sb_total (score_breakdown c class)"

definition explain :: "'x codecs_scheme \<Rightarrow> path_candidate \<Rightarrow> traffic_class \<Rightarrow> path_explanation" where
  "explain X c class =
     (let score = score_breakdown c class;
          strengths = (if pc_rtt_ms c \<le> 25
            then [''low RTT at '' @ show_word (pc_rtt_ms c) @ '' ms''] else []);
          strengths = (if 500 \<le> pc_throughput_mbps c
            then strengths @ [''high throughput at '' @ show_word (pc_throughput_mbps c) @ '' Mbps'']
            else strengths);
          strengths = (if pc_relay_penalty c = 0
            then strengths @ [''direct routing avoids relay tax''] else strengths);
          tradeoffs = (if pc_path_kind c = Relay
            then [''relay routing adds intermediate hop cost''] else []);
          strengths = (if pc_path_kind c = Relay
            then (case pc_relay_peer c of
                    Some relay_peer \<Rightarrow> strengths @
                      [''reachable through relay '' @ PeerId_to_text X relay_peer]
                  | None \<Rightarrow> strengths)
            else strengths);
          tradeoffs = (if f32_ge_one (pc_loss_pct c)
            then tradeoffs @ [''loss is elevated at '' @ f32_display1 (pc_loss_pct c) @ ''%'']
            else tradeoffs);
          tradeoffs = (if 10 \<le> pc_jitter_ms c
            then tradeoffs @ [''jitter is elevated at '' @ show_word (pc_jitter_ms c) @ '' ms'']
            else tradeoffs)
      in \<lparr>pe_class = class, pe_score = score,
          pe_summary = path_kind_debug (pc_path_kind c) @ '' routing for '' @
            PeerId_to_text X (pc_peer c) @ '' via '' @
            (case pc_relay_peer c of None \<Rightarrow> ''direct'' | Some r \<Rightarrow> PeerId_to_text X r) @
            '' from '' @ path_source_debug (pc_source c) @ '' scores '' @
            show_word (sb_total score) @ '' for '' @ traffic_class_debug class @ '' traffic'',
          pe_strengths = strengths, pe_tradeoffs = tradeoffs\<rparr>)"

definition select_best_path ::
  "'x codecs_scheme \<Rightarrow> path_candidate list \<Rightarrow> traffic_class \<Rightarrow> path_decision option" where
  "select_best_path X candidates class =
     (case min_by_key (\<lambda>c. score c class) (filter (\<lambda>c. supports_class c class) candidates) of
        None \<Rightarrow> None
      | Some selected \<Rightarrow>
          Some \<lparr>pd_selected = selected, pd_class = class, pd_explanation = explain X selected class\<rparr>)"

section \<open>Laws\<close>

lemma select_best_path_None:
  "select_best_path X cs tc = None \<longleftrightarrow> (\<forall>c \<in> set cs. \<not> supports_class c tc)"
proof -
  have "select_best_path X cs tc = None \<longleftrightarrow> filter (\<lambda>c. supports_class c tc) cs = []"
    unfolding select_best_path_def
    by (cases "min_by_key (\<lambda>c. score c tc) (filter (\<lambda>c. supports_class c tc) cs)")
       (simp_all, metis min_by_key_None option.distinct(1))
  then show ?thesis by (simp add: filter_empty_conv)
qed

lemma select_best_path_Some:
  assumes "select_best_path X cs tc = Some d"
  shows "\<exists>us vs. cs = us @ pd_selected d # vs \<and> supports_class (pd_selected d) tc \<and>
           (\<forall>c \<in> set us. supports_class c tc \<longrightarrow> score (pd_selected d) tc < score c tc) \<and>
           (\<forall>c \<in> set vs. supports_class c tc \<longrightarrow> score (pd_selected d) tc \<le> score c tc)"
proof -
  let ?s = "pd_selected d" and ?P = "\<lambda>c. supports_class c tc"
  from assms have "min_by_key (\<lambda>c. score c tc) (filter ?P cs) = Some ?s"
    by (auto simp: select_best_path_def split: option.splits)
  from min_by_key_first [OF this] obtain us vs where
    f: "filter ?P cs = us @ ?s # vs" and
    o: "\<forall>u \<in> set us. score ?s tc < score u tc" "\<forall>v \<in> set vs. score ?s tc \<le> score v tc"
    by blast
  from filter_split [OF f] obtain as bs where
    "cs = as @ ?s # bs" "?P ?s" "filter ?P as = us" "filter ?P bs = vs" by blast
  with o show ?thesis by (intro exI [of _ as] exI [of _ bs]) auto
qed

text \<open>A path's total is the sum of its reported costs, except for bulk traffic, whose reported
  loss cost does not enter the total.\<close>

lemma score_breakdown_sum:
  "sb_total (score_breakdown c tc) =
     sb_latency_cost (score_breakdown c tc) + sb_jitter_cost (score_breakdown c tc) +
     (if tc = Bulk then 0 else sb_loss_cost (score_breakdown c tc)) +
     sb_throughput_cost (score_breakdown c tc) + sb_relay_cost (score_breakdown c tc)"
  by (cases tc) (simp_all add: score_breakdown_def Let_def)

text \<open>For bulk traffic the score is the relay penalty plus at most 250 and does not wrap for
  penalties a relay map or a candidate of the daemon carries.\<close>

lemma bulk_score_bound:
  assumes "unat (pc_relay_penalty c) + 250 < 2 ^ 32"
  shows "unat (score c Bulk) = unat (pc_relay_penalty c) + (250 - unat (pc_throughput_mbps c) div 4)"
proof -
  have "unat (sat_sub 250 (pc_throughput_mbps c div 4)) = 250 - unat (pc_throughput_mbps c) div 4"
    by (simp add: unat_sat_sub unat_div)
  with assms show ?thesis
    by (simp add: score_def score_breakdown_def Let_def unat_word_ariths take_bit_nat_eq_self)
qed

text \<open>C23: The selected path is a candidate that carries the class, no other such candidate scores
  lower, among equals the earliest listed wins, and selection fails exactly when no candidate
  carries the class.\<close>

theorem select_best_path_spec:
  "(case select_best_path X cs tc of
      None \<Rightarrow> \<forall>c \<in> set cs. \<not> supports_class c tc
    | Some d \<Rightarrow>
        pd_class d = tc \<and> pd_explanation d = explain X (pd_selected d) tc \<and>
        (\<exists>us vs. cs = us @ pd_selected d # vs \<and> supports_class (pd_selected d) tc \<and>
           (\<forall>c \<in> set us. supports_class c tc \<longrightarrow> score (pd_selected d) tc < score c tc) \<and>
           (\<forall>c \<in> set vs. supports_class c tc \<longrightarrow> score (pd_selected d) tc \<le> score c tc)))"
proof (cases "select_best_path X cs tc")
  case None
  then have "\<forall>c \<in> set cs. \<not> supports_class c tc" by (simp only: select_best_path_None)
  with None show ?thesis by simp
next
  case (Some d)
  then have "pd_class d = tc \<and> pd_explanation d = explain X (pd_selected d) tc"
    by (auto simp: select_best_path_def split: option.splits)
  with select_best_path_Some [OF Some] Some show ?thesis by simp
qed

theorem select_best_path_spec_witness:
  "let c = \<lparr>pc_peer = PeerId [1], pc_path_kind = Lan, pc_relay_peer = None, pc_source = Observed,
            pc_traffic_classes = [Bulk], pc_rtt_ms = 5, pc_jitter_ms = 1, pc_loss_pct = NaN,
            pc_throughput_mbps = 400, pc_relay_penalty = 0\<rparr>;
       r = c\<lparr>pc_relay_penalty := 25\<rparr>
   in \<exists>d. select_best_path (sample_codecs) [r, c] Bulk = Some d \<and> score (pd_selected d) Bulk \<le> score r Bulk"
proof -
  let ?c = "\<lparr>pc_peer = PeerId [1], pc_path_kind = Lan, pc_relay_peer = None, pc_source = Observed,
            pc_traffic_classes = [Bulk], pc_rtt_ms = 5, pc_jitter_ms = 1, pc_loss_pct = NaN,
            pc_throughput_mbps = 400, pc_relay_penalty = 0\<rparr>"
  let ?cs = "[?c\<lparr>pc_relay_penalty := 25\<rparr>, ?c]"
  have "select_best_path sample_codecs ?cs Bulk \<noteq> None"
    unfolding select_best_path_None by (simp add: supports_class_def)
  then obtain d where d: "select_best_path sample_codecs ?cs Bulk = Some d" by blast
  have "score (pd_selected d) Bulk \<le> score (?c\<lparr>pc_relay_penalty := 25\<rparr>) Bulk"
    using select_best_path_spec [where X = sample_codecs and cs = ?cs and tc = Bulk] d
    by (auto simp: supports_class_def Cons_eq_append_conv)
  with d show ?thesis by (auto simp: Let_def)
qed

end
