(* ===== verification/Quip_Json.thy ===== *)
theory Quip_Json
  imports Quip_Prelude
begin

text \<open>
  The \<open>serde_json::Value\<close> trees the sources build with \<open>json!\<close> and inspect when they validate
  and migrate durable state. An object is a map in key order (the default \<open>Map\<close> of
  \<open>serde_json\<close> is a \<open>BTreeMap\<close>). A number is an unsigned, a negative or a floating number;
  the bits of a float are carried and never inspected.
\<close>

datatype number = PosInt u64 | NegInt int | Float "64 word"

datatype json =
    JNull
  | JBool bool
  | JNumber number
  | JString string
  | JArray "json list"
  | JObject "(string \<times> json) list"

definition as_object :: "json \<Rightarrow> (string, json) btree_map option" where
  "as_object v = (case v of JObject m \<Rightarrow> Some m | _ \<Rightarrow> None)"

definition as_u64 :: "json \<Rightarrow> u64 option" where
  "as_u64 v = (case v of JNumber (PosInt n) \<Rightarrow> Some n | _ \<Rightarrow> None)"

text \<open>\<open>json!({ ... })\<close>, and the conversions of the values it interpolates.\<close>

definition json_object :: "(string \<times> json) list \<Rightarrow> json" where
  "json_object es = JObject (bt_of_list es)"

definition json_opt :: "('a \<Rightarrow> json) \<Rightarrow> 'a option \<Rightarrow> json" where
  "json_opt f x = (case x of None \<Rightarrow> JNull | Some a \<Rightarrow> f a)"

definition json_usize :: "nat \<Rightarrow> json" where
  "json_usize n = JNumber (PosInt (word_of_nat n))"

definition json_u64 :: "u64 \<Rightarrow> json" where
  "json_u64 n = JNumber (PosInt n)"

definition json_u32 :: "u32 \<Rightarrow> json" where
  "json_u32 n = JNumber (PosInt (ucast n))"

lemma as_u64_simps [simp]: "as_u64 (JNumber (PosInt n)) = Some n"
  by (simp add: as_u64_def)

lemma as_object_simps [simp]: "as_object (JObject m) = Some m"
  by (simp add: as_object_def)

lemma as_object_SomeD: "as_object v = Some m \<Longrightarrow> v = JObject m"
  by (simp add: as_object_def split: json.splits)

end
