(* ===== verification/Quip_Relay.thy ===== *)
theory Quip_Relay
  imports Quip_Identity Quip_Json
begin

text \<open>
  The crates \<open>relaywire\<close> and \<open>relay\<close>: the frames, the session table of a relay, the admission
  of sessions, the registry of in-process relays and the \<open>RelayControl\<close> interface its clients
  use. The clock reading and the random identifier an \<open>open_session\<close> draws are arguments.
\<close>

section \<open>Wire types\<close>

datatype relay_reject_code =
    RJ_Unauthorized
  | RJ_UnsupportedTrafficClass
  | RJ_CapacityExceeded
  | RJ_SessionExists
  | RJ_InvalidIdentityProof
  | RJ_DestinationUnauthorized
  | RJ_DestinationProtocolRejected
  | RJ_InvalidRequest

record relay_open_request =
  oq_attempt_id :: bytes
  oq_network_id :: network_id
  oq_source :: peer_id
  oq_source_public_key :: public_identity_key
  oq_source_credential :: session_credential
  oq_destination :: peer_id
  oq_protocol :: "protocol_id option"
  oq_traffic_class :: traffic_class

record relay_session_accepted =
  ra_attempt_id :: bytes
  ra_session_id :: bytes
  ra_source :: peer_id
  ra_destination :: peer_id
  ra_protocol :: "protocol_id option"
  ra_traffic_class :: traffic_class

record relay_session_rejected =
  rj_attempt_id :: bytes
  rj_code :: relay_reject_code
  rj_source :: peer_id
  rj_destination :: peer_id
  rj_protocol :: "protocol_id option"
  rj_traffic_class :: traffic_class
  rj_reason :: string

datatype relay_frame =
    OpenSession relay_open_request
  | SessionAccepted relay_session_accepted
  | SessionRejected relay_session_rejected
  | Data bytes bytes
  | Health bytes u32 u8
  | Close bytes string

record relay_announcement =
  an_peer_id :: peer_id
  an_region :: string
  an_advertised_endpoints :: "string list"
  an_control_endpoint :: string
  an_max_bandwidth_bps :: u64
  an_supports_quic_datagrams :: bool
  an_supports_path_migration :: bool
  an_traffic_classes :: "string list"

record relay_map =
  rm_version :: u64
  rm_generated_at :: u64
  rm_relays :: "relay_announcement list"

section \<open>Relay nodes and errors\<close>

record relay_quota =
  rq_peer :: peer_id
  rq_max_bandwidth_bps :: u64
  rq_max_concurrent_sessions :: u32

record relay_destination =
  rd_peer :: peer_id
  rd_protocols :: "protocol_id list"

record relay_node =
  rn_announcement :: relay_announcement
  rn_quotas :: "relay_quota list"
  rn_destinations :: "relay_destination list"

datatype relay_error =
    Unauthorized
  | InvalidIdentityProof string
  | DestinationUnauthorized peer_id
  | DestinationProtocolRejected peer_id
  | Unavailable peer_id
  | UnsupportedTrafficClass traffic_class
  | CapacityExceeded peer_id
  | SessionExists
  | SessionNotFound
  | ControlTransport string
  | ControlDecode string

definition relay_error_text :: "'x codecs_scheme \<Rightarrow> relay_error \<Rightarrow> string" where
  "relay_error_text X e = (case e of
     Unauthorized \<Rightarrow> ''peer is not authorized to use this relay''
   | InvalidIdentityProof s \<Rightarrow> ''source identity proof is invalid: '' @ s
   | DestinationUnauthorized p \<Rightarrow> ''relay destination '' @ PeerId_to_text X p @ '' is not authorized''
   | DestinationProtocolRejected p \<Rightarrow>
       ''relay destination '' @ PeerId_to_text X p @ '' does not support requested protocol''
   | Unavailable p \<Rightarrow> ''relay '' @ PeerId_to_text X p @ '' is unavailable''
   | UnsupportedTrafficClass c \<Rightarrow>
       ''relay path does not support traffic class '' @ traffic_class_debug c
   | CapacityExceeded p \<Rightarrow> ''relay is at session capacity for peer '' @ PeerId_to_text X p
   | SessionExists \<Rightarrow> ''relay session already exists''
   | SessionNotFound \<Rightarrow> ''relay session was not found''
   | ControlTransport s \<Rightarrow> ''relay control transport failed: '' @ s
   | ControlDecode s \<Rightarrow> ''relay control payload decode failed: '' @ s)"

datatype relay_session_status = RS_Pending | RS_Open | RS_Closed

record relay_session =
  rs_session_id :: bytes
  rs_source :: peer_id
  rs_destination :: peer_id
  rs_protocol :: "protocol_id option"
  rs_traffic_class :: traffic_class
  rs_status :: relay_session_status

section \<open>The session table\<close>

type_synonym relay_runtime = "(bytes, relay_session) btree_map"

definition RelayRuntime_session :: "relay_runtime \<Rightarrow> bytes \<Rightarrow> relay_session option" where
  "RelayRuntime_session rt session_id = bt_get rt session_id"

definition RelayRuntime_session_count :: "relay_runtime \<Rightarrow> nat" where
  "RelayRuntime_session_count rt = length (filter (\<lambda>s. rs_status s = RS_Open) (bt_values rt))"

definition pending_session_id :: "bytes \<Rightarrow> bytes" where
  "pending_session_id attempt_id = attempt_id"

definition apply_frame :: "relay_frame \<Rightarrow> relay_runtime \<Rightarrow> (unit, relay_error) result \<times> relay_runtime" where
  "apply_frame frame rt = (case frame of
     OpenSession request \<Rightarrow>
       (Ok (), bt_insert (pending_session_id (oq_attempt_id request))
          \<lparr>rs_session_id = pending_session_id (oq_attempt_id request), rs_source = oq_source request,
           rs_destination = oq_destination request, rs_protocol = oq_protocol request,
           rs_traffic_class = oq_traffic_class request, rs_status = RS_Pending\<rparr> rt)
   | SessionAccepted accepted \<Rightarrow>
       (Ok (), bt_insert (ra_session_id accepted)
          \<lparr>rs_session_id = ra_session_id accepted, rs_source = ra_source accepted,
           rs_destination = ra_destination accepted, rs_protocol = ra_protocol accepted,
           rs_traffic_class = ra_traffic_class accepted, rs_status = RS_Open\<rparr> rt)
   | SessionRejected rejected \<Rightarrow>
       (Err Unauthorized, bt_remove (pending_session_id (rj_attempt_id rejected)) rt)
   | Data session_id _ \<Rightarrow>
       (if (case bt_get rt session_id of None \<Rightarrow> False | Some s \<Rightarrow> rs_status s = RS_Open)
        then Ok () else Err Unauthorized, rt)
   | Health session_id _ _ \<Rightarrow>
       (if (case bt_get rt session_id of None \<Rightarrow> False | Some s \<Rightarrow> rs_status s = RS_Open)
        then Ok () else Err Unauthorized, rt)
   | Close session_id _ \<Rightarrow>
       (Ok (), bt_modify session_id (\<lambda>s. s\<lparr>rs_status := RS_Closed\<rparr>) rt))"

section \<open>Admission\<close>

definition supports_traffic_class :: "string list \<Rightarrow> traffic_class \<Rightarrow> bool" where
  "supports_traffic_class values tc \<longleftrightarrow>
     list_ex (\<lambda>value. (value = ''NetworkControl'' \<and> tc = Control) \<or>
                      (value = ''InteractiveRpc'' \<and> tc = Interactive) \<or>
                      (value = ''BulkTransfer'' \<and> tc = Bulk) \<or>
                      (value = ''Background'' \<and> tc = Background)) values"

definition identity_error_text :: "identity_error \<Rightarrow> string" where
  "identity_error_text e = (case e of
     Io s \<Rightarrow> ''io error: '' @ s
   | Serialization s \<Rightarrow> ''serialization error: '' @ s
   | InvalidKeystore \<Rightarrow> ''invalid keystore passphrase or ciphertext''
   | KeyDerivation \<Rightarrow> ''scrypt key derivation failed'')"

definition identity_error_message :: "identity_error \<Rightarrow> string" where
  "identity_error_message e = ''source identity proof verification failed: '' @ identity_error_text e"

definition verify_source_key_binding ::
  "'x primitives_scheme \<Rightarrow> public_identity_key \<Rightarrow> peer_id \<Rightarrow> (unit, relay_error) result" where
  "verify_source_key_binding X key source =
     (if PublicIdentityKey_peer_id X key \<noteq> source
      then Err (InvalidIdentityProof ''source identity proof peer id does not match claimed source'')
      else Ok ())"

definition verify_session_credential ::
  "'x keystore_env_scheme \<Rightarrow> u64 \<Rightarrow> relay_open_request \<Rightarrow> (unit, string) result" where
  "verify_session_credential X now request =
     (case SessionCredential_verify X (oq_source_credential request) (oq_source_public_key request) of
        Err e \<Rightarrow> Err (identity_error_message e)
      | Ok _ \<Rightarrow>
          if sc_peer_id (oq_source_credential request) \<noteq> oq_source request
          then Err ''source identity proof peer id does not match credential''
          else if sc_network_id (oq_source_credential request) \<noteq> oq_network_id request
          then Err ''source identity proof network does not match relay network''
          else if sc_expires_at (oq_source_credential request) < now
          then Err ''source identity proof is expired''
          else (case oq_protocol request of
                  Some protocol \<Rightarrow>
                    if ProtocolId_as_str protocol \<notin> set (sc_protocol_versions (oq_source_credential request))
                    then Err ''source identity proof does not authorize requested protocol''
                    else Ok ()
                | None \<Rightarrow> Ok ()))"

definition verify_open_request ::
  "'x keystore_env_scheme \<Rightarrow> u64 \<Rightarrow> relay_open_request \<Rightarrow> (unit, relay_error) result" where
  "verify_open_request X now request =
     (case verify_source_key_binding X (oq_source_public_key request) (oq_source request) of
        Err e \<Rightarrow> Err e
      | Ok _ \<Rightarrow> map_err InvalidIdentityProof (verify_session_credential X now request))"

definition authorize_destination ::
  "relay_destination list \<Rightarrow> peer_id \<Rightarrow> protocol_id option \<Rightarrow> (unit, relay_error) result" where
  "authorize_destination destinations destination protocol =
     (case find (\<lambda>c. rd_peer c = destination) destinations of
        None \<Rightarrow> Err (DestinationUnauthorized destination)
      | Some entry \<Rightarrow>
          (case protocol of
             Some p \<Rightarrow> if p \<notin> set (rd_protocols entry)
                       then Err (DestinationProtocolRejected destination) else Ok ()
           | None \<Rightarrow> Ok ()))"

record relay_service =
  sv_node :: relay_node
  sv_runtime :: relay_runtime

definition RelayService_new :: "relay_node \<Rightarrow> relay_service" where
  "RelayService_new node = \<lparr>sv_node = node, sv_runtime = []\<rparr>"

definition rejected :: "relay_open_request \<Rightarrow> relay_reject_code \<Rightarrow> string \<Rightarrow> relay_session_rejected" where
  "rejected request code reason =
     \<lparr>rj_attempt_id = oq_attempt_id request, rj_code = code, rj_source = oq_source request,
      rj_destination = oq_destination request, rj_protocol = oq_protocol request,
      rj_traffic_class = oq_traffic_class request, rj_reason = reason\<rparr>"

definition active_for_source :: "relay_runtime \<Rightarrow> peer_id \<Rightarrow> nat" where
  "active_for_source rt source =
     length (filter (\<lambda>s. rs_source s = source \<and> rs_status s = RS_Open) (bt_values rt))"

definition RelayService_open_session ::
  "'x keystore_env_scheme \<Rightarrow> u64 \<Rightarrow> bytes \<Rightarrow> relay_open_request \<Rightarrow> relay_service \<Rightarrow>
   (relay_session_accepted, relay_session_rejected) result \<times> relay_service" where
  "RelayService_open_session X now random_session_id request sv =
     (case verify_open_request X now request of
        Err e \<Rightarrow> (Err (rejected request RJ_InvalidIdentityProof (relay_error_text X e)), sv)
      | Ok _ \<Rightarrow>
      if \<not> supports_traffic_class (an_traffic_classes (rn_announcement (sv_node sv))) (oq_traffic_class request)
      then (Err (rejected request RJ_UnsupportedTrafficClass
              (''relay does not support '' @ traffic_class_debug (oq_traffic_class request) @ '' traffic'')), sv)
      else case authorize_destination (rn_destinations (sv_node sv)) (oq_destination request) (oq_protocol request) of
        Err e \<Rightarrow> (Err (rejected request
            (case e of DestinationProtocolRejected _ \<Rightarrow> RJ_DestinationProtocolRejected
                     | _ \<Rightarrow> RJ_DestinationUnauthorized)
            (relay_error_text X e)), sv)
      | Ok _ \<Rightarrow>
      case (case find (\<lambda>q. rq_peer q = oq_source request) (rn_quotas (sv_node sv)) of
              Some quota \<Rightarrow>
                if word_of_nat (active_for_source (sv_runtime sv) (oq_source request))
                     \<ge> rq_max_concurrent_sessions quota
                then Some quota else None
            | None \<Rightarrow> None) of
        Some quota \<Rightarrow> (Err (rejected request RJ_CapacityExceeded
            (''source '' @ PeerId_to_text X (rq_peer quota) @ '' is over relay session quota'')), sv)
      | None \<Rightarrow>
      let session_id = random_session_id
      in if bt_get (sv_runtime sv) session_id \<noteq> None
         then (Err (rejected request RJ_SessionExists ''relay session already exists''), sv)
         else
           let rt1 = snd (apply_frame (OpenSession request) (sv_runtime sv));
               accepted = \<lparr>ra_attempt_id = oq_attempt_id request, ra_session_id = session_id,
                 ra_source = oq_source request, ra_destination = oq_destination request,
                 ra_protocol = oq_protocol request, ra_traffic_class = oq_traffic_class request\<rparr>;
               rt2 = snd (apply_frame (SessionAccepted accepted) rt1)
           in (Ok accepted, sv\<lparr>sv_runtime := rt2\<rparr>))"

definition RelayService_close_session ::
  "bytes \<Rightarrow> string \<Rightarrow> relay_service \<Rightarrow> (unit, relay_error) result \<times> relay_service" where
  "RelayService_close_session session_id reason sv =
     (if RelayRuntime_session (sv_runtime sv) session_id = None then (Err SessionNotFound, sv)
      else case apply_frame (Close session_id reason) (sv_runtime sv) of
             (r, rt) \<Rightarrow> (r, sv\<lparr>sv_runtime := rt\<rparr>))"

definition RelayService_session_count :: "relay_service \<Rightarrow> nat" where
  "RelayService_session_count sv = RelayRuntime_session_count (sv_runtime sv)"

definition RelayService_session :: "relay_service \<Rightarrow> bytes \<Rightarrow> relay_session option" where
  "RelayService_session sv session_id = RelayRuntime_session (sv_runtime sv) session_id"

definition map_rejected_to_error :: "relay_session_rejected \<Rightarrow> relay_error" where
  "map_rejected_to_error r = (case rj_code r of
     RJ_SessionExists \<Rightarrow> SessionExists
   | RJ_CapacityExceeded \<Rightarrow> CapacityExceeded (rj_source r)
   | RJ_UnsupportedTrafficClass \<Rightarrow> UnsupportedTrafficClass (rj_traffic_class r)
   | RJ_InvalidIdentityProof \<Rightarrow> InvalidIdentityProof (rj_reason r)
   | RJ_DestinationProtocolRejected \<Rightarrow> DestinationProtocolRejected (rj_destination r)
   | RJ_DestinationUnauthorized \<Rightarrow> DestinationUnauthorized (rj_destination r)
   | RJ_InvalidRequest \<Rightarrow> Unauthorized
   | RJ_Unauthorized \<Rightarrow> Unauthorized)"

definition RelayNode_relay_map :: "u64 \<Rightarrow> u64 \<Rightarrow> relay_node list \<Rightarrow> relay_map" where
  "RelayNode_relay_map version generated_at relays =
     \<lparr>rm_version = version, rm_generated_at = generated_at, rm_relays = map rn_announcement relays\<rparr>"

section \<open>The registry of in-process relays\<close>

type_synonym relay_registry = "(peer_id, relay_service) btree_map"

definition register_relay :: "relay_service \<Rightarrow> relay_registry \<Rightarrow> relay_registry" where
  "register_relay service reg = bt_insert (an_peer_id (rn_announcement (sv_node service))) service reg"

definition clear_registry :: "relay_registry \<Rightarrow> relay_registry" where
  "clear_registry reg = []"

definition open_registered_session ::
  "'x keystore_env_scheme \<Rightarrow> u64 \<Rightarrow> bytes \<Rightarrow> peer_id \<Rightarrow> relay_open_request \<Rightarrow> relay_registry \<Rightarrow>
   (relay_session_accepted, relay_error) result \<times> relay_registry" where
  "open_registered_session X now rand relay_peer request reg =
     (case bt_get reg relay_peer of
        None \<Rightarrow> (Err (Unavailable relay_peer), reg)
      | Some service \<Rightarrow>
          (case RelayService_open_session X now rand request service of
             (r, service') \<Rightarrow>
               (map_err map_rejected_to_error r, bt_modify relay_peer (\<lambda>_. service') reg)))"

definition registered_session_count :: "relay_registry \<Rightarrow> peer_id \<Rightarrow> nat option" where
  "registered_session_count reg relay_peer =
     map_option RelayService_session_count (bt_get reg relay_peer)"

definition registered_session :: "relay_registry \<Rightarrow> peer_id \<Rightarrow> bytes \<Rightarrow> relay_session option" where
  "registered_session reg relay_peer session_id =
     (case bt_get reg relay_peer of
        None \<Rightarrow> None | Some service \<Rightarrow> RelayService_session service session_id)"

definition close_registered_session ::
  "peer_id \<Rightarrow> bytes \<Rightarrow> string \<Rightarrow> relay_registry \<Rightarrow> (unit, relay_error) result \<times> relay_registry" where
  "close_registered_session relay_peer session_id reason reg =
     (case bt_get reg relay_peer of
        None \<Rightarrow> (Err (Unavailable relay_peer), reg)
      | Some service \<Rightarrow>
          (case RelayService_close_session session_id reason service of
             (r, service') \<Rightarrow> (r, bt_modify relay_peer (\<lambda>_. service') reg)))"

definition single_registered_relay_peer :: "relay_registry \<Rightarrow> peer_id option" where
  "single_registered_relay_peer reg = (case bt_keys reg of [p] \<Rightarrow> Some p | _ \<Rightarrow> None)"

definition resolve_inproc_relay_peer ::
  "'x codecs_scheme \<Rightarrow> string \<Rightarrow> relay_registry \<Rightarrow> (peer_id, relay_error) result" where
  "resolve_inproc_relay_peer X endpoint reg =
     (case strip_prefix ''inproc://'' endpoint of
        Some value \<Rightarrow>
          (case PeerId_from_str X value of
             Err e \<Rightarrow> Err (ControlTransport (''invalid inproc relay peer: '' @ type_error_text e))
           | Ok p \<Rightarrow> Ok p)
      | None \<Rightarrow>
          (case single_registered_relay_peer reg of
             Some p \<Rightarrow> Ok p
           | None \<Rightarrow> Err (ControlTransport ''missing inproc relay peer'')))"

section \<open>Relay control\<close>

text \<open>
  The trait \<open>RelayControl\<close> as a record of operations on a state \<open>'s\<close>; the laws its clients rely
  on are the locale below. The world of the in-process implementation is the registry with the
  successive clock readings and random identifiers that \<open>open_session\<close> will draw.
\<close>

record 's relay_control =
  ctl_open :: "string \<Rightarrow> relay_open_request \<Rightarrow> 's \<Rightarrow> (relay_session_accepted, relay_error) result \<times> 's"
  ctl_close :: "string \<Rightarrow> bytes \<Rightarrow> string \<Rightarrow> 's \<Rightarrow> (unit, relay_error) result \<times> 's"
  ctl_session :: "string \<Rightarrow> bytes \<Rightarrow> 's \<Rightarrow> (relay_session option, relay_error) result"

record relay_world =
  rw_registry :: relay_registry
  rw_clock :: "nat \<Rightarrow> u64"
  rw_random :: "nat \<Rightarrow> bytes"
  rw_tick :: nat

definition inproc_open ::
  "'x keystore_env_scheme \<Rightarrow> string \<Rightarrow> relay_open_request \<Rightarrow> relay_world \<Rightarrow>
   (relay_session_accepted, relay_error) result \<times> relay_world" where
  "inproc_open X endpoint request w =
     (case resolve_inproc_relay_peer X endpoint (rw_registry w) of
        Err e \<Rightarrow> (Err e, w)
      | Ok relay_peer \<Rightarrow>
          (case open_registered_session X (rw_clock w (rw_tick w)) (rw_random w (rw_tick w))
                  relay_peer request (rw_registry w) of
             (r, reg) \<Rightarrow> (r, w\<lparr>rw_registry := reg, rw_tick := Suc (rw_tick w)\<rparr>)))"

definition inproc_close ::
  "'x codecs_scheme \<Rightarrow> string \<Rightarrow> bytes \<Rightarrow> string \<Rightarrow> relay_world \<Rightarrow> (unit, relay_error) result \<times> relay_world" where
  "inproc_close X endpoint session_id reason w =
     (case resolve_inproc_relay_peer X endpoint (rw_registry w) of
        Err e \<Rightarrow> (Err e, w)
      | Ok relay_peer \<Rightarrow>
          (case close_registered_session relay_peer session_id reason (rw_registry w) of
             (r, reg) \<Rightarrow> (r, w\<lparr>rw_registry := reg\<rparr>)))"

definition inproc_session ::
  "'x codecs_scheme \<Rightarrow> string \<Rightarrow> bytes \<Rightarrow> relay_world \<Rightarrow> (relay_session option, relay_error) result" where
  "inproc_session X endpoint session_id w =
     (case resolve_inproc_relay_peer X endpoint (rw_registry w) of
        Err e \<Rightarrow> Err e
      | Ok relay_peer \<Rightarrow> Ok (registered_session (rw_registry w) relay_peer session_id))"

definition InProcessRelayControl :: "'x keystore_env_scheme \<Rightarrow> relay_world relay_control" where
  "InProcessRelayControl X =
     \<lparr>ctl_open = inproc_open X, ctl_close = inproc_close X, ctl_session = inproc_session X\<rparr>"

section \<open>Laws of the session table\<close>

text \<open>Sessions are filed under their own identifier in an ordered table.\<close>

definition runtime_wf :: "relay_runtime \<Rightarrow> bool" where
  "runtime_wf rt \<longleftrightarrow> bt_wf rt \<and> (\<forall>k s. bt_get rt k = Some s \<longrightarrow> rs_session_id s = k)"

lemma apply_frame_wf: "runtime_wf rt \<Longrightarrow> runtime_wf (snd (apply_frame f rt))"
  by (cases f) (auto simp: runtime_wf_def apply_frame_def split: if_splits option.splits)

text \<open>The states a session goes through: a frame opens, closes or forgets only the session it
  names.\<close>

lemma apply_frame_get:
  "bt_get (snd (apply_frame f rt)) k =
   (case f of
      OpenSession q \<Rightarrow> if k = oq_attempt_id q
        then Some \<lparr>rs_session_id = k, rs_source = oq_source q, rs_destination = oq_destination q,
                   rs_protocol = oq_protocol q, rs_traffic_class = oq_traffic_class q, rs_status = RS_Pending\<rparr>
        else bt_get rt k
    | SessionAccepted a \<Rightarrow> if k = ra_session_id a
        then Some \<lparr>rs_session_id = k, rs_source = ra_source a, rs_destination = ra_destination a,
                   rs_protocol = ra_protocol a, rs_traffic_class = ra_traffic_class a, rs_status = RS_Open\<rparr>
        else bt_get rt k
    | SessionRejected r \<Rightarrow> if k = rj_attempt_id r then None else bt_get rt k
    | Close i _ \<Rightarrow> if k = i then map_option (\<lambda>s. s\<lparr>rs_status := RS_Closed\<rparr>) (bt_get rt k) else bt_get rt k
    | _ \<Rightarrow> bt_get rt k)"
  by (cases f) (auto simp: apply_frame_def pending_session_id_def)

lemma active_insert_other:
  assumes "bt_wf rt" and "\<not> (rs_source s = p \<and> rs_status s = RS_Open)"
  shows "active_for_source (bt_insert k s rt) p \<le> active_for_source rt p"
  using count_insert [OF assms(1), of "\<lambda>s. rs_source s = p \<and> rs_status s = RS_Open" k s] assms(2)
  by (simp add: active_for_source_def)

lemma active_insert: "bt_wf rt \<Longrightarrow> active_for_source (bt_insert k s rt) p \<le> Suc (active_for_source rt p)"
  using count_insert [of rt "\<lambda>s. rs_source s = p \<and> rs_status s = RS_Open" k s]
  by (auto simp: active_for_source_def of_bool_def split: if_splits)

lemma active_close: "active_for_source (bt_modify k (\<lambda>s. s\<lparr>rs_status := RS_Closed\<rparr>) rt) p \<le> active_for_source rt p"
  unfolding active_for_source_def by (rule count_modify_le) simp

section \<open>Laws of admission\<close>

text \<open>A service is consistent when its table is and no source holds more open sessions than its
  quota.\<close>

definition quota_of :: "relay_service \<Rightarrow> peer_id \<Rightarrow> relay_quota option" where
  "quota_of sv p = find (\<lambda>q. rq_peer q = p) (rn_quotas (sv_node sv))"

definition service_ok :: "relay_service \<Rightarrow> bool" where
  "service_ok sv \<longleftrightarrow> runtime_wf (sv_runtime sv) \<and>
     (\<forall>p q. quota_of sv p = Some q \<longrightarrow>
        active_for_source (sv_runtime sv) p \<le> unat (rq_max_concurrent_sessions q))"

text \<open>Everything that has to hold of a request for it to be admitted.\<close>

definition admissible :: "'x keystore_env_scheme \<Rightarrow> u64 \<Rightarrow> relay_open_request \<Rightarrow> relay_service \<Rightarrow> bool" where
  "admissible X now q sv \<longleftrightarrow>
     PublicIdentityKey_peer_id X (oq_source_public_key q) = oq_source q \<and>
     SessionCredential_verify X (oq_source_credential q) (oq_source_public_key q) = Ok () \<and>
     sc_peer_id (oq_source_credential q) = oq_source q \<and>
     sc_network_id (oq_source_credential q) = oq_network_id q \<and>
     now \<le> sc_expires_at (oq_source_credential q) \<and>
     (\<forall>p. oq_protocol q = Some p \<longrightarrow>
        ProtocolId_as_str p \<in> set (sc_protocol_versions (oq_source_credential q))) \<and>
     supports_traffic_class (an_traffic_classes (rn_announcement (sv_node sv))) (oq_traffic_class q) \<and>
     (\<exists>d. find (\<lambda>c. rd_peer c = oq_destination q) (rn_destinations (sv_node sv)) = Some d \<and>
        (\<forall>p. oq_protocol q = Some p \<longrightarrow> p \<in> set (rd_protocols d))) \<and>
     (\<forall>r. quota_of sv (oq_source q) = Some r \<longrightarrow>
        (word_of_nat (active_for_source (sv_runtime sv) (oq_source q)) :: u32) < rq_max_concurrent_sessions r)"

lemma verify_open_request_Ok:
  "verify_open_request X now q = Ok u \<longleftrightarrow>
     PublicIdentityKey_peer_id X (oq_source_public_key q) = oq_source q \<and>
     SessionCredential_verify X (oq_source_credential q) (oq_source_public_key q) = Ok () \<and>
     sc_peer_id (oq_source_credential q) = oq_source q \<and>
     sc_network_id (oq_source_credential q) = oq_network_id q \<and>
     now \<le> sc_expires_at (oq_source_credential q) \<and>
     (\<forall>p. oq_protocol q = Some p \<longrightarrow>
        ProtocolId_as_str p \<in> set (sc_protocol_versions (oq_source_credential q)))"
  by (auto simp: verify_open_request_def verify_source_key_binding_def verify_session_credential_def
      not_less split: result.splits option.splits if_splits)

lemma authorize_destination_Ok:
  "authorize_destination ds d pr = Ok u \<longleftrightarrow>
   (\<exists>e. find (\<lambda>c. rd_peer c = d) ds = Some e \<and> (\<forall>p. pr = Some p \<longrightarrow> p \<in> set (rd_protocols e)))"
  by (auto simp: authorize_destination_def split: option.splits if_splits)

definition accepted_of :: "relay_open_request \<Rightarrow> bytes \<Rightarrow> relay_session_accepted" where
  "accepted_of q session_id =
     \<lparr>ra_attempt_id = oq_attempt_id q, ra_session_id = session_id, ra_source = oq_source q,
      ra_destination = oq_destination q, ra_protocol = oq_protocol q, ra_traffic_class = oq_traffic_class q\<rparr>"

definition admitted_runtime :: "relay_open_request \<Rightarrow> bytes \<Rightarrow> relay_runtime \<Rightarrow> relay_runtime" where
  "admitted_runtime q session_id rt =
     snd (apply_frame (SessionAccepted (accepted_of q session_id)) (snd (apply_frame (OpenSession q) rt)))"

lemma open_session_admits:
  assumes "admissible X now q sv" and "bt_get (sv_runtime sv) sid = None"
  shows "RelayService_open_session X now sid q sv =
         (Ok (accepted_of q sid), sv\<lparr>sv_runtime := admitted_runtime q sid (sv_runtime sv)\<rparr>)"
proof -
  from assms have v: "verify_open_request X now q = Ok ()" and
    d: "authorize_destination (rn_destinations (sv_node sv)) (oq_destination q) (oq_protocol q) = Ok ()"
    by (auto simp: verify_open_request_Ok authorize_destination_Ok admissible_def)
  with assms show ?thesis
    by (auto simp: RelayService_open_session_def admissible_def accepted_of_def admitted_runtime_def
        quota_of_def Let_def split: option.splits)
qed

lemma open_session_cases:
  assumes "RelayService_open_session X now sid q sv = (r, sv')"
  obtains (accepted) "r = Ok (accepted_of q sid)" "admissible X now q sv" "bt_get (sv_runtime sv) sid = None"
      "sv' = sv\<lparr>sv_runtime := admitted_runtime q sid (sv_runtime sv)\<rparr>"
  | (rejected) code reason where "r = Err (rejected q code reason)" "sv' = sv"
      "\<not> (admissible X now q sv \<and> bt_get (sv_runtime sv) sid = None)"
proof (cases "admissible X now q sv \<and> bt_get (sv_runtime sv) sid = None")
  case True
  with open_session_admits [of X now q sv sid] assms accepted show thesis by auto
next
  case False
  have "\<exists>code reason. r = Err (rejected q code reason) \<and> sv' = sv"
  proof (cases "verify_open_request X now q")
    case (Err e)
    with assms show ?thesis by (auto simp: RelayService_open_session_def)
  next
    case v: (Ok u)
    show ?thesis
    proof (cases "authorize_destination (rn_destinations (sv_node sv)) (oq_destination q) (oq_protocol q)")
      case (Err e)
      with v assms show ?thesis by (auto simp: RelayService_open_session_def split: if_splits)
    next
      case d: (Ok u')
      have "bt_get (sv_runtime sv) sid \<noteq> None"
        if "supports_traffic_class (an_traffic_classes (rn_announcement (sv_node sv))) (oq_traffic_class q)"
          and "\<forall>r. quota_of sv (oq_source q) = Some r \<longrightarrow>
            (word_of_nat (active_for_source (sv_runtime sv) (oq_source q)) :: u32) < rq_max_concurrent_sessions r"
        using that False v d
        by (auto simp: admissible_def verify_open_request_Ok authorize_destination_Ok)
      with v d assms show ?thesis
        by (auto simp: RelayService_open_session_def quota_of_def not_le Let_def
            split: if_splits option.splits)
    qed
  qed
  with False rejected show thesis by blast
qed

lemma admitted_runtime_get:
  "bt_get (admitted_runtime q sid rt) k =
   (if k = sid then Some \<lparr>rs_session_id = sid, rs_source = oq_source q, rs_destination = oq_destination q,
        rs_protocol = oq_protocol q, rs_traffic_class = oq_traffic_class q, rs_status = RS_Open\<rparr>
    else if k = oq_attempt_id q then Some \<lparr>rs_session_id = k, rs_source = oq_source q,
        rs_destination = oq_destination q, rs_protocol = oq_protocol q,
        rs_traffic_class = oq_traffic_class q, rs_status = RS_Pending\<rparr>
    else bt_get rt k)"
  by (simp add: admitted_runtime_def apply_frame_get accepted_of_def)

lemma admitted_runtime_wf: "runtime_wf rt \<Longrightarrow> runtime_wf (admitted_runtime q sid rt)"
  by (simp add: admitted_runtime_def apply_frame_wf)

lemma admitted_runtime_active:
  assumes "runtime_wf rt"
  shows "active_for_source (admitted_runtime q sid rt) p \<le>
         active_for_source rt p + of_bool (p = oq_source q)"
proof -
  let ?rt1 = "snd (apply_frame (OpenSession q) rt)"
  have wf: "bt_wf ?rt1" "bt_wf rt" using assms apply_frame_wf [of rt "OpenSession q"] by (auto simp: runtime_wf_def)
  then have "active_for_source ?rt1 p \<le> active_for_source rt p"
    by (simp add: apply_frame_def active_insert_other)
  moreover have "active_for_source (admitted_runtime q sid rt) p \<le>
      active_for_source ?rt1 p + of_bool (p = oq_source q)"
  proof (cases "p = oq_source q")
    case True
    with wf(1) show ?thesis
      unfolding admitted_runtime_def apply_frame_def [of "SessionAccepted _"] by (simp add: active_insert)
  next
    case False
    with wf(1) show ?thesis
      unfolding admitted_runtime_def apply_frame_def [of "SessionAccepted _"]
      by (simp add: active_insert_other accepted_of_def)
  qed
  ultimately show ?thesis by linarith
qed

lemma open_session_ok:
  assumes "service_ok sv" and "RelayService_open_session X now sid q sv = (r, sv')"
  shows "service_ok sv' \<and> sv_node sv' = sv_node sv"
  using assms(2)
proof (cases rule: open_session_cases)
  case accepted
  have wf: "runtime_wf (sv_runtime sv)" using assms(1) by (simp add: service_ok_def)
  have "active_for_source (admitted_runtime q sid (sv_runtime sv)) p \<le> unat (rq_max_concurrent_sessions r)"
    if r: "quota_of sv p = Some r" for p r
  proof -
    have le: "active_for_source (sv_runtime sv) p \<le> unat (rq_max_concurrent_sessions r)"
      using assms(1) r by (simp add: service_ok_def)
    have "active_for_source (sv_runtime sv) p < unat (rq_max_concurrent_sessions r)" if "p = oq_source q"
    proof -
      have "active_for_source (sv_runtime sv) p < 2 ^ 32"
        using le_less_trans [OF le unsigned_less] by simp
      then have "unat (word_of_nat (active_for_source (sv_runtime sv) p) :: u32) = active_for_source (sv_runtime sv) p"
        by (simp add: unat_of_nat take_bit_nat_eq_self)
      moreover have "(word_of_nat (active_for_source (sv_runtime sv) p) :: u32) < rq_max_concurrent_sessions r"
        using accepted(2) r that by (simp add: admissible_def)
      ultimately show ?thesis by (simp add: word_less_nat_alt)
    qed
    with le admitted_runtime_active [OF wf, of q sid p] show ?thesis by (cases "p = oq_source q") auto
  qed
  with wf accepted(4) show ?thesis by (simp add: service_ok_def admitted_runtime_wf quota_of_def)
next
  case rejected
  with assms(1) show ?thesis by simp
qed

lemma close_session_ok:
  assumes "service_ok sv" and "RelayService_close_session sid reason sv = (r, sv')"
  shows "service_ok sv' \<and> sv_node sv' = sv_node sv"
proof (cases "bt_get (sv_runtime sv) sid")
  case None
  with assms show ?thesis by (simp add: RelayService_close_session_def RelayRuntime_session_def)
next
  case (Some s)
  then have sv': "sv' = sv\<lparr>sv_runtime := snd (apply_frame (Close sid reason) (sv_runtime sv))\<rparr>"
    using assms(2) by (auto simp: RelayService_close_session_def RelayRuntime_session_def split: prod.splits)
  have "active_for_source (snd (apply_frame (Close sid reason) (sv_runtime sv))) p \<le>
        active_for_source (sv_runtime sv) p" for p
    by (simp add: apply_frame_def active_close)
  with assms(1) show ?thesis
    unfolding service_ok_def sv'
    by (auto simp: apply_frame_wf quota_of_def intro: le_trans)
qed

lemma service_ok_new: "service_ok (RelayService_new node)"
  by (simp add: service_ok_def RelayService_new_def runtime_wf_def active_for_source_def bt_values_def)

text \<open>The states a relay can reach by serving requests.\<close>

inductive service_step :: "'x keystore_env_scheme \<Rightarrow> relay_service \<Rightarrow> relay_service \<Rightarrow> bool"
  for X :: "'x keystore_env_scheme" where
  step_open: "RelayService_open_session X now sid q sv = (r, sv') \<Longrightarrow> service_step X sv sv'"
| step_close: "RelayService_close_session sid reason sv = (r, sv') \<Longrightarrow> service_step X sv sv'"

inductive_cases service_stepE: "service_step X sv sv'"

lemma service_step_ok: "service_step X sv sv' \<Longrightarrow> service_ok sv \<Longrightarrow> service_ok sv' \<and> sv_node sv' = sv_node sv"
  by (auto elim!: service_stepE dest: open_session_ok close_session_ok)

lemma service_reachable_ok:
  "(service_step X)\<^sup>*\<^sup>* (RelayService_new node) sv \<Longrightarrow> service_ok sv \<and> sv_node sv = node"
proof (induction rule: rtranclp_induct)
  case base
  show ?case by (simp add: service_ok_new) (simp add: RelayService_new_def)
next
  case (step sv sv')
  with service_step_ok show ?case by blast
qed

text \<open>C1: Admission is exact: a session is opened exactly when the source key hashes to the claimed
  source, the credential verifies for this source, network, time and protocol, the relay carries
  the traffic class, the destination and its protocol are authorised, the source is under its
  quota, and the drawn identifier is fresh. An accepted request leaves an open session with the
  request's parties; a refused one echoes the request and changes nothing.\<close>

theorem open_session_exact:
  "case RelayService_open_session X now sid q sv of
     (Ok a, sv') \<Rightarrow>
       admissible X now q sv \<and> RelayService_session sv sid = None \<and> a = accepted_of q sid \<and>
       (\<exists>s. RelayService_session sv' sid = Some s \<and> rs_status s = RS_Open \<and>
            rs_source s = oq_source q \<and> rs_destination s = oq_destination q \<and>
            rs_protocol s = oq_protocol q \<and> rs_traffic_class s = oq_traffic_class q)
   | (Err e, sv') \<Rightarrow>
       \<not> (admissible X now q sv \<and> RelayService_session sv sid = None) \<and> sv' = sv \<and>
       rj_attempt_id e = oq_attempt_id q \<and> rj_source e = oq_source q \<and>
       rj_destination e = oq_destination q"
proof -
  obtain r sv' where o: "RelayService_open_session X now sid q sv = (r, sv')" by fastforce
  then show ?thesis
    by (cases rule: open_session_cases)
       (simp_all add: o RelayService_session_def RelayRuntime_session_def admitted_runtime_get rejected_def)
qed

text \<open>C2: In every state a relay reaches by serving requests, no source with a quota holds more
  open sessions than its quota allows, and every session is filed under its own identifier.\<close>

theorem relay_quota_invariant:
  assumes "(service_step X)\<^sup>*\<^sup>* (RelayService_new node) sv"
  shows "(\<forall>p q. find (\<lambda>q. rq_peer q = p) (rn_quotas node) = Some q \<longrightarrow>
            active_for_source (sv_runtime sv) p \<le> unat (rq_max_concurrent_sessions q)) \<and>
         (\<forall>k s. RelayService_session sv k = Some s \<longrightarrow> rs_session_id s = k)"
  using service_reachable_ok [OF assms]
  by (auto simp: service_ok_def quota_of_def runtime_wf_def RelayService_session_def RelayRuntime_session_def)

definition sample_node :: relay_node where
  "sample_node =
     \<lparr>rn_announcement = \<lparr>an_peer_id = PeerId [1], an_region = ''r'', an_advertised_endpoints = [],
        an_control_endpoint = ''inproc://'', an_max_bandwidth_bps = 1, an_supports_quic_datagrams = True,
        an_supports_path_migration = True, an_traffic_classes = [''NetworkControl'']\<rparr>,
      rn_quotas = [\<lparr>rq_peer = PeerId [2], rq_max_bandwidth_bps = 1, rq_max_concurrent_sessions = 1\<rparr>],
      rn_destinations = [\<lparr>rd_peer = PeerId [9], rd_protocols = []\<rparr>]\<rparr>"

theorem relay_quota_invariant_witness:
  "active_for_source
     (sv_runtime (snd (RelayService_close_session [9] ''done'' (RelayService_new sample_node)))) (PeerId [2]) \<le> 1"
proof -
  have "(service_step (sample_keystore ()))\<^sup>*\<^sup>* (RelayService_new sample_node)
      (snd (RelayService_close_session [9] ''done'' (RelayService_new sample_node)))"
    by (rule r_into_rtranclp, rule step_close [of "[9]" "''done''"]) (rule prod.collapse [symmetric])
  from relay_quota_invariant [OF this, THEN conjunct1, rule_format, of "PeerId [2]"] show ?thesis
    by (auto simp: sample_node_def)
qed

text \<open>An admitted request files a pending entry under the attempt identifier the client chose,
  replacing whatever session is stored there, and the entry stays after acceptance.\<close>

lemma attempt_id_overwrites_session:
  assumes "admissible X now q sv" and "RelayService_session sv sid = None"
    and "RelayService_session sv (oq_attempt_id q) = Some s" "rs_status s = RS_Open"
  shows "\<exists>s'. RelayService_session (snd (RelayService_open_session X now sid q sv)) (oq_attempt_id q) = Some s'
           \<and> rs_status s' = RS_Pending"
proof -
  have "oq_attempt_id q \<noteq> sid" using assms(2,3) by auto
  then show ?thesis
    using open_session_admits [of X now q sv sid] assms(1,2)
    by (simp add: RelayService_session_def RelayRuntime_session_def admitted_runtime_get)
qed

section \<open>The contract of relay control\<close>

locale relay_control_laws =
  fixes ctl :: "'s relay_control" and inv :: "'s \<Rightarrow> bool"
  assumes open_accepted:
    "\<lbrakk>inv w; ctl_open ctl ep q w = (Ok a, w')\<rbrakk> \<Longrightarrow>
     inv w' \<and> ra_attempt_id a = oq_attempt_id q \<and>
     (\<exists>s. ctl_session ctl ep (ra_session_id a) w' = Ok (Some s) \<and> rs_status s = RS_Open \<and>
        rs_source s = oq_source q \<and> rs_destination s = oq_destination q)"
    and open_refused: "\<lbrakk>inv w; ctl_open ctl ep q w = (Err e, w')\<rbrakk> \<Longrightarrow>
       inv w' \<and> (\<forall>ep' k. ctl_session ctl ep' k w' = ctl_session ctl ep' k w)"
    and close_inv: "\<lbrakk>inv w; ctl_close ctl ep sid reason w = (r, w')\<rbrakk> \<Longrightarrow> inv w'"
    and close_known: "\<lbrakk>inv w; ctl_session ctl ep sid w = Ok (Some s)\<rbrakk> \<Longrightarrow>
       \<exists>w'. ctl_close ctl ep sid reason w = (Ok (), w') \<and>
            ctl_session ctl ep sid w' = Ok (Some (s\<lparr>rs_status := RS_Closed\<rparr>)) \<and>
            (\<forall>k. k \<noteq> sid \<longrightarrow> ctl_session ctl ep k w' = ctl_session ctl ep k w)"
    and close_unknown: "\<lbrakk>inv w; ctl_session ctl ep sid w = Ok None\<rbrakk> \<Longrightarrow>
       \<exists>e. ctl_close ctl ep sid reason w = (Err e, w)"
begin

text \<open>Whatever was opened can be closed, and closing it again succeeds and changes nothing.\<close>

lemma open_then_close:
  assumes "inv w" and "ctl_open ctl ep q w = (Ok a, w1)"
  shows "\<exists>w2. ctl_close ctl ep (ra_session_id a) reason w1 = (Ok (), w2) \<and> inv w2 \<and>
           (\<exists>s. ctl_session ctl ep (ra_session_id a) w2 = Ok (Some s) \<and> rs_status s = RS_Closed)"
proof -
  from open_accepted [OF assms] obtain s where i: "inv w1" and
    s: "ctl_session ctl ep (ra_session_id a) w1 = Ok (Some s)" by blast
  from close_known [OF i s] obtain w2 where
    c: "ctl_close ctl ep (ra_session_id a) reason w1 = (Ok (), w2)" and
    "ctl_session ctl ep (ra_session_id a) w2 = Ok (Some (s\<lparr>rs_status := RS_Closed\<rparr>))" by blast
  moreover have "inv w2" using close_inv [OF i c] .
  ultimately show ?thesis by auto
qed

lemma close_again:
  assumes "inv w" and "ctl_session ctl ep sid w = Ok (Some s)"
    and "ctl_close ctl ep sid reason w = (Ok (), w1)"
  shows "\<exists>w2. ctl_close ctl ep sid reason' w1 = (Ok (), w2) \<and>
           (\<forall>k. ctl_session ctl ep k w2 = ctl_session ctl ep k w1)"
proof -
  have i: "inv w1" using close_inv [OF assms(1,3)] .
  have s1: "ctl_session ctl ep sid w1 = Ok (Some (s\<lparr>rs_status := RS_Closed\<rparr>))"
    using close_known [OF assms(1,2), of reason] assms(3) by auto
  obtain w2 where "ctl_close ctl ep sid reason' w1 = (Ok (), w2)"
    "ctl_session ctl ep sid w2 = Ok (Some (s\<lparr>rs_status := RS_Closed\<rparr>))"
    "\<forall>k. k \<noteq> sid \<longrightarrow> ctl_session ctl ep k w2 = ctl_session ctl ep k w1"
    using close_known [OF i s1, of reason'] by auto
  with s1 show ?thesis by metis
qed

end

text \<open>The in-process implementation keeps every registered service consistent.\<close>

definition world_ok :: "relay_world \<Rightarrow> bool" where
  "world_ok w \<longleftrightarrow> bt_wf (rw_registry w) \<and> (\<forall>p sv. bt_get (rw_registry w) p = Some sv \<longrightarrow> service_ok sv)"

lemma bt_keys_modify [simp]: "bt_keys (bt_modify k f m) = bt_keys m"
  by (simp add: bt_keys_def)

lemma resolve_modify [simp]:
  "resolve_inproc_relay_peer X ep (bt_modify k f reg) = resolve_inproc_relay_peer X ep reg"
  unfolding resolve_inproc_relay_peer_def single_registered_relay_peer_def bt_keys_modify ..

lemma registered_session_modify:
  "bt_get reg p = Some sv \<Longrightarrow>
   registered_session (bt_modify p (\<lambda>_. sv') reg) p' k =
   (if p' = p then RelayService_session sv' k else registered_session reg p' k)"
  by (simp add: registered_session_def)

lemma bt_modify_same: "bt_wf m \<Longrightarrow> bt_get m k = Some v \<Longrightarrow> bt_modify k (\<lambda>_. v) m = m"
  unfolding bt_modify_def by (rule map_idI) (auto simp: bt_mem_get split: prod.splits)

lemma inproc_open_resolved:
  assumes "inproc_open X ep q w = (r, w')" and "resolve_inproc_relay_peer X ep (rw_registry w) = Ok p"
    and "bt_get (rw_registry w) p = Some sv"
  obtains now sid r' sv' where "RelayService_open_session X now sid q sv = (r', sv')"
    "r = map_err map_rejected_to_error r'"
    "w' = w\<lparr>rw_registry := bt_modify p (\<lambda>_. sv') (rw_registry w), rw_tick := Suc (rw_tick w)\<rparr>"
  using assms by (auto simp: inproc_open_def open_registered_session_def split: prod.splits)

lemma inproc_session_resolved:
  "resolve_inproc_relay_peer X ep (rw_registry w) = Ok p \<Longrightarrow>
   inproc_session X ep k w = Ok (registered_session (rw_registry w) p k)"
  by (simp add: inproc_session_def)

lemma inproc_open_unresolved:
  assumes "inproc_open X ep q w = (r, w')"
    and "\<And>p sv. resolve_inproc_relay_peer X ep (rw_registry w) = Ok p \<Longrightarrow> bt_get (rw_registry w) p = Some sv \<Longrightarrow> False"
  shows "\<exists>e. r = Err e" "rw_registry w' = rw_registry w"
  using assms
  by (auto simp: inproc_open_def open_registered_session_def split: result.splits option.splits)

lemma inproc_close_resolved:
  assumes "inproc_close X ep sid reason w = (r, w')" and "resolve_inproc_relay_peer X ep (rw_registry w) = Ok p"
    and "bt_get (rw_registry w) p = Some sv"
  obtains sv' where "RelayService_close_session sid reason sv = (r, sv')"
    "w' = w\<lparr>rw_registry := bt_modify p (\<lambda>_. sv') (rw_registry w)\<rparr>"
  using assms by (auto simp: inproc_close_def close_registered_session_def split: prod.splits)

lemma world_ok_modify:
  "world_ok w \<Longrightarrow> service_ok sv' \<Longrightarrow> rw_registry w' = bt_modify p (\<lambda>_. sv') (rw_registry w) \<Longrightarrow> world_ok w'"
  by (auto simp: world_ok_def)

lemma inproc_open_inv:
  assumes "world_ok w" and "inproc_open X ep q w = (r, w')"
  shows "world_ok w'"
proof (cases "\<exists>p sv. resolve_inproc_relay_peer X ep (rw_registry w) = Ok p \<and> bt_get (rw_registry w) p = Some sv")
  case True
  then obtain p sv where p: "resolve_inproc_relay_peer X ep (rw_registry w) = Ok p"
    "bt_get (rw_registry w) p = Some sv" by blast
  from assms(2) p obtain now sid r' sv' where
    o: "RelayService_open_session X now sid q sv = (r', sv')" and
    w': "w' = w\<lparr>rw_registry := bt_modify p (\<lambda>_. sv') (rw_registry w), rw_tick := Suc (rw_tick w)\<rparr>"
    by (rule inproc_open_resolved)
  have "service_ok sv'" using open_session_ok [OF _ o] assms(1) p(2) by (auto simp: world_ok_def)
  then show ?thesis using world_ok_modify [OF assms(1)] w' by simp
next
  case False
  with inproc_open_unresolved(2) [OF assms(2)] assms(1) show ?thesis by (auto simp: world_ok_def)
qed

lemma inproc_open_accepted:
  assumes "inproc_open X ep q w = (Ok a, w')"
  shows "ra_attempt_id a = oq_attempt_id q \<and>
     (\<exists>s. inproc_session X ep (ra_session_id a) w' = Ok (Some s) \<and> rs_status s = RS_Open \<and>
        rs_source s = oq_source q \<and> rs_destination s = oq_destination q)"
proof -
  have "\<exists>p sv. resolve_inproc_relay_peer X ep (rw_registry w) = Ok p \<and> bt_get (rw_registry w) p = Some sv"
    using inproc_open_unresolved(1) [OF assms] by blast
  then obtain p sv where p: "resolve_inproc_relay_peer X ep (rw_registry w) = Ok p"
    "bt_get (rw_registry w) p = Some sv" by blast
  from assms p obtain now sid r' sv' where
    o: "RelayService_open_session X now sid q sv = (r', sv')" and r: "Ok a = map_err map_rejected_to_error r'" and
    w': "w' = w\<lparr>rw_registry := bt_modify p (\<lambda>_. sv') (rw_registry w), rw_tick := Suc (rw_tick w)\<rparr>"
    by (rule inproc_open_resolved)
  from r have r': "r' = Ok a" by (metis map_err_eq_Ok)
  have "inproc_session X ep k w' = Ok (RelayService_session sv' k)" for k
    using p w' by (simp add: inproc_session_def registered_session_modify)
  with o [unfolded r'] show ?thesis
    by (cases rule: open_session_cases)
       (simp_all add: accepted_of_def RelayService_session_def RelayRuntime_session_def admitted_runtime_get)
qed

lemma inproc_open_refused:
  assumes "world_ok w" and "inproc_open X ep q w = (Err e, w')"
  shows "rw_registry w' = rw_registry w"
proof (cases "\<exists>p sv. resolve_inproc_relay_peer X ep (rw_registry w) = Ok p \<and> bt_get (rw_registry w) p = Some sv")
  case True
  then obtain p sv where p: "resolve_inproc_relay_peer X ep (rw_registry w) = Ok p"
    "bt_get (rw_registry w) p = Some sv" by blast
  from assms(2) p obtain now sid r' sv' where
    o: "RelayService_open_session X now sid q sv = (r', sv')" and r: "Err e = map_err map_rejected_to_error r'" and
    w': "w' = w\<lparr>rw_registry := bt_modify p (\<lambda>_. sv') (rw_registry w), rw_tick := Suc (rw_tick w)\<rparr>"
    by (rule inproc_open_resolved)
  from o have "sv' = sv"
    by (cases rule: open_session_cases) (use r in simp_all)
  with w' p assms(1) show ?thesis by (simp add: world_ok_def bt_modify_same)
next
  case False
  with inproc_open_unresolved(2) [OF assms(2)] show ?thesis by blast
qed

lemma close_session_known:
  "RelayService_session sv sid = Some s \<Longrightarrow>
   \<exists>sv'. RelayService_close_session sid reason sv = (Ok (), sv') \<and>
     (\<forall>k. RelayService_session sv' k =
        (if k = sid then Some (s\<lparr>rs_status := RS_Closed\<rparr>) else RelayService_session sv k))"
  by (auto simp: RelayService_session_def RelayRuntime_session_def RelayService_close_session_def
      apply_frame_def)

lemma inproc_close_inv:
  assumes "world_ok w" and "inproc_close X ep sid reason w = (r, w')"
  shows "world_ok w'"
proof (cases "\<exists>p sv. resolve_inproc_relay_peer X ep (rw_registry w) = Ok p \<and> bt_get (rw_registry w) p = Some sv")
  case True
  then obtain p sv where p: "resolve_inproc_relay_peer X ep (rw_registry w) = Ok p"
    "bt_get (rw_registry w) p = Some sv" by blast
  from assms(2) p obtain sv' where c: "RelayService_close_session sid reason sv = (r, sv')" and
    w': "w' = w\<lparr>rw_registry := bt_modify p (\<lambda>_. sv') (rw_registry w)\<rparr>"
    by (rule inproc_close_resolved)
  have "service_ok sv'" using close_session_ok [OF _ c] assms(1) p(2) by (auto simp: world_ok_def)
  then show ?thesis using world_ok_modify [OF assms(1)] w' by simp
next
  case False
  with assms(2) have "w' = w"
    by (auto simp: inproc_close_def close_registered_session_def split: result.splits option.splits)
  with assms(1) show ?thesis by simp
qed

lemma inproc_close_known:
  assumes "inproc_session X ep sid w = Ok (Some s)"
  shows "\<exists>w'. inproc_close X ep sid reason w = (Ok (), w') \<and>
     (\<forall>k. inproc_session X ep k w' =
        (if k = sid then Ok (Some (s\<lparr>rs_status := RS_Closed\<rparr>)) else inproc_session X ep k w))"
proof -
  from assms obtain p sv where p: "resolve_inproc_relay_peer X ep (rw_registry w) = Ok p"
    "bt_get (rw_registry w) p = Some sv" "RelayService_session sv sid = Some s"
    by (auto simp: inproc_session_def registered_session_def split: result.splits option.splits)
  from close_session_known [OF p(3), of reason] obtain sv' where
    c: "RelayService_close_session sid reason sv = (Ok (), sv')" and
    k: "\<forall>k. RelayService_session sv' k =
        (if k = sid then Some (s\<lparr>rs_status := RS_Closed\<rparr>) else RelayService_session sv k)" by blast
  let ?w' = "w\<lparr>rw_registry := bt_modify p (\<lambda>_. sv') (rw_registry w)\<rparr>"
  have "inproc_close X ep sid reason w = (Ok (), ?w')"
    using p c by (simp add: inproc_close_def close_registered_session_def)
  moreover have "inproc_session X ep k ?w' = Ok (RelayService_session sv' k)"
    "inproc_session X ep k w = Ok (RelayService_session sv k)" for k
    using p by (simp_all add: inproc_session_def registered_session_modify registered_session_def)
  ultimately show ?thesis using k by (intro exI [of _ ?w']) simp
qed

lemma inproc_close_unknown:
  assumes "world_ok w" and "inproc_session X ep sid w = Ok None"
  shows "\<exists>e. inproc_close X ep sid reason w = (Err e, w)"
proof -
  from assms(2) obtain p where p: "resolve_inproc_relay_peer X ep (rw_registry w) = Ok p"
    "registered_session (rw_registry w) p sid = None"
    by (auto simp: inproc_session_def split: result.splits)
  show ?thesis
  proof (cases "bt_get (rw_registry w) p")
    case None
    with p show ?thesis by (simp add: inproc_close_def close_registered_session_def)
  next
    case (Some sv)
    with p have "RelayService_close_session sid reason sv = (Err SessionNotFound, sv)"
      by (simp add: registered_session_def RelayService_close_session_def RelayService_session_def)
    with Some p assms(1) show ?thesis
      by (simp add: inproc_close_def close_registered_session_def bt_modify_same world_ok_def)
  qed
qed

interpretation inproc: relay_control_laws "InProcessRelayControl X" world_ok
  for X :: "'x keystore_env_scheme"
proof unfold_locales
  fix w w' :: relay_world and ep q a e sid reason s r
  show "world_ok w' \<and> ra_attempt_id a = oq_attempt_id q \<and>
    (\<exists>s. ctl_session (InProcessRelayControl X) ep (ra_session_id a) w' = Ok (Some s) \<and> rs_status s = RS_Open \<and>
      rs_source s = oq_source q \<and> rs_destination s = oq_destination q)"
    if "world_ok w" "ctl_open (InProcessRelayControl X) ep q w = (Ok a, w')"
    using that inproc_open_inv [of w X ep q] inproc_open_accepted [of X ep q w]
    by (simp add: InProcessRelayControl_def)
  show "world_ok w' \<and> (\<forall>ep' k. ctl_session (InProcessRelayControl X) ep' k w' = ctl_session (InProcessRelayControl X) ep' k w)"
    if "world_ok w" "ctl_open (InProcessRelayControl X) ep q w = (Err e, w')"
  proof -
    from that have o: "inproc_open X ep q w = (Err e, w')" by (simp add: InProcessRelayControl_def)
    have "inproc_session X ep' k w' = inproc_session X ep' k w" for ep' k
      unfolding inproc_session_def inproc_open_refused [OF that(1) o] ..
    with inproc_open_inv [OF that(1) o] show ?thesis by (simp add: InProcessRelayControl_def)
  qed
  show "world_ok w'" if "world_ok w" "ctl_close (InProcessRelayControl X) ep sid reason w = (r, w')"
    using that inproc_close_inv [of w X ep sid reason] by (simp add: InProcessRelayControl_def)
  show "\<exists>w'. ctl_close (InProcessRelayControl X) ep sid reason w = (Ok (), w') \<and>
      ctl_session (InProcessRelayControl X) ep sid w' = Ok (Some (s\<lparr>rs_status := RS_Closed\<rparr>)) \<and>
      (\<forall>k. k \<noteq> sid \<longrightarrow> ctl_session (InProcessRelayControl X) ep k w' = ctl_session (InProcessRelayControl X) ep k w)"
    if "ctl_session (InProcessRelayControl X) ep sid w = Ok (Some s)"
    using that inproc_close_known [of X ep sid w s reason] by (auto simp: InProcessRelayControl_def)
  show "\<exists>e. ctl_close (InProcessRelayControl X) ep sid reason w = (Err e, w)"
    if "world_ok w" "ctl_session (InProcessRelayControl X) ep sid w = Ok None"
    using that inproc_close_unknown [of w X ep sid reason] by (simp add: InProcessRelayControl_def)
qed

text \<open>Every session a client opens through relay control on in-process relays can be closed by
  it, stays closed when closed again, and all registered relays remain within their quotas.\<close>

theorem inproc_open_close:
  assumes "world_ok w" and "inproc_open X ep q w = (Ok a, w1)"
  shows "\<exists>w2. inproc_close X ep (ra_session_id a) reason w1 = (Ok (), w2) \<and> world_ok w2 \<and>
           (\<exists>s. inproc_session X ep (ra_session_id a) w2 = Ok (Some s) \<and> rs_status s = RS_Closed) \<and>
           (\<exists>w3. inproc_close X ep (ra_session_id a) reason' w2 = (Ok (), w3))"
proof -
  let ?C = "InProcessRelayControl X" and ?sid = "ra_session_id a"
  have o: "ctl_open ?C ep q w = (Ok a, w1)" using assms(2) by (simp add: InProcessRelayControl_def)
  from inproc.open_then_close [OF assms(1) o] obtain w2 s where
    c: "ctl_close ?C ep ?sid reason w1 = (Ok (), w2)" "world_ok w2"
    "ctl_session ?C ep ?sid w2 = Ok (Some s)" "rs_status s = RS_Closed" by blast
  from inproc.close_known [OF c(2,3), of reason'] obtain w3 where
    "ctl_close ?C ep ?sid reason' w2 = (Ok (), w3)" by blast
  with c show ?thesis by (auto simp: InProcessRelayControl_def)
qed

definition sample_request :: relay_open_request where
  "sample_request =
     \<lparr>oq_attempt_id = [1], oq_network_id = NetworkId [4],
      oq_source = IdentityKeypair_peer_id (sample_keystore ()) (IdentityKeypair [1]),
      oq_source_public_key = public_key (sample_keystore ()) (IdentityKeypair [1]),
      oq_source_credential = SessionCredential_issue (sample_keystore ()) 5 [8] (NetworkId [4])
        (IdentityKeypair [1]) [] [] 100 0,
      oq_destination = PeerId [9], oq_protocol = None, oq_traffic_class = Control\<rparr>"

definition sample_world :: relay_world where
  "sample_world = \<lparr>rw_registry = register_relay (RelayService_new sample_node) [],
     rw_clock = (\<lambda>_. 6), rw_random = (\<lambda>n. [7, word_of_nat n]), rw_tick = 0\<rparr>"

lemma sample_admissible:
  "admissible (sample_keystore ()) 6 sample_request (RelayService_new sample_node)"
proof -
  have "SessionCredential_verify (sample_keystore ()) (oq_source_credential sample_request)
          (oq_source_public_key sample_request) = Ok ()"
    unfolding sample_request_def relay_open_request.simps
    by (rule SessionCredential_issue_verify [OF sample_keystore_primitives_ok(3)])
  then show ?thesis
    by (auto simp: admissible_def sample_request_def IdentityKeypair_peer_id_def SessionCredential_issue_def
        Let_def RelayService_new_def sample_node_def supports_traffic_class_def quota_of_def
        active_for_source_def bt_values_def)
qed

lemma sample_world_registry:
  "bt_get (rw_registry sample_world) (PeerId [1]) = Some (RelayService_new sample_node)"
  "resolve_inproc_relay_peer (sample_keystore ()) [] (rw_registry sample_world) = Ok (PeerId [1])"
  by (simp_all add: sample_world_def register_relay_def RelayService_new_def sample_node_def
      resolve_inproc_relay_peer_def single_registered_relay_peer_def strip_prefix_def starts_with_def
      bt_keys_def bt_insert_def bt_get_def)

lemma sample_world_ok: "world_ok sample_world"
  by (auto simp: world_ok_def sample_world_def register_relay_def service_ok_new)

lemma sample_world_opens:
  "\<exists>w. inproc_open (sample_keystore ()) [] sample_request sample_world = (Ok (accepted_of sample_request [7, 0]), w)"
proof -
  have "bt_get (sv_runtime (RelayService_new sample_node)) [7, 0] = None" by (simp add: RelayService_new_def)
  from open_session_admits [OF sample_admissible this] show ?thesis
    using sample_world_registry by (simp add: inproc_open_def open_registered_session_def sample_world_def)
qed

theorem inproc_open_close_witness:
  "\<exists>w1 w2. inproc_open (sample_keystore ()) [] sample_request sample_world =
            (Ok (accepted_of sample_request [7, 0]), w1) \<and>
           inproc_close (sample_keystore ()) [] [7, 0] ''bye'' w1 = (Ok (), w2) \<and> world_ok w2"
proof -
  obtain w where w: "inproc_open (sample_keystore ()) [] sample_request sample_world =
    (Ok (accepted_of sample_request [7, 0]), w)" using sample_world_opens by blast
  from inproc_open_close [OF sample_world_ok w, of "''bye''"] w show ?thesis
    by (auto simp: accepted_of_def)
qed

end
