(* ===== verification/Quip_Http.thy ===== *)
theory Quip_Http
  imports Quip_Prelude
begin

text \<open>
  What an HTTP agent (\<open>ureq\<close>, third-party) returns to its caller. The agent itself is a parameter
  of the operations that use it: method, URL and payload, on the state of the world.
\<close>

text \<open>A response body is read when it is used, and reading may fail.\<close>

datatype http_reply =
    Response (reply_body: "(string, string) result")
  | Status u16 "(string, string) result"
  | Transport string

type_synonym 's http_agent = "string \<Rightarrow> string \<Rightarrow> string option \<Rightarrow> 's \<Rightarrow> http_reply \<times> 's"

definition into_json :: "(string \<Rightarrow> ('a, string) result) \<Rightarrow> (string, string) result \<Rightarrow> ('a, string) result" where
  "into_json decode body = (case body of Err e \<Rightarrow> Err e | Ok s \<Rightarrow> decode s)"

definition body_text :: "(string, string) result \<Rightarrow> string" where
  "body_text body = (case body of Ok s \<Rightarrow> s | Err e \<Rightarrow> e)"

text \<open>A client that only reads: the reply to a GET of a URL, and the text of an agent error.\<close>

record http_reader =
  hr_get :: "string \<Rightarrow> http_reply"
  hr_error_text :: "string \<Rightarrow> http_reply \<Rightarrow> string"

end
