(* ===== verification/Quip_Relay_Http.thy ===== *)
theory Quip_Relay_Http
  imports Quip_Relay Quip_Http
begin

text \<open>
  The HTTP side of relay control: the request handler \<open>control_response\<close> and the client
  \<open>HttpRelayControl\<close> of the crate \<open>relay\<close>, and the request checks of \<open>cmd/relay\<close>. The JSON
  serializers and the HTTP agent (\<open>ureq\<close>) are parameters. A panic of the handler is a value.
\<close>

record relay_serde =
  open_request_to_string :: "relay_open_request \<Rightarrow> string"
  open_request_from_slice :: "bytes \<Rightarrow> (relay_open_request, string) result"
  accepted_to_string :: "relay_session_accepted \<Rightarrow> string"
  accepted_from_str :: "string \<Rightarrow> (relay_session_accepted, string) result"
  rejected_to_string :: "relay_session_rejected \<Rightarrow> string"
  rejected_from_str :: "string \<Rightarrow> (relay_session_rejected, string) result"
  session_to_string :: "relay_session \<Rightarrow> string"
  session_from_str :: "string \<Rightarrow> (relay_session, string) result"
  close_request_from_slice :: "bytes \<Rightarrow> (string, string) result"
  value_to_string :: "json \<Rightarrow> string"

section \<open>Session identifiers in paths\<close>

datatype panic = Panic string

definition hex_session_id :: "bytes \<Rightarrow> string" where
  "hex_session_id session_id = concat (map hex_byte session_id)"

text \<open>\<open>u8::from_str_radix(_, 16)\<close> on a pair of bytes.\<close>

definition from_str_radix_16 :: "char \<Rightarrow> char \<Rightarrow> u8 option" where
  "from_str_radix_16 c d =
     (if c = CHR ''+'' then map_option word_of_nat (hex_value d)
      else case (hex_value c, hex_value d) of
             (Some h, Some l) \<Rightarrow> Some (word_of_nat (16 * h + l))
           | _ \<Rightarrow> None)"

text \<open>A slice that ends inside a character panics.\<close>

definition continuation_byte :: "char \<Rightarrow> bool" where
  "continuation_byte c = (0x80 \<le> (of_char c :: nat) \<and> (of_char c :: nat) < 0xC0)"

fun parse_hex_pairs :: "string \<Rightarrow> (bytes option, panic) result" where
  "parse_hex_pairs (c # d # rest) =
     (if (case rest of [] \<Rightarrow> False | e # _ \<Rightarrow> continuation_byte e)
      then Err (Panic ''byte index is not a char boundary'')
      else case from_str_radix_16 c d of
             None \<Rightarrow> Ok None
           | Some b \<Rightarrow>
               (case parse_hex_pairs rest of
                  Ok (Some bs) \<Rightarrow> Ok (Some (b # bs))
                | Ok None \<Rightarrow> Ok None
                | Err p \<Rightarrow> Err p))"
| "parse_hex_pairs _ = Ok (Some [])"

definition parse_session_id :: "string \<Rightarrow> (bytes option, panic) result" where
  "parse_session_id value = (if length value \<noteq> 32 then Ok None else parse_hex_pairs value)"

definition parse_session_path :: "string \<Rightarrow> (bytes option, panic) result" where
  "parse_session_path path =
     (case strip_prefix ''/sessions/'' path of
        None \<Rightarrow> Ok None
      | Some session \<Rightarrow> parse_session_id session)"

section \<open>The request handler\<close>

definition error_value :: "'z relay_serde_scheme \<Rightarrow> string \<Rightarrow> string" where
  "error_value S message = value_to_string S (json_object [(''error'', JString message)])"

definition control_response ::
  "'x keystore_env_scheme \<Rightarrow> 'z relay_serde_scheme \<Rightarrow> u64 \<Rightarrow> bytes \<Rightarrow> string \<Rightarrow> string \<Rightarrow> bytes \<Rightarrow> relay_service \<Rightarrow>
   (u16 \<times> string, panic) result \<times> relay_service" where
  "control_response X S now rand method path body sv =
     (if method = ''POST'' \<and> path = ''/sessions'' then
        (case open_request_from_slice S body of
           Ok request \<Rightarrow>
             (case RelayService_open_session X now rand request sv of
                (Ok accepted, sv') \<Rightarrow> (Ok (200, accepted_to_string S accepted), sv')
              | (Err refusal, sv') \<Rightarrow> (Ok (403, rejected_to_string S refusal), sv'))
         | Err error \<Rightarrow>
             (Ok (400, rejected_to_string S
                \<lparr>rj_attempt_id = replicate 16 0, rj_code = RJ_InvalidRequest,
                 rj_source = PeerId_from_public_key X Ed25519 (as_bytes ''invalid''),
                 rj_destination = PeerId_from_public_key X Ed25519 (as_bytes ''invalid''),
                 rj_protocol = None, rj_traffic_class = Control,
                 rj_reason = ''invalid relay request: '' @ error\<rparr>), sv))
      else if method = ''GET'' \<and> path = ''/healthz'' then
        (Ok (200, value_to_string S (json_object
           [(''ok'', JBool True), (''sessions'', json_usize (RelayService_session_count sv))])), sv)
      else if method = ''GET'' \<and> starts_with ''/sessions/'' path then
        (case parse_session_path path of
           Err p \<Rightarrow> (Err p, sv)
         | Ok (Some session_id) \<Rightarrow>
             (case RelayService_session sv session_id of
                Some session \<Rightarrow> (Ok (200, session_to_string S session), sv)
              | None \<Rightarrow> (Ok (404, error_value S
                  (''relay session '' @ hex_session_id session_id @ '' was not found'')), sv))
         | Ok None \<Rightarrow> (Ok (400, error_value S (''invalid relay session path '' @ path)), sv))
      else if method = ''DELETE'' \<and> starts_with ''/sessions/'' path then
        (case parse_session_path path of
           Err p \<Rightarrow> (Err p, sv)
         | Ok (Some session_id) \<Rightarrow>
             (case close_request_from_slice S body of
                Err error \<Rightarrow> (Ok (400, error_value S (''invalid close request: '' @ error)), sv)
              | Ok reason \<Rightarrow>
                  (case RelayService_close_session session_id reason sv of
                     (Ok _, sv') \<Rightarrow> (Ok (204, []), sv')
                   | (Err e, sv') \<Rightarrow>
                       if e = SessionNotFound
                       then (Ok (404, error_value S
                         (''relay session '' @ hex_session_id session_id @ '' was not found'')), sv')
                       else (Ok (409, error_value S (relay_error_text X e)), sv')))
         | Ok None \<Rightarrow> (Ok (400, error_value S (''invalid relay session path '' @ path)), sv))
      else (Ok (404, error_value S (''no relay control route for '' @ method @ '' '' @ path)), sv))"

section \<open>The HTTP client\<close>

definition http_open ::
  "'z relay_serde_scheme \<Rightarrow> 's http_agent \<Rightarrow> string \<Rightarrow> relay_open_request \<Rightarrow> 's \<Rightarrow>
   (relay_session_accepted, relay_error) result \<times> 's" where
  "http_open S agent endpoint request w =
     (let payload = open_request_to_string S request
      in case agent ''POST'' (trim_end_matches (CHR ''/'') endpoint @ ''/sessions'') (Some payload) w of
           (Response body, w') \<Rightarrow> (map_err ControlDecode (into_json (accepted_from_str S) body), w')
         | (Status _ body, w') \<Rightarrow>
             (case into_json (rejected_from_str S) body of
                Err e \<Rightarrow> (Err (ControlDecode e), w')
              | Ok refusal \<Rightarrow> (Err (map_rejected_to_error refusal), w'))
         | (Transport e, w') \<Rightarrow> (Err (ControlTransport e), w'))"

definition http_close ::
  "'z relay_serde_scheme \<Rightarrow> 's http_agent \<Rightarrow> string \<Rightarrow> bytes \<Rightarrow> string \<Rightarrow> 's \<Rightarrow>
   (unit, relay_error) result \<times> 's" where
  "http_close S agent endpoint session_id reason w =
     (let payload = value_to_string S (json_object [(''reason'', JString reason)])
      in case agent ''DELETE'' (trim_end_matches (CHR ''/'') endpoint @ ''/sessions/'' @
                hex_session_id session_id) (Some payload) w of
           (Response _, w') \<Rightarrow> (Ok (), w')
         | (Status code body, w') \<Rightarrow>
             (Err (if code = 404 then SessionNotFound else ControlTransport (body_text body)), w')
         | (Transport e, w') \<Rightarrow> (Err (ControlTransport e), w'))"

definition http_session ::
  "'z relay_serde_scheme \<Rightarrow> 's http_agent \<Rightarrow> string \<Rightarrow> bytes \<Rightarrow> 's \<Rightarrow>
   (relay_session option, relay_error) result \<times> 's" where
  "http_session S agent endpoint session_id w =
     (case agent ''GET'' (trim_end_matches (CHR ''/'') endpoint @ ''/sessions/'' @
             hex_session_id session_id) None w of
        (Response body, w') \<Rightarrow>
          (case into_json (session_from_str S) body of
             Ok s \<Rightarrow> (Ok (Some s), w') | Err e \<Rightarrow> (Err (ControlDecode e), w'))
      | (Status code body, w') \<Rightarrow>
          (if code = 404 then Ok None else Err (ControlTransport (body_text body)), w')
      | (Transport e, w') \<Rightarrow> (Err (ControlTransport e), w'))"

section \<open>The relay daemon\<close>

definition MAX_CONTROL_BODY_BYTES :: nat where
  "MAX_CONTROL_BODY_BYTES = 64 * 1024"

text \<open>The declared length and the outcome of reading that many bytes come from the connection.\<close>

definition read_request_body ::
  "'z relay_serde_scheme \<Rightarrow> string \<Rightarrow> nat option \<Rightarrow> (nat \<Rightarrow> (bytes, string) result) \<Rightarrow> (bytes, u16 \<times> string) result" where
  "read_request_body S method body_length read_exact =
     (if method = ''GET'' \<or> method = ''HEAD'' then Ok []
      else case body_length of
             None \<Rightarrow> Err (411, error_value S ''relay control requests must include Content-Length'')
           | Some limit \<Rightarrow>
               if limit > MAX_CONTROL_BODY_BYTES
               then Err (413, error_value S (''relay control request body exceeds '' @
                      show_nat MAX_CONTROL_BODY_BYTES @ '' bytes''))
               else (case read_exact limit of
                       Err error \<Rightarrow> Err (400, error_value S
                         (''relay control request body could not be read: '' @ error))
                     | Ok body \<Rightarrow> Ok body))"

fun parse_protocols :: "string list \<Rightarrow> (protocol_id list, panic) result" where
  "parse_protocols [] = Ok []"
| "parse_protocols (p # ps) =
     (case ProtocolId_new p of
        Err _ \<Rightarrow> Err (Panic ''protocol ids must be valid'')
      | Ok q \<Rightarrow> (case parse_protocols ps of Err e \<Rightarrow> Err e | Ok qs \<Rightarrow> Ok (q # qs)))"

fun parse_destinations :: "'x codecs_scheme \<Rightarrow> string list \<Rightarrow> (relay_destination list, panic) result" where
  "parse_destinations X [] = Ok []"
| "parse_destinations X (value # values) =
     (case split_once (CHR ''='') value of
        None \<Rightarrow> Err (Panic ''destination rules must be peer_id=/proto1,/proto2'')
      | Some (peer, protocols) \<Rightarrow>
          (case PeerId_from_str X peer of
             Err _ \<Rightarrow> Err (Panic ''destination peer ids must be valid'')
           | Ok p \<Rightarrow>
               (case parse_protocols (filter (\<lambda>s. s \<noteq> []) (map trim (split_on (CHR '','') protocols))) of
                  Err e \<Rightarrow> Err e
                | Ok ps \<Rightarrow>
                    (case parse_destinations X values of
                       Err e \<Rightarrow> Err e
                     | Ok ds \<Rightarrow> Ok (\<lparr>rd_peer = p, rd_protocols = ps\<rparr> # ds)))))"

text \<open>One iteration of the server loop: the body check, then the handler.\<close>

definition serve_request ::
  "'x keystore_env_scheme \<Rightarrow> 'z relay_serde_scheme \<Rightarrow> u64 \<Rightarrow> bytes \<Rightarrow> string \<Rightarrow> string \<Rightarrow> nat option \<Rightarrow>
   (nat \<Rightarrow> (bytes, string) result) \<Rightarrow> relay_service \<Rightarrow> (u16 \<times> string, panic) result \<times> relay_service" where
  "serve_request X S now rand method url body_length read_exact sv =
     (case read_request_body S method body_length read_exact of
        Err e \<Rightarrow> (Ok e, sv)
      | Ok body \<Rightarrow> control_response X S now rand method url body sv)"

section \<open>Laws\<close>

lemma from_str_radix_16_hex_byte:
  "hex_byte b = [c, d] \<Longrightarrow> from_str_radix_16 c d = Some b"
proof -
  assume "hex_byte b = [c, d]"
  then have cd: "c = hex_digit (unat b div 16)" "d = hex_digit (unat b mod 16)"
    by (simp_all add: hex_byte_def)
  have b: "unat b < 256" using unsigned_less [of b] by simp
  then have lt: "unat b div 16 < 16" "unat b mod 16 < 16" by simp_all
  have plus: "hex_value (CHR ''+'') = None" by code_simp
  have "c \<noteq> CHR ''+''"
    using hex_value_hex_digit [OF lt(1)] plus cd(1) by force
  moreover have "word_of_nat (16 * (unat b div 16) + unat b mod 16) = b"
    by (simp only: mult_div_mod_eq) simp
  ultimately show ?thesis
    using lt by (simp add: from_str_radix_16_def cd hex_value_hex_digit)
qed

lemma hex_digit_ascii: "n < 16 \<Longrightarrow> \<not> continuation_byte (hex_digit n)"
  by (auto simp: continuation_byte_def hex_digit_def)

lemma parse_hex_pairs_hex: "parse_hex_pairs (hex_session_id bs) = Ok (Some bs)"
proof (induction bs)
  case (Cons b bs)
  obtain c d where cd: "hex_byte b = [c, d]" by (simp add: hex_byte_def)
  have "\<not> (case hex_session_id bs of [] \<Rightarrow> False | e # _ \<Rightarrow> continuation_byte e)"
  proof (cases bs)
    case (Cons b' bs')
    have "unat b' < 256" using unsigned_less [of b'] by simp
    then show ?thesis
      using Cons by (simp add: hex_session_id_def hex_byte_def hex_digit_ascii)
  qed (simp add: hex_session_id_def)
  with Cons from_str_radix_16_hex_byte [OF cd] show ?case
    by (simp add: hex_session_id_def cd)
qed (simp add: hex_session_id_def)

lemma length_hex_session_id [simp]: "length (hex_session_id bs) = 2 * length bs"
  by (induction bs) (simp_all add: hex_session_id_def hex_byte_def)

lemma parse_session_path_hex:
  "length sid = 16 \<Longrightarrow> parse_session_path (''/sessions/'' @ hex_session_id sid) = Ok (Some sid)"
  unfolding parse_session_path_def strip_prefix_append
  by (simp add: parse_session_id_def parse_hex_pairs_hex)

section \<open>HTTP control refines the service\<close>

text \<open>What the client and the handler rely on of the serializer: it reads back what it wrote.\<close>

definition relay_serde_ok :: "'z relay_serde_scheme \<Rightarrow> bool" where
  "relay_serde_ok S \<longleftrightarrow>
     (\<forall>q. open_request_from_slice S (as_bytes (open_request_to_string S q)) = Ok q) \<and>
     (\<forall>a. accepted_from_str S (accepted_to_string S a) = Ok a) \<and>
     (\<forall>r. rejected_from_str S (rejected_to_string S r) = Ok r) \<and>
     (\<forall>s. session_from_str S (session_to_string S s) = Ok s) \<and>
     (\<forall>reason. close_request_from_slice S
        (as_bytes (value_to_string S (json_object [(''reason'', JString reason)]))) = Ok reason)"

text \<open>A relay server reached over a connection that delivers: the agent takes the path of the URL
  to the handler and reports statuses from 400 on as errors, as \<open>ureq\<close> documents.\<close>

record relay_server =
  rsv_service :: relay_service
  rsv_clock :: "nat \<Rightarrow> u64"
  rsv_random :: "nat \<Rightarrow> bytes"
  rsv_tick :: nat

definition loopback ::
  "'x keystore_env_scheme \<Rightarrow> 'z relay_serde_scheme \<Rightarrow> string \<Rightarrow> relay_server http_agent" where
  "loopback X S base method url payload w =
     (case strip_prefix base url of
        None \<Rightarrow> (Transport ''unknown host'', w)
      | Some path \<Rightarrow>
          (case control_response X S (rsv_clock w (rsv_tick w)) (rsv_random w (rsv_tick w)) method path
                  (case payload of None \<Rightarrow> [] | Some p \<Rightarrow> as_bytes p) (rsv_service w) of
             (r, sv) \<Rightarrow>
               (case r of
                  Ok (code, text) \<Rightarrow> if code < 400 then Response (Ok text) else Status code (Ok text)
                | Err _ \<Rightarrow> Transport ''connection closed'',
                w\<lparr>rsv_service := sv, rsv_tick := Suc (rsv_tick w)\<rparr>)))"

lemma loopback_path:
  "loopback X S base method (base @ path) payload w =
     (case control_response X S (rsv_clock w (rsv_tick w)) (rsv_random w (rsv_tick w)) method path
             (case payload of None \<Rightarrow> [] | Some p \<Rightarrow> as_bytes p) (rsv_service w) of
        (r, sv) \<Rightarrow>
          (case r of
             Ok (code, text) \<Rightarrow> if code < 400 then Response (Ok text) else Status code (Ok text)
           | Err _ \<Rightarrow> Transport ''connection closed'',
           w\<lparr>rsv_service := sv, rsv_tick := Suc (rsv_tick w)\<rparr>))"
  by (simp add: loopback_def)

lemma session_route [simp]: "starts_with ''/sessions/'' (''/sessions/'' @ s)"
  by (simp add: starts_with_def)

lemma control_response_session:
  assumes "length sid = 16"
  shows "control_response X S now rand ''GET'' (''/sessions/'' @ hex_session_id sid) body sv =
     (case RelayService_session sv sid of
        Some s \<Rightarrow> (Ok (200, session_to_string S s), sv)
      | None \<Rightarrow> (Ok (404, error_value S (''relay session '' @ hex_session_id sid @ '' was not found'')), sv))"
  using parse_session_path_hex [OF assms] session_route [of "hex_session_id sid"]
  unfolding control_response_def by (simp split: option.split)

lemma control_response_close:
  assumes "length sid = 16" and "close_request_from_slice S body = Ok reason"
  shows "control_response X S now rand ''DELETE'' (''/sessions/'' @ hex_session_id sid) body sv =
     (case RelayService_close_session sid reason sv of
        (Ok _, sv') \<Rightarrow> (Ok (204, []), sv')
      | (Err e, sv') \<Rightarrow>
          if e = SessionNotFound
          then (Ok (404, error_value S (''relay session '' @ hex_session_id sid @ '' was not found'')), sv')
          else (Ok (409, error_value S (relay_error_text X e)), sv'))"
  using parse_session_path_hex [OF assms(1)] session_route [of "hex_session_id sid"] assms(2)
  unfolding control_response_def by simp

lemma close_session_result:
  "RelayService_close_session sid reason sv = (r, sv') \<Longrightarrow> r = Ok () \<or> r = Err SessionNotFound"
  by (auto simp: RelayService_close_session_def apply_frame_def split: if_splits)

text \<open>C3: Relay control over HTTP is a faithful front end: against a server that runs the request
  handler, opening, closing and looking up a session through the HTTP client gives exactly the
  result and the state change of the relay service, refusals mapped to errors.\<close>

theorem http_control_refines:
  assumes "relay_serde_ok S" and "length sid = 16" and "base = trim_end_matches (CHR ''/'') ep"
  shows "http_open S (loopback X S base) ep q w =
           (case RelayService_open_session X (rsv_clock w (rsv_tick w)) (rsv_random w (rsv_tick w)) q (rsv_service w) of
              (r, sv) \<Rightarrow> (map_err map_rejected_to_error r, w\<lparr>rsv_service := sv, rsv_tick := Suc (rsv_tick w)\<rparr>)) \<and>
         http_close S (loopback X S base) ep sid reason w =
           (case RelayService_close_session sid reason (rsv_service w) of
              (r, sv) \<Rightarrow> (r, w\<lparr>rsv_service := sv, rsv_tick := Suc (rsv_tick w)\<rparr>)) \<and>
         http_session S (loopback X S base) ep sid w =
           (Ok (RelayService_session (rsv_service w) sid), w\<lparr>rsv_tick := Suc (rsv_tick w)\<rparr>)"
proof (intro conjI)
  have serde: "open_request_from_slice S (as_bytes (open_request_to_string S q)) = Ok q"
    "accepted_from_str S (accepted_to_string S a) = Ok a" "rejected_from_str S (rejected_to_string S r) = Ok r"
    "session_from_str S (session_to_string S s) = Ok s"
    "close_request_from_slice S (as_bytes (value_to_string S (json_object [(''reason'', JString reason)]))) = Ok reason"
    for q a r s reason
    using assms(1) by (simp_all add: relay_serde_ok_def)
  show "http_open S (loopback X S base) ep q w =
           (case RelayService_open_session X (rsv_clock w (rsv_tick w)) (rsv_random w (rsv_tick w)) q (rsv_service w) of
              (r, sv) \<Rightarrow> (map_err map_rejected_to_error r, w\<lparr>rsv_service := sv, rsv_tick := Suc (rsv_tick w)\<rparr>))"
    unfolding http_open_def Let_def assms(3) [symmetric] loopback_path
    by (simp add: control_response_def serde into_json_def split: prod.split result.split)
  show "http_close S (loopback X S base) ep sid reason w =
           (case RelayService_close_session sid reason (rsv_service w) of
              (r, sv) \<Rightarrow> (r, w\<lparr>rsv_service := sv, rsv_tick := Suc (rsv_tick w)\<rparr>))"
    unfolding http_close_def Let_def assms(3) [symmetric] loopback_path
    by (simp add: control_response_close [OF assms(2) serde(5)] del: append.simps
        split: prod.split result.split)
       (auto dest: close_session_result)
  show "http_session S (loopback X S base) ep sid w =
           (Ok (RelayService_session (rsv_service w) sid), w\<lparr>rsv_tick := Suc (rsv_tick w)\<rparr>)"
    unfolding http_session_def assms(3) [symmetric] loopback_path
    by (simp add: control_response_session [OF assms(2)] serde into_json_def del: append.simps split: option.split)
qed

section \<open>A concrete serializer\<close>

definition w_enum :: "'a list \<Rightarrow> 'a wire" where
  "w_enum xs = w_iso (\<lambda>a. the (position (\<lambda>x. x = a) xs)) (\<lambda>n. xs ! n) w_nat"

lemma position_nth: "position p xs = Some i \<Longrightarrow> i < length xs \<and> p (xs ! i)"
  by (induction p xs arbitrary: i rule: position.induct) (auto split: if_splits)

lemma w_enum_ok: "(\<And>a. a \<in> set xs) \<Longrightarrow> wire_ok (w_enum xs)"
  unfolding w_enum_def
proof (rule w_iso_ok [OF w_nat_ok])
  fix a
  assume "\<And>a. a \<in> set xs"
  then have "position (\<lambda>x. x = a) xs \<noteq> None" by simp
  then show "xs ! the (position (\<lambda>x. x = a) xs) = a" using position_nth by fastforce
qed

definition w_peer_id :: "peer_id wire" where
  "w_peer_id = w_iso PeerId_as_bytes PeerId w_bytes"
definition w_network_id :: "network_id wire" where
  "w_network_id = w_iso (\<lambda>n. case n of NetworkId b \<Rightarrow> b) NetworkId w_bytes"
definition w_protocol_id :: "protocol_id wire" where
  "w_protocol_id = w_iso ProtocolId_as_str ProtocolId w_string"
definition w_traffic_class :: "traffic_class wire" where
  "w_traffic_class = w_enum [Control, Interactive, Bulk, Background]"
definition w_signature :: "signature_bytes wire" where
  "w_signature = w_iso (\<lambda>s. case s of SignatureBytes b \<Rightarrow> b) SignatureBytes w_bytes"

definition w_public_key :: "public_identity_key wire" where
  "w_public_key = w_iso (\<lambda>k. (pk_algorithm k, pk_bytes k)) (\<lambda>(a, b). \<lparr>pk_algorithm = a, pk_bytes = b\<rparr>)
     (w_pair (w_enum [Ed25519, X25519]) w_bytes)"

definition w_credential :: "session_credential wire" where
  "w_credential = w_iso
     (\<lambda>c. (sc_network_id c, sc_peer_id c, sc_session_public_key c, sc_issued_at c, sc_expires_at c,
           sc_protocol_versions c, sc_key_epoch c, sc_nonce c, sc_identity_signature c))
     (\<lambda>(n, p, k, i, e, v, ep, no, s). \<lparr>sc_network_id = n, sc_peer_id = p, sc_session_public_key = k,
        sc_issued_at = i, sc_expires_at = e, sc_protocol_versions = v, sc_key_epoch = ep, sc_nonce = no,
        sc_identity_signature = s\<rparr>)
     (w_pair w_network_id (w_pair w_peer_id (w_pair w_bytes (w_pair w_word (w_pair w_word
       (w_pair (w_list w_string) (w_pair w_word (w_pair w_bytes w_signature))))))))"

definition w_open_request :: "relay_open_request wire" where
  "w_open_request = w_iso
     (\<lambda>q. (oq_attempt_id q, oq_network_id q, oq_source q, oq_source_public_key q, oq_source_credential q,
           oq_destination q, oq_protocol q, oq_traffic_class q))
     (\<lambda>(a, n, s, k, c, d, p, t). \<lparr>oq_attempt_id = a, oq_network_id = n, oq_source = s,
        oq_source_public_key = k, oq_source_credential = c, oq_destination = d, oq_protocol = p,
        oq_traffic_class = t\<rparr>)
     (w_pair w_bytes (w_pair w_network_id (w_pair w_peer_id (w_pair w_public_key (w_pair w_credential
       (w_pair w_peer_id (w_pair (w_option w_protocol_id) w_traffic_class)))))))"

definition w_accepted :: "relay_session_accepted wire" where
  "w_accepted = w_iso
     (\<lambda>a. (ra_attempt_id a, ra_session_id a, ra_source a, ra_destination a, ra_protocol a, ra_traffic_class a))
     (\<lambda>(a, i, s, d, p, t). \<lparr>ra_attempt_id = a, ra_session_id = i, ra_source = s, ra_destination = d,
        ra_protocol = p, ra_traffic_class = t\<rparr>)
     (w_pair w_bytes (w_pair w_bytes (w_pair w_peer_id (w_pair w_peer_id
       (w_pair (w_option w_protocol_id) w_traffic_class)))))"

definition w_rejected :: "relay_session_rejected wire" where
  "w_rejected = w_iso
     (\<lambda>a. (rj_attempt_id a, rj_code a, rj_source a, rj_destination a, rj_protocol a, rj_traffic_class a, rj_reason a))
     (\<lambda>(a, c, s, d, p, t, r). \<lparr>rj_attempt_id = a, rj_code = c, rj_source = s, rj_destination = d,
        rj_protocol = p, rj_traffic_class = t, rj_reason = r\<rparr>)
     (w_pair w_bytes (w_pair (w_enum [RJ_Unauthorized, RJ_UnsupportedTrafficClass, RJ_CapacityExceeded,
        RJ_SessionExists, RJ_InvalidIdentityProof, RJ_DestinationUnauthorized,
        RJ_DestinationProtocolRejected, RJ_InvalidRequest]) (w_pair w_peer_id (w_pair w_peer_id
       (w_pair (w_option w_protocol_id) (w_pair w_traffic_class w_string))))))"

definition w_session :: "relay_session wire" where
  "w_session = w_iso
     (\<lambda>s. (rs_session_id s, rs_source s, rs_destination s, rs_protocol s, rs_traffic_class s, rs_status s))
     (\<lambda>(i, s, d, p, t, st). \<lparr>rs_session_id = i, rs_source = s, rs_destination = d, rs_protocol = p,
        rs_traffic_class = t, rs_status = st\<rparr>)
     (w_pair w_bytes (w_pair w_peer_id (w_pair w_peer_id (w_pair (w_option w_protocol_id)
       (w_pair w_traffic_class (w_enum [RS_Pending, RS_Open, RS_Closed]))))))"

lemma w_identifiers_ok:
  "wire_ok w_peer_id" "wire_ok w_network_id" "wire_ok w_protocol_id" "wire_ok w_signature"
  unfolding w_peer_id_def w_network_id_def w_protocol_id_def w_signature_def
  by (rule w_iso_ok [OF w_bytes_ok] w_iso_ok [OF w_string_ok]; case_tac a; simp)+

lemma w_traffic_class_ok: "wire_ok w_traffic_class"
  unfolding w_traffic_class_def by (rule w_enum_ok; case_tac a; simp)

lemma w_public_key_ok: "wire_ok w_public_key"
  unfolding w_public_key_def
  by (rule w_iso_ok [OF w_pair_ok [OF w_enum_ok w_bytes_ok]]; (case_tac a)?; simp)

lemma w_reject_code_ok: "wire_ok (w_enum [RJ_Unauthorized, RJ_UnsupportedTrafficClass, RJ_CapacityExceeded,
        RJ_SessionExists, RJ_InvalidIdentityProof, RJ_DestinationUnauthorized,
        RJ_DestinationProtocolRejected, RJ_InvalidRequest])"
  by (rule w_enum_ok; case_tac a; simp)

lemma w_session_status_ok: "wire_ok (w_enum [RS_Pending, RS_Open, RS_Closed])"
  by (rule w_enum_ok; case_tac a; simp)

lemma w_credential_ok: "wire_ok w_credential"
  unfolding w_credential_def by (rule w_iso_ok) (intro wire_oks w_identifiers_ok, simp)

lemma w_open_request_ok: "wire_ok w_open_request"
  unfolding w_open_request_def
  by (rule w_iso_ok) (intro wire_oks w_identifiers_ok w_public_key_ok w_credential_ok w_traffic_class_ok, simp)

lemma w_accepted_ok: "wire_ok w_accepted"
  unfolding w_accepted_def by (rule w_iso_ok) (intro wire_oks w_identifiers_ok w_traffic_class_ok, simp)

lemma w_rejected_ok: "wire_ok w_rejected"
  unfolding w_rejected_def
  by (rule w_iso_ok) (intro wire_oks w_identifiers_ok w_traffic_class_ok w_reject_code_ok, simp)

lemma w_session_ok: "wire_ok w_session"
  unfolding w_session_def
  by (rule w_iso_ok) (intro wire_oks w_identifiers_ok w_traffic_class_ok w_session_status_ok, simp)

definition sample_relay_serde :: relay_serde where
  "sample_relay_serde =
     \<lparr>open_request_to_string = w_to_string w_open_request,
      open_request_from_slice = w_from_slice w_open_request,
      accepted_to_string = w_to_string w_accepted, accepted_from_str = w_from_str w_accepted,
      rejected_to_string = w_to_string w_rejected, rejected_from_str = w_from_str w_rejected,
      session_to_string = w_to_string w_session, session_from_str = w_from_str w_session,
      close_request_from_slice = (\<lambda>bs. Ok (bytes_text bs)),
      value_to_string = (\<lambda>v. case v of JObject [(_, JString s)] \<Rightarrow> s | _ \<Rightarrow> [])\<rparr>"

lemma sample_relay_serde_ok: "relay_serde_ok sample_relay_serde"
  by (simp add: relay_serde_ok_def sample_relay_serde_def w_open_request_ok w_accepted_ok w_rejected_ok
      w_session_ok json_object_def bt_of_list_def bt_insert_def)

theorem http_control_refines_witness:
  "fst (http_close sample_relay_serde
          (loopback (sample_keystore ()) sample_relay_serde ''http://r'') ''http://r/'' (replicate 16 7) ''bye''
          \<lparr>rsv_service = RelayService_new sample_node, rsv_clock = (\<lambda>_. 5), rsv_random = (\<lambda>_. []), rsv_tick = 0\<rparr>)
   = Err SessionNotFound"
proof -
  have base: "''http://r'' = trim_end_matches (CHR ''/'') ''http://r/''" by simp
  show ?thesis
    by (subst http_control_refines [OF sample_relay_serde_ok _ base, THEN conjunct2, THEN conjunct1])
       (simp_all add: RelayService_close_session_def RelayService_new_def RelayRuntime_session_def)
qed

end
