(* ===== verification/Quip_Control.thy ===== *)
theory Quip_Control
  imports Quip_Membership Quip_Relay Quip_Http Quip_Records
begin

text \<open>
  The crate \<open>control\<close>: the client of the authority and the merge of authority snapshots, which
  accumulates revocations, replaces grants and bootstrap hints, and refuses rollbacks and
  conflicts. The HTTP agent and the JSON decoders are parameters.
\<close>

record authority_endpoints =
  ae_enrollment :: string
  ae_revocation :: string
  ae_relay_map :: string
  ae_bootstrap :: string
  ae_snapshot :: string

record authority_artifact_snapshot =
  as_network_id :: network_id
  as_enrollment_token :: "enrollment_token option"
  as_membership :: "membership_certificate option"
  as_capability_grants :: "capability_grant list"
  as_revocations :: "revocation_record list"
  as_bootstrap_hints :: "bootstrap_hint list"

datatype control_error =
    NetworkMismatch
  | CE_SubjectMismatch
  | MembershipRollback
  | GrantConflict
  | CE_Transport string
  | CE_Decode string
  | MissingSubject string

record snapshot_delta =
  sd_membership_changed :: bool
  sd_grants_added :: nat
  sd_grants_removed :: nat
  sd_revocations_added :: nat
  sd_bootstrap_hints_added :: nat
  sd_bootstrap_hints_removed :: nat

definition SnapshotDelta_empty :: snapshot_delta where
  "SnapshotDelta_empty =
     \<lparr>sd_membership_changed = False, sd_grants_added = 0, sd_grants_removed = 0,
      sd_revocations_added = 0, sd_bootstrap_hints_added = 0, sd_bootstrap_hints_removed = 0\<rparr>"

record control_client =
  cc_network_id :: network_id
  cc_endpoints :: authority_endpoints

definition ControlClient_from_origin :: "network_id \<Rightarrow> string \<Rightarrow> control_client" where
  "ControlClient_from_origin network_id origin =
     (let base = trim_end_matches (CHR ''/'') origin
      in \<lparr>cc_network_id = network_id,
          cc_endpoints = \<lparr>ae_enrollment = base @ ''/enroll'', ae_revocation = base @ ''/revoke'',
            ae_relay_map = base @ ''/relays'', ae_bootstrap = base @ ''/bootstrap'',
            ae_snapshot = base @ ''/snapshot''\<rparr>\<rparr>)"

definition sync_authority_snapshot ::
  "control_client \<Rightarrow> authority_artifact_snapshot \<Rightarrow> (authority_artifact_snapshot, control_error) result" where
  "sync_authority_snapshot c snapshot =
     (if as_network_id snapshot \<noteq> cc_network_id c then Err NetworkMismatch else Ok snapshot)"

section \<open>Fetching\<close>

definition endpoint_with_subject :: "string \<Rightarrow> string option \<Rightarrow> string" where
  "endpoint_with_subject endpoint subject =
     (case subject of Some s \<Rightarrow> endpoint @ ''?subject='' @ s | None \<Rightarrow> endpoint)"

definition endpoint_with_after_sequence :: "string \<Rightarrow> u64 option \<Rightarrow> string" where
  "endpoint_with_after_sequence endpoint after_sequence =
     (case after_sequence of
        Some sequence \<Rightarrow> endpoint @ ''?after_sequence='' @ show_word sequence
      | None \<Rightarrow> endpoint)"

definition map_transport_error :: "http_reader \<Rightarrow> string \<Rightarrow> http_reply \<Rightarrow> string option \<Rightarrow> control_error" where
  "map_transport_error H url error subject =
     (case (error, subject) of
        (Status code _, Some s) \<Rightarrow>
          if code = 404 then MissingSubject s else CE_Transport (hr_error_text H url error)
      | _ \<Rightarrow> CE_Transport (hr_error_text H url error))"

definition fetch_authority_snapshot_for ::
  "http_reader \<Rightarrow> (string \<Rightarrow> (authority_artifact_snapshot, string) result) \<Rightarrow> control_client \<Rightarrow> string option \<Rightarrow>
   (authority_artifact_snapshot, control_error) result" where
  "fetch_authority_snapshot_for H decode c subject =
     (let snapshot_url = endpoint_with_subject (ae_snapshot (cc_endpoints c)) subject
      in case hr_get H snapshot_url of
           Response body \<Rightarrow>
             (case into_json decode body of
                Err e \<Rightarrow> Err (CE_Decode e)
              | Ok snapshot \<Rightarrow> sync_authority_snapshot c snapshot)
         | error \<Rightarrow> Err (map_transport_error H snapshot_url error subject))"

definition fetch_authority_snapshot ::
  "http_reader \<Rightarrow> (string \<Rightarrow> (authority_artifact_snapshot, string) result) \<Rightarrow> control_client \<Rightarrow>
   (authority_artifact_snapshot, control_error) result" where
  "fetch_authority_snapshot H decode c = fetch_authority_snapshot_for H decode c None"

definition fetch_bootstrap_hints_for ::
  "http_reader \<Rightarrow> (string \<Rightarrow> (bootstrap_hint list, string) result) \<Rightarrow> control_client \<Rightarrow> string option \<Rightarrow>
   (bootstrap_hint list, control_error) result" where
  "fetch_bootstrap_hints_for H decode c subject =
     (let bootstrap_url = endpoint_with_subject (ae_bootstrap (cc_endpoints c)) subject
      in case hr_get H bootstrap_url of
           Response body \<Rightarrow> map_err CE_Decode (into_json decode body)
         | error \<Rightarrow> Err (map_transport_error H bootstrap_url error subject))"

definition fetch_bootstrap_hints ::
  "http_reader \<Rightarrow> (string \<Rightarrow> (bootstrap_hint list, string) result) \<Rightarrow> control_client \<Rightarrow>
   (bootstrap_hint list, control_error) result" where
  "fetch_bootstrap_hints H decode c = fetch_bootstrap_hints_for H decode c None"

definition fetch_revocations ::
  "http_reader \<Rightarrow> (string \<Rightarrow> (revocation_record list, string) result) \<Rightarrow> control_client \<Rightarrow> u64 option \<Rightarrow>
   (revocation_record list, control_error) result" where
  "fetch_revocations H decode c after_sequence =
     (let revocation_url = endpoint_with_after_sequence (ae_revocation (cc_endpoints c)) after_sequence
      in case hr_get H revocation_url of
           Response body \<Rightarrow> map_err CE_Decode (into_json decode body)
         | error \<Rightarrow> Err (CE_Transport (hr_error_text H revocation_url error)))"

definition fetch_relay_map ::
  "http_reader \<Rightarrow> (string \<Rightarrow> (relay_map, string) result) \<Rightarrow> control_client \<Rightarrow> (relay_map, control_error) result" where
  "fetch_relay_map H decode c =
     (case hr_get H (ae_relay_map (cc_endpoints c)) of
        Response body \<Rightarrow> map_err CE_Decode (into_json decode body)
      | error \<Rightarrow> Err (CE_Transport (hr_error_text H (ae_relay_map (cc_endpoints c)) error)))"

section \<open>Merging\<close>

definition same_grant :: "capability_grant \<Rightarrow> capability_grant \<Rightarrow> bool" where
  "same_grant l r \<longleftrightarrow>
     cg_network_id l = cg_network_id r \<and> cg_issuer_peer_id l = cg_issuer_peer_id r \<and>
     cg_subject_peer_id l = cg_subject_peer_id r \<and> cg_sequence l = cg_sequence r"

definition same_revocation :: "revocation_record \<Rightarrow> revocation_record \<Rightarrow> bool" where
  "same_revocation l r \<longleftrightarrow>
     rr_sequence l = rr_sequence r \<and> rr_issuer_peer_id l = rr_issuer_peer_id r \<and>
     rr_target l = rr_target r"

text \<open>\<open>sort\<close> followed by \<open>dedup\<close>.\<close>

definition normalize_addresses :: "string list \<Rightarrow> string list" where
  "normalize_addresses addresses = remdups_adj (sort (map trim addresses))"

definition same_hint :: "bootstrap_hint \<Rightarrow> bootstrap_hint \<Rightarrow> bool" where
  "same_hint l r =
     (case (bh_peer_id l, bh_peer_id r) of
        (Some lp, Some rp) \<Rightarrow> lp = rp
      | _ \<Rightarrow> normalize_addresses (bh_addresses l) = normalize_addresses (bh_addresses r))"

definition merge_membership ::
  "membership_certificate option \<Rightarrow> membership_certificate option \<Rightarrow>
   (membership_certificate option, control_error) result" where
  "merge_membership current incoming =
     (case (current, incoming) of
        (None, incoming) \<Rightarrow> Ok incoming
      | (Some current, None) \<Rightarrow> Ok (Some current)
      | (Some current, Some incoming) \<Rightarrow>
          if mc_subject_peer_id current \<noteq> mc_subject_peer_id incoming then Err CE_SubjectMismatch
          else if mc_issued_at incoming < mc_issued_at current then Err MembershipRollback
          else if mc_issued_at incoming = mc_issued_at current \<and> incoming \<noteq> current
          then Err GrantConflict
          else Ok (Some (if mc_issued_at incoming > mc_issued_at current \<or>
                            mc_expires_at incoming \<ge> mc_expires_at current
                         then incoming else current)))"

definition grant_conflict :: "capability_grant list \<Rightarrow> capability_grant list \<Rightarrow> bool" where
  "grant_conflict current_grants incoming_grants =
     list_ex (\<lambda>grant. case find (\<lambda>existing. same_grant existing grant) current_grants of
                        Some existing \<Rightarrow> existing \<noteq> grant
                      | None \<Rightarrow> False) incoming_grants"

definition merge_snapshot ::
  "control_client \<Rightarrow> authority_artifact_snapshot option \<Rightarrow> authority_artifact_snapshot \<Rightarrow>
   (authority_artifact_snapshot \<times> snapshot_delta, control_error) result" where
  "merge_snapshot c current incoming0 =
     (case sync_authority_snapshot c incoming0 of
        Err e \<Rightarrow> Err e
      | Ok incoming \<Rightarrow>
      case current of
        None \<Rightarrow>
          Ok (incoming,
              \<lparr>sd_membership_changed = (as_membership incoming \<noteq> None),
               sd_grants_added = length (as_capability_grants incoming), sd_grants_removed = 0,
               sd_revocations_added = length (as_revocations incoming),
               sd_bootstrap_hints_added = length (as_bootstrap_hints incoming),
               sd_bootstrap_hints_removed = 0\<rparr>)
      | Some current \<Rightarrow>
      case merge_membership (as_membership current) (as_membership incoming) of
        Err e \<Rightarrow> Err e
      | Ok membership \<Rightarrow>
      let membership_changed = (membership \<noteq> as_membership current);
          current_grants = as_capability_grants current;
          incoming_grants = as_capability_grants incoming
      in if grant_conflict current_grants incoming_grants then Err GrantConflict
         else
           let (revocations, revocations_added) =
                 merge_log same_revocation (as_revocations current) (as_revocations incoming);
               current_hints = as_bootstrap_hints current;
               incoming_hints = as_bootstrap_hints incoming
           in Ok (\<lparr>as_network_id = as_network_id incoming,
                   as_enrollment_token =
                     (case as_enrollment_token incoming of
                        Some t \<Rightarrow> Some t | None \<Rightarrow> as_enrollment_token current),
                   as_membership = membership,
                   as_capability_grants = incoming_grants,
                   as_revocations = revocations,
                   as_bootstrap_hints = incoming_hints\<rparr>,
                  \<lparr>sd_membership_changed = membership_changed,
                   sd_grants_added = length (filter (\<lambda>grant.
                     \<not> list_ex (\<lambda>existing. same_grant existing grant) current_grants) incoming_grants),
                   sd_grants_removed = length (filter (\<lambda>grant.
                     \<not> list_ex (\<lambda>inc. same_grant grant inc) incoming_grants) current_grants),
                   sd_revocations_added = revocations_added,
                   sd_bootstrap_hints_added = length (filter (\<lambda>hint.
                     \<not> list_ex (\<lambda>existing. same_hint existing hint) current_hints) incoming_hints),
                   sd_bootstrap_hints_removed = length (filter (\<lambda>hint.
                     \<not> list_ex (\<lambda>inc. same_hint hint inc) incoming_hints) current_hints)\<rparr>))"

section \<open>Laws\<close>

interpretation revlog: identity_log same_revocation
  by unfold_locales (auto simp: same_revocation_def)

text \<open>The comparison of expiry dates never decides: what is accepted is always the incoming
  certificate.\<close>

lemma merge_membership_Ok:
  "merge_membership cur inc = Ok m \<longleftrightarrow>
     (case (cur, inc) of
        (None, _) \<Rightarrow> m = inc
      | (Some c, None) \<Rightarrow> m = Some c
      | (Some c, Some i) \<Rightarrow> m = Some i \<and> mc_subject_peer_id c = mc_subject_peer_id i \<and>
          (mc_issued_at c < mc_issued_at i \<or> i = c))"
  by (auto simp: merge_membership_def split: option.splits if_splits)

lemma merge_snapshot_SomeD:
  assumes "merge_snapshot c (Some cur) inc = Ok (m, d)"
  shows "as_network_id inc = cc_network_id c"
    and "as_network_id m = as_network_id inc"
    and "merge_membership (as_membership cur) (as_membership inc) = Ok (as_membership m)"
    and "as_capability_grants m = as_capability_grants inc"
    and "\<not> grant_conflict (as_capability_grants cur) (as_capability_grants inc)"
    and "merge_log same_revocation (as_revocations cur) (as_revocations inc) =
           (as_revocations m, sd_revocations_added d)"
    and "as_bootstrap_hints m = as_bootstrap_hints inc"
    and "sd_membership_changed d = (as_membership m \<noteq> as_membership cur)"
  using assms
  by (auto simp: merge_snapshot_def sync_authority_snapshot_def Let_def
      split: result.splits if_splits prod.splits option.splits)

text \<open>C20: Merging never loses a revocation and never invents one; every incoming revocation is present
  afterwards up to identity, and the reported number is the growth of the log. Grants and
  bootstrap hints are the incoming ones, and the membership is never older than the local one.\<close>

theorem merge_snapshot_monotone:
  assumes "merge_snapshot c (Some cur) inc = Ok (m, d)"
  shows "(\<exists>new. as_revocations m = as_revocations cur @ new \<and> set new \<subseteq> set (as_revocations inc)) \<and>
         (\<forall>r \<in> set (as_revocations inc). \<exists>r' \<in> set (as_revocations m). same_revocation r' r) \<and>
         length (as_revocations m) = length (as_revocations cur) + sd_revocations_added d \<and>
         as_capability_grants m = as_capability_grants inc \<and>
         as_bootstrap_hints m = as_bootstrap_hints inc \<and> as_network_id m = cc_network_id c \<and>
         (\<forall>old. as_membership cur = Some old \<longrightarrow>
            (\<exists>new. as_membership m = Some new \<and> mc_subject_peer_id new = mc_subject_peer_id old \<and>
                   mc_issued_at old \<le> mc_issued_at new))"
proof -
  note D = merge_snapshot_SomeD [OF assms]
  have r: "as_revocations m = fst (merge_log same_revocation (as_revocations cur) (as_revocations inc))"
    and n: "sd_revocations_added d = snd (merge_log same_revocation (as_revocations cur) (as_revocations inc))"
    using D(6) by simp_all
  have mem: "\<exists>new. as_membership m = Some new \<and> mc_subject_peer_id new = mc_subject_peer_id old \<and>
                   mc_issued_at old \<le> mc_issued_at new" if "as_membership cur = Some old" for old
    using D(3) that by (auto simp: merge_membership_Ok split: option.splits)
  show ?thesis
    using revlog.merge_log_prefix [of "as_revocations cur" "as_revocations inc"]
      revlog.merge_log_covers [of _ "as_revocations inc" "as_revocations cur"]
      revlog.merge_log_count [of "as_revocations cur" "as_revocations inc"] D mem
    unfolding r n by auto
qed

definition sample_revocation :: revocation_record where
  "sample_revocation = RevocationRecord_issue sample_artifact_env (IdentityKeypair [1]) (NetworkId [1])
     (PeerTarget (PeerId [7])) Administrative 1 1 3 None"

definition sample_snapshot :: authority_artifact_snapshot where
  "sample_snapshot = \<lparr>as_network_id = NetworkId [1], as_enrollment_token = None, as_membership = None,
     as_capability_grants = [], as_revocations = [sample_revocation], as_bootstrap_hints = []\<rparr>"

definition sample_client :: control_client where
  "sample_client = ControlClient_from_origin (NetworkId [1]) ''http://a''"

lemma sample_merge:
  "\<exists>d. merge_snapshot sample_client (Some (sample_snapshot\<lparr>as_revocations := []\<rparr>)) sample_snapshot =
       Ok (sample_snapshot, d)"
  by (simp add: merge_snapshot_def sync_authority_snapshot_def sample_client_def sample_snapshot_def
      ControlClient_from_origin_def merge_membership_def grant_conflict_def Let_def)

theorem merge_snapshot_monotone_witness:
  "\<exists>m d. merge_snapshot sample_client (Some (sample_snapshot\<lparr>as_revocations := []\<rparr>)) sample_snapshot = Ok (m, d) \<and>
         length (as_revocations m) = sd_revocations_added d"
proof -
  obtain d where d: "merge_snapshot sample_client (Some (sample_snapshot\<lparr>as_revocations := []\<rparr>)) sample_snapshot =
       Ok (sample_snapshot, d)" using sample_merge by blast
  from merge_snapshot_monotone [OF d] d show ?thesis by auto
qed

text \<open>Merging is idempotent: a snapshot without two different grants under one identity, merged
  a second time, changes nothing and reports no additions and no removals.\<close>

theorem merge_snapshot_idempotent:
  assumes "merge_snapshot c (Some cur) inc = Ok (m, d)"
    and "\<not> grant_conflict (as_capability_grants inc) (as_capability_grants inc)"
  shows "\<exists>d'. merge_snapshot c (Some m) inc = Ok (m, d') \<and> \<not> sd_membership_changed d' \<and>
           sd_grants_added d' = 0 \<and> sd_grants_removed d' = 0 \<and> sd_revocations_added d' = 0 \<and>
           sd_bootstrap_hints_added d' = 0 \<and> sd_bootstrap_hints_removed d' = 0"
proof -
  note D = merge_snapshot_SomeD [OF assms(1)]
  have tok: "as_enrollment_token m =
      (case as_enrollment_token inc of Some t \<Rightarrow> Some t | None \<Rightarrow> as_enrollment_token cur)"
    using assms(1) by (auto simp: merge_snapshot_def sync_authority_snapshot_def Let_def split: result.splits if_splits prod.splits)
  have mem: "merge_membership (as_membership m) (as_membership inc) = Ok (as_membership m)"
    using D(3) by (auto simp: merge_membership_Ok split: option.splits)
  have log: "merge_log same_revocation (as_revocations m) (as_revocations inc) = (as_revocations m, 0)"
    using D(6) revlog.merge_log_again [of "as_revocations cur" "as_revocations inc"] by simp
  have none: "length (filter (\<lambda>g. \<not> list_ex (\<lambda>e. same_grant e g) gs) gs) = 0"
    "length (filter (\<lambda>g. \<not> list_ex (\<lambda>e. same_grant g e) gs) gs) = 0" for gs
    by (auto simp: filter_empty_conv list_ex_iff same_grant_def)
  have noneh: "length (filter (\<lambda>h. \<not> list_ex (\<lambda>e. same_hint e h) hs) hs) = 0"
    "length (filter (\<lambda>h. \<not> list_ex (\<lambda>e. same_hint h e) hs) hs) = 0" for hs
    by (auto simp: filter_empty_conv list_ex_iff same_hint_def split: option.splits)
  have eq: "\<lparr>as_network_id = cc_network_id c,
      as_enrollment_token = (case as_enrollment_token inc of Some t \<Rightarrow> Some t | None \<Rightarrow> as_enrollment_token m),
      as_membership = as_membership m, as_capability_grants = as_capability_grants inc,
      as_revocations = as_revocations m, as_bootstrap_hints = as_bootstrap_hints inc\<rparr> = m"
    using D(1,2,4,7) tok by (cases m) (auto split: option.splits)
  show ?thesis
    using D(1) assms(2)
    by (simp add: merge_snapshot_def sync_authority_snapshot_def mem log none noneh eq D(4,7))
qed

theorem merge_snapshot_idempotent_witness:
  "\<exists>d'. merge_snapshot sample_client (Some sample_snapshot) sample_snapshot = Ok (sample_snapshot, d') \<and>
        sd_revocations_added d' = 0"
proof -
  obtain d where d: "merge_snapshot sample_client (Some (sample_snapshot\<lparr>as_revocations := []\<rparr>)) sample_snapshot =
       Ok (sample_snapshot, d)" using sample_merge by blast
  have "\<not> grant_conflict (as_capability_grants sample_snapshot) (as_capability_grants sample_snapshot)"
    by (simp add: grant_conflict_def sample_snapshot_def)
  from merge_snapshot_idempotent [OF d this] show ?thesis by auto
qed

end
