(* ===== verification/Quip_Transport.thy ===== *)
theory Quip_Transport
  imports Quip_Relay
begin

text \<open>
  The crate \<open>transport\<close>: routes, sessions, events, listeners and reconnect records shared by the
  transport adapter and the daemon, and the clock and random source they read. A reading is the
  next one of a sequence; the sequences are arbitrary.
\<close>

section \<open>Clock and randomness\<close>

record clockwork =
  ck_secs :: "nat \<Rightarrow> u64"
  ck_nanos :: "nat \<Rightarrow> nat"
  ck_random :: "nat \<Rightarrow> bytes"
  ck_pos :: nat

definition current_unix_secs :: "clockwork \<Rightarrow> u64 \<times> clockwork" where
  "current_unix_secs e = (ck_secs e (ck_pos e), e\<lparr>ck_pos := Suc (ck_pos e)\<rparr>)"

definition current_unix_nanos :: "clockwork \<Rightarrow> nat \<times> clockwork" where
  "current_unix_nanos e = (ck_nanos e (ck_pos e), e\<lparr>ck_pos := Suc (ck_pos e)\<rparr>)"

definition random_bytes :: "clockwork \<Rightarrow> bytes \<times> clockwork" where
  "random_bytes e = (ck_random e (ck_pos e), e\<lparr>ck_pos := Suc (ck_pos e)\<rparr>)"

section \<open>Types\<close>

datatype transport_error =
    Unreachable
  | NoRoute peer_id
  | ProtocolRejected
  | PolicyDenied string
  | InvalidRoute string
  | RelayRejected string
  | NotImplemented

definition transport_error_text :: "'x codecs_scheme \<Rightarrow> transport_error \<Rightarrow> string" where
  "transport_error_text X e = (case e of
     Unreachable \<Rightarrow> ''peer is unreachable''
   | NoRoute p \<Rightarrow> ''no route is available for peer '' @ PeerId_to_text X p
   | ProtocolRejected \<Rightarrow> ''protocol is not authorized or supported''
   | PolicyDenied s \<Rightarrow> ''policy denied transport request: '' @ s
   | InvalidRoute s \<Rightarrow> ''route plan is invalid: '' @ s
   | RelayRejected s \<Rightarrow> ''relay rejected session open: '' @ s
   | NotImplemented \<Rightarrow> ''transport implementation is not wired yet'')"

datatype route_source = Src_Observed | Src_Bootstrap | Src_AuthorityRelay

definition route_source_debug :: "route_source \<Rightarrow> string" where
  "route_source_debug s = (case s of
     Src_Observed \<Rightarrow> ''Observed'' | Src_Bootstrap \<Rightarrow> ''Bootstrap'' | Src_AuthorityRelay \<Rightarrow> ''AuthorityRelay'')"

record relay_plan =
  rp_relay_peer :: peer_id
  rp_relay_endpoints :: "string list"
  rp_relay_control_endpoint :: string
  rp_destination_endpoints :: "string list"
  rp_supports_datagrams :: bool
  rp_supports_path_migration :: bool

record route_plan =
  rt_local_peer :: peer_id
  rt_peer :: peer_id
  rt_protocol :: "protocol_id option"
  rt_class :: traffic_class
  rt_path_kind :: path_kind
  rt_source :: route_source
  rt_remote_endpoints :: "string list"
  rt_relay :: "relay_plan option"

record bind_spec =
  bs_protocol :: protocol_id
  bs_advertise :: bool

datatype runtime_session_state =
    SS_Pending | SS_Connecting | SS_Active | SS_Degraded | SS_Migrating | SS_Reconciling
  | SS_Closing | SS_Closed | SS_Failed

datatype session_closure_reason =
    OperatorRequested | LocalRuntimeFailure | RemoteFailure | PolicyRejected | PathExhaustion
  | DaemonShutdown

record session_snapshot =
  ss_session_id :: bytes
  ss_transport_session_id :: bytes
  ss_relay_attempt_id :: "bytes option"
  ss_peer :: peer_id
  ss_protocol :: "protocol_id option"
  ss_class :: traffic_class
  ss_path_kind :: path_kind
  ss_source :: route_source
  ss_remote_endpoint :: string
  ss_relay_peer :: "peer_id option"
  ss_relay_endpoint :: "string option"
  ss_relay_control_endpoint :: "string option"
  ss_datagrams_capable :: bool
  ss_migration_capable :: bool
  ss_state :: runtime_session_state
  ss_closure_reason :: "session_closure_reason option"
  ss_state_reason :: "string option"
  ss_created_at_unix_secs :: u64
  ss_last_activity_unix_secs :: u64

record message_receipt =
  mr_peer :: peer_id
  mr_protocol :: protocol_id
  mr_accepted_bytes :: nat
  mr_route :: session_snapshot

record runtime_event_subject =
  ev_kind :: string
  ev_id :: string

record runtime_event =
  ev_event_id :: string
  ev_event_type :: string
  ev_emitted_at :: string
  ev_truth_kind :: string
  ev_subject :: runtime_event_subject
  ev_details :: json

record reconnect_suppression =
  sp_peer :: peer_id
  sp_protocol :: "protocol_id option"
  sp_class :: traffic_class
  sp_reason :: string
  sp_imposed_at_unix_secs :: u64

datatype runtime_listener_state = LS_Active | LS_Failed | LS_Suppressed

record runtime_listener_snapshot =
  ln_listener_id :: string
  ln_transport :: string
  ln_bind_summary :: string
  ln_protocol :: protocol_id
  ln_advertise :: bool
  ln_state :: runtime_listener_state
  ln_state_reason :: "string option"
  ln_started_at_unix_secs :: u64

datatype runtime_reconnect_state = RC_Idle | RC_Active | RC_Suppressed | RC_Failed

record runtime_transport_health =
  th_active_sessions :: nat
  th_active_listeners :: nat
  th_reconnect_state :: runtime_reconnect_state
  th_reconnect_attempt_count :: nat
  th_reconnect_next_attempt_unix_secs :: "u64 option"
  th_reconnect_suppression_count :: nat
  th_event_buffer_depth :: nat
  th_session_registry_healthy :: bool
  th_listener_registry_healthy :: bool

datatype runtime_reconnect_attempt_state = BackingOff | Attempt_Failed

record runtime_reconnect_attempt =
  at_peer :: peer_id
  at_protocol :: "protocol_id option"
  at_class :: traffic_class
  at_state :: runtime_reconnect_attempt_state
  at_reason :: string
  at_attempt_count :: u32
  at_last_attempt_unix_secs :: u64
  at_next_attempt_unix_secs :: u64
  at_max_attempts :: u32

end
