(* ===== verification/Quip_State.thy ===== *)
theory Quip_State
  imports Quip_Control Quip_Policy Quip_Netcheck Quip_Routing Quip_Transport
begin

text \<open>
  The state of a node in the crate \<open>fabric\<close>: what it holds of the authority's artifacts, the peers
  it knows, the relays it may use and the path candidates derived from them; who is denied, which
  protocols the local peer may use, and the route plan for a peer. The functions keep the order of
  the source; \<open>DaemonState\<close> methods whose name is taken carry the type's name.
\<close>

section \<open>Types\<close>

definition DAEMON_STATE_SCHEMA_VERSION :: u64 where "DAEMON_STATE_SCHEMA_VERSION = 2"
definition MIN_MIGRATABLE_DAEMON_STATE_SCHEMA_VERSION :: u64 where
  "MIN_MIGRATABLE_DAEMON_STATE_SCHEMA_VERSION = 1"

datatype daemon_role = Role_Bootstrap | Role_Relay | Role_Observer | Role_Edge

record daemon_config =
  dcf_network :: string
  dcf_state_path :: string
  dcf_roles :: "daemon_role list"

definition DaemonConfig_new :: "string \<Rightarrow> string \<Rightarrow> daemon_config" where
  "DaemonConfig_new network state_path =
     \<lparr>dcf_network = network, dcf_state_path = state_path, dcf_roles = [Role_Edge, Role_Observer]\<rparr>"

datatype daemon_state_error =
    DS_Io string
  | DS_Serialization string
  | DS_PeerNotFound string
  | DS_NetworkMismatch
  | DS_MissingMembership
  | DS_Control control_error
  | DS_NoRoute peer_id
  | DS_PolicyDenied string
  | DS_Transport transport_error
  | DS_SessionNotFound string
  | DS_InvalidSession string
  | DS_MissingSchemaVersion
  | DS_MigrationRequired u64 u64
  | DS_UnsupportedSchemaVersion u64 u64
  | DS_UnsupportedDurableField string
  | DS_InvalidBackupBundle
  | DS_BackupKeyDerivation

record bootstrap_endpoint =
  be_peer :: "peer_id option"
  be_addresses :: "string list"
  be_protocols :: "string list"
  be_metadata :: "(string, string) btree_map"

record denied_peer =
  dp_peer :: peer_id
  dp_reason :: string

record daemon_state =
  ds_schema_version :: u64
  ds_network :: string
  ds_local_peer_id :: peer_id
  ds_roles :: "daemon_role list"
  ds_membership :: membership_certificate
  ds_capability_grants :: "capability_grant list"
  ds_revocations :: "revocation_record list"
  ds_denied_peers :: "denied_peer list"
  ds_bootstrap :: "bootstrap_endpoint list"
  ds_relay_map :: "relay_map option"
  ds_peers :: "peer_inspection list"
  ds_netcheck :: netcheck_report
  ds_queue_policies :: "queue_policy list"
  ds_active_sessions :: "session_snapshot list"
  ds_path_candidates :: "path_candidate list"

record state_sync_report =
  sy_membership_changed :: bool
  sy_grants_added :: nat
  sy_grants_removed :: nat
  sy_revocations_added :: nat
  sy_bootstrap_hints_added :: nat
  sy_bootstrap_hints_removed :: nat
  sy_relay_announcements_added :: nat

section \<open>Addresses and endpoints\<close>

definition is_direct_quic_address :: "string \<Rightarrow> bool" where
  "is_direct_quic_address address \<longleftrightarrow> starts_with ''quic://'' address \<or> starts_with ''udp://'' address"

definition is_ipv6_address :: "string \<Rightarrow> bool" where
  "is_ipv6_address address \<longleftrightarrow> contains ''://['' address \<or> count_char (CHR '':'') address > 2"

definition endpoint_matches_path_kind :: "string \<Rightarrow> path_kind \<Rightarrow> bool" where
  "endpoint_matches_path_kind address kind = (case kind of
     DirectIpv6 \<Rightarrow> is_direct_quic_address address \<and> is_ipv6_address address
   | DirectUdp \<Rightarrow> is_direct_quic_address address \<and> \<not> is_ipv6_address address
   | Relay \<Rightarrow> is_direct_quic_address address
   | Loopback \<Rightarrow> contains ''127.0.0.1'' address \<or> contains ''://[::1]'' address
   | Lan \<Rightarrow> contains ''192.168.'' address \<or> contains ''10.'' address \<or> contains ''172.16.'' address)"

definition route_endpoints :: "string list \<Rightarrow> path_kind \<Rightarrow> string list" where
  "route_endpoints addresses kind =
     (let filtered = filter (\<lambda>address. endpoint_matches_path_kind address kind) addresses
      in if filtered = [] then addresses else filtered)"

definition route_source :: "path_source \<Rightarrow> route_source" where
  "route_source source = (case source of
     Observed \<Rightarrow> Src_Observed | Bootstrap \<Rightarrow> Src_Bootstrap | AuthorityRelay \<Rightarrow> Src_AuthorityRelay)"

definition endpoint_path_kind :: "bootstrap_endpoint \<Rightarrow> path_kind" where
  "endpoint_path_kind endpoint =
     (if list_ex is_ipv6_address (be_addresses endpoint) then DirectIpv6 else DirectUdp)"

definition relay_path_kind :: "relay_announcement \<Rightarrow> path_kind" where
  "relay_path_kind relay =
     (if list_ex is_ipv6_address (an_advertised_endpoints relay) then DirectIpv6 else DirectUdp)"

definition bootstrap_protocols :: "(string, string) btree_map \<Rightarrow> string list" where
  "bootstrap_protocols metadata =
     (let fallback = [''/quip/control/1'', ''/quip/records/1'']
      in case bt_get metadata ''protocols'' of
           None \<Rightarrow> fallback
         | Some value \<Rightarrow>
             let values = filter (\<lambda>v. v \<noteq> []) (map trim (split_on (CHR '','') value))
             in if values = [] then fallback else values)"

definition bootstrap_endpoint_from_hint :: "bootstrap_hint \<Rightarrow> bootstrap_endpoint" where
  "bootstrap_endpoint_from_hint hint =
     \<lparr>be_peer = bh_peer_id hint, be_addresses = bh_addresses hint,
      be_protocols = bootstrap_protocols (bh_metadata hint), be_metadata = bh_metadata hint\<rparr>"

section \<open>Peers\<close>

definition bootstrap_status :: peer_status where
  "bootstrap_status =
     \<lparr>pst_source = PS_Bootstrap, pst_reachability = PR_Unknown, pst_last_seen_unix_secs = None\<rparr>"

definition endpoint_snapshot :: "peer_id \<Rightarrow> bootstrap_endpoint \<Rightarrow> peer_snapshot" where
  "endpoint_snapshot peer endpoint =
     \<lparr>ps_peer = peer, ps_protocols = be_protocols endpoint, ps_addresses = be_addresses endpoint\<rparr>"

definition bootstrap_peers :: "bootstrap_endpoint list \<Rightarrow> peer_inspection list" where
  "bootstrap_peers endpoints =
     PeerStore_peers (fold (\<lambda>endpoint store.
         case be_peer endpoint of
           None \<Rightarrow> store
         | Some peer \<Rightarrow> upsert_peer_with_status (endpoint_snapshot peer endpoint) bootstrap_status store)
       endpoints PeerStore_default)"

definition load_peers :: "peer_inspection list \<Rightarrow> peer_store" where
  "load_peers existing =
     fold (\<lambda>peer. upsert_peer_with_status (pi_snapshot peer) (pi_status peer)) existing PeerStore_default"

definition merge_bootstrap_peers :: "peer_inspection list \<Rightarrow> bootstrap_endpoint list \<Rightarrow> peer_inspection list" where
  "merge_bootstrap_peers existing bootstrap =
     PeerStore_peers (fold (\<lambda>endpoint store.
         case be_peer endpoint of
           None \<Rightarrow> store
         | Some peer \<Rightarrow>
             let status = (case PeerStore_peer_status store peer of Some st \<Rightarrow> st | None \<Rightarrow> bootstrap_status)
             in upsert_peer_with_status (endpoint_snapshot peer endpoint) status store)
       bootstrap (load_peers existing))"

definition relay_peers :: "relay_map \<Rightarrow> peer_inspection list" where
  "relay_peers relays =
     PeerStore_peers (fold (\<lambda>relay.
         upsert_peer_with_status
           \<lparr>ps_peer = an_peer_id relay, ps_protocols = [''/quip/relay/1''],
            ps_addresses = an_advertised_endpoints relay\<rparr>
           \<lparr>pst_source = PS_RelayMap, pst_reachability = PR_Unknown,
            pst_last_seen_unix_secs = Some (rm_generated_at relays)\<rparr>)
       (rm_relays relays) PeerStore_default)"

definition merge_relay_peers :: "peer_inspection list \<Rightarrow> peer_inspection list \<Rightarrow> peer_inspection list" where
  "merge_relay_peers existing relays =
     PeerStore_peers (fold (\<lambda>relay store.
         let peer_id = ps_peer (pi_snapshot relay);
             status = (case PeerStore_peer_status store peer_id of
                         Some st \<Rightarrow> st
                       | None \<Rightarrow> \<lparr>pst_source = PS_RelayMap, pst_reachability = PR_Unknown,
                                  pst_last_seen_unix_secs = pst_last_seen_unix_secs (pi_status relay)\<rparr>)
         in upsert_peer_with_status (pi_snapshot relay) status store)
       relays (load_peers existing))"

section \<open>Path candidates\<close>

definition best_probe_latency_ms :: "netcheck_report \<Rightarrow> u32 option" where
  "best_probe_latency_ms n =
     min_opt (List.map_filter po_latency_ms
       (filter (\<lambda>o'. po_status o' = Probe_Passed) (nr_probe_observations n)))"

definition direct_bootstrap_rtt_ms :: "netcheck_report \<Rightarrow> u32" where
  "direct_bootstrap_rtt_ms n = (case best_probe_latency_ms n of Some l \<Rightarrow> l | None \<Rightarrow> 40)"

definition direct_bootstrap_jitter_ms :: "netcheck_report \<Rightarrow> u32" where
  "direct_bootstrap_jitter_ms n = (if nr_udp_reachable n then 3 else 12)"

definition direct_bootstrap_loss_pct :: "netcheck_report \<Rightarrow> f32" where
  "direct_bootstrap_loss_pct n = (if nr_udp_reachable n then f32_lit 2 10 else f32_lit 15 10)"

definition direct_bootstrap_throughput_mbps :: "netcheck_report \<Rightarrow> u32" where
  "direct_bootstrap_throughput_mbps n = (if nr_udp_reachable n then 600 else 120)"

definition direct_relay_rtt_ms :: "relay_announcement \<Rightarrow> netcheck_report \<Rightarrow> u32" where
  "direct_relay_rtt_ms relay n =
     (let base = (case best_probe_latency_ms n of
                    Some l \<Rightarrow> l | None \<Rightarrow> if nr_udp_reachable n then 30 else 70)
      in if relay_path_kind relay = DirectIpv6 \<and> nr_ipv6_reachable n then sat_add base 5 else sat_add base 15)"

definition direct_relay_jitter_ms :: "netcheck_report \<Rightarrow> u32" where
  "direct_relay_jitter_ms n = (if nr_udp_reachable n then 4 else 14)"

definition direct_relay_loss_pct :: "netcheck_report \<Rightarrow> f32" where
  "direct_relay_loss_pct n = (if nr_udp_reachable n then f32_lit 3 10 else f32_lit 18 10)"

definition relay_direct_throughput_mbps :: "relay_announcement \<Rightarrow> u32" where
  "relay_direct_throughput_mbps relay =
     ucast (let mbps = an_max_bandwidth_bps relay div 1000000
            in if mbps < 100 then 100 else if mbps > 5000 then 5000 else mbps :: u64)"

definition relay_fallback_rtt_ms :: "relay_announcement \<Rightarrow> netcheck_report \<Rightarrow> u32" where
  "relay_fallback_rtt_ms relay n = sat_add (sat_mul (direct_relay_rtt_ms relay n) 2) 20"

definition relay_fallback_jitter_ms :: "netcheck_report \<Rightarrow> u32" where
  "relay_fallback_jitter_ms n = sat_add (direct_relay_jitter_ms n) 5"

definition relay_fallback_loss_pct :: "netcheck_report \<Rightarrow> f32" where
  "relay_fallback_loss_pct n = f32_add (direct_relay_loss_pct n) (f32_lit 4 10)"

definition relay_fallback_throughput_mbps :: "relay_announcement \<Rightarrow> u32" where
  "relay_fallback_throughput_mbps relay = max (relay_direct_throughput_mbps relay div 2) 80"

definition relay_class_of :: "string \<Rightarrow> traffic_class option" where
  "relay_class_of value =
     (if value = ''NetworkControl'' then Some Control
      else if value = ''InteractiveRpc'' then Some Interactive
      else if value = ''Background'' then Some Background
      else if value = ''Bulk'' then Some Bulk
      else None)"

definition relay_traffic_classes :: "string list \<Rightarrow> traffic_class list" where
  "relay_traffic_classes values =
     (let classes = List.map_filter relay_class_of values
      in if classes = [] then [Control, Interactive] else classes)"

definition same_candidate :: "path_candidate \<Rightarrow> path_candidate \<Rightarrow> bool" where
  "same_candidate existing candidate \<longleftrightarrow>
     pc_peer existing = pc_peer candidate \<and> pc_path_kind existing = pc_path_kind candidate \<and>
     pc_relay_peer existing = pc_relay_peer candidate \<and> pc_source existing = pc_source candidate"

definition push_unique_candidate :: "path_candidate \<Rightarrow> path_candidate list \<Rightarrow> path_candidate list" where
  "push_unique_candidate candidate candidates =
     (if list_ex (\<lambda>existing. same_candidate existing candidate) candidates then candidates
      else candidates @ [candidate])"

definition synthesized_direct_bootstrap_candidates :: "daemon_state \<Rightarrow> path_candidate list" where
  "synthesized_direct_bootstrap_candidates state =
     (let n = ds_netcheck state
      in if \<not> nr_udp_reachable n \<and> \<not> nr_ipv6_reachable n then []
         else List.map_filter (\<lambda>endpoint.
             map_option (\<lambda>peer.
               \<lparr>pc_peer = peer, pc_path_kind = endpoint_path_kind endpoint, pc_relay_peer = None,
                pc_source = Bootstrap, pc_traffic_classes = [Control, Interactive, Bulk, Background],
                pc_rtt_ms = direct_bootstrap_rtt_ms n, pc_jitter_ms = direct_bootstrap_jitter_ms n,
                pc_loss_pct = direct_bootstrap_loss_pct n,
                pc_throughput_mbps = direct_bootstrap_throughput_mbps n, pc_relay_penalty = 0\<rparr>)
             (be_peer endpoint))
           (filter (\<lambda>endpoint. list_ex is_direct_quic_address (be_addresses endpoint))
             (filter (\<lambda>endpoint. be_peer endpoint \<noteq> None) (ds_bootstrap state))))"

definition relay_direct_candidate :: "netcheck_report \<Rightarrow> relay_announcement \<Rightarrow> path_candidate" where
  "relay_direct_candidate n relay =
     \<lparr>pc_peer = an_peer_id relay, pc_path_kind = relay_path_kind relay, pc_relay_peer = None,
      pc_source = AuthorityRelay, pc_traffic_classes = relay_traffic_classes (an_traffic_classes relay),
      pc_rtt_ms = direct_relay_rtt_ms relay n, pc_jitter_ms = direct_relay_jitter_ms n,
      pc_loss_pct = direct_relay_loss_pct n, pc_throughput_mbps = relay_direct_throughput_mbps relay,
      pc_relay_penalty = 0\<rparr>"

definition relay_fallback_candidate :: "netcheck_report \<Rightarrow> peer_id \<Rightarrow> relay_announcement \<Rightarrow> path_candidate" where
  "relay_fallback_candidate n peer relay =
     \<lparr>pc_peer = peer, pc_path_kind = Relay, pc_relay_peer = Some (an_peer_id relay),
      pc_source = AuthorityRelay, pc_traffic_classes = relay_traffic_classes (an_traffic_classes relay),
      pc_rtt_ms = relay_fallback_rtt_ms relay n, pc_jitter_ms = relay_fallback_jitter_ms n,
      pc_loss_pct = relay_fallback_loss_pct n, pc_throughput_mbps = relay_fallback_throughput_mbps relay,
      pc_relay_penalty = 25\<rparr>"

definition synthesized_relay_candidates :: "daemon_state \<Rightarrow> path_candidate list" where
  "synthesized_relay_candidates state =
     (case ds_relay_map state of
        None \<Rightarrow> []
      | Some relays \<Rightarrow>
          let n = ds_netcheck state;
              relay_peer_ids = map an_peer_id (rm_relays relays)
          in map (relay_direct_candidate n) (rm_relays relays) @
             concat (map (\<lambda>peer.
                 if ps_peer (pi_snapshot peer) \<in> set relay_peer_ids then []
                 else map (relay_fallback_candidate n (ps_peer (pi_snapshot peer))) (rm_relays relays))
               (ds_peers state)))"

definition merged_path_candidates :: "daemon_state \<Rightarrow> path_candidate list" where
  "merged_path_candidates state =
     fold push_unique_candidate (synthesized_relay_candidates state)
       (fold push_unique_candidate (synthesized_direct_bootstrap_candidates state)
         (filter (\<lambda>candidate. pc_source candidate = Observed) (ds_path_candidates state)))"

definition pending_netcheck :: netcheck_report where
  "pending_netcheck =
     \<lparr>nr_nat_type = NT_Unknown, nr_udp_reachable = False, nr_ipv6_reachable = False,
      nr_hairpin_supported = False, nr_public_udp_addr = None, nr_port_mapped = False,
      nr_probe_observations = [\<lparr>po_vantage = ''local'', po_status = Probe_Pending, po_latency_ms = None,
        po_detail = ''netcheck has not run yet''\<rparr>]\<rparr>"

definition reprobe_netcheck :: "daemon_state \<Rightarrow> string \<Rightarrow> netcheck_report" where
  "reprobe_netcheck state reason =
     (let n = ds_netcheck state;
          n = (if nr_port_mapped n \<or> nr_public_udp_addr n \<noteq> None
               then let n = n\<lparr>nr_udp_reachable := True\<rparr>
                    in if nr_nat_type n = NT_Unknown \<or> nr_nat_type n = UdpBlocked
                       then n\<lparr>nr_nat_type := RestrictedCone\<rparr> else n
               else n);
          n = (case nr_public_udp_addr n of
                 Some addr \<Rightarrow> if is_ipv6_address addr then n\<lparr>nr_ipv6_reachable := True\<rparr> else n
               | None \<Rightarrow> n);
          status = (if nr_udp_reachable n \<or> nr_ipv6_reachable n then Probe_Passed else Probe_Failed);
          latency_ms = (if status = Probe_Passed
                        then (case best_probe_latency_ms n of Some l \<Rightarrow> Some l | None \<Rightarrow> Some 20)
                        else None);
          observations = nr_probe_observations n @
            [\<lparr>po_vantage = ''local-runtime'', po_status = status, po_latency_ms = latency_ms,
              po_detail = ''network change reprobe: '' @ reason\<rparr>]
      in n\<lparr>nr_probe_observations :=
             (if length observations > 8 then drop (length observations - 8) observations else observations)\<rparr>)"

section \<open>Policy\<close>

definition revocation_reason_debug :: "revocation_reason \<Rightarrow> string" where
  "revocation_reason_debug r = (case r of
     Administrative \<Rightarrow> ''Administrative'' | KeyCompromise \<Rightarrow> ''KeyCompromise''
   | Superseded \<Rightarrow> ''Superseded'' | Unspecified \<Rightarrow> ''Unspecified'')"

definition revocation_text :: "'x codecs_scheme \<Rightarrow> revocation_record \<Rightarrow> string" where
  "revocation_text X r =
     revocation_reason_debug (rr_reason r) @ '' seq='' @ show_word (rr_sequence r) @ '' issuer='' @
     PeerId_to_text X (rr_issuer_peer_id r)"

definition denied_by :: "'x codecs_scheme \<Rightarrow> membership_certificate \<Rightarrow> revocation_record \<Rightarrow> denied_peer option" where
  "denied_by X membership revocation =
     (case rr_target revocation of
        PeerTarget peer_id \<Rightarrow>
          Some \<lparr>dp_peer = peer_id, dp_reason = ''peer revoked: '' @ revocation_text X revocation\<rparr>
      | CertificateTarget subject_peer_id issued_at \<Rightarrow>
          if subject_peer_id = mc_subject_peer_id membership \<and> issued_at = mc_issued_at membership
          then Some \<lparr>dp_peer = subject_peer_id, dp_reason = ''membership revoked: '' @ revocation_text X revocation\<rparr>
          else None
      | _ \<Rightarrow> None)"

definition denied_peers ::
  "'x codecs_scheme \<Rightarrow> membership_certificate \<Rightarrow> revocation_record list \<Rightarrow> denied_peer list" where
  "denied_peers X membership revocations = List.map_filter (denied_by X membership) revocations"

definition protocol_capability :: "protocol_id \<Rightarrow> string" where
  "protocol_capability protocol =
     (if ProtocolId_as_str protocol = ''/quip/records/1'' then ''records.publish''
      else if ProtocolId_as_str protocol = ''/quip/control/1'' then ''control.access''
      else ''protocol:'' @ ProtocolId_as_str protocol)"

definition is_capability_revoked :: "daemon_state \<Rightarrow> peer_id \<Rightarrow> u64 \<Rightarrow> bool" where
  "is_capability_revoked state peer seq =
     list_ex (\<lambda>revocation. case rr_target revocation of
         GrantTarget subject_peer_id revoked_sequence \<Rightarrow> subject_peer_id = peer \<and> revoked_sequence = seq
       | _ \<Rightarrow> False) (ds_revocations state)"

definition grants_for_peer :: "daemon_state \<Rightarrow> peer_id \<Rightarrow> capability_grant list" where
  "grants_for_peer state peer =
     filter (\<lambda>grant. \<not> is_capability_revoked state (cg_subject_peer_id grant) (cg_sequence grant))
       (filter (\<lambda>grant. cg_subject_peer_id grant = peer) (ds_capability_grants state))"

definition deny_reason :: "daemon_state \<Rightarrow> peer_id \<Rightarrow> string option" where
  "deny_reason state peer =
     map_option dp_reason (find (\<lambda>entry. dp_peer entry = peer) (ds_denied_peers state))"

definition explain_local_protocol_policy :: "'x codecs_scheme \<Rightarrow> daemon_state \<Rightarrow> protocol_id \<Rightarrow> decision" where
  "explain_local_protocol_policy X state protocol =
     (let grants = grants_for_peer state (ds_local_peer_id state);
          engine = [\<lparr>pr_effect = Allow, pr_network_id = Some (NetworkId_derive X (ds_network state)),
                     pr_protocol = Some protocol, pr_source_peer = Some (ds_local_peer_id state),
                     pr_required_capability = Some (protocol_capability protocol)\<rparr>];
          decision = evaluate engine (NetworkId_derive X (ds_network state)) (ds_local_peer_id state) protocol grants
      in if dc_allowed decision
         then \<lparr>dc_allowed = True,
               dc_reason = dc_reason decision @ '' using '' @ show_nat (length grants) @ '' active grant(s)''\<rparr>
         else if grants = []
         then \<lparr>dc_allowed = False,
               dc_reason = ''no active capability grants for '' @ ProtocolId_as_str protocol\<rparr>
         else decision)"

definition explain_policy :: "'x codecs_scheme \<Rightarrow> daemon_state \<Rightarrow> peer_id \<Rightarrow> protocol_id \<Rightarrow> decision" where
  "explain_policy X state peer protocol =
     (case deny_reason state peer of
        Some reason \<Rightarrow> \<lparr>dc_allowed = False, dc_reason = reason\<rparr>
      | None \<Rightarrow> explain_local_protocol_policy X state protocol)"

section \<open>Reading the state\<close>

definition DaemonState_peer :: "daemon_state \<Rightarrow> peer_id \<Rightarrow> peer_inspection option" where
  "DaemonState_peer state peer = find (\<lambda>entry. ps_peer (pi_snapshot entry) = peer) (ds_peers state)"

definition relay_announcements :: "daemon_state \<Rightarrow> relay_announcement list" where
  "relay_announcements state = (case ds_relay_map state of None \<Rightarrow> [] | Some m \<Rightarrow> rm_relays m)"

definition relay_count :: "daemon_state \<Rightarrow> nat" where
  "relay_count state = (case ds_relay_map state of None \<Rightarrow> 0 | Some m \<Rightarrow> length (rm_relays m))"

definition DaemonState_status_line :: "'x codecs_scheme \<Rightarrow> daemon_state \<Rightarrow> string" where
  "DaemonState_status_line X state =
     ''network='' @ ds_network state @ '' local_peer='' @ PeerId_to_text X (ds_local_peer_id state) @
     '' roles='' @ show_nat (length (ds_roles state)) @ '' bootstrap='' @ show_nat (length (ds_bootstrap state)) @
     '' relays='' @ show_nat (relay_count state) @ '' peers='' @ show_nat (length (ds_peers state)) @
     '' revocations='' @ show_nat (length (ds_revocations state)) @
     '' denied='' @ show_nat (length (ds_denied_peers state)) @
     '' sessions='' @ show_nat (length (ds_active_sessions state)) @
     '' relay_required='' @ show_bool (relay_required (ds_netcheck state))"

definition path_candidates_for :: "daemon_state \<Rightarrow> peer_id \<Rightarrow> path_candidate list" where
  "path_candidates_for state peer = filter (\<lambda>candidate. pc_peer candidate = peer) (ds_path_candidates state)"

definition best_path :: "'x codecs_scheme \<Rightarrow> daemon_state \<Rightarrow> peer_id \<Rightarrow> traffic_class \<Rightarrow> path_decision option" where
  "best_path X state peer tc =
     (let candidates = filter (\<lambda>candidate. pc_peer candidate = peer) (ds_path_candidates state)
      in select_best_path X candidates tc)"

definition first_peer :: "daemon_state \<Rightarrow> peer_inspection option" where
  "first_peer state = (case ds_peers state of [] \<Rightarrow> None | p # _ \<Rightarrow> Some p)"

definition DaemonState_session :: "daemon_state \<Rightarrow> bytes \<Rightarrow> session_snapshot option" where
  "DaemonState_session state session_id =
     find (\<lambda>session. ss_session_id session = session_id) (ds_active_sessions state)"

definition authority_snapshot :: "'x codecs_scheme \<Rightarrow> daemon_state \<Rightarrow> authority_artifact_snapshot" where
  "authority_snapshot X state =
     \<lparr>as_network_id = NetworkId_derive X (ds_network state), as_enrollment_token = None,
      as_membership = Some (ds_membership state), as_capability_grants = ds_capability_grants state,
      as_revocations = ds_revocations state,
      as_bootstrap_hints = map (\<lambda>endpoint. \<lparr>bh_peer_id = be_peer endpoint,
        bh_addresses = be_addresses endpoint, bh_metadata = be_metadata endpoint\<rparr>) (ds_bootstrap state)\<rparr>"

definition max_revocation_sequence :: "daemon_state \<Rightarrow> u64 option" where
  "max_revocation_sequence state = max_opt (map rr_sequence (ds_revocations state))"

definition route_plan ::
  "'x codecs_scheme \<Rightarrow> daemon_state \<Rightarrow> peer_id \<Rightarrow> protocol_id option \<Rightarrow> traffic_class \<Rightarrow>
   (route_plan, daemon_state_error) result" where
  "route_plan X state peer protocol tc =
     (case best_path X state peer tc of
        None \<Rightarrow> Err (DS_NoRoute peer)
      | Some decision \<Rightarrow>
      case DaemonState_peer state peer of
        None \<Rightarrow> Err (DS_PeerNotFound (PeerId_to_text X peer))
      | Some entry \<Rightarrow>
          let selected = pd_selected decision;
              remote_endpoints = route_endpoints (ps_addresses (pi_snapshot entry)) (pc_path_kind selected);
              relay =
                (if pc_path_kind selected = Relay
                 then (case pc_relay_peer selected of
                         None \<Rightarrow> Err (DS_NoRoute peer)
                       | Some relay_peer \<Rightarrow>
                       case find (\<lambda>candidate. an_peer_id candidate = relay_peer) (relay_announcements state) of
                         None \<Rightarrow> Err (DS_NoRoute peer)
                       | Some relay \<Rightarrow>
                           Ok (Some \<lparr>rp_relay_peer = relay_peer,
                                     rp_relay_endpoints =
                                       route_endpoints (an_advertised_endpoints relay) (relay_path_kind relay),
                                     rp_relay_control_endpoint = an_control_endpoint relay,
                                     rp_destination_endpoints = remote_endpoints,
                                     rp_supports_datagrams = an_supports_quic_datagrams relay,
                                     rp_supports_path_migration = an_supports_path_migration relay\<rparr>))
                 else Ok None)
          in case relay of
               Err e \<Rightarrow> Err e
             | Ok relay \<Rightarrow>
                 Ok \<lparr>rt_local_peer = ds_local_peer_id state, rt_peer = peer, rt_protocol = protocol,
                     rt_class = tc, rt_path_kind = pc_path_kind selected,
                     rt_source = route_source (pc_source selected), rt_remote_endpoints = remote_endpoints,
                     rt_relay = relay\<rparr>)"

section \<open>Changing the state\<close>

definition apply_revocations ::
  "'x codecs_scheme \<Rightarrow> daemon_state \<Rightarrow> revocation_record list \<Rightarrow> daemon_state \<times> nat" where
  "apply_revocations X state incoming =
     (let (revocations, added) =
            merge_log (\<lambda>existing revocation. rr_sequence existing = rr_sequence revocation \<and>
                rr_issuer_peer_id existing = rr_issuer_peer_id revocation \<and>
                rr_target existing = rr_target revocation)
              (ds_revocations state) incoming
      in (state\<lparr>ds_revocations := revocations,
                ds_denied_peers := denied_peers X (ds_membership state) revocations\<rparr>, added))"

definition apply_relay_map :: "daemon_state \<Rightarrow> relay_map \<Rightarrow> daemon_state \<times> nat" where
  "apply_relay_map state incoming =
     (let current = ds_relay_map state
      in if (case current of None \<Rightarrow> False | Some existing \<Rightarrow> rm_version existing > rm_version incoming)
         then (state, 0)
         else
           let added = length (filter (\<lambda>relay.
                 \<not> (case current of
                      None \<Rightarrow> False
                    | Some existing \<Rightarrow> list_ex (\<lambda>known. an_peer_id known = an_peer_id relay) (rm_relays existing)))
                 (rm_relays incoming));
               relays = relay_peers incoming;
               state = state\<lparr>ds_relay_map := Some incoming\<rparr>;
               state = state\<lparr>ds_peers := merge_relay_peers (ds_peers state) relays\<rparr>;
               state = state\<lparr>ds_path_candidates := merged_path_candidates state\<rparr>
           in (state, added))"

definition with_active_session :: "daemon_state \<Rightarrow> session_snapshot \<Rightarrow> daemon_state" where
  "with_active_session state session =
     state\<lparr>ds_active_sessions :=
       upsert_by (\<lambda>existing. ss_session_id existing = ss_session_id session) (\<lambda>_. session) session
         (ds_active_sessions state)\<rparr>"

definition without_session :: "daemon_state \<Rightarrow> bytes \<Rightarrow> daemon_state" where
  "without_session state session_id =
     state\<lparr>ds_active_sessions := filter (\<lambda>session. ss_session_id session \<noteq> session_id) (ds_active_sessions state)\<rparr>"

definition DaemonState_sync_authority_snapshot ::
  "'x codecs_scheme \<Rightarrow> daemon_state \<Rightarrow> control_client \<Rightarrow> authority_artifact_snapshot \<Rightarrow>
   (daemon_state \<times> state_sync_report, daemon_state_error) result" where
  "DaemonState_sync_authority_snapshot X state client incoming =
     (case merge_snapshot client (Some (authority_snapshot X state)) incoming of
        Err e \<Rightarrow> Err (DS_Control e)
      | Ok (merged, delta) \<Rightarrow>
      case as_membership merged of
        None \<Rightarrow> Err DS_MissingMembership
      | Some membership \<Rightarrow>
          let bootstrap = map bootstrap_endpoint_from_hint (as_bootstrap_hints merged);
              state = state\<lparr>ds_local_peer_id := mc_subject_peer_id membership,
                ds_membership := membership, ds_capability_grants := as_capability_grants merged,
                ds_revocations := as_revocations merged,
                ds_denied_peers := denied_peers X membership (as_revocations merged),
                ds_bootstrap := bootstrap\<rparr>;
              state = state\<lparr>ds_peers := merge_bootstrap_peers (ds_peers state) bootstrap\<rparr>;
              state = state\<lparr>ds_path_candidates := merged_path_candidates state\<rparr>
          in Ok (state,
                 \<lparr>sy_membership_changed = sd_membership_changed delta, sy_grants_added = sd_grants_added delta,
                  sy_grants_removed = sd_grants_removed delta, sy_revocations_added = sd_revocations_added delta,
                  sy_bootstrap_hints_added = sd_bootstrap_hints_added delta,
                  sy_bootstrap_hints_removed = sd_bootstrap_hints_removed delta,
                  sy_relay_announcements_added = 0\<rparr>))"

definition from_authority_snapshot ::
  "'x codecs_scheme \<Rightarrow> string \<Rightarrow> daemon_role list \<Rightarrow> authority_artifact_snapshot \<Rightarrow>
   (daemon_state, daemon_state_error) result" where
  "from_authority_snapshot X network roles snapshot =
     (if as_network_id snapshot \<noteq> NetworkId_derive X network then Err DS_NetworkMismatch
      else case as_membership snapshot of
        None \<Rightarrow> Err DS_MissingMembership
      | Some membership \<Rightarrow>
          let bootstrap = map bootstrap_endpoint_from_hint (as_bootstrap_hints snapshot);
              state = \<lparr>ds_schema_version = DAEMON_STATE_SCHEMA_VERSION, ds_network = network,
                ds_local_peer_id = mc_subject_peer_id membership, ds_roles = roles,
                ds_membership = membership, ds_capability_grants = as_capability_grants snapshot,
                ds_revocations = as_revocations snapshot,
                ds_denied_peers = denied_peers X membership (as_revocations snapshot),
                ds_bootstrap = bootstrap, ds_relay_map = None, ds_peers = bootstrap_peers bootstrap,
                ds_netcheck = pending_netcheck, ds_queue_policies = default_queue_policies,
                ds_active_sessions = [], ds_path_candidates = []\<rparr>
          in Ok (state\<lparr>ds_path_candidates := merged_path_candidates state\<rparr>))"

end
