(* ===== verification/Quip_State_Laws.thy ===== *)
theory Quip_State_Laws
  imports Quip_State
begin

text \<open>
  Laws of the node state: the invariant every operation keeps, what the policy answers in such a
  state, that a revocation is never forgotten, when a route exists, and that a node's own snapshot
  gives back what the authority sent.
\<close>

section \<open>Candidate and revocation logs\<close>

interpretation candidates: identity_log same_candidate
  by unfold_locales (auto simp: same_candidate_def)

lemma push_unique_push_new: "push_unique_candidate c cs = push_new same_candidate c cs"
  by (auto simp: push_unique_candidate_def push_new_def list_ex_iff)

lemma fold_push_unique: "fold push_unique_candidate zs xs = fold (push_new same_candidate) zs xs"
  by (rule fold_cong) (simp_all add: fun_eq_iff push_unique_push_new)

lemma apply_revocations_log:
  "apply_revocations X s rs =
     (s\<lparr>ds_revocations := fst (merge_log same_revocation (ds_revocations s) rs),
        ds_denied_peers := denied_peers X (ds_membership s) (fst (merge_log same_revocation (ds_revocations s) rs))\<rparr>,
      snd (merge_log same_revocation (ds_revocations s) rs))"
proof -
  have "(\<lambda>existing revocation. rr_sequence existing = rr_sequence revocation \<and>
      rr_issuer_peer_id existing = rr_issuer_peer_id revocation \<and> rr_target existing = rr_target revocation)
      = same_revocation" by (simp add: fun_eq_iff same_revocation_def)
  then show ?thesis by (simp add: apply_revocations_def Let_def case_prod_beta)
qed

section \<open>The known peers\<close>

definition known_peers :: "peer_inspection list \<Rightarrow> peer_id set" where
  "known_peers ps = (\<lambda>e. ps_peer (pi_snapshot e)) ` set ps"

definition peers_sorted :: "peer_inspection list \<Rightarrow> bool" where
  "peers_sorted ps = sorted_wrt (<) (map (\<lambda>e. ps_peer (pi_snapshot e)) ps)"

definition stored :: "peer_store \<Rightarrow> peer_id set" where
  "stored s = {p. PeerStore_peer s p \<noteq> None}"

lemma stored_upsert [simp]: "stored (upsert_peer_with_status sn st s) = insert (ps_peer sn) (stored s)"
  by (auto simp: stored_def PeerStore_peer_upsert)

lemma stored_default [simp]: "stored PeerStore_default = {}"
  by (simp add: stored_def PeerStore_default_def PeerStore_peer_def)

lemma listing_sorted: "store_wf s \<Longrightarrow> peers_sorted (PeerStore_peers s)"
  by (simp add: peers_sorted_def PeerStore_peers_listing store_wf_def bt_wf_def bt_keys_def)

lemma listing_known: "store_wf s \<Longrightarrow> known_peers (PeerStore_peers s) = stored s"
  using PeerStore_peers_listing [of s] bt.set_keys [of "pt_peers s"]
  unfolding stored_def known_peers_def PeerStore_peer_def set_map [symmetric] by simp

lemma load_peers_spec:
  "store_wf (load_peers ps)" "stored (load_peers ps) = known_peers ps"
proof -
  have "store_wf (fold (\<lambda>e. upsert_peer_with_status (pi_snapshot e) (pi_status e)) ps s) \<and>
      stored (fold (\<lambda>e. upsert_peer_with_status (pi_snapshot e) (pi_status e)) ps s) = known_peers ps \<union> stored s" if "store_wf s" for s
    using that
  proof (induction ps arbitrary: s)
    case (Cons e ps)
    from Cons.IH [OF store_wf_upsert_peer_with_status [OF Cons.prems, of "pi_snapshot e" "pi_status e"]]
    show ?case by (auto simp: known_peers_def)
  qed (simp add: known_peers_def)
  from this [OF store_wf_default]
  show "store_wf (load_peers ps)" "stored (load_peers ps) = known_peers ps"
    by (simp_all add: load_peers_def)
qed

text \<open>A merge loop that upserts one snapshot per entry keeps all known peers and adds the entries'.\<close>

lemma merge_peers_spec:
  assumes "\<And>e s. step e s = s \<and> key e = None \<or>
      (\<exists>sn st. step e s = upsert_peer_with_status sn st s \<and> key e = Some (ps_peer sn))"
    and "store_wf s"
  shows "store_wf (fold step es s) \<and>
         stored (fold step es s) = stored s \<union> {p. \<exists>e \<in> set es. key e = Some p}"
  using assms(2)
proof (induction es arbitrary: s)
  case (Cons e es)
  consider "step e s = s" "key e = None"
    | sn st where "step e s = upsert_peer_with_status sn st s" "key e = Some (ps_peer sn)"
    using assms(1) [of e s] by auto
  then show ?case
  proof cases
    case 1
    with Cons show ?thesis by simp
  next
    case 2
    with Cons.IH [OF store_wf_upsert_peer_with_status [OF Cons.prems, of sn st]] show ?thesis
      by auto
  qed
qed simp

definition endpoint_peers :: "bootstrap_endpoint list \<Rightarrow> peer_id set" where
  "endpoint_peers es = {p. \<exists>e \<in> set es. be_peer e = Some p}"

lemma bootstrap_peers_known:
  "peers_sorted (bootstrap_peers es)" "known_peers (bootstrap_peers es) = endpoint_peers es"
proof -
  let ?f = "\<lambda>e s. case be_peer e of None \<Rightarrow> s
    | Some peer \<Rightarrow> upsert_peer_with_status (endpoint_snapshot peer e) bootstrap_status s"
  have "?f e s = s \<and> be_peer e = None \<or>
      (\<exists>sn st. ?f e s = upsert_peer_with_status sn st s \<and> be_peer e = Some (ps_peer sn))" for e s
    by (cases "be_peer e") (auto simp: endpoint_snapshot_def)
  from merge_peers_spec [of ?f be_peer, OF this store_wf_default, of es]
  show "peers_sorted (bootstrap_peers es)" "known_peers (bootstrap_peers es) = endpoint_peers es"
    by (auto simp: bootstrap_peers_def listing_sorted listing_known endpoint_peers_def)
qed

lemma merge_bootstrap_peers_known:
  "peers_sorted (merge_bootstrap_peers ps es)"
  "known_peers (merge_bootstrap_peers ps es) = known_peers ps \<union> endpoint_peers es"
proof -
  let ?f = "\<lambda>e s. case be_peer e of None \<Rightarrow> s
    | Some peer \<Rightarrow>
        let status = (case PeerStore_peer_status s peer of Some st \<Rightarrow> st | None \<Rightarrow> bootstrap_status)
        in upsert_peer_with_status (endpoint_snapshot peer e) status s"
  have "?f e s = s \<and> be_peer e = None \<or>
      (\<exists>sn st. ?f e s = upsert_peer_with_status sn st s \<and> be_peer e = Some (ps_peer sn))" for e s
    by (cases "be_peer e") (auto simp: endpoint_snapshot_def Let_def)
  from merge_peers_spec [of ?f be_peer, OF this load_peers_spec(1), of es ps]
  show "peers_sorted (merge_bootstrap_peers ps es)"
    "known_peers (merge_bootstrap_peers ps es) = known_peers ps \<union> endpoint_peers es"
    by (simp_all add: merge_bootstrap_peers_def listing_sorted listing_known load_peers_spec(2) endpoint_peers_def)
qed

lemma relay_peers_known:
  "known_peers (relay_peers m) = an_peer_id ` set (rm_relays m)"
proof -
  let ?f = "\<lambda>r. upsert_peer_with_status
      \<lparr>ps_peer = an_peer_id r, ps_protocols = [''/quip/relay/1''], ps_addresses = an_advertised_endpoints r\<rparr>
      \<lparr>pst_source = PS_RelayMap, pst_reachability = PR_Unknown, pst_last_seen_unix_secs = Some (rm_generated_at m)\<rparr>"
  have "?f r s = s \<and> Some (an_peer_id r) = None \<or>
      (\<exists>sn st. ?f r s = upsert_peer_with_status sn st s \<and> Some (an_peer_id r) = Some (ps_peer sn))" for r s
    by (intro disjI2 exI conjI, rule refl) simp
  from merge_peers_spec [of ?f "\<lambda>r. Some (an_peer_id r)", OF this store_wf_default, of "rm_relays m"]
  show ?thesis
    by (auto simp: relay_peers_def listing_known)
qed

lemma known_peers_Some: "{p. \<exists>e \<in> set rs. ps_peer (pi_snapshot e) = p} = known_peers rs"
  by (auto simp: known_peers_def)

lemma merge_relay_peers_known:
  "peers_sorted (merge_relay_peers ps rs)"
  "known_peers (merge_relay_peers ps rs) = known_peers ps \<union> known_peers rs"
proof -
  let ?f = "\<lambda>relay s. let peer_id = ps_peer (pi_snapshot relay);
             status = (case PeerStore_peer_status s peer_id of
                         Some st \<Rightarrow> st
                       | None \<Rightarrow> \<lparr>pst_source = PS_RelayMap, pst_reachability = PR_Unknown,
                                  pst_last_seen_unix_secs = pst_last_seen_unix_secs (pi_status relay)\<rparr>)
         in upsert_peer_with_status (pi_snapshot relay) status s"
  have "?f r s = s \<and> Some (ps_peer (pi_snapshot r)) = None \<or>
      (\<exists>sn st. ?f r s = upsert_peer_with_status sn st s \<and> Some (ps_peer (pi_snapshot r)) = Some (ps_peer sn))" for r s
    by (simp add: Let_def) blast
  from merge_peers_spec [of ?f "\<lambda>r. Some (ps_peer (pi_snapshot r))", OF this load_peers_spec(1), of rs ps]
  show "peers_sorted (merge_relay_peers ps rs)"
    "known_peers (merge_relay_peers ps rs) = known_peers ps \<union> known_peers rs"
    using known_peers_Some [of rs]
    by (simp_all add: merge_relay_peers_def listing_sorted listing_known load_peers_spec(2))
qed

section \<open>The invariant\<close>

text \<open>A candidate the node derived itself: its peer is known and the relay it names is announced.\<close>

definition candidate_ok :: "daemon_state \<Rightarrow> path_candidate \<Rightarrow> bool" where
  "candidate_ok s c \<longleftrightarrow> pc_source c \<noteq> Observed \<and> pc_peer c \<in> known_peers (ds_peers s) \<and>
     (pc_path_kind c = Relay \<longrightarrow> (\<exists>r \<in> set (relay_announcements s). pc_relay_peer c = Some (an_peer_id r)))"

definition peers_cover :: "daemon_state \<Rightarrow> bool" where
  "peers_cover s \<longleftrightarrow> peers_sorted (ds_peers s) \<and> endpoint_peers (ds_bootstrap s) \<subseteq> known_peers (ds_peers s) \<and>
     an_peer_id ` set (relay_announcements s) \<subseteq> known_peers (ds_peers s)"

definition state_wf :: "'x codecs_scheme \<Rightarrow> daemon_state \<Rightarrow> bool" where
  "state_wf X s \<longleftrightarrow>
     ds_denied_peers s = denied_peers X (ds_membership s) (ds_revocations s) \<and>
     ds_local_peer_id s = mc_subject_peer_id (ds_membership s) \<and>
     peers_cover s \<and> (\<forall>c \<in> set (ds_path_candidates s). candidate_ok s c) \<and>
     sorted_wrt (\<lambda>c d. \<not> same_candidate c d) (ds_path_candidates s)"

lemma merged_distinct:
  assumes "sorted_wrt (\<lambda>c d. \<not> same_candidate c d) (ds_path_candidates s)"
  shows "sorted_wrt (\<lambda>c d. \<not> same_candidate c d) (merged_path_candidates s)"
  unfolding merged_path_candidates_def fold_push_unique
  by (intro candidates.fold_push_new_distinct sorted_wrt_filter assms)

lemma merged_set:
  "set (merged_path_candidates s) \<subseteq>
     {c \<in> set (ds_path_candidates s). pc_source c = Observed} \<union>
     set (synthesized_direct_bootstrap_candidates s) \<union> set (synthesized_relay_candidates s)"
proof -
  let ?o = "filter (\<lambda>c. pc_source c = Observed) (ds_path_candidates s)"
  from candidates.fold_push_new_keeps [of "synthesized_direct_bootstrap_candidates s" ?o] obtain ys where
    "fold push_unique_candidate (synthesized_direct_bootstrap_candidates s) ?o = ?o @ ys"
    "set ys \<subseteq> set (synthesized_direct_bootstrap_candidates s)" unfolding fold_push_unique by blast
  moreover from candidates.fold_push_new_keeps [of "synthesized_relay_candidates s" "?o @ ys"] obtain zs where
    "fold push_unique_candidate (synthesized_relay_candidates s) (?o @ ys) = (?o @ ys) @ zs"
    "set zs \<subseteq> set (synthesized_relay_candidates s)" unfolding fold_push_unique by blast
  ultimately show ?thesis by (auto simp: merged_path_candidates_def)
qed

lemma relay_path_kind_direct [simp]: "relay_path_kind r \<noteq> Relay"
  by (simp add: relay_path_kind_def)

lemma endpoint_path_kind_direct [simp]: "endpoint_path_kind e \<noteq> Relay"
  by (simp add: endpoint_path_kind_def)

lemma bootstrap_candidates_ok:
  "peers_cover s \<Longrightarrow> c \<in> set (synthesized_direct_bootstrap_candidates s) \<Longrightarrow> candidate_ok s c"
  by (auto simp: synthesized_direct_bootstrap_candidates_def Let_def candidate_ok_def peers_cover_def
      endpoint_peers_def List.map_filter_def split: if_splits)

lemma relay_candidates_ok:
  assumes cov: "peers_cover s" and c: "c \<in> set (synthesized_relay_candidates s)"
  shows "candidate_ok s c"
proof (cases "ds_relay_map s")
  case None
  with c show ?thesis by (simp add: synthesized_relay_candidates_def)
next
  case (Some m)
  then have r: "relay_announcements s = rm_relays m" by (simp add: relay_announcements_def)
  have "an_peer_id x \<in> known_peers (ds_peers s)" if "x \<in> set (rm_relays m)" for x
    using cov that by (auto simp: peers_cover_def r)
  with c Some show ?thesis
    by (auto simp: synthesized_relay_candidates_def Let_def candidate_ok_def r relay_direct_candidate_def
        relay_fallback_candidate_def split: if_splits) (simp add: known_peers_def)
qed

lemma merged_candidates_ok:
  assumes "peers_cover s" and "\<forall>c \<in> set (ds_path_candidates s). pc_source c \<noteq> Observed"
  shows "\<forall>c \<in> set (merged_path_candidates s). candidate_ok s c"
  using merged_set [of s] assms bootstrap_candidates_ok [OF assms(1)] relay_candidates_ok [OF assms(1)] by blast

text \<open>Recomputing the candidates, the last step of every operation that changes their sources.\<close>

lemma peers_cover_frame [simp]:
  "peers_cover (s\<lparr>ds_path_candidates := cs\<rparr>) = peers_cover s"
  "peers_cover (s\<lparr>ds_netcheck := n\<rparr>) = peers_cover s"
  "peers_cover (s\<lparr>ds_roles := r\<rparr>) = peers_cover s"
  by (simp_all add: peers_cover_def relay_announcements_def)

lemma candidate_ok_frame [simp]:
  "candidate_ok (s\<lparr>ds_path_candidates := cs\<rparr>) = candidate_ok s"
  "candidate_ok (s\<lparr>ds_netcheck := n\<rparr>) = candidate_ok s"
  "candidate_ok (s\<lparr>ds_roles := r\<rparr>) = candidate_ok s"
  "candidate_ok (s\<lparr>ds_active_sessions := xs\<rparr>) = candidate_ok s"
  "candidate_ok (s\<lparr>ds_revocations := rs, ds_denied_peers := ps\<rparr>) = candidate_ok s"
  by (simp_all add: fun_eq_iff candidate_ok_def relay_announcements_def)

lemma state_wf_recompute:
  assumes "ds_denied_peers s = denied_peers X (ds_membership s) (ds_revocations s)"
    and "ds_local_peer_id s = mc_subject_peer_id (ds_membership s)" and "peers_cover s"
    and "\<forall>c \<in> set (ds_path_candidates s). pc_source c \<noteq> Observed"
    and "sorted_wrt (\<lambda>c d. \<not> same_candidate c d) (ds_path_candidates s)"
  shows "state_wf X (s\<lparr>ds_path_candidates := merged_path_candidates s\<rparr>)"
  using assms merged_distinct [of s] merged_candidates_ok [of s] by (simp add: state_wf_def)

lemma state_wfD:
  assumes "state_wf X s"
  shows "ds_denied_peers s = denied_peers X (ds_membership s) (ds_revocations s)"
    and "ds_local_peer_id s = mc_subject_peer_id (ds_membership s)" and "peers_cover s"
    and "\<forall>c \<in> set (ds_path_candidates s). pc_source c \<noteq> Observed"
    and "sorted_wrt (\<lambda>c d. \<not> same_candidate c d) (ds_path_candidates s)"
  using assms by (auto simp: state_wf_def candidate_ok_def)

lemma state_wf_revocations: "state_wf X s \<Longrightarrow> state_wf X (fst (apply_revocations X s rs))"
  by (auto simp: state_wf_def apply_revocations_log peers_cover_def relay_announcements_def)

lemma state_wf_sessions: "state_wf X s \<Longrightarrow> state_wf X (s\<lparr>ds_active_sessions := xs\<rparr>)"
  by (auto simp: state_wf_def peers_cover_def relay_announcements_def)

lemma state_wf_relay_map:
  assumes "state_wf X s"
  shows "state_wf X (fst (apply_relay_map s m))"
proof -
  let ?s = "s\<lparr>ds_relay_map := Some m, ds_peers := merge_relay_peers (ds_peers s) (relay_peers m)\<rparr>"
  have "peers_cover ?s"
    using state_wfD(3) [OF assms]
    by (auto simp: peers_cover_def merge_relay_peers_known relay_peers_known relay_announcements_def)
  then have "state_wf X (?s\<lparr>ds_path_candidates := merged_path_candidates ?s\<rparr>)"
    using state_wfD [OF assms] by (intro state_wf_recompute) simp_all
  with assms show ?thesis by (auto simp: apply_relay_map_def Let_def split: option.splits)
qed

lemma state_wf_sync:
  assumes "state_wf X s" and "DaemonState_sync_authority_snapshot X s c inc = Ok (s', rep)"
  shows "state_wf X s'"
proof -
  from assms(2) obtain m d mem where
    m: "merge_snapshot c (Some (authority_snapshot X s)) inc = Ok (m, d)" "as_membership m = Some mem"
    by (auto simp: DaemonState_sync_authority_snapshot_def split: result.splits option.splits)
  let ?b = "map bootstrap_endpoint_from_hint (as_bootstrap_hints m)"
  let ?s = "s\<lparr>ds_local_peer_id := mc_subject_peer_id mem, ds_membership := mem,
      ds_capability_grants := as_capability_grants m, ds_revocations := as_revocations m,
      ds_denied_peers := denied_peers X mem (as_revocations m), ds_bootstrap := ?b,
      ds_peers := merge_bootstrap_peers (ds_peers s) ?b\<rparr>"
  have "s' = ?s\<lparr>ds_path_candidates := merged_path_candidates ?s\<rparr>"
    using assms(2) m by (simp add: DaemonState_sync_authority_snapshot_def Let_def)
  moreover have "peers_cover ?s"
    using state_wfD(3) [OF assms(1)]
    by (auto simp: peers_cover_def merge_bootstrap_peers_known relay_announcements_def)
  then have "state_wf X (?s\<lparr>ds_path_candidates := merged_path_candidates ?s\<rparr>)"
    using state_wfD [OF assms(1)] by (intro state_wf_recompute) simp_all
  ultimately show ?thesis by simp
qed

lemma state_wf_from:
  assumes "from_authority_snapshot X network roles snap = Ok s"
  shows "state_wf X s"
proof -
  from assms obtain mem where mem: "as_membership snap = Some mem" "as_network_id snap = NetworkId_derive X network"
    by (auto simp: from_authority_snapshot_def split: if_splits option.splits)
  let ?b = "map bootstrap_endpoint_from_hint (as_bootstrap_hints snap)"
  let ?s = "\<lparr>ds_schema_version = DAEMON_STATE_SCHEMA_VERSION, ds_network = network,
      ds_local_peer_id = mc_subject_peer_id mem, ds_roles = roles, ds_membership = mem,
      ds_capability_grants = as_capability_grants snap, ds_revocations = as_revocations snap,
      ds_denied_peers = denied_peers X mem (as_revocations snap), ds_bootstrap = ?b, ds_relay_map = None,
      ds_peers = bootstrap_peers ?b, ds_netcheck = pending_netcheck, ds_queue_policies = default_queue_policies,
      ds_active_sessions = [], ds_path_candidates = []\<rparr>"
  have s: "s = ?s\<lparr>ds_path_candidates := merged_path_candidates ?s\<rparr>"
    using assms mem by (simp add: from_authority_snapshot_def Let_def)
  have "peers_cover ?s" by (simp add: peers_cover_def bootstrap_peers_known relay_announcements_def)
  then show ?thesis unfolding s by (intro state_wf_recompute) simp_all
qed

section \<open>Reachable states\<close>

inductive state_step :: "'x codecs_scheme \<Rightarrow> daemon_state \<Rightarrow> daemon_state \<Rightarrow> bool" for X where
  st_revocations: "state_step X s (fst (apply_revocations X s rs))"
| st_relay_map: "state_step X s (fst (apply_relay_map s m))"
| st_sync: "DaemonState_sync_authority_snapshot X s c inc = Ok (s', rep) \<Longrightarrow> state_step X s s'"
| st_with: "state_step X s (with_active_session s x)"
| st_without: "state_step X s (without_session s sid)"
| st_sessions: "state_step X s (s\<lparr>ds_active_sessions := xs\<rparr>)"
| st_reprobe: "s' = s\<lparr>ds_netcheck := reprobe_netcheck s reason\<rparr> \<Longrightarrow>
    state_step X s (s'\<lparr>ds_path_candidates := merged_path_candidates s'\<rparr>)"
| st_roles: "s' = s\<lparr>ds_roles := rs\<rparr> \<Longrightarrow> state_step X s (s'\<lparr>ds_path_candidates := merged_path_candidates s'\<rparr>)"

lemma state_step_wf: "state_step X s s' \<Longrightarrow> state_wf X s \<Longrightarrow> state_wf X s'"
proof (induction rule: state_step.induct)
  case (st_with s x)
  then show ?case by (simp add: with_active_session_def state_wf_sessions)
next
  case (st_without s sid)
  then show ?case by (simp add: without_session_def state_wf_sessions)
next
  case (st_reprobe s' s reason)
  then show ?case using state_wfD [OF st_reprobe.prems] by (intro state_wf_recompute) simp_all
next
  case (st_roles s' s rs)
  then show ?case using state_wfD [OF st_roles.prems] by (intro state_wf_recompute) simp_all
qed (rule state_wf_revocations state_wf_relay_map state_wf_sync state_wf_sessions; assumption)+

lemma state_steps_wf: "(state_step X)\<^sup>*\<^sup>* s s' \<Longrightarrow> state_wf X s \<Longrightarrow> state_wf X s'"
  by (induction rule: rtranclp_induct) (auto intro: state_step_wf)

lemma sync_revocations:
  assumes "DaemonState_sync_authority_snapshot X s c inc = Ok (s', rep)"
  shows "set (ds_revocations s) \<subseteq> set (ds_revocations s')"
proof -
  from assms obtain m d where m: "merge_snapshot c (Some (authority_snapshot X s)) inc = Ok (m, d)"
    "ds_revocations s' = as_revocations m"
    by (auto simp: DaemonState_sync_authority_snapshot_def Let_def split: result.splits option.splits)
  from merge_snapshot_SomeD(6) [OF m(1)]
  have "as_revocations m = fst (merge_log same_revocation (ds_revocations s) (as_revocations inc))"
    by (simp add: authority_snapshot_def)
  with m(2) show ?thesis using revlog.merge_log_keeps by fastforce
qed

lemma state_step_revocations: "state_step X s s' \<Longrightarrow> set (ds_revocations s) \<subseteq> set (ds_revocations s')"
  by (induction rule: state_step.induct)
     (auto simp: apply_revocations_log apply_relay_map_def with_active_session_def without_session_def Let_def
       dest: sync_revocations revlog.merge_log_keeps)

lemma state_steps_revocations:
  "(state_step X)\<^sup>*\<^sup>* s s' \<Longrightarrow> set (ds_revocations s) \<subseteq> set (ds_revocations s')"
  by (induction rule: rtranclp_induct) (auto dest: state_step_revocations)

section \<open>Policy\<close>

text \<open>What a revocation says about a peer, given the current membership.\<close>

definition revokes :: "membership_certificate \<Rightarrow> peer_id \<Rightarrow> revocation_record \<Rightarrow> bool" where
  "revokes m p r \<longleftrightarrow> rr_target r = PeerTarget p \<or>
     (p = mc_subject_peer_id m \<and> rr_target r = CertificateTarget p (mc_issued_at m))"

lemma denied_peers_iff: "p \<in> dp_peer ` set (denied_peers X m rs) \<longleftrightarrow> (\<exists>r \<in> set rs. revokes m p r)"
proof -
  have "(\<exists>d. denied_by X m r = Some d \<and> dp_peer d = p) \<longleftrightarrow> revokes m p r" for r
    by (auto simp: denied_by_def revokes_def split: revocation_target.splits)
  moreover have "set (denied_peers X m rs) = {d. \<exists>r \<in> set rs. denied_by X m r = Some d}"
    by (induction rs) (auto simp: denied_peers_def map_filter_simps split: option.splits)
  ultimately show ?thesis by (auto simp: image_iff) blast
qed

lemma deny_reason_iff:
  assumes "state_wf X s"
  shows "deny_reason s p \<noteq> None \<longleftrightarrow> (\<exists>r \<in> set (ds_revocations s). revokes (ds_membership s) p r)"
  unfolding denied_peers_iff [of p X, symmetric] state_wfD(1) [OF assms, symmetric]
  by (auto simp: deny_reason_def find_None_iff image_iff)

lemma local_policy_allowed:
  "dc_allowed (explain_local_protocol_policy X s pr) \<longleftrightarrow>
     has_capability (grants_for_peer s (ds_local_peer_id s)) (protocol_capability pr) pr"
  by (simp add: explain_local_protocol_policy_def Let_def evaluate.simps)

definition usable_grant :: "daemon_state \<Rightarrow> protocol_id \<Rightarrow> capability_grant \<Rightarrow> bool" where
  "usable_grant s pr g \<longleftrightarrow> cg_subject_peer_id g = ds_local_peer_id s \<and>
     protocol_capability pr \<in> set (cg_capabilities g) \<and> pr \<in> set (cg_protocol_scopes g) \<and>
     (\<forall>r \<in> set (ds_revocations s). rr_target r \<noteq> GrantTarget (cg_subject_peer_id g) (cg_sequence g))"

lemma grant_revoked_iff:
  "is_capability_revoked s p n \<longleftrightarrow> (\<exists>r \<in> set (ds_revocations s). rr_target r = GrantTarget p n)"
proof -
  have "(case t of GrantTarget q k \<Rightarrow> q = p \<and> k = n | _ \<Rightarrow> False) \<longleftrightarrow> t = GrantTarget p n" for t
    by (cases t) auto
  then show ?thesis by (simp add: is_capability_revoked_def list_ex_iff)
qed

lemma explain_policy_iff:
  assumes "state_wf X s"
  shows "dc_allowed (explain_policy X s p pr) \<longleftrightarrow>
         \<not> (\<exists>r \<in> set (ds_revocations s). revokes (ds_membership s) p r) \<and>
         (\<exists>g \<in> set (ds_capability_grants s). usable_grant s pr g)"
  using deny_reason_iff [OF assms, of p]
  by (auto simp: explain_policy_def local_policy_allowed has_capability_def grants_for_peer_def
      usable_grant_def grant_revoked_iff split: option.splits)

definition in_force :: "u64 \<Rightarrow> capability_grant \<Rightarrow> bool" where
  "in_force now g \<longleftrightarrow> cg_not_before g \<le> now \<and> now \<le> cg_expires_at g"

text \<open>C24: The policy neither lets in what was revoked nor keeps out what is granted. In every state a node
  reaches from an authority snapshot: when it allows a peer under a protocol, no revocation names
  the peer or the local membership it carries, and the local peer holds a grant that is not revoked,
  with the protocol's capability and the protocol in scope; when it holds such a grant that is in
  force at the time, and no revocation names the peer, it allows the peer; and a peer that is denied
  by a revocation is refused with the recorded reason.\<close>

theorem policy_respects_grants:
  assumes "from_authority_snapshot X network roles snap = Ok s0" and "(state_step X)\<^sup>*\<^sup>* s0 s"
  shows "(dc_allowed (explain_policy X s p pr) \<longrightarrow>
            (\<forall>r \<in> set (ds_revocations s). \<not> revokes (ds_membership s) p r) \<and>
            (\<exists>g \<in> set (ds_capability_grants s). usable_grant s pr g)) \<and>
         ((\<forall>r \<in> set (ds_revocations s). \<not> revokes (ds_membership s) p r) \<and>
          (\<exists>g \<in> set (ds_capability_grants s). usable_grant s pr g \<and> in_force now g) \<longrightarrow>
            dc_allowed (explain_policy X s p pr)) \<and>
         (\<forall>d \<in> set (ds_denied_peers s). dp_peer d = p \<longrightarrow>
            (\<exists>d' \<in> set (ds_denied_peers s). dp_peer d' = p \<and>
               explain_policy X s p pr = \<lparr>dc_allowed = False, dc_reason = dp_reason d'\<rparr>))"
proof -
  have "\<exists>d' \<in> set (ds_denied_peers s). dp_peer d' = p \<and> explain_policy X s p pr = \<lparr>dc_allowed = False, dc_reason = dp_reason d'\<rparr>"
    if "d \<in> set (ds_denied_peers s)" "dp_peer d = p" for d
  proof -
    from that obtain d' where f: "find (\<lambda>d. dp_peer d = p) (ds_denied_peers s) = Some d'"
      by (cases "find (\<lambda>d. dp_peer d = p) (ds_denied_peers s)") (auto simp: find_None_iff)
    with find_SomeD [OF f] show ?thesis by (auto simp: explain_policy_def deny_reason_def)
  qed
  with explain_policy_iff [OF state_steps_wf [OF assms(2) state_wf_from [OF assms(1)]], of p pr] show ?thesis by blast
qed

text \<open>C25: A revoked peer stays denied: once a revocation of a peer is in the state, no sequence of
  synchronisations, revocation updates, relay maps, reprobes and session changes makes the policy
  allow it again.\<close>

theorem revoked_stays_denied:
  assumes "from_authority_snapshot X network roles snap = Ok s0" and "(state_step X)\<^sup>*\<^sup>* s0 s"
    and "r \<in> set (ds_revocations s)" and "rr_target r = PeerTarget p" and "(state_step X)\<^sup>*\<^sup>* s s'"
  shows "\<not> dc_allowed (explain_policy X s' p pr)"
proof -
  have wf: "state_wf X s'"
    using state_steps_wf [OF assms(5) state_steps_wf [OF assms(2) state_wf_from [OF assms(1)]]] .
  have "r \<in> set (ds_revocations s')" using state_steps_revocations [OF assms(5)] assms(3) by blast
  with explain_policy_iff [OF wf, of p pr] assms(4) show ?thesis by (auto simp: revokes_def)
qed

section \<open>Routes\<close>

lemma find_peer_known: "DaemonState_peer s p \<noteq> None \<longleftrightarrow> p \<in> known_peers (ds_peers s)"
  by (auto simp: DaemonState_peer_def find_None_iff known_peers_def)

lemma best_path_member:
  assumes "best_path X s p tc = Some d"
  shows "pd_selected d \<in> set (ds_path_candidates s) \<and> pc_peer (pd_selected d) = p \<and>
         supports_class (pd_selected d) tc \<and>
         (\<forall>c \<in> set (ds_path_candidates s). pc_peer c = p \<longrightarrow> supports_class c tc \<longrightarrow>
            score (pd_selected d) tc \<le> score c tc)"
proof -
  let ?cs = "filter (\<lambda>c. pc_peer c = p) (ds_path_candidates s)"
  have "select_best_path X ?cs tc = Some d" using assms by (simp add: best_path_def)
  from select_best_path_Some [OF this] obtain us vs where
    u: "?cs = us @ pd_selected d # vs" "supports_class (pd_selected d) tc"
    "\<forall>c \<in> set us. supports_class c tc \<longrightarrow> score (pd_selected d) tc < score c tc"
    "\<forall>c \<in> set vs. supports_class c tc \<longrightarrow> score (pd_selected d) tc \<le> score c tc" by blast
  have "score (pd_selected d) tc \<le> score c tc" if "c \<in> set ?cs" "supports_class c tc" for c
    using that u by (auto simp: less_imp_le)
  moreover have "pd_selected d \<in> set ?cs" unfolding u(1) by simp
  ultimately show ?thesis using u(2) by auto
qed

text \<open>The addresses that match a kind of path, or all of them if none does.\<close>

definition endpoints_for :: "path_kind \<Rightarrow> string list \<Rightarrow> string list" where
  "endpoints_for kind addresses =
     filter (\<lambda>a. endpoint_matches_path_kind a kind \<or> (\<forall>b \<in> set addresses. \<not> endpoint_matches_path_kind b kind)) addresses"

lemma route_endpoints_for: "route_endpoints addresses kind = endpoints_for kind addresses"
proof (cases "\<exists>b \<in> set addresses. endpoint_matches_path_kind b kind")
  case True
  then have "filter (\<lambda>a. endpoint_matches_path_kind a kind) addresses \<noteq> []" by (auto simp: filter_empty_conv)
  moreover from True have "endpoints_for kind addresses = filter (\<lambda>a. endpoint_matches_path_kind a kind) addresses"
    unfolding endpoints_for_def by (intro filter_cong) auto
  ultimately show ?thesis by (simp add: route_endpoints_def)
next
  case False
  then show ?thesis by (auto simp: route_endpoints_def endpoints_for_def Let_def filter_empty_conv filter_id_conv)
qed

text \<open>C26: In every reachable state a route to a peer exists exactly when some candidate for the peer
  carries the class: the two other errors of the route planner do not occur. The route follows a
  candidate of least score and leads to the addresses known for the peer that match the kind of the
  path, or to all of them if none does. A relayed one names a relay of the current map with its
  control endpoint and what it supports, reaches the relay at its advertised endpoints by the same
  rule, and has the endpoints of the route as its destination.\<close>

theorem route_plan_spec:
  assumes "from_authority_snapshot X network roles snap = Ok s0" and "(state_step X)\<^sup>*\<^sup>* s0 s"
  shows "case route_plan X s p pr tc of
           Err e \<Rightarrow> e = DS_NoRoute p \<and> (\<forall>c \<in> set (ds_path_candidates s). pc_peer c = p \<longrightarrow> \<not> supports_class c tc)
         | Ok r \<Rightarrow> rt_local_peer r = ds_local_peer_id s \<and> rt_peer r = p \<and> rt_protocol r = pr \<and> rt_class r = tc \<and>
             (\<exists>c \<in> set (ds_path_candidates s). pc_peer c = p \<and> supports_class c tc \<and> rt_path_kind r = pc_path_kind c \<and>
                rt_source r = route_source (pc_source c) \<and>
                (\<exists>e \<in> set (ds_peers s). ps_peer (pi_snapshot e) = p \<and> DaemonState_peer s p = Some e \<and>
                   rt_remote_endpoints r = endpoints_for (pc_path_kind c) (ps_addresses (pi_snapshot e))) \<and>
                (\<forall>c' \<in> set (ds_path_candidates s). pc_peer c' = p \<longrightarrow> supports_class c' tc \<longrightarrow> score c tc \<le> score c' tc) \<and>
                (rt_relay r = None \<longleftrightarrow> pc_path_kind c \<noteq> Relay) \<and>
                (\<forall>q. rt_relay r = Some q \<longrightarrow> (\<exists>a \<in> set (relay_announcements s).
                   pc_relay_peer c = Some (an_peer_id a) \<and> rp_relay_peer q = an_peer_id a \<and>
                   rp_relay_control_endpoint q = an_control_endpoint a \<and>
                   rp_relay_endpoints q = endpoints_for (relay_path_kind a) (an_advertised_endpoints a) \<and>
                   rp_destination_endpoints q = rt_remote_endpoints r \<and>
                   rp_supports_datagrams q = an_supports_quic_datagrams a \<and>
                   rp_supports_path_migration q = an_supports_path_migration a)))"
proof (cases "best_path X s p tc")
  case None
  then have "\<forall>c \<in> set (filter (\<lambda>c. pc_peer c = p) (ds_path_candidates s)). \<not> supports_class c tc"
    unfolding best_path_def Let_def select_best_path_None .
  with None show ?thesis by (simp add: route_plan_def)
next
  case (Some d)
  let ?c = "pd_selected d"
  have wf: "state_wf X s" using state_steps_wf [OF assms(2) state_wf_from [OF assms(1)]] .
  note b = best_path_member [OF Some]
  have ok: "candidate_ok s ?c" using wf b by (simp add: state_wf_def)
  then obtain e where e: "DaemonState_peer s p = Some e" using b find_peer_known [of s p] by (auto simp: candidate_ok_def)
  then have e_in: "e \<in> set (ds_peers s)" "ps_peer (pi_snapshot e) = p"
    by (auto simp: DaemonState_peer_def dest: find_SomeD)
  show ?thesis
  proof (cases "pc_path_kind ?c = Relay")
    case False
    with Some e e_in b show ?thesis
      by (auto simp: route_plan_def Let_def route_endpoints_for intro!: bexI [of _ ?c] bexI [of _ e])
  next
    case True
    then obtain a0 where a0: "a0 \<in> set (relay_announcements s)" "pc_relay_peer ?c = Some (an_peer_id a0)"
      using ok by (auto simp: candidate_ok_def)
    then obtain a where "find (\<lambda>x. an_peer_id x = an_peer_id a0) (relay_announcements s) = Some a"
      by (cases "find (\<lambda>x. an_peer_id x = an_peer_id a0) (relay_announcements s)") (auto simp: find_None_iff)
    with find_SomeD [OF this] True Some e e_in b a0 show ?thesis
      by (auto simp: route_plan_def Let_def route_endpoints_for intro!: bexI [of _ ?c] bexI [of _ a] bexI [of _ e])
  qed
qed

text \<open>The snapshot a new node would present is the one it was made from, without the enrollment
  token, which is not kept.\<close>

theorem authority_snapshot_roundtrip:
  assumes "from_authority_snapshot X network roles snap = Ok s"
  shows "authority_snapshot X s = snap\<lparr>as_enrollment_token := None\<rparr>"
proof -
  have "map ((\<lambda>e. \<lparr>bh_peer_id = be_peer e, bh_addresses = be_addresses e, bh_metadata = be_metadata e\<rparr>) \<circ>
      bootstrap_endpoint_from_hint) hs = hs" for hs
    by (induction hs) (simp_all add: bootstrap_endpoint_from_hint_def)
  with assms show ?thesis
    by (cases snap) (auto simp: from_authority_snapshot_def authority_snapshot_def Let_def
        split: if_splits option.splits)
qed

section \<open>A concrete node\<close>

definition sample_certificate :: membership_certificate where
  "sample_certificate = \<lparr>mc_network_id = NetworkId_derive sample_codecs ''net'', mc_subject_peer_id = PeerId [1],
     mc_issuer_peer_id = PeerId [0], mc_issued_at = 5, mc_expires_at = 50, mc_roles = [],
     mc_signature = SignatureBytes []\<rparr>"

definition sample_authority :: authority_artifact_snapshot where
  "sample_authority = \<lparr>as_network_id = NetworkId_derive sample_codecs ''net'', as_enrollment_token = None,
     as_membership = Some sample_certificate, as_capability_grants = [],
     as_revocations = [sample_revocation],
     as_bootstrap_hints = [\<lparr>bh_peer_id = Some (PeerId [2]), bh_addresses = [''quic://h:1''], bh_metadata = []\<rparr>]\<rparr>"

lemma sample_node_state:
  "\<exists>s. from_authority_snapshot sample_codecs ''net'' [Role_Edge] sample_authority = Ok s \<and>
       ds_revocations s = [sample_revocation] \<and> ds_capability_grants s = [] \<and> ds_path_candidates s = []"
  by (simp add: from_authority_snapshot_def sample_authority_def Let_def merged_path_candidates_def
      synthesized_direct_bootstrap_candidates_def synthesized_relay_candidates_def pending_netcheck_def)

lemma sample_revocation_target: "rr_target sample_revocation = PeerTarget (PeerId [7])"
  by (simp add: sample_revocation_def RevocationRecord_issue_def Let_def)

definition sample_grant :: capability_grant where
  "sample_grant = CapabilityGrant_issue sample_artifact_env (IdentityKeypair [1]) (NetworkId_derive sample_codecs ''net'') (PeerId [1])
     [protocol_capability (ProtocolId ''/quip/x/1'')] [ProtocolId ''/quip/x/1''] ResourceLimits_default [] 10 20 7"

theorem policy_respects_grants_witness:
  "\<exists>s. from_authority_snapshot sample_codecs ''net'' [Role_Edge] (sample_authority\<lparr>as_capability_grants := [sample_grant]\<rparr>) = Ok s \<and>
       dc_allowed (explain_policy sample_codecs s (PeerId [2]) (ProtocolId ''/quip/x/1'')) \<and>
       \<not> dc_allowed (explain_policy sample_codecs s (PeerId [7]) (ProtocolId ''/quip/x/1''))"
proof -
  let ?a = "sample_authority\<lparr>as_capability_grants := [sample_grant]\<rparr>"
  obtain s where s: "from_authority_snapshot sample_codecs ''net'' [Role_Edge] ?a = Ok s"
    "ds_revocations s = [sample_revocation]" "ds_capability_grants s = [sample_grant]" "ds_local_peer_id s = PeerId [1]"
    "ds_membership s = sample_certificate"
    by (simp add: from_authority_snapshot_def sample_authority_def sample_certificate_def Let_def)
  have t: "rr_target sample_revocation = PeerTarget (PeerId [7])" by (rule sample_revocation_target)
  have g: "usable_grant s (ProtocolId ''/quip/x/1'') sample_grant" "in_force 15 sample_grant"
    using s t by (simp_all add: usable_grant_def in_force_def sample_grant_def CapabilityGrant_issue_def Let_def)
  have "\<not> revokes sample_certificate (PeerId [2]) sample_revocation" "revokes sample_certificate (PeerId [7]) sample_revocation"
    using t by (simp_all add: revokes_def sample_certificate_def)
  with policy_respects_grants [OF s(1) rtranclp.rtrancl_refl, of "PeerId [2]" "ProtocolId ''/quip/x/1''" 15]
    policy_respects_grants [OF s(1) rtranclp.rtrancl_refl, of "PeerId [7]" "ProtocolId ''/quip/x/1''"] s g
  show ?thesis by auto
qed

theorem revoked_stays_denied_witness:
  "\<exists>s. from_authority_snapshot sample_codecs ''net'' [Role_Edge] sample_authority = Ok s \<and>
       \<not> dc_allowed (explain_policy sample_codecs (without_session s [3]) (PeerId [7]) (ProtocolId ''p''))"
proof -
  obtain s where s: "from_authority_snapshot sample_codecs ''net'' [Role_Edge] sample_authority = Ok s"
    "ds_revocations s = [sample_revocation]" using sample_node_state by blast
  have "(state_step sample_codecs)\<^sup>*\<^sup>* s (without_session s [3])" by (rule r_into_rtranclp, rule st_without)
  with revoked_stays_denied [OF s(1) rtranclp.rtrancl_refl, of sample_revocation "PeerId [7]"] s sample_revocation_target
  show ?thesis by auto
qed

text \<open>A node that has learned of one relay.\<close>

definition sample_relays :: relay_map where
  "sample_relays = \<lparr>rm_version = 1, rm_generated_at = 1, rm_relays =
     [\<lparr>an_peer_id = PeerId [5], an_region = ''r'', an_advertised_endpoints = [''quic://r:1''],
       an_control_endpoint = ''http://r'', an_max_bandwidth_bps = 1, an_supports_quic_datagrams = True,
       an_supports_path_migration = True, an_traffic_classes = [''NetworkControl'']\<rparr>]\<rparr>"

definition relayed_node :: daemon_state where
  "relayed_node = (case from_authority_snapshot sample_codecs ''net'' [Role_Edge] sample_authority of
     Ok s \<Rightarrow> fst (apply_relay_map s sample_relays))"

lemma relayed_node_peers:
  "map (\<lambda>e. (ps_peer (pi_snapshot e), ps_addresses (pi_snapshot e)))
     (merge_relay_peers (bootstrap_peers (map bootstrap_endpoint_from_hint (as_bootstrap_hints sample_authority))) (relay_peers sample_relays)) =
   [(PeerId [2], [''quic://h:1'']), (PeerId [5], [''quic://r:1''])]"
  by code_simp

lemma relayed_node_facts:
  "relay_announcements relayed_node = rm_relays sample_relays"
  "ds_path_candidates relayed_node = map (relay_direct_candidate pending_netcheck) (rm_relays sample_relays) @
     map (relay_fallback_candidate pending_netcheck (PeerId [2])) (rm_relays sample_relays)"
  "map_option (\<lambda>e. ps_addresses (pi_snapshot e)) (DaemonState_peer relayed_node (PeerId [2])) = Some [''quic://h:1'']"
proof -
  let ?peers = "merge_relay_peers (bootstrap_peers (map bootstrap_endpoint_from_hint (as_bootstrap_hints sample_authority))) (relay_peers sample_relays)"
  have "\<not> nr_udp_reachable pending_netcheck" "\<not> nr_ipv6_reachable pending_netcheck" by (simp_all add: pending_netcheck_def)
  then have node: "ds_peers relayed_node = ?peers" "ds_relay_map relayed_node = Some sample_relays"
    "ds_path_candidates relayed_node = fold push_unique_candidate (map (relay_direct_candidate pending_netcheck) (rm_relays sample_relays) @
       concat (map (\<lambda>peer. if ps_peer (pi_snapshot peer) \<in> set (map an_peer_id (rm_relays sample_relays)) then []
         else map (relay_fallback_candidate pending_netcheck (ps_peer (pi_snapshot peer))) (rm_relays sample_relays)) ?peers)) []"
    by (simp_all add: relayed_node_def apply_relay_map_def from_authority_snapshot_def sample_authority_def Let_def
        merged_path_candidates_def synthesized_direct_bootstrap_candidates_def synthesized_relay_candidates_def)
  from relayed_node_peers obtain a b where ab: "?peers = [a, b]" "ps_peer (pi_snapshot a) = PeerId [2]"
    "ps_addresses (pi_snapshot a) = [''quic://h:1'']" "ps_peer (pi_snapshot b) = PeerId [5]" by auto
  from node show "relay_announcements relayed_node = rm_relays sample_relays" by (simp add: relay_announcements_def)
  from node ab show "ds_path_candidates relayed_node = map (relay_direct_candidate pending_netcheck) (rm_relays sample_relays) @
     map (relay_fallback_candidate pending_netcheck (PeerId [2])) (rm_relays sample_relays)"
    by (simp add: sample_relays_def push_unique_candidate_def same_candidate_def relay_direct_candidate_def relay_fallback_candidate_def)
  from node ab show "map_option (\<lambda>e. ps_addresses (pi_snapshot e)) (DaemonState_peer relayed_node (PeerId [2])) = Some [''quic://h:1'']"
    by (simp add: DaemonState_peer_def)
qed

theorem route_plan_spec_witness:
  "\<exists>r q. route_plan sample_codecs relayed_node (PeerId [2]) None Control = Ok r \<and>
     rt_remote_endpoints r = [''quic://h:1''] \<and> rt_relay r = Some q \<and> rp_relay_peer q = PeerId [5] \<and>
     rp_relay_endpoints q = [''quic://r:1''] \<and> rp_destination_endpoints q = [''quic://h:1'']"
proof -
  obtain s where s: "from_authority_snapshot sample_codecs ''net'' [Role_Edge] sample_authority = Ok s"
    using sample_node_state by blast
  then have run: "(state_step sample_codecs)\<^sup>*\<^sup>* s relayed_node"
    by (auto simp: relayed_node_def intro: r_into_rtranclp st_relay_map)
  note spec = route_plan_spec [OF s run, of "PeerId [2]" None Control]
  have "\<exists>c \<in> set (ds_path_candidates relayed_node). pc_peer c = PeerId [2] \<and> supports_class c Control"
    by (simp add: relayed_node_facts sample_relays_def relay_fallback_candidate_def supports_class_def
        relay_traffic_classes_def List.map_filter_def relay_class_of_def)
  with spec obtain r where r: "route_plan sample_codecs relayed_node (PeerId [2]) None Control = Ok r"
    by (cases "route_plan sample_codecs relayed_node (PeerId [2]) None Control") auto
  have kind: "\<forall>c \<in> set (ds_path_candidates relayed_node). pc_peer c = PeerId [2] \<longrightarrow> pc_path_kind c = Relay"
    by (simp add: relayed_node_facts sample_relays_def relay_fallback_candidate_def relay_direct_candidate_def)
  have ends: "endpoints_for Relay [''quic://h:1''] = [''quic://h:1'']"
    "\<forall>a \<in> set (rm_relays sample_relays). an_peer_id a = PeerId [5] \<and>
       endpoints_for (relay_path_kind a) (an_advertised_endpoints a) = [''quic://r:1'']"
    by (simp_all add: endpoints_for_def sample_relays_def)
  from spec r kind relayed_node_facts ends show ?thesis by (cases "rt_relay r") auto
qed

theorem authority_snapshot_roundtrip_witness:
  "\<exists>s. from_authority_snapshot sample_codecs ''net'' [Role_Edge] sample_authority = Ok s \<and>
       authority_snapshot sample_codecs s = sample_authority"
proof -
  obtain s where s: "from_authority_snapshot sample_codecs ''net'' [Role_Edge] sample_authority = Ok s"
    using sample_node_state by blast
  with authority_snapshot_roundtrip [OF s] show ?thesis by (simp add: sample_authority_def)
qed

end
