(* ===== verification/Quip_Durable.thy ===== *)
theory Quip_Durable
  imports Quip_State Quip_Files
begin

text \<open>
  The durable state of a node in the crate \<open>fabric\<close>: the state file with its schema check, its
  inspection and migration, and the encrypted backup of identity and state. Files are a map from
  paths to contents; the JSON encodings, SHA-256 and the cryptography are parameters. The
  serializers do not fail on these structures.
\<close>

section \<open>Types\<close>

definition BACKUP_BUNDLE_FORMAT_VERSION :: u8 where "BACKUP_BUNDLE_FORMAT_VERSION = 1"

record durable_backup_asset =
  ba_concern :: string
  ba_relative_path :: string
  ba_sha256_hex :: string
  ba_bytes :: nat

record durable_backup_manifest =
  bm_format :: string
  bm_format_version :: u8
  bm_created_at_unix_secs :: u64
  bm_hostname :: string
  bm_environment :: string
  bm_network :: string
  bm_identity_path :: string
  bm_state_path :: string
  bm_authority_origin :: "string option"
  bm_authority_subject :: "string option"
  bm_authority_snapshot :: "string option"
  bm_durable_state_present :: bool
  bm_durable_state_valid :: bool
  bm_assets :: "durable_backup_asset list"

record durable_backup_bundle_data =
  bd_manifest :: durable_backup_manifest
  bd_identity_file_base64 :: string
  bd_state_file_base64 :: string

record durable_backup_bundle_envelope =
  bv_version :: u8
  bv_cipher :: string
  bv_kdf :: string
  bv_salt :: bytes
  bv_nonce :: bytes
  bv_ciphertext :: string

record durable_backup_export_request =
  bx_output_path :: string
  bx_passphrase :: string
  bx_hostname :: string
  bx_environment :: string
  bx_identity_path :: string
  bx_state_path :: string
  bx_network :: string
  bx_authority_origin :: "string option"
  bx_authority_subject :: "string option"
  bx_authority_snapshot :: "string option"
  bx_overwrite :: bool

record durable_backup_export_report =
  er_bundle_path :: string
  er_created_at_unix_secs :: u64
  er_hostname :: string
  er_environment :: string
  er_network :: string
  er_identity_sha256_hex :: string
  er_state_sha256_hex :: string
  er_durable_state_present :: bool
  er_durable_state_valid :: bool

record durable_backup_restore_request =
  bq_input_path :: string
  bq_passphrase :: string
  bq_identity_path :: string
  bq_state_path :: string
  bq_overwrite :: bool

record durable_backup_restore_report =
  bz_input_path :: string
  bz_restored_identity_path :: string
  bz_restored_state_path :: string
  bz_created_at_unix_secs :: u64
  bz_hostname :: string
  bz_environment :: string
  bz_network :: string
  bz_identity_sha256_hex :: string
  bz_state_sha256_hex :: string

record durable_state_violation =
  dv_path :: string
  dv_message :: string

record durable_state_summary =
  du_network :: string
  du_local_peer_id :: peer_id
  du_roles :: "daemon_role list"
  du_bootstrap_hints :: nat
  du_relays :: nat
  du_peers :: nat
  du_capability_grants :: nat
  du_revocations :: nat
  du_denied_peers :: nat
  du_path_candidates :: nat

record durable_state_inspection_report =
  di_state_path :: string
  di_present :: bool
  di_schema_version :: "u64 option"
  di_valid :: bool
  di_violations :: "durable_state_violation list"
  di_summary :: "durable_state_summary option"

record durable_state_migration_report =
  dg_state_path :: string
  dg_from_schema_version :: u64
  dg_to_schema_version :: u64
  dg_migrated_fields :: "string list"

record durable_env = artifact_env +
  value_from_slice :: "bytes \<Rightarrow> (json, string) result"
  value_to_vec_pretty :: "json \<Rightarrow> bytes"
  state_to_vec_pretty :: "daemon_state \<Rightarrow> bytes"
  state_from_value :: "json \<Rightarrow> (daemon_state, string) result"
  bundle_to_vec_pretty :: "durable_backup_bundle_data \<Rightarrow> bytes"
  bundle_from_slice :: "bytes \<Rightarrow> (durable_backup_bundle_data, string) result"
  envelope_to_vec_pretty :: "durable_backup_bundle_envelope \<Rightarrow> bytes"
  envelope_from_slice :: "bytes \<Rightarrow> (durable_backup_bundle_envelope, string) result"
  snapshot_from_slice :: "bytes \<Rightarrow> (authority_artifact_snapshot, string) result"
  sha256 :: "bytes \<Rightarrow> bytes"

section \<open>Errors as text\<close>

definition control_error_text :: "control_error \<Rightarrow> string" where
  "control_error_text e = (case e of
     NetworkMismatch \<Rightarrow> ''snapshot network does not match client network''
   | CE_SubjectMismatch \<Rightarrow> ''incoming membership subject does not match local membership subject''
   | MembershipRollback \<Rightarrow> ''incoming membership is older than the local membership''
   | GrantConflict \<Rightarrow> ''grant identity collision with non-identical payload''
   | CE_Transport s \<Rightarrow> ''http transport failed: '' @ s
   | CE_Decode s \<Rightarrow> ''snapshot decoding failed: '' @ s
   | MissingSubject s \<Rightarrow> ''authority subject projection is unavailable: '' @ s)"

definition daemon_state_error_text :: "'x codecs_scheme \<Rightarrow> daemon_state_error \<Rightarrow> string" where
  "daemon_state_error_text X e = (case e of
     DS_Io s \<Rightarrow> ''io error: '' @ s
   | DS_Serialization s \<Rightarrow> ''serialization error: '' @ s
   | DS_PeerNotFound s \<Rightarrow> ''peer '' @ s @ '' was not found in daemon state''
   | DS_NetworkMismatch \<Rightarrow> ''authority snapshot network does not match configured network''
   | DS_MissingMembership \<Rightarrow> ''authority snapshot did not contain a membership certificate''
   | DS_Control c \<Rightarrow> ''control-plane merge failed: '' @ control_error_text c
   | DS_NoRoute p \<Rightarrow> ''no route is available for peer '' @ PeerId_to_text X p
   | DS_PolicyDenied s \<Rightarrow> ''transport policy denied request: '' @ s
   | DS_Transport t \<Rightarrow> ''transport execution failed: '' @ transport_error_text X t
   | DS_SessionNotFound s \<Rightarrow> ''session '' @ s @ '' was not found''
   | DS_InvalidSession s \<Rightarrow> ''session state is invalid: '' @ s
   | DS_MissingSchemaVersion \<Rightarrow> ''durable state schema version is missing''
   | DS_MigrationRequired found target \<Rightarrow>
       ''durable state schema version '' @ show_word found @
       '' requires explicit migration before use; target schema is '' @ show_word target
   | DS_UnsupportedSchemaVersion found expected \<Rightarrow>
       ''durable state schema version '' @ show_word found @ '' is unsupported; expected '' @ show_word expected
   | DS_UnsupportedDurableField f \<Rightarrow> ''durable state contains unsupported field `'' @ f @ ''`''
   | DS_InvalidBackupBundle \<Rightarrow> ''backup bundle is invalid or the passphrase is incorrect''
   | DS_BackupKeyDerivation \<Rightarrow> ''backup bundle key derivation failed'')"

section \<open>Validation and migration\<close>

definition allowed_fields :: "string list" where
  "allowed_fields =
     [''schema_version'', ''network'', ''local_peer_id'', ''roles'', ''membership'', ''capability_grants'',
      ''revocations'', ''denied_peers'', ''bootstrap'', ''relay_map'', ''peers'', ''netcheck'',
      ''queue_policies'', ''path_candidates'']"

definition validate_durable_state_value :: "json \<Rightarrow> (unit, daemon_state_error) result" where
  "validate_durable_state_value value =
     (case as_object value of
        None \<Rightarrow> Err (DS_InvalidSession ''durable state must be a JSON object'')
      | Some object \<Rightarrow>
      case bt_get object ''schema_version'' of
        None \<Rightarrow> Err DS_MissingSchemaVersion
      | Some field \<Rightarrow>
      case as_u64 field of
        None \<Rightarrow> Err (DS_InvalidSession ''durable state schema version must be an unsigned integer'')
      | Some schema_version \<Rightarrow>
          if schema_version < DAEMON_STATE_SCHEMA_VERSION \<and>
             schema_version \<ge> MIN_MIGRATABLE_DAEMON_STATE_SCHEMA_VERSION
          then Err (DS_MigrationRequired schema_version DAEMON_STATE_SCHEMA_VERSION)
          else if schema_version \<noteq> DAEMON_STATE_SCHEMA_VERSION
          then Err (DS_UnsupportedSchemaVersion schema_version DAEMON_STATE_SCHEMA_VERSION)
          else (case find (\<lambda>field. field \<notin> set allowed_fields) (bt_keys object) of
                  Some field \<Rightarrow> Err (DS_UnsupportedDurableField field)
                | None \<Rightarrow> Ok ()))"

definition durable_state_schema_version :: "json \<Rightarrow> u64 option" where
  "durable_state_schema_version value =
     Option.bind (Option.bind (as_object value) (\<lambda>object. bt_get object ''schema_version'')) as_u64"

text \<open>The rewriting visits an array by index and an object by key, in order, and reports the path of
  each string it considers changed.\<close>

definition rewrite_text :: "string \<Rightarrow> string \<times> bool" where
  "rewrite_text text =
     (let (text, changed) =
            (if contains ''/quip/'' text then (replace_str ''/quip/'' ''/quip/'' text, True) else (text, False))
      in if contains ''quip:'' text then (replace_str ''quip:'' ''quip:'' text, True) else (text, changed))"

fun rewrite_legacy_protocols :: "json \<Rightarrow> string \<Rightarrow> json \<times> string list"
  and rewrite_elements :: "json list \<Rightarrow> string \<Rightarrow> nat \<Rightarrow> json list \<times> string list"
  and rewrite_entries :: "(string \<times> json) list \<Rightarrow> string \<Rightarrow> (string \<times> json) list \<times> string list" where
  "rewrite_legacy_protocols (JString text) path =
     (case rewrite_text text of (text, changed) \<Rightarrow> (JString text, if changed then [path] else []))"
| "rewrite_legacy_protocols (JArray vs) path =
     (case rewrite_elements vs path 0 of (vs, migrated) \<Rightarrow> (JArray vs, migrated))"
| "rewrite_legacy_protocols (JObject es) path =
     (case rewrite_entries es path of (es, migrated) \<Rightarrow> (JObject es, migrated))"
| "rewrite_legacy_protocols v path = (v, [])"
| "rewrite_elements [] path i = ([], [])"
| "rewrite_elements (v # vs) path i =
     (case rewrite_legacy_protocols v (path @ ''['' @ show_nat i @ '']'') of (v, f) \<Rightarrow>
      case rewrite_elements vs path (Suc i) of (vs, fs) \<Rightarrow> (v # vs, f @ fs))"
| "rewrite_entries [] path = ([], [])"
| "rewrite_entries ((k, v) # es) path =
     (case rewrite_legacy_protocols v (path @ ''.'' @ k) of (v, f) \<Rightarrow>
      case rewrite_entries es path of (es, fs) \<Rightarrow> ((k, v) # es, f @ fs))"

definition migrate_durable_state_value_with_report ::
  "json \<Rightarrow> (json \<times> string list, daemon_state_error) result" where
  "migrate_durable_state_value_with_report value =
     (case durable_state_schema_version value of
        None \<Rightarrow> Err DS_MissingSchemaVersion
      | Some schema_version \<Rightarrow>
          if schema_version = DAEMON_STATE_SCHEMA_VERSION then Ok (value, [])
          else if schema_version < MIN_MIGRATABLE_DAEMON_STATE_SCHEMA_VERSION \<or>
                  schema_version > DAEMON_STATE_SCHEMA_VERSION
          then Err (DS_UnsupportedSchemaVersion schema_version DAEMON_STATE_SCHEMA_VERSION)
          else if schema_version = 1
          then (case rewrite_legacy_protocols value ''$'' of (value, migrated) \<Rightarrow>
                 let value = (case as_object value of
                                Some object \<Rightarrow>
                                  JObject (bt_insert ''schema_version'' (json_u64 DAEMON_STATE_SCHEMA_VERSION) object)
                              | None \<Rightarrow> value)
                 in Ok (value, migrated @ [''$.schema_version'']))
          else Err (DS_UnsupportedSchemaVersion schema_version DAEMON_STATE_SCHEMA_VERSION))"

section \<open>The state file\<close>

definition DaemonState_load ::
  "'x durable_env_scheme \<Rightarrow> filesystem \<Rightarrow> string \<Rightarrow> (daemon_state, daemon_state_error) result" where
  "DaemonState_load E fs path =
     (case fs_read fs path of
        Err e \<Rightarrow> Err (DS_Io e)
      | Ok bytes \<Rightarrow>
      case value_from_slice E bytes of
        Err e \<Rightarrow> Err (DS_Serialization e)
      | Ok value \<Rightarrow>
      case validate_durable_state_value value of
        Err e \<Rightarrow> Err e
      | Ok _ \<Rightarrow>
      case state_from_value E value of
        Err e \<Rightarrow> Err (DS_Serialization e)
      | Ok state \<Rightarrow> Ok (state\<lparr>ds_active_sessions := []\<rparr>))"

definition write_with_parent ::
  "filesystem \<Rightarrow> string \<Rightarrow> bytes \<Rightarrow> (unit, daemon_state_error) result \<times> filesystem" where
  "write_with_parent fs path content =
     (case fs_create_parent fs path of
        Err e \<Rightarrow> (Err (DS_Io e), fs)
      | Ok _ \<Rightarrow> (case fs_write fs path content of (r, fs) \<Rightarrow> (map_err DS_Io r, fs)))"

definition DaemonState_save ::
  "'x durable_env_scheme \<Rightarrow> daemon_state \<Rightarrow> string \<Rightarrow> filesystem \<Rightarrow> (unit, daemon_state_error) result \<times> filesystem" where
  "DaemonState_save E state path fs =
     write_with_parent fs path
       (state_to_vec_pretty E (state\<lparr>ds_schema_version := DAEMON_STATE_SCHEMA_VERSION, ds_active_sessions := []\<rparr>))"

definition durable_state_summary :: "daemon_state \<Rightarrow> durable_state_summary" where
  "durable_state_summary state =
     \<lparr>du_network = ds_network state, du_local_peer_id = ds_local_peer_id state, du_roles = ds_roles state,
      du_bootstrap_hints = length (ds_bootstrap state), du_relays = relay_count state,
      du_peers = length (ds_peers state), du_capability_grants = length (ds_capability_grants state),
      du_revocations = length (ds_revocations state), du_denied_peers = length (ds_denied_peers state),
      du_path_candidates = length (ds_path_candidates state)\<rparr>"

definition durable_state_violation :: "string \<Rightarrow> string \<Rightarrow> durable_state_violation" where
  "durable_state_violation path message = \<lparr>dv_path = path, dv_message = message\<rparr>"

definition durable_state_violations_from_error ::
  "'x codecs_scheme \<Rightarrow> daemon_state_error \<Rightarrow> durable_state_violation list" where
  "durable_state_violations_from_error X e = (case e of
     DS_MissingSchemaVersion \<Rightarrow> [durable_state_violation ''$.schema_version'' (daemon_state_error_text X e)]
   | DS_MigrationRequired _ _ \<Rightarrow> [durable_state_violation ''$.schema_version'' (daemon_state_error_text X e)]
   | DS_UnsupportedSchemaVersion _ _ \<Rightarrow> [durable_state_violation ''$.schema_version'' (daemon_state_error_text X e)]
   | DS_UnsupportedDurableField field \<Rightarrow> [durable_state_violation (''$.'' @ field) (daemon_state_error_text X e)]
   | _ \<Rightarrow> [durable_state_violation ''$'' (daemon_state_error_text X e)])"

definition inspect_durable_state_file ::
  "'x durable_env_scheme \<Rightarrow> filesystem \<Rightarrow> string \<Rightarrow> (durable_state_inspection_report, daemon_state_error) result" where
  "inspect_durable_state_file E fs path =
     (if \<not> fs_exists fs path
      then Ok \<lparr>di_state_path = path, di_present = False, di_schema_version = None, di_valid = False,
               di_violations = [durable_state_violation ''$'' ''durable state file is missing''], di_summary = None\<rparr>
      else case fs_read fs path of
        Err e \<Rightarrow> Err (DS_Io e)
      | Ok bytes \<Rightarrow>
      case value_from_slice E bytes of
        Err error \<Rightarrow>
          Ok \<lparr>di_state_path = path, di_present = True, di_schema_version = None, di_valid = False,
              di_violations = [durable_state_violation ''$'' (''durable state is not valid JSON: '' @ error)],
              di_summary = None\<rparr>
      | Ok value \<Rightarrow>
          let schema_version = durable_state_schema_version value
          in case validate_durable_state_value value of
               Ok _ \<Rightarrow>
                 (case state_from_value E value of
                    Err error \<Rightarrow>
                      Ok \<lparr>di_state_path = path, di_present = True, di_schema_version = schema_version,
                          di_valid = False,
                          di_violations =
                            [durable_state_violation ''$'' (''durable state could not be deserialized: '' @ error)],
                          di_summary = None\<rparr>
                  | Ok state \<Rightarrow>
                      Ok \<lparr>di_state_path = path, di_present = True, di_schema_version = schema_version,
                          di_valid = True, di_violations = [],
                          di_summary = Some (durable_state_summary (state\<lparr>ds_active_sessions := []\<rparr>))\<rparr>)
             | Err error \<Rightarrow>
                 Ok \<lparr>di_state_path = path, di_present = True, di_schema_version = schema_version,
                     di_valid = False, di_violations = durable_state_violations_from_error E error,
                     di_summary = None\<rparr>)"

definition validate_durable_state_file ::
  "'x durable_env_scheme \<Rightarrow> filesystem \<Rightarrow> string \<Rightarrow> (durable_state_inspection_report, daemon_state_error) result" where
  "validate_durable_state_file E fs path =
     (case inspect_durable_state_file E fs path of
        Err e \<Rightarrow> Err e
      | Ok report \<Rightarrow> Ok (report\<lparr>di_summary := None\<rparr>))"

definition migrate_durable_state_file ::
  "'x durable_env_scheme \<Rightarrow> string \<Rightarrow> filesystem \<Rightarrow>
   (durable_state_migration_report, daemon_state_error) result \<times> filesystem" where
  "migrate_durable_state_file E path fs =
     (case fs_read fs path of
        Err e \<Rightarrow> (Err (DS_Io e), fs)
      | Ok bytes \<Rightarrow>
      case value_from_slice E bytes of
        Err e \<Rightarrow> (Err (DS_Serialization e), fs)
      | Ok value \<Rightarrow>
      case durable_state_schema_version value of
        None \<Rightarrow> (Err DS_MissingSchemaVersion, fs)
      | Some from_schema_version \<Rightarrow>
      case migrate_durable_state_value_with_report value of
        Err e \<Rightarrow> (Err e, fs)
      | Ok (migrated, migrated_fields) \<Rightarrow>
      case validate_durable_state_value migrated of
        Err e \<Rightarrow> (Err e, fs)
      | Ok _ \<Rightarrow>
          (case write_with_parent fs path (value_to_vec_pretty E migrated) of
             (Err e, fs) \<Rightarrow> (Err e, fs)
           | (Ok _, fs) \<Rightarrow>
               (Ok \<lparr>dg_state_path = path, dg_from_schema_version = from_schema_version,
                    dg_to_schema_version = DAEMON_STATE_SCHEMA_VERSION,
                    dg_migrated_fields = migrated_fields\<rparr>, fs)))"

section \<open>Backup bundles\<close>

definition sha256_hex :: "'x durable_env_scheme \<Rightarrow> bytes \<Rightarrow> string" where
  "sha256_hex E bytes = hex_encode E (sha256 E bytes)"

definition derive_backup_key :: "'x durable_env_scheme \<Rightarrow> bytes \<Rightarrow> bytes \<Rightarrow> (bytes, daemon_state_error) result" where
  "derive_backup_key E passphrase salt =
     (case scrypt_recommended E passphrase salt of None \<Rightarrow> Err DS_BackupKeyDerivation | Some key \<Rightarrow> Ok key)"

definition encrypt_backup_bundle ::
  "'x durable_env_scheme \<Rightarrow> bytes \<Rightarrow> bytes \<Rightarrow> durable_backup_bundle_data \<Rightarrow> string \<Rightarrow>
   (durable_backup_bundle_envelope, daemon_state_error) result" where
  "encrypt_backup_bundle E salt nonce bundle passphrase =
     (let plaintext = bundle_to_vec_pretty E bundle
      in case derive_backup_key E (as_bytes passphrase) salt of
           Err e \<Rightarrow> Err e
         | Ok key \<Rightarrow>
         case chacha_encrypt E key nonce plaintext of
           None \<Rightarrow> Err DS_InvalidBackupBundle
         | Some ciphertext \<Rightarrow>
             Ok \<lparr>bv_version = BACKUP_BUNDLE_FORMAT_VERSION, bv_cipher = ''chacha20poly1305'', bv_kdf = ''scrypt'',
                 bv_salt = salt, bv_nonce = nonce, bv_ciphertext = base64_encode E ciphertext\<rparr>)"

definition decrypt_backup_bundle ::
  "'x durable_env_scheme \<Rightarrow> durable_backup_bundle_envelope \<Rightarrow> string \<Rightarrow>
   (durable_backup_bundle_data, daemon_state_error) result" where
  "decrypt_backup_bundle E envelope passphrase =
     (if bv_version envelope \<noteq> BACKUP_BUNDLE_FORMAT_VERSION \<or> bv_cipher envelope \<noteq> ''chacha20poly1305'' \<or>
         bv_kdf envelope \<noteq> ''scrypt''
      then Err DS_InvalidBackupBundle
      else case base64_decode E (bv_ciphertext envelope) of
        None \<Rightarrow> Err DS_InvalidBackupBundle
      | Some ciphertext \<Rightarrow>
      case derive_backup_key E (as_bytes passphrase) (bv_salt envelope) of
        Err e \<Rightarrow> Err e
      | Ok key \<Rightarrow>
      case chacha_decrypt E key (bv_nonce envelope) ciphertext of
        None \<Rightarrow> Err DS_InvalidBackupBundle
      | Some plaintext \<Rightarrow> map_err DS_Serialization (bundle_from_slice E plaintext))"

definition backup_bundle ::
  "'x durable_env_scheme \<Rightarrow> durable_backup_export_request \<Rightarrow> u64 \<Rightarrow> durable_state_inspection_report \<Rightarrow>
   bytes \<Rightarrow> bytes \<Rightarrow> durable_backup_bundle_data" where
  "backup_bundle E q created_at durable_state identity_bytes state_bytes =
     \<lparr>bd_manifest = \<lparr>bm_format = ''quip_backup_bundle'', bm_format_version = BACKUP_BUNDLE_FORMAT_VERSION,
        bm_created_at_unix_secs = created_at, bm_hostname = bx_hostname q, bm_environment = bx_environment q,
        bm_network = bx_network q, bm_identity_path = bx_identity_path q, bm_state_path = bx_state_path q,
        bm_authority_origin = bx_authority_origin q, bm_authority_subject = bx_authority_subject q,
        bm_authority_snapshot = bx_authority_snapshot q,
        bm_durable_state_present = di_present durable_state, bm_durable_state_valid = di_valid durable_state,
        bm_assets =
          [\<lparr>ba_concern = ''identity'', ba_relative_path = ''identity/node.json'',
            ba_sha256_hex = sha256_hex E identity_bytes, ba_bytes = length identity_bytes\<rparr>,
           \<lparr>ba_concern = ''network_state'', ba_relative_path = ''net/state.json'',
            ba_sha256_hex = sha256_hex E state_bytes, ba_bytes = length state_bytes\<rparr>]\<rparr>,
      bd_identity_file_base64 = base64_encode E identity_bytes,
      bd_state_file_base64 = base64_encode E state_bytes\<rparr>"

definition export_backup_bundle ::
  "'x durable_env_scheme \<Rightarrow> u64 \<Rightarrow> bytes \<Rightarrow> bytes \<Rightarrow> durable_backup_export_request \<Rightarrow> filesystem \<Rightarrow>
   (durable_backup_export_report, daemon_state_error) result \<times> filesystem" where
  "export_backup_bundle E now salt nonce q fs =
     (if fs_exists fs (bx_output_path q) \<and> \<not> bx_overwrite q
      then (Err (DS_InvalidSession (''backup bundle path '' @ bx_output_path q @
              '' already exists; rerun with overwrite enabled'')), fs)
      else case fs_read fs (bx_identity_path q) of
        Err e \<Rightarrow> (Err (DS_Io e), fs)
      | Ok identity_bytes \<Rightarrow>
      case fs_read fs (bx_state_path q) of
        Err e \<Rightarrow> (Err (DS_Io e), fs)
      | Ok state_bytes \<Rightarrow>
      case inspect_durable_state_file E fs (bx_state_path q) of
        Err e \<Rightarrow> (Err e, fs)
      | Ok durable_state \<Rightarrow>
      case encrypt_backup_bundle E salt nonce (backup_bundle E q now durable_state identity_bytes state_bytes)
             (bx_passphrase q) of
        Err e \<Rightarrow> (Err e, fs)
      | Ok envelope \<Rightarrow>
          (case write_with_parent fs (bx_output_path q) (envelope_to_vec_pretty E envelope) of
             (Err e, fs) \<Rightarrow> (Err e, fs)
           | (Ok _, fs) \<Rightarrow>
               (Ok \<lparr>er_bundle_path = bx_output_path q, er_created_at_unix_secs = now,
                    er_hostname = bx_hostname q, er_environment = bx_environment q, er_network = bx_network q,
                    er_identity_sha256_hex = sha256_hex E identity_bytes,
                    er_state_sha256_hex = sha256_hex E state_bytes,
                    er_durable_state_present = di_present durable_state,
                    er_durable_state_valid = di_valid durable_state\<rparr>, fs)))"

text \<open>The contents of a bundle, checked before anything is written.\<close>

definition checked_contents ::
  "'x durable_env_scheme \<Rightarrow> durable_backup_bundle_data \<Rightarrow> (bytes \<times> bytes, daemon_state_error) result" where
  "checked_contents E bundle =
     (case base64_decode E (bd_identity_file_base64 bundle) of
        None \<Rightarrow> Err DS_InvalidBackupBundle
      | Some identity_bytes \<Rightarrow>
      case base64_decode E (bd_state_file_base64 bundle) of
        None \<Rightarrow> Err DS_InvalidBackupBundle
      | Some state_bytes \<Rightarrow>
      case find (\<lambda>asset. ba_concern asset = ''identity'') (bm_assets (bd_manifest bundle)) of
        None \<Rightarrow> Err DS_InvalidBackupBundle
      | Some identity_asset \<Rightarrow>
      case find (\<lambda>asset. ba_concern asset = ''network_state'') (bm_assets (bd_manifest bundle)) of
        None \<Rightarrow> Err DS_InvalidBackupBundle
      | Some state_asset \<Rightarrow>
          if sha256_hex E identity_bytes \<noteq> ba_sha256_hex identity_asset \<or>
             sha256_hex E state_bytes \<noteq> ba_sha256_hex state_asset
          then Err DS_InvalidBackupBundle
          else (case value_from_slice E state_bytes of
                  Err _ \<Rightarrow> Err DS_InvalidBackupBundle
                | Ok state_value \<Rightarrow>
                    (case validate_durable_state_value state_value of
                       Err e \<Rightarrow> Err e
                     | Ok _ \<Rightarrow> Ok (identity_bytes, state_bytes))))"

definition restore_backup_bundle ::
  "'x durable_env_scheme \<Rightarrow> durable_backup_restore_request \<Rightarrow> filesystem \<Rightarrow>
   (durable_backup_restore_report, daemon_state_error) result \<times> filesystem" where
  "restore_backup_bundle E q fs =
     (if \<not> bq_overwrite q \<and> (fs_exists fs (bq_identity_path q) \<or> fs_exists fs (bq_state_path q))
      then (Err (DS_InvalidSession ''restore target already exists; rerun with overwrite enabled''), fs)
      else case fs_read fs (bq_input_path q) of
        Err e \<Rightarrow> (Err (DS_Io e), fs)
      | Ok bytes \<Rightarrow>
      case envelope_from_slice E bytes of
        Err e \<Rightarrow> (Err (DS_Serialization e), fs)
      | Ok envelope \<Rightarrow>
      case decrypt_backup_bundle E envelope (bq_passphrase q) of
        Err e \<Rightarrow> (Err e, fs)
      | Ok bundle \<Rightarrow>
      case checked_contents E bundle of
        Err e \<Rightarrow> (Err e, fs)
      | Ok (identity_bytes, state_bytes) \<Rightarrow>
      case fs_create_parent fs (bq_identity_path q) of
        Err e \<Rightarrow> (Err (DS_Io e), fs)
      | Ok _ \<Rightarrow>
      case fs_create_parent fs (bq_state_path q) of
        Err e \<Rightarrow> (Err (DS_Io e), fs)
      | Ok _ \<Rightarrow>
          (case fs_write fs (bq_identity_path q) identity_bytes of
             (Err e, fs) \<Rightarrow> (Err (DS_Io e), fs)
           | (Ok _, fs) \<Rightarrow>
               (case fs_write fs (bq_state_path q) state_bytes of
                  (Err e, fs) \<Rightarrow> (Err (DS_Io e), fs)
                | (Ok _, fs) \<Rightarrow>
                    (Ok \<lparr>bz_input_path = bq_input_path q, bz_restored_identity_path = bq_identity_path q,
                         bz_restored_state_path = bq_state_path q,
                         bz_created_at_unix_secs = bm_created_at_unix_secs (bd_manifest bundle),
                         bz_hostname = bm_hostname (bd_manifest bundle),
                         bz_environment = bm_environment (bd_manifest bundle),
                         bz_network = bm_network (bd_manifest bundle),
                         bz_identity_sha256_hex = sha256_hex E identity_bytes,
                         bz_state_sha256_hex = sha256_hex E state_bytes\<rparr>, fs))))"

end
