(* ===== verification/Quip_Json_Wire.thy ===== *)
theory Quip_Json_Wire
  imports Quip_Json Quip_Wire
begin

text \<open>
  A concrete serializer for JSON values, built from the formats of \<open>Quip_Wire\<close>. It shows that the
  hypotheses on \<open>serde_json\<close> values can hold.
\<close>

definition w_number :: "number wire" where
  "w_number = w_iso
     (\<lambda>n. case n of PosInt u \<Rightarrow> (0, u, 0) | NegInt i \<Rightarrow> (if i < 0 then 1 else 2, 0, nat \<bar>i\<bar>) | Float f \<Rightarrow> (3, f, 0))
     (\<lambda>(k, u, n). if k = 0 then PosInt u else if k = 1 then NegInt (- int n)
        else if k = 2 then NegInt (int n) else Float u)
     (w_pair w_nat (w_pair w_word w_nat))"

lemma w_number_ok: "wire_ok w_number"
  unfolding w_number_def by (rule w_iso_ok) (intro wire_oks, auto split: number.split)

fun json_enc :: "json \<Rightarrow> bytes" where
  "json_enc JNull = [0]"
| "json_enc (JBool b) = 1 # enc w_bool b"
| "json_enc (JNumber n) = 2 # enc w_number n"
| "json_enc (JString s) = 3 # enc w_string s"
| "json_enc (JArray vs) = 4 # framed (replicate (length vs) 0) @ concat (map json_enc vs)"
| "json_enc (JObject kvs) =
     5 # framed (replicate (length kvs) 0) @ concat (map (\<lambda>kv. enc w_string (fst kv) @ json_enc (snd kv)) kvs)"

text \<open>The decoder descends as far as its first argument allows; the length of the input is enough.\<close>

primrec json_dec :: "nat \<Rightarrow> bytes \<Rightarrow> (json \<times> bytes) option" where
  "json_dec 0 bs = None"
| "json_dec (Suc n) bs = (case bs of
     [] \<Rightarrow> None
   | t # r \<Rightarrow>
       if t = 0 then Some (JNull, r)
       else if t = 1 then map_option (\<lambda>(b, q). (JBool b, q)) (dec w_bool r)
       else if t = 2 then map_option (\<lambda>(b, q). (JNumber b, q)) (dec w_number r)
       else if t = 3 then map_option (\<lambda>(b, q). (JString b, q)) (dec w_string r)
       else if t = 4 then map_option (\<lambda>(vs, q). (JArray vs, q)) (dec (w_list \<lparr>enc = json_enc, dec = json_dec n\<rparr>) r)
       else map_option (\<lambda>(vs, q). (JObject vs, q))
              (dec (w_list (w_pair w_string \<lparr>enc = json_enc, dec = json_dec n\<rparr>)) r))"

lemma dec_list_on:
  assumes "\<And>x r. x \<in> set xs \<Longrightarrow> dec c (enc c x @ r) = Some (x, r)"
  shows "dec (w_list c) (framed (replicate (length xs) 0) @ concat (map (enc c) xs) @ r) = Some (xs, r)"
proof -
  have "dec_count c (length ys) (concat (map (enc c) ys) @ r) = Some (ys, r)" if "set ys \<subseteq> set xs" for ys
    using that assms by (induction ys) simp_all
  then show ?thesis by (simp add: w_list_def)
qed

lemma json_dec_enc: "length (json_enc v) \<le> n \<Longrightarrow> json_dec n (json_enc v @ r) = Some (v, r)"
proof (induction v arbitrary: n r)
  case (JArray vs)
  then obtain m where n: "n = Suc m" by (cases n) simp_all
  have "length (json_enc x) \<le> m" if "x \<in> set vs" for x
    using member_le_sum_list [of "length (json_enc x)" "map (\<lambda>v. length (json_enc v)) vs"] that JArray.prems
    by (auto simp: n length_concat o_def)
  then have "json_dec m (json_enc x @ q) = Some (x, q)" if "x \<in> set vs" for x q
    using that JArray.IH by blast
  then show ?case
    using dec_list_on [of vs "\<lparr>enc = json_enc, dec = json_dec m\<rparr>" r] by (simp add: n)
next
  case (JObject kvs)
  let ?c = "\<lambda>m. w_pair w_string \<lparr>enc = json_enc, dec = json_dec m\<rparr>"
  let ?e = "\<lambda>kv. enc w_string (fst kv) @ json_enc (snd kv)"
  from JObject.prems obtain m where n: "n = Suc m" by (cases n) simp_all
  have enc: "enc (?c m) = ?e" by (auto simp: w_pair_def fun_eq_iff)
  have "length (json_enc (snd kv)) \<le> m" if "kv \<in> set kvs" for kv
    using member_le_sum_list [of "length (?e kv)" "map (\<lambda>kv. length (?e kv)) kvs"] that JObject.prems
    by (auto simp: n length_concat o_def)
  then have v: "json_dec m (json_enc (snd kv) @ q) = Some (snd kv, q)" if "kv \<in> set kvs" for kv q
    using that JObject.IH [of kv "snd kv"] by (cases kv) (auto simp: snds.simps)
  have "dec (?c m) (enc (?c m) kv @ q) = Some (kv, q)" if "kv \<in> set kvs" for kv q
    using v [OF that] by (simp add: enc) (simp add: w_pair_def wire_okD [OF w_string_ok])
  from dec_list_on [of kvs "?c m" r, OF this] show ?case by (simp add: n enc)
qed (case_tac n; simp add: wire_okD [OF w_bool_ok] wire_okD [OF w_number_ok] wire_okD [OF w_string_ok])+

definition w_json :: "json wire" where
  "w_json = \<lparr>enc = json_enc, dec = (\<lambda>bs. json_dec (length bs) bs)\<rparr>"

lemma w_json_ok: "wire_ok w_json"
  by (simp add: wire_ok_def w_json_def json_dec_enc)

end
