(* ===== verification/Quip_Durable_Laws.thy ===== *)
theory Quip_Durable_Laws
  imports Quip_Durable Quip_Json_Wire
begin

text \<open>
  Laws of the durable state: what is saved is loaded, inspection agrees with loading, a migration
  leaves a file of the current schema that a second migration keeps, a backup restores the files
  it was made from, and a failed save or restore damages no file but its targets.
\<close>

section \<open>Validation\<close>

lemma as_u64_Some: "as_u64 f = Some n \<longleftrightarrow> f = json_u64 n"
  by (auto simp: as_u64_def json_u64_def split: json.splits number.splits)

lemma validate_Ok:
  "validate_durable_state_value v = Ok u \<longleftrightarrow>
     (\<exists>m. v = JObject m \<and> bt_get m ''schema_version'' = Some (json_u64 DAEMON_STATE_SCHEMA_VERSION) \<and>
          set (bt_keys m) \<subseteq> set allowed_fields)"
proof (cases v)
  case (JObject m)
  have f: "(case find (\<lambda>field. field \<notin> set allowed_fields) ks of
        Some field \<Rightarrow> Err (DS_UnsupportedDurableField field) | None \<Rightarrow> Ok ()) = Ok u \<longleftrightarrow>
      set ks \<subseteq> set allowed_fields" for ks
    by (auto simp: find_None_iff split: option.splits dest: find_SomeD)
  show ?thesis
  proof (cases "bt_get m ''schema_version''")
    case None
    then show ?thesis by (simp add: JObject validate_durable_state_value_def)
  next
    case (Some x)
    show ?thesis
    proof (cases "as_u64 x")
      case None
      then have "x \<noteq> json_u64 DAEMON_STATE_SCHEMA_VERSION" by (auto simp: json_u64_def)
      with None Some show ?thesis by (simp add: JObject validate_durable_state_value_def)
    next
      case (Some n)
      then have x: "x = json_u64 n" by (simp add: as_u64_Some)
      have "validate_durable_state_value v = Ok u \<longleftrightarrow>
          n = DAEMON_STATE_SCHEMA_VERSION \<and> set (bt_keys m) \<subseteq> set allowed_fields"
        using Some \<open>bt_get m ''schema_version'' = Some x\<close> f [of "bt_keys m"]
        by (simp add: JObject validate_durable_state_value_def)
      with x \<open>bt_get m ''schema_version'' = Some x\<close> show ?thesis by (simp add: JObject json_u64_def)
    qed
  qed
qed (simp_all add: validate_durable_state_value_def as_object_def)

section \<open>Migration\<close>

lemma rewrite_text_same [simp]: "fst (rewrite_text t) = t"
  by (simp add: rewrite_text_def replace_str_same Let_def)

lemma rewrite_same:
  "fst (rewrite_legacy_protocols v p) = v"
  "fst (rewrite_elements vs p i) = vs"
  "fst (rewrite_entries es p) = es"
  by (induction v p and vs p i and es p rule: rewrite_legacy_protocols_rewrite_elements_rewrite_entries.induct)
     (auto simp: case_prod_beta, (metis prod.collapse)+)

lemma schema_version_object:
  "durable_state_schema_version v = Some n \<Longrightarrow> \<exists>m. v = JObject m \<and> bt_get m ''schema_version'' = Some (json_u64 n)"
  by (auto simp: durable_state_schema_version_def as_u64_Some bind_eq_Some_conv dest: as_object_SomeD)

lemma migrate_Ok:
  assumes "migrate_durable_state_value_with_report v = Ok (v', changed)"
  shows "\<exists>m. v = JObject m \<and>
          (v' = v \<and> changed = [] \<and> durable_state_schema_version v = Some DAEMON_STATE_SCHEMA_VERSION \<or>
           durable_state_schema_version v = Some 1 \<and>
           v' = JObject (bt_insert ''schema_version'' (json_u64 DAEMON_STATE_SCHEMA_VERSION) m) \<and>
           last changed = ''$.schema_version'')"
proof -
  from assms obtain n where n: "durable_state_schema_version v = Some n"
    by (auto simp: migrate_durable_state_value_with_report_def split: option.splits)
  from schema_version_object [OF n] obtain m where m: "v = JObject m" by blast
  show ?thesis
  proof (cases "n = DAEMON_STATE_SCHEMA_VERSION")
    case True
    with assms n m show ?thesis by (auto simp: migrate_durable_state_value_with_report_def)
  next
    case False
    have "fst (rewrite_legacy_protocols v ''$'') = JObject m" unfolding rewrite_same(1) m ..
    with assms n False m show ?thesis
      by (auto simp: migrate_durable_state_value_with_report_def case_prod_beta Let_def split: if_splits)
  qed
qed

lemma migrate_current:
  assumes "migrate_durable_state_value_with_report v = Ok (v', changed)"
  shows "durable_state_schema_version v' = Some DAEMON_STATE_SCHEMA_VERSION"
    and "migrate_durable_state_value_with_report v' = Ok (v', [])"
proof -
  from migrate_Ok [OF assms] show "durable_state_schema_version v' = Some DAEMON_STATE_SCHEMA_VERSION"
    by (auto simp: durable_state_schema_version_def json_u64_def)
  then show "migrate_durable_state_value_with_report v' = Ok (v', [])"
    by (simp add: migrate_durable_state_value_with_report_def)
qed

text \<open>The rewriting of legacy protocol names replaces each name by itself: the fields it reports as
  migrated are unchanged.\<close>

lemma migrate_keeps_fields:
  assumes "migrate_durable_state_value_with_report (JObject m) = Ok (v', changed)"
  shows "\<exists>m'. v' = JObject m' \<and> (\<forall>k. k \<noteq> ''schema_version'' \<longrightarrow> bt_get m' k = bt_get m k)"
  using migrate_Ok [OF assms] by auto

section \<open>The state file\<close>

text \<open>What \<open>serde\<close> does with a state: an object with the struct's fields and no others, read back as the
  state without its sessions, which are skipped.\<close>

definition serde_state :: "'x durable_env_scheme \<Rightarrow> daemon_state \<Rightarrow> bool" where
  "serde_state E s \<longleftrightarrow> (\<exists>m. value_from_slice E (state_to_vec_pretty E s) = Ok (JObject m) \<and>
     bt_get m ''schema_version'' = Some (json_u64 (ds_schema_version s)) \<and> set (bt_keys m) \<subseteq> set allowed_fields \<and>
     state_from_value E (JObject m) = Ok (s\<lparr>ds_active_sessions := []\<rparr>))"

definition saved_form :: "daemon_state \<Rightarrow> daemon_state" where
  "saved_form s = s\<lparr>ds_schema_version := DAEMON_STATE_SCHEMA_VERSION, ds_active_sessions := []\<rparr>"

lemma write_with_parent_Ok:
  "write_with_parent fs p c = (Ok u, fs') \<Longrightarrow> fs_write fs p c = (Ok (), fs')"
  by (auto simp: write_with_parent_def split: result.splits prod.splits)

lemma write_with_parent_Err: "write_with_parent fs p c = (Err e, fs') \<Longrightarrow> (\<exists>io. e = DS_Io io) \<and> (fs' = fs \<or> cut_short p c fs fs')"
  by (auto simp: write_with_parent_def map_err_def dest: fs_write_fault split: result.splits prod.splits)

text \<open>Reading back a JSON value that was written.\<close>

definition json_serde :: "'x durable_env_scheme \<Rightarrow> bool" where
  "json_serde E \<longleftrightarrow> (\<forall>v. value_from_slice E (value_to_vec_pretty E v) = Ok v)"

lemma migrate_file_Ok:
  assumes "migrate_durable_state_file E path fs = (Ok rep, fs')"
  shows "\<exists>bs v v'. fs_read fs path = Ok bs \<and> value_from_slice E bs = Ok v \<and>
    durable_state_schema_version v = Some (dg_from_schema_version rep) \<and>
    migrate_durable_state_value_with_report v = Ok (v', dg_migrated_fields rep) \<and>
    validate_durable_state_value v' = Ok () \<and> dg_to_schema_version rep = DAEMON_STATE_SCHEMA_VERSION \<and>
    write_with_parent fs path (value_to_vec_pretty E v') = (Ok (), fs')"
  using assms
  by (auto simp: migrate_durable_state_file_def split: result.splits option.splits prod.splits)

lemma write_with_parent_again:
  assumes "write_with_parent fs path content = (Ok (), fs')"
  shows "write_with_parent fs' path content = (Ok (), fs')"
proof -
  have w: "fs_write fs path content = (Ok (), fs')" by (rule write_with_parent_Ok [OF assms])
  then have fs': "fs' = fs\<lparr>fs_files := (fs_files fs)(path \<mapsto> content)\<rparr>" by (rule fs_write_Ok [THEN conjunct1])
  have "fs_create_parent fs' path = fs_create_parent fs path" by (simp add: fs' fs_create_parent_def split: option.split)
  moreover have "fs_write fs' path content = (Ok (), fs')"
    using w by (auto simp: fs' fs_write_def split: option.splits fs_fault.splits if_splits)
  ultimately show ?thesis using assms by (simp add: write_with_parent_def split: result.splits)
qed

text \<open>C27: A migration leaves a state file of the current schema or none of its work. When it succeeds, the
  file held a version it supports, which it reports; the file now holds the current version and only
  fields of the schema, so that it passes validation; no other file has changed; and a second
  migration finds the current version, reports nothing and changes nothing. When it fails, be it that
  the file is missing, damaged, of an unsupported version or with a field the schema does not know,
  every file is as it was, unless the disk filled up while the migrated file was written.\<close>

theorem migrate_file_spec:
  assumes "json_serde E" and "migrate_durable_state_file E path fs = (r, fs')"
  shows "case r of
     Ok rep \<Rightarrow>
       (\<exists>bs v v'. fs_read fs path = Ok bs \<and> value_from_slice E bs = Ok v \<and>
          durable_state_schema_version v = Some (dg_from_schema_version rep) \<and>
          dg_from_schema_version rep \<in> {1, DAEMON_STATE_SCHEMA_VERSION} \<and>
          dg_to_schema_version rep = DAEMON_STATE_SCHEMA_VERSION \<and>
          fs_read fs' path = Ok (value_to_vec_pretty E v') \<and> validate_durable_state_value v' = Ok ()) \<and>
       (\<forall>p. p \<noteq> path \<longrightarrow> fs_read fs' p = fs_read fs p) \<and>
       migrate_durable_state_file E path fs' =
         (Ok (rep\<lparr>dg_from_schema_version := DAEMON_STATE_SCHEMA_VERSION, dg_migrated_fields := []\<rparr>), fs')
   | Err e \<Rightarrow>
       fs' = fs \<or> (\<exists>io v'. e = DS_Io io \<and> validate_durable_state_value v' = Ok () \<and>
                        cut_short path (value_to_vec_pretty E v') fs fs')"
proof (cases r)
  case (Err e)
  with assms(2) show ?thesis
    by (fastforce simp: migrate_durable_state_file_def dest: write_with_parent_Err
        split: result.splits option.splits prod.splits)
next
  case (Ok rep)
  from migrate_file_Ok [OF assms(2) [unfolded Ok]] obtain bs v v' where
    v: "fs_read fs path = Ok bs" "value_from_slice E bs = Ok v"
      "durable_state_schema_version v = Some (dg_from_schema_version rep)"
      "migrate_durable_state_value_with_report v = Ok (v', dg_migrated_fields rep)" and
    v': "validate_durable_state_value v' = Ok ()" "dg_to_schema_version rep = DAEMON_STATE_SCHEMA_VERSION"
      "write_with_parent fs path (value_to_vec_pretty E v') = (Ok (), fs')" by blast
  have rd: "fs_read fs' p = (if p = path then Ok (value_to_vec_pretty E v') else fs_read fs p)" for p
    by (rule fs_read_write [OF write_with_parent_Ok [OF v'(3)]])
  have from1: "dg_from_schema_version rep \<in> {1, DAEMON_STATE_SCHEMA_VERSION}"
    using migrate_Ok [OF v(4)] v(3) by auto
  have path: "dg_state_path rep = path"
    using assms(2) Ok by (auto simp: migrate_durable_state_file_def split: result.splits option.splits prod.splits)
  have again: "migrate_durable_state_file E path fs' =
      (Ok \<lparr>dg_state_path = path, dg_from_schema_version = DAEMON_STATE_SCHEMA_VERSION,
           dg_to_schema_version = DAEMON_STATE_SCHEMA_VERSION, dg_migrated_fields = []\<rparr>, fs')"
    using assms(1) rd [of path] v'(1) migrate_current [OF v(4)] write_with_parent_again [OF v'(3)]
    by (simp add: migrate_durable_state_file_def json_serde_def)
  moreover have "rep\<lparr>dg_from_schema_version := DAEMON_STATE_SCHEMA_VERSION, dg_migrated_fields := []\<rparr> =
      \<lparr>dg_state_path = path, dg_from_schema_version = DAEMON_STATE_SCHEMA_VERSION,
       dg_to_schema_version = DAEMON_STATE_SCHEMA_VERSION, dg_migrated_fields = []\<rparr>"
    using path v'(2) by (cases rep) simp
  ultimately show ?thesis using v v' rd from1 Ok by auto
qed

text \<open>C28: What is saved is loaded: after a successful save the file holds the state in the current
  schema version and without runtime sessions, and every other file is as before. A save that fails
  changes no other file either; it leaves the state file as it was or, when the disk filled up while
  writing, with a proper prefix of the new content.\<close>

theorem save_load_roundtrip:
  assumes "serde_state E (saved_form s)" and "DaemonState_save E s path fs = (r, fs')"
  shows "(if is_ok r then DaemonState_load E fs' path = Ok (saved_form s) \<and>
            (\<forall>p. p \<noteq> path \<longrightarrow> fs_read fs' p = fs_read fs p)
          else fs' = fs \<or> cut_short path (state_to_vec_pretty E (saved_form s)) fs fs')"
proof (cases r)
  case (Ok u)
  then have w: "fs_write fs path (state_to_vec_pretty E (saved_form s)) = (Ok (), fs')"
    using assms(2) by (auto simp: DaemonState_save_def saved_form_def intro: write_with_parent_Ok)
  from assms(1) obtain m where m: "value_from_slice E (state_to_vec_pretty E (saved_form s)) = Ok (JObject m)"
    "bt_get m ''schema_version'' = Some (json_u64 DAEMON_STATE_SCHEMA_VERSION)" "set (bt_keys m) \<subseteq> set allowed_fields"
    "state_from_value E (JObject m) = Ok (saved_form s)"
    by (auto simp: serde_state_def saved_form_def)
  have "validate_durable_state_value (JObject m) = Ok ()" using m validate_Ok by blast
  then have "DaemonState_load E fs' path = Ok (saved_form s)"
    using fs_read_write [OF w, of path] m by (simp add: DaemonState_load_def) (simp add: saved_form_def)
  with Ok fs_read_write [OF w] show ?thesis by simp
next
  case (Err e)
  with assms(2) show ?thesis by (auto simp: DaemonState_save_def saved_form_def dest!: write_with_parent_Err)
qed

text \<open>C29: Inspection tells the truth: for a file that exists and can be read, the report calls the
  state valid exactly when loading it succeeds, and it lists violations exactly when it does not.\<close>

theorem inspect_agrees_with_load:
  assumes "fs_exists fs path"
  shows "\<exists>rep. inspect_durable_state_file E fs path = Ok rep \<and> di_present rep \<and>
           (di_valid rep \<longleftrightarrow> is_ok (DaemonState_load E fs path)) \<and> (di_violations rep = [] \<longleftrightarrow> di_valid rep) \<and>
           (di_summary rep = None \<longleftrightarrow> \<not> di_valid rep)"
proof -
  from assms obtain bs where bs: "fs_read fs path = Ok bs" by (auto simp: fs_exists_def fs_read_def)
  have ne: "durable_state_violations_from_error E e \<noteq> []" for e
    by (cases e) (simp_all add: durable_state_violations_from_error_def)
  show ?thesis
  proof (cases "value_from_slice E bs")
    case (Err e)
    with assms bs show ?thesis by (simp add: inspect_durable_state_file_def DaemonState_load_def)
  next
    case (Ok v)
    with assms bs ne show ?thesis
      by (cases "validate_durable_state_value v"; cases "state_from_value E v")
         (simp_all add: inspect_durable_state_file_def DaemonState_load_def Let_def)
  qed
qed

section \<open>Backups\<close>

text \<open>What a backup relies on: the encodings are inverted by their decodings, decryption inverts
  encryption under the same key and nonce.\<close>

definition backup_codecs_ok :: "'x durable_env_scheme \<Rightarrow> bool" where
  "backup_codecs_ok E \<longleftrightarrow>
     (\<forall>bs. base64_decode E (base64_encode E bs) = Some bs) \<and>
     (\<forall>k n p c. chacha_encrypt E k n p = Some c \<longrightarrow> chacha_decrypt E k n c = Some p) \<and>
     (\<forall>b. bundle_from_slice E (bundle_to_vec_pretty E b) = Ok b) \<and>
     (\<forall>v. envelope_from_slice E (envelope_to_vec_pretty E v) = Ok v)"

lemma decrypt_encrypt:
  assumes "backup_codecs_ok E" and "encrypt_backup_bundle E salt nonce b pass = Ok v"
  shows "decrypt_backup_bundle E v pass = Ok b"
  using assms
  by (auto simp: backup_codecs_ok_def encrypt_backup_bundle_def decrypt_backup_bundle_def Let_def
      split: result.splits option.splits)

lemma contents_of_backup:
  assumes "backup_codecs_ok E" and "value_from_slice E st = Ok v" and "validate_durable_state_value v = Ok ()"
  shows "checked_contents E (backup_bundle E q now rep idb st) = Ok (idb, st)"
  using assms by (simp add: checked_contents_def backup_bundle_def backup_codecs_ok_def)

lemma inspect_validD:
  assumes "inspect_durable_state_file E fs path = Ok rep" and "di_valid rep" and "fs_read fs path = Ok bs"
  shows "\<exists>v. value_from_slice E bs = Ok v \<and> validate_durable_state_value v = Ok ()"
  using assms by (auto simp: inspect_durable_state_file_def Let_def split: if_splits result.splits)

text \<open>The two files in a readable bundle that passes its checks.\<close>

definition bundle_files ::
  "'x durable_env_scheme \<Rightarrow> durable_backup_restore_request \<Rightarrow> filesystem \<Rightarrow> (bytes \<times> bytes) option" where
  "bundle_files E q fs =
     (case fs_read fs (bq_input_path q) of Err _ \<Rightarrow> None | Ok bytes \<Rightarrow>
      case envelope_from_slice E bytes of Err _ \<Rightarrow> None | Ok envelope \<Rightarrow>
      case decrypt_backup_bundle E envelope (bq_passphrase q) of Err _ \<Rightarrow> None | Ok bundle \<Rightarrow>
      case checked_contents E bundle of Err _ \<Rightarrow> None | Ok contents \<Rightarrow> Some contents)"

text \<open>A restore of a good bundle is the two writes.\<close>

lemma restore_two_writes:
  assumes "bundle_files E q fs = Some (idb, stb)" and "bq_overwrite q"
    and "fs_create_parent fs (bq_identity_path q) = Ok ()" and "fs_create_parent fs (bq_state_path q) = Ok ()"
  shows "\<exists>rep. restore_backup_bundle E q fs =
    (case fs_write fs (bq_identity_path q) idb of
       (Err e, fs) \<Rightarrow> (Err (DS_Io e), fs)
     | (Ok _, fs) \<Rightarrow>
         (case fs_write fs (bq_state_path q) stb of (Err e, fs) \<Rightarrow> (Err (DS_Io e), fs) | (Ok _, fs) \<Rightarrow> (Ok rep, fs)))"
  using assms by (auto simp: restore_backup_bundle_def bundle_files_def split: result.splits)

lemma failed_restore_stage:
  assumes "restore_backup_bundle E q fs = (Err e, fs')"
  shows "fs' = fs \<or> (\<exists>idb stb io. bundle_files E q fs = Some (idb, stb) \<and> e = DS_Io io \<and>
    (fs_write fs (bq_identity_path q) idb = (Err io, fs') \<or>
     (\<exists>fs1. fs_write fs (bq_identity_path q) idb = (Ok (), fs1) \<and> fs_write fs1 (bq_state_path q) stb = (Err io, fs'))))"
  using assms
  by (auto simp: restore_backup_bundle_def bundle_files_def split: if_splits result.splits prod.splits)

lemma exported_bundle:
  assumes "backup_codecs_ok E" and "export_backup_bundle E now salt nonce x fs = (Ok rep, fs1)"
    and "er_durable_state_valid rep" and "bq_input_path q = bx_output_path x" and "bq_passphrase q = bx_passphrase x"
  shows "\<exists>idb stb. bundle_files E q fs1 = Some (idb, stb) \<and>
    fs_read fs (bx_identity_path x) = Ok idb \<and> fs_read fs (bx_state_path x) = Ok stb"
proof -
  from assms(2) obtain idb st di v where
    r: "fs_read fs (bx_identity_path x) = Ok idb" "fs_read fs (bx_state_path x) = Ok st"
      "inspect_durable_state_file E fs (bx_state_path x) = Ok di" and
    v: "encrypt_backup_bundle E salt nonce (backup_bundle E x now di idb st) (bx_passphrase x) = Ok v" and
    w: "fs_write fs (bx_output_path x) (envelope_to_vec_pretty E v) = (Ok (), fs1)" and
    rep: "er_durable_state_valid rep = di_valid di"
    by (auto simp: export_backup_bundle_def split: if_splits result.splits prod.splits dest: write_with_parent_Ok)
  have i: "fs_read fs1 (bq_input_path q) = Ok (envelope_to_vec_pretty E v)"
    using fs_read_write [OF w, of "bx_output_path x"] assms(4) by simp
  from inspect_validD [OF r(3) _ r(2)] rep assms(3) obtain val where
    val: "value_from_slice E st = Ok val" "validate_durable_state_value val = Ok ()" by blast
  have e: "envelope_from_slice E (envelope_to_vec_pretty E v) = Ok v" using assms(1) by (simp add: backup_codecs_ok_def)
  show ?thesis
    using r i e assms(5) decrypt_encrypt [OF assms(1) v] contents_of_backup [OF assms(1) val]
    by (simp add: bundle_files_def)
qed

text \<open>C30: A backup restores what it was made from: when an export of a valid state succeeds, a later
  restore of that bundle with the same passphrase to paths that may be written puts the exported
  identity and state files there byte for byte.\<close>

theorem backup_restores:
  assumes "backup_codecs_ok E"
    and "export_backup_bundle E now salt nonce x fs = (Ok rep, fs1)" and "er_durable_state_valid rep"
    and "bq_input_path q = bx_output_path x" and "bq_passphrase q = bx_passphrase x"
    and "bq_overwrite q" and "bq_identity_path q \<noteq> bq_state_path q"
    and "fs_create_parent fs1 (bq_identity_path q) = Ok ()" and "fs_create_parent fs1 (bq_state_path q) = Ok ()"
    and "fs_fault fs1 (bq_identity_path q) = None" and "fs_fault fs1 (bq_state_path q) = None"
  shows "\<exists>r fs2. restore_backup_bundle E q fs1 = (Ok r, fs2) \<and>
           fs_read fs2 (bq_identity_path q) = fs_read fs (bx_identity_path x) \<and>
           fs_read fs2 (bq_state_path q) = fs_read fs (bx_state_path x)"
proof -
  from exported_bundle [OF assms(1-5)] obtain idb stb where
    b: "bundle_files E q fs1 = Some (idb, stb)" "fs_read fs (bx_identity_path x) = Ok idb" "fs_read fs (bx_state_path x) = Ok stb"
    by blast
  let ?fsa = "fs1\<lparr>fs_files := (fs_files fs1)(bq_identity_path q \<mapsto> idb)\<rparr>"
  let ?fsb = "?fsa\<lparr>fs_files := (fs_files ?fsa)(bq_state_path q \<mapsto> stb)\<rparr>"
  have "fs_write fs1 (bq_identity_path q) idb = (Ok (), ?fsa)" "fs_write ?fsa (bq_state_path q) stb = (Ok (), ?fsb)"
    using assms(10,11) by (simp_all add: fs_write_def)
  then have "\<exists>r. restore_backup_bundle E q fs1 = (Ok r, ?fsb)"
    using restore_two_writes [OF b(1) assms(6,8,9)] by simp
  moreover have "fs_read ?fsb (bq_identity_path q) = Ok idb" "fs_read ?fsb (bq_state_path q) = Ok stb"
    using assms(7,10,11) by (simp_all add: fs_read_def)
  ultimately show ?thesis using b by metis
qed

text \<open>C31: A restore that fails does no damage of its own. A wrong passphrase, a damaged bundle, a state of
  another schema version, an existing target or a directory that cannot be created leaves every
  file as it was. Only the disk can make it fail later: then the bundle was good, no file but the
  two targets has changed, and either the identity file is cut short and the state file untouched,
  or the identity file is restored and the state file is untouched or cut short.\<close>

theorem failed_restore_contained:
  assumes "restore_backup_bundle E q fs = (Err e, fs')"
  shows "fs' = fs \<or>
    (\<exists>idb stb io. bundle_files E q fs = Some (idb, stb) \<and> e = DS_Io io \<and>
       (cut_short (bq_identity_path q) idb fs fs' \<or>
        (\<exists>fs1. fs_write fs (bq_identity_path q) idb = (Ok (), fs1) \<and>
           (fs' = fs1 \<and> fs_refusal fs (bq_state_path q) = Some io \<or> cut_short (bq_state_path q) stb fs1 fs'))))"
  using failed_restore_stage [OF assms] fs_write_Ok [of fs "bq_identity_path q"]
  by (auto dest!: fs_write_fault) (metis fs_refusal_simps(2))+

section \<open>Concrete serializers\<close>

definition w_asset :: "durable_backup_asset wire" where
  "w_asset = w_iso (\<lambda>a. (ba_concern a, ba_relative_path a, ba_sha256_hex a, ba_bytes a))
     (\<lambda>(c, p, h, n). \<lparr>ba_concern = c, ba_relative_path = p, ba_sha256_hex = h, ba_bytes = n\<rparr>)
     (w_pair w_string (w_pair w_string (w_pair w_string w_nat)))"

definition w_manifest :: "durable_backup_manifest wire" where
  "w_manifest = w_iso
     (\<lambda>m. (bm_format m, bm_format_version m, bm_created_at_unix_secs m, bm_hostname m, bm_environment m,
           bm_network m, bm_identity_path m, bm_state_path m, bm_authority_origin m, bm_authority_subject m,
           bm_authority_snapshot m, bm_durable_state_present m, bm_durable_state_valid m, bm_assets m))
     (\<lambda>(f, v, c, h, e, n, i, s, ao, au, an, p, ok, assets).
       \<lparr>bm_format = f, bm_format_version = v, bm_created_at_unix_secs = c, bm_hostname = h, bm_environment = e,
        bm_network = n, bm_identity_path = i, bm_state_path = s, bm_authority_origin = ao,
        bm_authority_subject = au, bm_authority_snapshot = an, bm_durable_state_present = p,
        bm_durable_state_valid = ok, bm_assets = assets\<rparr>)
     (w_pair w_string (w_pair w_word (w_pair w_word (w_pair w_string (w_pair w_string (w_pair w_string
       (w_pair w_string (w_pair w_string (w_pair (w_option w_string) (w_pair (w_option w_string)
       (w_pair (w_option w_string) (w_pair w_bool (w_pair w_bool (w_list w_asset))))))))))))))"

definition w_bundle :: "durable_backup_bundle_data wire" where
  "w_bundle = w_iso (\<lambda>b. (bd_manifest b, bd_identity_file_base64 b, bd_state_file_base64 b))
     (\<lambda>(m, i, s). \<lparr>bd_manifest = m, bd_identity_file_base64 = i, bd_state_file_base64 = s\<rparr>)
     (w_pair w_manifest (w_pair w_string w_string))"

definition w_envelope :: "durable_backup_bundle_envelope wire" where
  "w_envelope = w_iso (\<lambda>v. (bv_version v, bv_cipher v, bv_kdf v, bv_salt v, bv_nonce v, bv_ciphertext v))
     (\<lambda>(v, c, k, s, n, t). \<lparr>bv_version = v, bv_cipher = c, bv_kdf = k, bv_salt = s, bv_nonce = n, bv_ciphertext = t\<rparr>)
     (w_pair w_word (w_pair w_string (w_pair w_string (w_pair w_bytes (w_pair w_bytes w_string)))))"

lemma w_backup_ok: "wire_ok w_asset" "wire_ok w_manifest" "wire_ok w_bundle" "wire_ok w_envelope"
proof -
  show a: "wire_ok w_asset" unfolding w_asset_def by (rule w_iso_ok) (intro wire_oks, simp)
  show m: "wire_ok w_manifest" unfolding w_manifest_def by (rule w_iso_ok) (intro wire_oks a, simp)
  show "wire_ok w_bundle" unfolding w_bundle_def by (rule w_iso_ok) (intro wire_oks m, simp)
  show "wire_ok w_envelope" unfolding w_envelope_def by (rule w_iso_ok) (intro wire_oks, simp)
qed

text \<open>One state is the content of every state file.\<close>

definition sample_durable :: "daemon_state \<Rightarrow> durable_env" where
  "sample_durable s = sample_keystore (artifact_env_ext (\<lambda>_. []) (\<lambda>_. []) (\<lambda>_. []) (\<lambda>_. [])
     (durable_env_ext
        (\<lambda>bs. if bs = [2] then Ok (JObject [(''schema_version'', json_u64 DAEMON_STATE_SCHEMA_VERSION)])
              else Err ''expected value'')
        (\<lambda>_. [2]) (\<lambda>_. [2]) (\<lambda>_. Ok (s\<lparr>ds_active_sessions := []\<rparr>))
        (w_to_vec w_bundle) (w_from_slice w_bundle) (w_to_vec w_envelope) (w_from_slice w_envelope)
        (\<lambda>_. Err ''expected value'') id ()))"

lemma sample_durable_sel:
  "value_from_slice (sample_durable s) =
     (\<lambda>bs. if bs = [2] then Ok (JObject [(''schema_version'', json_u64 DAEMON_STATE_SCHEMA_VERSION)])
           else Err ''expected value'')"
  "state_to_vec_pretty (sample_durable s) = (\<lambda>_. [2])"
  "state_from_value (sample_durable s) = (\<lambda>_. Ok (s\<lparr>ds_active_sessions := []\<rparr>))"
  "bundle_to_vec_pretty (sample_durable s) = w_to_vec w_bundle"
  "bundle_from_slice (sample_durable s) = w_from_slice w_bundle"
  "envelope_to_vec_pretty (sample_durable s) = w_to_vec w_envelope"
  "envelope_from_slice (sample_durable s) = w_from_slice w_envelope"
  by (simp_all add: sample_durable_def sample_keystore_def sample_primitives_def)

lemma sample_durable_codecs: "backup_codecs_ok (sample_durable s)"
proof -
  have "keystore_ok (sample_durable s)" unfolding sample_durable_def by (rule sample_keystore_ok)
  then show ?thesis by (simp add: keystore_ok_def backup_codecs_ok_def sample_durable_sel w_backup_ok)
qed

lemma sample_durable_serde: "ds_schema_version s = 2 \<Longrightarrow> serde_state (sample_durable s) s"
  by (simp add: serde_state_def sample_durable_sel DAEMON_STATE_SCHEMA_VERSION_def bt_get_def bt_keys_def
      allowed_fields_def)

definition sample_files :: filesystem where
  "sample_files = \<lparr>fs_files = [''id'' \<mapsto> [7], ''state'' \<mapsto> [2]], fs_fault = (\<lambda>_. None)\<rparr>"

lemma healthy_disk:
  assumes "fs_fault fs = (\<lambda>_. None)"
  shows "fs_create_parent fs p = Ok ()"
    and "write_with_parent fs p c = (Ok (), fs\<lparr>fs_files := (fs_files fs)(p \<mapsto> c)\<rparr>)"
  using assms by (simp_all add: fs_create_parent_def write_with_parent_def fs_write_def split: option.splits)

lemma sample_files_healthy: "fs_fault sample_files = (\<lambda>_. None)"
  by (simp add: sample_files_def)

theorem save_load_roundtrip_witness:
  "\<exists>s fs'. DaemonState_save (sample_durable (saved_form s)) s ''state'' sample_files = (Ok (), fs') \<and>
           DaemonState_load (sample_durable (saved_form s)) fs' ''state'' = Ok (saved_form s)"
proof -
  fix s
  let ?E = "sample_durable (saved_form s)"
  have ok: "serde_state ?E (saved_form s)"
    by (rule sample_durable_serde) (simp add: saved_form_def DAEMON_STATE_SCHEMA_VERSION_def)
  obtain fs' where w: "DaemonState_save ?E s ''state'' sample_files = (Ok (), fs')"
    by (simp add: DaemonState_save_def healthy_disk sample_files_healthy)
  from save_load_roundtrip [OF ok w] w show ?thesis by auto
qed

text \<open>A file of the old version, with serializers that read back every JSON value.\<close>

definition json_durable :: "daemon_state \<Rightarrow> durable_env" where
  "json_durable s = (sample_durable s)\<lparr>value_from_slice := w_from_slice w_json, value_to_vec_pretty := w_to_vec w_json\<rparr>"

definition old_state :: json where
  "old_state = JObject [(''network'', JString ''/quip/x''), (''schema_version'', json_u64 1)]"

theorem migrate_file_spec_witness:
  "\<exists>s rep fs'. migrate_durable_state_file (json_durable s) ''state''
       (sample_files\<lparr>fs_files := [''state'' \<mapsto> w_to_vec w_json old_state]\<rparr>) = (Ok rep, fs') \<and>
     dg_from_schema_version rep = 1 \<and>
     migrate_durable_state_file (json_durable s) ''state'' fs' =
       (Ok (rep\<lparr>dg_from_schema_version := DAEMON_STATE_SCHEMA_VERSION, dg_migrated_fields := []\<rparr>), fs')"
proof -
  fix s
  let ?E = "json_durable s" and ?fs = "sample_files\<lparr>fs_files := [''state'' \<mapsto> w_to_vec w_json old_state]\<rparr>"
  have rt: "w_from_slice w_json (w_to_vec w_json v) = Ok v" for v by (rule w_roundtrips(1) [OF w_json_ok])
  then have ser: "json_serde ?E" by (simp add: json_serde_def json_durable_def)
  have version: "durable_state_schema_version old_state = Some 1"
    by (simp add: durable_state_schema_version_def old_state_def bt_get_def json_u64_def)
  then obtain v' changed where m: "migrate_durable_state_value_with_report old_state = Ok (v', changed)"
    by (simp add: migrate_durable_state_value_with_report_def DAEMON_STATE_SCHEMA_VERSION_def
        MIN_MIGRATABLE_DAEMON_STATE_SCHEMA_VERSION_def case_prod_beta)
  have "set (bt_keys [(''network'', JString ''/quip/x''), (''schema_version'', json_u64 1)]) \<subseteq> set allowed_fields"
    by (simp add: bt_keys_def allowed_fields_def)
  then have "validate_durable_state_value v' = Ok ()"
    using migrate_Ok [OF m] version
    by (auto simp: validate_Ok old_state_def DAEMON_STATE_SCHEMA_VERSION_def bt_get_insert bt_keys_insert) (simp add: allowed_fields_def)
  moreover have "fs_read ?fs ''state'' = Ok (w_to_vec w_json old_state)"
    using sample_files_healthy by (simp add: fs_read_def)
  moreover have "write_with_parent ?fs ''state'' c = (Ok (), ?fs\<lparr>fs_files := (fs_files ?fs)(''state'' \<mapsto> c)\<rparr>)" for c
    by (rule healthy_disk(2)) (simp add: sample_files_healthy)
  ultimately obtain rep fs' where run: "migrate_durable_state_file ?E ''state'' ?fs = (Ok rep, fs')" "dg_from_schema_version rep = 1"
    using m version rt by (simp add: migrate_durable_state_file_def json_durable_def)
  from migrate_file_spec [OF ser run(1)] run show ?thesis by auto
qed

theorem inspect_agrees_with_load_witness:
  "\<exists>s rep rep'. inspect_durable_state_file (sample_durable s) sample_files ''id'' = Ok rep \<and> \<not> di_valid rep \<and>
     inspect_durable_state_file (sample_durable s) sample_files ''state'' = Ok rep' \<and> di_valid rep' \<and> di_violations rep' = []"
proof -
  fix s
  have ex: "fs_exists sample_files ''id''" "fs_exists sample_files ''state''" by (simp_all add: fs_exists_def sample_files_def)
  have "validate_durable_state_value (JObject [(''schema_version'', json_u64 DAEMON_STATE_SCHEMA_VERSION)]) = Ok ()"
    by (simp add: validate_Ok bt_get_def bt_keys_def allowed_fields_def)
  then have "is_ok (DaemonState_load (sample_durable s) sample_files ''state'')"
    "\<not> is_ok (DaemonState_load (sample_durable s) sample_files ''id'')"
    by (simp_all add: DaemonState_load_def fs_read_def sample_files_def sample_durable_sel)
  with inspect_agrees_with_load [OF ex(1), of "sample_durable s"] inspect_agrees_with_load [OF ex(2), of "sample_durable s"]
  show ?thesis by blast
qed

definition sample_export :: durable_backup_export_request where
  "sample_export = \<lparr>bx_output_path = ''b'', bx_passphrase = ''pw'', bx_hostname = ''h'', bx_environment = ''e'',
     bx_identity_path = ''id'', bx_state_path = ''state'', bx_network = ''n'', bx_authority_origin = None,
     bx_authority_subject = None, bx_authority_snapshot = None, bx_overwrite = False\<rparr>"

definition sample_restore :: durable_backup_restore_request where
  "sample_restore = \<lparr>bq_input_path = ''b'', bq_passphrase = ''pw'', bq_identity_path = ''x'', bq_state_path = ''y'',
     bq_overwrite = True\<rparr>"

lemma sample_export_Ok:
  "\<exists>rep fs1. export_backup_bundle (sample_durable s) 1 [] [] sample_export sample_files = (Ok rep, fs1) \<and>
     er_durable_state_valid rep \<and> fs_fault fs1 = (\<lambda>_. None)"
proof -
  let ?E = "sample_durable s"
  have scrypt: "scrypt_recommended ?E p q = Some (pad_to 32 (p @ q))" "chacha_encrypt ?E k n t = Some (k @ t)" for p q k n t
    by (simp_all add: sample_durable_def sample_keystore_sel)
  have v: "validate_durable_state_value (JObject [(''schema_version'', json_u64 DAEMON_STATE_SCHEMA_VERSION)]) = Ok ()"
    by (simp add: validate_Ok bt_get_def bt_keys_def allowed_fields_def)
  have "\<exists>x. encrypt_backup_bundle ?E [] [] b ''pw'' = Ok x" for b
    by (simp add: encrypt_backup_bundle_def derive_backup_key_def Let_def scrypt)
  then show ?thesis
    unfolding export_backup_bundle_def healthy_disk(2) [OF sample_files_healthy]
    by (simp add: sample_export_def fs_exists_def fs_read_def sample_files_def inspect_durable_state_file_def
        sample_durable_sel v Let_def split: result.split) (metis result.distinct(1))
qed

theorem backup_restores_witness:
  "\<exists>s rep fs1 r fs2. export_backup_bundle (sample_durable s) 1 [] [] sample_export sample_files = (Ok rep, fs1) \<and>
     restore_backup_bundle (sample_durable s) sample_restore fs1 = (Ok r, fs2) \<and> fs_read fs2 ''x'' = Ok [7]"
proof -
  fix s
  obtain rep fs1 where x: "export_backup_bundle (sample_durable s) 1 [] [] sample_export sample_files = (Ok rep, fs1)"
    "er_durable_state_valid rep" "fs_fault fs1 = (\<lambda>_. None)" using sample_export_Ok by blast
  have "\<exists>r fs2. restore_backup_bundle (sample_durable s) sample_restore fs1 = (Ok r, fs2) \<and>
      fs_read fs2 (bq_identity_path sample_restore) = fs_read sample_files (bx_identity_path sample_export) \<and>
      fs_read fs2 (bq_state_path sample_restore) = fs_read sample_files (bx_state_path sample_export)"
    by (rule backup_restores [OF sample_durable_codecs x(1,2)])
       (simp_all add: healthy_disk(1) [OF x(3)] x(3) sample_restore_def sample_export_def)
  moreover have "fs_read sample_files (bx_identity_path sample_export) = Ok [7]"
    by (simp add: fs_read_def sample_files_def sample_export_def)
  ultimately show ?thesis using x(1) by (auto simp: sample_restore_def) blast
qed

text \<open>A disk that is full when the state file is written.\<close>

theorem failed_restore_contained_witness:
  "\<exists>s fs e fs'. restore_backup_bundle (sample_durable s) sample_restore fs = (Err e, fs') \<and>
     fs_read fs' (bq_identity_path sample_restore) = Ok [7] \<and> fs_read fs' (bq_state_path sample_restore) = Ok [] \<and>
     (fs' = fs \<or> bundle_files (sample_durable s) sample_restore fs \<noteq> None)"
proof -
  fix s
  let ?E = "sample_durable s" and ?q = sample_restore
  obtain rep fs1 where x: "export_backup_bundle ?E 1 [] [] sample_export sample_files = (Ok rep, fs1)"
    "er_durable_state_valid rep" "fs_fault fs1 = (\<lambda>_. None)" using sample_export_Ok by blast
  let ?fs = "fs1\<lparr>fs_fault := (\<lambda>_. None)(bq_state_path ?q \<mapsto> Room 0 ''full'')\<rparr>"
  have "\<exists>idb stb. bundle_files ?E ?q fs1 = Some (idb, stb) \<and>
      fs_read sample_files (bx_identity_path sample_export) = Ok idb \<and> fs_read sample_files (bx_state_path sample_export) = Ok stb"
    by (rule exported_bundle [OF sample_durable_codecs x(1,2)]) (simp_all add: sample_restore_def sample_export_def)
  moreover have "fs_read ?fs p = fs_read fs1 p" for p
    using x(3) by (simp add: fs_read_def fs_refusal_def split: option.split)
  ultimately have b: "bundle_files ?E ?q ?fs = Some ([7], [2])"
    by (simp add: bundle_files_def sample_export_def sample_files_def fs_read_def [of "\<lparr>fs_files = _, fs_fault = _\<rparr>"])
  have p: "bq_identity_path ?q \<noteq> bq_state_path ?q" "bq_overwrite ?q" by (simp_all add: sample_restore_def)
  have parents: "fs_create_parent ?fs (bq_identity_path ?q) = Ok ()" "fs_create_parent ?fs (bq_state_path ?q) = Ok ()"
    by (simp_all add: fs_create_parent_def fs_refusal_def split: option.split)
  let ?fsa = "?fs\<lparr>fs_files := (fs_files ?fs)(bq_identity_path ?q \<mapsto> [7])\<rparr>"
  let ?fsb = "?fsa\<lparr>fs_files := (fs_files ?fsa)(bq_state_path ?q \<mapsto> [])\<rparr>"
  have w: "fs_write ?fs (bq_identity_path ?q) [7] = (Ok (), ?fsa)" "fs_write ?fsa (bq_state_path ?q) [2] = (Err ''full'', ?fsb)"
    using p(1) by (simp_all add: fs_write_def)
  then have run: "restore_backup_bundle ?E ?q ?fs = (Err (DS_Io ''full''), ?fsb)"
    using restore_two_writes [OF b p(2) parents] by simp
  have "fs_read ?fsb (bq_identity_path ?q) = Ok [7]" "fs_read ?fsb (bq_state_path ?q) = Ok []"
    using p(1) by (simp_all add: fs_read_def fs_refusal_def)
  moreover from failed_restore_contained [OF run] have "?fsb = ?fs \<or> bundle_files ?E ?q ?fs \<noteq> None" by auto
  ultimately show ?thesis using run by blast
qed

end
