(* ===== verification/Quip_Calendar.thy ===== *)
theory Quip_Calendar
  imports Quip_Prelude
begin

text \<open>
  The module \<open>chrono_like\<close> of the crate \<open>quic\<close> and the timestamp format built on it. The \<open>i64\<close>
  arithmetic is on integers: from a \<open>u64\<close> number of seconds every intermediate value stays far
  inside the range of \<open>i64\<close>. Division truncates, as in Rust.
\<close>

definition tdiv :: "int \<Rightarrow> int \<Rightarrow> int" where
  "tdiv a b = (if 0 \<le> a then a div b else - ((- a) div b))"

text \<open>\<open>as i64\<close> of a \<open>u64\<close> and \<open>as i32\<close> of an \<open>i64\<close> wrap.\<close>

definition u64_as_i64 :: "u64 \<Rightarrow> int" where
  "u64_as_i64 w = sint w"

definition i64_as_i32 :: "int \<Rightarrow> int" where
  "i64_as_i32 n = (n + 2 ^ 31) mod 2 ^ 32 - 2 ^ 31"

record date_time =
  dt_year :: int
  dt_month :: int
  dt_day :: int
  dt_hour :: int
  dt_minute :: int
  dt_second :: int

definition civil_from_days :: "int \<Rightarrow> int \<times> int \<times> int" where
  "civil_from_days days =
     (let z = days + 719468;
          era = tdiv (if 0 \<le> z then z else z - 146096) 146097;
          doe = z - era * 146097;
          yoe = tdiv (doe - tdiv doe 1460 + tdiv doe 36524 - tdiv doe 146096) 365;
          y = yoe + era * 400;
          doy = doe - (365 * yoe + tdiv yoe 4 - tdiv yoe 100);
          mp = tdiv (5 * doy + 2) 153;
          d = doy - tdiv (153 * mp + 2) 5 + 1;
          m = mp + (if mp < 10 then 3 else - 9);
          year = y + (if m \<le> 2 then 1 else 0)
      in (i64_as_i32 year, m, d))"

definition DateTime_from_unix :: "int \<Rightarrow> date_time" where
  "DateTime_from_unix epoch_secs =
     (let days = epoch_secs div 86400;
          seconds = epoch_secs mod 86400;
          (year, month, day) = civil_from_days days
      in \<lparr>dt_year = year, dt_month = month, dt_day = day, dt_hour = seconds div 3600,
          dt_minute = (seconds mod 3600) div 60, dt_second = seconds mod 60\<rparr>)"

text \<open>\<open>{:0w}\<close> of an integer: the sign counts for the width.\<close>

definition pad_int :: "nat \<Rightarrow> int \<Rightarrow> string" where
  "pad_int w n =
     (let digits = show_nat (nat \<bar>n\<bar>);
          sign = (if n < 0 then ''-'' else [])
      in sign @ replicate (w - (length sign + length digits)) (CHR ''0'') @ digits)"

definition iso8601_seconds :: "u64 \<Rightarrow> string" where
  "iso8601_seconds epoch_secs =
     (let dt = DateTime_from_unix (u64_as_i64 epoch_secs)
      in pad_int 4 (dt_year dt) @ ''-'' @ pad_int 2 (dt_month dt) @ ''-'' @ pad_int 2 (dt_day dt) @
         ''T'' @ pad_int 2 (dt_hour dt) @ '':'' @ pad_int 2 (dt_minute dt) @ '':'' @ pad_int 2 (dt_second dt))"

section \<open>Laws\<close>

lemma epoch_date: "civil_from_days 0 = (1970, 1, 1)"
  by code_simp

lemma leap_day: "civil_from_days 11016 = (2000, 2, 29)"
  by code_simp

text \<open>The time of day is exact.\<close>

lemma DateTime_time_fields:
  "dt_hour (DateTime_from_unix s) = (s mod 86400) div 3600"
  "dt_minute (DateTime_from_unix s) = ((s mod 86400) mod 3600) div 60"
  "dt_second (DateTime_from_unix s) = (s mod 86400) mod 60"
  by (simp_all add: DateTime_from_unix_def Let_def split: prod.split del: mod_mod_cancel)

lemma time_split: "3600 * (t div 3600) + 60 * ((t mod 3600) div 60) + t mod 60 = (t::int)"
proof -
  have "t mod 60 = (t mod 3600) mod 60" by (simp add: mod_mod_cancel)
  then have "60 * ((t mod 3600) div 60) + t mod 60 = t mod 3600" by (simp only: mult_div_mod_eq)
  then show ?thesis using mult_div_mod_eq [of 3600 t] by linarith
qed

lemma time_of_day:
  "3600 * dt_hour (DateTime_from_unix s) + 60 * dt_minute (DateTime_from_unix s) + dt_second (DateTime_from_unix s)
     = s mod 86400"
  unfolding DateTime_time_fields by (rule time_split)

lemma hour_range: "0 \<le> dt_hour (DateTime_from_unix s) \<and> dt_hour (DateTime_from_unix s) < 24"
proof -
  have "(s mod 86400) div 3600 \<le> 86399 div 3600" by (rule zdiv_mono1) (simp_all flip: zless_add1_eq)
  then show ?thesis unfolding DateTime_time_fields by simp
qed

section \<open>The calendar\<close>

definition leap_year :: "int \<Rightarrow> bool" where
  "leap_year y = ((4 dvd y \<and> \<not> 100 dvd y) \<or> 400 dvd y)"

definition month_length :: "int \<Rightarrow> int \<Rightarrow> int" where
  "month_length y m =
     (if m = 2 then (if leap_year y then 29 else 28) else if m \<in> {4, 6, 9, 11} then 30 else 31)"

definition next_date :: "int \<times> int \<times> int \<Rightarrow> int \<times> int \<times> int" where
  "next_date date = (case date of (y, m, d) \<Rightarrow>
     if d < month_length y m then (y, m, d + 1) else if m < 12 then (y, m + 1, 1) else (y + 1, 1, 1))"

text \<open>A day of an era of 400 years that starts on a first of March: centuries, groups of four years,
  years and days.\<close>

definition era_day :: "int \<Rightarrow> int \<Rightarrow> int \<Rightarrow> int \<Rightarrow> int" where
  "era_day c q r n = 36524 * c + 1461 * q + 365 * r + n"

definition era_parts :: "int \<Rightarrow> int \<Rightarrow> int \<Rightarrow> int \<Rightarrow> bool" where
  "era_parts c q r n \<longleftrightarrow> 0 \<le> c \<and> c \<le> 3 \<and> 0 \<le> q \<and> q \<le> 24 \<and> 0 \<le> r \<and> r \<le> 3 \<and> 0 \<le> n \<and> n \<le> 365 \<and>
     (n = 365 \<longrightarrow> r = 3 \<and> (q = 24 \<longrightarrow> c = 3))"

lemma int_split_div: "0 < k \<Longrightarrow> \<exists>s. (n::int) = k * (n div k) + s \<and> 0 \<le> s \<and> s < k"
  by (rule exI [of _ "n mod k"]) simp

lemma era_parts_exist:
  assumes "0 \<le> doe" and "doe < 146097"
  shows "\<exists>c q r n. era_parts c q r n \<and> doe = era_day c q r n"
proof -
  obtain c s where c: "doe = 36524 * c + s" "0 \<le> c" "c \<le> 3" "0 \<le> s" "s \<le> 36523 \<or> c = 3 \<and> s = 36524"
  proof (cases "doe = 146096")
    case True then show ?thesis using that [of 3 36524] by simp
  next
    case False
    obtain s where "doe = 36524 * (doe div 36524) + s" "0 \<le> s" "s < 36524" using int_split_div [of 36524 doe] by auto
    with False assms that [of "doe div 36524" s] show ?thesis by linarith
  qed
  obtain t where t: "s = 1461 * (s div 1461) + t" "0 \<le> t" "t < 1461" using int_split_div [of 1461 s] by auto
  obtain r n where r: "t = 365 * r + n" "0 \<le> r" "r \<le> 3" "0 \<le> n" "n \<le> 364 \<or> r = 3 \<and> n = 365"
  proof (cases "t = 1460")
    case True then show ?thesis using that [of 3 365] by simp
  next
    case False
    obtain n where "t = 365 * (t div 365) + n" "0 \<le> n" "n < 365" using int_split_div [of 365 t] by auto
    with False t that [of "t div 365" n] show ?thesis by linarith
  qed
  have "0 \<le> s div 1461" "s div 1461 \<le> 24" using c t by linarith+
  moreover have "n = 365 \<Longrightarrow> r = 3" using r by linarith
  moreover have "c = 3" if "n = 365" "s div 1461 = 24"
  proof -
    have "s = 36524" using t(1) r(1,5) that by linarith
    then show ?thesis using c(5) by simp
  qed
  moreover have "n \<le> 365" using r by linarith
  ultimately have "era_parts c (s div 1461) r n" unfolding era_parts_def using c(2,3) r(2,3,4) by blast
  moreover have "doe = era_day c (s div 1461) r n" unfolding era_day_def using c t r by linarith
  ultimately show ?thesis by blast
qed

lemma tdiv_nonneg: "0 \<le> a \<Longrightarrow> tdiv a b = a div b"
  by (simp add: tdiv_def)

lemma div_unique_range: "k * q \<le> a \<Longrightarrow> a < k * q + k \<Longrightarrow> 0 < k \<Longrightarrow> a div k = (q::int)"
  by (rule int_div_pos_eq [of _ _ _ "a - k * q"]) (simp_all add: algebra_simps)

lemma year_of_era:
  assumes "era_parts c q r n" and "doe = era_day c q r n"
  shows "(doe - doe div 1460 + doe div 36524 - doe div 146096) div 365 = 100 * c + 4 * q + r"
proof -
  note b = assms(1)[unfolded era_parts_def] and d = assms(2)[unfolded era_day_def]
  have cent: "doe div 36524 - doe div 146096 = c"
  proof (cases "doe = 146096")
    case True with b d show ?thesis by simp
  next
    case False
    have "doe div 146096 = 0" using b d False by (intro div_pos_pos_trivial) auto
    moreover have "doe div 36524 = c" using b d False by (intro div_unique_range) auto
    ultimately show ?thesis by simp
  qed
  let ?e = "if 24 * c + q + 365 * r + n \<ge> 1460 then 1 else 0 :: int"
  have "doe div 1460 = 25 * c + q + ?e" using b d by (intro div_unique_range) auto
  then have "doe - doe div 1460 + doe div 36524 - doe div 146096 = 365 * (100 * c + 4 * q + r) + (n - ?e)"
    using cent d by (simp add: algebra_simps)
  moreover have "0 \<le> n - ?e" "n - ?e < 365" using b by auto
  ultimately show ?thesis by (intro div_unique_range) auto
qed

definition month_day :: "int \<Rightarrow> int \<times> int" where
  "month_day n = (let mp = (5 * n + 2) div 153
     in (mp + (if mp < 10 then 3 else - 9), n - (153 * mp + 2) div 5 + 1))"

definition march_date :: "int \<Rightarrow> int \<Rightarrow> int \<times> int \<times> int" where
  "march_date y n = (y + (if fst (month_day n) \<le> 2 then 1 else 0), month_day n)"

lemma month_day_in:
  assumes "153 * k \<le> 5 * n + 2" and "5 * n + 2 < 153 * k + 153"
  shows "month_day n = (k + (if k < 10 then 3 else - 9), n - (153 * k + 2) div 5 + 1)"
proof -
  have "(5 * n + 2) div 153 = k" using assms by (intro div_unique_range) auto
  then show ?thesis by (simp add: month_day_def)
qed

lemma month_day_table:
  assumes "0 \<le> n" and "n \<le> 365"
  shows "month_day n =
    (if n \<le> 30 then (3, n + 1) else if n \<le> 60 then (4, n - 30) else if n \<le> 91 then (5, n - 60)
     else if n \<le> 121 then (6, n - 91) else if n \<le> 152 then (7, n - 121) else if n \<le> 183 then (8, n - 152)
     else if n \<le> 213 then (9, n - 183) else if n \<le> 244 then (10, n - 213) else if n \<le> 274 then (11, n - 244)
     else if n \<le> 305 then (12, n - 274) else if n \<le> 336 then (1, n - 305) else (2, n - 336))"
proof -
  consider "n \<le> 30" | "30 < n" "n \<le> 60" | "60 < n" "n \<le> 91" | "91 < n" "n \<le> 121" | "121 < n" "n \<le> 152"
    | "152 < n" "n \<le> 183" | "183 < n" "n \<le> 213" | "213 < n" "n \<le> 244" | "244 < n" "n \<le> 274"
    | "274 < n" "n \<le> 305" | "305 < n" "n \<le> 336" | "336 < n" by linarith
  then show ?thesis
    by cases (use assms in \<open>simp_all add: month_day_in [of 0] month_day_in [of 1] month_day_in [of 2] month_day_in [of 3]
      month_day_in [of 4] month_day_in [of 5] month_day_in [of 6] month_day_in [of 7] month_day_in [of 8]
      month_day_in [of 9] month_day_in [of 10] month_day_in [of 11]\<close>)
qed

lemma february: "337 \<le> n \<Longrightarrow> n \<le> 365 \<Longrightarrow> month_day n = (2, n - 336)"
  by (simp add: month_day_table)

lemma month_day_step:
  assumes "0 \<le> n" and "n < 337"
  shows "next_date (march_date y n) = march_date y (n + 1)"
proof -
  have "month_day n = (m, d) \<Longrightarrow> m \<noteq> 2 \<and> 1 \<le> m \<and> month_day (n + 1) =
      (if d < (if m \<in> {4, 6, 9, 11} then 30 else 31) then (m, d + 1) else if m < 12 then (m + 1, 1) else (1, 1))" for m d
    using assms by (auto simp: month_day_table split: if_splits)
  then show ?thesis
    by (cases "month_day n") (auto simp: march_date_def next_date_def month_length_def)
qed

text \<open>The last day of a year that starts in March is the 28th of February, or the 29th.\<close>

lemma march_date_step:
  assumes "0 \<le> n" and "n < 364 + (if leap_year (y + 1) then 1 else 0)"
  shows "next_date (march_date y n) = march_date y (n + 1)"
proof (cases "n < 337")
  case False
  with assms have "337 \<le> n" "n + 1 \<le> 365" by (auto split: if_splits)
  with assms(2) february [of n] february [of "n + 1"] show ?thesis
    by (auto simp: march_date_def next_date_def month_length_def)
qed (simp add: month_day_step assms(1))

lemma march_date_wrap:
  "next_date (march_date y (364 + (if leap_year (y + 1) then 1 else 0))) = march_date (y + 1) 0"
proof -
  have "month_day 0 = (3, 1)" by code_simp
  then show ?thesis using february [of 364] february [of 365]
    by (simp add: march_date_def next_date_def month_length_def)
qed

lemma leap_year_parts:
  assumes "0 \<le> c" "c \<le> 3" "0 \<le> q" "q \<le> 24" "0 \<le> r" "r \<le> 3"
  shows "leap_year (100 * c + 4 * q + r + 400 * era + 1) \<longleftrightarrow> r = 3 \<and> (q = 24 \<longrightarrow> c = 3)"
proof -
  let ?y = "100 * c + 4 * q + r + 400 * era + 1"
  have four: "4 dvd ?y \<longleftrightarrow> r = 3"
  proof -
    have "?y = 4 * (25 * c + q + 100 * era) + (r + 1)" by simp
    then have "4 dvd ?y \<longleftrightarrow> 4 dvd (r + 1)" by (metis dvd_add_right_iff dvd_triv_left)
    then show ?thesis using assms(5,6) by presburger
  qed
  have hundred: "100 dvd ?y \<longleftrightarrow> r = 3 \<and> q = 24"
  proof -
    have "?y = 100 * (c + 4 * era) + (4 * q + r + 1)" by simp
    then have "100 dvd ?y \<longleftrightarrow> 100 dvd (4 * q + r + 1)" by (metis dvd_add_right_iff dvd_triv_left)
    also have "\<dots> \<longleftrightarrow> 4 * q + r + 1 = 100" using assms zdvd_imp_le [of 100 "4 * q + r + 1"] by auto
    also have "\<dots> \<longleftrightarrow> r = 3 \<and> q = 24" using assms by linarith
    finally show ?thesis .
  qed
  have "400 dvd ?y \<longleftrightarrow> c = 3" if "r = 3" "q = 24"
  proof -
    have "?y = 400 * era + (100 * c + 100)" using that by simp
    then have "400 dvd ?y \<longleftrightarrow> 400 dvd (100 * c + 100)" by (metis dvd_add_right_iff dvd_triv_left)
    also have "\<dots> \<longleftrightarrow> c = 3" using assms zdvd_imp_le [of 400 "100 * c + 100"] by auto
    finally show ?thesis .
  qed
  moreover have "400 dvd ?y \<Longrightarrow> 100 dvd ?y" by (rule dvd_trans [of 100 400]) simp_all
  ultimately show ?thesis unfolding leap_year_def using four hundred by blast
qed

lemma era_floor: "tdiv (if 0 \<le> z then z else z - 146096) 146097 = z div 146097"
proof (cases "0 \<le> z")
  case False
  obtain s where s: "z = 146097 * (z div 146097) + s" "0 \<le> s" "s < 146097" using int_split_div [of 146097 z] by auto
  have "(146096 - z) div 146097 = - (z div 146097)"
    by (rule div_unique_range) (use s in linarith)+
  then show ?thesis using False by (simp add: tdiv_def)
qed (simp add: tdiv_def)

lemma month_day_tdiv:
  assumes "0 \<le> n"
  shows "(let mp = tdiv (5 * n + 2) 153
          in (mp + (if mp < 10 then 3 else - 9), n - tdiv (153 * mp + 2) 5 + 1)) = month_day n"
proof -
  have "tdiv (5 * n + 2) 153 = (5 * n + 2) div 153" using assms by (simp add: tdiv_nonneg)
  moreover have "0 \<le> 153 * ((5 * n + 2) div 153) + 2" using assms by (simp add: pos_imp_zdiv_nonneg_iff)
  ultimately show ?thesis by (simp add: month_day_def tdiv_nonneg Let_def)
qed

lemma year_days:
  assumes "era_parts c q r n"
  shows "365 * (100 * c + 4 * q + r) + (100 * c + 4 * q + r) div 4 - (100 * c + 4 * q + r) div 100 = era_day c q r 0"
proof -
  note b = assms [unfolded era_parts_def]
  have "(100 * c + 4 * q + r) div 4 = 25 * c + q" using b by (intro div_unique_range) auto
  moreover have "(100 * c + 4 * q + r) div 100 = c" using b by (intro div_unique_range) auto
  ultimately show ?thesis by (simp add: era_day_def)
qed

lemma era_day_range: "era_parts c q r n \<Longrightarrow> 0 \<le> era_day c q r n \<and> era_day c q r n < 146097"
  unfolding era_parts_def era_day_def by (cases "c = 3"; cases "q = 24"; cases "n = 365") auto

definition era_date :: "int \<Rightarrow> int \<Rightarrow> int \<Rightarrow> int \<Rightarrow> int \<Rightarrow> int \<times> int \<times> int" where
  "era_date e c q r n = march_date (100 * c + 4 * q + r + 400 * e) n"

lemma civil_parts:
  assumes p: "era_parts c q r n" and d: "days + 719468 = 146097 * e + era_day c q r n"
  shows "civil_from_days days = (i64_as_i32 (fst (era_date e c q r n)), snd (era_date e c q r n))"
proof -
  let ?z = "days + 719468" and ?doe = "era_day c q r n" and ?yoe = "100 * c + 4 * q + r"
  have rg: "0 \<le> ?doe" "?doe < 146097" using era_day_range [OF p] by auto
  have e: "?z div 146097 = e" by (rule div_unique_range) (use d rg in linarith)+
  have doe: "?z - e * 146097 = ?doe" using d by simp
  have pos: "0 \<le> ?doe - ?doe div 1460 + ?doe div 36524 - ?doe div 146096"
  proof -
    have "0 \<le> ?doe div 36524" "?doe div 1460 \<le> ?doe - ?doe div 146096"
      using rg by (simp add: pos_imp_zdiv_nonneg_iff, linarith)
    then show ?thesis by linarith
  qed
  have yoe: "tdiv (?doe - tdiv ?doe 1460 + tdiv ?doe 36524 - tdiv ?doe 146096) 365 = ?yoe"
    using year_of_era [OF p refl] pos by (simp add: tdiv_nonneg rg(1))
  have y0: "0 \<le> ?yoe" and n0: "0 \<le> n" using p by (auto simp: era_parts_def)
  have doy: "?doe - (365 * ?yoe + tdiv ?yoe 4 - tdiv ?yoe 100) = n"
    unfolding tdiv_nonneg [OF y0] year_days [OF p] by (simp add: era_day_def)
  show ?thesis
    unfolding civil_from_days_def era_floor e doe yoe doy Let_def
    by (simp add: era_date_def march_date_def month_day_tdiv [OF n0, symmetric] Let_def mult.commute [of e 400])
qed

text \<open>The day after a day of an era.\<close>

lemma era_succ:
  assumes p: "era_parts c q r n"
  shows "\<exists>e' c' q' r' n'. era_parts c' q' r' n' \<and> 146097 * e + era_day c q r n + 1 = 146097 * e' + era_day c' q' r' n' \<and>
           era_date e' c' q' r' n' = next_date (era_date e c q r n) \<and> e' \<le> e + 1"
proof -
  let ?y = "100 * c + 4 * q + r + 400 * e"
  note b = p [unfolded era_parts_def]
  have leap: "leap_year (?y + 1) \<longleftrightarrow> r = 3 \<and> (q = 24 \<longrightarrow> c = 3)" using leap_year_parts [of c q r e] b by simp
  show ?thesis
  proof (cases "n < 364 + (if leap_year (?y + 1) then 1 else 0)")
    case True
    have "era_parts c q r (n + 1)" using b True leap by (auto simp: era_parts_def split: if_splits)
    moreover have "era_date e c q r (n + 1) = next_date (era_date e c q r n)"
      unfolding era_date_def using march_date_step [OF _ True] b by simp
    ultimately show ?thesis
      by (intro exI [of _ e] exI [of _ c] exI [of _ q] exI [of _ r] exI [of _ "n + 1"]) (simp add: era_day_def)
  next
    case False
    then have n: "n = 364 + (if leap_year (?y + 1) then 1 else 0)" using b leap by (auto split: if_splits)
    obtain e' c' q' r' where
      s: "0 \<le> c'" "c' \<le> 3" "0 \<le> q'" "q' \<le> 24" "0 \<le> r'" "r' \<le> 3" "e' \<le> e + 1"
         "100 * c' + 4 * q' + r' + 400 * e' = ?y + 1"
         "146097 * e + era_day c q r n + 1 = 146097 * e' + era_day c' q' r' 0"
    proof -
      consider "r < 3" | "r = 3" "q < 24" | "r = 3" "q = 24" "c < 3" | "r = 3" "q = 24" "c = 3" using b by linarith
      then show ?thesis
      proof cases
        case 1
        then have "n = 364" using n leap by simp
        show ?thesis by (rule that [of c q "r + 1" e]) (use 1 b \<open>n = 364\<close> in \<open>simp_all add: era_day_def\<close>)
      next
        case 2
        then have "n = 365" using n leap by simp
        show ?thesis by (rule that [of c "q + 1" 0 e]) (use 2 b \<open>n = 365\<close> in \<open>simp_all add: era_day_def\<close>)
      next
        case 3
        then have "n = 364" using n leap by simp
        show ?thesis by (rule that [of "c + 1" 0 0 e]) (use 3 b \<open>n = 364\<close> in \<open>simp_all add: era_day_def\<close>)
      next
        case 4
        then have "n = 365" using n leap by simp
        show ?thesis by (rule that [of 0 0 0 "e + 1"]) (use 4 b \<open>n = 365\<close> in \<open>simp_all add: era_day_def\<close>)
      qed
    qed
    have "era_date e' c' q' r' 0 = next_date (era_date e c q r n)"
      unfolding era_date_def s(8) using march_date_wrap [of ?y] n by simp
    moreover have "era_parts c' q' r' 0" using s by (simp add: era_parts_def)
    ultimately show ?thesis using s(7,9) by blast
  qed
qed

lemma i32_small: "- (2 ^ 31) \<le> y \<Longrightarrow> y < 2 ^ 31 \<Longrightarrow> i64_as_i32 y = y"
  by (simp add: i64_as_i32_def)

lemma civil_exact:
  assumes "era_parts c q r n" and "days + 719468 = 146097 * e + era_day c q r n"
    and "- 5000000 \<le> e" and "e \<le> 5000000"
  shows "civil_from_days days = era_date e c q r n"
proof -
  have "- (2 ^ 31) \<le> fst (era_date e c q r n)" "fst (era_date e c q r n) < 2 ^ 31"
    using assms(1,3,4) by (auto simp: era_date_def march_date_def era_parts_def)
  then show ?thesis using civil_parts [OF assms(1,2)] by (simp add: i32_small)
qed

text \<open>C32: Event dates follow the Gregorian calendar: day 0 is the first of January 1970, and each
  day has the date after the day before it, with the months' lengths and the leap-year rule, for
  some 1.9 billion years around the epoch, inside which the year fits the 32-bit integer it is cast to.\<close>

theorem civil_from_days_gregorian:
  assumes "- 700000000000 \<le> days" and "days \<le> 700000000000"
  shows "civil_from_days 0 = (1970, 1, 1) \<and> civil_from_days (days + 1) = next_date (civil_from_days days)"
proof -
  let ?z = "days + 719468"
  obtain doe where doe: "?z = 146097 * (?z div 146097) + doe" "0 \<le> doe" "doe < 146097"
    using int_split_div [of 146097 ?z] by auto
  from era_parts_exist [OF doe(2,3)] obtain c q r n where p: "era_parts c q r n" "doe = era_day c q r n" by blast
  let ?e = "?z div 146097"
  from era_succ [OF p(1), of ?e] obtain e' c' q' r' n' where
    s: "era_parts c' q' r' n'" "146097 * ?e + era_day c q r n + 1 = 146097 * e' + era_day c' q' r' n'"
       "era_date e' c' q' r' n' = next_date (era_date ?e c q r n)" "e' \<le> ?e + 1" by blast
  have e: "- 4900000 \<le> ?e" "?e \<le> 4900000" using assms doe by linarith+
  have "- 4900001 \<le> e'" using s(2) e era_day_range [OF s(1)] era_day_range [OF p(1)] by linarith
  then have "civil_from_days (days + 1) = era_date e' c' q' r' n'"
    using civil_exact [OF s(1), of "days + 1" e'] s(2,4) e doe(1) p(2) by linarith
  moreover have "civil_from_days days = era_date ?e c q r n"
    using civil_exact [OF p(1), of days ?e] e doe(1) p(2) by linarith
  ultimately show ?thesis using s(3) epoch_date by simp
qed

theorem civil_from_days_gregorian_witness: "civil_from_days (59 + 1) = next_date (civil_from_days 59)"
  using civil_from_days_gregorian [of 59] by simp

end
