(* ===== verification/Quip_Quic.thy ===== *)
theory Quip_Quic
  imports Quip_Transport Quip_Calendar Quip_Relay_Http
begin

text \<open>
  The crate \<open>quic\<close>: the transport adapter that owns the runtime sessions, the ledger of closed
  sessions, listeners, events, reconnect suppressions and reconnect attempts. The registries
  behind locks are fields of one record; the relay control it is configured with is a record of
  operations \<open>ctl\<close> on the state \<open>qa_relay\<close>. Every operation returns its result with the new
  state, also when it fails half-way. Poisoned locks are not modelled.
\<close>

section \<open>State\<close>

record runtime_session_record =
  sx_snapshot :: session_snapshot
  sx_alpn_protocol :: "string option"

record quic_connection_handle =
  qc_session :: session_snapshot
  qc_alpn_protocol :: "string option"

record quic_listener_handle =
  ql_protocol :: string
  ql_advertise :: bool

definition MAX_TERMINAL_SESSIONS :: nat where
  "MAX_TERMINAL_SESSIONS = 32"

record 'r quic_adapter =
  qa_supports_datagrams :: bool
  qa_supports_path_migration :: bool
  qa_runtime_instance_id :: string
  qa_network_id :: "network_id option"
  qa_local_identity :: "identity_keypair option"
  qa_relay :: 'r
  qa_sessions :: "(bytes, runtime_session_record) btree_map"
  qa_terminal :: "runtime_session_record list"
  qa_listeners :: "(string, runtime_listener_snapshot) btree_map"
  qa_events :: "runtime_event list"
  qa_suppressions :: "reconnect_suppression list"
  qa_attempts :: "runtime_reconnect_attempt list"
  qa_clock :: clockwork

definition random_runtime_instance_id :: "bytes \<Rightarrow> string" where
  "random_runtime_instance_id rand = concat (map hex_byte rand)"

definition QuicTransportAdapter_default :: "'r \<Rightarrow> bytes \<Rightarrow> clockwork \<Rightarrow> 'r quic_adapter" where
  "QuicTransportAdapter_default relay rand clock =
     \<lparr>qa_supports_datagrams = True, qa_supports_path_migration = True,
      qa_runtime_instance_id = random_runtime_instance_id rand, qa_network_id = None,
      qa_local_identity = None, qa_relay = relay, qa_sessions = [], qa_terminal = [],
      qa_listeners = [], qa_events = [], qa_suppressions = [], qa_attempts = [], qa_clock = clock\<rparr>"

definition with_identity ::
  "'r \<Rightarrow> bytes \<Rightarrow> clockwork \<Rightarrow> network_id \<Rightarrow> identity_keypair \<Rightarrow> 'r quic_adapter" where
  "with_identity relay rand clock network_id local_identity =
     (QuicTransportAdapter_default relay rand clock)
       \<lparr>qa_network_id := Some network_id, qa_local_identity := Some local_identity\<rparr>"

definition owns_session :: "'r quic_adapter \<Rightarrow> bytes \<Rightarrow> bool" where
  "owns_session a session_id = (bt_get (qa_sessions a) session_id \<noteq> None)"

section \<open>Labels\<close>

definition reconnect_attempt_state_label :: "runtime_reconnect_attempt_state \<Rightarrow> string" where
  "reconnect_attempt_state_label s = (case s of BackingOff \<Rightarrow> ''backing_off'' | Attempt_Failed \<Rightarrow> ''failed'')"

definition runtime_event_type_for_state :: "runtime_session_state \<Rightarrow> string" where
  "runtime_event_type_for_state s = (case s of
     SS_Closing \<Rightarrow> ''session.closing'' | SS_Failed \<Rightarrow> ''session.failed'' | _ \<Rightarrow> ''session.state_changed'')"

definition runtime_session_state_label :: "runtime_session_state \<Rightarrow> string" where
  "runtime_session_state_label s = (case s of
     SS_Pending \<Rightarrow> ''pending'' | SS_Connecting \<Rightarrow> ''connecting'' | SS_Active \<Rightarrow> ''active''
   | SS_Degraded \<Rightarrow> ''degraded'' | SS_Migrating \<Rightarrow> ''migrating'' | SS_Reconciling \<Rightarrow> ''reconciling''
   | SS_Closing \<Rightarrow> ''closing'' | SS_Closed \<Rightarrow> ''closed'' | SS_Failed \<Rightarrow> ''failed'')"

definition session_closure_reason_label :: "session_closure_reason \<Rightarrow> string" where
  "session_closure_reason_label r = (case r of
     OperatorRequested \<Rightarrow> ''operator_requested'' | LocalRuntimeFailure \<Rightarrow> ''local_runtime_failure''
   | RemoteFailure \<Rightarrow> ''remote_failure'' | PolicyRejected \<Rightarrow> ''policy_rejected''
   | PathExhaustion \<Rightarrow> ''path_exhaustion'' | DaemonShutdown \<Rightarrow> ''daemon_shutdown'')"

definition path_class_label :: "path_kind \<Rightarrow> string" where
  "path_class_label k = (case k of Relay \<Rightarrow> ''relay'' | _ \<Rightarrow> ''direct'')"

definition class_label :: "traffic_class \<Rightarrow> string" where
  "class_label c = (case c of
     Control \<Rightarrow> ''control'' | Interactive \<Rightarrow> ''interactive'' | Bulk \<Rightarrow> ''bulk''
   | Background \<Rightarrow> ''background'')"

definition class_string :: "route_plan \<Rightarrow> string" where
  "class_string route = (case rt_class route of
     Control \<Rightarrow> ''control'' | Interactive \<Rightarrow> ''interactive'' | Bulk \<Rightarrow> ''bulk''
   | Background \<Rightarrow> ''background'')"

definition json_str_opt :: "string option \<Rightarrow> json" where
  "json_str_opt = json_opt JString"

definition json_protocol :: "protocol_id option \<Rightarrow> json" where
  "json_protocol = json_opt (\<lambda>p. JString (ProtocolId_as_str p))"

section \<open>Events\<close>

definition now_secs :: "'r quic_adapter \<Rightarrow> u64 \<times> 'r quic_adapter" where
  "now_secs a = (case current_unix_secs (qa_clock a) of (t, c) \<Rightarrow> (t, a\<lparr>qa_clock := c\<rparr>))"

definition now_nanos :: "'r quic_adapter \<Rightarrow> nat \<times> 'r quic_adapter" where
  "now_nanos a = (case current_unix_nanos (qa_clock a) of (t, c) \<Rightarrow> (t, a\<lparr>qa_clock := c\<rparr>))"

definition draw_bytes :: "'r quic_adapter \<Rightarrow> bytes \<times> 'r quic_adapter" where
  "draw_bytes a = (case random_bytes (qa_clock a) of (b, c) \<Rightarrow> (b, a\<lparr>qa_clock := c\<rparr>))"

definition emit_runtime_event ::
  "string \<Rightarrow> runtime_event_subject \<Rightarrow> json \<Rightarrow> 'r quic_adapter \<Rightarrow> 'r quic_adapter" where
  "emit_runtime_event event_type subject details a =
     (let (nanos, a) = now_nanos a;
          (secs, a) = now_secs a;
          event = \<lparr>ev_event_id = ''evt-'' @ show_nat nanos, ev_event_type = event_type,
                   ev_emitted_at = iso8601_seconds secs @ ''Z'', ev_truth_kind = ''runtime'',
                   ev_subject = subject, ev_details = details\<rparr>
      in a\<lparr>qa_events := pop_front_to 256 (qa_events a @ [event])\<rparr>)"

definition peer_subject :: "'x codecs_scheme \<Rightarrow> peer_id \<Rightarrow> runtime_event_subject" where
  "peer_subject X p = \<lparr>ev_kind = ''peer'', ev_id = PeerId_to_text X p\<rparr>"

definition session_subject :: "bytes \<Rightarrow> runtime_event_subject" where
  "session_subject session_id = \<lparr>ev_kind = ''session'', ev_id = hex_session_id session_id\<rparr>"

definition record_runtime_event ::
  "string \<Rightarrow> runtime_event_subject \<Rightarrow> json \<Rightarrow> 'r quic_adapter \<Rightarrow> (unit, transport_error) result \<times> 'r quic_adapter" where
  "record_runtime_event event_type subject details a =
     (Ok (), emit_runtime_event event_type subject details a)"

definition recent_events :: "nat \<Rightarrow> 'r quic_adapter \<Rightarrow> runtime_event list" where
  "recent_events limit a =
     (let count = min (max limit 1) (length (qa_events a))
      in rev (take count (rev (qa_events a))))"

section \<open>Sessions\<close>

definition active_sessions :: "'r quic_adapter \<Rightarrow> session_snapshot list" where
  "active_sessions a = map sx_snapshot (bt_values (qa_sessions a))"

definition adapter_session_snapshot :: "bytes \<Rightarrow> 'r quic_adapter \<Rightarrow> session_snapshot option" where
  "adapter_session_snapshot session_id a = map_option sx_snapshot (bt_get (qa_sessions a) session_id)"

definition terminal_session_snapshot :: "bytes \<Rightarrow> 'r quic_adapter \<Rightarrow> session_snapshot option" where
  "terminal_session_snapshot session_id a =
     map_option sx_snapshot (find (\<lambda>r. ss_session_id (sx_snapshot r) = session_id) (qa_terminal a))"

definition recent_terminal_sessions :: "nat \<Rightarrow> 'r quic_adapter \<Rightarrow> session_snapshot list" where
  "recent_terminal_sessions limit a = map sx_snapshot (take limit (rev (qa_terminal a)))"

definition update_session_state ::
  "'x codecs_scheme \<Rightarrow> bytes \<Rightarrow> runtime_session_state \<Rightarrow> session_closure_reason option \<Rightarrow> string option \<Rightarrow>
   'r quic_adapter \<Rightarrow> session_snapshot option \<times> 'r quic_adapter" where
  "update_session_state X session_id state closure_reason state_reason a =
     (case bt_get (qa_sessions a) session_id of
        None \<Rightarrow> (None, a)
      | Some r \<Rightarrow>
          let prior_state = ss_state (sx_snapshot r);
              (now, a) = now_secs a;
              snapshot = (sx_snapshot r)\<lparr>ss_state := state, ss_closure_reason := closure_reason,
                ss_state_reason := state_reason, ss_last_activity_unix_secs := now\<rparr>;
              a = a\<lparr>qa_sessions := bt_modify session_id (\<lambda>r. r\<lparr>sx_snapshot := snapshot\<rparr>) (qa_sessions a)\<rparr>;
              a = emit_runtime_event (runtime_event_type_for_state state)
                (session_subject (ss_session_id snapshot))
                (json_object
                  [(''peer_id'', JString (PeerId_to_text X (ss_peer snapshot))),
                   (''prior_state'', JString (runtime_session_state_label prior_state)),
                   (''next_state'', JString (runtime_session_state_label (ss_state snapshot))),
                   (''closure_reason'', json_str_opt (map_option session_closure_reason_label closure_reason)),
                   (''reason'', json_str_opt state_reason)]) a
          in (Some snapshot, a))"

definition close_relay_transport_session ::
  "'x codecs_scheme \<Rightarrow> 'r relay_control \<Rightarrow> string option \<Rightarrow> bytes \<Rightarrow> 'r quic_adapter \<Rightarrow>
   (unit, transport_error) result \<times> 'r quic_adapter" where
  "close_relay_transport_session X ctl control_endpoint transport_session_id a =
     (case control_endpoint of
        None \<Rightarrow> (Err (InvalidRoute ''relay session is missing relay control endpoint''), a)
      | Some endpoint \<Rightarrow>
          (case ctl_close ctl endpoint transport_session_id ''path migrated'' (qa_relay a) of
             (r, rs) \<Rightarrow> (map_err (\<lambda>e. RelayRejected (relay_error_text X e)) r, a\<lparr>qa_relay := rs\<rparr>)))"

definition upsert_runtime_session ::
  "'x codecs_scheme \<Rightarrow> 'r relay_control \<Rightarrow> runtime_session_record \<Rightarrow> 'r quic_adapter \<Rightarrow>
   (unit, transport_error) result \<times> 'r quic_adapter" where
  "upsert_runtime_session X ctl r a =
     (let session_id = ss_session_id (sx_snapshot r);
          next = sx_snapshot r;
          event_details = json_object
            [(''peer_id'', JString (PeerId_to_text X (ss_peer next))),
             (''next_state'', JString (runtime_session_state_label (ss_state next))),
             (''path_class'', JString (path_class_label (ss_path_kind next)))];
          previous = bt_get (qa_sessions a) session_id;
          a = a\<lparr>qa_sessions := bt_insert session_id r (qa_sessions a)\<rparr>
      in case previous of
           Some previous \<Rightarrow>
             let prev = sx_snapshot previous
             in (case (if ss_path_kind prev = Relay \<and>
                          (ss_transport_session_id prev \<noteq> ss_transport_session_id next \<or>
                           ss_relay_control_endpoint prev \<noteq> ss_relay_control_endpoint next \<or>
                           ss_path_kind next \<noteq> Relay)
                       then close_relay_transport_session X ctl (ss_relay_control_endpoint prev)
                              (ss_transport_session_id prev) a
                       else (Ok (), a)) of
                   (Err e, a) \<Rightarrow> (Err e, a)
                 | (Ok _, a) \<Rightarrow>
                     (Ok (), emit_runtime_event ''session.state_changed'' (session_subject session_id)
                        (json_object
                          [(''peer_id'', JString (PeerId_to_text X (ss_peer next))),
                           (''prior_state'', JString (runtime_session_state_label (ss_state prev))),
                           (''next_state'', JString (runtime_session_state_label (ss_state next))),
                           (''path_class'', JString (path_class_label (ss_path_kind next)))]) a))
         | None \<Rightarrow>
             let a = emit_runtime_event ''session.created'' (session_subject session_id) event_details a;
                 a = emit_runtime_event ''path.selected'' (session_subject session_id)
                       (json_object
                         [(''peer_id'', JString (PeerId_to_text X (ss_peer next))),
                          (''path_class'', JString (path_class_label (ss_path_kind next))),
                          (''source'', JString (route_source_debug (ss_source next)))]) a
             in (Ok (), a))"

definition remove_runtime_session ::
  "bytes \<Rightarrow> 'r quic_adapter \<Rightarrow> runtime_session_record option \<times> 'r quic_adapter" where
  "remove_runtime_session session_id a =
     (bt_get (qa_sessions a) session_id, a\<lparr>qa_sessions := bt_remove session_id (qa_sessions a)\<rparr>)"

definition record_terminal_session :: "runtime_session_record \<Rightarrow> 'r quic_adapter \<Rightarrow> 'r quic_adapter" where
  "record_terminal_session r a =
     a\<lparr>qa_terminal := pop_front_to MAX_TERMINAL_SESSIONS
         (filter (\<lambda>entry. ss_session_id (sx_snapshot entry) \<noteq> ss_session_id (sx_snapshot r)) (qa_terminal a) @ [r])\<rparr>"

section \<open>Opening sessions\<close>

definition logical_session_id :: "'x codecs_scheme \<Rightarrow> string \<Rightarrow> route_plan \<Rightarrow> bytes" where
  "logical_session_id X runtime_instance_id route =
     take 16 (blake3 X
       (as_bytes runtime_instance_id @ PeerId_as_bytes (rt_local_peer route) @ PeerId_as_bytes (rt_peer route) @
        as_bytes (class_string route) @
        (case rt_protocol route of None \<Rightarrow> [] | Some p \<Rightarrow> as_bytes (ProtocolId_as_str p))))"

definition direct_session_snapshot ::
  "'x keystore_env_scheme \<Rightarrow> route_plan \<Rightarrow> 'r quic_adapter \<Rightarrow> (session_snapshot, transport_error) result \<times> 'r quic_adapter" where
  "direct_session_snapshot X route a =
     (case qa_local_identity a of
        None \<Rightarrow> (Err (InvalidRoute ''direct route requires local identity''), a)
      | Some local_identity \<Rightarrow>
      if IdentityKeypair_peer_id X local_identity \<noteq> rt_local_peer route
      then (Err (InvalidRoute ''local identity peer does not match route local peer''), a)
      else case rt_remote_endpoints route of
        [] \<Rightarrow> (Err (NoRoute (rt_peer route)), a)
      | remote_endpoint # _ \<Rightarrow>
          let (now, a) = now_secs a;
              session_id = logical_session_id X (qa_runtime_instance_id a) route
          in (Ok \<lparr>ss_session_id = session_id, ss_transport_session_id = session_id,
                  ss_relay_attempt_id = None, ss_peer = rt_peer route, ss_protocol = rt_protocol route,
                  ss_class = rt_class route, ss_path_kind = rt_path_kind route, ss_source = rt_source route,
                  ss_remote_endpoint = remote_endpoint, ss_relay_peer = None, ss_relay_endpoint = None,
                  ss_relay_control_endpoint = None, ss_datagrams_capable = qa_supports_datagrams a,
                  ss_migration_capable = qa_supports_path_migration a, ss_state = SS_Active,
                  ss_closure_reason = None, ss_state_reason = None, ss_created_at_unix_secs = now,
                  ss_last_activity_unix_secs = now\<rparr>, a))"

definition relay_session_snapshot ::
  "'x keystore_env_scheme \<Rightarrow> 'r relay_control \<Rightarrow> route_plan \<Rightarrow> relay_plan \<Rightarrow> 'r quic_adapter \<Rightarrow>
   (session_snapshot, transport_error) result \<times> 'r quic_adapter" where
  "relay_session_snapshot X ctl route relay a =
     (case qa_network_id a of
        None \<Rightarrow> (Err (InvalidRoute ''relay route requires network identity''), a)
      | Some network_id \<Rightarrow>
      case qa_local_identity a of
        None \<Rightarrow> (Err (InvalidRoute ''relay route requires local identity''), a)
      | Some local_identity \<Rightarrow>
      if IdentityKeypair_peer_id X local_identity \<noteq> rt_local_peer route
      then (Err (InvalidRoute ''local identity peer does not match route local peer''), a)
      else
        let (secret, a) = draw_bytes a;
            session_key = SessionKeypair_generate X secret;
            (issued_at, a) = now_secs a;
            (nonce, a) = draw_bytes a;
            credential = SessionCredential_issue X issued_at nonce network_id local_identity
              (session_public session_key)
              (case rt_protocol route of
                 Some protocol \<Rightarrow> [ProtocolId_as_str protocol] | None \<Rightarrow> [''/quip/relay/1''])
              300 1;
            (attempt_id, a) = draw_bytes a
        in case rp_relay_endpoints relay of
             [] \<Rightarrow> (Err (InvalidRoute ''relay route has no relay endpoints''), a)
           | relay_endpoint # _ \<Rightarrow>
               (case ctl_open ctl (rp_relay_control_endpoint relay)
                       \<lparr>oq_attempt_id = attempt_id, oq_network_id = network_id,
                        oq_source = rt_local_peer route,
                        oq_source_public_key = public_key X local_identity,
                        oq_source_credential = credential, oq_destination = rt_peer route,
                        oq_protocol = rt_protocol route, oq_traffic_class = rt_class route\<rparr>
                       (qa_relay a) of
                  (Err e, rs) \<Rightarrow> (Err (RelayRejected (relay_error_text X e)), a\<lparr>qa_relay := rs\<rparr>)
                | (Ok accepted, rs) \<Rightarrow>
                    let a = a\<lparr>qa_relay := rs\<rparr>;
                        remote_endpoint =
                          (case rp_destination_endpoints relay of
                             d # _ \<Rightarrow> d
                           | [] \<Rightarrow> (case rt_remote_endpoints route of
                                      r # _ \<Rightarrow> r | [] \<Rightarrow> PeerId_to_text X (rt_peer route)));
                        (now, a) = now_secs a;
                        session_id = logical_session_id X (qa_runtime_instance_id a) route
                    in (Ok \<lparr>ss_session_id = session_id,
                            ss_transport_session_id = ra_session_id accepted,
                            ss_relay_attempt_id = Some (ra_attempt_id accepted), ss_peer = rt_peer route,
                            ss_protocol = rt_protocol route, ss_class = rt_class route,
                            ss_path_kind = rt_path_kind route, ss_source = rt_source route,
                            ss_remote_endpoint = remote_endpoint,
                            ss_relay_peer = Some (rp_relay_peer relay),
                            ss_relay_endpoint = Some relay_endpoint,
                            ss_relay_control_endpoint = Some (rp_relay_control_endpoint relay),
                            ss_datagrams_capable = (qa_supports_datagrams a \<and> rp_supports_datagrams relay),
                            ss_migration_capable =
                              (qa_supports_path_migration a \<and> rp_supports_path_migration relay),
                            ss_state = SS_Active, ss_closure_reason = None, ss_state_reason = None,
                            ss_created_at_unix_secs = now, ss_last_activity_unix_secs = now\<rparr>, a)))"

definition session_snapshot_for_route ::
  "'x keystore_env_scheme \<Rightarrow> 'r relay_control \<Rightarrow> route_plan \<Rightarrow> 'r quic_adapter \<Rightarrow>
   (session_snapshot, transport_error) result \<times> 'r quic_adapter" where
  "session_snapshot_for_route X ctl route a =
     (case rt_relay route of
        Some relay \<Rightarrow> relay_session_snapshot X ctl route relay a
      | None \<Rightarrow> direct_session_snapshot X route a)"

definition find_reconnect_suppression ::
  "'r quic_adapter \<Rightarrow> peer_id \<Rightarrow> protocol_id option \<Rightarrow> traffic_class \<Rightarrow> reconnect_suppression option" where
  "find_reconnect_suppression a peer protocol tc =
     find (\<lambda>s. sp_peer s = peer \<and> sp_protocol s = protocol \<and> sp_class s = tc) (qa_suppressions a)"

definition alpn :: "route_plan \<Rightarrow> string option" where
  "alpn route = map_option ProtocolId_as_str (rt_protocol route)"

definition adapter_connect ::
  "'x keystore_env_scheme \<Rightarrow> 'r relay_control \<Rightarrow> route_plan \<Rightarrow> 'r quic_adapter \<Rightarrow>
   (quic_connection_handle, transport_error) result \<times> 'r quic_adapter" where
  "adapter_connect X ctl route a =
     (case find_reconnect_suppression a (rt_peer route) (rt_protocol route) (rt_class route) of
        Some suppression \<Rightarrow>
          (Err (PolicyDenied (''reconnect suppressed: '' @ sp_reason suppression)),
           emit_runtime_event ''reconnect.suppressed'' (peer_subject X (rt_peer route))
             (json_object [(''protocol'', json_protocol (rt_protocol route)),
                           (''class'', JString (class_string route)),
                           (''reason'', JString (sp_reason suppression))]) a)
      | None \<Rightarrow>
          (case session_snapshot_for_route X ctl route a of
             (Err e, a) \<Rightarrow> (Err e, a)
           | (Ok session, a) \<Rightarrow>
               (case upsert_runtime_session X ctl
                       \<lparr>sx_snapshot = session, sx_alpn_protocol = alpn route\<rparr> a of
                  (Err e, a) \<Rightarrow> (Err e, a)
                | (Ok _, a) \<Rightarrow> (Ok \<lparr>qc_session = session, qc_alpn_protocol = alpn route\<rparr>, a))))"

section \<open>Migration and closing\<close>

definition adapter_migrate ::
  "'x keystore_env_scheme \<Rightarrow> 'r relay_control \<Rightarrow> session_snapshot \<Rightarrow> route_plan \<Rightarrow> 'r quic_adapter \<Rightarrow>
   (session_snapshot, transport_error) result \<times> 'r quic_adapter" where
  "adapter_migrate X ctl session route a =
     (let (_, a) = update_session_state X (ss_session_id session) SS_Migrating None
                     (Some ''daemon requested path migration'') a
      in case adapter_session_snapshot (ss_session_id session) a of
           None \<Rightarrow> (Err (InvalidRoute ''session is not active in runtime registry''), a)
         | Some existing \<Rightarrow>
             (case session_snapshot_for_route X ctl route a of
                (Err e, a) \<Rightarrow> (Err e, a)
              | (Ok fresh, a) \<Rightarrow>
                  let (now, a) = now_secs a;
                      migrated = fresh\<lparr>ss_session_id := ss_session_id existing,
                        ss_created_at_unix_secs := ss_created_at_unix_secs existing,
                        ss_last_activity_unix_secs := now\<rparr>
                  in case (if ss_path_kind existing = Relay \<and>
                              (ss_path_kind migrated \<noteq> Relay \<or>
                               ss_transport_session_id migrated \<noteq> ss_transport_session_id existing \<or>
                               ss_relay_control_endpoint migrated \<noteq> ss_relay_control_endpoint existing)
                           then close_relay_transport_session X ctl (ss_relay_control_endpoint existing)
                                  (ss_transport_session_id existing) a
                           else (Ok (), a)) of
                       (Err e, a) \<Rightarrow> (Err e, a)
                     | (Ok _, a) \<Rightarrow>
                         (case upsert_runtime_session X ctl
                                 \<lparr>sx_snapshot = migrated, sx_alpn_protocol = alpn route\<rparr> a of
                            (Err e, a) \<Rightarrow> (Err e, a)
                          | (Ok _, a) \<Rightarrow>
                              (Ok migrated,
                               emit_runtime_event ''path.migration_completed''
                                 (session_subject (ss_session_id migrated))
                                 (json_object
                                   [(''peer_id'', JString (PeerId_to_text X (ss_peer migrated))),
                                    (''prior_path_class'', JString (path_class_label (ss_path_kind existing))),
                                    (''next_path_class'', JString (path_class_label (ss_path_kind migrated)))]) a))))"

definition or_opt :: "'a option \<Rightarrow> 'a option \<Rightarrow> 'a option" where
  "or_opt x y = (case x of Some v \<Rightarrow> Some v | None \<Rightarrow> y)"

definition adapter_close_session ::
  "'x codecs_scheme \<Rightarrow> 'r relay_control \<Rightarrow> session_snapshot \<Rightarrow> 'r quic_adapter \<Rightarrow>
   (unit, transport_error) result \<times> 'r quic_adapter" where
  "adapter_close_session X ctl session a =
     (let existing = adapter_session_snapshot (ss_session_id session) a;
          closure_reason = or_opt (Option.bind existing ss_closure_reason) (ss_closure_reason session);
          state_reason = or_opt (Option.bind existing ss_state_reason) (ss_state_reason session);
          (_, a) = update_session_state X (ss_session_id session) SS_Closing closure_reason state_reason a;
          (removed, a) = remove_runtime_session (ss_session_id session) a
      in case removed of
           None \<Rightarrow> (Ok (), a)
         | Some active \<Rightarrow>
             let session = sx_snapshot active
             in (case (if ss_path_kind session = Relay
                       then close_relay_transport_session X ctl (ss_relay_control_endpoint session)
                              (ss_transport_session_id session) a
                       else (Ok (), a)) of
                   (Err e, a) \<Rightarrow> (Err e, a)
                 | (Ok _, a) \<Rightarrow>
                     let (now, a) = now_secs a;
                         terminal = session\<lparr>ss_state := SS_Closed, ss_last_activity_unix_secs := now\<rparr>;
                         a = record_terminal_session
                               \<lparr>sx_snapshot = terminal, sx_alpn_protocol = sx_alpn_protocol active\<rparr> a
                     in (Ok (),
                         emit_runtime_event ''session.closed'' (session_subject (ss_session_id session))
                           (json_object
                             [(''peer_id'', JString (PeerId_to_text X (ss_peer session))),
                              (''prior_state'', JString (runtime_session_state_label SS_Closing)),
                              (''next_state'', JString (runtime_session_state_label SS_Closed)),
                              (''closure_reason'',
                                 json_str_opt (map_option session_closure_reason_label (ss_closure_reason terminal))),
                              (''reason'', json_str_opt (ss_state_reason terminal))]) a)))"

section \<open>Listeners\<close>

text \<open>The hexadecimal prefix of the digest is that of its first eight bytes.\<close>

definition runtime_listener_id :: "'x codecs_scheme \<Rightarrow> string \<Rightarrow> bind_spec \<Rightarrow> nat \<Rightarrow> string" where
  "runtime_listener_id X runtime_instance_id bind nanos =
     ''lst-'' @ take 16 (hex_bytes (blake3 X
       (as_bytes runtime_instance_id @ as_bytes (ProtocolId_as_str (bs_protocol bind)) @
        as_bytes (if bs_advertise bind then ''1'' else ''0'') @ as_bytes (show_nat nanos))))"

definition upsert_runtime_listener :: "runtime_listener_snapshot \<Rightarrow> 'r quic_adapter \<Rightarrow> 'r quic_adapter" where
  "upsert_runtime_listener l a = a\<lparr>qa_listeners := bt_insert (ln_listener_id l) l (qa_listeners a)\<rparr>"

definition adapter_listen ::
  "'x codecs_scheme \<Rightarrow> bind_spec \<Rightarrow> 'r quic_adapter \<Rightarrow> (quic_listener_handle, transport_error) result \<times> 'r quic_adapter" where
  "adapter_listen X bind a =
     (let handle = \<lparr>ql_protocol = ProtocolId_as_str (bs_protocol bind), ql_advertise = bs_advertise bind\<rparr>;
          (nanos, a) = now_nanos a;
          (now, a) = now_secs a
      in (Ok handle, upsert_runtime_listener
            \<lparr>ln_listener_id = runtime_listener_id X (qa_runtime_instance_id a) bind nanos,
             ln_transport = ''quic'',
             ln_bind_summary = ''protocol='' @ ProtocolId_as_str (bs_protocol bind) @ '' advertise='' @
               show_bool (bs_advertise bind) @ '' runtime_instance='' @ qa_runtime_instance_id a,
             ln_protocol = bs_protocol bind, ln_advertise = bs_advertise bind, ln_state = LS_Active,
             ln_state_reason = None, ln_started_at_unix_secs = now\<rparr> a))"

definition active_listeners :: "'r quic_adapter \<Rightarrow> runtime_listener_snapshot list" where
  "active_listeners a = bt_values (qa_listeners a)"

definition update_listener_state ::
  "string \<Rightarrow> runtime_listener_state \<Rightarrow> string option \<Rightarrow> 'r quic_adapter \<Rightarrow>
   runtime_listener_snapshot option \<times> 'r quic_adapter" where
  "update_listener_state listener_id state state_reason a =
     (case bt_get (qa_listeners a) listener_id of
        None \<Rightarrow> (None, a)
      | Some l \<Rightarrow>
          let l = l\<lparr>ln_state := state, ln_state_reason := state_reason\<rparr>
          in (Some l, a\<lparr>qa_listeners := bt_modify listener_id (\<lambda>_. l) (qa_listeners a)\<rparr>))"

end
