(* ===== verification/Quip_Reconnect.thy ===== *)
theory Quip_Reconnect
  imports Quip_Quic
begin

text \<open>
  Reconnect suppressions, reconnect attempts with exponential back-off, and the health summary of
  the adapter (crate \<open>quic\<close>). Suppressions and attempts are keyed by peer, protocol and traffic
  class.
\<close>

type_synonym reconnect_key = "peer_id \<times> protocol_id option \<times> traffic_class"

definition sp_key :: "reconnect_suppression \<Rightarrow> reconnect_key" where
  "sp_key s = (sp_peer s, sp_protocol s, sp_class s)"

definition at_key :: "runtime_reconnect_attempt \<Rightarrow> reconnect_key" where
  "at_key s = (at_peer s, at_protocol s, at_class s)"

section \<open>Suppressions\<close>

definition suppress_reconnect ::
  "'x codecs_scheme \<Rightarrow> peer_id \<Rightarrow> protocol_id option \<Rightarrow> traffic_class \<Rightarrow> string \<Rightarrow> 'r quic_adapter \<Rightarrow>
   (unit, transport_error) result \<times> 'r quic_adapter" where
  "suppress_reconnect X peer protocol tc reason a =
     (let (now, a) = now_secs a;
          a = a\<lparr>qa_suppressions :=
            upsert_by (\<lambda>s. sp_key s = (peer, protocol, tc))
              (\<lambda>s. s\<lparr>sp_reason := reason, sp_imposed_at_unix_secs := now\<rparr>)
              \<lparr>sp_peer = peer, sp_protocol = protocol, sp_class = tc, sp_reason = reason,
               sp_imposed_at_unix_secs = now\<rparr>
              (qa_suppressions a)\<rparr>
      in (Ok (), emit_runtime_event ''reconnect.suppressed'' (peer_subject X peer)
            (json_object [(''protocol'', json_protocol protocol), (''class'', JString (class_label tc)),
                          (''reason'', JString reason)]) a))"

definition clear_reconnect_suppression ::
  "'x codecs_scheme \<Rightarrow> peer_id \<Rightarrow> protocol_id option \<Rightarrow> traffic_class \<Rightarrow> 'r quic_adapter \<Rightarrow>
   (unit, transport_error) result \<times> 'r quic_adapter" where
  "clear_reconnect_suppression X peer protocol tc a =
     (let removed = find (\<lambda>s. sp_key s = (peer, protocol, tc)) (qa_suppressions a);
          a = a\<lparr>qa_suppressions := filter (\<lambda>s. sp_key s \<noteq> (peer, protocol, tc)) (qa_suppressions a)\<rparr>
      in (Ok (), case removed of
            None \<Rightarrow> a
          | Some removed \<Rightarrow>
              emit_runtime_event ''reconnect.unsuppressed'' (peer_subject X peer)
                (json_object [(''protocol'', json_protocol protocol), (''class'', JString (class_label tc)),
                   (''prior_reason'', JString (sp_reason removed)),
                   (''imposed_at_unix_secs'', json_u64 (sp_imposed_at_unix_secs removed))]) a))"

section \<open>Attempts\<close>

definition next_attempt ::
  "u64 \<Rightarrow> string \<Rightarrow> u32 \<Rightarrow> u64 \<Rightarrow> u64 \<Rightarrow> runtime_reconnect_attempt \<Rightarrow> runtime_reconnect_attempt" where
  "next_attempt now reason max_attempts base_backoff_secs max_backoff_secs existing =
     (let count = at_attempt_count existing + 1;
          ex = min (sat_sub count 1) 16;
          backoff = min (sat_mul base_backoff_secs (push_bit (unat ex) 1)) max_backoff_secs
      in existing\<lparr>at_attempt_count := count, at_reason := reason, at_last_attempt_unix_secs := now,
           at_state := (if count \<ge> max_attempts then Attempt_Failed else BackingOff),
           at_next_attempt_unix_secs := sat_add now backoff, at_max_attempts := max_attempts\<rparr>)"

definition first_attempt ::
  "u64 \<Rightarrow> peer_id \<Rightarrow> protocol_id option \<Rightarrow> traffic_class \<Rightarrow> string \<Rightarrow> u32 \<Rightarrow> u64 \<Rightarrow> u64 \<Rightarrow> runtime_reconnect_attempt" where
  "first_attempt now peer protocol tc reason max_attempts base_backoff_secs max_backoff_secs =
     (let initial_backoff = min base_backoff_secs max_backoff_secs
      in \<lparr>at_peer = peer, at_protocol = protocol, at_class = tc,
          at_state = (if max_attempts \<le> 1 then Attempt_Failed else BackingOff), at_reason = reason,
          at_attempt_count = 1, at_last_attempt_unix_secs = now,
          at_next_attempt_unix_secs = sat_add now initial_backoff, at_max_attempts = max_attempts\<rparr>)"

definition schedule_reconnect ::
  "'x codecs_scheme \<Rightarrow> peer_id \<Rightarrow> protocol_id option \<Rightarrow> traffic_class \<Rightarrow> string \<Rightarrow> u32 \<Rightarrow> u64 \<Rightarrow> u64 \<Rightarrow>
   'r quic_adapter \<Rightarrow> (runtime_reconnect_attempt, transport_error) result \<times> 'r quic_adapter" where
  "schedule_reconnect X peer protocol tc reason max_attempts base_backoff_secs max_backoff_secs a =
     (let (now, a) = now_secs a;
          snapshot =
            (case find (\<lambda>s. at_key s = (peer, protocol, tc)) (qa_attempts a) of
               Some existing \<Rightarrow> next_attempt now reason max_attempts base_backoff_secs max_backoff_secs existing
             | None \<Rightarrow> first_attempt now peer protocol tc reason max_attempts base_backoff_secs max_backoff_secs);
          a = a\<lparr>qa_attempts :=
            upsert_by (\<lambda>s. at_key s = (peer, protocol, tc)) (\<lambda>_. snapshot) snapshot (qa_attempts a)\<rparr>;
          backoff_secs = sat_sub (at_next_attempt_unix_secs snapshot) (at_last_attempt_unix_secs snapshot);
          a = emit_runtime_event
            (if at_state snapshot = Attempt_Failed then ''reconnect.failed'' else ''reconnect.retry_scheduled'')
            (peer_subject X peer)
            (json_object [(''protocol'', json_protocol protocol), (''class'', JString (class_label tc)),
               (''state'', JString (reconnect_attempt_state_label (at_state snapshot))),
               (''attempt_count'', json_u32 (at_attempt_count snapshot)),
               (''next_attempt_unix_secs'', json_u64 (at_next_attempt_unix_secs snapshot)),
               (''backoff_secs'', json_u64 backoff_secs),
               (''max_attempts'', json_u32 (at_max_attempts snapshot)),
               (''reason'', JString (at_reason snapshot))]) a;
          a = (if at_state snapshot = Attempt_Failed
               then emit_runtime_event ''path.failed'' (peer_subject X peer)
                 (json_object [(''protocol'', json_protocol protocol), (''class'', JString (class_label tc)),
                    (''cause'', JString ''reconnect_exhausted''),
                    (''attempt_count'', json_u32 (at_attempt_count snapshot)),
                    (''max_attempts'', json_u32 (at_max_attempts snapshot)),
                    (''reason'', JString (at_reason snapshot))]) a
               else a)
      in (Ok snapshot, a))"

definition clear_reconnect_attempt ::
  "'x codecs_scheme \<Rightarrow> peer_id \<Rightarrow> protocol_id option \<Rightarrow> traffic_class \<Rightarrow> string option \<Rightarrow>
   'r quic_adapter \<Rightarrow> (unit, transport_error) result \<times> 'r quic_adapter" where
  "clear_reconnect_attempt X peer protocol tc outcome_reason a =
     (let removed = find (\<lambda>s. at_key s = (peer, protocol, tc)) (qa_attempts a);
          a = a\<lparr>qa_attempts := filter (\<lambda>s. at_key s \<noteq> (peer, protocol, tc)) (qa_attempts a)\<rparr>
      in (Ok (), case removed of
            None \<Rightarrow> a
          | Some snapshot \<Rightarrow>
              emit_runtime_event
                (case outcome_reason of
                   Some reason \<Rightarrow>
                     if contains ''succeeded'' reason \<or> contains ''active'' reason
                     then ''reconnect.succeeded'' else ''reconnect.cleared''
                 | None \<Rightarrow> ''reconnect.cleared'')
                (peer_subject X peer)
                (json_object [(''protocol'', json_protocol protocol), (''class'', JString (class_label tc)),
                   (''state'', JString (reconnect_attempt_state_label (at_state snapshot))),
                   (''attempt_count'', json_u32 (at_attempt_count snapshot)),
                   (''reason'', json_str_opt outcome_reason)]) a))"

section \<open>Health\<close>

definition transport_health :: "'r quic_adapter \<Rightarrow> runtime_transport_health" where
  "transport_health a =
     (let suppression_count = length (qa_suppressions a);
          backing_off = filter (\<lambda>e. at_state e = BackingOff) (qa_attempts a);
          attempt_count = length backing_off
      in \<lparr>th_active_sessions = length (qa_sessions a),
          th_active_listeners = length (filter (\<lambda>l. ln_state l = LS_Active) (bt_values (qa_listeners a))),
          th_reconnect_state =
            (if 0 < suppression_count then RC_Suppressed
             else if 0 < attempt_count then RC_Active
             else if list_ex (\<lambda>e. at_state e = Attempt_Failed) (qa_attempts a) then RC_Failed
             else RC_Idle),
          th_reconnect_attempt_count = attempt_count,
          th_reconnect_next_attempt_unix_secs = min_opt (map at_next_attempt_unix_secs backing_off),
          th_reconnect_suppression_count = suppression_count,
          th_event_buffer_depth = length (qa_events a),
          th_session_registry_healthy = True,
          th_listener_registry_healthy = True\<rparr>)"

section \<open>Frame laws\<close>

text \<open>Reading the clock, drawing bytes and emitting events change nothing but clock and events.\<close>

lemma now_secs_sel [simp]:
  "qa_sessions (snd (now_secs a)) = qa_sessions a" "qa_terminal (snd (now_secs a)) = qa_terminal a"
  "qa_listeners (snd (now_secs a)) = qa_listeners a" "qa_events (snd (now_secs a)) = qa_events a"
  "qa_suppressions (snd (now_secs a)) = qa_suppressions a" "qa_attempts (snd (now_secs a)) = qa_attempts a"
  "qa_relay (snd (now_secs a)) = qa_relay a" "qa_local_identity (snd (now_secs a)) = qa_local_identity a"
  "qa_network_id (snd (now_secs a)) = qa_network_id a"
  "qa_runtime_instance_id (snd (now_secs a)) = qa_runtime_instance_id a"
  "qa_supports_datagrams (snd (now_secs a)) = qa_supports_datagrams a"
  "qa_supports_path_migration (snd (now_secs a)) = qa_supports_path_migration a"
  by (simp_all add: now_secs_def split: prod.splits)

lemma now_nanos_sel [simp]:
  "qa_sessions (snd (now_nanos a)) = qa_sessions a" "qa_terminal (snd (now_nanos a)) = qa_terminal a"
  "qa_listeners (snd (now_nanos a)) = qa_listeners a" "qa_events (snd (now_nanos a)) = qa_events a"
  "qa_suppressions (snd (now_nanos a)) = qa_suppressions a" "qa_attempts (snd (now_nanos a)) = qa_attempts a"
  "qa_relay (snd (now_nanos a)) = qa_relay a" "qa_local_identity (snd (now_nanos a)) = qa_local_identity a"
  "qa_network_id (snd (now_nanos a)) = qa_network_id a"
  "qa_runtime_instance_id (snd (now_nanos a)) = qa_runtime_instance_id a"
  "qa_supports_datagrams (snd (now_nanos a)) = qa_supports_datagrams a"
  "qa_supports_path_migration (snd (now_nanos a)) = qa_supports_path_migration a"
  by (simp_all add: now_nanos_def split: prod.splits)

lemma draw_bytes_sel [simp]:
  "qa_sessions (snd (draw_bytes a)) = qa_sessions a" "qa_terminal (snd (draw_bytes a)) = qa_terminal a"
  "qa_listeners (snd (draw_bytes a)) = qa_listeners a" "qa_events (snd (draw_bytes a)) = qa_events a"
  "qa_suppressions (snd (draw_bytes a)) = qa_suppressions a" "qa_attempts (snd (draw_bytes a)) = qa_attempts a"
  "qa_relay (snd (draw_bytes a)) = qa_relay a" "qa_local_identity (snd (draw_bytes a)) = qa_local_identity a"
  "qa_network_id (snd (draw_bytes a)) = qa_network_id a"
  "qa_runtime_instance_id (snd (draw_bytes a)) = qa_runtime_instance_id a"
  "qa_supports_datagrams (snd (draw_bytes a)) = qa_supports_datagrams a"
  "qa_supports_path_migration (snd (draw_bytes a)) = qa_supports_path_migration a"
  by (simp_all add: draw_bytes_def split: prod.splits)

lemma emit_sel [simp]:
  "qa_sessions (emit_runtime_event ty s d a) = qa_sessions a" "qa_terminal (emit_runtime_event ty s d a) = qa_terminal a"
  "qa_listeners (emit_runtime_event ty s d a) = qa_listeners a"
  "qa_suppressions (emit_runtime_event ty s d a) = qa_suppressions a"
  "qa_attempts (emit_runtime_event ty s d a) = qa_attempts a"
  "qa_relay (emit_runtime_event ty s d a) = qa_relay a"
  "qa_local_identity (emit_runtime_event ty s d a) = qa_local_identity a"
  "qa_network_id (emit_runtime_event ty s d a) = qa_network_id a"
  "qa_runtime_instance_id (emit_runtime_event ty s d a) = qa_runtime_instance_id a"
  "qa_supports_datagrams (emit_runtime_event ty s d a) = qa_supports_datagrams a"
  "qa_supports_path_migration (emit_runtime_event ty s d a) = qa_supports_path_migration a"
  by (simp_all add: emit_runtime_event_def case_prod_beta Let_def)

lemma emit_events:
  "\<exists>ev. ev_event_type ev = ty \<and> ev_subject ev = s \<and> ev_details ev = d \<and>
        qa_events (emit_runtime_event ty s d a) = pop_front_to 256 (qa_events a @ [ev])"
  by (simp add: emit_runtime_event_def case_prod_beta Let_def)
     (rule exI [of _ "\<lparr>ev_event_id = ''evt-'' @ show_nat (fst (now_nanos a)), ev_event_type = ty,
        ev_emitted_at = iso8601_seconds (fst (now_secs (snd (now_nanos a)))) @ ''Z'', ev_truth_kind = ''runtime'',
        ev_subject = s, ev_details = d\<rparr>"], simp)

lemma length_emit_events: "length (qa_events (emit_runtime_event ty s d a)) = min 256 (Suc (length (qa_events a)))"
  using emit_events [of ty s d a] by auto

section \<open>Laws of suppressions\<close>

lemma sp_update:
  "sp_key s = (p, pr, tc) \<Longrightarrow>
   s\<lparr>sp_reason := r, sp_imposed_at_unix_secs := t\<rparr> =
     \<lparr>sp_peer = p, sp_protocol = pr, sp_class = tc, sp_reason = r, sp_imposed_at_unix_secs = t\<rparr>"
  by (cases s) (simp add: sp_key_def)

lemma update_first_cong: "(\<And>x. p x \<Longrightarrow> f x = g x) \<Longrightarrow> update_first p f xs = update_first p g xs"
  by (induction xs) auto

interpretation suppressions: keyed_vector sp_key "\<lambda>x. upsert_by (\<lambda>y. sp_key y = sp_key x) (\<lambda>_. x) x"
  by unfold_locales (rule upsert_by_keyed upsert_by_keyed(3); assumption?)+

lemma suppress_upserts:
  "qa_suppressions (snd (suppress_reconnect X p pr tc r a)) =
   (let s = \<lparr>sp_peer = p, sp_protocol = pr, sp_class = tc, sp_reason = r,
             sp_imposed_at_unix_secs = fst (now_secs a)\<rparr>
    in upsert_by (\<lambda>y. sp_key y = sp_key s) (\<lambda>_. s) s (qa_suppressions a))"
proof -
  let ?s = "\<lparr>sp_peer = p, sp_protocol = pr, sp_class = tc, sp_reason = r, sp_imposed_at_unix_secs = fst (now_secs a)\<rparr>"
  have key: "sp_key ?s = (p, pr, tc)" by (simp add: sp_key_def)
  have "update_first (\<lambda>s. sp_key s = (p, pr, tc)) (\<lambda>s. s\<lparr>sp_reason := r, sp_imposed_at_unix_secs := fst (now_secs a)\<rparr>) xs =
        update_first (\<lambda>s. sp_key s = (p, pr, tc)) (\<lambda>_. ?s) xs" for xs
    by (rule update_first_cong) (rule sp_update)
  then show ?thesis by (simp add: suppress_reconnect_def case_prod_beta Let_def upsert_by_def key)
qed

lemma find_suppression_key:
  "find_reconnect_suppression a p pr tc = find (\<lambda>s. sp_key s = (p, pr, tc)) (qa_suppressions a)"
  by (simp add: find_reconnect_suppression_def sp_key_def)

lemma find_after_suppress:
  "find_reconnect_suppression (snd (suppress_reconnect X p pr tc r a)) p' pr' tc' =
   (if (p', pr', tc') = (p, pr, tc)
    then Some \<lparr>sp_peer = p, sp_protocol = pr, sp_class = tc, sp_reason = r,
               sp_imposed_at_unix_secs = fst (now_secs a)\<rparr>
    else find_reconnect_suppression a p' pr' tc')"
  by (simp add: find_suppression_key suppress_upserts suppressions.lookup_upsert Let_def)
     (simp add: sp_key_def)

lemma find_after_clear:
  "find_reconnect_suppression (snd (clear_reconnect_suppression X p pr tc a)) p' pr' tc' =
   (if (p', pr', tc') = (p, pr, tc) then None else find_reconnect_suppression a p' pr' tc')"
proof -
  have "find (\<lambda>s. sp_key s = k) (filter (\<lambda>s. sp_key s \<noteq> j) xs) =
        (if k = j then None else find (\<lambda>s. sp_key s = k) xs)" for j k xs
    by (induction xs) auto
  moreover have "qa_suppressions (snd (clear_reconnect_suppression X p pr tc a)) =
      filter (\<lambda>s. sp_key s \<noteq> (p, pr, tc)) (qa_suppressions a)"
    by (simp add: clear_reconnect_suppression_def Let_def split: option.split)
  ultimately show ?thesis by (simp add: find_suppression_key)
qed

end
