(* ===== verification/Quip_Quic_Laws.thy ===== *)
theory Quip_Quic_Laws
  imports Quip_Reconnect
begin

text \<open>
  What the transport adapter guarantees: the invariant of its registries and buffers over every
  sequence of operations, suppression of reconnects, the back-off schedule, and the life of a
  session through migration and closing, with the relay session it holds.
\<close>

section \<open>The invariant\<close>

definition terminal_ids :: "'r quic_adapter \<Rightarrow> bytes list" where
  "terminal_ids a = map (\<lambda>r. ss_session_id (sx_snapshot r)) (qa_terminal a)"

definition adapter_wf :: "'r quic_adapter \<Rightarrow> bool" where
  "adapter_wf a \<longleftrightarrow>
     bt_wf (qa_sessions a) \<and>
     (\<forall>k r. bt_get (qa_sessions a) k = Some r \<longrightarrow> ss_session_id (sx_snapshot r) = k) \<and>
     bt_wf (qa_listeners a) \<and>
     (\<forall>k l. bt_get (qa_listeners a) k = Some l \<longrightarrow> ln_listener_id l = k) \<and>
     length (qa_terminal a) \<le> MAX_TERMINAL_SESSIONS \<and> distinct (terminal_ids a) \<and>
     length (qa_events a) \<le> 256 \<and>
     distinct (map sp_key (qa_suppressions a)) \<and> distinct (map at_key (qa_attempts a))"

lemma adapter_wf_cong:
  "\<lbrakk>qa_sessions a = qa_sessions b; qa_listeners a = qa_listeners b; qa_terminal a = qa_terminal b;
    qa_suppressions a = qa_suppressions b; qa_attempts a = qa_attempts b; length (qa_events a) \<le> 256;
    adapter_wf b\<rbrakk> \<Longrightarrow> adapter_wf a"
  by (simp add: adapter_wf_def terminal_ids_def)

lemma adapter_wf_default: "adapter_wf (QuicTransportAdapter_default relay rand clock)"
  by (simp add: adapter_wf_def QuicTransportAdapter_default_def terminal_ids_def)

lemma adapter_wf_now_secs [simp]: "adapter_wf (snd (now_secs a)) \<longleftrightarrow> adapter_wf a"
  by (simp add: adapter_wf_def terminal_ids_def)

lemma adapter_wf_now_nanos [simp]: "adapter_wf (snd (now_nanos a)) \<longleftrightarrow> adapter_wf a"
  by (simp add: adapter_wf_def terminal_ids_def)

lemma adapter_wf_draw [simp]: "adapter_wf (snd (draw_bytes a)) \<longleftrightarrow> adapter_wf a"
  by (simp add: adapter_wf_def terminal_ids_def)

lemma adapter_wf_relay [simp]: "adapter_wf (a\<lparr>qa_relay := rs\<rparr>) \<longleftrightarrow> adapter_wf a"
  by (simp add: adapter_wf_def terminal_ids_def)

lemma adapter_wf_emit: "adapter_wf a \<Longrightarrow> adapter_wf (emit_runtime_event ty s d a)"
  using emit_events [of ty s d a] by (auto simp: adapter_wf_def terminal_ids_def)

lemma adapter_wf_sessions:
  "adapter_wf a \<Longrightarrow> bt_wf m \<Longrightarrow> (\<And>k r. bt_get m k = Some r \<Longrightarrow> ss_session_id (sx_snapshot r) = k) \<Longrightarrow>
   adapter_wf (a\<lparr>qa_sessions := m\<rparr>)"
  by (simp add: adapter_wf_def terminal_ids_def)

lemma adapter_wf_update:
  "adapter_wf a \<Longrightarrow> adapter_wf (snd (update_session_state X sid st cr sr a))"
  by (auto simp: update_session_state_def Let_def case_prod_beta split: option.splits
      intro!: adapter_wf_emit adapter_wf_sessions)
     (auto simp: adapter_wf_def split: if_splits)

lemma adapter_wf_close_relay: "adapter_wf a \<Longrightarrow> adapter_wf (snd (close_relay_transport_session X ctl ep sid a))"
  by (auto simp: close_relay_transport_session_def split: option.splits prod.splits)

lemma adapter_wf_upsert: "adapter_wf a \<Longrightarrow> adapter_wf (snd (upsert_runtime_session X ctl r a))"
proof -
  assume wf: "adapter_wf a"
  let ?a = "a\<lparr>qa_sessions := bt_insert (ss_session_id (sx_snapshot r)) r (qa_sessions a)\<rparr>"
  have ins: "adapter_wf ?a"
    using wf by (intro adapter_wf_sessions) (auto simp: adapter_wf_def split: if_splits)
  have "adapter_wf b" if "close_relay_transport_session X ctl ep sid ?a = (q, b)" for ep sid q b
    using adapter_wf_close_relay [OF ins, of X ctl ep sid] that by simp
  then show ?thesis
    using ins
    by (auto simp: upsert_runtime_session_def Let_def split: option.splits prod.splits result.splits if_splits
        intro!: adapter_wf_emit)
qed

lemma adapter_wf_snapshot_for_route:
  "adapter_wf a \<Longrightarrow> adapter_wf (snd (session_snapshot_for_route X ctl route a))"
  by (auto simp: session_snapshot_for_route_def relay_session_snapshot_def direct_session_snapshot_def
      Let_def case_prod_beta split: option.splits list.splits result.splits)

text \<open>Sequencing of fallible steps preserves what each step preserves.\<close>

lemma after_bind:
  "Q (snd p) \<Longrightarrow> (\<And>v b. Q b \<Longrightarrow> Q (snd (f v b))) \<Longrightarrow>
   Q (snd (case p of (r, b) \<Rightarrow> (case r of Ok v \<Rightarrow> f v b | Err e \<Rightarrow> (Err e, b))))"
  by (cases p; cases "fst p") auto

lemma after_seq: "Q (snd p) \<Longrightarrow> (\<And>v b. Q b \<Longrightarrow> Q (snd (f v b))) \<Longrightarrow> Q (snd (case p of (v, b) \<Rightarrow> f v b))"
  by (cases p) auto

lemma after_opt: "Q (snd p) \<Longrightarrow> (\<And>v. Q (snd (f v))) \<Longrightarrow> Q (snd (case x of None \<Rightarrow> p | Some v \<Rightarrow> f v))"
  by (cases x) auto

lemma after_if: "Q (snd p) \<Longrightarrow> Q (snd q) \<Longrightarrow> Q (snd (if c then p else q))"
  by simp

lemmas adapter_wf_bind = after_bind [where Q = adapter_wf]
lemmas adapter_wf_seq = after_seq [where Q = adapter_wf]
lemmas adapter_wf_opt = after_opt [where Q = adapter_wf]
lemmas adapter_wf_if = after_if [where Q = adapter_wf]

lemma adapter_wf_connect:
  assumes "adapter_wf a"
  shows "adapter_wf (snd (adapter_connect X ctl route a))"
proof (cases "find_reconnect_suppression a (rt_peer route) (rt_protocol route) (rt_class route)")
  case None
  have "adapter_wf (snd (case session_snapshot_for_route X ctl route a of (r, b) \<Rightarrow> (case r of
      Ok session \<Rightarrow> (case upsert_runtime_session X ctl \<lparr>sx_snapshot = session, sx_alpn_protocol = alpn route\<rparr> b of
        (r, b) \<Rightarrow> (case r of Ok _ \<Rightarrow> (Ok \<lparr>qc_session = session, qc_alpn_protocol = alpn route\<rparr>, b) | Err e \<Rightarrow> (Err e, b)))
    | Err e \<Rightarrow> (Err e, b))))"
    using assms by (intro adapter_wf_bind adapter_wf_snapshot_for_route adapter_wf_upsert) simp_all
  with None show ?thesis by (simp add: adapter_connect_def)
next
  case (Some sp)
  with assms show ?thesis by (simp add: adapter_connect_def adapter_wf_emit)
qed

lemma adapter_wf_migrate:
  assumes "adapter_wf a"
  shows "adapter_wf (snd (adapter_migrate X ctl s route a))"
  unfolding adapter_migrate_def Let_def
  by (rule adapter_wf_seq, rule adapter_wf_update [OF assms], rule adapter_wf_opt, simp,
      rule adapter_wf_bind, erule adapter_wf_snapshot_for_route, rule adapter_wf_seq, simp,
      rule adapter_wf_bind, rule adapter_wf_if, erule adapter_wf_close_relay, simp,
      rule adapter_wf_bind, erule adapter_wf_upsert, simp add: adapter_wf_emit)

lemma adapter_wf_terminal: "adapter_wf a \<Longrightarrow> adapter_wf (record_terminal_session r a)"
proof -
  assume wf: "adapter_wf a"
  let ?id = "ss_session_id (sx_snapshot r)"
  let ?xs = "filter (\<lambda>e. ss_session_id (sx_snapshot e) \<noteq> ?id) (qa_terminal a)"
  have "distinct (map (\<lambda>r. ss_session_id (sx_snapshot r)) (?xs @ [r]))"
    using wf by (auto simp: adapter_wf_def terminal_ids_def distinct_map_filter)
  then have "distinct (map (\<lambda>r. ss_session_id (sx_snapshot r)) (pop_front_to n (?xs @ [r])))" for n
    unfolding pop_front_to_drop drop_map [symmetric] by (rule distinct_drop)
  with wf show ?thesis by (simp add: adapter_wf_def record_terminal_session_def terminal_ids_def)
qed

lemma adapter_wf_remove: "adapter_wf a \<Longrightarrow> adapter_wf (snd (remove_runtime_session sid a))"
  by (auto simp: remove_runtime_session_def intro!: adapter_wf_sessions)
     (auto simp: adapter_wf_def split: if_splits)

lemma adapter_wf_close:
  assumes "adapter_wf a"
  shows "adapter_wf (snd (adapter_close_session X ctl s a))"
  unfolding adapter_close_session_def Let_def
  by (rule adapter_wf_seq, rule adapter_wf_update [OF assms], rule adapter_wf_seq, erule adapter_wf_remove,
      rule adapter_wf_opt, simp, rule adapter_wf_bind, rule adapter_wf_if, erule adapter_wf_close_relay, simp,
      rule adapter_wf_seq, simp, simp add: adapter_wf_emit adapter_wf_terminal)

lemma adapter_wf_listen: "adapter_wf a \<Longrightarrow> adapter_wf (snd (adapter_listen X b a))"
  by (auto simp: adapter_listen_def upsert_runtime_listener_def adapter_wf_def terminal_ids_def Let_def
      case_prod_beta split: if_splits)

lemma adapter_wf_update_listener: "adapter_wf a \<Longrightarrow> adapter_wf (snd (update_listener_state i st r a))"
  by (auto simp: update_listener_state_def adapter_wf_def terminal_ids_def Let_def split: option.splits if_splits)

lemma adapter_wf_suppress: "adapter_wf a \<Longrightarrow> adapter_wf (snd (suppress_reconnect X p pr tc r a))"
proof -
  assume wf: "adapter_wf a"
  have "distinct (map sp_key (qa_suppressions (snd (suppress_reconnect X p pr tc r a))))"
    using wf unfolding suppress_upserts Let_def by (simp add: suppressions.distinct_upsert adapter_wf_def)
  moreover have "length (qa_events (snd (suppress_reconnect X p pr tc r a))) \<le> 256"
    by (simp add: suppress_reconnect_def Let_def case_prod_beta length_emit_events)
  ultimately show ?thesis
    using wf by (simp add: adapter_wf_def terminal_ids_def)
       (simp add: suppress_reconnect_def Let_def case_prod_beta)
qed

lemma adapter_wf_clear: "adapter_wf a \<Longrightarrow> adapter_wf (snd (clear_reconnect_suppression X p pr tc a))"
proof -
  assume wf: "adapter_wf a"
  have "adapter_wf (a\<lparr>qa_suppressions := filter (\<lambda>s. sp_key s \<noteq> (p, pr, tc)) (qa_suppressions a)\<rparr>)"
    using wf by (auto simp: adapter_wf_def terminal_ids_def distinct_map_filter)
  then show ?thesis
    by (auto simp: clear_reconnect_suppression_def Let_def split: option.split intro: adapter_wf_emit)
qed

interpretation attempts: keyed_vector at_key "\<lambda>x. upsert_by (\<lambda>y. at_key y = at_key x) (\<lambda>_. x) x"
  by unfold_locales (rule upsert_by_keyed upsert_by_keyed(3); assumption?)+

lemma scheduled_key:
  "at_key (first_attempt now p pr tc r m b x) = (p, pr, tc)"
  "at_key (next_attempt now r m b x e) = at_key e"
  by (simp_all add: at_key_def first_attempt_def next_attempt_def Let_def)

definition scheduled ::
  "u64 \<Rightarrow> reconnect_key \<Rightarrow> string \<Rightarrow> u32 \<Rightarrow> u64 \<Rightarrow> u64 \<Rightarrow> runtime_reconnect_attempt list \<Rightarrow> runtime_reconnect_attempt" where
  "scheduled now key r m b x xs =
     (case find (\<lambda>s. at_key s = key) xs of
        Some e \<Rightarrow> next_attempt now r m b x e
      | None \<Rightarrow> first_attempt now (fst key) (fst (snd key)) (snd (snd key)) r m b x)"

lemma at_key_scheduled: "at_key (scheduled now key r m b x xs) = key"
  by (auto simp: scheduled_def scheduled_key find_Some_iff split: option.split)

lemma schedule_result:
  "fst (schedule_reconnect X p pr tc r m b x a) = Ok (scheduled (fst (now_secs a)) (p, pr, tc) r m b x (qa_attempts a))"
  by (simp add: schedule_reconnect_def scheduled_def Let_def case_prod_beta split: option.split)

lemma schedule_attempts:
  "qa_attempts (snd (schedule_reconnect X p pr tc r m b x a)) =
     (let s = scheduled (fst (now_secs a)) (p, pr, tc) r m b x (qa_attempts a)
      in upsert_by (\<lambda>y. at_key y = at_key s) (\<lambda>_. s) s (qa_attempts a))"
proof -
  let ?s = "scheduled (fst (now_secs a)) (p, pr, tc) r m b x (qa_attempts a)"
  have s: "(case find (\<lambda>s. at_key s = (p, pr, tc)) (qa_attempts a) of
        Some e \<Rightarrow> next_attempt (fst (now_secs a)) r m b x e
      | None \<Rightarrow> first_attempt (fst (now_secs a)) p pr tc r m b x) = ?s"
    by (simp add: scheduled_def split: option.split)
  show ?thesis
    unfolding schedule_reconnect_def Let_def case_prod_beta now_secs_sel s at_key_scheduled by simp
qed

lemma schedule_frame:
  "qa_sessions (snd (schedule_reconnect X p pr tc r m b x a)) = qa_sessions a"
  "qa_listeners (snd (schedule_reconnect X p pr tc r m b x a)) = qa_listeners a"
  "qa_terminal (snd (schedule_reconnect X p pr tc r m b x a)) = qa_terminal a"
  "qa_suppressions (snd (schedule_reconnect X p pr tc r m b x a)) = qa_suppressions a"
  "length (qa_events (snd (schedule_reconnect X p pr tc r m b x a))) \<le> 256"
  by (simp_all add: schedule_reconnect_def Let_def case_prod_beta length_emit_events)

lemma adapter_wf_schedule: "adapter_wf a \<Longrightarrow> adapter_wf (snd (schedule_reconnect X p pr tc r m b x a))"
  by (simp add: adapter_wf_def terminal_ids_def schedule_frame schedule_attempts attempts.distinct_upsert Let_def)

lemma adapter_wf_clear_attempt: "adapter_wf a \<Longrightarrow> adapter_wf (snd (clear_reconnect_attempt X p pr tc o' a))"
proof -
  assume wf: "adapter_wf a"
  have "adapter_wf (a\<lparr>qa_attempts := filter (\<lambda>s. at_key s \<noteq> (p, pr, tc)) (qa_attempts a)\<rparr>)"
    using wf by (auto simp: adapter_wf_def terminal_ids_def distinct_map_filter)
  then show ?thesis
    by (auto simp: clear_reconnect_attempt_def Let_def split: option.split intro: adapter_wf_emit)
qed

lemma active_session_ids:
  assumes "adapter_wf a"
  shows "map ss_session_id (active_sessions a) = bt_keys (qa_sessions a)" and "distinct (map ss_session_id (active_sessions a))"
    and "session \<in> set (active_sessions a) \<longleftrightarrow> adapter_session_snapshot (ss_session_id session) a = Some session"
proof -
  have wf: "bt_wf (qa_sessions a)" and key: "\<And>k r. (k, r) \<in> set (qa_sessions a) \<Longrightarrow> ss_session_id (sx_snapshot r) = k"
    using assms by (auto simp: adapter_wf_def bt_mem_get)
  show ids: "map ss_session_id (active_sessions a) = bt_keys (qa_sessions a)"
    using key by (auto simp: active_sessions_def bt_values_def bt_keys_def)
  show "distinct (map ss_session_id (active_sessions a))"
    unfolding ids bt_keys_def by (rule bt_wf_distinct [OF wf])
  show "session \<in> set (active_sessions a) \<longleftrightarrow> adapter_session_snapshot (ss_session_id session) a = Some session"
  proof
    assume "session \<in> set (active_sessions a)"
    then obtain k r where "(k, r) \<in> set (qa_sessions a)" "session = sx_snapshot r"
      by (auto simp: active_sessions_def bt_values_def)
    with key bt_mem_get [OF wf] show "adapter_session_snapshot (ss_session_id session) a = Some session"
      by (simp add: adapter_session_snapshot_def)
  next
    assume "adapter_session_snapshot (ss_session_id session) a = Some session"
    then obtain r where "bt_get (qa_sessions a) (ss_session_id session) = Some r" "session = sx_snapshot r"
      by (auto simp: adapter_session_snapshot_def)
    with bt_mem_get [OF wf] have "(ss_session_id session, r) \<in> set (qa_sessions a)" by blast
    with \<open>session = sx_snapshot r\<close> show "session \<in> set (active_sessions a)"
      unfolding active_sessions_def bt_values_def by (simp add: image_image) (metis image_eqI snd_conv)
  qed
qed

text \<open>The operations of the interface \<open>SessionLifecycleTransport\<close> as steps. The label of a step says whether
  it imposes or lifts a suppression, and which.\<close>

datatype step_label = Imposes reconnect_key string | Lifts reconnect_key | Elsewhere

inductive adapter_step ::
  "'x keystore_env_scheme \<Rightarrow> 'r relay_control \<Rightarrow> step_label \<Rightarrow> 'r quic_adapter \<Rightarrow> 'r quic_adapter \<Rightarrow> bool"
  for X :: "'x keystore_env_scheme" and ctl :: "'r relay_control" where
  st_connect: "adapter_step X ctl Elsewhere a (snd (adapter_connect X ctl route a))"
| st_listen: "adapter_step X ctl Elsewhere a (snd (adapter_listen X b a))"
| st_state: "adapter_step X ctl Elsewhere a (snd (update_session_state X sid st cr sr a))"
| st_migrate: "adapter_step X ctl Elsewhere a (snd (adapter_migrate X ctl s route a))"
| st_close: "adapter_step X ctl Elsewhere a (snd (adapter_close_session X ctl s a))"
| st_listener: "adapter_step X ctl Elsewhere a (snd (update_listener_state i ls r a))"
| st_suppress: "adapter_step X ctl (Imposes (p, pr, tc) r) a (snd (suppress_reconnect X p pr tc r a))"
| st_unsuppress: "adapter_step X ctl (Lifts (p, pr, tc)) a (snd (clear_reconnect_suppression X p pr tc a))"
| st_schedule: "adapter_step X ctl Elsewhere a (snd (schedule_reconnect X p pr tc r m b' x a))"
| st_clear: "adapter_step X ctl Elsewhere a (snd (clear_reconnect_attempt X p pr tc out a))"
| st_event: "adapter_step X ctl Elsewhere a (snd (record_runtime_event ty sub d a))"

text \<open>The states reached by steps with labels of a set.\<close>

definition adapter_steps ::
  "'x keystore_env_scheme \<Rightarrow> 'r relay_control \<Rightarrow> step_label set \<Rightarrow> 'r quic_adapter \<Rightarrow> 'r quic_adapter \<Rightarrow> bool" where
  "adapter_steps X ctl L = (\<lambda>a b. \<exists>l \<in> L. adapter_step X ctl l a b)\<^sup>*\<^sup>*"

lemma adapter_steps_refl: "adapter_steps X ctl L a a"
  by (simp add: adapter_steps_def)

lemma adapter_steps_step: "adapter_steps X ctl L a b \<Longrightarrow> adapter_step X ctl l b c \<Longrightarrow> l \<in> L \<Longrightarrow> adapter_steps X ctl L a c"
  unfolding adapter_steps_def by (erule rtranclp.rtrancl_into_rtrancl) blast

lemmas adapter_wf_ops = adapter_wf_connect adapter_wf_listen adapter_wf_update adapter_wf_migrate
  adapter_wf_close adapter_wf_update_listener adapter_wf_suppress adapter_wf_clear adapter_wf_schedule
  adapter_wf_clear_attempt adapter_wf_emit

lemma adapter_step_wf: "adapter_step X ctl l a b \<Longrightarrow> adapter_wf a \<Longrightarrow> adapter_wf b"
  by (induction rule: adapter_step.induct) (auto simp: record_runtime_event_def intro: adapter_wf_ops)

lemma adapter_wf_with_identity: "adapter_wf (with_identity relay rand clock network me)"
  using adapter_wf_default [of relay rand clock] by (simp add: adapter_wf_def with_identity_def terminal_ids_def)

lemma adapter_reachable_wf: "adapter_steps X ctl L (with_identity relay rand clock network me) a \<Longrightarrow> adapter_wf a"
  unfolding adapter_steps_def
  by (induction rule: rtranclp_induct) (auto simp: adapter_wf_with_identity intro: adapter_step_wf)

text \<open>C17: In every state the adapter reaches by its operations from the start with the network and identity
  of a daemon, whatever relay control, clock and random source do, each session and each listener
  is filed under its own identifier, no two under the same, at most 32 closed sessions with distinct
  identifiers are remembered, at most 256 events are buffered, and there is at most one suppression
  and one reconnect attempt per peer, protocol and class.\<close>

theorem adapter_registries_invariant:
  assumes "adapter_steps X ctl UNIV (with_identity relay rand clock network me) a"
  shows "(\<forall>sid s. adapter_session_snapshot sid a = Some s \<longrightarrow> ss_session_id s = sid) \<and>
         distinct (map ss_session_id (active_sessions a)) \<and>
         (\<forall>i l. bt_get (qa_listeners a) i = Some l \<longrightarrow> ln_listener_id l = i) \<and>
         length (qa_terminal a) \<le> 32 \<and> distinct (map (\<lambda>r. ss_session_id (sx_snapshot r)) (qa_terminal a)) \<and>
         length (recent_events n a) \<le> 256 \<and>
         distinct (map sp_key (qa_suppressions a)) \<and> distinct (map at_key (qa_attempts a))"
proof -
  note wf = adapter_reachable_wf [OF assms]
  with active_session_ids(2) [OF wf] show ?thesis
    by (auto simp: adapter_wf_def adapter_session_snapshot_def recent_events_def MAX_TERMINAL_SESSIONS_def
        terminal_ids_def Let_def)
qed

definition sample_clock :: clockwork where
  "sample_clock = \<lparr>ck_secs = (\<lambda>n. 1000 + word_of_nat n), ck_nanos = id, ck_random = (\<lambda>n. [word_of_nat n]), ck_pos = 0\<rparr>"

definition sample_adapter :: "relay_world quic_adapter" where
  "sample_adapter = QuicTransportAdapter_default sample_world [1, 2] sample_clock"

section \<open>Suppression\<close>

lemma connect_suppressed:
  assumes "find_reconnect_suppression a (rt_peer route) (rt_protocol route) (rt_class route) = Some s"
  shows "\<exists>a'. adapter_connect X ctl route a = (Err (PolicyDenied (''reconnect suppressed: '' @ sp_reason s)), a') \<and>
           qa_sessions a' = qa_sessions a \<and> qa_relay a' = qa_relay a \<and> qa_suppressions a' = qa_suppressions a"
  using assms by (simp add: adapter_connect_def)

lemma suppressions_relay_close [simp]:
  "qa_suppressions (snd (close_relay_transport_session X ctl ep sid a)) = qa_suppressions a"
  by (auto simp: close_relay_transport_session_def split: option.splits prod.splits)

lemma suppressions_upsert [simp]: "qa_suppressions (snd (upsert_runtime_session X ctl r a)) = qa_suppressions a"
proof -
  let ?a = "a\<lparr>qa_sessions := bt_insert (ss_session_id (sx_snapshot r)) r (qa_sessions a)\<rparr>"
  have "qa_suppressions b = qa_suppressions a" if "close_relay_transport_session X ctl ep sid ?a = (q, b)" for ep sid q b
    using suppressions_relay_close [of X ctl ep sid ?a] that by simp
  then show ?thesis
    by (auto simp: upsert_runtime_session_def Let_def split: option.splits prod.splits result.splits if_splits)
qed

lemma suppressions_snapshot [simp]: "qa_suppressions (snd (session_snapshot_for_route X ctl route a)) = qa_suppressions a"
  by (auto simp: session_snapshot_for_route_def relay_session_snapshot_def direct_session_snapshot_def
      Let_def case_prod_beta split: option.splits list.splits result.splits)

lemma suppressions_state [simp]: "qa_suppressions (snd (update_session_state X sid st cr sr a)) = qa_suppressions a"
  by (auto simp: update_session_state_def Let_def case_prod_beta split: option.splits)

lemma suppressions_connect: "qa_suppressions (snd (adapter_connect X ctl route a)) = qa_suppressions a"
  unfolding adapter_connect_def
  by (rule after_opt, rule after_bind, simp, rule after_bind, simp_all)

lemma suppressions_migrate: "qa_suppressions (snd (adapter_migrate X ctl s route a)) = qa_suppressions a"
  unfolding adapter_migrate_def Let_def
  by (rule after_seq, simp, rule after_opt, simp, rule after_bind, simp, rule after_seq, simp,
      rule after_bind, rule after_if, simp_all, rule after_bind, simp_all)

lemma suppressions_close: "qa_suppressions (snd (adapter_close_session X ctl s a)) = qa_suppressions a"
  unfolding adapter_close_session_def Let_def
  by (rule after_seq, simp, rule after_seq, simp add: remove_runtime_session_def, rule after_opt, simp,
      rule after_bind, rule after_if, simp_all, rule after_seq, simp_all add: record_terminal_session_def)

lemma suppressions_kept:
  "qa_suppressions (snd (adapter_listen X b a)) = qa_suppressions a"
  "qa_suppressions (snd (update_listener_state i ls r a)) = qa_suppressions a"
  "qa_suppressions (snd (clear_reconnect_attempt X p pr tc out a)) = qa_suppressions a"
  "qa_suppressions (snd (record_runtime_event ty sub d a)) = qa_suppressions a"
  by (auto simp: adapter_listen_def upsert_runtime_listener_def update_listener_state_def clear_reconnect_attempt_def
      record_runtime_event_def Let_def case_prod_beta split: option.splits)

text \<open>A step changes at most the suppression its label names.\<close>

lemma step_suppression:
  assumes "adapter_step X ctl l a b"
  shows "map_option sp_reason (find_reconnect_suppression b p pr tc) =
    (case l of
       Imposes key r \<Rightarrow> if key = (p, pr, tc) then Some r else map_option sp_reason (find_reconnect_suppression a p pr tc)
     | Lifts key \<Rightarrow> if key = (p, pr, tc) then None else map_option sp_reason (find_reconnect_suppression a p pr tc)
     | Elsewhere \<Rightarrow> map_option sp_reason (find_reconnect_suppression a p pr tc))"
  using assms
  by (induction rule: adapter_step.induct)
     (auto simp: find_after_suppress find_after_clear, simp_all add: find_reconnect_suppression_def suppressions_connect
       suppressions_migrate suppressions_close suppressions_kept schedule_frame(4))

lemma steps_suppressed:
  assumes "adapter_steps X ctl L a b" and "map_option sp_reason (find_reconnect_suppression a p pr tc) = Some r"
    and "Lifts (p, pr, tc) \<notin> L"
  shows "\<exists>r'. map_option sp_reason (find_reconnect_suppression b p pr tc) = Some r' \<and>
              (r' = r \<or> Imposes (p, pr, tc) r' \<in> L)"
  using assms(1) unfolding adapter_steps_def
proof (induction rule: rtranclp_induct)
  case base
  then show ?case using assms(2) by blast
next
  case (step y z)
  then obtain l where l: "l \<in> L" "adapter_step X ctl l y z" by blast
  with step.IH assms(3) step_suppression [OF l(2), of p pr tc] show ?case by (cases l) (auto split: if_splits)
qed

text \<open>C18: A suppressed peer, protocol and class cannot be connected until the suppression is lifted. Through
  every sequence of adapter operations after the suppression, denied attempts included, in which
  this one is not cleared, an attempt is denied with the reason of the suppression (the first, or
  one imposed again meanwhile), opens no session, contacts no relay and leaves the suppressions as
  they are. Clearing the suppression lifts exactly this one; suppressing it leaves all others as
  they were.\<close>

theorem suppression_blocks_connect:
  assumes "rt_peer route = p" "rt_protocol route = pr" "rt_class route = tc"
    and "adapter_steps X ctl L (snd (suppress_reconnect X p pr tc reason a)) b" and "Lifts (p, pr, tc) \<notin> L"
  shows "(\<exists>r b'. adapter_connect X ctl route b = (Err (PolicyDenied (''reconnect suppressed: '' @ r)), b') \<and>
            (r = reason \<or> Imposes (p, pr, tc) r \<in> L) \<and>
            qa_sessions b' = qa_sessions b \<and> qa_relay b' = qa_relay b \<and> qa_suppressions b' = qa_suppressions b) \<and>
         find_reconnect_suppression (snd (clear_reconnect_suppression X p pr tc b)) p pr tc = None \<and>
         ((p', pr', tc') \<noteq> (p, pr, tc) \<longrightarrow>
            find_reconnect_suppression (snd (suppress_reconnect X p pr tc reason a)) p' pr' tc' =
              find_reconnect_suppression a p' pr' tc' \<and>
            find_reconnect_suppression (snd (clear_reconnect_suppression X p pr tc b)) p' pr' tc' =
              find_reconnect_suppression b p' pr' tc')"
proof -
  have "map_option sp_reason (find_reconnect_suppression (snd (suppress_reconnect X p pr tc reason a)) p pr tc) = Some reason"
    by (simp add: find_after_suppress)
  from steps_suppressed [OF assms(4) this assms(5)] obtain s where
    s: "find_reconnect_suppression b p pr tc = Some s" "sp_reason s = reason \<or> Imposes (p, pr, tc) (sp_reason s) \<in> L" by auto
  have "find_reconnect_suppression b (rt_peer route) (rt_protocol route) (rt_class route) = Some s"
    using s(1) assms(1-3) by simp
  from connect_suppressed [OF this, of X ctl] s(2) show ?thesis
    by (auto simp: find_after_suppress find_after_clear)
qed

definition sample_route :: route_plan where
  "sample_route =
     \<lparr>rt_local_peer = IdentityKeypair_peer_id (sample_keystore ()) (IdentityKeypair [1]), rt_peer = PeerId [9],
      rt_protocol = None, rt_class = Control, rt_path_kind = Relay, rt_source = Src_AuthorityRelay,
      rt_remote_endpoints = [],
      rt_relay = Some \<lparr>rp_relay_peer = PeerId [1], rp_relay_endpoints = [''quic://r''],
        rp_relay_control_endpoint = [], rp_destination_endpoints = [], rp_supports_datagrams = True,
        rp_supports_path_migration = True\<rparr>\<rparr>"

theorem suppression_blocks_connect_witness:
  "let ctl = InProcessRelayControl (sample_keystore ());
       a1 = snd (suppress_reconnect (sample_keystore ()) (PeerId [9]) None Control ''revoked'' sample_adapter);
       a2 = snd (adapter_connect (sample_keystore ()) ctl sample_route a1)
   in \<exists>a3. adapter_connect (sample_keystore ()) ctl sample_route a2 =
        (Err (PolicyDenied (''reconnect suppressed: '' @ ''revoked'')), a3) \<and> qa_sessions a3 = qa_sessions a2"
proof -
  let ?X = "sample_keystore ()"
  let ?ctl = "InProcessRelayControl ?X"
  let ?a1 = "snd (suppress_reconnect ?X (PeerId [9]) None Control ''revoked'' sample_adapter)"
  have route: "rt_peer sample_route = PeerId [9]" "rt_protocol sample_route = None" "rt_class sample_route = Control"
    by (simp_all add: sample_route_def)
  have "adapter_steps ?X ?ctl {Elsewhere} ?a1 (snd (adapter_connect ?X ?ctl sample_route ?a1))"
    by (rule adapter_steps_step [OF adapter_steps_refl st_connect]) simp
  from suppression_blocks_connect [OF route this, where p' = "PeerId []" and pr' = None and tc' = Control] show ?thesis unfolding Let_def by auto
qed

section \<open>Back-off\<close>

text \<open>The delay after the \<open>n\<close>-th attempt, as a number: doubling from the base, at most sixteen
  times, never above the maximum.\<close>

definition backoff_delay :: "nat \<Rightarrow> u64 \<Rightarrow> u64 \<Rightarrow> nat" where
  "backoff_delay n base_secs max_secs = min (unat base_secs * 2 ^ min (n - 1) 16) (unat max_secs)"

lemma unat_min_word: "unat (min a b) = min (unat a) (unat b)" for a b :: "'l::len word"
  by (simp add: min_def word_le_nat_alt)

lemma unat_push_bit_1: "n < 64 \<Longrightarrow> unat (push_bit n 1 :: u64) = 2 ^ n"
proof -
  assume "n < 64"
  then have "(2::nat) ^ n < 2 ^ 64" by (rule power_strict_increasing) simp
  then have "unat (word_of_nat (2 ^ n) :: u64) = 2 ^ n"
    by (simp only: unat_of_nat) (simp add: take_bit_nat_eq_self)
  then show ?thesis by (simp add: push_bit_eq_mult)
qed

lemma next_attempt_spec:
  assumes "unat (at_attempt_count e) + 1 < 2 ^ 32"
  shows "unat (at_attempt_count (next_attempt now r m b x e)) = unat (at_attempt_count e) + 1"
    and "at_state (next_attempt now r m b x e) =
           (if unat m \<le> unat (at_attempt_count e) + 1 then Attempt_Failed else BackingOff)"
    and "unat (at_next_attempt_unix_secs (next_attempt now r m b x e)) =
           min (unat now + backoff_delay (unat (at_attempt_count e) + 1) b x) (2 ^ 64 - 1)"
proof -
  have c: "unat (at_attempt_count e + 1) = unat (at_attempt_count e) + 1"
    using assms by (simp add: unat_word_ariths take_bit_nat_eq_self)
  then show "unat (at_attempt_count (next_attempt now r m b x e)) = unat (at_attempt_count e) + 1"
    by (simp add: next_attempt_def Let_def)
  show "at_state (next_attempt now r m b x e) =
      (if unat m \<le> unat (at_attempt_count e) + 1 then Attempt_Failed else BackingOff)"
    using c by (simp add: next_attempt_def Let_def word_le_nat_alt)
  let ?n = "unat (min (sat_sub (at_attempt_count e + 1) 1) 16)"
  have s: "unat (sat_sub (at_attempt_count e + 1) 1) = unat (at_attempt_count e)"
    by (simp add: unat_sat_sub c)
  then have n: "?n = min (unat (at_attempt_count e)) 16" by (simp add: unat_min_word)
  have "unat (push_bit ?n 1 :: u64) = 2 ^ ?n" by (rule unat_push_bit_1) (simp add: n)
  moreover have "unat x \<le> 2 ^ 64 - 1"
    using unsigned_less [of x, where 'a = nat] by simp
  ultimately have "unat (min (sat_mul b (push_bit ?n 1)) x) = backoff_delay (unat (at_attempt_count e) + 1) b x"
    unfolding unat_min_word unat_sat_mul backoff_delay_def by (simp add: s min.assoc)
  then show "unat (at_next_attempt_unix_secs (next_attempt now r m b x e)) =
      min (unat now + backoff_delay (unat (at_attempt_count e) + 1) b x) (2 ^ 64 - 1)"
    by (simp add: next_attempt_def Let_def unat_sat_add)
qed

lemma first_attempt_spec:
  "unat (at_attempt_count (first_attempt now p pr tc r m b x)) = 1"
  "at_state (first_attempt now p pr tc r m b x) = (if unat m \<le> 1 then Attempt_Failed else BackingOff)"
  "unat (at_next_attempt_unix_secs (first_attempt now p pr tc r m b x)) =
     min (unat now + backoff_delay 1 b x) (2 ^ 64 - 1)"
  by (simp_all add: first_attempt_def Let_def word_le_nat_alt unat_sat_add unat_min_word backoff_delay_def)

text \<open>Scheduling the same peer, protocol and class again and again.\<close>

fun schedule_times ::
  "nat \<Rightarrow> 'x codecs_scheme \<Rightarrow> reconnect_key \<Rightarrow> string \<Rightarrow> u32 \<Rightarrow> u64 \<Rightarrow> u64 \<Rightarrow> 'r quic_adapter \<Rightarrow> 'r quic_adapter" where
  "schedule_times 0 X key r m b x a = a"
| "schedule_times (Suc n) X key r m b x a =
     snd (schedule_reconnect X (fst key) (fst (snd key)) (snd (snd key)) r m b x (schedule_times n X key r m b x a))"

lemma find_after_schedule:
  "find (\<lambda>s. at_key s = key) (qa_attempts (snd (schedule_reconnect X (fst key) (fst (snd key)) (snd (snd key)) r m b x a))) =
   Some (scheduled (fst (now_secs a)) key r m b x (qa_attempts a))"
proof -
  let ?s = "scheduled (fst (now_secs a)) key r m b x (qa_attempts a)"
  have "find (\<lambda>s. at_key s = key) (upsert_by (\<lambda>y. at_key y = at_key ?s) (\<lambda>_. ?s) ?s (qa_attempts a)) = Some ?s"
    by (subst attempts.lookup_upsert) (simp add: at_key_scheduled)
  then show ?thesis by (simp add: schedule_attempts Let_def)
qed

lemma schedule_times_spec:
  assumes "find (\<lambda>s. at_key s = key) (qa_attempts a) = None" and "Suc n < 2 ^ 32"
  shows "\<exists>s now. find (\<lambda>s. at_key s = key) (qa_attempts (schedule_times (Suc n) X key r m b x a)) = Some s \<and>
           unat (at_attempt_count s) = Suc n \<and>
           at_state s = (if unat m \<le> Suc n then Attempt_Failed else BackingOff) \<and>
           unat (at_next_attempt_unix_secs s) = min (unat now + backoff_delay (Suc n) b x) (2 ^ 64 - 1) \<and>
           at_last_attempt_unix_secs s = now"
  using assms(2)
proof (induction n)
  case 0
  have "scheduled now key r m b x (qa_attempts a) = first_attempt now (fst key) (fst (snd key)) (snd (snd key)) r m b x"
    for now using assms(1) by (simp add: scheduled_def)
  then show ?case
    unfolding schedule_times.simps find_after_schedule
    by (auto simp: first_attempt_spec) (auto simp: first_attempt_def Let_def)
next
  case (Suc n)
  let ?a = "schedule_times (Suc n) X key r m b x a"
  from Suc obtain s where s: "find (\<lambda>s. at_key s = key) (qa_attempts ?a) = Some s" "unat (at_attempt_count s) = Suc n"
    by auto
  then have sch: "scheduled now key r m b x (qa_attempts ?a) = next_attempt now r m b x s" for now
    by (simp add: scheduled_def)
  have bound: "unat (at_attempt_count s) + 1 < 2 ^ 32" using Suc.prems s(2) by simp
  note spec = next_attempt_spec [OF bound, of "fst (now_secs ?a)" r m b x]
  have "at_last_attempt_unix_secs (next_attempt (fst (now_secs ?a)) r m b x s) = fst (now_secs ?a)"
    by (simp add: next_attempt_def Let_def)
  with spec show ?case
    unfolding schedule_times.simps(2) [of "Suc n"] find_after_schedule sch by (auto simp: s(2))
qed

text \<open>C19: Scheduling a reconnect over and over without success counts the attempts, waits after the
  n-th one the base delay doubled n - 1 times (at most sixteen) but never longer than the maximum,
  and gives up exactly from the configured number of attempts on. No count, delay or time wraps.\<close>

theorem reconnect_backoff_schedule:
  assumes "find (\<lambda>s. at_key s = key) (qa_attempts a) = None" and "0 < n" and "n < 2 ^ 32"
  shows "\<exists>s. find (\<lambda>s. at_key s = key) (qa_attempts (schedule_times n X key r m b x a)) = Some s \<and>
           unat (at_attempt_count s) = n \<and>
           (at_state s = Attempt_Failed \<longleftrightarrow> unat m \<le> n) \<and>
           unat (at_next_attempt_unix_secs s) =
             min (unat (at_last_attempt_unix_secs s) + min (unat b * 2 ^ min (n - 1) 16) (unat x)) (2 ^ 64 - 1)"
  using schedule_times_spec [OF assms(1), of "n - 1" X r m b x] assms(2,3)
  by (auto simp: backoff_delay_def)

theorem reconnect_backoff_schedule_witness:
  "\<exists>s. find (\<lambda>s. at_key s = (PeerId [9], None, Control))
         (qa_attempts (schedule_times 3 (sample_keystore ()) (PeerId [9], None, Control) ''lost'' 3 2 60 sample_adapter)) = Some s \<and>
       unat (at_attempt_count s) = 3 \<and> at_state s = Attempt_Failed"
proof -
  have "find (\<lambda>s. at_key s = (PeerId [9], None, Control)) (qa_attempts sample_adapter) = None"
    by (simp add: sample_adapter_def QuicTransportAdapter_default_def)
  from reconnect_backoff_schedule [OF this, of 3 "sample_keystore ()" "''lost''" 3 2 60] show ?thesis by auto
qed

section \<open>Closing sessions\<close>

lemma update_session_state_get:
  "bt_get (qa_sessions (snd (update_session_state X sid st cr sr a))) k =
   (if k = sid then map_option (\<lambda>r. r\<lparr>sx_snapshot := (sx_snapshot r)\<lparr>ss_state := st, ss_closure_reason := cr,
        ss_state_reason := sr, ss_last_activity_unix_secs := fst (now_secs a)\<rparr>\<rparr>) (bt_get (qa_sessions a) k)
    else bt_get (qa_sessions a) k)"
  by (simp add: update_session_state_def Let_def case_prod_beta split: option.split)

lemma update_session_state_frame [simp]:
  "qa_relay (snd (update_session_state X sid st cr sr a)) = qa_relay a"
  "qa_terminal (snd (update_session_state X sid st cr sr a)) = qa_terminal a"
  "qa_runtime_instance_id (snd (update_session_state X sid st cr sr a)) = qa_runtime_instance_id a"
  "qa_network_id (snd (update_session_state X sid st cr sr a)) = qa_network_id a"
  "qa_local_identity (snd (update_session_state X sid st cr sr a)) = qa_local_identity a"
  by (simp_all add: update_session_state_def Let_def case_prod_beta split: option.split)

lemma close_relay_frame [simp]:
  "qa_sessions (snd (close_relay_transport_session X ctl ep sid a)) = qa_sessions a"
  "qa_terminal (snd (close_relay_transport_session X ctl ep sid a)) = qa_terminal a"
  by (simp_all add: close_relay_transport_session_def split: option.split prod.split)

lemma terminal_after_record:
  "terminal_session_snapshot k (record_terminal_session r a) =
     (if k = ss_session_id (sx_snapshot r) then Some (sx_snapshot r)
      else terminal_session_snapshot k (record_terminal_session r a))"
proof (cases "k = ss_session_id (sx_snapshot r)")
  case True
  let ?id = "\<lambda>e. ss_session_id (sx_snapshot e)"
  let ?xs = "filter (\<lambda>e. ?id e \<noteq> ?id r) (qa_terminal a)"
  have "find (\<lambda>e. ?id e = k) (drop n ?xs) = None" for n
    using True by (auto simp: find_None_iff dest: in_set_dropD)
  moreover have "\<exists>n. pop_front_to MAX_TERMINAL_SESSIONS (?xs @ [r]) = drop n ?xs @ [r]"
    unfolding pop_front_to_drop MAX_TERMINAL_SESSIONS_def by (rule exI [of _ "length (?xs @ [r]) - 32"]) simp
  ultimately show ?thesis
    using True by (auto simp: terminal_session_snapshot_def record_terminal_session_def find_append)
qed simp

text \<open>The part of closing after the session has left the registry.\<close>

definition close_removed ::
  "'x codecs_scheme \<Rightarrow> 'r relay_control \<Rightarrow> runtime_session_record \<Rightarrow> 'r quic_adapter \<Rightarrow>
   (unit, transport_error) result \<times> 'r quic_adapter" where
  "close_removed X ctl active a =
     (if ss_path_kind (sx_snapshot active) = Relay
      then close_relay_transport_session X ctl (ss_relay_control_endpoint (sx_snapshot active))
             (ss_transport_session_id (sx_snapshot active)) a
      else (Ok (), a))"

lemma close_removed_frame [simp]:
  "qa_sessions (snd (close_removed X ctl active a)) = qa_sessions a"
  "qa_terminal (snd (close_removed X ctl active a)) = qa_terminal a"
  by (simp_all add: close_removed_def)

definition closing_record ::
  "session_snapshot \<Rightarrow> 'r quic_adapter \<Rightarrow> runtime_session_record \<Rightarrow> runtime_session_record" where
  "closing_record s a r = r\<lparr>sx_snapshot := (sx_snapshot r)\<lparr>ss_state := SS_Closing,
     ss_closure_reason := or_opt (ss_closure_reason (sx_snapshot r)) (ss_closure_reason s),
     ss_state_reason := or_opt (ss_state_reason (sx_snapshot r)) (ss_state_reason s),
     ss_last_activity_unix_secs := fst (now_secs a)\<rparr>\<rparr>"

definition closing_adapter :: "'x codecs_scheme \<Rightarrow> session_snapshot \<Rightarrow> runtime_session_record \<Rightarrow> 'r quic_adapter \<Rightarrow> 'r quic_adapter" where
  "closing_adapter X s r a = snd (remove_runtime_session (ss_session_id s)
     (snd (update_session_state X (ss_session_id s) SS_Closing
        (or_opt (ss_closure_reason (sx_snapshot r)) (ss_closure_reason s))
        (or_opt (ss_state_reason (sx_snapshot r)) (ss_state_reason s)) a)))"

lemma closing_adapter_sel:
  "bt_get (qa_sessions (closing_adapter X s r a)) k = (if k = ss_session_id s then None else bt_get (qa_sessions a) k)"
  "qa_relay (closing_adapter X s r a) = qa_relay a"
  "qa_terminal (closing_adapter X s r a) = qa_terminal a"
  by (simp_all add: closing_adapter_def remove_runtime_session_def update_session_state_get)

lemma adapter_close_absent:
  assumes "bt_get (qa_sessions a) (ss_session_id s) = None"
  shows "\<exists>a'. adapter_close_session X ctl s a = (Ok (), a') \<and> qa_relay a' = qa_relay a \<and>
              qa_terminal a' = qa_terminal a \<and> (\<forall>k. bt_get (qa_sessions a') k = bt_get (qa_sessions a) k)"
  using assms
  by (simp add: adapter_close_session_def Let_def case_prod_beta remove_runtime_session_def update_session_state_def)

lemma adapter_close_present:
  assumes "bt_get (qa_sessions a) (ss_session_id s) = Some r"
  shows "adapter_close_session X ctl s a =
     (case close_removed X ctl (closing_record s a r) (closing_adapter X s r a) of
        (Err e, b) \<Rightarrow> (Err e, b)
      | (Ok _, b) \<Rightarrow>
          let session = sx_snapshot (closing_record s a r);
              (now, b) = now_secs b;
              terminal = session\<lparr>ss_state := SS_Closed, ss_last_activity_unix_secs := now\<rparr>;
              b = record_terminal_session \<lparr>sx_snapshot = terminal,
                    sx_alpn_protocol = sx_alpn_protocol (closing_record s a r)\<rparr> b
          in (Ok (), emit_runtime_event ''session.closed'' (session_subject (ss_session_id session))
                (json_object
                  [(''peer_id'', JString (PeerId_to_text X (ss_peer session))),
                   (''prior_state'', JString (runtime_session_state_label SS_Closing)),
                   (''next_state'', JString (runtime_session_state_label SS_Closed)),
                   (''closure_reason'',
                      json_str_opt (map_option session_closure_reason_label (ss_closure_reason terminal))),
                   (''reason'', json_str_opt (ss_state_reason terminal))]) b))"
proof -
  let ?cr = "or_opt (ss_closure_reason (sx_snapshot r)) (ss_closure_reason s)"
  let ?sr = "or_opt (ss_state_reason (sx_snapshot r)) (ss_state_reason s)"
  let ?u = "snd (update_session_state X (ss_session_id s) SS_Closing ?cr ?sr a)"
  have g: "bt_get (qa_sessions ?u) (ss_session_id s) = Some (closing_record s a r)"
    using assms by (simp add: update_session_state_get closing_record_def)
  have e: "adapter_session_snapshot (ss_session_id s) a = Some (sx_snapshot r)"
    using assms by (simp add: adapter_session_snapshot_def)
  have rm: "remove_runtime_session (ss_session_id s) ?u = (Some (closing_record s a r), closing_adapter X s r a)"
    using g by (simp add: remove_runtime_session_def closing_adapter_def)
  show ?thesis
    unfolding adapter_close_session_def close_removed_def Let_def e Option.bind.simps
    by (subst surjective_pairing [of "update_session_state X (ss_session_id s) SS_Closing ?cr ?sr a"])
       (simp only: prod.case rm option.case)
qed

lemma record_terminal_frame [simp]:
  "qa_sessions (record_terminal_session r a) = qa_sessions a"
  "qa_relay (record_terminal_session r a) = qa_relay a"
  by (simp_all add: record_terminal_session_def)

lemma closing_record_sel [simp]:
  "ss_session_id (sx_snapshot (closing_record s a r)) = ss_session_id (sx_snapshot r)"
  "ss_peer (sx_snapshot (closing_record s a r)) = ss_peer (sx_snapshot r)"
  "ss_path_kind (sx_snapshot (closing_record s a r)) = ss_path_kind (sx_snapshot r)"
  "ss_relay_control_endpoint (sx_snapshot (closing_record s a r)) = ss_relay_control_endpoint (sx_snapshot r)"
  "ss_transport_session_id (sx_snapshot (closing_record s a r)) = ss_transport_session_id (sx_snapshot r)"
  "ss_closure_reason (sx_snapshot (closing_record s a r)) = or_opt (ss_closure_reason (sx_snapshot r)) (ss_closure_reason s)"
  by (simp_all add: closing_record_def)

lemma terminal_emit [simp]:
  "terminal_session_snapshot k (emit_runtime_event ty su d c) = terminal_session_snapshot k c"
  by (simp add: terminal_session_snapshot_def)

lemma adapter_close_Ok:
  assumes "bt_get (qa_sessions a) (ss_session_id s) = Some r"
    and "close_removed X ctl (closing_record s a r) (closing_adapter X s r a) = (Ok u, b)"
  shows "\<exists>a' t. adapter_close_session X ctl s a = (Ok (), a') \<and> qa_relay a' = qa_relay b \<and>
           qa_sessions a' = qa_sessions b \<and>
           terminal_session_snapshot (ss_session_id (sx_snapshot r)) a' = Some t \<and> ss_state t = SS_Closed \<and>
           ss_peer t = ss_peer (sx_snapshot r) \<and>
           ss_closure_reason t = or_opt (ss_closure_reason (sx_snapshot r)) (ss_closure_reason s)"
proof -
  let ?t = "(sx_snapshot (closing_record s a r))\<lparr>ss_state := SS_Closed, ss_last_activity_unix_secs := fst (now_secs b)\<rparr>"
  have "terminal_session_snapshot (ss_session_id (sx_snapshot r))
      (record_terminal_session \<lparr>sx_snapshot = ?t, sx_alpn_protocol = al\<rparr> (snd (now_secs b))) = Some ?t" for al
    by (subst terminal_after_record) simp
  then show ?thesis
    unfolding adapter_close_present [OF assms(1)] assms(2)
    by (simp add: Let_def case_prod_beta)
qed

lemma close_unregisters:
  assumes "adapter_close_session X ctl s a = (r, a')"
  shows "adapter_session_snapshot (ss_session_id s) a' = None"
proof (cases "bt_get (qa_sessions a) (ss_session_id s)")
  case None
  with adapter_close_absent [OF None, of X ctl] assms show ?thesis by (auto simp: adapter_session_snapshot_def)
next
  case (Some rec)
  obtain q b where q: "close_removed X ctl (closing_record s a rec) (closing_adapter X s rec a) = (q, b)" by fastforce
  then have "qa_sessions b = qa_sessions (closing_adapter X s rec a)"
    using close_removed_frame(1) [of X ctl "closing_record s a rec" "closing_adapter X s rec a"] by simp
  then show ?thesis
    using assms q by (cases q) (auto simp: adapter_close_present [OF Some] Let_def case_prod_beta
        adapter_session_snapshot_def closing_adapter_sel)
qed

text \<open>C16: After a close the session is gone from the registry and no other session has changed,
  whatever the relay answers. If the close succeeds, a session that was registered is found in
  the ledger of closed sessions in state closed, for the same peer; if it fails, the ledger is as
  before.\<close>

theorem adapter_close_spec:
  assumes "adapter_wf a" and "adapter_close_session X ctl s a = (r, a')"
  shows "adapter_session_snapshot (ss_session_id s) a' = None \<and>
         (\<forall>k. k \<noteq> ss_session_id s \<longrightarrow> adapter_session_snapshot k a' = adapter_session_snapshot k a) \<and>
         (case (r, adapter_session_snapshot (ss_session_id s) a) of
            (Ok _, Some old) \<Rightarrow> (\<exists>t. terminal_session_snapshot (ss_session_id s) a' = Some t \<and>
                                   ss_state t = SS_Closed \<and> ss_peer t = ss_peer old)
          | _ \<Rightarrow> qa_terminal a' = qa_terminal a)"
proof (cases "bt_get (qa_sessions a) (ss_session_id s)")
  case None
  with adapter_close_absent [OF None, of X ctl] assms(2) show ?thesis
    by (auto simp: adapter_session_snapshot_def split: result.splits)
next
  case (Some rec)
  then have id: "ss_session_id (sx_snapshot rec) = ss_session_id s" using assms(1) by (simp add: adapter_wf_def)
  obtain q b where q: "close_removed X ctl (closing_record s a rec) (closing_adapter X s rec a) = (q, b)" by fastforce
  then have b: "qa_sessions b = qa_sessions (closing_adapter X s rec a)" "qa_terminal b = qa_terminal a"
    using close_removed_frame [of X ctl "closing_record s a rec" "closing_adapter X s rec a"]
    by (simp_all add: closing_adapter_sel)
  show ?thesis
  proof (cases q)
    case (Ok u)
    from adapter_close_Ok [OF Some q [unfolded Ok]] obtain t where
      "r = Ok ()" "qa_sessions a' = qa_sessions b"
      "terminal_session_snapshot (ss_session_id (sx_snapshot rec)) a' = Some t" "ss_state t = SS_Closed"
      "ss_peer t = ss_peer (sx_snapshot rec)" using assms(2) by auto
    with b Some id show ?thesis by (simp add: adapter_session_snapshot_def closing_adapter_sel)
  next
    case (Err e)
    with assms(2) q have "r = Err e" "a' = b" by (simp_all add: adapter_close_present [OF Some])
    with b Some show ?thesis by (simp add: adapter_session_snapshot_def closing_adapter_sel)
  qed
qed

definition ss_template :: session_snapshot where
  "ss_template =
     \<lparr>ss_session_id = [], ss_transport_session_id = [], ss_relay_attempt_id = None, ss_peer = PeerId [9],
      ss_protocol = None, ss_class = Control, ss_path_kind = Lan, ss_source = Src_Observed,
      ss_remote_endpoint = [], ss_relay_peer = None, ss_relay_endpoint = None,
      ss_relay_control_endpoint = None, ss_datagrams_capable = True, ss_migration_capable = True,
      ss_state = SS_Active, ss_closure_reason = None, ss_state_reason = None,
      ss_created_at_unix_secs = 0, ss_last_activity_unix_secs = 0\<rparr>"

theorem adapter_close_spec_witness:
  "adapter_session_snapshot [5] (snd (adapter_close_session (sample_keystore ())
      (InProcessRelayControl (sample_keystore ())) (ss_template\<lparr>ss_session_id := [5]\<rparr>) sample_adapter)) = None"
proof -
  have wf: "adapter_wf sample_adapter" unfolding sample_adapter_def by (rule adapter_wf_default)
  show ?thesis
    using adapter_close_spec [OF wf prod.collapse [symmetric],
        where X = "sample_keystore ()" and ctl = "InProcessRelayControl (sample_keystore ())"
          and s = "ss_template\<lparr>ss_session_id := [5]\<rparr>"]
    by simp
qed

definition identified_adapter :: "relay_world quic_adapter" where
  "identified_adapter = with_identity sample_world [1, 2] sample_clock (NetworkId [3]) (IdentityKeypair [1])"

definition direct_route :: route_plan where
  "direct_route =
     \<lparr>rt_local_peer = IdentityKeypair_peer_id (sample_keystore ()) (IdentityKeypair [1]), rt_peer = PeerId [9],
      rt_protocol = None, rt_class = Control, rt_path_kind = Lan, rt_source = Src_Observed,
      rt_remote_endpoints = [''quic://h:1''], rt_relay = None\<rparr>"

lemma direct_connect:
  "\<exists>s. qa_sessions (snd (adapter_connect (sample_keystore ()) ctl direct_route identified_adapter)) =
        [(ss_session_id s, \<lparr>sx_snapshot = s, sx_alpn_protocol = None\<rparr>)] \<and> ss_path_kind s = Lan"
  by (simp add: adapter_connect_def find_reconnect_suppression_def identified_adapter_def with_identity_def
      QuicTransportAdapter_default_def session_snapshot_for_route_def direct_session_snapshot_def direct_route_def
      upsert_runtime_session_def alpn_def bt_insert_def bt_get_def Let_def case_prod_beta)

text \<open>A session is opened and closed: it is registered first, and then remembered.\<close>

theorem adapter_registries_invariant_witness:
  "\<exists>a b s. adapter_steps (sample_keystore ()) (InProcessRelayControl (sample_keystore ())) UNIV identified_adapter a \<and>
     active_sessions a = [s] \<and> adapter_session_snapshot (ss_session_id s) a = Some s \<and>
     adapter_steps (sample_keystore ()) (InProcessRelayControl (sample_keystore ())) UNIV identified_adapter b \<and>
     terminal_session_snapshot (ss_session_id s) b \<noteq> None \<and> length (qa_terminal b) \<le> 32 \<and>
     distinct (map (\<lambda>r. ss_session_id (sx_snapshot r)) (qa_terminal b))"
proof -
  let ?X = "sample_keystore ()"
  let ?ctl = "InProcessRelayControl ?X"
  let ?a = "snd (adapter_connect ?X ?ctl direct_route identified_adapter)"
  have a: "adapter_steps ?X ?ctl UNIV identified_adapter ?a"
    by (rule adapter_steps_step [OF adapter_steps_refl st_connect]) simp
  from direct_connect obtain s where
    reg: "qa_sessions ?a = [(ss_session_id s, \<lparr>sx_snapshot = s, sx_alpn_protocol = None\<rparr>)]" and lan: "ss_path_kind s = Lan" by blast
  let ?b = "snd (adapter_close_session ?X ?ctl s ?a)"
  have b: "adapter_steps ?X ?ctl UNIV identified_adapter ?b" by (rule adapter_steps_step [OF a st_close]) simp
  have r: "bt_get (qa_sessions ?a) (ss_session_id s) = Some \<lparr>sx_snapshot = s, sx_alpn_protocol = None\<rparr>"
    by (simp add: reg bt_get_def)
  have "\<exists>c. close_removed ?X ?ctl (closing_record s ?a \<lparr>sx_snapshot = s, sx_alpn_protocol = None\<rparr>)
      (closing_adapter ?X s \<lparr>sx_snapshot = s, sx_alpn_protocol = None\<rparr> ?a) = (Ok (), c)"
    using lan by (simp add: close_removed_def)
  with adapter_close_Ok [OF r] have t: "terminal_session_snapshot (ss_session_id s) ?b \<noteq> None" by fastforce
  from reg have "active_sessions ?a = [s]" "adapter_session_snapshot (ss_session_id s) ?a = Some s"
    by (simp_all add: active_sessions_def bt_values_def adapter_session_snapshot_def bt_get_def)
  with a b t adapter_registries_invariant [OF b [unfolded identified_adapter_def], of 0] show ?thesis
    unfolding identified_adapter_def by blast
qed

section \<open>Relay sessions are released\<close>

context relay_control_laws
begin

lemma close_relay_known:
  assumes "inv (qa_relay a)" and "ctl_session ctl ep tid (qa_relay a) = Ok (Some s)"
  shows "\<exists>b. close_relay_transport_session X ctl (Some ep) tid a = (Ok (), b) \<and> inv (qa_relay b) \<and>
           ctl_session ctl ep tid (qa_relay b) = Ok (Some (s\<lparr>rs_status := RS_Closed\<rparr>))"
proof -
  from close_known [OF assms, of "''path migrated''"] obtain w' where
    c: "ctl_close ctl ep tid ''path migrated'' (qa_relay a) = (Ok (), w')" and
    s: "ctl_session ctl ep tid w' = Ok (Some (s\<lparr>rs_status := RS_Closed\<rparr>))" by blast
  have "inv w'" using close_inv [OF assms(1) c] .
  with c s show ?thesis by (simp add: close_relay_transport_session_def)
qed

lemma adapter_close_releases:
  assumes "inv (qa_relay a)" and "bt_get (qa_sessions a) (ss_session_id s) = Some r"
    and "ss_path_kind (sx_snapshot r) = Relay"
    and "ss_relay_control_endpoint (sx_snapshot r) = Some ep"
    and "ctl_session ctl ep (ss_transport_session_id (sx_snapshot r)) (qa_relay a) = Ok (Some rs)"
  shows "\<exists>a'. adapter_close_session X ctl s a = (Ok (), a') \<and> inv (qa_relay a') \<and>
           ctl_session ctl ep (ss_transport_session_id (sx_snapshot r)) (qa_relay a') =
             Ok (Some (rs\<lparr>rs_status := RS_Closed\<rparr>))"
proof -
  let ?c = "closing_adapter X s r a"
  have "inv (qa_relay ?c)" "ctl_session ctl ep (ss_transport_session_id (sx_snapshot r)) (qa_relay ?c) = Ok (Some rs)"
    using assms(1,5) by (simp_all add: closing_adapter_sel)
  from close_relay_known [OF this, of X] obtain b where
    b: "close_relay_transport_session X ctl (Some ep) (ss_transport_session_id (sx_snapshot r)) ?c = (Ok (), b)"
    "inv (qa_relay b)" "ctl_session ctl ep (ss_transport_session_id (sx_snapshot r)) (qa_relay b) =
       Ok (Some (rs\<lparr>rs_status := RS_Closed\<rparr>))" by blast
  have "close_removed X ctl (closing_record s a r) ?c = (Ok (), b)"
    using b(1) assms(3,4) by (simp add: close_removed_def closing_record_def)
  from adapter_close_Ok [OF assms(2) this] b(2,3) show ?thesis by auto
qed

lemma fst_Ok_pair: "fst p = Ok y \<Longrightarrow> p = (Ok y, snd p)"
  by (cases p) simp

text \<open>A connection over a relay holds an open relay session of the two peers.\<close>

lemma relay_snapshot_opens:
  assumes "inv (qa_relay a)" and "relay_session_snapshot X ctl route relay a = (Ok s, a')"
  shows "inv (qa_relay a') \<and> ss_relay_control_endpoint s = Some (rp_relay_control_endpoint relay) \<and>
         ss_path_kind s = rt_path_kind route \<and> ss_peer s = rt_peer route \<and>
         qa_sessions a' = qa_sessions a \<and>
         (\<exists>rs. ctl_session ctl (rp_relay_control_endpoint relay) (ss_transport_session_id s) (qa_relay a') = Ok (Some rs) \<and>
               rs_status rs = RS_Open \<and> rs_destination rs = rt_peer route \<and> rs_source rs = rt_local_peer route)"
proof -
  from assms(2) obtain n i e es where g: "qa_network_id a = Some n" "qa_local_identity a = Some i"
      "IdentityKeypair_peer_id X i = rt_local_peer route" "rp_relay_endpoints relay = e # es"
    by (auto simp: relay_session_snapshot_def Let_def case_prod_beta split: option.splits if_splits list.splits)
  have "\<exists>q acc. fst (ctl_open ctl (rp_relay_control_endpoint relay) q (qa_relay a)) = Ok acc \<and>
      snd (ctl_open ctl (rp_relay_control_endpoint relay) q (qa_relay a)) = qa_relay a' \<and>
      oq_source q = rt_local_peer route \<and> oq_destination q = rt_peer route \<and>
      ss_transport_session_id s = ra_session_id acc \<and>
      ss_relay_control_endpoint s = Some (rp_relay_control_endpoint relay) \<and>
      ss_path_kind s = rt_path_kind route \<and> ss_peer s = rt_peer route \<and> qa_sessions a' = qa_sessions a"
    using assms(2) g
    by (simp add: relay_session_snapshot_def Let_def case_prod_beta split: result.splits)
       (elim conjE, rule exI, rule exI, rule conjI, assumption, auto)
  then obtain q acc where q: "fst (ctl_open ctl (rp_relay_control_endpoint relay) q (qa_relay a)) = Ok acc"
      "snd (ctl_open ctl (rp_relay_control_endpoint relay) q (qa_relay a)) = qa_relay a'"
      "oq_source q = rt_local_peer route" "oq_destination q = rt_peer route"
    and s: "ss_transport_session_id s = ra_session_id acc"
      "ss_relay_control_endpoint s = Some (rp_relay_control_endpoint relay)"
      "ss_path_kind s = rt_path_kind route" "ss_peer s = rt_peer route" "qa_sessions a' = qa_sessions a" by blast
  from open_accepted [OF assms(1) fst_Ok_pair [OF q(1), unfolded q(2)]] q(3,4) s show ?thesis by auto
qed

end

end
