(* ===== verification/Quip_Relay_Path.thy ===== *)
theory Quip_Relay_Path
  imports Quip_Quic_Laws
begin

text \<open>
  Sessions over a relay, end to end: the adapter of crates/quic asks the relay of crates/relay for
  a session with a credential of crates/identity. The theory shows that a relay that serves the
  destination admits what the adapter asks for, that the connection is registered with an open
  relay session behind it, and that closing it releases the relay session. The client side is
  proved in the locale of relay controls and used here for the in-process one.
\<close>

section \<open>The request the adapter makes\<close>

definition relay_request ::
  "'x keystore_env_scheme \<Rightarrow> route_plan \<Rightarrow> network_id \<Rightarrow> identity_keypair \<Rightarrow> 'r quic_adapter \<Rightarrow> relay_open_request" where
  "relay_request X route n i a =
     (let c = qa_clock a; p = ck_pos c in
      \<lparr>oq_attempt_id = ck_random c (Suc (Suc (Suc p))), oq_network_id = n, oq_source = rt_local_peer route,
       oq_source_public_key = public_key X i,
       oq_source_credential = SessionCredential_issue X (ck_secs c (Suc p)) (ck_random c (Suc (Suc p))) n i
         (session_public (SessionKeypair_generate X (ck_random c p)))
         (case rt_protocol route of Some protocol \<Rightarrow> [ProtocolId_as_str protocol] | None \<Rightarrow> [''/quip/relay/1''])
         300 1,
       oq_destination = rt_peer route, oq_protocol = rt_protocol route, oq_traffic_class = rt_class route\<rparr>)"

definition relay_ready ::
  "'x keystore_env_scheme \<Rightarrow> route_plan \<Rightarrow> relay_plan \<Rightarrow> network_id \<Rightarrow> identity_keypair \<Rightarrow> 'r quic_adapter \<Rightarrow> bool" where
  "relay_ready X route relay n i a \<longleftrightarrow>
     qa_network_id a = Some n \<and> qa_local_identity a = Some i \<and>
     IdentityKeypair_peer_id X i = rt_local_peer route \<and> rp_relay_endpoints relay \<noteq> []"

lemma clock_draws:
  "fst (draw_bytes a) = ck_random (qa_clock a) (ck_pos (qa_clock a))"
  "fst (now_secs a) = ck_secs (qa_clock a) (ck_pos (qa_clock a))"
  "ck_random (qa_clock (snd (draw_bytes a))) = ck_random (qa_clock a)"
  "ck_secs (qa_clock (snd (draw_bytes a))) = ck_secs (qa_clock a)"
  "ck_pos (qa_clock (snd (draw_bytes a))) = Suc (ck_pos (qa_clock a))"
  "ck_random (qa_clock (snd (now_secs a))) = ck_random (qa_clock a)"
  "ck_secs (qa_clock (snd (now_secs a))) = ck_secs (qa_clock a)"
  "ck_pos (qa_clock (snd (now_secs a))) = Suc (ck_pos (qa_clock a))"
  by (simp_all add: draw_bytes_def now_secs_def random_bytes_def current_unix_secs_def)

lemma relay_snapshot_request:
  assumes "relay_ready X route relay n i a"
    and "ctl_open ctl (rp_relay_control_endpoint relay) (relay_request X route n i a) (qa_relay a) = (Ok acc, w)"
  shows "\<exists>s b. relay_session_snapshot X ctl route relay a = (Ok s, b) \<and> ss_transport_session_id s = ra_session_id acc \<and>
           ss_session_id s = logical_session_id X (qa_runtime_instance_id a) route \<and> ss_state s = SS_Active"
  using assms
  by (cases "rp_relay_endpoints relay")
     (simp_all add: relay_session_snapshot_def relay_ready_def Let_def case_prod_beta relay_request_def
       clock_draws)

lemma upsert_fresh:
  assumes "bt_get (qa_sessions a) (ss_session_id (sx_snapshot r)) = None"
  shows "\<exists>b. upsert_runtime_session X ctl r a = (Ok (), b) \<and> qa_relay b = qa_relay a \<and>
           bt_get (qa_sessions b) (ss_session_id (sx_snapshot r)) = Some r"
  using assms by (simp add: upsert_runtime_session_def Let_def)

context relay_control_laws
begin

lemma relay_connect_then_close:
  assumes "inv (qa_relay a)" and "relay_ready X route relay n i a"
    and "rt_relay route = Some relay" and "rt_path_kind route = Relay"
    and "find_reconnect_suppression a (rt_peer route) (rt_protocol route) (rt_class route) = None"
    and "adapter_session_snapshot (logical_session_id X (qa_runtime_instance_id a) route) a = None"
    and "ctl_open ctl (rp_relay_control_endpoint relay) (relay_request X route n i a) (qa_relay a) = (Ok acc, w)"
  shows "\<exists>h a1 a2 rs. adapter_connect X ctl route a = (Ok h, a1) \<and>
           adapter_session_snapshot (ss_session_id (qc_session h)) a1 = Some (qc_session h) \<and>
           ss_peer (qc_session h) = rt_peer route \<and> ss_state (qc_session h) = SS_Active \<and>
           ss_transport_session_id (qc_session h) = ra_session_id acc \<and>
           ctl_session ctl (rp_relay_control_endpoint relay) (ra_session_id acc) (qa_relay a1) = Ok (Some rs) \<and>
           rs_status rs = RS_Open \<and> rs_destination rs = rt_peer route \<and> rs_source rs = rt_local_peer route \<and>
           adapter_close_session X ctl (qc_session h) a1 = (Ok (), a2) \<and>
           ctl_session ctl (rp_relay_control_endpoint relay) (ra_session_id acc) (qa_relay a2) =
             Ok (Some (rs\<lparr>rs_status := RS_Closed\<rparr>))"
proof -
  from relay_snapshot_request [OF assms(2,7)] obtain s b where
    s: "relay_session_snapshot X ctl route relay a = (Ok s, b)" "ss_transport_session_id s = ra_session_id acc"
       "ss_session_id s = logical_session_id X (qa_runtime_instance_id a) route" "ss_state s = SS_Active" by blast
  from relay_snapshot_opens [OF assms(1) s(1)] obtain rs where
    b: "inv (qa_relay b)" "ss_relay_control_endpoint s = Some (rp_relay_control_endpoint relay)"
      "ss_path_kind s = Relay" "ss_peer s = rt_peer route" "qa_sessions b = qa_sessions a" and
    rs: "ctl_session ctl (rp_relay_control_endpoint relay) (ra_session_id acc) (qa_relay b) = Ok (Some rs)"
      "rs_status rs = RS_Open" "rs_destination rs = rt_peer route" "rs_source rs = rt_local_peer route"
    using s(2) assms(4) by auto
  let ?r = "\<lparr>sx_snapshot = s, sx_alpn_protocol = alpn route\<rparr>"
  have "bt_get (qa_sessions b) (ss_session_id (sx_snapshot ?r)) = None"
    using assms(6) b(5) s(3) by (simp add: adapter_session_snapshot_def)
  from upsert_fresh [OF this, of X ctl] obtain a1 where
    u: "upsert_runtime_session X ctl ?r b = (Ok (), a1)" "qa_relay a1 = qa_relay b"
       "bt_get (qa_sessions a1) (ss_session_id s) = Some ?r" by auto
  have c: "adapter_connect X ctl route a = (Ok \<lparr>qc_session = s, qc_alpn_protocol = alpn route\<rparr>, a1)"
    using assms(3,5) s(1) u(1) by (simp add: adapter_connect_def session_snapshot_for_route_def)
  have "inv (qa_relay a1)" using b(1) u(2) by simp
  from adapter_close_releases [OF this u(3), of "rp_relay_control_endpoint relay" rs X] b(2,3) rs(1) s(2) u(2)
  obtain a2 where "adapter_close_session X ctl s a1 = (Ok (), a2)"
    "ctl_session ctl (rp_relay_control_endpoint relay) (ra_session_id acc) (qa_relay a2) =
       Ok (Some (rs\<lparr>rs_status := RS_Closed\<rparr>))" by auto
  with c u b(4) rs s(2,4) show ?thesis by (auto simp: adapter_session_snapshot_def)
qed

end

section \<open>Admission\<close>

text \<open>What the relay that answers at an endpoint must grant: it is running, serves the class and
  the destination, has room for the source, and its clock has not passed the credential's end.\<close>

definition relay_admits ::
  "'x keystore_env_scheme \<Rightarrow> route_plan \<Rightarrow> relay_plan \<Rightarrow> u64 \<Rightarrow> relay_world \<Rightarrow> bool" where
  "relay_admits X route relay issued_at w \<longleftrightarrow>
     (case resolve_inproc_relay_peer X (rp_relay_control_endpoint relay) (rw_registry w) of
        Err _ \<Rightarrow> False
      | Ok p \<Rightarrow>
          (case bt_get (rw_registry w) p of
             None \<Rightarrow> False
           | Some sv \<Rightarrow>
               supports_traffic_class (an_traffic_classes (rn_announcement (sv_node sv))) (rt_class route) \<and>
               is_ok (authorize_destination (rn_destinations (sv_node sv)) (rt_peer route) (rt_protocol route)) \<and>
               (case quota_of sv (rt_local_peer route) of
                  None \<Rightarrow> True
                | Some q \<Rightarrow> (word_of_nat (active_for_source (sv_runtime sv) (rt_local_peer route)) :: u32)
                              < rq_max_concurrent_sessions q) \<and>
               rw_clock w (rw_tick w) \<le> issued_at + 300 \<and>
               RelayService_session sv (rw_random w (rw_tick w)) = None))"

lemma inproc_open_admissible:
  assumes "resolve_inproc_relay_peer X ep (rw_registry w) = Ok p" and "bt_get (rw_registry w) p = Some sv"
    and "admissible X (rw_clock w (rw_tick w)) q sv" and "RelayService_session sv (rw_random w (rw_tick w)) = None"
  shows "\<exists>w'. inproc_open X ep q w = (Ok (accepted_of q (rw_random w (rw_tick w))), w')"
  using open_session_admits [OF assms(3), of "rw_random w (rw_tick w)"] assms
  by (simp add: inproc_open_def open_registered_session_def RelayService_session_def RelayRuntime_session_def)

lemma relay_request_admissible:
  assumes "ed25519_ok X" and "relay_ready X route relay n i a"
    and "supports_traffic_class (an_traffic_classes (rn_announcement (sv_node sv))) (rt_class route)"
    and "is_ok (authorize_destination (rn_destinations (sv_node sv)) (rt_peer route) (rt_protocol route))"
    and "case quota_of sv (rt_local_peer route) of None \<Rightarrow> True
         | Some q \<Rightarrow> (word_of_nat (active_for_source (sv_runtime sv) (rt_local_peer route)) :: u32)
                       < rq_max_concurrent_sessions q"
    and "now \<le> ck_secs (qa_clock a) (Suc (ck_pos (qa_clock a))) + 300"
  shows "admissible X now (relay_request X route n i a) sv"
proof -
  from assms(4) obtain d where
    "find (\<lambda>c. rd_peer c = rt_peer route) (rn_destinations (sv_node sv)) = Some d"
    "\<forall>p. rt_protocol route = Some p \<longrightarrow> p \<in> set (rd_protocols d)"
    by (cases "authorize_destination (rn_destinations (sv_node sv)) (rt_peer route) (rt_protocol route)")
       (auto simp: authorize_destination_Ok)
  moreover have "SessionCredential_verify X (oq_source_credential (relay_request X route n i a)) (public_key X i) = Ok ()"
    by (simp add: relay_request_def Let_def SessionCredential_issue_verify [OF assms(1)])
  ultimately show ?thesis
    using assms(2,3,5,6)
    by (auto simp: admissible_def relay_request_def relay_ready_def Let_def SessionCredential_issue_def
        IdentityKeypair_peer_id_def split: option.splits)
qed

text \<open>C5: Given sound signatures, an adapter with a network identity and the route's local
  identity connects over any in-process relay that serves the route: the connection succeeds, is
  registered as active for the route's peer, and an open relay session between the two peers
  stands behind it. Closing the connection succeeds, takes it out of the registry and leaves
  that relay session closed.\<close>

theorem relay_connect_close:
  fixes X :: "'x keystore_env_scheme" and a :: "relay_world quic_adapter"
  assumes "ed25519_ok X" and "world_ok (qa_relay a)"
    and "relay_ready X route relay n i a" and "rt_relay route = Some relay" and "rt_path_kind route = Relay"
    and "find_reconnect_suppression a (rt_peer route) (rt_protocol route) (rt_class route) = None"
    and "adapter_session_snapshot (logical_session_id X (qa_runtime_instance_id a) route) a = None"
    and "relay_admits X route relay (ck_secs (qa_clock a) (Suc (ck_pos (qa_clock a)))) (qa_relay a)"
  shows "\<exists>h a1 a2 rs.
     adapter_connect X (InProcessRelayControl X) route a = (Ok h, a1) \<and>
     adapter_session_snapshot (ss_session_id (qc_session h)) a1 = Some (qc_session h) \<and>
     ss_peer (qc_session h) = rt_peer route \<and> ss_state (qc_session h) = SS_Active \<and>
     inproc_session X (rp_relay_control_endpoint relay) (ss_transport_session_id (qc_session h)) (qa_relay a1) = Ok (Some rs) \<and>
     rs_status rs = RS_Open \<and> rs_destination rs = rt_peer route \<and> rs_source rs = rt_local_peer route \<and>
     adapter_close_session X (InProcessRelayControl X) (qc_session h) a1 = (Ok (), a2) \<and>
     adapter_session_snapshot (ss_session_id (qc_session h)) a2 = None \<and>
     inproc_session X (rp_relay_control_endpoint relay) (ss_transport_session_id (qc_session h)) (qa_relay a2) =
       Ok (Some (rs\<lparr>rs_status := RS_Closed\<rparr>))"
proof -
  let ?C = "InProcessRelayControl X" and ?ep = "rp_relay_control_endpoint relay"
  from assms(8) obtain p sv where
    p: "resolve_inproc_relay_peer X ?ep (rw_registry (qa_relay a)) = Ok p" "bt_get (rw_registry (qa_relay a)) p = Some sv"
    and f: "RelayService_session sv (rw_random (qa_relay a) (rw_tick (qa_relay a))) = None"
    and adm: "admissible X (rw_clock (qa_relay a) (rw_tick (qa_relay a))) (relay_request X route n i a) sv"
    using relay_request_admissible [OF assms(1,3)]
    by (auto simp: relay_admits_def split: result.splits option.splits)
  from inproc_open_admissible [OF p adm f] obtain acc w where
    o: "ctl_open ?C ?ep (relay_request X route n i a) (qa_relay a) = (Ok acc, w)"
    by (auto simp: InProcessRelayControl_def)
  from inproc.relay_connect_then_close [OF assms(2,3,4,5,6,7) o] obtain h a1 a2 rs where
    h: "adapter_connect X ?C route a = (Ok h, a1)"
       "adapter_session_snapshot (ss_session_id (qc_session h)) a1 = Some (qc_session h)"
       "ss_peer (qc_session h) = rt_peer route" "ss_state (qc_session h) = SS_Active"
       "ss_transport_session_id (qc_session h) = ra_session_id acc"
       "ctl_session ?C ?ep (ra_session_id acc) (qa_relay a1) = Ok (Some rs)"
       "rs_status rs = RS_Open" "rs_destination rs = rt_peer route" "rs_source rs = rt_local_peer route"
       "adapter_close_session X ?C (qc_session h) a1 = (Ok (), a2)"
       "ctl_session ?C ?ep (ra_session_id acc) (qa_relay a2) = Ok (Some (rs\<lparr>rs_status := RS_Closed\<rparr>))" by blast
  moreover have "adapter_session_snapshot (ss_session_id (qc_session h)) a2 = None"
    by (rule close_unregisters [OF h(10)])
  ultimately show ?thesis by (auto simp: InProcessRelayControl_def)
qed

definition sample_relay_plan :: relay_plan where
  "sample_relay_plan = \<lparr>rp_relay_peer = PeerId [1], rp_relay_endpoints = [''quic://r''],
     rp_relay_control_endpoint = [], rp_destination_endpoints = [], rp_supports_datagrams = True,
     rp_supports_path_migration = True\<rparr>"

definition sample_relay_route :: route_plan where
  "sample_relay_route =
     \<lparr>rt_local_peer = IdentityKeypair_peer_id (sample_keystore ()) (IdentityKeypair [1]), rt_peer = PeerId [9],
      rt_protocol = None, rt_class = Control, rt_path_kind = Relay, rt_source = Src_AuthorityRelay,
      rt_remote_endpoints = [], rt_relay = Some sample_relay_plan\<rparr>"

definition sample_identified :: "relay_world quic_adapter" where
  "sample_identified = with_identity sample_world [1, 2] sample_clock (NetworkId [4]) (IdentityKeypair [1])"

lemma sample_identified_sel:
  "qa_network_id sample_identified = Some (NetworkId [4])"
  "qa_local_identity sample_identified = Some (IdentityKeypair [1])"
  "qa_relay sample_identified = sample_world" "qa_suppressions sample_identified = []"
  "qa_sessions sample_identified = []" "qa_clock sample_identified = sample_clock"
  by (simp_all add: sample_identified_def with_identity_def QuicTransportAdapter_default_def)

lemma sample_relay_route_sel:
  "rt_relay sample_relay_route = Some sample_relay_plan" "rt_path_kind sample_relay_route = Relay"
  by (simp_all add: sample_relay_route_def)

lemma sample_relay_admits:
  "relay_admits (sample_keystore ()) sample_relay_route sample_relay_plan 1001 sample_world"
proof -
  have "admissible (sample_keystore ()) 6 sample_request (RelayService_new sample_node)" by (rule sample_admissible)
  then show ?thesis
    using sample_world_registry
    by (auto simp: relay_admits_def sample_relay_plan_def sample_relay_route_def sample_request_def admissible_def
        authorize_destination_def sample_node_def RelayService_new_def sample_world_def
        RelayService_session_def RelayRuntime_session_def split: option.splits)
qed

theorem relay_connect_close_witness:
  "\<exists>h a1 a2. adapter_connect (sample_keystore ()) (InProcessRelayControl (sample_keystore ())) sample_relay_route
       sample_identified = (Ok h, a1) \<and> ss_peer (qc_session h) = PeerId [9] \<and>
     adapter_close_session (sample_keystore ()) (InProcessRelayControl (sample_keystore ())) (qc_session h) a1 = (Ok (), a2)"
proof -
  have "relay_ready (sample_keystore ()) sample_relay_route sample_relay_plan (NetworkId [4]) (IdentityKeypair [1])
      sample_identified"
    by (simp add: relay_ready_def sample_identified_sel sample_relay_route_def sample_relay_plan_def)
  moreover have "relay_admits (sample_keystore ()) sample_relay_route sample_relay_plan
      (ck_secs (qa_clock sample_identified) (Suc (ck_pos (qa_clock sample_identified)))) (qa_relay sample_identified)"
    using sample_relay_admits by (simp add: sample_identified_sel sample_clock_def)
  moreover have "world_ok (qa_relay sample_identified)" by (simp add: sample_identified_sel sample_world_ok)
  ultimately have "\<exists>h a1 a2. adapter_connect (sample_keystore ()) (InProcessRelayControl (sample_keystore ())) sample_relay_route
       sample_identified = (Ok h, a1) \<and> ss_peer (qc_session h) = rt_peer sample_relay_route \<and>
     adapter_close_session (sample_keystore ()) (InProcessRelayControl (sample_keystore ())) (qc_session h) a1 = (Ok (), a2)"
    using relay_connect_close [where X = "sample_keystore ()" and a = sample_identified and
        route = sample_relay_route and relay = sample_relay_plan and n = "NetworkId [4]" and i = "IdentityKeypair [1]",
        OF sample_keystore_primitives_ok(3)]
    by (simp add: sample_relay_route_sel find_reconnect_suppression_def sample_identified_sel adapter_session_snapshot_def)
       blast
  then show ?thesis by (simp add: sample_relay_route_def)
qed

end
