(* ===== verification/Quip_Relay_Daemon.thy ===== *)
theory Quip_Relay_Daemon
  imports Quip_Relay_Http
begin

text \<open>
  The relay daemon \<open>cmd/relay\<close>: the relay its arguments describe, the start of its control server
  and the loop that serves requests. What a connection delivers (the time and the drawn identifier
  at the request, its method, address, declared length and body, and whether the reply could be
  written) is a record per request; binding the server is a parameter. A failed \<open>expect\<close> ends the
  loop.
\<close>

section \<open>The relay of the arguments\<close>

record relay_args =
  rg_region :: string
  rg_max_bandwidth_mbps :: u64
  rg_peer_seed :: "string option"
  rg_bind :: string
  rg_control_endpoint :: string
  rg_advertise_addresses :: "string list"
  rg_allow_destinations :: "string list"

definition relay_announced :: "'x primitives_scheme \<Rightarrow> relay_args \<Rightarrow> relay_announcement" where
  "relay_announced X args =
     (let peer_seed = (case rg_peer_seed args of Some seed \<Rightarrow> seed | None \<Rightarrow> ''relay:'' @ rg_region args);
          peer_id = IdentityKeypair_peer_id X (from_secret_bytes (hash_bytes X (as_bytes peer_seed)))
      in \<lparr>an_peer_id = peer_id, an_region = rg_region args,
          an_advertised_endpoints =
            (if rg_advertise_addresses args = [] then [''quic://127.0.0.1:443''] else rg_advertise_addresses args),
          an_control_endpoint = rg_control_endpoint args,
          an_max_bandwidth_bps = rg_max_bandwidth_mbps args * 1000000,
          an_supports_quic_datagrams = True, an_supports_path_migration = True,
          an_traffic_classes = [''NetworkControl'', ''InteractiveRpc'', ''Background'']\<rparr>)"

definition ready_line :: "relay_args \<Rightarrow> relay_service \<Rightarrow> string" where
  "ready_line args service =
     ''relay ready in region '' @ an_region (rn_announcement (sv_node service)) @
     '' with '' @ show_word (an_max_bandwidth_bps (rn_announcement (sv_node service))) @
     '' bps capacity destinations='' @ show_nat (length (rn_destinations (sv_node service))) @
     '' control_endpoint='' @ an_control_endpoint (rn_announcement (sv_node service)) @
     '' bind='' @ rg_bind args"

definition relay_start ::
  "'x primitives_scheme \<Rightarrow> (string \<Rightarrow> (unit, string) result) \<Rightarrow> relay_args \<Rightarrow> (relay_service \<times> string, panic) result" where
  "relay_start X bind args =
     (case parse_destinations X (rg_allow_destinations args) of
        Err p \<Rightarrow> Err p
      | Ok destinations \<Rightarrow>
          let service = RelayService_new
                \<lparr>rn_announcement = relay_announced X args, rn_quotas = [], rn_destinations = destinations\<rparr>
          in case bind (rg_bind args) of
               Err _ \<Rightarrow> Err (Panic ''relay control server should bind'')
             | Ok _ \<Rightarrow> Ok (service, ready_line args service))"

section \<open>The server loop\<close>

record relay_call =
  rc_now :: u64
  rc_random :: bytes
  rc_method :: string
  rc_url :: string
  rc_body_length :: "nat option"
  rc_read_exact :: "nat \<Rightarrow> (bytes, string) result"
  rc_respond :: "u16 \<times> string \<Rightarrow> (unit, string) result"

definition respond :: "'z relay_serde_scheme \<Rightarrow> relay_call \<Rightarrow> u16 \<times> string \<Rightarrow> (unit, panic) result" where
  "respond S call reply = (case rc_respond call reply of
     Ok _ \<Rightarrow> Ok ()
   | Err _ \<Rightarrow>
       (case read_request_body S (rc_method call) (rc_body_length call) (rc_read_exact call) of
          Err _ \<Rightarrow> Err (Panic ''relay control error response should write'')
        | Ok _ \<Rightarrow> Err (Panic ''relay control response should write'')))"

text \<open>The replies written, how the loop ended and the service it leaves.\<close>

fun serve_requests ::
  "'x keystore_env_scheme \<Rightarrow> 'z relay_serde_scheme \<Rightarrow> relay_call list \<Rightarrow> relay_service \<Rightarrow>
   (u16 \<times> string) list \<times> (unit, panic) result \<times> relay_service" where
  "serve_requests X S [] sv = ([], Ok (), sv)"
| "serve_requests X S (call # calls) sv =
     (case serve_request X S (rc_now call) (rc_random call) (rc_method call) (rc_url call) (rc_body_length call)
             (rc_read_exact call) sv of
        (Err p, sv') \<Rightarrow> ([], Err p, sv')
      | (Ok reply, sv') \<Rightarrow>
          (case respond S call reply of
             Err p \<Rightarrow> ([], Err p, sv')
           | Ok _ \<Rightarrow> (case serve_requests X S calls sv' of (replies, r, sv'') \<Rightarrow> (reply # replies, r, sv''))))"

section \<open>Laws\<close>

text \<open>A rule of the command line that lets a peer be reached under a protocol.\<close>

definition rule_allows :: "'x codecs_scheme \<Rightarrow> string \<Rightarrow> peer_id \<Rightarrow> protocol_id option \<Rightarrow> bool" where
  "rule_allows X rule destination protocol \<longleftrightarrow>
     (case split_once (CHR ''='') rule of
        None \<Rightarrow> False
      | Some (peer, protocols) \<Rightarrow>
          PeerId_from_str X peer = Ok destination \<and>
          (case protocol of
             None \<Rightarrow> True
           | Some p \<Rightarrow> ProtocolId_as_str p \<in> trim ` set (split_on (CHR '','') protocols)))"

lemma parse_protocols_texts: "parse_protocols ts = Ok ps \<Longrightarrow> map ProtocolId_as_str ps = ts"
  by (induction ts arbitrary: ps) (auto simp: ProtocolId_new_def ProtocolId_as_str_def split: result.splits if_splits)

lemma parse_destinations_rules:
  assumes "parse_destinations X rules = Ok ds" and "d \<in> set ds" and "\<forall>p. protocol = Some p \<longrightarrow> p \<in> set (rd_protocols d)"
  shows "\<exists>rule \<in> set rules. rule_allows X rule (rd_peer d) protocol"
  using assms
proof (induction rules arbitrary: ds)
  case (Cons rule rules)
  from Cons.prems(1) obtain peer protocols p ps ds' where
    parts: "split_once (CHR ''='') rule = Some (peer, protocols)" "PeerId_from_str X peer = Ok p"
      "parse_protocols (filter (\<lambda>s. s \<noteq> []) (map trim (split_on (CHR '','') protocols))) = Ok ps"
      "parse_destinations X rules = Ok ds'" "ds = \<lparr>rd_peer = p, rd_protocols = ps\<rparr> # ds'"
    by (auto split: option.splits prod.splits result.splits)
  have "ProtocolId_as_str ` set ps = set (filter (\<lambda>s. s \<noteq> []) (map trim (split_on (CHR '','') protocols)))"
    by (simp flip: parse_protocols_texts [OF parts(3)])
  then have "\<forall>q \<in> set ps. ProtocolId_as_str q \<in> trim ` set (split_on (CHR '','') protocols)" by auto
  then have head: "rule_allows X rule (rd_peer d) protocol" if "d = \<lparr>rd_peer = p, rd_protocols = ps\<rparr>"
    using that parts(1,2) Cons.prems(3) by (auto simp: rule_allows_def split: option.split)
  show ?case
  proof (cases "d \<in> set ds'")
    case True
    with Cons.IH [OF parts(4)] Cons.prems(3) show ?thesis by auto
  next
    case False
    with Cons.prems(2) parts(5) head show ?thesis by simp
  qed
qed simp

text \<open>What the table of a relay with given rules holds: each session under its own identifier, of a
  class the relay announces, to a destination a rule allows under the protocol of the session.\<close>

definition sessions_allowed :: "'x codecs_scheme \<Rightarrow> string list \<Rightarrow> relay_service \<Rightarrow> bool" where
  "sessions_allowed X rules sv \<longleftrightarrow>
     (\<forall>sid s. RelayService_session sv sid = Some s \<longrightarrow>
        rs_traffic_class s \<noteq> Bulk \<and> (\<exists>rule \<in> set rules. rule_allows X rule (rs_destination s) (rs_protocol s)))"

definition relay_of_rules :: "'x codecs_scheme \<Rightarrow> string list \<Rightarrow> relay_service \<Rightarrow> bool" where
  "relay_of_rules X rules sv \<longleftrightarrow>
     parse_destinations X rules = Ok (rn_destinations (sv_node sv)) \<and>
     an_traffic_classes (rn_announcement (sv_node sv)) = [''NetworkControl'', ''InteractiveRpc'', ''Background''] \<and>
     service_ok sv \<and> sessions_allowed X rules sv"

lemma relay_start_of_rules: "relay_start X bind args = Ok (sv, line) \<Longrightarrow> relay_of_rules X (rg_allow_destinations args) sv"
  by (auto simp: relay_start_def relay_of_rules_def sessions_allowed_def service_ok_new Let_def relay_announced_def
      RelayService_session_def RelayRuntime_session_def split: result.splits)
     (auto simp: RelayService_new_def bt_get_def)

lemma admissible_allowed:
  assumes "relay_of_rules X rules sv" and "admissible X now q sv"
  shows "oq_traffic_class q \<noteq> Bulk \<and> (\<exists>rule \<in> set rules. rule_allows X rule (oq_destination q) (oq_protocol q))"
proof -
  from assms(2) obtain d where d: "find (\<lambda>c. rd_peer c = oq_destination q) (rn_destinations (sv_node sv)) = Some d"
    "\<forall>p. oq_protocol q = Some p \<longrightarrow> p \<in> set (rd_protocols d)" by (auto simp: admissible_def)
  then have "d \<in> set (rn_destinations (sv_node sv))" "rd_peer d = oq_destination q"
    by (auto simp: find_Some_iff)
  with parse_destinations_rules [of X rules _ d "oq_protocol q"] assms d(2) show ?thesis
    by (auto simp: relay_of_rules_def admissible_def supports_traffic_class_def)
qed

lemma open_session_allowed:
  assumes "relay_of_rules X rules sv" and "RelayService_open_session X now sid q sv = (r, sv')"
  shows "relay_of_rules X rules sv'"
  using assms(2)
proof (cases rule: open_session_cases)
  case accepted
  have "service_ok sv'" "sv_node sv' = sv_node sv"
    using open_session_ok [OF _ assms(2)] assms(1) by (auto simp: relay_of_rules_def)
  with assms(1) accepted(4) admissible_allowed [OF assms(1) accepted(2)] show ?thesis
    by (auto simp: relay_of_rules_def sessions_allowed_def RelayService_session_def RelayRuntime_session_def
        admitted_runtime_get)
qed (use assms(1) in simp)

lemma close_session_allowed:
  assumes "relay_of_rules X rules sv" and "RelayService_close_session sid reason sv = (r, sv')"
  shows "relay_of_rules X rules sv'"
proof -
  have ok: "service_ok sv'" "sv_node sv' = sv_node sv"
    using close_session_ok [OF _ assms(2)] assms(1) by (auto simp: relay_of_rules_def)
  have "sv' = sv \<or> sv_runtime sv' = bt_modify sid (\<lambda>s. s\<lparr>rs_status := RS_Closed\<rparr>) (sv_runtime sv)"
    using assms(2) by (auto simp: RelayService_close_session_def apply_frame_def split: if_splits)
  with ok assms(1) show ?thesis
    by (fastforce simp: relay_of_rules_def sessions_allowed_def RelayService_session_def RelayRuntime_session_def
        bt_get_modify split: if_splits)
qed

lemma serve_request_allowed:
  assumes "relay_of_rules X rules sv" and "serve_request X S now rand method url len rd sv = (r, sv')"
  shows "relay_of_rules X rules sv'"
  using assms(2) assms(1)
  by (auto simp: serve_request_def control_response_def
      split: result.splits prod.splits if_splits option.splits
      intro: open_session_allowed close_session_allowed)

lemma serve_requests_allowed:
  "relay_of_rules X rules sv \<Longrightarrow> serve_requests X S calls sv = (replies, r, sv') \<Longrightarrow>
   relay_of_rules X rules sv' \<and> length replies \<le> length calls \<and> (r = Ok () \<longrightarrow> length replies = length calls)"
proof (induction calls arbitrary: sv replies)
  case (Cons call calls)
  obtain o1 sv1 where s: "serve_request X S (rc_now call) (rc_random call) (rc_method call) (rc_url call)
      (rc_body_length call) (rc_read_exact call) sv = (o1, sv1)" by fastforce
  from serve_request_allowed [OF Cons.prems(1) this] Cons.IH [of sv1] Cons.prems(2) s show ?case
    by (fastforce split: result.splits prod.splits)
qed simp

text \<open>C4: The relay daemon serves only what its operator allowed. Whatever requests reach a relay
  that has started, every session in its table is filed under its own identifier, carries no bulk
  traffic, and goes to a peer that a rule "--allow-destination" names, under a protocol of that
  rule; and every request is answered as long as no reply fails to be written and no handler
  panics.\<close>

theorem relay_daemon_confined:
  assumes "relay_start X bind args = Ok (sv, line)" and "serve_requests X S calls sv = (replies, r, sv')"
  shows "(\<forall>sid s. RelayService_session sv' sid = Some s \<longrightarrow>
            rs_session_id s = sid \<and> rs_traffic_class s \<noteq> Bulk \<and>
            (\<exists>rule \<in> set (rg_allow_destinations args). rule_allows X rule (rs_destination s) (rs_protocol s))) \<and>
         length replies \<le> length calls \<and> (r = Ok () \<longrightarrow> length replies = length calls)"
  using serve_requests_allowed [OF relay_start_of_rules [OF assms(1)] assms(2)]
  by (auto simp: relay_of_rules_def sessions_allowed_def service_ok_def runtime_wf_def RelayService_session_def
      RelayRuntime_session_def)

text \<open>A relay that allows one destination and opens a session to it.\<close>

definition sample_relay_args :: relay_args where
  "sample_relay_args =
     \<lparr>rg_region = ''lab'', rg_max_bandwidth_mbps = 9, rg_peer_seed = None, rg_bind = ''127.0.0.1:9081'',
      rg_control_endpoint = ''http://127.0.0.1:9081'', rg_advertise_addresses = [],
      rg_allow_destinations = [PeerId_to_text (sample_keystore ()) (PeerId [9]) @ ''='']\<rparr>"

definition sample_open_body :: bytes where
  "sample_open_body = as_bytes (open_request_to_string sample_relay_serde sample_request)"

definition sample_open_call :: relay_call where
  "sample_open_call =
     \<lparr>rc_now = 6, rc_random = [7, 0], rc_method = ''POST'', rc_url = ''/sessions'',
      rc_body_length = Some (length sample_open_body), rc_read_exact = (\<lambda>_. Ok sample_open_body),
      rc_respond = (\<lambda>_. Ok ())\<rparr>"

lemma sample_open_body_length: "length sample_open_body \<le> MAX_CONTROL_BODY_BYTES"
  by code_simp

lemma sample_rule: "parse_destinations (sample_keystore ()) (rg_allow_destinations sample_relay_args) =
    Ok [\<lparr>rd_peer = PeerId [9], rd_protocols = []\<rparr>]"
  by code_simp

theorem relay_daemon_confined_witness:
  "\<exists>sv line reply sv' s rule. relay_start (sample_keystore ()) (\<lambda>_. Ok ()) sample_relay_args = Ok (sv, line) \<and>
     serve_requests (sample_keystore ()) sample_relay_serde [sample_open_call] sv = ([reply], Ok (), sv') \<and>
     RelayService_session sv' [7, 0] = Some s \<and> rs_status s = RS_Open \<and> rule \<in> set (rg_allow_destinations sample_relay_args) \<and>
     rule_allows (sample_keystore ()) rule (rs_destination s) (rs_protocol s)"
proof -
  let ?X = "sample_keystore ()" and ?S = sample_relay_serde
  let ?sv = "RelayService_new \<lparr>rn_announcement = relay_announced ?X sample_relay_args, rn_quotas = [],
      rn_destinations = [\<lparr>rd_peer = PeerId [9], rd_protocols = []\<rparr>]\<rparr>"
  have start: "relay_start ?X (\<lambda>_. Ok ()) sample_relay_args = Ok (?sv, ready_line sample_relay_args ?sv)"
    by (simp add: relay_start_def sample_rule Let_def)
  have "admissible ?X 6 sample_request ?sv"
    using sample_admissible
    by (simp add: admissible_def RelayService_new_def sample_node_def supports_traffic_class_def relay_announced_def
        quota_of_def sample_request_def Let_def)
  from open_session_admits [OF this, of "[7, 0]"]
  have op: "RelayService_open_session ?X 6 [7, 0] sample_request ?sv =
      (Ok (accepted_of sample_request [7, 0]), ?sv\<lparr>sv_runtime := admitted_runtime sample_request [7, 0] []\<rparr>)"
    by (simp add: RelayService_new_def)
  have "open_request_from_slice ?S sample_open_body = Ok sample_request"
    using sample_relay_serde_ok by (simp add: relay_serde_ok_def sample_open_body_def)
  with op have serve: "serve_requests ?X ?S [sample_open_call] ?sv =
      ([(200, accepted_to_string ?S (accepted_of sample_request [7, 0]))], Ok (),
       ?sv\<lparr>sv_runtime := admitted_runtime sample_request [7, 0] []\<rparr>)"
    using sample_open_body_length
    by (simp add: sample_open_call_def serve_request_def read_request_body_def control_response_def respond_def)
  have held: "\<exists>s. RelayService_session (?sv\<lparr>sv_runtime := admitted_runtime sample_request [7, 0] []\<rparr>) [7, 0] = Some s \<and>
      rs_status s = RS_Open"
    by (simp add: RelayService_session_def RelayRuntime_session_def admitted_runtime_get)
  from relay_daemon_confined [OF start serve] start serve held show ?thesis by blast
qed

end
