(* ===== verification/Quip_Effect.thy ===== *)
theory Quip_Effect
  imports Quip_Prelude
begin

text \<open>
  Fallible operations on a state, as the asynchronous methods of the control plane compose them:
  a computation returns a \<open>Result\<close> with the state it leaves behind, and \<open>?\<close> stops at the first
  error with the effects made so far. Two judgements carry the proofs about the control plane: a
  computation keeps a property of the state, and it succeeds on every state that has a property.
\<close>

named_theorems ok_iff \<open>when a computation succeeds, and with what\<close>

section \<open>Computations\<close>

type_synonym ('s, 'a, 'e) comp = "'s \<Rightarrow> ('a, 'e) result \<times> 's"

definition return_r :: "'a \<Rightarrow> ('s, 'a, 'e) comp" where
  "return_r v s = (Ok v, s)"

definition raise_r :: "'e \<Rightarrow> ('s, 'a, 'e) comp" where
  "raise_r e s = (Err e, s)"

definition from_result :: "('a, 'e) result \<Rightarrow> ('s, 'a, 'e) comp" where
  "from_result r s = (r, s)"

definition reads :: "('s \<Rightarrow> 'a) \<Rightarrow> ('s, 'a, 'e) comp" where
  "reads f s = (Ok (f s), s)"

definition bind_r :: "('s, 'a, 'e) comp \<Rightarrow> ('a \<Rightarrow> ('s, 'b, 'e) comp) \<Rightarrow> ('s, 'b, 'e) comp" where
  "bind_r m f s = (case m s of (Err e, s) \<Rightarrow> (Err e, s) | (Ok v, s) \<Rightarrow> f v s)"

definition then_r :: "('s, 'a, 'e) comp \<Rightarrow> ('s, 'b, 'e) comp \<Rightarrow> ('s, 'b, 'e) comp" where
  "then_r m n = bind_r m (\<lambda>_. n)"

text \<open>\<open>match m.await { Ok(v) => f(v), Err(e) => h(e) }\<close>.\<close>

definition match_r ::
  "('s, 'a, 'e) comp \<Rightarrow> ('a \<Rightarrow> ('s, 'b, 'f) comp) \<Rightarrow> ('e \<Rightarrow> ('s, 'b, 'f) comp) \<Rightarrow> ('s, 'b, 'f) comp" where
  "match_r m f h s = (case m s of (Err e, s) \<Rightarrow> h e s | (Ok v, s) \<Rightarrow> f v s)"

text \<open>A loop with \<open>?\<close> in its body.\<close>

fun for_each :: "('x \<Rightarrow> 'a \<Rightarrow> ('s, 'a, 'e) comp) \<Rightarrow> 'x list \<Rightarrow> 'a \<Rightarrow> ('s, 'a, 'e) comp" where
  "for_each f [] acc = return_r acc"
| "for_each f (x # xs) acc = bind_r (f x acc) (for_each f xs)"

text \<open>An operation on a part of the state, with its error converted by \<open>From\<close>.\<close>

definition on_part ::
  "('s \<Rightarrow> 'p) \<Rightarrow> ('p \<Rightarrow> 's \<Rightarrow> 's) \<Rightarrow> ('e \<Rightarrow> 'f) \<Rightarrow> ('p, 'a, 'e) comp \<Rightarrow> ('s, 'a, 'f) comp" where
  "on_part get put conv m s = (case m (get s) of (r, p) \<Rightarrow> (map_err conv r, put p s))"

lemma bind_r_simps [simp]:
  "bind_r (return_r v) f = f v" "bind_r (raise_r e) f = raise_r e" "bind_r (from_result (Ok v)) f = f v"
  "bind_r (from_result (Err e)) f = raise_r e" "then_r (return_r u) n = n" "then_r (raise_r e) n = raise_r e"
  by (rule ext, simp add: bind_r_def return_r_def raise_r_def from_result_def then_r_def)+

lemma bind_r_Ok [ok_iff]: "bind_r m f s = (Ok v, s') \<longleftrightarrow> (\<exists>u s1. m s = (Ok u, s1) \<and> f u s1 = (Ok v, s'))"
  by (auto simp: bind_r_def split: prod.splits result.splits)

lemma then_r_Ok [ok_iff]: "then_r m n s = (Ok v, s') \<longleftrightarrow> (\<exists>u s1. m s = (Ok u, s1) \<and> n s1 = (Ok v, s'))"
  by (simp add: then_r_def bind_r_Ok)

lemma match_r_Ok [ok_iff]:
  "match_r m f h s = (Ok v, s') \<longleftrightarrow>
   (\<exists>u s1. m s = (Ok u, s1) \<and> f u s1 = (Ok v, s')) \<or> (\<exists>e s1. m s = (Err e, s1) \<and> h e s1 = (Ok v, s'))"
  by (auto simp: match_r_def split: prod.splits result.splits)

lemma pure_Ok [ok_iff]:
  "return_r u s = (Ok v, s') \<longleftrightarrow> v = u \<and> s' = s" "raise_r e s = (Ok v, s') \<longleftrightarrow> False"
  "from_result r s = (Ok v, s') \<longleftrightarrow> r = Ok v \<and> s' = s" "reads g s = (Ok v, s') \<longleftrightarrow> v = g s \<and> s' = s"
  by (auto simp: return_r_def raise_r_def from_result_def reads_def)

lemma bind_reads [simp]: "bind_r (reads f) g s = g (f s) s"
  by (simp add: bind_r_def reads_def)

section \<open>Invariants and success\<close>

text \<open>The computation keeps a property of the state, whether it succeeds or fails.\<close>

definition keeps :: "('s \<Rightarrow> bool) \<Rightarrow> ('s, 'a, 'e) comp \<Rightarrow> bool" where
  "keeps I m \<longleftrightarrow> (\<forall>s. I s \<longrightarrow> I (snd (m s)))"

lemma keeps_bind: "keeps I m \<Longrightarrow> (\<And>v. keeps I (f v)) \<Longrightarrow> keeps I (bind_r m f)"
  by (fastforce simp: keeps_def bind_r_def split: prod.splits result.splits)

lemma keeps_then: "keeps I m \<Longrightarrow> keeps I n \<Longrightarrow> keeps I (then_r m n)"
  by (simp add: then_r_def keeps_bind)

lemma keeps_match: "keeps I m \<Longrightarrow> (\<And>v. keeps I (f v)) \<Longrightarrow> (\<And>e. keeps I (h e)) \<Longrightarrow> keeps I (match_r m f h)"
  by (fastforce simp: keeps_def match_r_def split: prod.splits result.splits)

lemma keeps_for_each: "(\<And>x acc. keeps I (f x acc)) \<Longrightarrow> keeps I (for_each f xs acc)"
proof (induction xs arbitrary: acc)
  case Nil
  then show ?case by (simp add: keeps_def return_r_def)
next
  case (Cons x xs)
  then show ?case by (simp add: keeps_bind)
qed

lemma keeps_pure [simp, intro]:
  "keeps I (return_r v)" "keeps I (raise_r e)" "keeps I (from_result r)" "keeps I (reads g)"
  by (simp_all add: keeps_def return_r_def raise_r_def from_result_def reads_def)

lemma keeps_if: "keeps I m \<Longrightarrow> keeps I n \<Longrightarrow> keeps I (if b then m else n)"
  by simp

lemma keeps_option: "keeps I m \<Longrightarrow> (\<And>v. keeps I (f v)) \<Longrightarrow> keeps I (case x of None \<Rightarrow> m | Some v \<Rightarrow> f v)"
  by (cases x) simp_all

lemmas keeps_intros = keeps_bind keeps_then keeps_match keeps_for_each keeps_if keeps_option

lemma keepsD: "keeps I m \<Longrightarrow> I s \<Longrightarrow> m s = (r, s') \<Longrightarrow> I s'"
  by (fastforce simp: keeps_def)

text \<open>The computation succeeds wherever the property holds, and the property holds afterwards.\<close>

definition runs :: "('s \<Rightarrow> bool) \<Rightarrow> ('s, 'a, 'e) comp \<Rightarrow> bool" where
  "runs I m \<longleftrightarrow> (\<forall>s. I s \<longrightarrow> (\<exists>v s'. m s = (Ok v, s') \<and> I s'))"

lemma runs_Ok: "runs I m \<Longrightarrow> I s \<Longrightarrow> \<exists>v s'. m s = (Ok v, s')"
  by (auto simp: runs_def)

lemma runs_bind: "runs I m \<Longrightarrow> (\<And>v. runs I (f v)) \<Longrightarrow> runs I (bind_r m f)"
  by (fastforce simp: runs_def bind_r_def)

lemma runs_then: "runs I m \<Longrightarrow> runs I n \<Longrightarrow> runs I (then_r m n)"
  by (simp add: then_r_def runs_bind)

lemma runs_for_each: "(\<And>x acc. runs I (f x acc)) \<Longrightarrow> runs I (for_each f xs acc)"
proof (induction xs arbitrary: acc)
  case Nil
  then show ?case by (simp add: runs_def return_r_def)
next
  case (Cons x xs)
  then show ?case by (simp add: runs_bind)
qed

lemma runs_pure [simp, intro]: "runs I (return_r v)" "runs I (reads g)" "runs I (from_result (Ok v))"
  by (simp_all add: runs_def return_r_def reads_def from_result_def)

lemmas runs_intros = runs_bind runs_then runs_for_each

end
