(* ===== verification/Quip_Authority.thy ===== *)
theory Quip_Authority
  imports Quip_Effect Quip_Control Quip_Relay_Http Quip_Files Quip_Numbers
begin

text \<open>
  The authority (\<open>cmd/authority\<close>): its state file with members, grants, revocations, relays and
  bootstrap hints, the commands that change it, and the HTTP service that projects it for nodes. A
  command returns what it prints; every \<open>expect\<close> is a panic with its message. The clock is an
  argument, argument parsing (\<open>clap\<close>) and the listening socket (\<open>tiny_http\<close>) are not modelled.
\<close>

section \<open>Arguments\<close>

record init_args =
  ia_network :: string
  ia_realm :: string
  ia_state_path :: string
  ia_bootstrap_addresses :: "string list"

record add_bootstrap_args =
  ab_state_path :: string
  ab_address :: string
  ab_peer_id :: "string option"
  ab_protocols :: "string list"
  ab_source :: string
  ab_priority :: "u32 option"

record add_relay_args =
  al_state_path :: string
  al_peer_id :: "string option"
  al_peer_seed :: "string option"
  al_region :: string
  al_addresses :: "string list"
  al_control_endpoint :: string
  al_max_bandwidth_bps :: u64
  al_supports_quic_datagrams :: bool
  al_supports_path_migration :: bool
  al_traffic_classes :: "string list"

record add_member_args =
  am_state_path :: string
  am_network :: string
  am_realm :: string
  am_subject_seed :: "string option"
  am_subject_peer_id :: "string option"
  am_roles :: "string list"
  am_ttl_secs :: u64
  am_active :: bool

record serve_args =
  sa_network :: string
  sa_realm :: string
  sa_bind :: string
  sa_state_path :: string

record enrollment_token_args =
  ea_network :: string
  ea_realm :: string
  ea_subject :: "string option"
  ea_roles :: "string list"
  ea_bootstrap_addresses :: "string list"
  ea_ttl_secs :: u64

record membership_args =
  ma_network :: string
  ma_realm :: string
  ma_subject_seed :: "string option"
  ma_subject_peer_id :: "string option"
  ma_roles :: "string list"
  ma_ttl_secs :: u64
  ma_active :: bool

record capability_args =
  ca_network :: string
  ca_realm :: string
  ca_subject_seed :: "string option"
  ca_subject_peer_id :: "string option"
  ca_capabilities :: "string list"
  ca_protocols :: "string list"
  ca_constraints :: "string list"
  ca_ttl_secs :: u64

record revocation_args =
  ra_network :: string
  ra_realm :: string
  ra_peer_id :: string
  ra_reason :: string
  ra_note :: "string option"

record fixtures_args =
  fa_network :: string
  fa_realm :: string

datatype artifact_command =
    IssueEnrollmentToken enrollment_token_args
  | IssueMembership membership_args
  | IssueCapability capability_args
  | IssueRevocation revocation_args

record issue_args =
  is_state_path :: "string option"
  is_artifact :: artifact_command

datatype authority_command =
    Cmd_Init init_args
  | Cmd_AddMember add_member_args
  | Cmd_AddBootstrap add_bootstrap_args
  | Cmd_AddRelay add_relay_args
  | Cmd_Serve serve_args
  | Cmd_Issue issue_args
  | Cmd_Fixtures fixtures_args

section \<open>State\<close>

record authority_member =
  mb_subject_seed :: string
  mb_peer_id :: string
  mb_membership :: membership_certificate

record authority_state =
  au_realm :: string
  au_authority_peer_id :: string
  au_active_subject_seed :: "string option"
  au_members :: "authority_member list"
  au_capability_grants :: "capability_grant list"
  au_revocations :: "revocation_record list"
  au_relay_map_version :: u64
  au_relays :: "relay_announcement list"
  au_next_capability_sequence :: u64
  au_next_revocation_sequence :: u64
  au_bootstrap_generation :: u64
  au_bootstrap_hints :: "bootstrap_hint list"
  au_snapshot :: authority_artifact_snapshot

record fixture_artifacts =
  fx_network_id :: network_id
  fx_authority_peer_id :: string
  fx_subject_peer_id :: string
  fx_enrollment_token :: enrollment_token
  fx_membership :: membership_certificate
  fx_capability_grants :: "capability_grant list"
  fx_revocations :: "revocation_record list"
  fx_bootstrap_hints :: "bootstrap_hint list"

datatype issued_artifact =
    IA_EnrollmentToken enrollment_token
  | IA_Membership string bool membership_certificate
  | IA_Capability capability_grant
  | IA_Revocation revocation_record

text \<open>What \<open>print_json\<close> is called with.\<close>

datatype printed =
    PrintState authority_state
  | PrintMembership membership_certificate
  | PrintHints "bootstrap_hint list"
  | PrintRelays "relay_announcement list"
  | PrintToken enrollment_token
  | PrintGrant capability_grant
  | PrintRevocation revocation_record
  | PrintFixtures fixture_artifacts

text \<open>The bodies the service sends. \<open>serde_json\<close> writes them and reads and writes the state file.\<close>

datatype authority_body =
    JsonBody json
  | SnapshotBody authority_artifact_snapshot
  | HintsBody "bootstrap_hint list"
  | RelayMapBody relay_map
  | RevocationsBody "revocation_record list"

record authority_env = artifact_env +
  authority_from_slice :: "bytes \<Rightarrow> (authority_state, string) result"
  authority_to_vec_pretty :: "authority_state \<Rightarrow> bytes"
  body_to_vec_pretty :: "authority_body \<Rightarrow> string"

type_synonym 'a authority_op = "(filesystem, 'a, panic) comp"

definition expect_r :: "string \<Rightarrow> ('a, 'e) result \<Rightarrow> 'a authority_op" where
  "expect_r message r = from_result (map_err (\<lambda>_. Panic message) r)"

section \<open>Helpers\<close>

definition seeded_keypair :: "'x codecs_scheme \<Rightarrow> string \<Rightarrow> identity_keypair" where
  "seeded_keypair X label = from_secret_bytes (hash_bytes X (as_bytes label))"

definition normalize_roles :: "string list \<Rightarrow> string list" where
  "normalize_roles roles = (if roles = [] then [''member''] else roles)"

definition normalize_capabilities :: "string list \<Rightarrow> string list" where
  "normalize_capabilities capabilities = (if capabilities = [] then [''records.publish''] else capabilities)"

fun collect_protocols :: "string list \<Rightarrow> (protocol_id list, type_error) result" where
  "collect_protocols [] = Ok []"
| "collect_protocols (p # ps) =
     (case ProtocolId_new p of
        Err e \<Rightarrow> Err e
      | Ok q \<Rightarrow> (case collect_protocols ps of Err e \<Rightarrow> Err e | Ok qs \<Rightarrow> Ok (q # qs)))"

definition authority_parse_protocols :: "string list \<Rightarrow> (protocol_id list, type_error) result" where
  "authority_parse_protocols protocols = collect_protocols (if protocols = [] then [''/quip/records/1''] else protocols)"

definition bootstrap_hints_of :: "string list \<Rightarrow> bootstrap_hint list" where
  "bootstrap_hints_of addresses =
     (let values = (if addresses = [] then [''https://bootstrap.example.invalid:8443''] else addresses)
      in map (\<lambda>(index, address).
           \<lparr>bh_peer_id = None, bh_addresses = [address],
            bh_metadata = bt_of_list [(''source'', ''authority-cli''), (''priority'', show_nat index)]\<rparr>)
         (enumerate 0 values))"

definition fixture_nonce :: "'x codecs_scheme \<Rightarrow> string \<Rightarrow> bytes" where
  "fixture_nonce X label = take 16 (hash_bytes X (as_bytes label))"

definition parse_revocation_reason :: "string \<Rightarrow> revocation_reason" where
  "parse_revocation_reason value =
     (if value = ''key-compromise'' then KeyCompromise
      else if value = ''superseded'' then Superseded
      else if value = ''unspecified'' then Unspecified
      else Administrative)"

definition resolve_subject ::
  "'x primitives_scheme \<Rightarrow> string option \<Rightarrow> string option \<Rightarrow> (string \<times> peer_id) authority_op" where
  "resolve_subject X subject_seed subject_peer_id =
     (case subject_peer_id of
        Some text \<Rightarrow>
          bind_r (expect_r ''subject peer ids supplied to CLI must be valid'' (PeerId_from_str X text)) (\<lambda>peer_id.
            return_r (case subject_seed of Some seed \<Rightarrow> seed | None \<Rightarrow> ''peer:'' @ PeerId_to_text X peer_id, peer_id))
      | None \<Rightarrow>
          (case subject_seed of
             None \<Rightarrow> raise_r (Panic ''either --subject-seed or --subject-peer-id must be supplied'')
           | Some seed \<Rightarrow>
               return_r (seed, IdentityKeypair_peer_id X (seeded_keypair X (''subject:'' @ seed)))))"

section \<open>Projections\<close>

definition find_member :: "authority_state \<Rightarrow> string \<Rightarrow> authority_member option" where
  "find_member state subject_seed = find (\<lambda>member. mb_subject_seed member = subject_seed) (au_members state)"

definition projection_for ::
  "authority_state \<Rightarrow> authority_member option \<Rightarrow> authority_artifact_snapshot" where
  "projection_for state selected_member =
     (let membership = map_option mb_membership selected_member
      in \<lparr>as_network_id = as_network_id (au_snapshot state),
          as_enrollment_token =
            map_option (\<lambda>token. token\<lparr>et_bootstrap_hints := au_bootstrap_hints state\<rparr>)
              (as_enrollment_token (au_snapshot state)),
          as_membership = membership,
          as_capability_grants =
            (case membership of
               Some m \<Rightarrow> filter (\<lambda>grant. cg_subject_peer_id grant = mc_subject_peer_id m) (au_capability_grants state)
             | None \<Rightarrow> []),
          as_revocations = au_revocations state,
          as_bootstrap_hints = au_bootstrap_hints state\<rparr>)"

definition projected_snapshot :: "authority_state \<Rightarrow> string option \<Rightarrow> authority_artifact_snapshot option" where
  "projected_snapshot state subject =
     (case subject of
        Some subject_seed \<Rightarrow>
          map_option (\<lambda>member. projection_for state (Some member)) (find_member state subject_seed)
      | None \<Rightarrow> Some (projection_for state (Option.bind (au_active_subject_seed state) (find_member state))))"

definition materialize_state :: "authority_state \<Rightarrow> authority_state" where
  "materialize_state state =
     state\<lparr>au_snapshot :=
       (case projected_snapshot state None of
          Some snapshot \<Rightarrow> snapshot
        | None \<Rightarrow>
            \<lparr>as_network_id = as_network_id (au_snapshot state),
             as_enrollment_token = as_enrollment_token (au_snapshot state),
             as_membership = None, as_capability_grants = [],
             as_revocations = au_revocations state,
             as_bootstrap_hints = au_bootstrap_hints state\<rparr>)\<rparr>"

section \<open>Vectors of the state\<close>

text \<open>The identity of a hint compares peers when both name one, and addresses otherwise.\<close>

definition same_bootstrap_hint :: "bootstrap_hint \<Rightarrow> bootstrap_hint \<Rightarrow> bool" where
  "same_bootstrap_hint existing hint =
     (case (bh_peer_id existing, bh_peer_id hint) of
        (Some left, Some right) \<Rightarrow> left = right
      | _ \<Rightarrow> bh_addresses existing = bh_addresses hint)"

definition upsert_bootstrap_hint :: "bootstrap_hint \<Rightarrow> bootstrap_hint list \<Rightarrow> bootstrap_hint list" where
  "upsert_bootstrap_hint hint hints =
     upsert_by (\<lambda>existing. same_bootstrap_hint existing hint) (\<lambda>_. hint) hint hints"

definition upsert_relay :: "relay_announcement \<Rightarrow> relay_announcement list \<Rightarrow> relay_announcement list" where
  "upsert_relay relay relays =
     upsert_by (\<lambda>existing. an_peer_id existing = an_peer_id relay) (\<lambda>_. relay) relay relays"

definition upsert_member :: "authority_member \<Rightarrow> authority_member list \<Rightarrow> authority_member list" where
  "upsert_member member members =
     upsert_by (\<lambda>existing. mb_subject_seed existing = mb_subject_seed member) (\<lambda>_. member) member members"

section \<open>The state file\<close>

definition decode_state :: "'x authority_env_scheme \<Rightarrow> string \<Rightarrow> string \<Rightarrow> authority_state authority_op" where
  "decode_state X state_path missing fs =
     (case fs_read fs state_path of
        Err _ \<Rightarrow> (Err (Panic missing), fs)
      | Ok content \<Rightarrow> (map_err (\<lambda>_. Panic ''authority state should decode'') (authority_from_slice X content), fs))"

definition restore_state :: "authority_state \<Rightarrow> authority_state" where
  "restore_state state =
     (let state = (if au_bootstrap_hints state = []
                   then state\<lparr>au_bootstrap_hints := as_bootstrap_hints (au_snapshot state)\<rparr> else state);
          state = (if au_capability_grants state = []
                   then state\<lparr>au_capability_grants := as_capability_grants (au_snapshot state)\<rparr> else state);
          state = (if au_revocations state = []
                   then state\<lparr>au_revocations := as_revocations (au_snapshot state)\<rparr> else state)
      in materialize_state state)"

definition authority_load_state :: "'x authority_env_scheme \<Rightarrow> string \<Rightarrow> authority_state authority_op" where
  "authority_load_state X state_path =
     bind_r (decode_state X state_path ''authority state should read'') (\<lambda>state. return_r (restore_state state))"

definition authority_save_state :: "'x authority_env_scheme \<Rightarrow> string \<Rightarrow> authority_state \<Rightarrow> unit authority_op" where
  "authority_save_state X state_path state fs =
     (case fs_create_parent fs state_path of
        Err _ \<Rightarrow> (Err (Panic ''authority state parent should exist''), fs)
      | Ok _ \<Rightarrow>
          (case fs_write fs state_path (authority_to_vec_pretty X state) of
             (r, fs) \<Rightarrow> (map_err (\<lambda>_. Panic ''authority state should write'') r, fs)))"

section \<open>Fixtures and the initial state\<close>

definition fixture_artifacts_for :: "'x artifact_env_scheme \<Rightarrow> string \<Rightarrow> string \<Rightarrow> fixture_artifacts" where
  "fixture_artifacts_for X network realm =
     (let authority = seeded_keypair X (''authority:'' @ realm);
          subject = seeded_keypair X ''subject:fixture-member'';
          network_id = NetworkId_derive X network;
          issued_at = 1700000000;
          enrollment_token = EnrollmentToken_issue X authority network_id issued_at (issued_at + 3600) realm
            (Some ''fixture-member'') [''member'']
            [\<lparr>bh_peer_id = None, bh_addresses = [''https://bootstrap1.example.invalid:8443''],
              bh_metadata = bt_of_list [(''source'', ''authority-cli''), (''priority'', ''0'')]\<rparr>,
             \<lparr>bh_peer_id = Some (IdentityKeypair_peer_id X authority),
              bh_addresses = [''quic://198.51.100.10:8443''],
              bh_metadata = bt_of_list [(''source'', ''authority-cli''), (''priority'', ''1''),
                (''protocols'', ''/quip/control/1,/quip/records/1'')]\<rparr>]
            (fixture_nonce X ''fixture-enrollment'');
          membership = MembershipCertificate_issue X authority network_id (IdentityKeypair_peer_id X subject)
            issued_at (issued_at + 86400) [''member'', ''publisher''];
          capability_grant = CapabilityGrant_issue X authority network_id (IdentityKeypair_peer_id X subject)
            [''records.publish'', ''records.read''] [ProtocolId ''/quip/records/1'']
            \<lparr>rl_bandwidth_bps = Some 25000000, rl_concurrent_streams = Some 64,
             rl_max_object_bytes = Some (8 * 1024 * 1024)\<rparr>
            [''path_kind=relay''] issued_at (issued_at + 43200) 1;
          revocation_record = RevocationRecord_issue X authority network_id
            (PeerTarget (IdentityKeypair_peer_id X authority)) Superseded (issued_at + 1800)
            (issued_at + 1800) 2 (Some ''bootstrap peer rotated out of service'')
      in \<lparr>fx_network_id = network_id,
          fx_authority_peer_id = PeerId_to_text X (IdentityKeypair_peer_id X authority),
          fx_subject_peer_id = PeerId_to_text X (IdentityKeypair_peer_id X subject),
          fx_enrollment_token = enrollment_token, fx_membership = membership,
          fx_capability_grants = [capability_grant], fx_revocations = [revocation_record],
          fx_bootstrap_hints = et_bootstrap_hints enrollment_token\<rparr>)"

definition initial_state :: "'x artifact_env_scheme \<Rightarrow> string \<Rightarrow> string \<Rightarrow> string list \<Rightarrow> authority_state" where
  "initial_state X network realm bootstrap_addresses =
     (let authority = seeded_keypair X (''authority:'' @ realm);
          network_id = NetworkId_derive X network;
          issued_at = 1700000000;
          token_bootstrap =
            (if bootstrap_addresses = [] then fx_bootstrap_hints (fixture_artifacts_for X network realm)
             else bootstrap_hints_of bootstrap_addresses);
          enrollment_token = EnrollmentToken_issue X authority network_id issued_at (issued_at + 3600) realm
            None [''member''] token_bootstrap (fixture_nonce X ''init-enrollment'')
      in materialize_state
         \<lparr>au_realm = realm,
          au_authority_peer_id = PeerId_to_text X (IdentityKeypair_peer_id X authority),
          au_active_subject_seed = None, au_members = [], au_capability_grants = [], au_revocations = [],
          au_relay_map_version = 0, au_relays = [], au_next_capability_sequence = 1,
          au_next_revocation_sequence = 1, au_bootstrap_generation = 1,
          au_bootstrap_hints = token_bootstrap,
          au_snapshot =
            \<lparr>as_network_id = network_id, as_enrollment_token = Some enrollment_token,
             as_membership = None, as_capability_grants = [], as_revocations = [],
             as_bootstrap_hints = []\<rparr>\<rparr>)"

definition load_or_init_state ::
  "'x authority_env_scheme \<Rightarrow> string \<Rightarrow> string \<Rightarrow> string \<Rightarrow> authority_state authority_op" where
  "load_or_init_state X state_path network realm =
     bind_r (reads (\<lambda>fs. fs_exists fs state_path)) (\<lambda>present.
       if present then authority_load_state X state_path
       else let state = initial_state X network realm []
            in then_r (authority_save_state X state_path state) (return_r state))"

section \<open>Commands\<close>

definition authority_init :: "'x authority_env_scheme \<Rightarrow> init_args \<Rightarrow> printed authority_op" where
  "authority_init X args =
     (let state = initial_state X (ia_network args) (ia_realm args) (ia_bootstrap_addresses args)
      in then_r (authority_save_state X (ia_state_path args) state) (return_r (PrintState state)))"

definition record_member :: "string \<Rightarrow> bool \<Rightarrow> authority_member \<Rightarrow> authority_state \<Rightarrow> authority_state" where
  "record_member subject_label active member state =
     (let state = state\<lparr>au_members := upsert_member member (au_members state)\<rparr>
      in if active \<or> au_active_subject_seed state = None
         then state\<lparr>au_active_subject_seed := Some subject_label\<rparr> else state)"

definition add_member :: "'x authority_env_scheme \<Rightarrow> u64 \<Rightarrow> add_member_args \<Rightarrow> printed authority_op" where
  "add_member X now args =
     (let authority = seeded_keypair X (''authority:'' @ am_realm args)
      in bind_r (resolve_subject X (am_subject_seed args) (am_subject_peer_id args)) (\<lambda>(subject_label, subject_peer_id).
           let membership = MembershipCertificate_issue X authority (NetworkId_derive X (am_network args))
                 subject_peer_id now (now + am_ttl_secs args) (normalize_roles (am_roles args))
           in bind_r (authority_load_state X (am_state_path args)) (\<lambda>state.
                let state = record_member subject_label (am_active args)
                      \<lparr>mb_subject_seed = subject_label, mb_peer_id = PeerId_to_text X subject_peer_id,
                       mb_membership = membership\<rparr> state;
                    state = materialize_state state
                in then_r (authority_save_state X (am_state_path args) state)
                     (return_r (PrintMembership membership)))))"

definition add_bootstrap :: "'x authority_env_scheme \<Rightarrow> add_bootstrap_args \<Rightarrow> printed authority_op" where
  "add_bootstrap X args =
     bind_r (authority_load_state X (ab_state_path args)) (\<lambda>state.
       let metadata = bt_of_list [(''source'', ab_source args)];
           metadata = (case ab_priority args of
               Some priority \<Rightarrow> bt_insert ''priority'' (show_word priority) metadata | None \<Rightarrow> metadata);
           metadata = (if ab_protocols args \<noteq> []
               then bt_insert ''protocols'' (join '','' (ab_protocols args)) metadata else metadata)
       in bind_r (case ab_peer_id args of
                    None \<Rightarrow> return_r None
                  | Some peer \<Rightarrow> bind_r (expect_r ''peer id should be valid'' (PeerId_from_str X peer))
                                    (\<lambda>p. return_r (Some p))) (\<lambda>peer_id.
          let hint = \<lparr>bh_peer_id = peer_id, bh_addresses = [ab_address args], bh_metadata = metadata\<rparr>;
              state = state\<lparr>au_bootstrap_hints := upsert_bootstrap_hint hint (au_bootstrap_hints state),
                            au_bootstrap_generation := au_bootstrap_generation state + 1\<rparr>;
              state = materialize_state state
          in then_r (authority_save_state X (ab_state_path args) state)
               (return_r (PrintHints (au_bootstrap_hints state)))))"

definition relay_peer_of :: "'x primitives_scheme \<Rightarrow> add_relay_args \<Rightarrow> peer_id authority_op" where
  "relay_peer_of X args =
     (case al_peer_id args of
        Some text \<Rightarrow> expect_r ''relay peer ids supplied to CLI must be valid'' (PeerId_from_str X text)
      | None \<Rightarrow>
          (case al_peer_seed args of
             Some seed \<Rightarrow> return_r (IdentityKeypair_peer_id X (from_secret_bytes (hash_bytes X (as_bytes seed))))
           | None \<Rightarrow> raise_r (Panic ''either --peer-id or --peer-seed must be supplied'')))"

definition add_relay :: "'x authority_env_scheme \<Rightarrow> add_relay_args \<Rightarrow> printed authority_op" where
  "add_relay X args =
     bind_r (authority_load_state X (al_state_path args)) (\<lambda>state.
     bind_r (relay_peer_of X args) (\<lambda>peer_id.
       let relay = \<lparr>an_peer_id = peer_id, an_region = al_region args, an_advertised_endpoints = al_addresses args,
             an_control_endpoint = al_control_endpoint args, an_max_bandwidth_bps = al_max_bandwidth_bps args,
             an_supports_quic_datagrams = al_supports_quic_datagrams args,
             an_supports_path_migration = al_supports_path_migration args,
             an_traffic_classes =
               (if al_traffic_classes args = [] then [''NetworkControl'', ''InteractiveRpc'', ''Background'']
                else al_traffic_classes args)\<rparr>;
           state = state\<lparr>au_relays := upsert_relay relay (au_relays state),
                         au_relay_map_version := au_relay_map_version state + 1\<rparr>;
           state = materialize_state state
       in then_r (authority_save_state X (al_state_path args) state)
            (return_r (PrintRelays (au_relays state)))))"

section \<open>Issuing\<close>

definition next_sequence ::
  "(authority_state \<Rightarrow> u64) \<Rightarrow> 'x authority_env_scheme \<Rightarrow> string option \<Rightarrow> u64 authority_op" where
  "next_sequence field X state_path =
     (case state_path of
        Some path \<Rightarrow> bind_r (authority_load_state X path) (\<lambda>state. return_r (field state))
      | None \<Rightarrow> return_r 1)"

definition issue_artifact ::
  "'x authority_env_scheme \<Rightarrow> u64 \<Rightarrow> string option \<Rightarrow> artifact_command \<Rightarrow> issued_artifact authority_op" where
  "issue_artifact X now persisted_state_path artifact =
     (case artifact of
        IssueEnrollmentToken args \<Rightarrow>
          return_r (IA_EnrollmentToken
            (EnrollmentToken_issue X (seeded_keypair X (''authority:'' @ ea_realm args))
               (NetworkId_derive X (ea_network args)) now (now + ea_ttl_secs args) (ea_realm args) (ea_subject args)
               (normalize_roles (ea_roles args)) (bootstrap_hints_of (ea_bootstrap_addresses args))
               (fixture_nonce X ''enrollment-token'')))
      | IssueMembership args \<Rightarrow>
          bind_r (resolve_subject X (ma_subject_seed args) (ma_subject_peer_id args)) (\<lambda>(subject_label, subject_peer_id).
            return_r (IA_Membership subject_label (ma_active args)
              (MembershipCertificate_issue X (seeded_keypair X (''authority:'' @ ma_realm args))
                 (NetworkId_derive X (ma_network args)) subject_peer_id now (now + ma_ttl_secs args)
                 (normalize_roles (ma_roles args)))))
      | IssueCapability args \<Rightarrow>
          bind_r (resolve_subject X (ca_subject_seed args) (ca_subject_peer_id args)) (\<lambda>(_, subject_peer_id).
          bind_r (next_sequence au_next_capability_sequence X persisted_state_path) (\<lambda>sequence.
          bind_r (expect_r ''protocol ids supplied to CLI must be valid'' (authority_parse_protocols (ca_protocols args))) (\<lambda>protocols.
            return_r (IA_Capability
              (CapabilityGrant_issue X (seeded_keypair X (''authority:'' @ ca_realm args))
                 (NetworkId_derive X (ca_network args)) subject_peer_id
                 (normalize_capabilities (ca_capabilities args)) protocols
                 \<lparr>rl_bandwidth_bps = Some 10000000, rl_concurrent_streams = Some 32,
                  rl_max_object_bytes = Some (4 * 1024 * 1024)\<rparr>
                 (ca_constraints args) now (now + ca_ttl_secs args) sequence)))))
      | IssueRevocation args \<Rightarrow>
          bind_r (next_sequence au_next_revocation_sequence X persisted_state_path) (\<lambda>sequence.
          bind_r (expect_r ''peer ids supplied to CLI must be valid'' (PeerId_from_str X (ra_peer_id args))) (\<lambda>peer_id.
            return_r (IA_Revocation
              (RevocationRecord_issue X (seeded_keypair X (''authority:'' @ ra_realm args))
                 (NetworkId_derive X (ra_network args)) (PeerTarget peer_id)
                 (parse_revocation_reason (ra_reason args)) now now sequence (ra_note args))))))"

definition record_artifact :: "'x codecs_scheme \<Rightarrow> issued_artifact \<Rightarrow> authority_state \<Rightarrow> authority_state" where
  "record_artifact X artifact state =
     (case artifact of
        IA_EnrollmentToken value \<Rightarrow>
          state\<lparr>au_snapshot := (au_snapshot state)\<lparr>as_enrollment_token := Some value\<rparr>\<rparr>
      | IA_Membership subject_seed active value \<Rightarrow>
          record_member subject_seed active
            \<lparr>mb_subject_seed = subject_seed, mb_peer_id = PeerId_to_text X (mc_subject_peer_id value),
             mb_membership = value\<rparr> state
      | IA_Capability value \<Rightarrow>
          state\<lparr>au_capability_grants :=
                  upsert_by (\<lambda>existing. same_grant existing value) (\<lambda>_. value) value (au_capability_grants state),
                au_next_capability_sequence := max (au_next_capability_sequence state) (cg_sequence value + 1)\<rparr>
      | IA_Revocation value \<Rightarrow>
          state\<lparr>au_revocations := push_new same_revocation value (au_revocations state),
                au_next_revocation_sequence := max (au_next_revocation_sequence state) (rr_sequence value + 1)\<rparr>)"

definition persist_issued_artifact :: "'x authority_env_scheme \<Rightarrow> string \<Rightarrow> issued_artifact \<Rightarrow> unit authority_op" where
  "persist_issued_artifact X state_path artifact =
     bind_r (decode_state X state_path ''authority state should exist before persisting artifacts'') (\<lambda>state.
       authority_save_state X state_path (materialize_state (record_artifact X artifact state)))"

definition print_artifact :: "issued_artifact \<Rightarrow> printed" where
  "print_artifact artifact =
     (case artifact of
        IA_EnrollmentToken value \<Rightarrow> PrintToken value
      | IA_Membership _ _ value \<Rightarrow> PrintMembership value
      | IA_Capability value \<Rightarrow> PrintGrant value
      | IA_Revocation value \<Rightarrow> PrintRevocation value)"

definition issue :: "'x authority_env_scheme \<Rightarrow> u64 \<Rightarrow> issue_args \<Rightarrow> printed authority_op" where
  "issue X now args =
     bind_r (issue_artifact X now (is_state_path args) (is_artifact args)) (\<lambda>artifact.
     then_r (case is_state_path args of
               Some path \<Rightarrow> persist_issued_artifact X path artifact | None \<Rightarrow> return_r ())
       (return_r (print_artifact artifact)))"

section \<open>The service\<close>

record authority_reply =
  rep_status :: u16
  rep_content_type :: string
  rep_body :: string

definition authority_json_response :: "'x authority_env_scheme \<Rightarrow> u16 \<Rightarrow> authority_body \<Rightarrow> authority_reply" where
  "authority_json_response X status value =
     \<lparr>rep_status = status, rep_content_type = ''application/json'', rep_body = body_to_vec_pretty X value\<rparr>"

definition split_request_target :: "string \<Rightarrow> string \<times> string" where
  "split_request_target url = (case split_once (CHR ''?'') url of Some pq \<Rightarrow> pq | None \<Rightarrow> (url, []))"

definition query_param :: "string \<Rightarrow> string \<Rightarrow> string option" where
  "query_param query key =
     (case find (\<lambda>(name, value). name = key \<and> value \<noteq> [])
             (map (\<lambda>pair. case split_once (CHR ''='') pair of Some nv \<Rightarrow> nv | None \<Rightarrow> (pair, []))
                (split_on (CHR ''&'') query)) of
        Some (name, value) \<Rightarrow> Some value
      | None \<Rightarrow> None)"

definition missing_subject_response :: "'x authority_env_scheme \<Rightarrow> string option \<Rightarrow> authority_reply" where
  "missing_subject_response X subject =
     authority_json_response X 404 (JsonBody (json_object
       [(''error'', JString ''subject not found''), (''subject'', json_opt JString subject)]))"

definition parse_u64_param :: "string \<Rightarrow> (u64, string) result" where
  "parse_u64_param value = (case parse_word value of Some n \<Rightarrow> Ok n | None \<Rightarrow> Err value)"

definition filtered_revocations :: "authority_state \<Rightarrow> u64 option \<Rightarrow> revocation_record list" where
  "filtered_revocations state after_sequence =
     filter (\<lambda>revocation. case after_sequence of Some sequence \<Rightarrow> rr_sequence revocation > sequence | None \<Rightarrow> True)
       (au_revocations state)"

definition route_request :: "'x authority_env_scheme \<Rightarrow> authority_state \<Rightarrow> u64 \<Rightarrow> string \<Rightarrow> string \<Rightarrow> authority_reply" where
  "route_request X state now method url =
     (if method \<noteq> ''GET''
      then authority_json_response X 405 (JsonBody (json_object [(''error'', JString ''method not allowed'')]))
      else
        let (path, query) = split_request_target url;
            subject = query_param query ''subject'';
            after_sequence = map_option parse_u64_param (query_param query ''after_sequence'')
        in if path = ''/healthz''
           then authority_json_response X 200 (JsonBody (json_object [(''status'', JString ''ok'')]))
           else if path = ''/snapshot''
           then (case projected_snapshot state subject of
                   Some snapshot \<Rightarrow> authority_json_response X 200 (SnapshotBody snapshot)
                 | None \<Rightarrow> missing_subject_response X subject)
           else if path = ''/bootstrap''
           then (case projected_snapshot state subject of
                   Some snapshot \<Rightarrow> authority_json_response X 200 (HintsBody (as_bootstrap_hints snapshot))
                 | None \<Rightarrow> missing_subject_response X subject)
           else if path = ''/relays''
           then authority_json_response X 200 (RelayMapBody
                  \<lparr>rm_version = au_relay_map_version state, rm_generated_at = now, rm_relays = au_relays state\<rparr>)
           else if path = ''/revoke''
           then (case after_sequence of
                   None \<Rightarrow> authority_json_response X 200 (RevocationsBody (filtered_revocations state None))
                 | Some (Ok sequence) \<Rightarrow>
                     authority_json_response X 200 (RevocationsBody (filtered_revocations state (Some sequence)))
                 | Some (Err value) \<Rightarrow>
                     authority_json_response X 400 (JsonBody (json_object
                       [(''error'', JString ''invalid after_sequence''), (''value'', JString value)])))
           else authority_json_response X 404 (JsonBody (json_object
                  [(''error'', JString ''not found''), (''path'', JString url)])))"

text \<open>A request as it arrives, and whether its response could be written.\<close>

record incoming_request =
  in_method :: string
  in_url :: string
  in_now :: u64
  in_written :: bool

definition answer_request ::
  "'x authority_env_scheme \<Rightarrow> serve_args \<Rightarrow> incoming_request \<Rightarrow> authority_reply list \<Rightarrow> authority_reply list authority_op" where
  "answer_request X args request replies =
     bind_r (load_or_init_state X (sa_state_path args) (sa_network args) (sa_realm args)) (\<lambda>state.
       let response = route_request X state (in_now request) (in_method request) (in_url request)
       in if in_written request then return_r (replies @ [response])
          else raise_r (Panic ''authority server should write response''))"

definition authority_serve ::
  "'x authority_env_scheme \<Rightarrow> bool \<Rightarrow> serve_args \<Rightarrow> incoming_request list \<Rightarrow> authority_reply list authority_op" where
  "authority_serve X bound args requests =
     then_r (load_or_init_state X (sa_state_path args) (sa_network args) (sa_realm args))
    (if \<not> bound then raise_r (Panic ''authority server should bind'')
     else for_each (answer_request X args) requests [])"

section \<open>Dispatch\<close>

datatype authority_output = Printed printed | Served "authority_reply list"

definition printing :: "printed authority_op \<Rightarrow> authority_output authority_op" where
  "printing m = bind_r m (\<lambda>p. return_r (Printed p))"

text \<open>\<open>main\<close>: the clock \<open>now\<close>, whether the socket binds and the requests that arrive are the environment.\<close>

definition authority_main ::
  "'x authority_env_scheme \<Rightarrow> u64 \<Rightarrow> bool \<Rightarrow> incoming_request list \<Rightarrow> authority_command \<Rightarrow> authority_output authority_op" where
  "authority_main X now bound requests command =
     (case command of
        Cmd_Init args \<Rightarrow> printing (authority_init X args)
      | Cmd_AddMember args \<Rightarrow> printing (add_member X now args)
      | Cmd_AddBootstrap args \<Rightarrow> printing (add_bootstrap X args)
      | Cmd_AddRelay args \<Rightarrow> printing (add_relay X args)
      | Cmd_Serve args \<Rightarrow> bind_r (authority_serve X bound args requests) (\<lambda>rs. return_r (Served rs))
      | Cmd_Issue args \<Rightarrow> printing (issue X now args)
      | Cmd_Fixtures args \<Rightarrow>
          return_r (Printed (PrintFixtures (fixture_artifacts_for X (fa_network args) (fa_realm args)))))"

end
