(* ===== verification/Quip_Authority_Laws.thy ===== *)
theory Quip_Authority_Laws
  imports Quip_Authority
begin

text \<open>
  What holds of the authority's state file under every sequence of commands: members and relays are
  keyed, the served snapshot is the projection of the vectors and sequence numbers are fresh; and
  until the file is initialized again the revocation log only grows.
\<close>

section \<open>Keyed vectors\<close>

interpretation members: keyed_vector mb_subject_seed upsert_member
  unfolding upsert_member_def by unfold_locales (simp_all only: upsert_by_keyed)

interpretation relays: keyed_vector an_peer_id upsert_relay
  unfolding upsert_relay_def by unfold_locales (simp_all only: upsert_by_keyed)

definition grant_key :: "capability_grant \<Rightarrow> network_id \<times> peer_id \<times> peer_id \<times> u64" where
  "grant_key g = (cg_network_id g, cg_issuer_peer_id g, cg_subject_peer_id g, cg_sequence g)"

lemma same_grant_key: "same_grant l r \<longleftrightarrow> grant_key l = grant_key r"
  by (auto simp: same_grant_def grant_key_def)

section \<open>Well-formed states\<close>

text \<open>Sequence numbers are handed out in increasing order as long as they last.\<close>

definition fresh_sequences :: "u64 list \<Rightarrow> u64 \<Rightarrow> bool" where
  "fresh_sequences used next \<longleftrightarrow> next = - 1 \<or> sorted_wrt (<) used \<and> (\<forall>s \<in> set used. s < next)"

definition authority_wf :: "authority_state \<Rightarrow> bool" where
  "authority_wf st \<longleftrightarrow>
     distinct (map mb_subject_seed (au_members st)) \<and> distinct (map an_peer_id (au_relays st)) \<and>
     distinct (map grant_key (au_capability_grants st)) \<and>
     (au_members st = [] \<longleftrightarrow> au_active_subject_seed st = None) \<and>
     (\<forall>seed. au_active_subject_seed st = Some seed \<longrightarrow> find_member st seed \<noteq> None) \<and>
     fresh_sequences (map rr_sequence (au_revocations st)) (au_next_revocation_sequence st) \<and>
     materialize_state st = st"

text \<open>What a later state keeps of an earlier one.\<close>

definition authority_extends :: "authority_state \<Rightarrow> authority_state \<Rightarrow> bool" where
  "authority_extends st st' \<longleftrightarrow>
     prefix (au_revocations st) (au_revocations st') \<and>
     set (map mb_subject_seed (au_members st)) \<subseteq> set (map mb_subject_seed (au_members st')) \<and>
     set (map an_peer_id (au_relays st)) \<subseteq> set (map an_peer_id (au_relays st')) \<and>
     grant_key ` set (au_capability_grants st) \<subseteq> grant_key ` set (au_capability_grants st') \<and>
     au_next_revocation_sequence st \<le> au_next_revocation_sequence st' \<and>
     au_next_capability_sequence st \<le> au_next_capability_sequence st' \<and>
     as_network_id (au_snapshot st) = as_network_id (au_snapshot st')"

lemma authority_extends_refl: "authority_extends st st"
  by (simp add: authority_extends_def)

lemma authority_extends_trans: "authority_extends a b \<Longrightarrow> authority_extends b c \<Longrightarrow> authority_extends a c"
  unfolding authority_extends_def by (metis (no_types, lifting) order_trans prefix_order.trans)

lemma materialize_sel [simp]:
  "au_members (materialize_state st) = au_members st" "au_relays (materialize_state st) = au_relays st"
  "au_capability_grants (materialize_state st) = au_capability_grants st"
  "au_revocations (materialize_state st) = au_revocations st"
  "au_active_subject_seed (materialize_state st) = au_active_subject_seed st"
  "au_next_revocation_sequence (materialize_state st) = au_next_revocation_sequence st"
  "au_next_capability_sequence (materialize_state st) = au_next_capability_sequence st"
  "au_bootstrap_hints (materialize_state st) = au_bootstrap_hints st"
  "au_relay_map_version (materialize_state st) = au_relay_map_version st"
  "as_network_id (au_snapshot (materialize_state st)) = as_network_id (au_snapshot st)"
  by (simp_all add: materialize_state_def projected_snapshot_def projection_for_def Let_def)

lemma find_member_materialize [simp]: "find_member (materialize_state st) seed = find_member st seed"
  by (simp add: find_member_def)

lemma find_member_cong: "au_members st = au_members st' \<Longrightarrow> find_member st = find_member st'"
  by (rule ext) (simp add: find_member_def)

lemma materialize_idem [simp]: "materialize_state (materialize_state st) = materialize_state st"
proof -
  have "find_member (st\<lparr>au_snapshot := s\<rparr>) = find_member st" for s by (rule find_member_cong) simp
  then show ?thesis
    by (cases "Option.bind (au_active_subject_seed st) (find_member st)")
       (simp_all add: materialize_state_def projected_snapshot_def projection_for_def Let_def option.map_comp o_def)
qed

lemma projection_sel [simp]:
  "as_revocations (projection_for st m) = au_revocations st" "as_bootstrap_hints (projection_for st m) = au_bootstrap_hints st"
  "as_network_id (projection_for st m) = as_network_id (au_snapshot st)"
  "au_capability_grants st = [] \<Longrightarrow> as_capability_grants (projection_for st m) = []"
  by (simp_all add: projection_for_def Let_def split: option.split)

lemma snapshot_projection:
  assumes "materialize_state st = st"
  shows "au_snapshot st = projection_for st (Option.bind (au_active_subject_seed st) (find_member st))"
  using arg_cong [OF assms, of au_snapshot] by (simp add: materialize_state_def projected_snapshot_def)

lemma snapshot_sel:
  assumes "materialize_state st = st"
  shows "as_revocations (au_snapshot st) = au_revocations st" "as_bootstrap_hints (au_snapshot st) = au_bootstrap_hints st"
    "au_capability_grants st = [] \<Longrightarrow> as_capability_grants (au_snapshot st) = []"
  by (subst snapshot_projection [OF assms], simp)+

text \<open>Loading restores exactly what was saved.\<close>

lemma restore_id: "materialize_state st = st \<Longrightarrow> restore_state st = st"
proof -
  assume m: "materialize_state st = st"
  have same: "au_bootstrap_hints st = [] \<Longrightarrow> st\<lparr>au_bootstrap_hints := []\<rparr> = st"
    "au_capability_grants st = [] \<Longrightarrow> st\<lparr>au_capability_grants := []\<rparr> = st"
    "au_revocations st = [] \<Longrightarrow> st\<lparr>au_revocations := []\<rparr> = st"
    by (cases st rule: authority_state.cases; simp)+
  show ?thesis by (simp add: restore_state_def Let_def m snapshot_sel [OF m] same)
qed

lemma initial_wf: "authority_wf (initial_state X network realm addresses)"
  by (simp add: initial_state_def Let_def authority_wf_def fresh_sequences_def)

section \<open>Changes\<close>

definition improves :: "(authority_state \<Rightarrow> authority_state) \<Rightarrow> authority_state \<Rightarrow> bool" where
  "improves f st \<longleftrightarrow> (authority_wf st \<longrightarrow>
     authority_wf (materialize_state (f st)) \<and> authority_extends st (materialize_state (f st)))"

lemma improves_member: "improves (record_member label active \<lparr>mb_subject_seed = label, mb_peer_id = p, mb_membership = m\<rparr>) st"
proof -
  let ?m = "\<lparr>mb_subject_seed = label, mb_peer_id = p, mb_membership = m\<rparr>"
  let ?st = "record_member label active ?m st"
  have sel: "au_members ?st = upsert_member ?m (au_members st)"
    "au_active_subject_seed ?st = (if active \<or> au_active_subject_seed st = None then Some label else au_active_subject_seed st)"
    "au_relays ?st = au_relays st" "au_capability_grants ?st = au_capability_grants st" "au_revocations ?st = au_revocations st"
    "au_next_revocation_sequence ?st = au_next_revocation_sequence st"
    "au_next_capability_sequence ?st = au_next_capability_sequence st" "au_snapshot ?st = au_snapshot st"
    by (simp_all add: record_member_def Let_def)
  have keys: "set (map mb_subject_seed (au_members ?st)) = insert label (set (map mb_subject_seed (au_members st)))"
    using members.keys_upsert [of ?m "au_members st"] by (simp add: sel)
  have f: "find_member ?st seed = (if seed = label then Some ?m else find_member st seed)" for seed
    using members.lookup_upsert [of seed ?m "au_members st"] by (simp add: find_member_def sel)
  from keys have ne: "au_members ?st \<noteq> []" by auto
  show ?thesis
    unfolding improves_def
    using keys f ne members.distinct_upsert [of "au_members st" ?m]
    by (auto simp: authority_wf_def authority_extends_def sel)
qed

lemma improves_hint: "improves (\<lambda>s. s\<lparr>au_bootstrap_hints := h, au_bootstrap_generation := g\<rparr>) st"
  by (simp add: improves_def authority_wf_def authority_extends_def find_member_def)

lemma improves_relay: "improves (\<lambda>s. s\<lparr>au_relays := upsert_relay r (au_relays s), au_relay_map_version := g\<rparr>) st"
  using relays.keys_upsert [of r "au_relays st"] relays.distinct_upsert [of "au_relays st" r]
  by (auto simp: improves_def authority_wf_def authority_extends_def find_member_def)

lemma improves_token: "improves (record_artifact X (IA_EnrollmentToken t)) st"
  by (simp add: improves_def authority_wf_def authority_extends_def find_member_def record_artifact_def)

lemma improves_grant: "improves (record_artifact X (IA_Capability g)) st"
  using upsert_by_keys [of grant_key g "au_capability_grants st"] upsert_by_distinct [of grant_key "au_capability_grants st" g]
  by (auto simp: improves_def authority_wf_def authority_extends_def find_member_def record_artifact_def same_grant_key)

lemma fresh_push:
  assumes "fresh_sequences (map rr_sequence rs) (rr_sequence r)"
  shows "fresh_sequences (map rr_sequence (push_new same_revocation r rs)) (max (rr_sequence r) (rr_sequence r + 1))"
proof (cases "rr_sequence r = - 1")
  case True
  then show ?thesis by (simp add: fresh_sequences_def)
next
  case False
  with assms have s: "sorted_wrt (<) (map rr_sequence rs)" "\<forall>s \<in> set rs. rr_sequence s < rr_sequence r"
    by (simp_all add: fresh_sequences_def)
  then have "push_new same_revocation r rs = rs @ [r]"
    by (auto simp: push_new_def same_revocation_def)
  moreover have lt: "rr_sequence r < rr_sequence r + 1"
    using False unatSuc [of "rr_sequence r"] by (simp add: word_less_nat_alt eq_neg_iff_add_eq_0 add.commute)
  ultimately show ?thesis using s by (auto simp: fresh_sequences_def sorted_wrt_append sorted_wrt_map max_def)
qed

lemma improves_revocation:
  assumes "rr_sequence r = au_next_revocation_sequence st"
  shows "improves (record_artifact X (IA_Revocation r)) st"
  using fresh_push [of "au_revocations st" r] assms
  by (auto simp: improves_def authority_wf_def authority_extends_def find_member_def record_artifact_def push_new_def)

section \<open>Commands\<close>

definition authority_serde :: "'x authority_env_scheme \<Rightarrow> bool" where
  "authority_serde X \<longleftrightarrow> (\<forall>st. authority_from_slice X (authority_to_vec_pretty X st) = Ok st)"

definition on_disk :: "'x authority_env_scheme \<Rightarrow> filesystem \<Rightarrow> string \<Rightarrow> authority_state \<Rightarrow> bool" where
  "on_disk X fs path st \<longleftrightarrow> (\<exists>content. fs_read fs path = Ok content \<and> authority_from_slice X content = Ok st)"

text \<open>The disk does not fill up while the file is written.\<close>

definition roomy :: "filesystem \<Rightarrow> string \<Rightarrow> bool" where
  "roomy fs path \<longleftrightarrow> (\<forall>n e. fs_fault fs path \<noteq> Some (Room n e))"

text \<open>The file holds a well-formed state that extends the given one.\<close>

definition extended :: "'x authority_env_scheme \<Rightarrow> string \<Rightarrow> authority_state \<Rightarrow> filesystem \<Rightarrow> bool" where
  "extended X path st0 fs \<longleftrightarrow>
     roomy fs path \<and> (\<exists>st. on_disk X fs path st \<and> authority_wf st \<and> authority_extends st0 st)"

lemma on_disk_unique: "on_disk X fs path st \<Longrightarrow> on_disk X fs path st' \<Longrightarrow> st = st'"
  by (auto simp: on_disk_def)

lemma decode_run: "snd (decode_state X path msg fs) = fs"
  "decode_state X path msg fs = (Ok st, fs') \<Longrightarrow> on_disk X fs path st"
  by (auto simp: decode_state_def on_disk_def split: result.splits)

lemma load_run: "snd (authority_load_state X path fs) = fs"
  "authority_load_state X path fs = (Ok st, fs') \<Longrightarrow> \<exists>raw. on_disk X fs path raw \<and> st = restore_state raw"
  using decode_run [of X path "''authority state should read''" fs]
  by (auto simp: authority_load_state_def bind_r_def return_r_def split: prod.splits result.splits)

lemma save_frame:
  assumes "authority_serde X" and "extended X path st0 fs"
    and "p = path \<Longrightarrow> authority_wf st \<and> authority_extends st0 st"
  shows "extended X path st0 (snd (authority_save_state X p st fs))"
proof (cases "fs_create_parent fs p")
  case (Err e)
  with assms(2) show ?thesis by (simp add: authority_save_state_def)
next
  case (Ok u)
  obtain w fs' where w: "fs_write fs p (authority_to_vec_pretty X st) = (w, fs')" by fastforce
  then have fs': "snd (authority_save_state X p st fs) = fs'" using Ok by (simp add: authority_save_state_def)
  have room: "roomy fs' path" using assms(2) fs_write_kept(1) [OF w] by (simp add: extended_def roomy_def)
  show ?thesis
  proof (cases "p = path")
    case False
    then show ?thesis
      using assms(2) room fs_write_kept(3) [OF w, of path] unfolding fs' extended_def on_disk_def by auto
  next
    case True
    show ?thesis
    proof (cases w)
      case (Err e)
      then have "fs' = fs" using w assms(2) True
        by (auto simp: extended_def roomy_def fs_write_def split: option.splits fs_fault.splits)
      with assms(2) show ?thesis by (simp add: fs')
    next
      case (Ok u)
      with w have "fs_write fs p (authority_to_vec_pretty X st) = (Ok (), fs')" by simp
      from assms True room fs_read_write [OF this] show ?thesis
        unfolding extended_def on_disk_def fs' authority_serde_def by auto
    qed
  qed
qed

lemma bind_unchanged:
  assumes "snd (m fs) = fs" and "I fs" and "\<And>v. m fs = (Ok v, fs) \<Longrightarrow> I (snd (f v fs))"
  shows "I (snd (bind_r m f fs))"
proof (cases "m fs")
  case (Pair r fs1)
  with assms show ?thesis by (cases r) (simp_all add: bind_r_def)
qed

lemma then_return [simp]: "snd (then_r m (return_r v) fs) = snd (m fs)"
  by (simp add: then_r_def bind_r_def return_r_def split: prod.split result.split)

lemma bind_return [simp]: "snd (bind_r m (\<lambda>v. return_r (g v)) fs) = snd (m fs)"
  by (simp add: bind_r_def return_r_def split: prod.split result.split)

lemma pure_ops [simp]:
  "snd (expect_r msg r fs) = fs" "snd (resolve_subject X seed peer fs) = fs" "snd (relay_peer_of X args fs) = fs"
  "snd (next_sequence field X p fs) = fs"
  by (simp_all add: expect_r_def from_result_def resolve_subject_def relay_peer_of_def next_sequence_def load_run raise_r_def
      split: option.split) (simp_all add: return_r_def)

lemma loaded_improves:
  assumes "extended X path st0 fs" and "authority_load_state X path fs = (Ok st, fs)" and "improves f st"
  shows "authority_wf (materialize_state (f st)) \<and> authority_extends st0 (materialize_state (f st))"
proof -
  from load_run(2) [OF assms(2)] assms(1) obtain raw where
    r: "on_disk X fs path raw" "st = restore_state raw" "authority_wf raw" "authority_extends st0 raw"
    by (auto simp: extended_def dest: on_disk_unique)
  then have "st = raw" by (simp add: restore_id authority_wf_def)
  with r assms(3) show ?thesis by (auto simp: improves_def dest: authority_extends_trans)
qed

lemma update_keeps:
  assumes "authority_serde X" and "extended X path st0 fs"
    and "\<And>st. improves f st"
  shows "extended X path st0 (snd (bind_r (authority_load_state X p) (\<lambda>st.
     then_r (authority_save_state X p (materialize_state (f st))) (return_r (g st))) fs))"
proof (rule bind_unchanged [where I = "extended X path st0"])
  fix st
  assume l: "authority_load_state X p fs = (Ok st, fs)"
  show "extended X path st0 (snd (then_r (authority_save_state X p (materialize_state (f st))) (return_r (g st)) fs))"
    unfolding then_return
    using save_frame [OF assms(1,2)] loaded_improves [OF assms(2)] l assms(3) by metis
qed (simp_all add: load_run assms)

lemma issued_revocation_sequence:
  assumes "extended X path st0 fs" and "issue_artifact X now (Some path) a fs = (Ok (IA_Revocation r), fs')" and "on_disk X fs path st"
  shows "rr_sequence r = au_next_revocation_sequence st"
proof -
  from assms(1,3) have "restore_state st = st" by (auto simp: extended_def restore_id authority_wf_def dest: on_disk_unique)
  with assms(2,3) show ?thesis
    by (auto simp: issue_artifact_def next_sequence_def bind_r_Ok return_r_def RevocationRecord_issue_def Let_def
        split: artifact_command.splits dest!: load_run(2) dest: on_disk_unique)
qed

lemma issue_artifact_frame [simp]: "snd (issue_artifact X now p a fs) = fs"
  unfolding issue_artifact_def
  by (cases a) (auto simp: return_r_def split: prod.split intro!: bind_unchanged [where I = "\<lambda>s. s = fs"])

lemma issue_keeps:
  assumes "authority_serde X" and "extended X path st0 fs"
  shows "extended X path st0 (snd (issue X now args fs))"
  unfolding issue_def
proof (rule bind_unchanged [where I = "extended X path st0"])
  fix artifact
  assume a: "issue_artifact X now (is_state_path args) (is_artifact args) fs = (Ok artifact, fs)"
  have imp: "improves (record_artifact X artifact) st" if "is_state_path args = Some path" "on_disk X fs path st" for st
  proof (cases artifact)
    case (IA_Revocation r)
    with issued_revocation_sequence [OF assms(2) _ that(2)] a that show ?thesis by (simp add: improves_revocation)
  next
    case (IA_Membership seed active m)
    then show ?thesis using improves_member by (simp add: record_artifact_def improves_def)
  qed (simp_all add: improves_token improves_grant)
  have "extended X path st0 (snd (persist_issued_artifact X p artifact fs))" if p: "is_state_path args = Some p" for p
    unfolding persist_issued_artifact_def
  proof (rule bind_unchanged [where I = "extended X path st0"])
    fix st
    assume "decode_state X p ''authority state should exist before persisting artifacts'' fs = (Ok st, fs)"
    then have st: "on_disk X fs p st" by (rule decode_run(2))
    show "extended X path st0 (snd (authority_save_state X p (materialize_state (record_artifact X artifact st)) fs))"
    proof (rule save_frame [OF assms])
      assume "p = path"
      with imp p st assms(2) show "authority_wf (materialize_state (record_artifact X artifact st)) \<and>
          authority_extends st0 (materialize_state (record_artifact X artifact st))"
        by (auto simp: extended_def improves_def dest: on_disk_unique intro: authority_extends_trans)
    qed
  qed (simp_all add: decode_run assms)
  then show "extended X path st0 (snd (then_r (case is_state_path args of
      Some p \<Rightarrow> persist_issued_artifact X p artifact | None \<Rightarrow> return_r ()) (return_r (print_artifact artifact)) fs))"
    unfolding then_return using assms(2) by (cases "is_state_path args") (simp_all add: return_r_def)
qed (simp_all add: assms)

lemma load_or_init_keeps:
  assumes "authority_serde X"
  shows "keeps (extended X path st0) (load_or_init_state X p network realm)"
  unfolding keeps_def
proof (intro allI impI)
  fix fs
  assume e: "extended X path st0 fs"
  then have "fs_exists fs path" by (auto simp: extended_def on_disk_def fs_read_def fs_exists_def split: option.splits)
  then show "extended X path st0 (snd (load_or_init_state X p network realm fs))"
    using save_frame [OF assms e, of p] e by (auto simp: load_or_init_state_def load_run Let_def)
qed

lemma add_bootstrap_keeps:
  assumes "authority_serde X" and "extended X path st0 fs"
  shows "extended X path st0 (snd (add_bootstrap X args fs))"
  unfolding add_bootstrap_def Let_def
proof (rule bind_unchanged [where I = "extended X path st0"], goal_cases)
  case (3 st)
  have save: "extended X path st0 (snd (authority_save_state X (ab_state_path args)
      (materialize_state (st\<lparr>au_bootstrap_hints := h, au_bootstrap_generation := g\<rparr>)) fs))" for h g
    using save_frame [OF assms] loaded_improves [OF assms(2) _ improves_hint [of g h]] 3 by metis
  show ?case
    by (rule bind_unchanged [where I = "extended X path st0"])
       (simp_all add: assms save return_r_def [of None] split del: if_split split: option.split)
qed (simp_all add: load_run assms)

definition reinitializes :: "string \<Rightarrow> authority_command \<Rightarrow> bool" where
  "reinitializes path command \<longleftrightarrow> (\<exists>args. command = Cmd_Init args \<and> ia_state_path args = path)"

lemma command_keeps:
  assumes "authority_serde X" and "extended X path st0 fs" and "\<not> reinitializes path command"
  shows "extended X path st0 (snd (authority_main X now bound requests command fs))"
proof (cases command)
  case (Cmd_Init args)
  with assms show ?thesis
    by (auto simp: authority_main_def printing_def authority_init_def Let_def reinitializes_def intro!: save_frame)
next
  case (Cmd_AddMember args)
  have "extended X path st0 (snd (add_member X now args fs))"
    unfolding add_member_def Let_def
    by (rule bind_unchanged [where I = "extended X path st0"])
       (auto simp: assms split: prod.split intro!: update_keeps improves_member)
  with Cmd_AddMember show ?thesis by (simp add: authority_main_def printing_def)
next
  case (Cmd_AddBootstrap args)
  then show ?thesis using add_bootstrap_keeps [OF assms(1,2)] by (simp add: authority_main_def printing_def)
next
  case (Cmd_AddRelay args)
  have "extended X path st0 (snd (add_relay X args fs))"
    unfolding add_relay_def Let_def
  proof (rule bind_unchanged [where I = "extended X path st0"], goal_cases)
    case (3 st)
    have save: "extended X path st0 (snd (authority_save_state X (al_state_path args)
        (materialize_state (st\<lparr>au_relays := upsert_relay r (au_relays st), au_relay_map_version := g\<rparr>)) fs))" for r g
      using save_frame [OF assms(1,2)] loaded_improves [OF assms(2) _ improves_relay [of g r]] 3 by metis
    show ?case
      by (rule bind_unchanged [where I = "extended X path st0"]) (simp_all add: assms save)
  qed (simp_all add: load_run assms)
  with Cmd_AddRelay show ?thesis by (simp add: authority_main_def printing_def)
next
  case (Cmd_Serve args)
  have "keeps (extended X path st0) (authority_serve X bound args requests)"
    unfolding authority_serve_def answer_request_def Let_def
    by (intro keeps_intros keeps_pure load_or_init_keeps assms)
  then show ?thesis using Cmd_Serve assms(2) by (simp add: authority_main_def keeps_def)
next
  case (Cmd_Issue args)
  then show ?thesis using issue_keeps [OF assms(1,2)] by (simp add: authority_main_def printing_def)
next
  case (Cmd_Fixtures args)
  then show ?thesis using assms by (simp add: authority_main_def return_r_def)
qed

section \<open>Every sequence of commands\<close>

inductive authority_run :: "'x authority_env_scheme \<Rightarrow> authority_command list \<Rightarrow> filesystem \<Rightarrow> filesystem \<Rightarrow> bool"
  for X :: "'x authority_env_scheme" where
  stop: "authority_run X [] fs fs"
| command: "authority_run X commands (snd (authority_main X now bound requests command fs)) fs' \<Longrightarrow>
    authority_run X (command # commands) fs fs'"

lemma run_extends:
  assumes "authority_run X commands fs fs'" and "authority_serde X" and "extended X path st0 fs"
    and "\<forall>command \<in> set commands. \<not> reinitializes path command"
  shows "extended X path st0 fs'"
  using assms(1,3,4)
  by (induction rule: authority_run.induct) (auto intro: command_keeps [OF assms(2)])

lemma init_stores:
  assumes "authority_serde X" and "roomy fs0 (ia_state_path args)"
    and "authority_main X now bound requests (Cmd_Init args) fs0 = (Ok out, fs)"
  shows "extended X (ia_state_path args) (initial_state X (ia_network args) (ia_realm args) (ia_bootstrap_addresses args)) fs"
proof -
  let ?st = "initial_state X (ia_network args) (ia_realm args) (ia_bootstrap_addresses args)"
  from assms(3) have "authority_save_state X (ia_state_path args) ?st fs0 = (Ok (), fs)"
    by (auto simp: authority_main_def printing_def authority_init_def bind_r_Ok then_r_Ok return_r_def Let_def)
  then have w: "fs_write fs0 (ia_state_path args) (authority_to_vec_pretty X ?st) = (Ok (), fs)"
    by (auto simp: authority_save_state_def split: result.splits prod.splits)
  from fs_read_write [OF w] assms(1) have "on_disk X fs (ia_state_path args) ?st"
    by (simp add: on_disk_def authority_serde_def)
  moreover have "roomy fs (ia_state_path args)" using assms(2) fs_write_kept(1) [OF w] by (simp add: roomy_def)
  ultimately show ?thesis using initial_wf [of X] authority_extends_refl unfolding extended_def by blast
qed

text \<open>Initializing again starts a well-formed state from scratch, or fails and changes nothing.\<close>

lemma reinit_wf:
  assumes "authority_serde X" and "extended X path st0 fs" and "ia_state_path args = path"
  shows "\<exists>st. extended X path st (snd (authority_main X now bound requests (Cmd_Init args) fs))"
proof (cases "authority_main X now bound requests (Cmd_Init args) fs")
  case (Pair res fs')
  show ?thesis
  proof (cases res)
    case (Ok out)
    with Pair init_stores [OF assms(1)] assms(2,3) show ?thesis by (fastforce simp: extended_def)
  next
    case (Err e)
    let ?st = "initial_state X (ia_network args) (ia_realm args) (ia_bootstrap_addresses args)"
    have "fs' = snd (authority_save_state X path ?st fs)" "\<not> is_ok (fst (authority_save_state X path ?st fs))"
      using Pair Err assms(3)
      by (auto simp: authority_main_def printing_def authority_init_def bind_r_def then_r_def return_r_def Let_def
          split: prod.splits result.splits)
    then have "fs' = fs"
      using assms(2)
      by (auto simp: authority_save_state_def extended_def roomy_def fs_write_def
          split: result.splits option.splits fs_fault.splits)
    with Pair assms(2) show ?thesis by auto
  qed
qed

lemma run_wf:
  assumes "authority_run X commands fs fs'" and "authority_serde X" and "\<exists>st. extended X path st fs"
  shows "\<exists>st. extended X path st fs'"
  using assms(1,3)
proof (induction rule: authority_run.induct)
  case (command commands now bound requests command fs fs')
  then have "\<exists>st. extended X path st (snd (authority_main X now bound requests command fs))"
    using reinit_wf [OF assms(2)] command_keeps [OF assms(2)] by (auto simp: reinitializes_def) (metis reinitializes_def)
  then show ?case by (rule command.IH)
qed

text \<open>C38: The state file of the authority. After a successful initialization and any sequence of commands,
  a second initialization among them, whatever their results, and as long as the disk does not fill
  up while the file is written, the file decodes to a state in which members, relays and grants are
  keyed, an active subject is a member and there is one as soon as there are members, revocations
  carry strictly increasing sequence numbers below the next one to be issued (until the counter is
  exhausted), and the stored snapshot is the projection of the state. Further commands never lose a
  revocation, a member, a relay or a grant and never reuse a sequence number, unless one of them
  initializes the same file again.\<close>

theorem authority_state_invariant:
  assumes "authority_serde X" and "roomy fs0 (ia_state_path args)"
    and "authority_main X now bound requests (Cmd_Init args) fs0 = (Ok out, fs)"
    and "authority_run X commands fs fs1" and "authority_run X further fs1 fs2"
  shows "\<exists>st1 st2. on_disk X fs1 (ia_state_path args) st1 \<and> on_disk X fs2 (ia_state_path args) st2 \<and>
    authority_wf st1 \<and> authority_wf st2 \<and>
    ((\<forall>command \<in> set further. \<not> reinitializes (ia_state_path args) command) \<longrightarrow> authority_extends st1 st2)"
proof -
  let ?path = "ia_state_path args"
  have "\<exists>st. extended X ?path st fs1" using run_wf [OF assms(4,1)] init_stores [OF assms(1-3)] by blast
  then obtain st1 where st1: "on_disk X fs1 ?path st1" "authority_wf st1" "roomy fs1 ?path" by (auto simp: extended_def)
  then have e: "extended X ?path st1 fs1" using authority_extends_refl by (auto simp: extended_def)
  then obtain st2 where st2: "on_disk X fs2 ?path st2" "authority_wf st2"
    using run_wf [OF assms(5,1), of ?path] by (auto simp: extended_def)
  have "authority_extends st1 st2" if "\<forall>command \<in> set further. \<not> reinitializes ?path command"
    using run_extends [OF assms(5,1) e that] st2(1) by (auto simp: extended_def dest: on_disk_unique)
  with st1 st2 show ?thesis by blast
qed

end
