(* ===== verification/Quip_Plane.thy ===== *)
theory Quip_Plane
  imports Quip_Durable Quip_Reconnect Quip_Effect
begin

text \<open>
  The local control plane of the crate \<open>fabric\<close> on its state file: the state a node starts from,
  loading it for a configuration or an identity, network reprobes, and seeding and synchronising it
  from an authority snapshot in a file or at an origin. An operation runs on the file system; what
  the authority answers is a reader with its decoders.
\<close>

section \<open>The node of the fixtures\<close>

record local_node =
  nd_network_id :: network_id
  nd_peer_store :: peer_store
  nd_discovery :: "discovery_hint list"
  nd_netcheck :: netcheck_report
  nd_candidate_paths :: "path_candidate list"

definition LocalNode_fixture :: "'x codecs_scheme \<Rightarrow> string \<Rightarrow> local_node" where
  "LocalNode_fixture X network_name =
     (let network_id = NetworkId_derive X network_name;
          relay_peer = PeerId_from_public_key X Ed25519 (as_bytes ''fra-relay-1'');
          worker_peer = PeerId_from_public_key X Ed25519 (as_bytes ''worker-17'');
          discovery =
            [\<lparr>dh_peer = relay_peer, dh_addresses = [''udp://203.0.113.10:443''],
              dh_protocols = [''/quip/relay/1'']\<rparr>,
             \<lparr>dh_peer = worker_peer, dh_addresses = [''udp://198.51.100.24:8443''],
              dh_protocols = [''/quip/control/1'', ''/quip/records/1'']\<rparr>];
          (peer_store, _) = ingest_bootstrap discovery PeerStore_default 1720000000;
          peer_store = upsert_peer_with_status
            \<lparr>ps_peer = worker_peer, ps_protocols = [''/quip/control/1'', ''/quip/records/1''],
             ps_addresses = [''udp://198.51.100.24:8443'']\<rparr>
            \<lparr>pst_source = PS_Discovery, pst_reachability = PR_Direct,
             pst_last_seen_unix_secs = Some 1720000120\<rparr> peer_store
      in \<lparr>nd_network_id = network_id, nd_peer_store = peer_store, nd_discovery = discovery,
          nd_netcheck =
            \<lparr>nr_nat_type = RestrictedCone, nr_udp_reachable = True, nr_ipv6_reachable = True,
             nr_hairpin_supported = True, nr_public_udp_addr = Some ''198.51.100.24:8443'',
             nr_port_mapped = False,
             nr_probe_observations =
               [\<lparr>po_vantage = ''nyc-observer-1'', po_status = Probe_Passed, po_latency_ms = Some 12,
                 po_detail = ''reflexive candidate validated''\<rparr>,
                \<lparr>po_vantage = ''fra-observer-1'', po_status = Probe_Passed, po_latency_ms = Some 24,
                 po_detail = ''ipv6 direct candidate validated''\<rparr>]\<rparr>,
          nd_candidate_paths =
            [\<lparr>pc_peer = worker_peer, pc_path_kind = DirectIpv6, pc_relay_peer = None, pc_source = Observed,
              pc_traffic_classes = [Interactive, Control], pc_rtt_ms = 13, pc_jitter_ms = 1,
              pc_loss_pct = f32_lit 1 10, pc_throughput_mbps = 780, pc_relay_penalty = 0\<rparr>,
             \<lparr>pc_peer = worker_peer, pc_path_kind = Relay, pc_relay_peer = Some relay_peer, pc_source = Observed,
              pc_traffic_classes = [Interactive, Bulk], pc_rtt_ms = 24, pc_jitter_ms = 4,
              pc_loss_pct = f32_lit 3 10, pc_throughput_mbps = 1200, pc_relay_penalty = 25\<rparr>]\<rparr>)"

definition LocalNode_status_line :: "'x codecs_scheme \<Rightarrow> local_node \<Rightarrow> string" where
  "LocalNode_status_line X node =
     ''network='' @ NetworkId_to_text X (nd_network_id node) @
     '' peers='' @ show_nat (length (PeerStore_peers (nd_peer_store node))) @
     '' bootstrap_candidates='' @ show_nat (length (nd_discovery node)) @
     '' '' @ NetcheckReport_summary (nd_netcheck node)"

definition best_path_for :: "'x codecs_scheme \<Rightarrow> local_node \<Rightarrow> traffic_class \<Rightarrow> path_decision option" where
  "best_path_for X node tc = select_best_path X (nd_candidate_paths node) tc"

definition fixture_daemon_state :: "'x artifact_env_scheme \<Rightarrow> string \<Rightarrow> daemon_state" where
  "fixture_daemon_state X network =
     (let node = LocalNode_fixture X network;
          authority = from_secret_bytes (replicate 32 11);
          local_identity = from_secret_bytes (replicate 32 12);
          local_peer_id = IdentityKeypair_peer_id X local_identity;
          membership = MembershipCertificate_issue X authority (NetworkId_derive X network) local_peer_id
            1720000000 1820000000 [''member'']
      in \<lparr>ds_schema_version = DAEMON_STATE_SCHEMA_VERSION, ds_network = network,
          ds_local_peer_id = local_peer_id, ds_roles = [Role_Edge, Role_Observer],
          ds_membership = membership, ds_capability_grants = [], ds_revocations = [], ds_denied_peers = [],
          ds_bootstrap =
            map (\<lambda>hint. \<lparr>be_peer = Some (dh_peer hint), be_addresses = dh_addresses hint,
                         be_protocols = dh_protocols hint, be_metadata = [(''source'', ''fixture'')]\<rparr>)
              (nd_discovery node),
          ds_relay_map = Some
            \<lparr>rm_version = 1, rm_generated_at = 1720000000,
             rm_relays =
               [\<lparr>an_peer_id = PeerId_from_public_key X Ed25519 (as_bytes ''fra-relay-1''),
                 an_region = ''eu-central-1'', an_advertised_endpoints = [''udp://203.0.113.10:443''],
                 an_control_endpoint = ''http://203.0.113.10:9081'', an_max_bandwidth_bps = 1500000000,
                 an_supports_quic_datagrams = True, an_supports_path_migration = True,
                 an_traffic_classes = [''NetworkControl'', ''InteractiveRpc'', ''Background'']\<rparr>]\<rparr>,
          ds_peers = PeerStore_peers (nd_peer_store node), ds_netcheck = nd_netcheck node,
          ds_queue_policies = default_queue_policies, ds_active_sessions = [],
          ds_path_candidates = nd_candidate_paths node\<rparr>)"

definition self_identity_daemon_state ::
  "'x artifact_env_scheme \<Rightarrow> string \<Rightarrow> daemon_role list \<Rightarrow> identity_keypair \<Rightarrow> daemon_state" where
  "self_identity_daemon_state X network roles local_identity =
     (let state = fixture_daemon_state X network;
          local_peer_id = IdentityKeypair_peer_id X local_identity;
          state = state\<lparr>ds_roles := roles, ds_local_peer_id := local_peer_id,
            ds_membership := MembershipCertificate_issue X local_identity (NetworkId_derive X network)
              local_peer_id 1720000000 1820000000 [''member'']\<rparr>;
          state = state\<lparr>ds_denied_peers := denied_peers X (ds_membership state) (ds_revocations state)\<rparr>
      in state\<lparr>ds_path_candidates := merged_path_candidates state\<rparr>)"

section \<open>The state file\<close>

type_synonym 'a file_op = "(filesystem, 'a, daemon_state_error) comp"

definition load_state :: "'x durable_env_scheme \<Rightarrow> daemon_config \<Rightarrow> daemon_state file_op" where
  "load_state E c fs = (DaemonState_load E fs (dcf_state_path c), fs)"

definition save_state :: "'x durable_env_scheme \<Rightarrow> daemon_config \<Rightarrow> daemon_state \<Rightarrow> unit file_op" where
  "save_state E c state = DaemonState_save E state (dcf_state_path c)"

definition state_exists :: "daemon_config \<Rightarrow> filesystem \<Rightarrow> bool" where
  "state_exists c fs = fs_exists fs (dcf_state_path c)"

definition with_merged_candidates :: "daemon_state \<Rightarrow> daemon_state" where
  "with_merged_candidates state = state\<lparr>ds_path_candidates := merged_path_candidates state\<rparr>"

definition ensure_state :: "'x durable_env_scheme \<Rightarrow> daemon_config \<Rightarrow> daemon_state file_op" where
  "ensure_state E c =
     bind_r (reads (state_exists c)) (\<lambda>present.
       if present
       then bind_r (load_state E c) (\<lambda>state.
         return_r (with_merged_candidates (state\<lparr>ds_roles := dcf_roles c\<rparr>)))
       else
         let state = with_merged_candidates ((fixture_daemon_state E (dcf_network c))\<lparr>ds_roles := dcf_roles c\<rparr>)
         in then_r (save_state E c state) (return_r state))"

definition ensure_state_for_local_identity ::
  "'x durable_env_scheme \<Rightarrow> daemon_config \<Rightarrow> identity_keypair \<Rightarrow> daemon_state file_op" where
  "ensure_state_for_local_identity E c local_identity =
     bind_r (reads (state_exists c)) (\<lambda>present.
       if present then ensure_state E c
       else
         let state = with_merged_candidates (self_identity_daemon_state E (dcf_network c) (dcf_roles c) local_identity)
         in then_r (save_state E c state) (return_r state))"

definition ensure_identity_bound_state ::
  "'x durable_env_scheme \<Rightarrow> daemon_config \<Rightarrow> identity_keypair \<Rightarrow> daemon_state file_op" where
  "ensure_identity_bound_state E c local_identity =
     bind_r (ensure_state_for_local_identity E c local_identity) (\<lambda>state.
       let expected = IdentityKeypair_peer_id E local_identity
       in if ds_local_peer_id state \<noteq> expected
          then raise_r (DS_InvalidSession (''state local peer '' @ PeerId_to_text E (ds_local_peer_id state) @
                 '' does not match runtime identity '' @ PeerId_to_text E expected))
          else if mc_subject_peer_id (ds_membership state) \<noteq> expected
          then raise_r (DS_InvalidSession (''membership subject peer '' @
                 PeerId_to_text E (mc_subject_peer_id (ds_membership state)) @
                 '' does not match runtime identity '' @ PeerId_to_text E expected))
          else return_r state)"

definition refresh_and_persist :: "'x durable_env_scheme \<Rightarrow> daemon_config \<Rightarrow> daemon_state file_op" where
  "refresh_and_persist E c =
     bind_r (ensure_state E c) (\<lambda>state. then_r (save_state E c state) (return_r state))"

definition refresh_and_persist_for_local_identity ::
  "'x durable_env_scheme \<Rightarrow> daemon_config \<Rightarrow> identity_keypair \<Rightarrow> daemon_state file_op" where
  "refresh_and_persist_for_local_identity E c local_identity =
     bind_r (ensure_state_for_local_identity E c local_identity)
       (\<lambda>state. then_r (save_state E c state) (return_r state))"

record netcheck_reprobe_report =
  nb_reason :: string
  nb_udp_reachable :: bool
  nb_ipv6_reachable :: bool
  nb_relay_required :: bool
  nb_probe_observations :: nat
  nb_path_candidates :: nat

definition reprobe_network_change ::
  "'x durable_env_scheme \<Rightarrow> daemon_config \<Rightarrow> string \<Rightarrow> netcheck_reprobe_report file_op" where
  "reprobe_network_change E c reason =
     bind_r (ensure_state E c) (\<lambda>state.
       let state = with_merged_candidates (state\<lparr>ds_netcheck := reprobe_netcheck state reason\<rparr>);
           report = \<lparr>nb_reason = reason, nb_udp_reachable = nr_udp_reachable (ds_netcheck state),
             nb_ipv6_reachable = nr_ipv6_reachable (ds_netcheck state),
             nb_relay_required = relay_required (ds_netcheck state),
             nb_probe_observations = length (nr_probe_observations (ds_netcheck state)),
             nb_path_candidates = length (ds_path_candidates state)\<rparr>
       in then_r (save_state E c state) (return_r report))"

section \<open>Authority data\<close>

definition load_authority_snapshot ::
  "'x durable_env_scheme \<Rightarrow> string \<Rightarrow> authority_artifact_snapshot file_op" where
  "load_authority_snapshot E snapshot_path =
     bind_r (\<lambda>fs. (map_err DS_Io (fs_read fs snapshot_path), fs)) (\<lambda>content.
       from_result (map_err DS_Serialization (snapshot_from_slice E content)))"

definition authority_client :: "'x codecs_scheme \<Rightarrow> string \<Rightarrow> string \<Rightarrow> control_client" where
  "authority_client X network origin = ControlClient_from_origin (NetworkId_derive X network) origin"

text \<open>The agent with the decoders of what it fetches.\<close>

record authority_reader = http_reader +
  ar_snapshot :: "string \<Rightarrow> (authority_artifact_snapshot, string) result"
  ar_relay_map :: "string \<Rightarrow> (relay_map, string) result"
  ar_revocations :: "string \<Rightarrow> (revocation_record list, string) result"

definition http_part :: "'h http_reader_scheme \<Rightarrow> http_reader" where
  "http_part H = http_reader.truncate H"

definition control_result :: "('a, control_error) result \<Rightarrow> 'a file_op" where
  "control_result r = from_result (map_err DS_Control r)"

definition initial_sync_report :: "daemon_state \<Rightarrow> nat \<Rightarrow> state_sync_report" where
  "initial_sync_report state relay_announcements_added =
     \<lparr>sy_membership_changed = True, sy_grants_added = length (ds_capability_grants state),
      sy_grants_removed = 0, sy_revocations_added = length (ds_revocations state),
      sy_bootstrap_hints_added = length (ds_bootstrap state), sy_bootstrap_hints_removed = 0,
      sy_relay_announcements_added = relay_announcements_added\<rparr>"

definition seed_from_authority_snapshot ::
  "'x durable_env_scheme \<Rightarrow> daemon_config \<Rightarrow> string \<Rightarrow> daemon_state file_op" where
  "seed_from_authority_snapshot E c snapshot_path =
     bind_r (load_authority_snapshot E snapshot_path) (\<lambda>snapshot.
     bind_r (from_result (from_authority_snapshot E (dcf_network c) (dcf_roles c) snapshot)) (\<lambda>state.
       let state = with_merged_candidates state
       in then_r (save_state E c state) (return_r state)))"

definition local_control_client :: "'x codecs_scheme \<Rightarrow> daemon_config \<Rightarrow> control_client" where
  "local_control_client X c =
     \<lparr>cc_network_id = NetworkId_derive X (dcf_network c),
      cc_endpoints = \<lparr>ae_enrollment = ''local://enroll'', ae_revocation = ''local://revoke'',
        ae_relay_map = ''local://relays'', ae_bootstrap = ''local://bootstrap'',
        ae_snapshot = ''local://snapshot''\<rparr>\<rparr>"

definition plane_sync_authority_snapshot ::
  "'x durable_env_scheme \<Rightarrow> daemon_config \<Rightarrow> string \<Rightarrow> (daemon_state \<times> state_sync_report) file_op" where
  "plane_sync_authority_snapshot E c snapshot_path =
     bind_r (load_authority_snapshot E snapshot_path) (\<lambda>snapshot.
     bind_r (reads (state_exists c)) (\<lambda>present.
       if present
       then
         bind_r (load_state E c) (\<lambda>state.
         bind_r (from_result (DaemonState_sync_authority_snapshot E (state\<lparr>ds_roles := dcf_roles c\<rparr>)
                                (local_control_client E c) snapshot)) (\<lambda>(state, report).
         then_r (save_state E c state) (return_r (state, report))))
       else
         bind_r (from_result (from_authority_snapshot E (dcf_network c) (dcf_roles c) snapshot)) (\<lambda>state.
           let state = with_merged_candidates state
           in then_r (save_state E c state) (return_r (state, initial_sync_report state 0)))))"

definition seed_from_authority_origin ::
  "'x durable_env_scheme \<Rightarrow> 'h authority_reader_scheme \<Rightarrow> daemon_config \<Rightarrow> string \<Rightarrow> string option \<Rightarrow>
   daemon_state file_op" where
  "seed_from_authority_origin E H c origin subject =
     (let client = authority_client E (dcf_network c) origin
      in bind_r (control_result (fetch_authority_snapshot_for (http_part H) (ar_snapshot H) client subject)) (\<lambda>snapshot.
         bind_r (control_result (fetch_relay_map (http_part H) (ar_relay_map H) client)) (\<lambda>relay_map.
         bind_r (from_result (from_authority_snapshot E (dcf_network c) (dcf_roles c) snapshot)) (\<lambda>state.
           let (state, _) = apply_relay_map (with_merged_candidates state) relay_map
           in then_r (save_state E c state) (return_r state)))))"

definition sync_authority_origin ::
  "'x durable_env_scheme \<Rightarrow> 'h authority_reader_scheme \<Rightarrow> daemon_config \<Rightarrow> string \<Rightarrow> string option \<Rightarrow>
   (daemon_state \<times> state_sync_report) file_op" where
  "sync_authority_origin E H c origin subject =
     (let client = authority_client E (dcf_network c) origin
      in bind_r (control_result (fetch_authority_snapshot_for (http_part H) (ar_snapshot H) client subject)) (\<lambda>snapshot.
         bind_r (control_result (fetch_relay_map (http_part H) (ar_relay_map H) client)) (\<lambda>relay_map.
         bind_r (reads (state_exists c)) (\<lambda>present.
           if present
           then
             bind_r (load_state E c) (\<lambda>state.
             bind_r (from_result (DaemonState_sync_authority_snapshot E (state\<lparr>ds_roles := dcf_roles c\<rparr>)
                                    client snapshot)) (\<lambda>(state, report).
               let (state, relay_announcements_added) = apply_relay_map state relay_map
               in then_r (save_state E c state)
                    (return_r (state, report\<lparr>sy_relay_announcements_added := relay_announcements_added\<rparr>))))
           else
             bind_r (from_result (from_authority_snapshot E (dcf_network c) (dcf_roles c) snapshot)) (\<lambda>state.
               let (state, relay_announcements_added) = apply_relay_map (with_merged_candidates state) relay_map
               in then_r (save_state E c state)
                    (return_r (state, initial_sync_report state relay_announcements_added)))))))"

definition sync_authority_revocations_origin ::
  "'x durable_env_scheme \<Rightarrow> 'h authority_reader_scheme \<Rightarrow> daemon_config \<Rightarrow> string \<Rightarrow>
   (daemon_state \<times> nat) file_op" where
  "sync_authority_revocations_origin E H c origin =
     bind_r (ensure_state E c) (\<lambda>state.
       let state = state\<lparr>ds_roles := dcf_roles c\<rparr>;
           client = authority_client E (dcf_network c) origin
       in bind_r (control_result (fetch_revocations (http_part H) (ar_revocations H) client
                                    (max_revocation_sequence state))) (\<lambda>revocations.
          let (state, added) = apply_revocations E state revocations
          in then_r (save_state E c state) (return_r (state, added))))"

section \<open>Queries\<close>

definition inspect_peer ::
  "'x durable_env_scheme \<Rightarrow> daemon_config \<Rightarrow> peer_id \<Rightarrow> (peer_inspection \<times> path_decision option) file_op" where
  "inspect_peer E c peer =
     bind_r (ensure_state E c) (\<lambda>state.
       case DaemonState_peer state peer of
         None \<Rightarrow> raise_r (DS_PeerNotFound (PeerId_to_text E peer))
       | Some ins \<Rightarrow> return_r (ins, best_path E state peer Interactive))"

definition session_snapshots :: "'x durable_env_scheme \<Rightarrow> daemon_config \<Rightarrow> session_snapshot list file_op" where
  "session_snapshots E c = bind_r (ensure_state E c) (\<lambda>state. return_r (ds_active_sessions state))"

definition inspect_state_file ::
  "'x durable_env_scheme \<Rightarrow> daemon_config \<Rightarrow> durable_state_inspection_report file_op" where
  "inspect_state_file E c fs = (inspect_durable_state_file E fs (dcf_state_path c), fs)"

definition validate_state_file ::
  "'x durable_env_scheme \<Rightarrow> daemon_config \<Rightarrow> durable_state_inspection_report file_op" where
  "validate_state_file E c fs = (validate_durable_state_file E fs (dcf_state_path c), fs)"

definition reset_network_state :: "daemon_config \<Rightarrow> bool file_op" where
  "reset_network_state c =
     bind_r (reads (state_exists c)) (\<lambda>present.
       if present
       then then_r (\<lambda>fs. case fs_remove fs (dcf_state_path c) of (r, fs) \<Rightarrow> (map_err DS_Io r, fs)) (return_r True)
       else return_r False)"

definition plane_explain_policy ::
  "'x durable_env_scheme \<Rightarrow> daemon_config \<Rightarrow> peer_id \<Rightarrow> protocol_id \<Rightarrow> decision file_op" where
  "plane_explain_policy E c peer protocol =
     bind_r (ensure_state E c) (\<lambda>state. return_r (explain_policy E state peer protocol))"

end
