(* ===== verification/Quip_Authority_Sync.thy ===== *)
theory Quip_Authority_Sync
  imports Quip_Authority_Laws Quip_Plane Quip_State_Laws Quip_Durable_Laws
begin

text \<open>
  The authority and the nodes together: the client of \<open>crates/control\<close> asks the service of
  \<open>cmd/authority\<close> over HTTP, and the control plane of \<open>crates/fabric\<close> applies what it receives.
\<close>

section \<open>The service behind an agent\<close>

text \<open>\<open>ureq\<close> returns an error for a status of 400 and above.\<close>

definition as_http_reply :: "authority_reply \<Rightarrow> http_reply" where
  "as_http_reply r = (if rep_status r < 400 then Response (Ok (rep_body r)) else Status (rep_status r) (Ok (rep_body r)))"

text \<open>The request targets a URL carries unchanged. Parsing a URL drops a fragment, resolves dot segments
  in the path and percent-encodes, in the query, everything but printable ASCII without quotes and
  angle brackets; the service does not decode. The paths of the service are letters and slashes.\<close>

definition path_char :: "char \<Rightarrow> bool" where
  "path_char c = (let n = of_char c :: nat in n = 0x2F \<or> 0x61 \<le> n \<and> n \<le> 0x7A)"

definition query_char :: "char \<Rightarrow> bool" where
  "query_char c = (let n = of_char c :: nat in 0x21 \<le> n \<and> n \<le> 0x7E \<and> n \<notin> {0x22, 0x23, 0x27, 0x3C, 0x3E})"

definition carried :: "string \<Rightarrow> bool" where
  "carried target \<longleftrightarrow>
     (case split_request_target target of (path, query) \<Rightarrow> list_all path_char path \<and> list_all query_char query)"

text \<open>The agent reaches the service at the base URL under such targets, and the decoders of the node read
  what the authority's serializers write.\<close>

definition reaches ::
  "'x authority_env_scheme \<Rightarrow> authority_state \<Rightarrow> u64 \<Rightarrow> string \<Rightarrow> 'h authority_reader_scheme \<Rightarrow> bool" where
  "reaches X st now base H \<longleftrightarrow>
     (\<forall>target. carried target \<longrightarrow> hr_get H (base @ target) = as_http_reply (route_request X st now ''GET'' target)) \<and>
     (\<forall>s. ar_snapshot H (body_to_vec_pretty X (SnapshotBody s)) = Ok s) \<and>
     (\<forall>m. ar_relay_map H (body_to_vec_pretty X (RelayMapBody m)) = Ok m) \<and>
     (\<forall>rs. ar_revocations H (body_to_vec_pretty X (RevocationsBody rs)) = Ok rs)"

lemma reachesD:
  assumes "reaches X st now base H"
  shows "carried target \<Longrightarrow> hr_get H (base @ target) = as_http_reply (route_request X st now ''GET'' target)"
    and "ar_snapshot H (body_to_vec_pretty X (SnapshotBody s)) = Ok s"
    and "ar_relay_map H (body_to_vec_pretty X (RelayMapBody m)) = Ok m"
    and "ar_revocations H (body_to_vec_pretty X (RevocationsBody rs)) = Ok rs"
  using assms unfolding reaches_def by blast+

lemma query_char_digit: "c \<in> set (show_nat n) \<Longrightarrow> query_char c"
  using show_nat_no_char [of c n] by (force simp: query_char_def Let_def)

lemma http_part_get [simp]: "hr_get (http_part H) = hr_get H"
  by (simp add: http_part_def http_reader.truncate_def)

lemma split_on_none: "c \<notin> set s \<Longrightarrow> split_on c s = [s]"
  by (induction s) auto

lemma split_once_append: "c \<notin> set a \<Longrightarrow> split_once c (a @ c # b) = Some (a, b)"
  by (simp add: split_once_spec)

lemma query_param_single:
  assumes "CHR ''='' \<notin> set name" "CHR ''&'' \<notin> set name" "CHR ''&'' \<notin> set val" "val \<noteq> []"
  shows "query_param (name @ CHR ''='' # val) key = (if name = key then Some val else None)"
proof -
  have "CHR ''&'' \<notin> set (name @ CHR ''='' # val)" using assms by auto
  from split_on_none [OF this] show ?thesis
    using split_once_append [OF assms(1), of val] assms(4) by (simp add: query_param_def)
qed

lemma query_param_empty: "key \<noteq> [] \<Longrightarrow> query_param [] key = None"
  by (simp add: query_param_def split_once_def)

section \<open>Revocations\<close>

lemma revocations_reply:
  assumes "reaches X st now base H"
  shows "into_json (ar_revocations H) (Ok (body_to_vec_pretty X (RevocationsBody rs))) = Ok rs"
  using assms by (simp add: reaches_def into_json_def)

lemma fetch_revocations_exact:
  assumes "reaches X st now (trim_end_matches (CHR ''/'') origin) H"
  shows "fetch_revocations (http_part H) (ar_revocations H) (ControlClient_from_origin n origin) after =
    Ok (filtered_revocations st after)"
proof (cases after)
  case None
  have "split_request_target ''/revoke'' = (''/revoke'', [])" by (simp add: split_request_target_def split_once_def)
  then have "route_request X st now ''GET'' ''/revoke'' = authority_json_response X 200 (RevocationsBody (filtered_revocations st None))"
    by (simp add: route_request_def query_param_empty)
  moreover have "carried ''/revoke''"
    using \<open>split_request_target ''/revoke'' = (''/revoke'', [])\<close> by (simp add: carried_def path_char_def Let_def)
  then have "hr_get H (trim_end_matches (CHR ''/'') origin @ ''/revoke'') =
      as_http_reply (route_request X st now ''GET'' ''/revoke'')"
    by (rule reachesD(1) [OF assms])
  ultimately show ?thesis
    using revocations_reply [OF assms] None
    by (simp add: fetch_revocations_def ControlClient_from_origin_def Let_def endpoint_with_after_sequence_def
        as_http_reply_def authority_json_response_def)
next
  case (Some seq)
  let ?t = "''/revoke?after_sequence='' @ show_word seq"
  have amp: "CHR ''&'' \<notin> set (show_word seq)" unfolding show_word_def by (rule show_nat_no_char) simp
  have "split_once (CHR ''?'') (''/revoke'' @ CHR ''?'' # (''after_sequence='' @ show_word seq)) =
      Some (''/revoke'', ''after_sequence='' @ show_word seq)"
    by (rule split_once_append) simp
  then have target: "split_request_target ?t = (''/revoke'', ''after_sequence'' @ CHR ''='' # show_word seq)"
    by (simp add: split_request_target_def)
  have "list_all query_char (show_word seq)" by (auto simp: list_all_iff show_word_def query_char_digit)
  then have "carried ?t" unfolding carried_def target by (simp add: path_char_def query_char_def Let_def)
  then have get: "hr_get H (trim_end_matches (CHR ''/'') origin @ ?t) = as_http_reply (route_request X st now ''GET'' ?t)"
    by (rule reachesD(1) [OF assms])
  have param: "query_param (''after_sequence'' @ CHR ''='' # show_word seq) key =
      (if ''after_sequence'' = key then Some (show_word seq) else None)" for key
    by (rule query_param_single) (simp_all add: amp, simp add: show_word_def show_nat_nonempty)
  from target param have "route_request X st now ''GET'' ?t =
      authority_json_response X 200 (RevocationsBody (filtered_revocations st (Some seq)))"
    unfolding route_request_def by (simp add: parse_u64_param_def parse_word_show)
  with get show ?thesis
    using revocations_reply [OF assms] Some
    by (simp add: fetch_revocations_def ControlClient_from_origin_def Let_def endpoint_with_after_sequence_def
        as_http_reply_def authority_json_response_def)
qed

text \<open>A strictly ordered log is caught up with from its largest known sequence number.\<close>

lemma filter_suffix:
  assumes "sorted_wrt (<) (map rr_sequence (xs @ ys))"
  shows "filter (\<lambda>r. case max_opt (map rr_sequence xs) of Some n \<Rightarrow> rr_sequence r > n | None \<Rightarrow> True) (xs @ ys) = ys"
proof (cases "xs = []")
  case True
  then show ?thesis by (simp add: max_opt_Max)
next
  case False
  let ?n = "Max (rr_sequence ` set xs)"
  have "\<not> ?n < rr_sequence r" if "r \<in> set xs" for r using that by (simp add: not_less)
  moreover have "?n < rr_sequence r" if "r \<in> set ys" for r
    using False that assms by (auto simp: sorted_wrt_append sorted_wrt_map)
  ultimately show ?thesis using False by (simp add: max_opt_Max filter_empty_conv filter_id_conv)
qed

lemma merge_log_fresh:
  "(\<And>x z. x \<in> set xs \<Longrightarrow> z \<in> set zs \<Longrightarrow> \<not> same x z) \<Longrightarrow> sorted_wrt (\<lambda>x z. \<not> same x z) zs \<Longrightarrow>
   merge_log same xs zs = (xs @ zs, length zs)"
proof (induction zs arbitrary: xs)
  case (Cons z zs)
  have "merge_log same (xs @ [z]) zs = (xs @ z # zs, length zs)"
    using Cons.IH [of "xs @ [z]"] Cons.prems by auto
  then show ?case using Cons.prems(1) by auto
qed simp

lemma catch_up:
  assumes "sorted_wrt (<) (map rr_sequence (xs @ ys))"
  shows "merge_log same_revocation xs ys = (xs @ ys, length ys)"
  using assms
  by (intro merge_log_fresh)
     (auto simp: sorted_wrt_append sorted_wrt_map same_revocation_def dest: less_imp_neq elim!: sorted_wrt_mono_rel [rotated])

lemma save_keeps_faults: "fs_fault (snd (DaemonState_save E s p fs)) = fs_fault fs"
  by (auto simp: DaemonState_save_def write_with_parent_def fs_write_kept(1) split: result.splits prod.splits)

lemma ensure_keeps_faults: "fs_fault (snd (ensure_state E c fs)) = fs_fault fs"
proof -
  have "keeps (\<lambda>f. fs_fault f = fs_fault fs) (save_state E c s)" for s
    by (simp add: keeps_def save_state_def save_keeps_faults)
  moreover have "keeps (\<lambda>f. fs_fault f = fs_fault fs) (load_state E c)" by (simp add: keeps_def load_state_def)
  ultimately have "keeps (\<lambda>f. fs_fault f = fs_fault fs) (ensure_state E c)"
    unfolding ensure_state_def Let_def by (intro keeps_intros keeps_pure)
  then show ?thesis by (simp add: keeps_def)
qed

text \<open>C39: A node catches up with the authority. When the agent of a node reaches the service, the node holds
  an earlier part of the authority's revocation log and its disk works, one fetch of the revocations
  after the largest sequence number it knows succeeds and leaves it with the whole log in the
  authority's order, counts exactly the new ones, and from then on denies every revoked peer every
  protocol.\<close>

theorem revocation_sync_complete:
  assumes "reaches X st now (trim_end_matches (CHR ''/'') origin) H"
    and "authority_wf st" and "au_next_revocation_sequence st \<noteq> - 1"
    and "fst (ensure_state E c fs) = Ok node" and "prefix (ds_revocations node) (au_revocations st)"
    and "fs_fault fs = (\<lambda>_. None)"
  shows "\<exists>node' fs'. sync_authority_revocations_origin E H c origin fs =
      (Ok (node', length (au_revocations st) - length (ds_revocations node)), fs') \<and>
    ds_revocations node' = au_revocations st \<and>
    (\<forall>peer protocol. (\<exists>r \<in> set (au_revocations st). rr_target r = PeerTarget peer) \<longrightarrow>
       \<not> dc_allowed (explain_policy E node' peer protocol))"
proof -
  let ?node = "node\<lparr>ds_roles := dcf_roles c\<rparr>" and ?log = "ds_revocations node"
  from assms(5) obtain new where new: "au_revocations st = ?log @ new" by (auto simp: prefix_def)
  from assms(2,3) have sorted: "sorted_wrt (<) (map rr_sequence (?log @ new))"
    by (simp add: authority_wf_def fresh_sequences_def new)
  have fetched: "fetch_revocations (http_part H) (ar_revocations H) (authority_client E (dcf_network c) origin)
      (max_revocation_sequence ?node) = Ok new"
    using fetch_revocations_exact [OF assms(1)] filter_suffix [OF sorted]
    by (simp add: authority_client_def filtered_revocations_def max_revocation_sequence_def new)
  obtain fs1 where en: "ensure_state E c fs = (Ok node, fs1)" using assms(4) by (cases "ensure_state E c fs") simp
  have healthy: "fs_fault fs1 = (\<lambda>_. None)" using ensure_keeps_faults [of E c fs] en assms(6) by simp
  define node' where "node' = fst (apply_revocations E ?node new)"
  have ap: "apply_revocations E ?node new = (node', length new)"
    using catch_up [OF sorted] by (simp add: node'_def apply_revocations_log)
  have log: "ds_revocations node' = au_revocations st"
    "ds_denied_peers node' = denied_peers E (ds_membership node') (au_revocations st)"
    using catch_up [OF sorted] by (simp_all add: node'_def apply_revocations_log new)
  have "deny_reason node' peer \<noteq> None" if "\<exists>r \<in> set (au_revocations st). rr_target r = PeerTarget peer" for peer
    using that denied_peers_iff [of peer E "ds_membership node'" "au_revocations st"] log(2)
    by (auto simp: deny_reason_def find_None_iff image_iff revokes_def)
  then have denied: "\<not> dc_allowed (explain_policy E node' peer protocol)"
    if "\<exists>r \<in> set (au_revocations st). rr_target r = PeerTarget peer" for peer protocol
    using that by (fastforce simp: explain_policy_def)
  obtain fs' where save: "save_state E c node' fs1 = (Ok (), fs')"
    using healthy_disk [OF healthy] by (simp add: save_state_def DaemonState_save_def)
  have "sync_authority_revocations_origin E H c origin fs = (Ok (node', length new), fs')"
    by (simp add: sync_authority_revocations_origin_def bind_r_def en Let_def control_result_def fetched from_result_def
        ap then_r_def save return_r_def)
  with log(1) denied new show ?thesis by simp
qed

section \<open>Seeding\<close>

lemma snapshot_target:
  assumes "subject \<noteq> []" and "CHR ''&'' \<notin> set subject"
  shows "split_request_target (''/snapshot?subject='' @ subject) = (''/snapshot'', ''subject'' @ CHR ''='' # subject)"
    and "route_request X st now ''GET'' (''/snapshot?subject='' @ subject) =
    (case find_member st subject of
       Some member \<Rightarrow> authority_json_response X 200 (SnapshotBody (projection_for st (Some member)))
     | None \<Rightarrow> missing_subject_response X (Some subject))"
proof -
  have "split_once (CHR ''?'') (''/snapshot'' @ CHR ''?'' # (''subject='' @ subject)) = Some (''/snapshot'', ''subject='' @ subject)"
    by (rule split_once_append) simp
  then show "split_request_target (''/snapshot?subject='' @ subject) = (''/snapshot'', ''subject'' @ CHR ''='' # subject)"
    by (simp add: split_request_target_def)
  moreover have "query_param (''subject'' @ CHR ''='' # subject) key = (if ''subject'' = key then Some subject else None)" for key
    by (rule query_param_single) (simp_all add: assms)
  ultimately show "route_request X st now ''GET'' (''/snapshot?subject='' @ subject) =
    (case find_member st subject of
       Some member \<Rightarrow> authority_json_response X 200 (SnapshotBody (projection_for st (Some member)))
     | None \<Rightarrow> missing_subject_response X (Some subject))"
    unfolding route_request_def by (simp add: projected_snapshot_def split: option.split)
qed

lemma fetch_snapshot_exact:
  assumes "reaches X st now (trim_end_matches (CHR ''/'') origin) H" and "subject \<noteq> []"
    and "list_all query_char subject" and "CHR ''&'' \<notin> set subject"
  shows "fetch_authority_snapshot_for (http_part H) (ar_snapshot H) (ControlClient_from_origin n origin) (Some subject) =
    (case find_member st subject of
       None \<Rightarrow> Err (MissingSubject subject)
     | Some member \<Rightarrow> if as_network_id (au_snapshot st) = n then Ok (projection_for st (Some member)) else Err NetworkMismatch)"
proof -
  have "hr_get H (trim_end_matches (CHR ''/'') origin @ ''/snapshot?subject='' @ subject) =
      as_http_reply (case find_member st subject of
       Some member \<Rightarrow> authority_json_response X 200 (SnapshotBody (projection_for st (Some member)))
     | None \<Rightarrow> missing_subject_response X (Some subject))"
    unfolding snapshot_target(2) [OF assms(2,4), of X st now, symmetric]
    by (rule reachesD(1) [OF assms(1)], unfold carried_def snapshot_target(1) [OF assms(2,4)])
       (use assms(3) in \<open>simp add: path_char_def query_char_def Let_def\<close>)
  moreover have "ar_snapshot H (body_to_vec_pretty X (SnapshotBody s)) = Ok s" for s by (rule reachesD(2) [OF assms(1)])
  ultimately show ?thesis
    by (simp add: fetch_authority_snapshot_for_def ControlClient_from_origin_def Let_def endpoint_with_subject_def
        as_http_reply_def authority_json_response_def missing_subject_response_def
        into_json_def sync_authority_snapshot_def map_transport_error_def split: option.split)
qed

lemma fetch_relays_exact:
  assumes "reaches X st now (trim_end_matches (CHR ''/'') origin) H"
  shows "fetch_relay_map (http_part H) (ar_relay_map H) (ControlClient_from_origin n origin) =
    Ok \<lparr>rm_version = au_relay_map_version st, rm_generated_at = now, rm_relays = au_relays st\<rparr>"
proof -
  have "split_request_target ''/relays'' = (''/relays'', [])" by (simp add: split_request_target_def split_once_def)
  then have "route_request X st now ''GET'' ''/relays'' = authority_json_response X 200 (RelayMapBody
      \<lparr>rm_version = au_relay_map_version st, rm_generated_at = now, rm_relays = au_relays st\<rparr>)"
    by (simp add: route_request_def query_param_empty)
  moreover have "hr_get H (trim_end_matches (CHR ''/'') origin @ ''/relays'') = as_http_reply (route_request X st now ''GET'' ''/relays'')"
    using \<open>split_request_target ''/relays'' = (''/relays'', [])\<close>
    by (intro reachesD(1) [OF assms]) (simp add: carried_def path_char_def Let_def)
  moreover have "ar_relay_map H (body_to_vec_pretty X (RelayMapBody m)) = Ok m" for m by (rule reachesD(3) [OF assms])
  ultimately show ?thesis
    by (simp add: fetch_relay_map_def ControlClient_from_origin_def Let_def as_http_reply_def authority_json_response_def into_json_def)
qed

definition seeded_from :: "'x codecs_scheme \<Rightarrow> authority_state \<Rightarrow> u64 \<Rightarrow> authority_member \<Rightarrow> daemon_state \<Rightarrow> bool" where
  "seeded_from E st now member node \<longleftrightarrow>
     ds_membership node = mb_membership member \<and> ds_local_peer_id node = mc_subject_peer_id (mb_membership member) \<and>
     ds_capability_grants node =
       filter (\<lambda>grant. cg_subject_peer_id grant = ds_local_peer_id node) (au_capability_grants st) \<and>
     ds_revocations node = au_revocations st \<and>
     ds_relay_map node = Some \<lparr>rm_version = au_relay_map_version st, rm_generated_at = now, rm_relays = au_relays st\<rparr> \<and>
     ds_active_sessions node = [] \<and> state_wf E node"

text \<open>C40: Seeding a node from the authority under a subject name that a URL carries unchanged: not empty, of
  printable ASCII without ampersand, number sign, quotes and angle brackets. On a disk that works,
  for a subject the authority does not know the node reports
  exactly that and writes nothing; for a member of another network it reports the mismatch and
  writes nothing; for a member of its network it starts with the member's certificate and identity,
  exactly the grants issued to it, all revocations and all relays, in a well-formed state.\<close>

theorem seeding_exact:
  assumes "reaches X st now (trim_end_matches (CHR ''/'') origin) H"
    and "subject \<noteq> []" and "list_all query_char subject" and "CHR ''&'' \<notin> set subject" and "fs_fault fs = (\<lambda>_. None)"
  shows "case find_member st subject of
      None \<Rightarrow> seed_from_authority_origin E H c origin (Some subject) fs = (Err (DS_Control (MissingSubject subject)), fs)
    | Some member \<Rightarrow>
        if as_network_id (au_snapshot st) \<noteq> NetworkId_derive E (dcf_network c)
        then seed_from_authority_origin E H c origin (Some subject) fs = (Err (DS_Control NetworkMismatch), fs)
        else \<exists>node fs'. seed_from_authority_origin E H c origin (Some subject) fs = (Ok node, fs') \<and>
               seeded_from E st now member node"
proof (cases "find_member st subject")
  case None
  with fetch_snapshot_exact [OF assms(1-4)] show ?thesis
    by (simp add: seed_from_authority_origin_def Let_def bind_r_def authority_client_def control_result_def from_result_def
        raise_r_def)
next
  case (Some member)
  let ?snap = "projection_for st (Some member)"
  let ?map = "\<lparr>rm_version = au_relay_map_version st, rm_generated_at = now, rm_relays = au_relays st\<rparr>"
  show ?thesis
  proof (cases "as_network_id (au_snapshot st) = NetworkId_derive E (dcf_network c)")
    case False
    with Some fetch_snapshot_exact [OF assms(1-4)] show ?thesis
      by (simp add: seed_from_authority_origin_def Let_def bind_r_def authority_client_def control_result_def from_result_def
          raise_r_def)
  next
    case True
    then obtain s0 where s0: "from_authority_snapshot E (dcf_network c) (dcf_roles c) ?snap = Ok s0"
      and sel: "ds_membership s0 = mb_membership member" "ds_local_peer_id s0 = mc_subject_peer_id (mb_membership member)"
        "ds_capability_grants s0 = filter (\<lambda>g. cg_subject_peer_id g = mc_subject_peer_id (mb_membership member)) (au_capability_grants st)"
        "ds_revocations s0 = au_revocations st" "ds_relay_map s0 = None" "ds_active_sessions s0 = []"
      by (simp add: from_authority_snapshot_def projection_for_def Let_def)
    have "with_merged_candidates s0 = s0\<lparr>ds_path_candidates := merged_path_candidates s0\<rparr>"
      by (simp add: with_merged_candidates_def)
    define node where "node = fst (apply_relay_map (with_merged_candidates s0) ?map)"
    have "state_wf E (with_merged_candidates s0)"
      using state_wfD [OF state_wf_from [OF s0]] unfolding with_merged_candidates_def
      by (intro state_wf_recompute) simp_all
    then have wf: "state_wf E node" unfolding node_def by (rule state_wf_relay_map)
    have nd: "seeded_from E st now member node"
      using wf by (simp add: seeded_from_def node_def apply_relay_map_def Let_def with_merged_candidates_def sel)
    obtain fs' where "save_state E c node fs = (Ok (), fs')"
      using healthy_disk [OF assms(5)] by (simp add: save_state_def DaemonState_save_def)
    then have "seed_from_authority_origin E H c origin (Some subject) fs = (Ok node, fs')"
      using fetch_snapshot_exact [OF assms(1-4)] fetch_relays_exact [OF assms(1)] Some True s0
      by (simp add: seed_from_authority_origin_def Let_def bind_r_def authority_client_def control_result_def from_result_def
          case_prod_beta node_def then_r_def return_r_def)
    with nd Some True show ?thesis by auto
  qed
qed

end
