(* ===== verification/Quip_Sessions.thy ===== *)
theory Quip_Sessions
  imports Quip_Plane
begin

text \<open>
  The local control plane on running sessions (crate \<open>fabric\<close>): closing, upgrading, reconciling and
  realizing sessions through the transport adapter, and the reevaluation of sessions and listeners
  after the authority's artifacts have changed. The runtime is the adapter together with the file
  system of the state file; \<open>ctl\<close> is the relay control the adapter is configured with.
\<close>

section \<open>The runtime\<close>

record 'r runtime =
  vm_transport :: "'r quic_adapter"
  vm_files :: filesystem

type_synonym ('r, 'a) plane_op = "('r runtime, 'a, daemon_state_error) comp"

definition on_files :: "'a file_op \<Rightarrow> ('r, 'a) plane_op" where
  "on_files m = on_part vm_files (\<lambda>f s. s\<lparr>vm_files := f\<rparr>) (\<lambda>e. e) m"

definition on_transport :: "('r quic_adapter, 'a, transport_error) comp \<Rightarrow> ('r, 'a) plane_op" where
  "on_transport m = on_part vm_transport (\<lambda>a s. s\<lparr>vm_transport := a\<rparr>) DS_Transport m"

text \<open>\<open>match transport.migrate(..).await\<close> sees the error of the transport itself.\<close>

definition try_transport :: "('r quic_adapter, 'a, transport_error) comp \<Rightarrow> ('r runtime, 'a, transport_error) comp" where
  "try_transport m = on_part vm_transport (\<lambda>a s. s\<lparr>vm_transport := a\<rparr>) (\<lambda>e. e) m"

definition on_registry :: "('r quic_adapter \<Rightarrow> 'a \<times> 'r quic_adapter) \<Rightarrow> ('r, 'a) plane_op" where
  "on_registry m s = (case m (vm_transport s) of (v, a) \<Rightarrow> (Ok v, s\<lparr>vm_transport := a\<rparr>))"

definition ask :: "('r quic_adapter \<Rightarrow> 'a) \<Rightarrow> ('r, 'a) plane_op" where
  "ask f = reads (\<lambda>s. f (vm_transport s))"

definition set_session_state ::
  "'x codecs_scheme \<Rightarrow> bytes \<Rightarrow> runtime_session_state \<Rightarrow> session_closure_reason option \<Rightarrow> string option \<Rightarrow>
   ('r, session_snapshot option) plane_op" where
  "set_session_state X sid st closure_reason state_reason =
     on_registry (update_session_state X sid st closure_reason state_reason)"

definition record_event :: "string \<Rightarrow> runtime_event_subject \<Rightarrow> json \<Rightarrow> ('r, unit) plane_op" where
  "record_event event_type subject details = on_transport (record_runtime_event event_type subject details)"

definition sync_runtime_sessions :: "'x durable_env_scheme \<Rightarrow> daemon_config \<Rightarrow> ('r, daemon_state) plane_op" where
  "sync_runtime_sessions E c =
     bind_r (on_files (ensure_state E c)) (\<lambda>state.
     bind_r (ask active_sessions) (\<lambda>sessions. return_r (state\<lparr>ds_active_sessions := sessions\<rparr>)))"

text \<open>The end of every operation: the registered sessions enter the state, which is saved.\<close>

definition save_with_sessions :: "'x durable_env_scheme \<Rightarrow> daemon_config \<Rightarrow> daemon_state \<Rightarrow> ('r, unit) plane_op" where
  "save_with_sessions E c state =
     bind_r (ask active_sessions) (\<lambda>sessions.
       on_files (save_state E c (state\<lparr>ds_active_sessions := sessions\<rparr>)))"

section \<open>Closing and upgrading\<close>

definition plane_close_session ::
  "'x durable_env_scheme \<Rightarrow> 'r relay_control \<Rightarrow> daemon_config \<Rightarrow> bytes \<Rightarrow> ('r, unit) plane_op" where
  "plane_close_session E ctl c session_id =
     bind_r (on_files (ensure_state E c)) (\<lambda>state.
     bind_r (ask (adapter_session_snapshot session_id)) (\<lambda>found.
       case found of
         None \<Rightarrow> raise_r (DS_SessionNotFound (hex_session_id session_id))
       | Some session \<Rightarrow>
           then_r (set_session_state E session_id SS_Closing (Some OperatorRequested)
                     (Some ''operator requested close''))
          (then_r (on_transport (adapter_close_session E ctl session))
             (save_with_sessions E c state))))"

definition path_failure_cause :: "session_closure_reason \<Rightarrow> string" where
  "path_failure_cause reason = (case reason of
     OperatorRequested \<Rightarrow> ''operator_requested'' | LocalRuntimeFailure \<Rightarrow> ''local_runtime_failure''
   | RemoteFailure \<Rightarrow> ''remote_failure'' | PolicyRejected \<Rightarrow> ''policy_rejected''
   | PathExhaustion \<Rightarrow> ''path_exhaustion'' | DaemonShutdown \<Rightarrow> ''daemon_shutdown'')"

definition record_path_failure_event ::
  "'x codecs_scheme \<Rightarrow> session_snapshot \<Rightarrow> string \<Rightarrow> string \<Rightarrow> ('r, unit) plane_op" where
  "record_path_failure_event X session cause reason =
     record_event ''path.failed'' (session_subject (ss_session_id session))
       (json_object
         [(''peer_id'', JString (PeerId_to_text X (ss_peer session))),
          (''protocol'', json_protocol (ss_protocol session)),
          (''class'', JString (traffic_class_debug (ss_class session))),
          (''path_class'', JString (path_kind_debug (ss_path_kind session))),
          (''cause'', JString cause), (''reason'', JString reason)])"

definition fail_and_close_session ::
  "'x codecs_scheme \<Rightarrow> 'r relay_control \<Rightarrow> session_snapshot \<Rightarrow> session_closure_reason \<Rightarrow> string \<Rightarrow> ('r, unit) plane_op" where
  "fail_and_close_session X ctl session closure_reason state_reason =
     then_r (set_session_state X (ss_session_id session) SS_Failed (Some closure_reason) (Some state_reason))
    (then_r (record_path_failure_event X session (path_failure_cause closure_reason) state_reason)
       (on_transport (adapter_close_session X ctl session)))"

definition upgrade_session ::
  "'x durable_env_scheme \<Rightarrow> 'r relay_control \<Rightarrow> daemon_config \<Rightarrow> bytes \<Rightarrow> ('r, session_snapshot) plane_op" where
  "upgrade_session E ctl c session_id =
     bind_r (on_files (ensure_state E c)) (\<lambda>state.
     bind_r (ask (adapter_session_snapshot session_id)) (\<lambda>found.
       case found of
         None \<Rightarrow> raise_r (DS_SessionNotFound (hex_session_id session_id))
       | Some session \<Rightarrow>
       case ss_protocol session of
         None \<Rightarrow> raise_r (DS_InvalidSession ''session has no negotiated protocol'')
       | Some protocol \<Rightarrow>
           let policy = explain_policy E state (ss_peer session) protocol
           in if \<not> dc_allowed policy
              then then_r (set_session_state E session_id SS_Failed (Some PolicyRejected) (Some (dc_reason policy)))
                     (raise_r (DS_PolicyDenied (dc_reason policy)))
              else
                then_r (set_session_state E session_id SS_Migrating None (Some ''daemon selected a better path''))
               (bind_r (from_result (route_plan E state (ss_peer session) (Some protocol) (ss_class session))) (\<lambda>route.
                bind_r (on_transport (adapter_migrate E ctl session route)) (\<lambda>upgraded.
                then_r (save_with_sessions E c (with_active_session state upgraded)) (return_r upgraded))))))"

section \<open>Reconciling\<close>

definition session_matches_route :: "session_snapshot \<Rightarrow> route_plan \<Rightarrow> bool" where
  "session_matches_route session route =
     (if ss_path_kind session \<noteq> rt_path_kind route \<or> ss_class session \<noteq> rt_class route then False
      else if ss_protocol session \<noteq> rt_protocol route then False
      else case rt_remote_endpoints route of
        [] \<Rightarrow> False
      | remote_endpoint # _ \<Rightarrow>
          if ss_remote_endpoint session \<noteq> remote_endpoint then False
          else case (ss_relay_peer session, rt_relay route) of
            (None, None) \<Rightarrow> True
          | (Some peer, Some relay) \<Rightarrow>
              ss_relay_control_endpoint session = Some (rp_relay_control_endpoint relay) \<and>
              peer = rp_relay_peer relay \<and>
              ss_relay_endpoint session =
                (case rp_relay_endpoints relay of [] \<Rightarrow> None | e # _ \<Rightarrow> Some e)
          | _ \<Rightarrow> False)"

datatype session_reconcile_disposition = RD_Unchanged | RD_Upgraded | RD_Closed

record session_reconcile_entry =
  rce_session_id :: bytes
  rce_peer :: peer_id
  rce_disposition :: session_reconcile_disposition
  rce_reason :: string
  rce_path_kind :: "path_kind option"

record session_reconcile_report =
  rcr_examined :: nat
  rcr_unchanged :: nat
  rcr_upgraded :: nat
  rcr_closed :: nat
  rcr_entries :: "session_reconcile_entry list"

definition reconcile_entry ::
  "session_snapshot \<Rightarrow> session_reconcile_disposition \<Rightarrow> string \<Rightarrow> path_kind option \<Rightarrow>
   session_reconcile_report \<Rightarrow> session_reconcile_report" where
  "reconcile_entry session disposition reason kind report =
     (let report = (case disposition of
            RD_Unchanged \<Rightarrow> report\<lparr>rcr_unchanged := rcr_unchanged report + 1\<rparr>
          | RD_Upgraded \<Rightarrow> report\<lparr>rcr_upgraded := rcr_upgraded report + 1\<rparr>
          | RD_Closed \<Rightarrow> report\<lparr>rcr_closed := rcr_closed report + 1\<rparr>)
      in report\<lparr>rcr_entries := rcr_entries report @
           [\<lparr>rce_session_id = ss_session_id session, rce_peer = ss_peer session,
             rce_disposition = disposition, rce_reason = reason, rce_path_kind = kind\<rparr>]\<rparr>)"

definition drop_session ::
  "session_snapshot \<Rightarrow> string \<Rightarrow> daemon_state \<times> session_reconcile_report \<Rightarrow> daemon_state \<times> session_reconcile_report" where
  "drop_session session reason acc =
     (case acc of (state, report) \<Rightarrow>
        (without_session state (ss_session_id session), reconcile_entry session RD_Closed reason None report))"

definition reconcile_session ::
  "'x keystore_env_scheme \<Rightarrow> 'r relay_control \<Rightarrow> session_snapshot \<Rightarrow>
   daemon_state \<times> session_reconcile_report \<Rightarrow> ('r, daemon_state \<times> session_reconcile_report) plane_op" where
  "reconcile_session X ctl listed acc =
     then_r (set_session_state X (ss_session_id listed) SS_Reconciling None (Some ''daemon reconcile cycle''))
    (bind_r (ask (adapter_session_snapshot (ss_session_id listed))) (\<lambda>found.
       case found of
         None \<Rightarrow> return_r (drop_session listed ''session is not active in runtime transport'' acc)
       | Some session \<Rightarrow>
       case ss_protocol session of
         None \<Rightarrow>
           then_r (fail_and_close_session X ctl session LocalRuntimeFailure ''session is missing negotiated protocol'')
             (return_r (drop_session session ''session is missing negotiated protocol'' acc))
       | Some protocol \<Rightarrow>
           let policy = explain_policy X (fst acc) (ss_peer session) protocol
           in if \<not> dc_allowed policy
              then
                then_r (set_session_state X (ss_session_id session) SS_Closing (Some PolicyRejected)
                          (Some (dc_reason policy)))
               (then_r (on_transport (adapter_close_session X ctl session))
                  (return_r (drop_session session (''policy denied session: '' @ dc_reason policy) acc)))
              else case route_plan X (fst acc) (ss_peer session) (Some protocol) (ss_class session) of
                Err (DS_NoRoute _) \<Rightarrow>
                  then_r (fail_and_close_session X ctl session PathExhaustion ''no route is available for session'')
                    (return_r (drop_session session ''no route is available for session'' acc))
              | Err e \<Rightarrow> raise_r e
              | Ok route \<Rightarrow>
                  if session_matches_route session route
                  then
                    then_r (set_session_state X (ss_session_id session) SS_Active None
                              (Some ''selected path still matches active session''))
                      (return_r (fst acc, reconcile_entry session RD_Unchanged
                         ''selected path still matches active session'' (Some (ss_path_kind session)) (snd acc)))
                  else
                    then_r (set_session_state X (ss_session_id session) SS_Migrating None
                              (Some ''selected path changed; session migrating''))
                   (match_r (try_transport (adapter_migrate X ctl session route))
                      (\<lambda>migrated. return_r (with_active_session (fst acc) migrated,
                         reconcile_entry session RD_Upgraded ''selected path changed; session migrated''
                           (Some (rt_path_kind route)) (snd acc)))
                      (\<lambda>error.
                         let reason = ''session migration failed: '' @ transport_error_text X error
                         in then_r (fail_and_close_session X ctl session LocalRuntimeFailure reason)
                              (return_r (drop_session session reason acc))))))"

definition reconcile_sessions ::
  "'x durable_env_scheme \<Rightarrow> 'r relay_control \<Rightarrow> daemon_config \<Rightarrow> ('r, session_reconcile_report) plane_op" where
  "reconcile_sessions E ctl c =
     bind_r (on_files (ensure_state E c)) (\<lambda>state.
     bind_r (ask active_sessions) (\<lambda>sessions.
     bind_r (for_each (reconcile_session E ctl) sessions
               (state, \<lparr>rcr_examined = 0, rcr_unchanged = 0, rcr_upgraded = 0, rcr_closed = 0, rcr_entries = []\<rparr>))
       (\<lambda>(state, report).
         then_r (save_with_sessions E c state)
           (return_r (report\<lparr>rcr_examined := length (rcr_entries report)\<rparr>)))))"

definition realize_best_path ::
  "'x durable_env_scheme \<Rightarrow> 'r relay_control \<Rightarrow> daemon_config \<Rightarrow> peer_id \<Rightarrow> protocol_id \<Rightarrow> traffic_class \<Rightarrow>
   ('r, session_snapshot) plane_op" where
  "realize_best_path E ctl c peer protocol tc =
     bind_r (on_files (ensure_state E c)) (\<lambda>state.
       let policy = explain_policy E state peer protocol
       in if \<not> dc_allowed policy then raise_r (DS_PolicyDenied (dc_reason policy))
          else
            bind_r (from_result (route_plan E state peer (Some protocol) tc)) (\<lambda>route.
            bind_r (on_transport (adapter_connect E ctl route)) (\<lambda>connection.
              let session = qc_session connection
              in then_r (save_with_sessions E c (with_active_session state session)) (return_r session))))"

section \<open>Reevaluation after authority changes\<close>

datatype authority_policy_cause =
  AP_SubjectMismatch | AP_LocalMembershipDenied | AP_PeerMembershipDenied | AP_CapabilityDenied

definition if_subject_mismatch :: "bool \<Rightarrow> authority_policy_cause option" where
  "if_subject_mismatch mismatch = (if mismatch then Some AP_SubjectMismatch else None)"

definition policy_cause_label :: "authority_policy_cause \<Rightarrow> string" where
  "policy_cause_label cause = (case cause of
     AP_SubjectMismatch \<Rightarrow> ''subject_mismatch'' | AP_LocalMembershipDenied \<Rightarrow> ''local_membership_denied''
   | AP_PeerMembershipDenied \<Rightarrow> ''peer_membership_denied'' | AP_CapabilityDenied \<Rightarrow> ''capability_denied'')"

definition classify_remote_policy_cause :: "daemon_state \<Rightarrow> peer_id \<Rightarrow> string \<Rightarrow> authority_policy_cause" where
  "classify_remote_policy_cause state peer reason =
     (if deny_reason state peer \<noteq> None \<or> contains ''revoked'' reason \<or> contains ''denied'' reason
      then AP_PeerMembershipDenied else AP_CapabilityDenied)"

record authority_policy_enforcement =
  en_cause :: authority_policy_cause
  en_reason :: string

record authority_reevaluation_report =
  av_reevaluated_sessions :: nat
  av_closed_sessions :: nat
  av_degraded_sessions :: nat
  av_migrated_sessions :: nat
  av_unchanged_sessions :: nat
  av_reevaluated_listeners :: nat
  av_suppressed_listeners :: nat
  av_restored_listeners :: nat
  av_reconnect_suppressions_added :: nat
  av_reconnect_suppressions_cleared :: nat
  av_local_policy_denied :: bool
  av_authority_subject_mismatch :: bool
  av_subject_mismatch_sessions :: nat
  av_local_membership_denied_sessions :: nat
  av_peer_membership_denied_sessions :: nat
  av_capability_denied_sessions :: nat
  av_local_policy_reason :: "string option"

text \<open>Why the local node may not run sessions at all: its certificate is for another peer, or it is denied.\<close>

definition local_policy_reason_for :: "'x codecs_scheme \<Rightarrow> daemon_state \<Rightarrow> peer_id \<Rightarrow> string option" where
  "local_policy_reason_for X state runtime_peer_id =
     (if mc_subject_peer_id (ds_membership state) \<noteq> runtime_peer_id
      then Some (''authority subject '' @ PeerId_to_text X (mc_subject_peer_id (ds_membership state)) @
                 '' does not match runtime identity '' @ PeerId_to_text X runtime_peer_id)
      else deny_reason state (ds_local_peer_id state))"

definition session_enforcement ::
  "'x codecs_scheme \<Rightarrow> daemon_state \<Rightarrow> bool \<Rightarrow> string option \<Rightarrow> peer_id \<Rightarrow> protocol_id \<Rightarrow>
   authority_policy_enforcement option" where
  "session_enforcement X state mismatch local_reason peer protocol =
     (let policy = explain_policy X state peer protocol
      in case local_reason of
           Some reason \<Rightarrow>
             Some \<lparr>en_cause = (case if_subject_mismatch mismatch of Some cause \<Rightarrow> cause | None \<Rightarrow> AP_LocalMembershipDenied),
                   en_reason = reason\<rparr>
         | None \<Rightarrow>
             if \<not> dc_allowed policy
             then Some \<lparr>en_cause = classify_remote_policy_cause state peer (dc_reason policy),
                        en_reason = dc_reason policy\<rparr>
             else None)"

definition suppression_present :: "peer_id \<Rightarrow> protocol_id \<Rightarrow> traffic_class \<Rightarrow> 'r quic_adapter \<Rightarrow> bool" where
  "suppression_present peer protocol tc a =
     list_ex (\<lambda>entry. sp_peer entry = peer \<and> sp_protocol entry = Some protocol \<and> sp_class entry = tc)
       (qa_suppressions a)"

definition count_cause :: "authority_policy_cause \<Rightarrow> authority_reevaluation_report \<Rightarrow> authority_reevaluation_report" where
  "count_cause cause report = (case cause of
     AP_SubjectMismatch \<Rightarrow>
       report\<lparr>av_subject_mismatch_sessions := av_subject_mismatch_sessions report + 1\<rparr>
   | AP_LocalMembershipDenied \<Rightarrow>
       report\<lparr>av_local_membership_denied_sessions := av_local_membership_denied_sessions report + 1\<rparr>
   | AP_PeerMembershipDenied \<Rightarrow>
       report\<lparr>av_peer_membership_denied_sessions := av_peer_membership_denied_sessions report + 1\<rparr>
   | AP_CapabilityDenied \<Rightarrow>
       report\<lparr>av_capability_denied_sessions := av_capability_denied_sessions report + 1\<rparr>)"

definition enforce_session ::
  "'x keystore_env_scheme \<Rightarrow> 'r relay_control \<Rightarrow> session_snapshot \<Rightarrow> protocol_id \<Rightarrow> authority_policy_enforcement \<Rightarrow>
   authority_reevaluation_report \<Rightarrow> ('r, authority_reevaluation_report) plane_op" where
  "enforce_session X ctl session protocol enforced report =
     bind_r (ask (suppression_present (ss_peer session) protocol (ss_class session))) (\<lambda>present.
     then_r (on_transport (suppress_reconnect X (ss_peer session) (Some protocol) (ss_class session) (en_reason enforced)))
    (let report = (if present then report
                   else report\<lparr>av_reconnect_suppressions_added := av_reconnect_suppressions_added report + 1\<rparr>);
         report = count_cause (en_cause enforced) report
     in then_r (set_session_state X (ss_session_id session) SS_Closing (Some PolicyRejected) (Some (en_reason enforced)))
       (then_r (record_event ''authority.policy_enforced'' (session_subject (ss_session_id session))
          (json_object
            [(''peer_id'', JString (PeerId_to_text X (ss_peer session))),
             (''protocol'', JString (ProtocolId_as_str protocol)),
             (''class'', JString (traffic_class_debug (ss_class session))),
             (''action'', JString ''close_and_suppress_reconnect''),
             (''cause'', JString (policy_cause_label (en_cause enforced))),
             (''reason'', JString (en_reason enforced)),
             (''local_policy_denied'', JBool (av_local_policy_denied report)),
             (''authority_subject_mismatch'', JBool (av_authority_subject_mismatch report))]))
       (then_r (on_transport (adapter_close_session X ctl session))
          (return_r (report\<lparr>av_closed_sessions := av_closed_sessions report + 1\<rparr>))))))"

definition path_event_details :: "'x codecs_scheme \<Rightarrow> session_snapshot \<Rightarrow> protocol_id \<Rightarrow> string \<Rightarrow> json" where
  "path_event_details X session protocol reason =
     json_object
       [(''peer_id'', JString (PeerId_to_text X (ss_peer session))),
        (''protocol'', JString (ProtocolId_as_str protocol)),
        (''class'', JString (traffic_class_debug (ss_class session))),
        (''reason'', JString reason)]"

definition degrade_session ::
  "'x codecs_scheme \<Rightarrow> session_snapshot \<Rightarrow> protocol_id \<Rightarrow> string \<Rightarrow>
   authority_reevaluation_report \<Rightarrow> ('r, authority_reevaluation_report) plane_op" where
  "degrade_session X session protocol reason report =
     then_r (set_session_state X (ss_session_id session) SS_Degraded None (Some reason))
    (then_r (record_event ''path.degraded'' (session_subject (ss_session_id session))
               (path_event_details X session protocol reason))
       (return_r (report\<lparr>av_degraded_sessions := av_degraded_sessions report + 1\<rparr>)))"

definition migrate_session ::
  "'x keystore_env_scheme \<Rightarrow> 'r relay_control \<Rightarrow> session_snapshot \<Rightarrow> protocol_id \<Rightarrow> route_plan \<Rightarrow>
   authority_reevaluation_report \<Rightarrow> ('r, authority_reevaluation_report) plane_op" where
  "migrate_session X ctl session protocol route report =
     (let reason = ''authority reevaluation selected a different eligible path''
      in then_r (record_event ''path.migration_started'' (session_subject (ss_session_id session))
                   (path_event_details X session protocol reason))
        (then_r (set_session_state X (ss_session_id session) SS_Migrating None (Some reason))
        (match_r (try_transport (adapter_migrate X ctl session route))
           (\<lambda>_. return_r (report\<lparr>av_migrated_sessions := av_migrated_sessions report + 1\<rparr>))
           (\<lambda>error.
              let reason = ''authority reevaluation migration failed: '' @ transport_error_text X error
              in then_r (fail_and_close_session X ctl session LocalRuntimeFailure reason)
                (then_r (on_transport (suppress_reconnect X (ss_peer session) (Some protocol) (ss_class session) reason))
                   (return_r (report\<lparr>av_closed_sessions := av_closed_sessions report + 1\<rparr>)))))))"

definition keep_session ::
  "'x keystore_env_scheme \<Rightarrow> 'r relay_control \<Rightarrow> daemon_state \<Rightarrow> session_snapshot \<Rightarrow> protocol_id \<Rightarrow>
   authority_reevaluation_report \<Rightarrow> ('r, authority_reevaluation_report) plane_op" where
  "keep_session X ctl state session protocol report =
     bind_r (ask (suppression_present (ss_peer session) protocol (ss_class session))) (\<lambda>present.
     then_r (on_transport (clear_reconnect_suppression X (ss_peer session) (Some protocol) (ss_class session)))
    (let report = (if present
           then report\<lparr>av_reconnect_suppressions_cleared := av_reconnect_suppressions_cleared report + 1\<rparr>
           else report)
     in case route_plan X state (ss_peer session) (Some protocol) (ss_class session) of
          Ok route \<Rightarrow>
            if session_matches_route session route
            then then_r (if ss_state session = SS_Degraded
                         then set_session_state X (ss_session_id session) SS_Active None
                           (Some ''authority reevaluation restored the selected path posture'')
                         else return_r None)
                   (return_r (report\<lparr>av_unchanged_sessions := av_unchanged_sessions report + 1\<rparr>))
            else if ss_migration_capable session
            then migrate_session X ctl session protocol route report
            else degrade_session X session protocol
              (''authority reevaluation selected a different eligible path but the active session '' @
               ''cannot migrate'') report
        | Err (DS_NoRoute _) \<Rightarrow>
            degrade_session X session protocol
              (''authority reevaluation found no eligible replacement path; keeping the current '' @
               ''session alive in degraded posture'') report
        | Err e \<Rightarrow> raise_r e))"

definition reevaluate_session ::
  "'x keystore_env_scheme \<Rightarrow> 'r relay_control \<Rightarrow> daemon_state \<Rightarrow> bool \<Rightarrow> string option \<Rightarrow> session_snapshot \<Rightarrow>
   authority_reevaluation_report \<Rightarrow> ('r, authority_reevaluation_report) plane_op" where
  "reevaluate_session X ctl state mismatch local_reason session report =
     (case ss_protocol session of
        None \<Rightarrow> return_r report
      | Some protocol \<Rightarrow>
          let report = report\<lparr>av_reevaluated_sessions := av_reevaluated_sessions report + 1\<rparr>
          in case session_enforcement X state mismatch local_reason (ss_peer session) protocol of
               Some enforced \<Rightarrow> enforce_session X ctl session protocol enforced report
             | None \<Rightarrow> keep_session X ctl state session protocol report)"

definition listener_enforcement ::
  "'x codecs_scheme \<Rightarrow> daemon_state \<Rightarrow> string option \<Rightarrow> protocol_id \<Rightarrow> string option" where
  "listener_enforcement X state local_reason protocol =
     (case local_reason of
        Some reason \<Rightarrow> Some reason
      | None \<Rightarrow> let decision = explain_local_protocol_policy X state protocol
                 in if dc_allowed decision then None else Some (dc_reason decision))"

definition reevaluate_listener ::
  "'x codecs_scheme \<Rightarrow> daemon_state \<Rightarrow> string option \<Rightarrow> runtime_listener_snapshot \<Rightarrow>
   authority_reevaluation_report \<Rightarrow> ('r, authority_reevaluation_report) plane_op" where
  "reevaluate_listener X state local_reason listener report =
     (let report = report\<lparr>av_reevaluated_listeners := av_reevaluated_listeners report + 1\<rparr>
      in if ln_state listener = LS_Failed then return_r report
         else case listener_enforcement X state local_reason (ln_protocol listener) of
           Some reason \<Rightarrow>
             let was_suppressed = (ln_state listener = LS_Suppressed \<and> ln_state_reason listener = Some reason)
             in then_r (on_registry (update_listener_state (ln_listener_id listener) LS_Suppressed (Some reason)))
               (if was_suppressed then return_r report
                else then_r (record_event ''authority.policy_enforced''
                        \<lparr>ev_kind = ''listener'', ev_id = ln_listener_id listener\<rparr>
                        (json_object
                          [(''listener_id'', JString (ln_listener_id listener)),
                           (''protocol'', JString (ProtocolId_as_str (ln_protocol listener))),
                           (''action'', JString ''suppress_listener''), (''reason'', JString reason),
                           (''local_policy_denied'', JBool (av_local_policy_denied report)),
                           (''authority_subject_mismatch'', JBool (av_authority_subject_mismatch report))]))
                       (return_r (report\<lparr>av_suppressed_listeners := av_suppressed_listeners report + 1\<rparr>)))
         | None \<Rightarrow>
             if ln_state listener = LS_Suppressed
             then then_r (on_registry (update_listener_state (ln_listener_id listener) LS_Active None))
                    (return_r (report\<lparr>av_restored_listeners := av_restored_listeners report + 1\<rparr>))
             else return_r report)"

definition reevaluation_details :: "authority_reevaluation_report \<Rightarrow> json" where
  "reevaluation_details report =
     json_object
       [(''reevaluated_sessions'', json_usize (av_reevaluated_sessions report)),
        (''closed_sessions'', json_usize (av_closed_sessions report)),
        (''degraded_sessions'', json_usize (av_degraded_sessions report)),
        (''migrated_sessions'', json_usize (av_migrated_sessions report)),
        (''unchanged_sessions'', json_usize (av_unchanged_sessions report)),
        (''reevaluated_listeners'', json_usize (av_reevaluated_listeners report)),
        (''suppressed_listeners'', json_usize (av_suppressed_listeners report)),
        (''restored_listeners'', json_usize (av_restored_listeners report)),
        (''reconnect_suppressions_added'', json_usize (av_reconnect_suppressions_added report)),
        (''reconnect_suppressions_cleared'', json_usize (av_reconnect_suppressions_cleared report)),
        (''local_policy_denied'', JBool (av_local_policy_denied report)),
        (''authority_subject_mismatch'', JBool (av_authority_subject_mismatch report)),
        (''subject_mismatch_sessions'', json_usize (av_subject_mismatch_sessions report)),
        (''local_membership_denied_sessions'', json_usize (av_local_membership_denied_sessions report)),
        (''peer_membership_denied_sessions'', json_usize (av_peer_membership_denied_sessions report)),
        (''capability_denied_sessions'', json_usize (av_capability_denied_sessions report)),
        (''local_policy_reason'', json_str_opt (av_local_policy_reason report))]"

definition reevaluate_runtime_authority ::
  "'x durable_env_scheme \<Rightarrow> 'r relay_control \<Rightarrow> daemon_config \<Rightarrow> identity_keypair \<Rightarrow>
   ('r, authority_reevaluation_report) plane_op" where
  "reevaluate_runtime_authority E ctl c runtime_identity =
     bind_r (on_files (ensure_state E c)) (\<lambda>state.
       let runtime_peer_id = IdentityKeypair_peer_id E runtime_identity;
           subject = mc_subject_peer_id (ds_membership state);
           mismatch = (subject \<noteq> runtime_peer_id);
           local_reason = local_policy_reason_for E state runtime_peer_id;
           authority = \<lparr>ev_kind = ''authority'', ev_id = PeerId_to_text E runtime_peer_id\<rparr>
       in bind_r (ask active_sessions) (\<lambda>running.
          then_r (record_event ''authority.reevaluation_started'' authority
            (json_object
              [(''active_sessions'', json_usize (length running)),
               (''authority_subject_peer_id'', JString (PeerId_to_text E subject)),
               (''runtime_peer_id'', JString (PeerId_to_text E runtime_peer_id)),
               (''authority_subject_mismatch'', JBool mismatch),
               (''local_policy_reason'', json_str_opt local_reason)]))
         (bind_r (ask active_sessions) (\<lambda>sessions.
          bind_r (for_each (reevaluate_session E ctl state mismatch local_reason) sessions
            \<lparr>av_reevaluated_sessions = 0, av_closed_sessions = 0, av_degraded_sessions = 0,
             av_migrated_sessions = 0, av_unchanged_sessions = 0, av_reevaluated_listeners = 0,
             av_suppressed_listeners = 0, av_restored_listeners = 0, av_reconnect_suppressions_added = 0,
             av_reconnect_suppressions_cleared = 0, av_local_policy_denied = (local_reason \<noteq> None),
             av_authority_subject_mismatch = mismatch, av_subject_mismatch_sessions = 0,
             av_local_membership_denied_sessions = 0, av_peer_membership_denied_sessions = 0,
             av_capability_denied_sessions = 0, av_local_policy_reason = local_reason\<rparr>) (\<lambda>report.
          bind_r (ask active_listeners) (\<lambda>listeners.
          bind_r (for_each (reevaluate_listener E state local_reason) listeners report) (\<lambda>report.
          then_r (record_event ''authority.reevaluation_completed'' authority (reevaluation_details report))
            (return_r report))))))))"

end
