(* ===== verification/Quip_Runtime_View.thy ===== *)
theory Quip_Runtime_View
  imports Quip_Sessions "HOL-Library.Product_Lexorder" "HOL-Library.Option_ord"
begin

text \<open>
  What the control plane reports of the running node (crate \<open>fabric\<close>): the paths of sessions,
  suppressions, reconnect attempts, closed sessions and unused candidates, the listeners with the
  policy applied to them, and the health levels. Reports change nothing but, on first use, the
  state file.
\<close>

section \<open>Types\<close>

datatype runtime_path_state = RP_Candidate | RP_Active | RP_Degraded | RP_Migrating | RP_Failed | RP_Suppressed

record runtime_path_alternative =
  pa_path_kind :: path_kind
  pa_source :: path_source
  pa_relay_peer :: "peer_id option"
  pa_score :: u32
  pa_summary :: string

record runtime_path_snapshot =
  px_session_id :: "bytes option"
  px_peer :: peer_id
  px_protocol :: "protocol_id option"
  px_class :: traffic_class
  px_state :: runtime_path_state
  px_path_kind :: "path_kind option"
  px_source :: "path_source option"
  px_relay_peer :: "peer_id option"
  px_endpoint_summary :: string
  px_state_reason :: "string option"
  px_decision_reason :: "string option"
  px_score :: "u32 option"
  px_summary :: string
  px_alternatives :: "runtime_path_alternative list"

datatype runtime_health_level = HL_Ready | HL_Degraded | HL_Failed | HL_Suppressed

record runtime_health_report =
  rh_daemon_readiness :: runtime_health_level
  rh_authority_sync_health :: runtime_health_level
  rh_runtime_registry_health :: runtime_health_level
  rh_path_manager_health :: runtime_health_level
  rh_reconnect_subsystem_health :: runtime_health_level
  rh_authority_subject_status :: string
  rh_authority_deny_reason :: "string option"
  rh_active_sessions :: nat
  rh_active_paths :: nat
  rh_active_listeners :: nat
  rh_reconnect_state :: runtime_reconnect_state
  rh_reconnect_attempt_count :: nat
  rh_reconnect_next_attempt_unix_secs :: "u64 option"
  rh_reconnect_suppression_count :: nat
  rh_runtime_event_buffer_depth :: nat

section \<open>Summaries\<close>

definition runtime_path_state_from_session :: "runtime_session_state \<Rightarrow> runtime_path_state" where
  "runtime_path_state_from_session st = (case st of
     SS_Degraded \<Rightarrow> RP_Degraded | SS_Migrating \<Rightarrow> RP_Migrating
   | SS_Failed \<Rightarrow> RP_Failed | SS_Closing \<Rightarrow> RP_Failed | SS_Closed \<Rightarrow> RP_Failed
   | _ \<Rightarrow> RP_Active)"

definition runtime_candidate_matches_session :: "path_candidate \<Rightarrow> session_snapshot \<Rightarrow> bool" where
  "runtime_candidate_matches_session candidate session \<longleftrightarrow>
     pc_peer candidate = ss_peer session \<and> pc_path_kind candidate = ss_path_kind session \<and>
     pc_relay_peer candidate = ss_relay_peer session \<and> supports_class candidate (ss_class session)"

text \<open>The derived \<open>PartialEq\<close>: field by field, the loss as a float.\<close>

definition candidate_eq :: "path_candidate \<Rightarrow> path_candidate \<Rightarrow> bool" where
  "candidate_eq l r \<longleftrightarrow> f32_eq (pc_loss_pct l) (pc_loss_pct r) \<and> l = r\<lparr>pc_loss_pct := pc_loss_pct l\<rparr>"

definition runtime_path_alternatives ::
  "'x codecs_scheme \<Rightarrow> path_candidate list \<Rightarrow> traffic_class \<Rightarrow> path_candidate option \<Rightarrow> runtime_path_alternative list" where
  "runtime_path_alternatives X candidates tc selected =
     (let others = filter (\<lambda>candidate. case selected of Some s \<Rightarrow> \<not> candidate_eq candidate s | None \<Rightarrow> True)
            (filter (\<lambda>candidate. supports_class candidate tc) candidates)
      in map (\<lambda>candidate. \<lparr>pa_path_kind = pc_path_kind candidate, pa_source = pc_source candidate,
                pa_relay_peer = pc_relay_peer candidate, pa_score = score candidate tc,
                pa_summary = pe_summary (explain X candidate tc)\<rparr>)
           (sort_key (\<lambda>candidate. score candidate tc) others))"

definition route_source_to_path_source :: "route_source \<Rightarrow> path_source option" where
  "route_source_to_path_source src = Some (case src of
     Src_Observed \<Rightarrow> Observed | Src_Bootstrap \<Rightarrow> Bootstrap | Src_AuthorityRelay \<Rightarrow> AuthorityRelay)"

definition runtime_session_endpoint_summary :: "session_snapshot \<Rightarrow> string" where
  "runtime_session_endpoint_summary session =
     (if ss_path_kind session = Relay
      then ''relay='' @ (case ss_relay_endpoint session of Some e \<Rightarrow> e | None \<Rightarrow> ''unknown-relay-endpoint'') @
           '' destination='' @ ss_remote_endpoint session
      else ss_remote_endpoint session)"

definition runtime_candidate_endpoint_summary :: "'x codecs_scheme \<Rightarrow> path_candidate \<Rightarrow> string" where
  "runtime_candidate_endpoint_summary X candidate =
     (if pc_path_kind candidate = Relay
      then ''relay='' @ (case pc_relay_peer candidate of Some p \<Rightarrow> PeerId_to_text X p | None \<Rightarrow> ''unknown-relay'')
      else ''direct'')"

definition runtime_session_summary :: "'x codecs_scheme \<Rightarrow> session_snapshot \<Rightarrow> string" where
  "runtime_session_summary X session =
     (if ss_path_kind session = Relay then ''relay'' else ''direct'') @ '' runtime path for '' @
     PeerId_to_text X (ss_peer session) @ '' is '' @ runtime_session_endpoint_summary session"

definition session_closure_reason_phrase :: "session_closure_reason \<Rightarrow> string" where
  "session_closure_reason_phrase reason = (case reason of
     OperatorRequested \<Rightarrow> ''operator requested closure'' | LocalRuntimeFailure \<Rightarrow> ''the local runtime failed''
   | RemoteFailure \<Rightarrow> ''the remote peer failed''
   | PolicyRejected \<Rightarrow> ''authority or policy rejected the session''
   | PathExhaustion \<Rightarrow> ''no eligible path remained'' | DaemonShutdown \<Rightarrow> ''the daemon shut down'')"

definition runtime_terminal_path_summary :: "'x codecs_scheme \<Rightarrow> session_snapshot \<Rightarrow> string" where
  "runtime_terminal_path_summary X session =
     (let outcome = (case ss_state session of SS_Closed \<Rightarrow> ''closed'' | SS_Failed \<Rightarrow> ''failed'' | _ \<Rightarrow> ''terminal'');
          reason = (case ss_state_reason session of
              Some r \<Rightarrow> r
            | None \<Rightarrow> (case ss_closure_reason session of
                Some r \<Rightarrow> session_closure_reason_phrase r
              | None \<Rightarrow> ''runtime session is no longer active''))
      in outcome @ '' path for '' @ PeerId_to_text X (ss_peer session) @ '' is '' @
         runtime_session_endpoint_summary session @ '' because '' @ reason)"

definition runtime_reconnect_path_status ::
  "'x codecs_scheme \<Rightarrow> runtime_reconnect_attempt \<Rightarrow> path_decision option \<Rightarrow> runtime_path_state \<times> string option \<times> string" where
  "runtime_reconnect_path_status X attempt selected =
     (let none = ''no known runtime candidate path remains'';
          selected_summary = (case selected of Some d \<Rightarrow> pe_summary (pd_explanation d) | None \<Rightarrow> none);
          fallback_summary = (case selected of
              Some d \<Rightarrow> (if pc_path_kind (pd_selected d) = Relay then ''best known relay fallback remains ''
                         else ''best known direct path remains '') @ pe_summary (pd_explanation d)
            | None \<Rightarrow> none);
          counts = show_word (at_attempt_count attempt) @ ''/'' @ show_word (at_max_attempts attempt)
      in case at_state attempt of
           BackingOff \<Rightarrow>
             (RP_Candidate,
              Some (''attempt '' @ counts @ '' backing off until '' @
                    show_word (at_next_attempt_unix_secs attempt) @ '' because '' @ at_reason attempt),
              ''reconnect backing off for '' @ PeerId_to_text X (at_peer attempt) @ '' after '' @ counts @
              '' attempts; '' @ selected_summary)
         | Attempt_Failed \<Rightarrow>
             (RP_Failed,
              Some (''reconnect exhausted '' @ counts @ '' attempts because '' @ at_reason attempt),
              ''reconnect failed for '' @ PeerId_to_text X (at_peer attempt) @ '' after '' @ counts @
              '' attempts; '' @ fallback_summary))"

definition runtime_path_decision_reason :: "path_explanation \<Rightarrow> string" where
  "runtime_path_decision_reason e = (case (pe_strengths e = [], pe_tradeoffs e = []) of
     (False, False) \<Rightarrow> ''strengths='' @ join ''|'' (pe_strengths e) @ '' tradeoffs='' @ join ''|'' (pe_tradeoffs e)
   | (False, True) \<Rightarrow> ''strengths='' @ join ''|'' (pe_strengths e)
   | (True, False) \<Rightarrow> ''tradeoffs='' @ join ''|'' (pe_tradeoffs e)
   | (True, True) \<Rightarrow> pe_summary e)"

definition runtime_class_rank :: "traffic_class \<Rightarrow> u8" where
  "runtime_class_rank tc = (case tc of Control \<Rightarrow> 0 | Interactive \<Rightarrow> 1 | Bulk \<Rightarrow> 2 | Background \<Rightarrow> 3)"

definition runtime_path_state_rank :: "runtime_path_state \<Rightarrow> u8" where
  "runtime_path_state_rank st = (case st of
     RP_Active \<Rightarrow> 0 | RP_Migrating \<Rightarrow> 1 | RP_Degraded \<Rightarrow> 2 | RP_Candidate \<Rightarrow> 3 | RP_Suppressed \<Rightarrow> 4
   | RP_Failed \<Rightarrow> 5)"

section \<open>Paths\<close>

text \<open>The path of a running or closed session; the state and, for closed ones, the summary differ.\<close>

definition session_path ::
  "'x codecs_scheme \<Rightarrow> daemon_state \<Rightarrow> session_snapshot \<Rightarrow> runtime_path_state \<Rightarrow> string option \<Rightarrow> runtime_path_snapshot" where
  "session_path X state session st summary =
     (let candidates = path_candidates_for state (ss_peer session);
          selected = find (\<lambda>candidate. runtime_candidate_matches_session candidate session) candidates;
          explanation = map_option (\<lambda>candidate. explain X candidate (ss_class session)) selected
      in \<lparr>px_session_id = Some (ss_session_id session), px_peer = ss_peer session,
          px_protocol = ss_protocol session, px_class = ss_class session, px_state = st,
          px_path_kind = Some (ss_path_kind session),
          px_source = or_opt (map_option pc_source selected) (route_source_to_path_source (ss_source session)),
          px_relay_peer = ss_relay_peer session,
          px_endpoint_summary = runtime_session_endpoint_summary session,
          px_state_reason = ss_state_reason session,
          px_decision_reason = map_option runtime_path_decision_reason explanation,
          px_score = map_option (\<lambda>candidate. score candidate (ss_class session)) selected,
          px_summary = (case summary of
              Some text \<Rightarrow> text
            | None \<Rightarrow> (case explanation of Some e \<Rightarrow> pe_summary e | None \<Rightarrow> runtime_session_summary X session)),
          px_alternatives = runtime_path_alternatives X candidates (ss_class session) selected\<rparr>)"

text \<open>The path of a target without a session: its best candidate under what is known of the target.\<close>

definition target_path ::
  "'x codecs_scheme \<Rightarrow> daemon_state \<Rightarrow> peer_id \<Rightarrow> protocol_id option \<Rightarrow> traffic_class \<Rightarrow> string \<Rightarrow>
   (path_decision option \<Rightarrow> runtime_path_state \<times> string option \<times> string) \<Rightarrow> runtime_path_snapshot" where
  "target_path X state peer protocol tc no_path status =
     (let candidates = path_candidates_for state peer;
          selected = select_best_path X candidates tc;
          candidate = map_option pd_selected selected;
          (st, state_reason, summary) = status selected
      in \<lparr>px_session_id = None, px_peer = peer, px_protocol = protocol, px_class = tc, px_state = st,
          px_path_kind = map_option pc_path_kind candidate, px_source = map_option pc_source candidate,
          px_relay_peer = Option.bind candidate pc_relay_peer,
          px_endpoint_summary =
            (case candidate of Some c \<Rightarrow> runtime_candidate_endpoint_summary X c | None \<Rightarrow> no_path),
          px_state_reason = state_reason,
          px_decision_reason = map_option (\<lambda>d. runtime_path_decision_reason (pd_explanation d)) selected,
          px_score = map_option (\<lambda>c. score c tc) candidate, px_summary = summary,
          px_alternatives = runtime_path_alternatives X candidates tc candidate\<rparr>)"

definition push_unless ::
  "('a \<Rightarrow> runtime_path_snapshot list \<Rightarrow> bool) \<Rightarrow> ('a \<Rightarrow> runtime_path_snapshot) \<Rightarrow> 'a \<Rightarrow>
   runtime_path_snapshot list \<Rightarrow> runtime_path_snapshot list" where
  "push_unless covered path x snapshots = (if covered x snapshots then snapshots else snapshots @ [path x])"

definition same_target ::
  "peer_id \<Rightarrow> protocol_id option \<Rightarrow> traffic_class \<Rightarrow> runtime_path_snapshot \<Rightarrow> bool" where
  "same_target peer protocol tc entry \<longleftrightarrow> px_peer entry = peer \<and> px_protocol entry = protocol \<and> px_class entry = tc"

definition suppression_path :: "'x codecs_scheme \<Rightarrow> daemon_state \<Rightarrow> reconnect_suppression \<Rightarrow> runtime_path_snapshot" where
  "suppression_path X state s =
     target_path X state (sp_peer s) (sp_protocol s) (sp_class s) ''no active runtime path'' (\<lambda>selected.
       (RP_Suppressed, Some (sp_reason s),
        ''reconnect suppressed for '' @ PeerId_to_text X (sp_peer s) @
        (case selected of Some d \<Rightarrow> '': '' @ pe_summary (pd_explanation d) | None \<Rightarrow> '' because '' @ sp_reason s)))"

definition attempt_path :: "'x codecs_scheme \<Rightarrow> daemon_state \<Rightarrow> runtime_reconnect_attempt \<Rightarrow> runtime_path_snapshot" where
  "attempt_path X state a =
     target_path X state (at_peer a) (at_protocol a) (at_class a) ''no known runtime candidate path''
       (runtime_reconnect_path_status X a)"

definition candidate_path :: "'x codecs_scheme \<Rightarrow> daemon_state \<Rightarrow> peer_id \<Rightarrow> traffic_class \<Rightarrow> runtime_path_snapshot" where
  "candidate_path X state peer tc =
     target_path X state peer None tc [] (\<lambda>selected.
       (RP_Candidate, Some ''known candidate path is not currently active'',
        ''candidate path available for '' @ PeerId_to_text X peer @ '': '' @
        (case selected of Some d \<Rightarrow> pe_summary (pd_explanation d) | None \<Rightarrow> [])))"

definition path_classes :: "traffic_class list" where
  "path_classes = [Control, Interactive, Bulk, Background]"

definition push_candidate_paths ::
  "'x codecs_scheme \<Rightarrow> daemon_state \<Rightarrow> peer_id \<Rightarrow> runtime_path_snapshot list \<Rightarrow> runtime_path_snapshot list" where
  "push_candidate_paths X state peer snapshots =
     (let candidates = path_candidates_for state peer
      in if candidates = [] then snapshots
         else fold (push_unless
                (\<lambda>tc snapshots. list_ex (\<lambda>entry. px_peer entry = peer \<and> px_class entry = tc) snapshots \<or>
                   select_best_path X candidates tc = None)
                (candidate_path X state peer)) path_classes snapshots)"

definition path_order :: "'x codecs_scheme \<Rightarrow> runtime_path_snapshot \<Rightarrow> string \<times> u8 \<times> u8 \<times> bytes option" where
  "path_order X p = (PeerId_to_text X (px_peer p), runtime_class_rank (px_class p),
     runtime_path_state_rank (px_state p), px_session_id p)"

definition runtime_paths_of :: "'x codecs_scheme \<Rightarrow> daemon_state \<Rightarrow> 'r quic_adapter \<Rightarrow> runtime_path_snapshot list" where
  "runtime_paths_of X state a =
     (let snapshots = map (\<lambda>s. session_path X state s (runtime_path_state_from_session (ss_state s)) None)
            (active_sessions a);
          snapshots = fold (push_unless
            (\<lambda>s. list_ex (\<lambda>entry. px_session_id entry \<noteq> None \<and>
                    same_target (sp_peer s) (sp_protocol s) (sp_class s) entry))
            (suppression_path X state)) (qa_suppressions a) snapshots;
          snapshots = fold (push_unless
            (\<lambda>t. list_ex (same_target (at_peer t) (at_protocol t) (at_class t)))
            (attempt_path X state)) (qa_attempts a) snapshots;
          snapshots = fold (push_unless
            (\<lambda>s. list_ex (same_target (ss_peer s) (ss_protocol s) (ss_class s)))
            (\<lambda>s. session_path X state s RP_Failed (Some (runtime_terminal_path_summary X s))))
            (recent_terminal_sessions 16 a) snapshots;
          snapshots = fold (push_candidate_paths X state)
            (map (\<lambda>entry. ps_peer (pi_snapshot entry)) (ds_peers state)) snapshots
      in sort_key (path_order X) snapshots)"

definition runtime_events :: "nat \<Rightarrow> ('r, runtime_event list) plane_op" where
  "runtime_events limit = ask (recent_events limit)"

definition runtime_paths :: "'x durable_env_scheme \<Rightarrow> daemon_config \<Rightarrow> ('r, runtime_path_snapshot list) plane_op" where
  "runtime_paths E c = bind_r (on_files (ensure_state E c)) (\<lambda>state. ask (runtime_paths_of E state))"

section \<open>Listeners\<close>

definition listener_view ::
  "'x codecs_scheme \<Rightarrow> daemon_state \<Rightarrow> string option \<Rightarrow> runtime_listener_snapshot \<Rightarrow> runtime_listener_snapshot" where
  "listener_view X state local_policy_reason listener =
     (if ln_state listener = LS_Failed then listener
      else case local_policy_reason of
        Some reason \<Rightarrow> listener\<lparr>ln_state := LS_Suppressed, ln_state_reason := Some reason\<rparr>
      | None \<Rightarrow>
          let decision = explain_local_protocol_policy X state (ln_protocol listener)
          in if \<not> dc_allowed decision
             then listener\<lparr>ln_state := LS_Suppressed, ln_state_reason := Some (dc_reason decision)\<rparr>
             else if ln_state listener = LS_Suppressed
             then listener\<lparr>ln_state := LS_Active, ln_state_reason := None\<rparr>
             else listener)"

definition runtime_listeners ::
  "'x durable_env_scheme \<Rightarrow> daemon_config \<Rightarrow> ('r, runtime_listener_snapshot list) plane_op" where
  "runtime_listeners E c =
     bind_r (on_files (ensure_state E c)) (\<lambda>state.
     bind_r (ask active_listeners) (\<lambda>listeners.
       return_r (map (listener_view E state (local_policy_reason_for E state (ds_local_peer_id state))) listeners)))"

section \<open>Health\<close>

definition runtime_reconnect_health_level :: "runtime_reconnect_state \<Rightarrow> runtime_health_level" where
  "runtime_reconnect_health_level st = (case st of
     RC_Idle \<Rightarrow> HL_Ready | RC_Active \<Rightarrow> HL_Degraded | RC_Suppressed \<Rightarrow> HL_Suppressed | RC_Failed \<Rightarrow> HL_Failed)"

definition runtime_rollup_health :: "runtime_health_level list \<Rightarrow> runtime_health_level" where
  "runtime_rollup_health levels =
     (if list_ex (\<lambda>l. l = HL_Failed) levels then HL_Failed
      else if list_ex (\<lambda>l. l = HL_Suppressed) levels then HL_Suppressed
      else if list_ex (\<lambda>l. l = HL_Degraded) levels then HL_Degraded
      else HL_Ready)"

definition runtime_health :: "'x durable_env_scheme \<Rightarrow> daemon_config \<Rightarrow> ('r, runtime_health_report) plane_op" where
  "runtime_health E c =
     bind_r (on_files (ensure_state E c)) (\<lambda>state.
     bind_r (ask transport_health) (\<lambda>th.
     bind_r (runtime_listeners E c) (\<lambda>listeners.
     bind_r (runtime_paths E c) (\<lambda>paths.
       let active_listeners = length (filter (\<lambda>l. ln_state l = LS_Active) listeners);
           active_paths = length (filter (\<lambda>p. px_session_id p \<noteq> None) paths);
           mismatch = (mc_subject_peer_id (ds_membership state) \<noteq> ds_local_peer_id state);
           deny = deny_reason state (ds_local_peer_id state);
           authority_sync_health = (if mismatch then HL_Failed else if deny \<noteq> None then HL_Suppressed else HL_Ready);
           runtime_registry_health =
             (if th_session_registry_healthy th \<and> th_listener_registry_healthy th then HL_Ready else HL_Failed);
           path_manager_health =
             (if 0 < th_active_sessions th \<and> active_paths = 0 then HL_Failed
              else if active_paths < th_active_sessions th then HL_Degraded else HL_Ready);
           reconnect_subsystem_health = runtime_reconnect_health_level (th_reconnect_state th)
       in return_r
         \<lparr>rh_daemon_readiness = runtime_rollup_health
            [authority_sync_health, runtime_registry_health, path_manager_health, reconnect_subsystem_health],
          rh_authority_sync_health = authority_sync_health,
          rh_runtime_registry_health = runtime_registry_health,
          rh_path_manager_health = path_manager_health,
          rh_reconnect_subsystem_health = reconnect_subsystem_health,
          rh_authority_subject_status = (if mismatch then ''mismatched'' else ''matched''),
          rh_authority_deny_reason = deny, rh_active_sessions = th_active_sessions th,
          rh_active_paths = active_paths, rh_active_listeners = active_listeners,
          rh_reconnect_state = th_reconnect_state th,
          rh_reconnect_attempt_count = th_reconnect_attempt_count th,
          rh_reconnect_next_attempt_unix_secs = th_reconnect_next_attempt_unix_secs th,
          rh_reconnect_suppression_count = th_reconnect_suppression_count th,
          rh_runtime_event_buffer_depth = th_event_buffer_depth th\<rparr>))))"

end
