(* ===== verification/Quip_Plane_Laws.thy ===== *)
theory Quip_Plane_Laws
  imports Quip_Sessions Quip_Quic_Laws Quip_State_Laws
begin

text \<open>
  What the control plane guarantees of the running sessions: reconciliation and reevaluation leave
  no session the policy denies, report exactly what they did, and a denied peer is neither connected
  nor reconnected. The contract of the transport the proofs rest on is a locale, interpreted for the
  adapter.
\<close>

section \<open>The contract of the transport\<close>

definition session_target :: "session_snapshot \<Rightarrow> reconnect_key" where
  "session_target s = (ss_peer s, ss_protocol s, ss_class s)"

definition targets :: "'r quic_adapter \<Rightarrow> bytes \<Rightarrow> reconnect_key option" where
  "targets a sid = map_option session_target (adapter_session_snapshot sid a)"

definition route_target :: "route_plan \<Rightarrow> reconnect_key" where
  "route_target r = (rt_peer r, rt_protocol r, rt_class r)"

text \<open>Marking keeps every registration; closing removes exactly one, whatever its result; a migration
  re-registers its session under the target of the route, and touches no other even when it fails;
  none of them changes the parts \<open>rest\<close> (suppressions, listeners).\<close>

locale session_lifecycle =
  fixes valid :: "'t \<Rightarrow> bool"
    and regs :: "'t \<Rightarrow> bytes \<Rightarrow> reconnect_key option"
    and rest :: "'t \<Rightarrow> 'p"
    and mark :: "bytes \<Rightarrow> 'm \<Rightarrow> 't \<Rightarrow> 't"
    and close :: "session_snapshot \<Rightarrow> 't \<Rightarrow> (unit, 'e) result \<times> 't"
    and migrate :: "session_snapshot \<Rightarrow> route_plan \<Rightarrow> 't \<Rightarrow> (session_snapshot, 'e) result \<times> 't"
  assumes mark_regs: "regs (mark sid m t) = regs t"
    and close_regs: "close s t = (res, t') \<Longrightarrow> regs t' = (regs t)(ss_session_id s := None)"
    and migrate_Ok: "valid t \<Longrightarrow> migrate s r t = (Ok v, t') \<Longrightarrow> regs t' = (regs t)(ss_session_id s \<mapsto> route_target r)"
    and migrate_Err: "valid t \<Longrightarrow> migrate s r t = (Err e, t') \<Longrightarrow> k \<noteq> ss_session_id s \<Longrightarrow> regs t' k = regs t k"
    and rest_kept: "rest (mark sid m t) = rest t" "rest (snd (close s t)) = rest t"
      "valid t \<Longrightarrow> rest (snd (migrate s r t)) = rest t"
    and valid_kept: "valid t \<Longrightarrow> valid (mark sid m t)" "valid t \<Longrightarrow> valid (snd (close s t))"
      "valid t \<Longrightarrow> valid (snd (migrate s r t))"
begin

lemma close_marked:
  assumes "valid t" and "close s (mark sid m t) = (res, t')"
  shows "regs t' = (regs t)(ss_session_id s := None) \<and> rest t' = rest t \<and> valid t'"
  using close_regs [OF assms(2)] rest_kept(2) [of s "mark sid m t"] valid_kept(2) [of "mark sid m t" s] assms
  by (simp add: mark_regs rest_kept valid_kept)

lemma failed_migration_closed:
  assumes "valid t" and "migrate s r t = (Err e, t1)" and "regs t2 = regs t1" "rest t2 = rest t1" "valid t2"
    and "close s t2 = (res, t')"
  shows "regs t' = (regs t)(ss_session_id s := None) \<and> rest t' = rest t \<and> valid t'"
proof -
  have "regs t' = (regs t)(ss_session_id s := None)"
    using close_regs [OF assms(6)] migrate_Err [OF assms(1,2)] assms(3) by (auto simp: fun_eq_iff)
  moreover have "rest t' = rest t" using rest_kept(2) [of s t2] rest_kept(3) [OF assms(1), of s r] assms by simp
  moreover have "valid t'" using valid_kept(2) [OF assms(5), of s] assms(6) by simp
  ultimately show ?thesis by simp
qed

lemma migrate_same_target:
  assumes "valid t" and "migrate s r t = (Ok v, t')" and "regs t (ss_session_id s) = Some (route_target r)"
  shows "regs t' = regs t \<and> rest t' = rest t \<and> valid t'"
  using migrate_Ok [OF assms(1,2)] rest_kept(3) [OF assms(1), of s r] valid_kept(3) [OF assms(1), of s r] assms by auto

end

section \<open>The adapter keeps the contract\<close>

definition others :: "'r quic_adapter \<Rightarrow> reconnect_suppression list \<times> (string, runtime_listener_snapshot) btree_map" where
  "others a = (qa_suppressions a, qa_listeners a)"

lemma targets_get: "targets a sid = map_option (\<lambda>r. session_target (sx_snapshot r)) (bt_get (qa_sessions a) sid)"
  by (simp add: targets_def adapter_session_snapshot_def option.map_comp o_def)

lemma targets_update [simp]: "targets (snd (update_session_state X sid st cr sr a)) = targets a"
  by (rule ext) (auto simp: targets_get update_session_state_get session_target_def option.map_comp o_def)

lemma others_simps [simp]:
  "others (snd (now_secs a)) = others a" "others (snd (now_nanos a)) = others a" "others (snd (draw_bytes a)) = others a"
  "others (emit_runtime_event ty su d a) = others a" "others (a\<lparr>qa_relay := rs\<rparr>) = others a"
  "others (a\<lparr>qa_sessions := m\<rparr>) = others a" "others (record_terminal_session r a) = others a"
  by (simp_all add: others_def record_terminal_session_def)

lemma others_update [simp]: "others (snd (update_session_state X sid st cr sr a)) = others a"
  by (simp add: update_session_state_def Let_def case_prod_beta split: option.split)

lemma others_close_relay [simp]: "others (snd (close_relay_transport_session X ctl ep sid a)) = others a"
  by (simp add: close_relay_transport_session_def split: option.split prod.split)

lemma others_upsert [simp]: "others (snd (upsert_runtime_session X ctl r a)) = others a"
proof -
  have "others b = others a" if "close_relay_transport_session X ctl ep sid (a\<lparr>qa_sessions := m\<rparr>) = (q, b)" for ep sid m q b
    using that others_close_relay [of X ctl ep sid "a\<lparr>qa_sessions := m\<rparr>"] by simp
  then show ?thesis
    by (auto simp: upsert_runtime_session_def Let_def split: option.splits prod.splits result.splits if_splits)
qed

lemma snapshot_for_route_frame [simp]:
  "others (snd (session_snapshot_for_route X ctl route a)) = others a"
  "qa_sessions (snd (session_snapshot_for_route X ctl route a)) = qa_sessions a"
  by (auto simp: session_snapshot_for_route_def relay_session_snapshot_def direct_session_snapshot_def
      Let_def case_prod_beta split: option.splits list.splits result.splits)

lemma snapshot_for_route_target:
  assumes "session_snapshot_for_route X ctl route a = (Ok s, a')"
  shows "session_target s = route_target route"
  using assms
  by (auto simp: session_snapshot_for_route_def relay_session_snapshot_def direct_session_snapshot_def
      session_target_def route_target_def Let_def case_prod_beta split: option.splits list.splits result.splits if_splits)

lemma upsert_sessions [simp]:
  "qa_sessions (snd (upsert_runtime_session X ctl r a)) = bt_insert (ss_session_id (sx_snapshot r)) r (qa_sessions a)"
proof -
  have "qa_sessions b = m" if "close_relay_transport_session X ctl ep sid (a\<lparr>qa_sessions := m\<rparr>) = (q, b)" for ep sid m q b
    using that close_relay_frame(1) [of X ctl ep sid "a\<lparr>qa_sessions := m\<rparr>"] by simp
  then show ?thesis
    by (auto simp: upsert_runtime_session_def Let_def split: option.splits prod.splits result.splits if_splits)
qed

lemma others_close_removed [simp]: "others (snd (close_removed X ctl r a)) = others a"
  by (simp add: close_removed_def)

lemma close_sessions:
  "bt_get (qa_sessions (snd (adapter_close_session X ctl s a))) k = (if k = ss_session_id s then None else bt_get (qa_sessions a) k)"
  "others (snd (adapter_close_session X ctl s a)) = others a"
proof -
  have "(bt_get (qa_sessions (snd (adapter_close_session X ctl s a))) k =
          (if k = ss_session_id s then None else bt_get (qa_sessions a) k)) \<and>
        others (snd (adapter_close_session X ctl s a)) = others a"
  proof (cases "bt_get (qa_sessions a) (ss_session_id s)")
    case None
    then show ?thesis
      by (auto simp: adapter_close_session_def Let_def case_prod_beta remove_runtime_session_def update_session_state_def)
  next
    case (Some rec)
    let ?c = "close_removed X ctl (closing_record s a rec) (closing_adapter X s rec a)"
    have "others (closing_adapter X s rec a) = others a"
      by (simp add: closing_adapter_def remove_runtime_session_def)
    then have "qa_sessions (snd ?c) = qa_sessions (closing_adapter X s rec a)" "others (snd ?c) = others a" by simp_all
    then show ?thesis
      unfolding adapter_close_present [OF Some]
      by (cases ?c; cases "fst ?c") (simp_all add: Let_def case_prod_beta closing_adapter_sel)
  qed
  then show "bt_get (qa_sessions (snd (adapter_close_session X ctl s a))) k =
      (if k = ss_session_id s then None else bt_get (qa_sessions a) k)"
    "others (snd (adapter_close_session X ctl s a)) = others a" by simp_all
qed

lemma migrate_frame:
  assumes "adapter_wf a" and "adapter_migrate X ctl s route a = (res, a')"
  shows "others a' = others a"
    and "k \<noteq> ss_session_id s \<Longrightarrow> bt_get (qa_sessions a') k = bt_get (qa_sessions a) k"
    and "res = Ok v \<Longrightarrow> targets a' (ss_session_id s) = Some (route_target route)"
proof -
  let ?sid = "ss_session_id s"
  let ?a1 = "snd (update_session_state X ?sid SS_Migrating None (Some ''daemon requested path migration'') a)"
  have wf1: "adapter_wf ?a1" by (rule adapter_wf_update [OF assms(1)])
  have g1: "k \<noteq> ?sid \<Longrightarrow> bt_get (qa_sessions ?a1) k = bt_get (qa_sessions a) k" for k
    by (simp add: update_session_state_get)
  have "others a' = others a \<and> (\<forall>k. k \<noteq> ?sid \<longrightarrow> bt_get (qa_sessions a') k = bt_get (qa_sessions a) k) \<and>
      (\<forall>v. res = Ok v \<longrightarrow> targets a' ?sid = Some (route_target route))"
  proof (cases "adapter_session_snapshot ?sid ?a1")
    case None
    with assms(2) g1 show ?thesis by (auto simp: adapter_migrate_def Let_def case_prod_beta)
  next
    case (Some existing)
    with wf1 have id: "ss_session_id existing = ?sid" by (auto simp: adapter_session_snapshot_def adapter_wf_def)
    obtain q2 a2 where q2: "session_snapshot_for_route X ctl route ?a1 = (q2, a2)" by fastforce
    then have f2: "others a2 = others a" "qa_sessions a2 = qa_sessions ?a1"
      using snapshot_for_route_frame [of X ctl route ?a1] by simp_all
    show ?thesis
    proof (cases q2)
      case (Err e)
      with assms(2) Some q2 f2 g1 show ?thesis by (auto simp: adapter_migrate_def Let_def case_prod_beta)
    next
      case (Ok fresh)
      let ?m = "fresh\<lparr>ss_session_id := ss_session_id existing,
        ss_created_at_unix_secs := ss_created_at_unix_secs existing,
        ss_last_activity_unix_secs := fst (now_secs a2)\<rparr>"
      let ?r = "\<lparr>sx_snapshot = ?m, sx_alpn_protocol = alpn route\<rparr>"
      define p3 where "p3 = (if ss_path_kind existing = Relay \<and>
          (ss_path_kind ?m \<noteq> Relay \<or> ss_transport_session_id ?m \<noteq> ss_transport_session_id existing \<or>
           ss_relay_control_endpoint ?m \<noteq> ss_relay_control_endpoint existing)
        then close_relay_transport_session X ctl (ss_relay_control_endpoint existing)
               (ss_transport_session_id existing) (snd (now_secs a2)) else (Ok (), snd (now_secs a2)))"
      obtain q3 a3 where q3: "p3 = (q3, a3)" by fastforce
      have f3: "others a3 = others a" "qa_sessions a3 = qa_sessions ?a1"
        using q3 f2 close_relay_frame(1) [of X ctl _ _ "snd (now_secs a2)"] others_close_relay [of X ctl _ _ "snd (now_secs a2)"]
        unfolding p3_def by (metis now_secs_sel(1) others_simps(1) snd_conv)+
      obtain q4 a4 where q4: "upsert_runtime_session X ctl ?r a3 = (q4, a4)" by fastforce
      have f4: "others a4 = others a" "qa_sessions a4 = bt_insert ?sid ?r (qa_sessions ?a1)"
        using q4 f3 others_upsert [of X ctl ?r a3] upsert_sessions [of X ctl ?r a3] id by simp_all
      have t: "session_target ?m = route_target route"
        using snapshot_for_route_target q2 Ok by (simp add: session_target_def)
      have mig: "adapter_migrate X ctl s route a = (case (q3, a3) of
          (Err e, a) \<Rightarrow> (Err e, a)
        | (Ok _, a) \<Rightarrow> (case upsert_runtime_session X ctl ?r a of
            (Err e, a) \<Rightarrow> (Err e, a)
          | (Ok _, a) \<Rightarrow> (Ok ?m, emit_runtime_event ''path.migration_completed'' (session_subject (ss_session_id ?m))
              (json_object
                [(''peer_id'', JString (PeerId_to_text X (ss_peer ?m))),
                 (''prior_path_class'', JString (path_class_label (ss_path_kind existing))),
                 (''next_path_class'', JString (path_class_label (ss_path_kind ?m)))]) a)))"
        unfolding adapter_migrate_def Let_def case_prod_beta Some option.case q2 fst_conv snd_conv Ok result.case
          q3 [symmetric] p3_def by simp
      show ?thesis
        using assms(2) f3 f4 g1 t unfolding mig
        by (auto simp: q4 targets_get split: result.splits)
    qed
  qed
  then show "others a' = others a" "k \<noteq> ?sid \<Longrightarrow> bt_get (qa_sessions a') k = bt_get (qa_sessions a) k"
    "res = Ok v \<Longrightarrow> targets a' ?sid = Some (route_target route)" by simp_all
qed

interpretation quic: session_lifecycle adapter_wf targets others
  "\<lambda>sid (st, cr, sr) a. snd (update_session_state X sid st cr sr a)"
  "adapter_close_session X ctl" "adapter_migrate X ctl"
  for X :: "'x keystore_env_scheme" and ctl :: "'r relay_control"
proof
  fix s :: session_snapshot and t t' :: "'r quic_adapter" and res :: "(unit, transport_error) result"
  assume "adapter_close_session X ctl s t = (res, t')"
  then show "targets t' = (targets t)(ss_session_id s := None)"
    using close_sessions(1) [of X ctl s t] by (auto simp: targets_get fun_eq_iff)
next
  fix s v :: session_snapshot and r :: route_plan and t t' :: "'r quic_adapter"
  assume "adapter_wf t" "adapter_migrate X ctl s r t = (Ok v, t')"
  then show "targets t' = (targets t)(ss_session_id s \<mapsto> route_target r)"
    using migrate_frame(2,3) [of t X ctl s r "Ok v" t'] by (auto simp: targets_get fun_eq_iff)
next
  fix s :: session_snapshot and r :: route_plan and t t' :: "'r quic_adapter" and e k
  assume "adapter_wf t" "adapter_migrate X ctl s r t = (Err e, t')" "k \<noteq> ss_session_id s"
  then show "targets t' k = targets t k"
    using migrate_frame(2) [of t X ctl s r "Err e" t' k] by (simp add: targets_get)
next
  fix s :: session_snapshot and r :: route_plan and t :: "'r quic_adapter"
  assume "adapter_wf t"
  then show "others (snd (adapter_migrate X ctl s r t)) = others t"
    using migrate_frame(1) [of t X ctl s r] by (metis surjective_pairing)
qed (auto simp: close_sessions(2) adapter_wf_update adapter_wf_close adapter_wf_migrate)

section \<open>Steps of the runtime\<close>

text \<open>How an operation changes the registrations and the suppressed targets; it keeps the adapter well
  formed and leaves the files alone.\<close>

definition suppressed :: "'r quic_adapter \<Rightarrow> reconnect_key set" where
  "suppressed a = sp_key ` set (qa_suppressions a)"

definition evolves ::
  "((bytes \<Rightarrow> reconnect_key option) \<Rightarrow> bytes \<Rightarrow> reconnect_key option) \<Rightarrow> (reconnect_key set \<Rightarrow> reconnect_key set) \<Rightarrow>
   'r runtime \<Rightarrow> 'r runtime \<Rightarrow> bool" where
  "evolves f g s s' \<longleftrightarrow>
     vm_files s' = vm_files s \<and>
     (adapter_wf (vm_transport s) \<longrightarrow>
        adapter_wf (vm_transport s') \<and> targets (vm_transport s') = f (targets (vm_transport s)) \<and>
        suppressed (vm_transport s') = g (suppressed (vm_transport s)) \<and>
        qa_listeners (vm_transport s') = qa_listeners (vm_transport s))"

lemma evolves_refl [simp]: "evolves (\<lambda>m. m) (\<lambda>k. k) s s"
  by (simp add: evolves_def)

lemma evolves_trans: "evolves f g s s1 \<Longrightarrow> evolves f' g' s1 s2 \<Longrightarrow> evolves (\<lambda>m. f' (f m)) (\<lambda>k. g' (g k)) s s2"
  by (simp add: evolves_def)

lemma others_suppressed: "others b = others a \<Longrightarrow> suppressed b = suppressed a \<and> qa_listeners b = qa_listeners a"
  by (simp add: others_def suppressed_def)

lemma ask_Ok: "ask f s = (Ok v, s') \<longleftrightarrow> v = f (vm_transport s) \<and> s' = s"
  by (auto simp: ask_def reads_def)

lemma set_state_evolves:
  "set_session_state X sid st cr sr s = (Ok v, s') \<Longrightarrow> evolves (\<lambda>m. m) (\<lambda>k. k) s s'"
proof -
  let ?a' = "snd (update_session_state X sid st cr sr (vm_transport s))"
  assume "set_session_state X sid st cr sr s = (Ok v, s')"
  then have "s' = s\<lparr>vm_transport := ?a'\<rparr>"
    by (auto simp: set_session_state_def on_registry_def split: prod.splits)
  with others_suppressed [OF others_update [of X sid st cr sr "vm_transport s"]]
  show ?thesis by (simp add: evolves_def adapter_wf_update)
qed

lemma record_event_evolves: "record_event ty su d s = (Ok v, s') \<Longrightarrow> evolves (\<lambda>m. m) (\<lambda>k. k) s s'"
  by (auto simp: record_event_def on_transport_def on_part_def record_runtime_event_def evolves_def suppressed_def
      adapter_wf_emit targets_def adapter_session_snapshot_def fun_eq_iff)

lemma suppress_evolves:
  "on_transport (suppress_reconnect X p pr tc r) s = (Ok v, s') \<Longrightarrow> evolves (\<lambda>m. m) (insert (p, pr, tc)) s s'"
proof -
  assume a: "on_transport (suppress_reconnect X p pr tc r) s = (Ok v, s')"
  let ?a = "vm_transport s" and ?a' = "snd (suppress_reconnect X p pr tc r (vm_transport s))"
  have s': "s' = s\<lparr>vm_transport := ?a'\<rparr>" using a by (auto simp: on_transport_def on_part_def split: prod.splits)
  have "qa_sessions ?a' = qa_sessions ?a" "qa_listeners ?a' = qa_listeners ?a"
    by (simp_all add: suppress_reconnect_def Let_def case_prod_beta)
  moreover have "suppressed ?a' = insert (p, pr, tc) (suppressed ?a)"
    using suppressions.keys_upsert by (simp add: suppressed_def suppress_upserts Let_def) (simp add: sp_key_def)
  ultimately show ?thesis
    by (simp add: evolves_def s' adapter_wf_suppress targets_def adapter_session_snapshot_def fun_eq_iff)
qed

lemma clear_evolves:
  "on_transport (clear_reconnect_suppression X p pr tc) s = (Ok v, s') \<Longrightarrow> evolves (\<lambda>m. m) (\<lambda>k. k - {(p, pr, tc)}) s s'"
proof -
  assume a: "on_transport (clear_reconnect_suppression X p pr tc) s = (Ok v, s')"
  let ?a = "vm_transport s" and ?a' = "snd (clear_reconnect_suppression X p pr tc (vm_transport s))"
  have s': "s' = s\<lparr>vm_transport := ?a'\<rparr>" using a by (auto simp: on_transport_def on_part_def split: prod.splits)
  have "qa_sessions ?a' = qa_sessions ?a" "qa_listeners ?a' = qa_listeners ?a"
    "suppressed ?a' = suppressed ?a - {(p, pr, tc)}"
    by (auto simp: clear_reconnect_suppression_def Let_def suppressed_def split: option.split)
  then show ?thesis
    by (simp add: evolves_def s' adapter_wf_clear targets_def adapter_session_snapshot_def fun_eq_iff)
qed

lemma close_evolves:
  "on_transport (adapter_close_session X ctl session) s = (Ok v, s') \<Longrightarrow>
   evolves (\<lambda>m. m(ss_session_id session := None)) (\<lambda>k. k) s s'"
  for X :: "'x keystore_env_scheme"
proof -
  assume a: "on_transport (adapter_close_session X ctl session) s = (Ok v, s')"
  then obtain b where b: "adapter_close_session X ctl session (vm_transport s) = (Ok v, b)" "s' = s\<lparr>vm_transport := b\<rparr>"
    by (auto simp: on_transport_def on_part_def split: prod.splits)
  with others_suppressed [of b "vm_transport s"] close_sessions(2) [of X ctl session "vm_transport s"]
    quic.close_regs [OF b(1)] adapter_wf_close [of "vm_transport s" X ctl session]
  show ?thesis by (simp add: evolves_def)
qed

lemma fail_and_close_parts:
  assumes "fail_and_close_session X ctl session cr sr s = (Ok v, s')"
  obtains s1 where "evolves (\<lambda>m. m) (\<lambda>k. k) s s1" "on_transport (adapter_close_session X ctl session) s1 = (Ok v, s')"
proof -
  from assms obtain u s1 w s2 where
    a: "set_session_state X (ss_session_id session) SS_Failed (Some cr) (Some sr) s = (Ok u, s1)" and
    b: "record_path_failure_event X session (path_failure_cause cr) sr s1 = (Ok w, s2)" and
    c: "on_transport (adapter_close_session X ctl session) s2 = (Ok v, s')"
    by (auto simp: fail_and_close_session_def then_r_Ok)
  from evolves_trans [OF set_state_evolves [OF a] record_event_evolves [OF b [unfolded record_path_failure_event_def]]] c
  show ?thesis by (rule that)
qed

lemma fail_and_close_evolves:
  "fail_and_close_session X ctl session cr sr s = (Ok v, s') \<Longrightarrow>
   evolves (\<lambda>m. m(ss_session_id session := None)) (\<lambda>k. k) s s'"
  for X :: "'x keystore_env_scheme"
  by (erule fail_and_close_parts) (drule (1) evolves_trans [OF _ close_evolves], simp)

lemma try_transport_eq: "try_transport m s = (r, s') \<longleftrightarrow> (\<exists>a. m (vm_transport s) = (r, a) \<and> s' = s\<lparr>vm_transport := a\<rparr>)"
  by (auto simp: try_transport_def on_part_def map_err_def split: prod.splits result.splits)

lemma migrate_evolves:
  assumes "try_transport (adapter_migrate X ctl session route) s = (Ok v, s')"
  shows "evolves (\<lambda>m. m(ss_session_id session \<mapsto> route_target route)) (\<lambda>k. k) s s'"
proof -
  from assms obtain b where b: "adapter_migrate X ctl session route (vm_transport s) = (Ok v, b)" "s' = s\<lparr>vm_transport := b\<rparr>"
    by (auto simp: try_transport_eq)
  show ?thesis
    using quic.migrate_Ok [OF _ b(1)] quic.valid_kept(3) [of "vm_transport s" X ctl session route]
      others_suppressed [of b "vm_transport s"] quic.rest_kept(3) [of "vm_transport s" X ctl session route] b
    by (simp add: evolves_def)
qed

lemma failed_migration_evolves:
  assumes "try_transport (adapter_migrate X ctl session route) s = (Err e, s1)"
    and "fail_and_close_session X ctl session cr sr s1 = (Ok v, s')"
  shows "evolves (\<lambda>m. m(ss_session_id session := None)) (\<lambda>k. k) s s'"
proof -
  from assms(1) obtain b where b: "adapter_migrate X ctl session route (vm_transport s) = (Err e, b)" "s1 = s\<lparr>vm_transport := b\<rparr>"
    by (auto simp: try_transport_eq)
  have "evolves (\<lambda>m. m(ss_session_id session := None)) (\<lambda>k. k) s1 s'" by (rule fail_and_close_evolves [OF assms(2)])
  moreover have "adapter_wf b" "others b = others (vm_transport s)"
      "(targets b)(ss_session_id session := None) = (targets (vm_transport s))(ss_session_id session := None)"
    if "adapter_wf (vm_transport s)"
    using that quic.valid_kept(3) [OF that, of X ctl session route] quic.rest_kept(3) [OF that, of X ctl session route]
      quic.migrate_Err [OF that b(1)] b(1) by (auto simp: fun_eq_iff)
  ultimately show ?thesis using others_suppressed [of b "vm_transport s"] by (simp add: evolves_def b(2))
qed

section \<open>Reconciliation\<close>

lemma grants_sessions [simp]: "grants_for_peer (st\<lparr>ds_active_sessions := ss\<rparr>) p = grants_for_peer st p"
  by (simp add: grants_for_peer_def is_capability_revoked_def)

lemma explain_policy_sessions [simp]: "explain_policy X (st\<lparr>ds_active_sessions := ss\<rparr>) p pr = explain_policy X st p pr"
  by (simp add: explain_policy_def deny_reason_def explain_local_protocol_policy_def Let_def split: option.split)

lemma route_plan_target: "route_plan X st p pr tc = Ok r \<Longrightarrow> route_target r = (p, pr, tc)"
  by (auto simp: route_plan_def route_target_def Let_def split: option.splits result.splits)

definition entry_of :: "session_reconcile_report \<Rightarrow> session_reconcile_entry \<Rightarrow> session_reconcile_report \<Rightarrow> bool" where
  "entry_of rep e rep' \<longleftrightarrow>
     rcr_entries rep' = rcr_entries rep @ [e] \<and>
     rcr_unchanged rep' + rcr_upgraded rep' + rcr_closed rep' =
       Suc (rcr_unchanged rep + rcr_upgraded rep + rcr_closed rep)"

lemma reconcile_entry_of:
  "entry_of rep \<lparr>rce_session_id = ss_session_id session, rce_peer = ss_peer session, rce_disposition = d,
      rce_reason = reason, rce_path_kind = kind\<rparr> (reconcile_entry session d reason kind rep)"
  by (cases d) (simp_all add: entry_of_def reconcile_entry_def)

text \<open>One session: an entry for it is added, and it stays registered only if the policy allows its target.\<close>

definition reconciled ::
  "'x codecs_scheme \<Rightarrow> bytes \<Rightarrow> daemon_state \<times> session_reconcile_report \<Rightarrow> 'r runtime \<Rightarrow>
   daemon_state \<times> session_reconcile_report \<Rightarrow> 'r runtime \<Rightarrow> bool" where
  "reconciled X sid acc s acc' s' \<longleftrightarrow>
     (\<exists>ss. fst acc' = (fst acc)\<lparr>ds_active_sessions := ss\<rparr>) \<and>
     (\<exists>e. entry_of (snd acc) e (snd acc') \<and> rce_session_id e = sid \<and>
        evolves (\<lambda>m. if rce_disposition e = RD_Closed then m(sid := None) else m) (\<lambda>k. k) s s' \<and>
        (rce_disposition e \<noteq> RD_Closed \<longrightarrow>
           (\<exists>p pr tc. targets (vm_transport s) sid = Some (p, Some pr, tc) \<and>
              dc_allowed (explain_policy X (fst acc) p pr))))"

lemma reconciled_drop:
  "evolves (\<lambda>m. m(ss_session_id session := None)) (\<lambda>k. k) s s' \<Longrightarrow>
   reconciled X (ss_session_id session) acc s (drop_session session reason acc) s'"
  unfolding reconciled_def drop_session_def without_session_def case_prod_beta fst_conv snd_conv
  by (intro conjI exI [of _ "ds_active_sessions (without_session (fst acc) (ss_session_id session))"]
      exI, simp add: without_session_def, rule reconcile_entry_of, simp_all)

lemma reconciled_keep:
  assumes "evolves (\<lambda>m. m) (\<lambda>k. k) s s'" "d \<noteq> RD_Closed"
    and "targets (vm_transport s) (ss_session_id session) = Some (p, Some pr, tc)"
    and "dc_allowed (explain_policy X (fst acc) p pr)" "st' = (fst acc)\<lparr>ds_active_sessions := ss\<rparr>"
  shows "reconciled X (ss_session_id session) acc s (st', reconcile_entry session d reason kind (snd acc)) s'"
  unfolding reconciled_def fst_conv snd_conv
  by (intro conjI exI, rule assms(5), rule reconcile_entry_of) (use assms in simp_all)

lemma reconciled_before:
  assumes "evolves (\<lambda>m. m) (\<lambda>k. k) s s1" "adapter_wf (vm_transport s)" "reconciled X sid acc s1 acc' s'"
  shows "reconciled X sid acc s acc' s'"
proof -
  have t: "targets (vm_transport s1) = targets (vm_transport s)" using assms(1,2) by (simp add: evolves_def)
  have "evolves f g s1 s' \<Longrightarrow> evolves f g s s'" for f g using evolves_trans [OF assms(1)] by simp
  with assms(3) t show ?thesis unfolding reconciled_def by auto
qed

lemma evolves_then: "evolves (\<lambda>m. m) (\<lambda>k. k) s s1 \<Longrightarrow> evolves f g s1 s2 \<Longrightarrow> evolves f g s s2"
  using evolves_trans [of "\<lambda>m. m" "\<lambda>k. k" s s1 f g s2] by simp

lemma allowed_session_step:
  assumes wf: "adapter_wf (vm_transport s)"
    and found: "adapter_session_snapshot (ss_session_id session) (vm_transport s) = Some session"
    and pr: "ss_protocol session = Some protocol"
    and ok: "dc_allowed (explain_policy X (fst acc) (ss_peer session) protocol)"
    and route: "route_plan X (fst acc) (ss_peer session) (Some protocol) (ss_class session) = Ok route"
    and differs: "\<not> session_matches_route session route"
    and run: "then_r (set_session_state X (ss_session_id session) SS_Migrating None why)
        (match_r (try_transport (adapter_migrate X ctl session route))
           (\<lambda>migrated. return_r (with_active_session (fst acc) migrated,
              reconcile_entry session RD_Upgraded reason kind (snd acc)))
           (\<lambda>error. then_r (fail_and_close_session X ctl session LocalRuntimeFailure (f error))
                   (return_r (drop_session session (f error) acc)))) s = (Ok acc', s')"
  shows "reconciled X (ss_session_id session) acc s acc' s'"
proof -
  have t: "targets (vm_transport s) (ss_session_id session) = Some (ss_peer session, Some protocol, ss_class session)"
    using found pr by (simp add: targets_def session_target_def)
  from run obtain u s1 where s1: "set_session_state X (ss_session_id session) SS_Migrating None why s = (Ok u, s1)"
    by (auto simp: then_r_Ok)
  note e1 = set_state_evolves [OF s1]
  obtain q s2 where q: "try_transport (adapter_migrate X ctl session route) s1 = (q, s2)" by fastforce
  show ?thesis
  proof (cases q)
    case (Ok m)
    with run s1 q have r: "acc' = (with_active_session (fst acc) m, reconcile_entry session RD_Upgraded reason kind (snd acc))" "s' = s2"
      by (auto simp: then_r_Ok match_r_def return_r_def)
    have "evolves (\<lambda>m. m) (\<lambda>k. k) s s2"
      using evolves_then [OF e1 migrate_evolves [OF q [unfolded Ok]]] t route_plan_target [OF route]
      by (auto simp: evolves_def fun_upd_triv)
    from reconciled_keep [OF this _ t ok] show ?thesis unfolding r with_active_session_def by simp
  next
    case (Err e)
    with run s1 q obtain v where r: "fail_and_close_session X ctl session LocalRuntimeFailure (f e) s2 = (Ok v, s')"
      "acc' = drop_session session (f e) acc"
      by (auto simp: then_r_Ok match_r_def return_r_def Let_def)
    show ?thesis unfolding r(2)
      by (rule reconciled_drop, rule evolves_then [OF e1], rule failed_migration_evolves [OF q [unfolded Err] r(1)])
  qed
qed

lemma reconcile_session_step:
  assumes wf: "adapter_wf (vm_transport s)" and run: "reconcile_session X ctl listed acc s = (Ok acc', s')"
  shows "reconciled X (ss_session_id listed) acc s acc' s'"
proof -
  let ?sid = "ss_session_id listed"
  from run obtain u s1 where
    s1: "set_session_state X ?sid SS_Reconciling None (Some ''daemon reconcile cycle'') s = (Ok u, s1)"
    unfolding reconcile_session_def then_r_Ok by blast
  note e1 = set_state_evolves [OF s1]
  have wf1: "adapter_wf (vm_transport s1)" using e1 wf by (simp add: evolves_def)
  note rest = run [unfolded reconcile_session_def then_r_def [of "set_session_state X ?sid SS_Reconciling None _"]
      bind_r_def s1 prod.case result.case ask_def reads_def]
  have "reconciled X ?sid acc s1 acc' s'"
  proof (cases "adapter_session_snapshot ?sid (vm_transport s1)")
    case None
    then have "targets (vm_transport s1) ?sid = None" by (simp add: targets_def)
    then have "evolves (\<lambda>m. m(?sid := None)) (\<lambda>k. k) s1 s1" by (auto simp: evolves_def fun_eq_iff)
    moreover have "acc' = drop_session listed ''session is not active in runtime transport'' acc" "s' = s1"
      using rest None by (auto simp: return_r_def)
    ultimately show ?thesis by (simp add: reconciled_drop)
  next
    case (Some session)
    with wf1 have id: "ss_session_id session = ?sid" by (auto simp: adapter_session_snapshot_def adapter_wf_def)
    note rest = rest [unfolded Some option.case]
    show ?thesis
    proof (cases "ss_protocol session")
      case None
      with rest show ?thesis unfolding id [symmetric]
        by (auto simp: then_r_Ok return_r_def intro!: reconciled_drop dest: fail_and_close_evolves)
    next
      case pr: (Some protocol)
      note rest = rest [unfolded pr option.case Let_def]
      show ?thesis
      proof (cases "dc_allowed (explain_policy X (fst acc) (ss_peer session) protocol)")
        case False
        with rest show ?thesis unfolding id [symmetric]
          by (auto simp: then_r_Ok return_r_def intro!: reconciled_drop
              dest!: set_state_evolves close_evolves intro: evolves_then)
      next
        case ok: True
        show ?thesis
        proof (cases "route_plan X (fst acc) (ss_peer session) (Some protocol) (ss_class session)")
          case (Err e)
          with rest ok show ?thesis unfolding id [symmetric]
            by (cases e) (auto simp: then_r_Ok return_r_def raise_r_def intro!: reconciled_drop dest: fail_and_close_evolves)
        next
          case (Ok route)
          note found = Some [folded id]
          show ?thesis
          proof (cases "session_matches_route session route")
            case True
            have t: "targets (vm_transport s1) (ss_session_id session) = Some (ss_peer session, Some protocol, ss_class session)"
              using found pr by (simp add: targets_def session_target_def)
            from True rest ok Ok obtain v where
              r: "set_session_state X (ss_session_id session) SS_Active None (Some ''selected path still matches active session'') s1 = (Ok v, s')"
              "acc' = (fst acc, reconcile_entry session RD_Unchanged ''selected path still matches active session''
                 (Some (ss_path_kind session)) (snd acc))"
              by (auto simp: then_r_Ok return_r_def)
            from reconciled_keep [OF set_state_evolves [OF r(1)] _ t ok, of RD_Unchanged "fst acc"
                "ds_active_sessions (fst acc)"] show ?thesis
              unfolding r(2) id [symmetric] by simp
          next
            case False
            note r = rest [unfolded Ok result.case Eq_TrueI [OF ok] Eq_FalseI [OF False] not_True_eq_False if_False]
            from allowed_session_step [OF wf1 found pr ok Ok False r] show ?thesis unfolding id .
          qed
        qed
      qed
    qed
  qed
  then show ?thesis by (rule reconciled_before [OF e1 wf])
qed

lemma targets_registered:
  "adapter_wf a \<Longrightarrow> targets a k \<noteq> None \<longleftrightarrow> k \<in> set (map ss_session_id (active_sessions a))"
  by (simp only: active_session_ids(1)) (simp add: targets_get bt_get_keys [symmetric])

definition dropped :: "session_reconcile_entry list \<Rightarrow> bytes set" where
  "dropped es = {rce_session_id e | e. e \<in> set es \<and> rce_disposition e = RD_Closed}"

lemma reconcile_loop:
  assumes "adapter_wf (vm_transport s)" and "distinct (map ss_session_id sessions)"
    and "for_each (reconcile_session X ctl) sessions acc s = (Ok acc', s')"
  shows "\<exists>es ss. map rce_session_id es = map ss_session_id sessions \<and> rcr_entries (snd acc') = rcr_entries (snd acc) @ es \<and>
     rcr_unchanged (snd acc') + rcr_upgraded (snd acc') + rcr_closed (snd acc') =
       rcr_unchanged (snd acc) + rcr_upgraded (snd acc) + rcr_closed (snd acc) + length sessions \<and>
     fst acc' = (fst acc)\<lparr>ds_active_sessions := ss\<rparr> \<and>
     evolves (\<lambda>m k. if k \<in> dropped es then None else m k) (\<lambda>k. k) s s' \<and>
     (\<forall>e \<in> set es. rce_disposition e \<noteq> RD_Closed \<longrightarrow>
        (\<exists>p pr tc. targets (vm_transport s) (rce_session_id e) = Some (p, Some pr, tc) \<and>
           dc_allowed (explain_policy X (fst acc) p pr)))"
  using assms
proof (induction sessions arbitrary: acc s)
  case Nil
  then show ?case
    by (intro exI [of _ "[]"] exI [of _ "ds_active_sessions (fst acc)"]) (simp add: return_r_def dropped_def)
next
  case (Cons x xs)
  let ?id = "ss_session_id x"
  from Cons.prems(3) obtain acc1 s1 where r1: "reconcile_session X ctl x acc s = (Ok acc1, s1)"
    and r2: "for_each (reconcile_session X ctl) xs acc1 s1 = (Ok acc', s')" by (auto simp: bind_r_Ok)
  from reconcile_session_step [OF Cons.prems(1) r1] obtain e ss1 where
    st: "fst acc1 = (fst acc)\<lparr>ds_active_sessions := ss1\<rparr>" and
    e: "entry_of (snd acc) e (snd acc1)" "rce_session_id e = ?id" and
    ev: "evolves (\<lambda>m. if rce_disposition e = RD_Closed then m(?id := None) else m) (\<lambda>k. k) s s1" and
    al: "rce_disposition e \<noteq> RD_Closed \<Longrightarrow> \<exists>p pr tc. targets (vm_transport s) ?id = Some (p, Some pr, tc) \<and>
              dc_allowed (explain_policy X (fst acc) p pr)"
    unfolding reconciled_def by blast
  have wf1: "adapter_wf (vm_transport s1)" and t1: "k \<noteq> ?id \<Longrightarrow> targets (vm_transport s1) k = targets (vm_transport s) k" for k
    using ev Cons.prems(1) by (auto simp: evolves_def split: if_splits)
  have dx: "distinct (map ss_session_id xs)" using Cons.prems(2) by simp
  from Cons.IH [OF wf1 dx r2] obtain es ss where
    es: "map rce_session_id es = map ss_session_id xs" "rcr_entries (snd acc') = rcr_entries (snd acc1) @ es"
      "rcr_unchanged (snd acc') + rcr_upgraded (snd acc') + rcr_closed (snd acc') =
       rcr_unchanged (snd acc1) + rcr_upgraded (snd acc1) + rcr_closed (snd acc1) + length xs"
      "fst acc' = (fst acc1)\<lparr>ds_active_sessions := ss\<rparr>" and
    ev2: "evolves (\<lambda>m k. if k \<in> dropped es then None else m k) (\<lambda>k. k) s1 s'" and
    al2: "\<forall>e \<in> set es. rce_disposition e \<noteq> RD_Closed \<longrightarrow>
        (\<exists>p pr tc. targets (vm_transport s1) (rce_session_id e) = Some (p, Some pr, tc) \<and>
           dc_allowed (explain_policy X (fst acc1) p pr))" by blast
  have "evolves (\<lambda>m k. if k \<in> dropped (e # es) then None else m k) (\<lambda>k. k) s s'"
  proof -
    have "dropped (e # es) = dropped es \<union> (if rce_disposition e = RD_Closed then {?id} else {})"
      using e(2) by (auto simp: dropped_def intro: exI [of _ e])
    then have "(\<lambda>m k. if k \<in> dropped (e # es) then None else m k) =
        (\<lambda>m k. if k \<in> dropped es then None else (if rce_disposition e = RD_Closed then m(?id := None) else m) k)"
      by (auto simp: fun_eq_iff)
    from ssubst [where P = "\<lambda>f. evolves f (\<lambda>k. k) s s'", OF this evolves_trans [OF ev ev2]] show ?thesis .
  qed
  moreover have "rce_session_id e' \<noteq> ?id" if "e' \<in> set es" for e'
    using that es(1) Cons.prems(2) by (metis distinct.simps(2) image_eqI list.set_map list.simps(9))
  then have "\<forall>e' \<in> set (e # es). rce_disposition e' \<noteq> RD_Closed \<longrightarrow>
        (\<exists>p pr tc. targets (vm_transport s) (rce_session_id e') = Some (p, Some pr, tc) \<and>
           dc_allowed (explain_policy X (fst acc) p pr))"
    using al al2 t1 e(2) st by auto
  ultimately show ?case
    using e es st by (intro exI [of _ "e # es"] exI [of _ ss]) (simp add: entry_of_def)
qed

lemma on_files_Ok: "on_files m s = (Ok v, s') \<longleftrightarrow> (\<exists>f. m (vm_files s) = (Ok v, f) \<and> s' = s\<lparr>vm_files := f\<rparr>)"
  by (auto simp: on_files_def on_part_def split: prod.splits)

lemma on_transport_Ok: "on_transport m s = (Ok v, s') \<longleftrightarrow> (\<exists>a. m (vm_transport s) = (Ok v, a) \<and> s' = s\<lparr>vm_transport := a\<rparr>)"
  by (auto simp: on_transport_def on_part_def split: prod.splits)

lemma save_with_sessions_Ok: "save_with_sessions E c st s = (Ok v, s') \<Longrightarrow> vm_transport s' = vm_transport s"
  by (auto simp: save_with_sessions_def ask_def on_files_Ok)

text \<open>C33: Reconciliation is exact. When it succeeds, every session that was registered has one entry in
  the report, in the order of the registry, the counters add up to the number examined, a session
  is registered afterwards exactly if its entry does not say it was closed, and every session
  that is left carries a protocol the policy of the node allows for its peer.\<close>

theorem reconcile_exact:
  assumes "adapter_wf (vm_transport s)" and "fst (ensure_state E c (vm_files s)) = Ok st"
    and "reconcile_sessions E ctl c s = (Ok report, s')"
  shows "map rce_session_id (rcr_entries report) = map ss_session_id (active_sessions (vm_transport s)) \<and>
         rcr_examined report = rcr_unchanged report + rcr_upgraded report + rcr_closed report \<and>
         set (map ss_session_id (active_sessions (vm_transport s'))) =
           {rce_session_id e | e. e \<in> set (rcr_entries report) \<and> rce_disposition e \<noteq> RD_Closed} \<and>
         (\<forall>session \<in> set (active_sessions (vm_transport s')). \<exists>protocol.
            ss_protocol session = Some protocol \<and> dc_allowed (explain_policy E st (ss_peer session) protocol))"
proof -
  let ?a = "vm_transport s" and ?a' = "vm_transport s'"
  let ?start = "\<lparr>rcr_examined = 0, rcr_unchanged = 0, rcr_upgraded = 0, rcr_closed = 0, rcr_entries = []\<rparr>"
  from assms(2,3) obtain s1 acc s2 where
    s1: "s1 = s\<lparr>vm_files := snd (ensure_state E c (vm_files s))\<rparr>" and
    loop: "for_each (reconcile_session E ctl) (active_sessions ?a) (st, ?start) s1 = (Ok acc, s2)" and
    fin: "vm_transport s' = vm_transport s2" "report = (snd acc)\<lparr>rcr_examined := length (rcr_entries (snd acc))\<rparr>"
    by (fastforce simp: reconcile_sessions_def bind_r_Ok on_files_Ok ask_Ok then_r_Ok return_r_def case_prod_beta
        dest: save_with_sessions_Ok)
  have wf1: "adapter_wf (vm_transport s1)" and t1: "vm_transport s1 = ?a" using assms(1) s1 by simp_all
  from reconcile_loop [OF wf1 active_session_ids(2) [OF assms(1)] loop] obtain es where
    es: "map rce_session_id es = map ss_session_id (active_sessions ?a)" "rcr_entries report = es"
      "rcr_unchanged report + rcr_upgraded report + rcr_closed report = length (active_sessions ?a)" and
    ev: "evolves (\<lambda>m k. if k \<in> dropped es then None else m k) (\<lambda>k. k) s1 s2" and
    al: "\<And>e. e \<in> set es \<Longrightarrow> rce_disposition e \<noteq> RD_Closed \<Longrightarrow>
        (\<exists>p pr tc. targets ?a (rce_session_id e) = Some (p, Some pr, tc) \<and> dc_allowed (explain_policy E st p pr))"
    unfolding t1 fin(2) by auto
  have wf': "adapter_wf ?a'" and t': "targets ?a' k = (if k \<in> dropped es then None else targets ?a k)" for k
    using ev wf1 t1 fin(1) by (auto simp: evolves_def)
  have ids: "set (map ss_session_id (active_sessions ?a')) =
      {rce_session_id e | e. e \<in> set es \<and> rce_disposition e \<noteq> RD_Closed}" (is "?L = ?R")
  proof -
    have "distinct (map rce_session_id es)" using es(1) active_session_ids(2) [OF assms(1)] by simp
    then have uniq: "e = e'" if "e \<in> set es" "e' \<in> set es" "rce_session_id e = rce_session_id e'" for e e'
      using that by (auto simp: distinct_map dest: inj_onD)
    have "k \<in> ?L \<longleftrightarrow> k \<in> rce_session_id ` set es \<and> k \<notin> dropped es" for k
      using targets_registered [OF wf', of k] t' [of k] targets_registered [OF assms(1), of k] es(1) by (auto simp flip: set_map split: if_splits)
    moreover have "k \<in> rce_session_id ` set es \<and> k \<notin> dropped es \<longleftrightarrow> k \<in> ?R" for k
      using uniq unfolding dropped_def by blast
    ultimately show ?thesis by blast
  qed
  have "\<exists>protocol. ss_protocol session = Some protocol \<and> dc_allowed (explain_policy E st (ss_peer session) protocol)"
    if "session \<in> set (active_sessions ?a')" for session
  proof -
    from that ids obtain e where e: "e \<in> set es" "rce_disposition e \<noteq> RD_Closed" "rce_session_id e = ss_session_id session" by force
    from that have sn: "targets ?a' (ss_session_id session) = Some (session_target session)"
      using active_session_ids(3) [OF wf'] by (simp add: targets_def)
    with t' [of "ss_session_id session"] al [OF e(1,2)] e(3) show ?thesis
      by (auto simp: session_target_def split: if_splits)
  qed
  with es ids show ?thesis by (simp add: fin(2) flip: es(2)) (metis length_map)
qed

section \<open>Opening sessions\<close>

lemma connect_Ok:
  assumes "adapter_connect X ctl route a = (Ok h, a')"
  shows "adapter_session_snapshot (ss_session_id (qc_session h)) a' = Some (qc_session h)"
    and "session_target (qc_session h) = route_target route" and "route_target route \<notin> suppressed a"
proof -
  from assms have none: "find_reconnect_suppression a (rt_peer route) (rt_protocol route) (rt_class route) = None"
    by (auto simp: adapter_connect_def split: option.splits)
  with assms obtain session a1 a2 where
    s: "session_snapshot_for_route X ctl route a = (Ok session, a1)" and
    u: "upsert_runtime_session X ctl \<lparr>sx_snapshot = session, sx_alpn_protocol = alpn route\<rparr> a1 = (Ok (), a2)" and
    h: "h = \<lparr>qc_session = session, qc_alpn_protocol = alpn route\<rparr>" "a' = a2"
    by (auto simp: adapter_connect_def split: prod.splits result.splits)
  show "adapter_session_snapshot (ss_session_id (qc_session h)) a' = Some (qc_session h)"
    using upsert_sessions [of X ctl "\<lparr>sx_snapshot = session, sx_alpn_protocol = alpn route\<rparr>" a1] u h
    by (simp add: adapter_session_snapshot_def)
  show "session_target (qc_session h) = route_target route"
    using snapshot_for_route_target [OF s] h by simp
  show "route_target route \<notin> suppressed a"
    using none by (auto simp: find_suppression_key find_None_iff suppressed_def route_target_def)
qed

text \<open>C35: A session is opened only with the consent of the policy. When a path is realized, the policy
  allows the protocol for the peer, the target is not suppressed, and the session returned is
  registered under exactly this peer, protocol and class. When the policy denies, the call fails
  with its reason and the transport is left untouched.\<close>

theorem realize_needs_policy:
  assumes "fst (ensure_state E c (vm_files s)) = Ok st"
  shows "case realize_best_path E ctl c peer protocol tc s of
      (Ok session, s') \<Rightarrow>
        dc_allowed (explain_policy E st peer protocol) \<and> (peer, Some protocol, tc) \<notin> suppressed (vm_transport s) \<and>
        session_target session = (peer, Some protocol, tc) \<and>
        adapter_session_snapshot (ss_session_id session) (vm_transport s') = Some session
    | (Err e, s') \<Rightarrow>
        \<not> dc_allowed (explain_policy E st peer protocol) \<longrightarrow>
          e = DS_PolicyDenied (dc_reason (explain_policy E st peer protocol)) \<and> vm_transport s' = vm_transport s"
proof -
  let ?s1 = "s\<lparr>vm_files := snd (ensure_state E c (vm_files s))\<rparr>"
  have en: "on_files (ensure_state E c) s = (Ok st, ?s1)"
    unfolding on_files_Ok using assms by (metis prod.collapse)
  show ?thesis
  proof (cases "dc_allowed (explain_policy E st peer protocol)")
    case False
    then show ?thesis by (simp add: realize_best_path_def bind_r_def en raise_r_def)
  next
    case True
    show ?thesis
    proof (cases "realize_best_path E ctl c peer protocol tc s")
      case (Pair q s')
      show ?thesis
      proof (cases q)
        case (Ok session)
        from Pair [unfolded Ok realize_best_path_def bind_r_Ok en] True obtain route h s2 u where
          r: "route_plan E st peer (Some protocol) tc = Ok route" and
          o: "on_transport (adapter_connect E ctl route) ?s1 = (Ok h, s2)" and sess: "session = qc_session h" and
          v: "save_with_sessions E c (with_active_session st (qc_session h)) s2 = (Ok u, s')"
          by (auto simp: Let_def then_r_Ok bind_r_Ok return_r_def from_result_def)
        from o obtain a2 where h: "adapter_connect E ctl route (vm_transport s) = (Ok h, a2)" "s2 = ?s1\<lparr>vm_transport := a2\<rparr>"
          by (auto simp: on_transport_Ok)
        have t: "vm_transport s' = a2" using save_with_sessions_Ok [OF v] h(2) by simp
        from connect_Ok [OF h(1)] route_plan_target [OF r] True show ?thesis unfolding Pair Ok by (simp add: sess t)
      qed (simp add: Pair True)
    qed
  qed
qed

end
