(* ===== verification/Quip_Reevaluation_Laws.thy ===== *)
theory Quip_Reevaluation_Laws
  imports Quip_Plane_Laws Quip_Runtime_View
begin

text \<open>
  What holds after the authority's artifacts have been reevaluated against the running node: denied
  sessions are closed and cannot be reopened, other sessions keep their targets, the report adds up,
  and listeners are in the state the reports show for them.
\<close>

section \<open>One session\<close>

definition denied_target ::
  "'x codecs_scheme \<Rightarrow> daemon_state \<Rightarrow> bool \<Rightarrow> string option \<Rightarrow> reconnect_key \<Rightarrow> bool" where
  "denied_target X st mismatch local_reason key =
     (case key of (p, pr, tc) \<Rightarrow> \<exists>q. pr = Some q \<and> session_enforcement X st mismatch local_reason p q \<noteq> None)"

lemma denied_target_iff:
  "denied_target X st mismatch local_reason (p, Some q, tc) \<longleftrightarrow>
   local_reason \<noteq> None \<or> \<not> dc_allowed (explain_policy X st p q)"
  by (auto simp: denied_target_def session_enforcement_def Let_def split: option.split)

definition outcomes :: "authority_reevaluation_report \<Rightarrow> nat" where
  "outcomes r = av_closed_sessions r + av_degraded_sessions r + av_migrated_sessions r + av_unchanged_sessions r"

definition counted :: "nat \<Rightarrow> authority_reevaluation_report \<Rightarrow> authority_reevaluation_report \<Rightarrow> bool" where
  "counted n r r' \<longleftrightarrow> outcomes r' = outcomes r + n \<and> av_reevaluated_sessions r' = av_reevaluated_sessions r"

text \<open>Only this session may disappear and only its target may leave or enter the suppressions.\<close>

definition settles :: "bytes \<Rightarrow> reconnect_key \<Rightarrow> 'r runtime \<Rightarrow> 'r runtime \<Rightarrow> bool" where
  "settles sid key s s' \<longleftrightarrow>
     vm_files s' = vm_files s \<and> adapter_wf (vm_transport s') \<and>
     qa_listeners (vm_transport s') = qa_listeners (vm_transport s) \<and>
     (\<forall>k. k \<noteq> sid \<longrightarrow> targets (vm_transport s') k = targets (vm_transport s) k) \<and>
     (targets (vm_transport s') sid = targets (vm_transport s) sid \<or> targets (vm_transport s') sid = None) \<and>
     suppressed (vm_transport s') - {key} = suppressed (vm_transport s) - {key}"

lemma settlesI:
  assumes "evolves f g s s'" "adapter_wf (vm_transport s)"
    and "f (targets (vm_transport s)) = targets (vm_transport s) \<or>
         f (targets (vm_transport s)) = (targets (vm_transport s))(sid := None)"
    and "g (suppressed (vm_transport s)) - {key} = suppressed (vm_transport s) - {key}"
  shows "settles sid key s s'"
proof -
  have "adapter_wf (vm_transport s')" "vm_files s' = vm_files s" "targets (vm_transport s') = f (targets (vm_transport s))"
    "suppressed (vm_transport s') = g (suppressed (vm_transport s))" "qa_listeners (vm_transport s') = qa_listeners (vm_transport s)"
    using assms(1,2) by (simp_all add: evolves_def)
  with assms(3,4) show ?thesis unfolding settles_def by (elim disjE) simp_all
qed

lemma enforce_session_step:
  assumes "enforce_session X ctl session protocol enforced rep s = (Ok rep', s')"
  shows "evolves (\<lambda>m. m(ss_session_id session := None)) (insert (ss_peer session, Some protocol, ss_class session)) s s'"
    and "counted 1 rep rep'"
proof -
  from assms obtain u s1 v s2 w s3 z where
    a: "on_transport (suppress_reconnect X (ss_peer session) (Some protocol) (ss_class session) (en_reason enforced)) s = (Ok u, s1)" and
    b: "set_session_state X (ss_session_id session) SS_Closing (Some PolicyRejected) (Some (en_reason enforced)) s1 = (Ok v, s2)" and
    c: "\<exists>ty su d. record_event ty su d s2 = (Ok w, s3)" and
    d: "on_transport (adapter_close_session X ctl session) s3 = (Ok z, s')" and
    e: "counted 1 rep rep'"
    by (auto simp: enforce_session_def bind_r_Ok then_r_Ok ask_Ok Let_def return_r_def counted_def outcomes_def
        count_cause_def split: if_splits authority_policy_cause.splits) blast+
  from c obtain ty su det where c: "record_event ty su det s2 = (Ok w, s3)" by blast
  from evolves_trans [OF evolves_trans [OF evolves_trans [OF suppress_evolves [OF a] set_state_evolves [OF b]]
      record_event_evolves [OF c]] close_evolves [OF d]]
  show "evolves (\<lambda>m. m(ss_session_id session := None)) (insert (ss_peer session, Some protocol, ss_class session)) s s'" .
  show "counted 1 rep rep'" by (rule e)
qed

lemma migrate_session_step:
  assumes "migrate_session X ctl session protocol route rep s = (Ok rep', s')"
  shows "(evolves (\<lambda>m. m(ss_session_id session \<mapsto> route_target route)) (\<lambda>k. k) s s' \<or>
          evolves (\<lambda>m. m(ss_session_id session := None)) (insert (ss_peer session, Some protocol, ss_class session)) s s') \<and>
         counted 1 rep rep'"
proof -
  let ?why = "''authority reevaluation selected a different eligible path''"
  let ?fail = "\<lambda>err. ''authority reevaluation migration failed: '' @ transport_error_text X err"
  let ?closed = "rep\<lparr>av_closed_sessions := av_closed_sessions rep + 1\<rparr>"
  from assms obtain u s1 v s2 where
    a: "record_event ''path.migration_started'' (session_subject (ss_session_id session))
          (path_event_details X session protocol ?why) s = (Ok u, s1)" and
    b: "set_session_state X (ss_session_id session) SS_Migrating None (Some ?why) s1 = (Ok v, s2)" and
    c: "match_r (try_transport (adapter_migrate X ctl session route))
          (\<lambda>_. return_r (rep\<lparr>av_migrated_sessions := av_migrated_sessions rep + 1\<rparr>))
          (\<lambda>err. then_r (fail_and_close_session X ctl session LocalRuntimeFailure (?fail err))
             (then_r (on_transport (suppress_reconnect X (ss_peer session) (Some protocol) (ss_class session) (?fail err)))
                (return_r ?closed))) s2 = (Ok rep', s')"
    unfolding migrate_session_def Let_def then_r_Ok by blast
  note e = evolves_trans [OF record_event_evolves [OF a] set_state_evolves [OF b]]
  from c [unfolded match_r_Ok] show ?thesis
  proof (elim disjE exE conjE)
    fix m s3
    assume q: "try_transport (adapter_migrate X ctl session route) s2 = (Ok m, s3)"
      and "return_r (rep\<lparr>av_migrated_sessions := av_migrated_sessions rep + 1\<rparr>) s3 = (Ok rep', s')"
    then have "s' = s3" "counted 1 rep rep'" by (simp_all add: ok_iff counted_def outcomes_def)
    with evolves_trans [OF e migrate_evolves [OF q]] show ?thesis by simp
  next
    fix err s3
    assume q: "try_transport (adapter_migrate X ctl session route) s2 = (Err err, s3)"
      and r: "then_r (fail_and_close_session X ctl session LocalRuntimeFailure (?fail err))
             (then_r (on_transport (suppress_reconnect X (ss_peer session) (Some protocol) (ss_class session) (?fail err)))
                (return_r ?closed)) s3 = (Ok rep', s')"
    then obtain w s4 z where f: "fail_and_close_session X ctl session LocalRuntimeFailure (?fail err) s3 = (Ok w, s4)"
      and g: "on_transport (suppress_reconnect X (ss_peer session) (Some protocol) (ss_class session) (?fail err)) s4 = (Ok z, s')"
      and "rep' = ?closed"
      unfolding then_r_Ok pure_Ok by blast
    then have "counted 1 rep rep'" by (simp add: counted_def outcomes_def)
    with evolves_trans [OF evolves_trans [OF e failed_migration_evolves [OF q f]] suppress_evolves [OF g]] show ?thesis by simp
  qed
qed

lemma degrade_session_step:
  assumes "degrade_session X session protocol reason rep s = (Ok rep', s')"
  shows "evolves (\<lambda>m. m) (\<lambda>k. k) s s' \<and> counted 1 rep rep'"
proof -
  from assms obtain u s1 v where
    a: "set_session_state X (ss_session_id session) SS_Degraded None (Some reason) s = (Ok u, s1)" and
    b: "record_event ''path.degraded'' (session_subject (ss_session_id session)) (path_event_details X session protocol reason) s1 = (Ok v, s')" and
    r: "counted 1 rep rep'"
    by (auto simp: degrade_session_def then_r_Ok return_r_def counted_def outcomes_def)
  from evolves_trans [OF set_state_evolves [OF a] record_event_evolves [OF b]] r show ?thesis by simp
qed

lemma keep_session_step:
  assumes wf: "adapter_wf (vm_transport s)"
    and reg: "targets (vm_transport s) (ss_session_id session) = Some (ss_peer session, Some protocol, ss_class session)"
    and run: "keep_session X ctl st session protocol rep s = (Ok rep', s')"
  shows "settles (ss_session_id session) (ss_peer session, Some protocol, ss_class session) s s' \<and> counted 1 rep rep'"
proof -
  let ?key = "(ss_peer session, Some protocol, ss_class session)" and ?sid = "ss_session_id session"
  let ?rep = "if suppression_present (ss_peer session) protocol (ss_class session) (vm_transport s)
     then rep\<lparr>av_reconnect_suppressions_cleared := av_reconnect_suppressions_cleared rep + 1\<rparr> else rep"
  have c0: "counted 1 ?rep r \<Longrightarrow> counted 1 rep r" for r by (simp add: counted_def outcomes_def split: if_splits)
  from run obtain u s1 where
    a: "on_transport (clear_reconnect_suppression X (ss_peer session) (Some protocol) (ss_class session)) s = (Ok u, s1)"
    unfolding keep_session_def bind_r_Ok ask_Ok then_r_Ok by blast
  note e = clear_evolves [OF a]
  note rest = run [unfolded keep_session_def ask_def bind_reads then_r_def [of "on_transport (clear_reconnect_suppression _ _ _ _)"]
      bind_r_def [of "on_transport (clear_reconnect_suppression _ _ _ _)"] a prod.case result.case Let_def]
  have fin: ?thesis if "evolves f g s1 s'" "counted 1 ?rep rep'"
      "f (targets (vm_transport s)) = targets (vm_transport s) \<or> f (targets (vm_transport s)) = (targets (vm_transport s))(?sid := None)"
      "\<And>K. g K - {?key} = K - {?key}" for f g
    using settlesI [OF evolves_trans [OF e that(1)] wf that(3), of ?key] c0 [OF that(2)] that(4) [of "_ - {?key}"] by simp
  show ?thesis
  proof (cases "route_plan X st (ss_peer session) (Some protocol) (ss_class session)")
    case (Err err)
    with rest have "degrade_session X session protocol
        (''authority reevaluation found no eligible replacement path; keeping the current '' @
               ''session alive in degraded posture'') ?rep s1 = (Ok rep', s')"
      by (cases err) (simp_all add: raise_r_def)
    from degrade_session_step [OF this] fin [of "\<lambda>m. m" "\<lambda>k. k"] show ?thesis by blast
  next
    case (Ok route)
    note rest = rest [unfolded Ok result.case]
    show ?thesis
    proof (cases "session_matches_route session route")
      case True
      with rest obtain v s2 where
        b: "(if ss_state session = SS_Degraded
             then set_session_state X ?sid SS_Active None (Some ''authority reevaluation restored the selected path posture'')
             else return_r None) s1 = (Ok v, s2)" and r: "s' = s2" "counted 1 ?rep rep'"
        by (auto simp: then_r_Ok return_r_def counted_def outcomes_def)
      from b have "evolves (\<lambda>m. m) (\<lambda>k. k) s1 s2"
        by (auto simp: return_r_def split: if_splits dest: set_state_evolves)
      with r fin [of "\<lambda>m. m" "\<lambda>k. k"] show ?thesis by blast
    next
      case nm: False
      show ?thesis
      proof (cases "ss_migration_capable session")
        case True
        with nm rest have "migrate_session X ctl session protocol route ?rep s1 = (Ok rep', s')" by simp
        note m = migrate_session_step [OF this]
        have t: "(targets (vm_transport s))(?sid \<mapsto> route_target route) = targets (vm_transport s)"
          using reg route_plan_target [OF Ok] by (auto simp: fun_eq_iff)
        from m show ?thesis
          using fin [of "\<lambda>m. m(?sid \<mapsto> route_target route)" "\<lambda>k. k"] fin [of "\<lambda>m. m(?sid := None)" "insert ?key"] t by auto
      next
        case False
        with nm rest have "degrade_session X session protocol
            (''authority reevaluation selected a different eligible path but the active session '' @
               ''cannot migrate'') ?rep s1 = (Ok rep', s')" by simp
        from degrade_session_step [OF this] fin [of "\<lambda>m. m" "\<lambda>k. k"] show ?thesis by blast
      qed
    qed
  qed
qed

definition with_protocol :: "session_snapshot \<Rightarrow> nat" where
  "with_protocol session = (case ss_protocol session of None \<Rightarrow> 0 | Some _ \<Rightarrow> 1)"

definition reevaluated :: "nat \<Rightarrow> authority_reevaluation_report \<Rightarrow> authority_reevaluation_report \<Rightarrow> bool" where
  "reevaluated n r r' \<longleftrightarrow> outcomes r' = outcomes r + n \<and> av_reevaluated_sessions r' = av_reevaluated_sessions r + n"

definition enforces :: "(reconnect_key \<Rightarrow> bool) \<Rightarrow> session_snapshot list \<Rightarrow> 'r runtime \<Rightarrow> 'r runtime \<Rightarrow> bool" where
  "enforces denied xs s s' \<longleftrightarrow>
     vm_files s' = vm_files s \<and> adapter_wf (vm_transport s') \<and>
     qa_listeners (vm_transport s') = qa_listeners (vm_transport s) \<and>
     (\<forall>k. k \<notin> ss_session_id ` set xs \<longrightarrow> targets (vm_transport s') k = targets (vm_transport s) k) \<and>
     (\<forall>k. targets (vm_transport s') k = targets (vm_transport s) k \<or> targets (vm_transport s') k = None) \<and>
     (\<forall>key. denied key \<longrightarrow> key \<in> suppressed (vm_transport s) \<longrightarrow> key \<in> suppressed (vm_transport s')) \<and>
     (\<forall>x \<in> set xs. denied (session_target x) \<longrightarrow>
        targets (vm_transport s') (ss_session_id x) = None \<and> session_target x \<in> suppressed (vm_transport s'))"

lemma reevaluate_session_step:
  assumes wf: "adapter_wf (vm_transport s)"
    and reg: "targets (vm_transport s) (ss_session_id x) = Some (session_target x)"
    and run: "reevaluate_session X ctl st mm lr x rep s = (Ok rep', s')"
  shows "enforces (denied_target X st mm lr) [x] s s' \<and> reevaluated (with_protocol x) rep rep'"
proof (cases "ss_protocol x")
  case None
  with run have "s' = s" "rep' = rep" by (simp_all add: reevaluate_session_def ok_iff)
  with None wf show ?thesis
    by (simp add: enforces_def denied_target_def session_target_def reevaluated_def with_protocol_def)
next
  case (Some protocol)
  let ?rep = "rep\<lparr>av_reevaluated_sessions := av_reevaluated_sessions rep + 1\<rparr>"
  have key: "session_target x = (ss_peer x, Some protocol, ss_class x)" using Some by (simp add: session_target_def)
  have count: "counted 1 ?rep rep' \<Longrightarrow> reevaluated (with_protocol x) rep rep'"
    using Some by (simp add: counted_def reevaluated_def with_protocol_def outcomes_def)
  show ?thesis
  proof (cases "session_enforcement X st mm lr (ss_peer x) protocol")
    case None
    with run Some have k: "keep_session X ctl st x protocol ?rep s = (Ok rep', s')" by (simp add: reevaluate_session_def)
    have nd: "\<not> denied_target X st mm lr (session_target x)" using None by (simp add: denied_target_def key)
    note r = keep_session_step [OF wf reg [unfolded key] k, folded key]
    then have "suppressed (vm_transport s') - {session_target x} = suppressed (vm_transport s) - {session_target x}"
      by (simp add: settles_def)
    then have "denied_target X st mm lr q \<Longrightarrow> q \<in> suppressed (vm_transport s) \<Longrightarrow> q \<in> suppressed (vm_transport s')" for q
      using nd by blast
    moreover have "targets (vm_transport s') k = targets (vm_transport s) k \<or> targets (vm_transport s') k = None" for k
      using r by (cases "k = ss_session_id x") (simp_all add: settles_def)
    ultimately show ?thesis using r nd count by (simp add: enforces_def settles_def)
  next
    case enf: (Some enforced)
    with run Some have "enforce_session X ctl x protocol enforced ?rep s = (Ok rep', s')" by (simp add: reevaluate_session_def)
    note r = enforce_session_step [OF this, folded key]
    with wf count show ?thesis by (simp add: enforces_def evolves_def)
  qed
qed

lemma reevaluate_loop:
  assumes "adapter_wf (vm_transport s)" and "distinct (map ss_session_id xs)"
    and "\<forall>x \<in> set xs. targets (vm_transport s) (ss_session_id x) = Some (session_target x)"
    and "for_each (reevaluate_session X ctl st mm lr) xs rep s = (Ok rep', s')"
  shows "enforces (denied_target X st mm lr) xs s s' \<and> reevaluated (sum_list (map with_protocol xs)) rep rep'"
  using assms
proof (induction xs arbitrary: rep s)
  case Nil
  then show ?case by (simp add: ok_iff enforces_def reevaluated_def)
next
  case (Cons x xs)
  let ?D = "denied_target X st mm lr"
  from Cons.prems(4) obtain r1 s1 where
    a: "reevaluate_session X ctl st mm lr x rep s = (Ok r1, s1)" and
    b: "for_each (reevaluate_session X ctl st mm lr) xs r1 s1 = (Ok rep', s')" by (auto simp: ok_iff)
  from Cons.prems(3) have "targets (vm_transport s) (ss_session_id x) = Some (session_target x)" by simp
  from reevaluate_session_step [OF Cons.prems(1) this a] have
    e1: "enforces ?D [x] s s1" and c1: "reevaluated (with_protocol x) rep r1" by blast+
  from e1 have wf1: "adapter_wf (vm_transport s1)" by (simp add: enforces_def)
  have "targets (vm_transport s1) (ss_session_id y) = Some (session_target y)" if "y \<in> set xs" for y
  proof -
    have "ss_session_id y \<noteq> ss_session_id x" using Cons.prems(2) that by (metis distinct.simps(2) image_eqI list.set_map list.simps(9))
    with e1 Cons.prems(3) that show ?thesis by (simp add: enforces_def)
  qed
  with Cons.IH [OF wf1 _ _ b] Cons.prems(2) have
    e2: "enforces ?D xs s1 s'" and c2: "reevaluated (sum_list (map with_protocol xs)) r1 rep'" by auto
  have "enforces ?D (x # xs) s s'"
  proof -
    have "targets (vm_transport s') k = targets (vm_transport s) k \<or> targets (vm_transport s') k = None" for k
      using e1 e2 by (metis enforces_def)
    moreover have "targets (vm_transport s') (ss_session_id x) = None \<and> session_target x \<in> suppressed (vm_transport s')"
      if "?D (session_target x)"
    proof -
      from e1 that have "targets (vm_transport s1) (ss_session_id x) = None" "session_target x \<in> suppressed (vm_transport s1)"
        by (simp_all add: enforces_def)
      with e2 that show ?thesis unfolding enforces_def by metis
    qed
    ultimately show ?thesis using e1 e2 unfolding enforces_def by (simp del: split_paired_All)
  qed
  with c1 c2 show ?case by (simp add: reevaluated_def)
qed

section \<open>Listeners\<close>

text \<open>What the listener phase leaves alone.\<close>

definition same_sessions :: "'r quic_adapter \<Rightarrow> filesystem \<Rightarrow> 'r runtime \<Rightarrow> bool" where
  "same_sessions a fs s \<longleftrightarrow> qa_sessions (vm_transport s) = qa_sessions a \<and>
     qa_suppressions (vm_transport s) = qa_suppressions a \<and> vm_files s = fs \<and> adapter_wf (vm_transport s)"

lemma keeps_record_event: "keeps (same_sessions a fs) (record_event ty su d)"
  by (simp add: keeps_def same_sessions_def record_event_def on_transport_def on_part_def record_runtime_event_def
      adapter_wf_emit)

lemma keeps_listener_update: "keeps (same_sessions a fs) (on_registry (update_listener_state i st r))"
proof -
  have "qa_sessions (snd (update_listener_state i st r b)) = qa_sessions b"
    "qa_suppressions (snd (update_listener_state i st r b)) = qa_suppressions b" for b :: "'a quic_adapter"
    by (simp_all add: update_listener_state_def Let_def split: option.split)
  then show ?thesis
    by (simp add: keeps_def same_sessions_def on_registry_def case_prod_beta adapter_wf_update_listener)
qed

lemma keeps_reevaluate_listener: "keeps (same_sessions a fs) (reevaluate_listener X st lr l rep)"
  unfolding reevaluate_listener_def Let_def
  by (intro keeps_intros keeps_pure keeps_record_event keeps_listener_update)

lemma suppressed_iff: "(p, pr, tc) \<in> suppressed a \<longleftrightarrow> find_reconnect_suppression a p pr tc \<noteq> None"
  unfolding suppressed_def find_suppression_key by (auto simp: find_None_iff) (metis image_eqI)

lemma ensured: "fst (ensure_state E c (vm_files s)) = Ok st \<Longrightarrow>
  on_files (ensure_state E c) s = (Ok st, s\<lparr>vm_files := snd (ensure_state E c (vm_files s))\<rparr>)"
  unfolding on_files_Ok by (metis prod.collapse)

lemma listener_counts:
  "reevaluate_listener X st lr l rep s = (Ok rep', s') \<Longrightarrow>
   outcomes rep' = outcomes rep \<and> av_reevaluated_sessions rep' = av_reevaluated_sessions rep"
  by (auto simp: reevaluate_listener_def Let_def ok_iff outcomes_def split: if_splits option.splits)

lemma listeners_count:
  "for_each (reevaluate_listener X st lr) ls rep s = (Ok rep', s') \<Longrightarrow>
   outcomes rep' = outcomes rep \<and> av_reevaluated_sessions rep' = av_reevaluated_sessions rep"
proof (induction ls arbitrary: rep s)
  case (Cons l ls)
  then obtain rep1 s1 where
    a: "reevaluate_listener X st lr l rep s = (Ok rep1, s1)" and
    b: "for_each (reevaluate_listener X st lr) ls rep1 s1 = (Ok rep', s')" by (auto simp: ok_iff)
  from listener_counts [OF a] Cons.IH [OF b] show ?case by simp
qed (simp add: ok_iff)

definition keeps_to :: "'r runtime \<Rightarrow> 'r runtime \<Rightarrow> bool" where
  "keeps_to s s' \<longleftrightarrow> (\<forall>a fs. same_sessions a fs s \<longrightarrow> same_sessions a fs s')"

text \<open>The phases of a reevaluation.\<close>

lemma reevaluation_phases:
  assumes "fst (ensure_state E c (vm_files s)) = Ok st"
    and "reevaluate_runtime_authority E ctl c ident s = (Ok report, s')"
  defines "me \<equiv> IdentityKeypair_peer_id E ident"
  obtains s1 rep1 rep2 s2 s3 where "evolves (\<lambda>m. m) (\<lambda>k. k) (s\<lparr>vm_files := snd (ensure_state E c (vm_files s))\<rparr>) s1"
    "for_each (reevaluate_session E ctl st (mc_subject_peer_id (ds_membership st) \<noteq> me) (local_policy_reason_for E st me))
       (active_sessions (vm_transport s1)) rep1 s1 = (Ok rep2, s2)"
    "outcomes rep1 = 0" "av_reevaluated_sessions rep1 = 0"
    "for_each (reevaluate_listener E st (local_policy_reason_for E st me)) (active_listeners (vm_transport s2)) rep2 s2 = (Ok report, s3)"
    "keeps_to s3 s'" "qa_listeners (vm_transport s') = qa_listeners (vm_transport s3)"
    "qa_sessions (vm_transport s1) = qa_sessions (vm_transport s)"
proof -
  note r = assms(2) [unfolded reevaluate_runtime_authority_def Let_def bind_r_def [of "on_files _"] ensured [OF assms(1)] prod.case result.case]
  let ?s = "s\<lparr>vm_files := snd (ensure_state E c (vm_files s))\<rparr>"
  let ?lr = "local_policy_reason_for E st me"
  let ?zero = "\<lparr>av_reevaluated_sessions = 0, av_closed_sessions = 0, av_degraded_sessions = 0,
             av_migrated_sessions = 0, av_unchanged_sessions = 0, av_reevaluated_listeners = 0,
             av_suppressed_listeners = 0, av_restored_listeners = 0, av_reconnect_suppressions_added = 0,
             av_reconnect_suppressions_cleared = 0, av_local_policy_denied = (?lr \<noteq> None),
             av_authority_subject_mismatch = (mc_subject_peer_id (ds_membership st) \<noteq> me), av_subject_mismatch_sessions = 0,
             av_local_membership_denied_sessions = 0, av_peer_membership_denied_sessions = 0,
             av_capability_denied_sessions = 0, av_local_policy_reason = ?lr\<rparr>"
  from r obtain u s1 rep2 s2 s3 v ty su d ty' su' d' where
    a: "record_event ty su d ?s = (Ok u, s1)" and
    b: "for_each (reevaluate_session E ctl st (mc_subject_peer_id (ds_membership st) \<noteq> me) ?lr)
       (active_sessions (vm_transport s1)) ?zero s1 = (Ok rep2, s2)" and
    l: "for_each (reevaluate_listener E st ?lr) (active_listeners (vm_transport s2)) rep2 s2 = (Ok report, s3)" and
    z: "record_event ty' su' d' s3 = (Ok v, s')"
    by (auto simp: ok_iff ask_def me_def)
  have "qa_listeners (vm_transport s') = qa_listeners (vm_transport s3)" "qa_sessions (vm_transport s1) = qa_sessions (vm_transport s)"
    using a z by (auto simp: record_event_def on_transport_Ok record_runtime_event_def)
  moreover have "keeps_to s3 s'" unfolding keeps_to_def using keepsD [OF keeps_record_event _ z] by blast
  ultimately show thesis using that [OF record_event_evolves [OF a] b _ _ l] by (simp add: outcomes_def)
qed

text \<open>C34: Reevaluation enforces the authority's word. When it succeeds, every session whose protocol the
  policy denies for its peer (or any session with a protocol, when the certificate is for another
  peer or the node itself is denied) is no longer registered, and its target is suppressed so that
  it cannot be reconnected; no session left has a denied target; and each reevaluated session is
  counted under exactly one outcome.\<close>

theorem reevaluation_enforces:
  assumes "adapter_wf (vm_transport s)" and "fst (ensure_state E c (vm_files s)) = Ok st"
    and "reevaluate_runtime_authority E ctl c ident s = (Ok report, s')"
    and "locally_denied \<longleftrightarrow> local_policy_reason_for E st (IdentityKeypair_peer_id E ident) \<noteq> None"
  shows "(\<forall>session \<in> set (active_sessions (vm_transport s)). \<forall>protocol.
            ss_protocol session = Some protocol \<and>
            (locally_denied \<or> \<not> dc_allowed (explain_policy E st (ss_peer session) protocol)) \<longrightarrow>
            adapter_session_snapshot (ss_session_id session) (vm_transport s') = None \<and>
            find_reconnect_suppression (vm_transport s') (ss_peer session) (Some protocol) (ss_class session) \<noteq> None) \<and>
         (\<forall>session \<in> set (active_sessions (vm_transport s')). \<forall>protocol.
            ss_protocol session = Some protocol \<longrightarrow>
            \<not> locally_denied \<and> dc_allowed (explain_policy E st (ss_peer session) protocol)) \<and>
         av_closed_sessions report + av_degraded_sessions report + av_migrated_sessions report +
           av_unchanged_sessions report = av_reevaluated_sessions report \<and>
         av_reevaluated_sessions report =
           length (filter (\<lambda>session. ss_protocol session \<noteq> None) (active_sessions (vm_transport s)))"
proof -
  let ?a = "vm_transport s" and ?a' = "vm_transport s'"
  let ?me = "IdentityKeypair_peer_id E ident"
  let ?lr = "local_policy_reason_for E st ?me"
  let ?D = "denied_target E st (mc_subject_peer_id (ds_membership st) \<noteq> ?me) ?lr"
  from reevaluation_phases [OF assms(2,3)] obtain s1 rep1 rep2 s2 s3 where
    p: "evolves (\<lambda>m. m) (\<lambda>k. k) (s\<lparr>vm_files := snd (ensure_state E c (vm_files s))\<rparr>) s1"
      "for_each (reevaluate_session E ctl st (mc_subject_peer_id (ds_membership st) \<noteq> ?me) ?lr)
         (active_sessions (vm_transport s1)) rep1 s1 = (Ok rep2, s2)" and
    r1: "outcomes rep1 = 0" "av_reevaluated_sessions rep1 = 0" and
    q: "for_each (reevaluate_listener E st ?lr) (active_listeners (vm_transport s2)) rep2 s2 = (Ok report, s3)"
      "keeps_to s3 s'" "qa_listeners ?a' = qa_listeners (vm_transport s3)" and
    m: "qa_sessions (vm_transport s1) = qa_sessions ?a" .
  have wf1: "adapter_wf (vm_transport s1)" using p(1) assms(1) by (simp add: evolves_def)
  have act: "active_sessions (vm_transport s1) = active_sessions ?a" and tg: "targets (vm_transport s1) = targets ?a"
    using m by (simp_all add: active_sessions_def targets_get fun_eq_iff)
  have reg: "targets ?a (ss_session_id x) = Some (session_target x)" if "x \<in> set (active_sessions ?a)" for x
    using that active_session_ids(3) [OF assms(1), of x] by (simp add: targets_def)
  from reevaluate_loop [OF wf1 active_session_ids(2) [OF wf1] _ p(2)] reg have
    e: "enforces ?D (active_sessions ?a) s1 s2" and
    n: "reevaluated (sum_list (map with_protocol (active_sessions ?a))) rep1 rep2" by (simp_all add: act tg)
  have "same_sessions (vm_transport s2) (vm_files s2) s'"
    using q(2) [unfolded keeps_to_def] keepsD [OF keeps_for_each [OF keeps_reevaluate_listener] _ q(1)] e by (simp add: same_sessions_def enforces_def)
  then have wf': "adapter_wf ?a'" and tg': "targets ?a' = targets (vm_transport s2)" and
    su': "suppressed ?a' = suppressed (vm_transport s2)" by (simp_all add: same_sessions_def targets_get fun_eq_iff suppressed_def)
  have closed: "adapter_session_snapshot (ss_session_id x) ?a' = None \<and> find_reconnect_suppression ?a' (ss_peer x) (Some pr) (ss_class x) \<noteq> None"
    if "x \<in> set (active_sessions ?a)" "ss_protocol x = Some pr" "locally_denied \<or> \<not> dc_allowed (explain_policy E st (ss_peer x) pr)" for x pr
  proof -
    have d: "?D (session_target x)" using that(2,3) assms(4) by (simp add: session_target_def denied_target_iff)
    with e that(1) have "targets ?a' (ss_session_id x) = None \<and> session_target x \<in> suppressed ?a'"
      by (simp add: enforces_def tg' su')
    with that(2) show ?thesis by (simp add: targets_def session_target_def suppressed_iff)
  qed
  have left: "\<not> locally_denied \<and> dc_allowed (explain_policy E st (ss_peer x) pr)"
    if "x \<in> set (active_sessions ?a')" "ss_protocol x = Some pr" for x pr
  proof (rule ccontr)
    assume bad: "\<not> ?thesis"
    have t': "targets ?a' (ss_session_id x) = Some (session_target x)"
      using that(1) active_session_ids(3) [OF wf', of x] by (simp add: targets_def)
    with e tg' tg have t: "targets ?a (ss_session_id x) = Some (session_target x)"
      unfolding enforces_def by (metis option.distinct(1))
    then obtain y where y: "adapter_session_snapshot (ss_session_id x) ?a = Some y" "session_target y = session_target x"
      by (auto simp: targets_def)
    then have id: "ss_session_id y = ss_session_id x" using assms(1) by (auto simp: adapter_session_snapshot_def adapter_wf_def)
    with y(1) have "y \<in> set (active_sessions ?a)" using active_session_ids(3) [OF assms(1), of y] by simp
    with closed [of y pr] y(2) that(2) bad id t' show False by (auto simp: session_target_def targets_def)
  qed
  have cnt: "sum_list (map with_protocol xs) = length (filter (\<lambda>x. ss_protocol x \<noteq> None) xs)" for xs
    by (induction xs) (auto simp: with_protocol_def split: option.split)
  show ?thesis
    using closed left n r1 listeners_count [OF q(1)] by (auto simp: reevaluated_def outcomes_def cnt)
qed

section \<open>Listeners as reported\<close>

lemma listener_view_idem [simp]: "listener_view X st lr (listener_view X st lr l) = listener_view X st lr l"
  by (simp add: listener_view_def Let_def split: option.split)

lemma listener_view_sel [simp]: "ln_listener_id (listener_view X st lr l) = ln_listener_id l"
  by (simp add: listener_view_def Let_def split: option.split)

lemma listener_view_enforced:
  "listener_view X st lr l =
     (if ln_state l = LS_Failed then l
      else case listener_enforcement X st lr (ln_protocol l) of
        Some reason \<Rightarrow> l\<lparr>ln_state := LS_Suppressed, ln_state_reason := Some reason\<rparr>
      | None \<Rightarrow> if ln_state l = LS_Suppressed then l\<lparr>ln_state := LS_Active, ln_state_reason := None\<rparr> else l)"
  by (simp add: listener_view_def listener_enforcement_def Let_def split: option.split)

lemma record_event_listeners: "record_event ty su d s = (Ok v, s') \<Longrightarrow> qa_listeners (vm_transport s') = qa_listeners (vm_transport s)"
  by (auto simp: record_event_def on_transport_Ok record_runtime_event_def)

text \<open>The registry after a step, as a lookup together with its keys.\<close>

definition listeners_become ::
  "(string \<Rightarrow> runtime_listener_snapshot \<Rightarrow> runtime_listener_snapshot) \<Rightarrow> 'r runtime \<Rightarrow> 'r runtime \<Rightarrow> bool" where
  "listeners_become f s s' \<longleftrightarrow>
     map fst (qa_listeners (vm_transport s')) = map fst (qa_listeners (vm_transport s)) \<and>
     (\<forall>k. bt_get (qa_listeners (vm_transport s')) k =
        (case bt_get (qa_listeners (vm_transport s)) k of None \<Rightarrow> None | Some l \<Rightarrow> Some (f k l)))"

lemma update_listener_becomes:
  assumes "on_registry (update_listener_state i st r) s = (Ok v, s')"
  shows "listeners_become (\<lambda>k l. if k = i then l\<lparr>ln_state := st, ln_state_reason := r\<rparr> else l) s s'"
proof -
  have s': "s' = s\<lparr>vm_transport := snd (update_listener_state i st r (vm_transport s))\<rparr>"
    using assms by (auto simp: on_registry_def split: prod.splits)
  show ?thesis
    by (cases "bt_get (qa_listeners (vm_transport s)) i")
       (auto simp: listeners_become_def s' update_listener_state_def Let_def split: option.split)
qed

lemma reevaluate_listener_becomes:
  assumes "reevaluate_listener X st lr l rep s = (Ok rep', s')"
    and "bt_get (qa_listeners (vm_transport s)) (ln_listener_id l) = Some l"
  shows "listeners_become (\<lambda>k m. if k = ln_listener_id l then listener_view X st lr m else m) s s'"
proof -
  let ?i = "ln_listener_id l"
  have keep: ?thesis if "listener_view X st lr l = l" "qa_listeners (vm_transport s') = qa_listeners (vm_transport s)"
    using that assms(2) by (auto simp: listeners_become_def split: option.split)
  have upd: ?thesis if "on_registry (update_listener_state ?i q r) s = (Ok v, s1)"
      "listener_view X st lr l = l\<lparr>ln_state := q, ln_state_reason := r\<rparr>"
      "qa_listeners (vm_transport s') = qa_listeners (vm_transport s1)" for q r v s1
    using update_listener_becomes [OF that(1)] that(2,3) assms(2)
    unfolding listeners_become_def by (auto split: option.split)
  show ?thesis
  proof (cases "ln_state l = LS_Failed")
    case True
    with assms(1) show ?thesis by (intro keep) (simp_all add: reevaluate_listener_def ok_iff listener_view_def)
  next
    case nf: False
    show ?thesis
    proof (cases "listener_enforcement X st lr (ln_protocol l)")
      case None
      show ?thesis
      proof (cases "ln_state l = LS_Suppressed")
        case True
        with assms(1) nf None obtain v where "on_registry (update_listener_state ?i LS_Active None) s = (Ok v, s')"
          by (auto simp: reevaluate_listener_def ok_iff)
        with upd None True show ?thesis by (simp add: listener_view_enforced)
      next
        case False
        with assms(1) nf None show ?thesis
          by (intro keep) (simp_all add: reevaluate_listener_def ok_iff listener_view_enforced)
      qed
    next
      case (Some reason)
      with assms(1) nf obtain v s1 where "on_registry (update_listener_state ?i LS_Suppressed (Some reason)) s = (Ok v, s1)"
        "qa_listeners (vm_transport s') = qa_listeners (vm_transport s1)"
        by (auto simp: reevaluate_listener_def ok_iff Let_def dest: record_event_listeners split: if_splits)
      with upd Some nf show ?thesis by (simp add: listener_view_enforced)
    qed
  qed
qed

lemma reevaluate_listeners_become:
  assumes "for_each (reevaluate_listener X st lr) ls rep s = (Ok rep', s')" and "distinct (map ln_listener_id ls)"
    and "\<forall>l \<in> set ls. bt_get (qa_listeners (vm_transport s)) (ln_listener_id l) = Some l"
  shows "listeners_become (\<lambda>k m. if k \<in> ln_listener_id ` set ls then listener_view X st lr m else m) s s'"
  using assms
proof (induction ls arbitrary: rep s)
  case Nil
  then show ?case by (simp add: ok_iff listeners_become_def split: option.split)
next
  case (Cons l ls)
  from Cons.prems(1) obtain rep1 s1 where
    a: "reevaluate_listener X st lr l rep s = (Ok rep1, s1)" and
    b: "for_each (reevaluate_listener X st lr) ls rep1 s1 = (Ok rep', s')" by (auto simp: ok_iff)
  from reevaluate_listener_becomes [OF a] Cons.prems(3) have
    l: "listeners_become (\<lambda>k m. if k = ln_listener_id l then listener_view X st lr m else m) s s1" by simp
  have "bt_get (qa_listeners (vm_transport s1)) (ln_listener_id m) = Some m" if "m \<in> set ls" for m
  proof -
    have "ln_listener_id m \<noteq> ln_listener_id l" using Cons.prems(2) that by (metis distinct.simps(2) image_eqI list.set_map list.simps(9))
    with l Cons.prems(3) that show ?thesis by (simp add: listeners_become_def)
  qed
  with Cons.IH [OF b] Cons.prems(2) have
    r: "listeners_become (\<lambda>k m. if k \<in> ln_listener_id ` set ls then listener_view X st lr m else m) s1 s'" by simp
  show ?case using l r unfolding listeners_become_def by (auto split: option.split)
qed

lemma active_listener_ids:
  assumes "adapter_wf a"
  shows "distinct (map ln_listener_id (active_listeners a))"
    and "\<forall>l \<in> set (active_listeners a). bt_get (qa_listeners a) (ln_listener_id l) = Some l"
proof -
  have wf: "bt_wf (qa_listeners a)" and key: "\<And>k l. (k, l) \<in> set (qa_listeners a) \<Longrightarrow> ln_listener_id l = k"
    using assms by (auto simp: adapter_wf_def bt_mem_get)
  then have "map ln_listener_id (active_listeners a) = map fst (qa_listeners a)"
    by (auto simp: active_listeners_def bt_values_def)
  then show "distinct (map ln_listener_id (active_listeners a))" using bt_wf_distinct [OF wf] by simp
  show "\<forall>l \<in> set (active_listeners a). bt_get (qa_listeners a) (ln_listener_id l) = Some l"
    using key bt_mem_get [OF wf] by (auto simp: active_listeners_def bt_values_def)
qed

lemma ensure_state_present:
  "fs_exists fs (dcf_state_path c) \<Longrightarrow> snd (ensure_state E c fs) = fs"
  by (simp add: ensure_state_def state_exists_def) (simp add: bind_r_def load_state_def return_r_def split: result.split)

text \<open>After a reevaluation, the listeners reported for the node are the registered ones: applying the
  policy to the registry as the reports do changes nothing any more.\<close>

theorem listener_reports_agree:
  assumes "adapter_wf (vm_transport s)" and "fs_exists (vm_files s) (dcf_state_path c)"
    and "fst (ensure_state E c (vm_files s)) = Ok st" and "ds_local_peer_id st = IdentityKeypair_peer_id E ident"
    and "reevaluate_runtime_authority E ctl c ident s = (Ok report, s')"
  shows "runtime_listeners E c s' = (Ok (active_listeners (vm_transport s')), s') \<and> vm_files s' = vm_files s"
proof -
  let ?lr = "local_policy_reason_for E st (ds_local_peer_id st)" and ?a' = "vm_transport s'"
  note files = ensure_state_present [OF assms(2), of E]
  from reevaluation_phases [OF assms(3,5)] obtain s1 rep1 rep2 s2 s3 where
    p: "evolves (\<lambda>m. m) (\<lambda>k. k) (s\<lparr>vm_files := snd (ensure_state E c (vm_files s))\<rparr>) s1"
      "for_each (reevaluate_session E ctl st (mc_subject_peer_id (ds_membership st) \<noteq> IdentityKeypair_peer_id E ident) ?lr)
         (active_sessions (vm_transport s1)) rep1 s1 = (Ok rep2, s2)" and
    r1: "outcomes rep1 = 0" "av_reevaluated_sessions rep1 = 0" and
    q: "for_each (reevaluate_listener E st ?lr) (active_listeners (vm_transport s2)) rep2 s2 = (Ok report, s3)"
      "keeps_to s3 s'" "qa_listeners ?a' = qa_listeners (vm_transport s3)" and
    m: "qa_sessions (vm_transport s1) = qa_sessions (vm_transport s)" unfolding assms(4) .
  have wf1: "adapter_wf (vm_transport s1)" and f1: "vm_files s1 = vm_files s"
    using p(1) assms(1) files by (simp_all add: evolves_def)
  have "\<forall>x \<in> set (active_sessions (vm_transport s1)). targets (vm_transport s1) (ss_session_id x) = Some (session_target x)"
    using active_session_ids(3) [OF wf1] by (simp add: targets_def)
  from reevaluate_loop [OF wf1 active_session_ids(2) [OF wf1] this p(2)] have
    wf2: "adapter_wf (vm_transport s2)" and f2: "vm_files s2 = vm_files s" using f1 by (simp_all add: enforces_def)
  have "same_sessions (vm_transport s2) (vm_files s2) s'"
    using q(2) [unfolded keeps_to_def] keepsD [OF keeps_for_each [OF keeps_reevaluate_listener] _ q(1)] wf2 by (simp add: same_sessions_def)
  then have f': "vm_files s' = vm_files s" and wf': "adapter_wf ?a'" using f2 by (simp_all add: same_sessions_def)
  have fixed: "listener_view E st ?lr l = l" if "l \<in> set (active_listeners ?a')" for l
  proof -
    from reevaluate_listeners_become [OF q(1) active_listener_ids [OF wf2]] have
      b: "listeners_become (\<lambda>k m. if k \<in> ln_listener_id ` set (active_listeners (vm_transport s2)) then listener_view E st ?lr m else m) s2 s'"
      using q(3) by (simp add: listeners_become_def)
    have "bt_get (qa_listeners ?a') (ln_listener_id l) = Some l" using active_listener_ids(2) [OF wf'] that by blast
    with b obtain m where m: "bt_get (qa_listeners (vm_transport s2)) (ln_listener_id l) = Some m"
      "l = (if ln_listener_id l \<in> ln_listener_id ` set (active_listeners (vm_transport s2)) then listener_view E st ?lr m else m)"
      unfolding listeners_become_def
      by (cases "bt_get (qa_listeners (vm_transport s2)) (ln_listener_id l)") (auto dest: spec [of _ "ln_listener_id l"])
    from m(1) wf2 have "(ln_listener_id l, m) \<in> set (qa_listeners (vm_transport s2))" "ln_listener_id m = ln_listener_id l"
      by (simp_all add: adapter_wf_def bt_mem_get)
    then have "m \<in> set (active_listeners (vm_transport s2))" "ln_listener_id m = ln_listener_id l"
      by (auto simp: active_listeners_def bt_values_def image_iff intro!: bexI)
    then have "l = listener_view E st ?lr m" using m(2) by (metis image_eqI)
    then show ?thesis by simp
  qed
  have "ensure_state E c (vm_files s') = (Ok st, vm_files s')"
    using assms(3) files f' by (metis prod.collapse)
  then have "on_files (ensure_state E c) s' = (Ok st, s')" by (simp add: on_files_Ok)
  then show ?thesis
    using fixed f' by (simp add: runtime_listeners_def bind_r_def ask_def reads_def return_r_def map_idI)
qed

end
