(* ===== verification/Quip_View_Laws.thy ===== *)
theory Quip_View_Laws
  imports Quip_Runtime_View Quip_Reevaluation_Laws
begin

text \<open>
  Laws of the reports on the running node: the listing of paths is ordered and covers every session,
  suppression, reconnect attempt and usable candidate, and the readiness of the node is the worst of
  the health levels it is made of.
\<close>

section \<open>The listing of paths\<close>

lemma push_unless_prefix: "\<exists>ys. fold (push_unless covered path) zs xs = xs @ ys"
proof (induction zs arbitrary: xs)
  case (Cons z zs)
  from Cons [of "push_unless covered path z xs"] show ?case by (auto simp: push_unless_def split: if_splits)
qed simp

lemma push_unless_keeps: "set xs \<subseteq> set (fold (push_unless covered path) zs xs)"
  using push_unless_prefix [of covered path zs xs] by auto

text \<open>Each element is covered by an entry that was there or by its own.\<close>

lemma push_unless_covers:
  assumes "z \<in> set zs" and "\<And>snaps. covered z snaps \<Longrightarrow> \<exists>p \<in> set snaps. R p" and "R (path z)"
  shows "\<exists>p \<in> set (fold (push_unless covered path) zs xs). R p"
  using assms(1)
proof (induction zs arbitrary: xs)
  case (Cons y zs)
  show ?case
  proof (cases "z = y")
    case True
    have "\<exists>p \<in> set (push_unless covered path z xs). R p"
      using assms(2,3) by (auto simp: push_unless_def)
    with True push_unless_keeps show ?thesis by fastforce
  next
    case False
    with Cons show ?thesis by simp
  qed
qed simp

lemma candidate_paths_prefix: "\<exists>ys. push_candidate_paths X st p xs = xs @ ys"
  unfolding push_candidate_paths_def Let_def by (simp add: push_unless_prefix)

lemma candidate_paths_keep: "\<exists>ys. fold (push_candidate_paths X st) ps xs = xs @ ys"
proof (induction ps arbitrary: xs)
  case (Cons p ps)
  obtain zs where z: "push_candidate_paths X st p xs = xs @ zs" using candidate_paths_prefix by blast
  with Cons [of "xs @ zs"] show ?case by auto
qed simp

lemma path_classes_all: "tc \<in> set path_classes"
  by (cases tc) (simp_all add: path_classes_def)

lemma target_path_sel [simp]:
  "px_peer (target_path X st p pr tc np f) = p" "px_protocol (target_path X st p pr tc np f) = pr"
  "px_class (target_path X st p pr tc np f) = tc" "px_session_id (target_path X st p pr tc np f) = None"
  "px_state (target_path X st p pr tc np f) = fst (f (select_best_path X (path_candidates_for st p) tc))"
  by (simp_all add: target_path_def Let_def case_prod_beta)

lemma session_path_sel [simp]:
  "px_peer (session_path X st s q su) = ss_peer s" "px_protocol (session_path X st s q su) = ss_protocol s"
  "px_class (session_path X st s q su) = ss_class s" "px_session_id (session_path X st s q su) = Some (ss_session_id s)"
  "px_state (session_path X st s q su) = q"
  by (simp_all add: session_path_def Let_def)

lemma candidates_covered:
  assumes "p \<in> set ps" and "c \<in> set (path_candidates_for st p)" and "supports_class c tc"
  shows "\<exists>e \<in> set (fold (push_candidate_paths X st) ps xs). px_peer e = p \<and> px_class e = tc"
  using assms(1)
proof (induction ps arbitrary: xs)
  case (Cons q ps)
  show ?case
  proof (cases "p = q")
    case True
    have "select_best_path X (path_candidates_for st p) tc \<noteq> None"
      using assms(2,3) by (auto simp: select_best_path_None)
    moreover have "path_candidates_for st p \<noteq> []" using assms(2) by auto
    ultimately have "\<exists>e \<in> set (push_candidate_paths X st p xs). px_peer e = p \<and> px_class e = tc"
      unfolding push_candidate_paths_def Let_def if_not_P
      by (simp only: if_False) (rule push_unless_covers [OF path_classes_all], auto simp: list_ex_iff candidate_path_def)
    with True candidate_paths_keep [of X st ps "push_candidate_paths X st p xs"] show ?thesis by auto
  next
    case False
    with Cons show ?thesis by simp
  qed
qed simp

text \<open>The listing before it is sorted, and what each stage adds to it.\<close>

lemma runtime_paths_stages:
  obtains s1 s2 s3 s4 where
    "s1 = fold (push_unless (\<lambda>s. list_ex (\<lambda>entry. px_session_id entry \<noteq> None \<and>
            same_target (sp_peer s) (sp_protocol s) (sp_class s) entry)) (suppression_path X st)) (qa_suppressions a)
          (map (\<lambda>s. session_path X st s (runtime_path_state_from_session (ss_state s)) None) (active_sessions a))"
    "s2 = fold (push_unless (\<lambda>t. list_ex (same_target (at_peer t) (at_protocol t) (at_class t))) (attempt_path X st)) (qa_attempts a) s1"
    "set s2 \<subseteq> set s3"
    "s4 = fold (push_candidate_paths X st) (map (\<lambda>entry. ps_peer (pi_snapshot entry)) (ds_peers st)) s3"
    "runtime_paths_of X st a = sort_key (path_order X) s4"
  unfolding runtime_paths_of_def Let_def
  by (erule meta_allE)+ (elim meta_impE; (rule refl push_unless_keeps)?)

text \<open>C36: The path listing is ordered by peer, class, state and session, and complete: every session has
  the path it runs on, every suppressed target shows as suppressed unless a session serves it, every
  reconnect attempt is listed, and so is every known peer for each class one of its candidates carries.\<close>

theorem runtime_paths_complete:
  "sorted (map (path_order X) (runtime_paths_of X st a)) \<and>
   (\<forall>session \<in> set (active_sessions a). \<exists>p \<in> set (runtime_paths_of X st a).
      px_session_id p = Some (ss_session_id session) \<and> same_target (ss_peer session) (ss_protocol session) (ss_class session) p \<and>
      px_state p = runtime_path_state_from_session (ss_state session)) \<and>
   (\<forall>s \<in> set (qa_suppressions a). \<exists>p \<in> set (runtime_paths_of X st a).
      same_target (sp_peer s) (sp_protocol s) (sp_class s) p \<and> (px_session_id p \<noteq> None \<or> px_state p = RP_Suppressed)) \<and>
   (\<forall>t \<in> set (qa_attempts a). \<exists>p \<in> set (runtime_paths_of X st a). same_target (at_peer t) (at_protocol t) (at_class t) p) \<and>
   (\<forall>i \<in> set (ds_peers st). \<forall>c \<in> set (path_candidates_for st (ps_peer (pi_snapshot i))). \<forall>tc \<in> set (pc_traffic_classes c).
      \<exists>p \<in> set (runtime_paths_of X st a). px_peer p = ps_peer (pi_snapshot i) \<and> px_class p = tc)"
proof -
  obtain s1 s2 s3 s4 where
    s1: "s1 = fold (push_unless (\<lambda>s. list_ex (\<lambda>entry. px_session_id entry \<noteq> None \<and>
            same_target (sp_peer s) (sp_protocol s) (sp_class s) entry)) (suppression_path X st)) (qa_suppressions a)
          (map (\<lambda>s. session_path X st s (runtime_path_state_from_session (ss_state s)) None) (active_sessions a))" and
    s2: "s2 = fold (push_unless (\<lambda>t. list_ex (same_target (at_peer t) (at_protocol t) (at_class t))) (attempt_path X st)) (qa_attempts a) s1" and
    s3: "set s2 \<subseteq> set s3" and
    s4: "s4 = fold (push_candidate_paths X st) (map (\<lambda>entry. ps_peer (pi_snapshot entry)) (ds_peers st)) s3" and
    r: "runtime_paths_of X st a = sort_key (path_order X) s4"
    by (rule runtime_paths_stages)
  have "set s3 \<subseteq> set s4" using candidate_paths_keep [of X st _ s3] unfolding s4 by (metis Un_upper1 set_append)
  then have sub: "set s1 \<subseteq> set s4" "set s2 \<subseteq> set s4"
    using s3 push_unless_keeps [of s1] unfolding s2 by (blast, blast)
  have "\<exists>p \<in> set s1. px_session_id p = Some (ss_session_id x) \<and> same_target (ss_peer x) (ss_protocol x) (ss_class x) p \<and>
      px_state p = runtime_path_state_from_session (ss_state x)" if "x \<in> set (active_sessions a)" for x
    using that push_unless_keeps [of "map (\<lambda>s. session_path X st s (runtime_path_state_from_session (ss_state s)) None) (active_sessions a)"]
    unfolding s1 by (force simp: same_target_def)
  moreover have "\<exists>p \<in> set s1. same_target (sp_peer s) (sp_protocol s) (sp_class s) p \<and> (px_session_id p \<noteq> None \<or> px_state p = RP_Suppressed)"
    if "s \<in> set (qa_suppressions a)" for s
    unfolding s1 by (rule push_unless_covers [OF that]) (auto simp: list_ex_iff same_target_def suppression_path_def)
  moreover have "\<exists>p \<in> set s2. same_target (at_peer t) (at_protocol t) (at_class t) p" if "t \<in> set (qa_attempts a)" for t
    unfolding s2 by (rule push_unless_covers [OF that]) (auto simp: list_ex_iff same_target_def attempt_path_def)
  moreover have "\<exists>p \<in> set s4. px_peer p = ps_peer (pi_snapshot i) \<and> px_class p = tc"
    if "i \<in> set (ds_peers st)" "c \<in> set (path_candidates_for st (ps_peer (pi_snapshot i)))" "tc \<in> set (pc_traffic_classes c)" for i c tc
    unfolding s4 by (rule candidates_covered [OF _ that(2)]) (use that in \<open>auto simp: supports_class_def\<close>)
  ultimately show ?thesis unfolding r using sub by (simp add: set_sort) blast
qed

section \<open>Health\<close>

text \<open>Levels by severity.\<close>

definition severity :: "runtime_health_level \<Rightarrow> nat" where
  "severity l = (case l of HL_Ready \<Rightarrow> 0 | HL_Degraded \<Rightarrow> 1 | HL_Suppressed \<Rightarrow> 2 | HL_Failed \<Rightarrow> 3)"

lemma severity_inj: "severity l = severity m \<Longrightarrow> l = m"
  by (cases l; cases m) (simp_all add: severity_def)

instantiation runtime_health_level :: linorder
begin

definition less_eq_runtime_health_level :: "runtime_health_level \<Rightarrow> runtime_health_level \<Rightarrow> bool" where
  "less_eq_runtime_health_level l m = (severity l \<le> severity m)"

definition less_runtime_health_level :: "runtime_health_level \<Rightarrow> runtime_health_level \<Rightarrow> bool" where
  "less_runtime_health_level l m = (severity l < severity m)"

instance
  by standard (auto simp: less_eq_runtime_health_level_def less_runtime_health_level_def intro: severity_inj)

end

lemma health_least: "HL_Ready \<le> l"
  by (simp add: less_eq_runtime_health_level_def severity_def)

lemma rollup_worst: "runtime_rollup_health ls = Max (insert HL_Ready (set ls))"
proof (rule sym, rule Max_eqI)
  show "runtime_rollup_health ls \<in> insert HL_Ready (set ls)"
    by (auto simp: runtime_rollup_health_def list_ex_iff)
  fix l
  assume "l \<in> insert HL_Ready (set ls)"
  then show "l \<le> runtime_rollup_health ls"
    by (cases l) (auto simp: runtime_rollup_health_def list_ex_iff less_eq_runtime_health_level_def severity_def)
qed simp

lemma sessions_have_paths:
  "length (active_sessions a) \<le> length (filter (\<lambda>p. px_session_id p \<noteq> None) (runtime_paths_of X st a))"
proof -
  let ?ss = "map (\<lambda>s. session_path X st s (runtime_path_state_from_session (ss_state s)) None) (active_sessions a)"
  have push: "prefix xs ys \<Longrightarrow> prefix xs (fold (push_unless covered path) zs ys)"
    and cand: "prefix xs ys \<Longrightarrow> prefix xs (fold (push_candidate_paths X st) ps ys)"
    for xs ys ps and covered :: "'c \<Rightarrow> _" and path zs
    using push_unless_prefix [of covered path zs ys] candidate_paths_keep [of X st ps ys] by (auto intro: prefix_prefix)
  have "\<exists>ys. runtime_paths_of X st a = sort_key (path_order X) ys \<and> prefix ?ss ys"
    unfolding runtime_paths_of_def Let_def
    by (rule exI, rule conjI, rule refl, rule cand, rule push, rule push, rule push, rule prefix_order.refl)
  then obtain ys where ys: "runtime_paths_of X st a = sort_key (path_order X) (?ss @ ys)" by (auto simp: prefix_def)
  have "filter (\<lambda>p. px_session_id p \<noteq> None) ?ss = ?ss" by (simp add: filter_id_conv)
  then have "length (filter (\<lambda>p. px_session_id p \<noteq> None) (?ss @ ys)) \<ge> length (active_sessions a)" by simp
  then show ?thesis unfolding ys filter_sort length_sort .
qed

text \<open>C37: Readiness is the worst of the four health levels it rolls up. The path manager's level is always
  ready, since every registered session has a path, so the node is ready exactly when its certificate
  is its own, it is not denied, and no reconnect is pending, failed or suppressed.\<close>

theorem health_is_worst:
  assumes "fst (ensure_state E c (vm_files s)) = Ok st" and "fs_exists (vm_files s) (dcf_state_path c)"
  shows "\<exists>h. runtime_health E c s = (Ok h, s) \<and>
     rh_daemon_readiness h = Max {rh_authority_sync_health h, rh_runtime_registry_health h, rh_path_manager_health h,
       rh_reconnect_subsystem_health h} \<and>
     rh_path_manager_health h = HL_Ready \<and> rh_active_sessions h \<le> rh_active_paths h \<and>
     (rh_daemon_readiness h = HL_Ready \<longleftrightarrow>
        mc_subject_peer_id (ds_membership st) = ds_local_peer_id st \<and> deny_reason st (ds_local_peer_id st) = None \<and>
        th_reconnect_state (transport_health (vm_transport s)) = RC_Idle)"
proof -
  let ?a = "vm_transport s" and ?paths = "runtime_paths_of E st (vm_transport s)"
  have en: "on_files (ensure_state E c) s = (Ok st, s)"
    using ensured [OF assms(1)] ensure_state_present [OF assms(2), of E] by simp
  have l: "\<exists>ls. runtime_listeners E c s = (Ok ls, s)"
    by (simp add: runtime_listeners_def bind_r_def en ask_def reads_def return_r_def)
  then obtain ls where ls: "runtime_listeners E c s = (Ok ls, s)" by blast
  have p: "runtime_paths E c s = (Ok ?paths, s)" by (simp add: runtime_paths_def bind_r_def en ask_def reads_def)
  let ?n = "th_active_sessions (transport_health ?a)" and ?m = "length (filter (\<lambda>p. px_session_id p \<noteq> None) ?paths)"
  let ?x = "if mc_subject_peer_id (ds_membership st) \<noteq> ds_local_peer_id st then HL_Failed
    else if deny_reason st (ds_local_peer_id st) \<noteq> None then HL_Suppressed else HL_Ready"
  let ?y = "runtime_reconnect_health_level (th_reconnect_state (transport_health ?a))"
  have n: "?n \<le> ?m"
    using sessions_have_paths [of ?a E st] by (simp add: transport_health_def active_sessions_def bt_values_def Let_def)
  have "\<not> (0 < ?n \<and> ?m = 0)" "\<not> ?m < ?n" using n by linarith+
  then have pm: "(if 0 < ?n \<and> ?m = 0 then HL_Failed else if ?m < ?n then HL_Degraded else HL_Ready) = HL_Ready"
    by (simp only: if_False)
  have reg: "(if th_session_registry_healthy (transport_health ?a) \<and>
        th_listener_registry_healthy (transport_health ?a) then HL_Ready else HL_Failed) = HL_Ready"
    by (simp add: transport_health_def Let_def)
  have "\<exists>h. runtime_health E c s = (Ok h, s) \<and>
      rh_daemon_readiness h = runtime_rollup_health [rh_authority_sync_health h, rh_runtime_registry_health h,
        rh_path_manager_health h, rh_reconnect_subsystem_health h] \<and>
      rh_authority_sync_health h = ?x \<and> rh_reconnect_subsystem_health h = ?y \<and>
      rh_runtime_registry_health h = (if th_session_registry_healthy (transport_health ?a) \<and>
        th_listener_registry_healthy (transport_health ?a) then HL_Ready else HL_Failed) \<and>
      rh_path_manager_health h = (if 0 < ?n \<and> ?m = 0 then HL_Failed else if ?m < ?n then HL_Degraded else HL_Ready) \<and>
      rh_active_sessions h = ?n \<and> rh_active_paths h = ?m"
    unfolding runtime_health_def bind_r_def ask_def reads_def en ls p prod.case result.case return_r_def Let_def
    by (rule exI, rule conjI, rule refl) simp
  then obtain h where h: "runtime_health E c s = (Ok h, s)" "rh_daemon_readiness h = runtime_rollup_health
      [rh_authority_sync_health h, rh_runtime_registry_health h, rh_path_manager_health h, rh_reconnect_subsystem_health h]"
      "rh_authority_sync_health h = ?x" "rh_reconnect_subsystem_health h = ?y"
      "rh_runtime_registry_health h = HL_Ready" "rh_path_manager_health h = HL_Ready"
      "rh_active_sessions h = ?n" "rh_active_paths h = ?m"
    unfolding reg pm by blast
  have "HL_Ready \<in> {rh_authority_sync_health h, rh_runtime_registry_health h, rh_path_manager_health h, rh_reconnect_subsystem_health h}"
    using h(5) by simp
  then have w: "rh_daemon_readiness h = Max {rh_authority_sync_health h, rh_runtime_registry_health h,
      rh_path_manager_health h, rh_reconnect_subsystem_health h}"
    using h(2) unfolding rollup_worst by (simp add: insert_absorb)
  have "rh_daemon_readiness h = HL_Ready \<longleftrightarrow> ?x = HL_Ready \<and> ?y = HL_Ready"
    unfolding h(2) runtime_rollup_health_def h(3-6)
    by (cases ?x; cases ?y) (simp_all add: list_ex_iff)
  moreover have "?y = HL_Ready \<longleftrightarrow> th_reconnect_state (transport_health ?a) = RC_Idle"
    by (simp add: runtime_reconnect_health_level_def split: runtime_reconnect_state.split)
  moreover have "?x = HL_Ready \<longleftrightarrow> mc_subject_peer_id (ds_membership st) = ds_local_peer_id st \<and> deny_reason st (ds_local_peer_id st) = None"
    by simp
  ultimately show ?thesis using h(1,6,7,8) w n by (intro exI [of _ h]) simp
qed

end
