(* ===== verification/Quip_Plane_Witness.thy ===== *)
theory Quip_Plane_Witness
  imports Quip_View_Laws Quip_Durable_Laws
begin

text \<open>
  A concrete node for the laws of the control plane: the state of the fixtures in its state file, and
  an adapter with one direct session whose protocol no grant allows.
\<close>

definition sample_state :: daemon_state where
  "sample_state = fixture_daemon_state sample_artifact_env ''net''"

abbreviation sample_env :: durable_env where
  "sample_env \<equiv> sample_durable sample_state"

definition sample_config :: daemon_config where
  "sample_config = DaemonConfig_new ''net'' ''state''"

definition sample_session :: session_snapshot where
  "sample_session = \<lparr>ss_session_id = [1], ss_transport_session_id = [1], ss_relay_attempt_id = None, ss_peer = PeerId [9],
     ss_protocol = Some (ProtocolId ''/quip/x/1''), ss_class = Control, ss_path_kind = DirectUdp, ss_source = Src_Observed,
     ss_remote_endpoint = ''udp://h:1'', ss_relay_peer = None, ss_relay_endpoint = None,
     ss_relay_control_endpoint = None, ss_datagrams_capable = True, ss_migration_capable = True,
     ss_state = SS_Active, ss_closure_reason = None, ss_state_reason = None, ss_created_at_unix_secs = 1,
     ss_last_activity_unix_secs = 1\<rparr>"

definition sample_listener :: runtime_listener_snapshot where
  "sample_listener = \<lparr>ln_listener_id = ''l'', ln_transport = ''quic'', ln_bind_summary = ''udp://0.0.0.0:1'',
     ln_protocol = ProtocolId ''/quip/x/1'', ln_advertise = True, ln_state = LS_Active, ln_state_reason = None,
     ln_started_at_unix_secs = 1\<rparr>"

definition sample_runtime :: "relay_world runtime" where
  "sample_runtime = \<lparr>vm_transport = sample_adapter\<lparr>qa_sessions := [([1], \<lparr>sx_snapshot = sample_session, sx_alpn_protocol = None\<rparr>)],
       qa_listeners := [(''l'', sample_listener)]\<rparr>,
     vm_files = sample_files\<rparr>"

abbreviation sample_ctl :: "relay_world relay_control" where
  "sample_ctl \<equiv> InProcessRelayControl (sample_keystore ())"

definition sample_loaded :: daemon_state where
  "sample_loaded = with_merged_candidates (sample_state\<lparr>ds_active_sessions := [], ds_roles := [Role_Edge, Role_Observer]\<rparr>)"

lemma sample_adapter_wf: "adapter_wf (vm_transport sample_runtime)"
  by (auto simp: sample_runtime_def adapter_wf_def sample_adapter_def QuicTransportAdapter_default_def terminal_ids_def
      sample_session_def sample_listener_def bt_get_def bt_wf_def split: if_splits)

lemma sample_present: "fs_exists (vm_files sample_runtime) (dcf_state_path sample_config)"
  by (simp add: fs_exists_def sample_runtime_def sample_files_def sample_config_def DaemonConfig_new_def)

lemma sample_read: "DaemonState_load sample_env sample_files ''state'' = Ok (sample_state\<lparr>ds_active_sessions := []\<rparr>)"
proof -
  have "validate_durable_state_value (JObject [(''schema_version'', json_u64 DAEMON_STATE_SCHEMA_VERSION)]) = Ok ()"
    by (simp add: validate_Ok bt_get_def bt_keys_def allowed_fields_def)
  then show ?thesis by (simp add: DaemonState_load_def fs_read_def sample_files_def sample_durable_sel)
qed

lemma sample_ensured: "ensure_state sample_env sample_config (vm_files sample_runtime) = (Ok sample_loaded, sample_files)"
proof -
  have "dcf_state_path sample_config = ''state''" "dcf_roles sample_config = [Role_Edge, Role_Observer]"
    by (simp_all add: sample_config_def DaemonConfig_new_def)
  with sample_present show ?thesis
    by (simp add: ensure_state_def state_exists_def)
       (simp add: bind_r_def load_state_def return_r_def sample_runtime_def sample_read sample_loaded_def)
qed

lemma sample_denied: "\<not> dc_allowed (explain_policy sample_env sample_loaded p pr)"
  by (simp add: explain_policy_def explain_local_protocol_policy_def grants_for_peer_def sample_loaded_def with_merged_candidates_def
      sample_state_def fixture_daemon_state_def Let_def deny_reason_def has_capability_def evaluate.simps)

lemma close_direct_Ok:
  assumes "\<forall>r. bt_get (qa_sessions a) (ss_session_id s) = Some r \<longrightarrow> ss_path_kind (sx_snapshot r) \<noteq> Relay"
  shows "fst (adapter_close_session X ctl s a) = Ok ()"
proof (cases "bt_get (qa_sessions a) (ss_session_id s)")
  case None
  from adapter_close_absent [OF None, of X ctl] show ?thesis by auto
next
  case (Some r)
  with assms show ?thesis
    unfolding adapter_close_present [OF Some] by (simp add: close_removed_def Let_def case_prod_beta)
qed

lemma set_session_state_run:
  "set_session_state X sid st cr sr s =
     (Ok (fst (update_session_state X sid st cr sr (vm_transport s))),
      s\<lparr>vm_transport := snd (update_session_state X sid st cr sr (vm_transport s))\<rparr>)"
  by (simp add: set_session_state_def on_registry_def case_prod_beta)

text \<open>Every registered session has a direct path.\<close>

definition all_direct :: "'r quic_adapter \<Rightarrow> bool" where
  "all_direct a \<longleftrightarrow> (\<forall>k r. bt_get (qa_sessions a) k = Some r \<longrightarrow> ss_path_kind (sx_snapshot r) \<noteq> Relay)"

lemma all_direct_update: "all_direct a \<Longrightarrow> all_direct (snd (update_session_state X sid st cr sr a))"
  by (auto simp: all_direct_def update_session_state_get)

lemma close_run:
  assumes "all_direct (vm_transport s)"
  shows "on_transport (adapter_close_session X ctl x) s =
    (Ok (), s\<lparr>vm_transport := snd (adapter_close_session X ctl x (vm_transport s))\<rparr>)"
  using close_direct_Ok [of "vm_transport s" x X ctl] assms
  by (auto simp: on_transport_def on_part_def all_direct_def case_prod_beta)

lemma save_run:
  assumes "fs_fault (vm_files s) = (\<lambda>_. None)"
  shows "\<exists>s'. save_with_sessions E c st s = (Ok (), s') \<and> vm_transport s' = vm_transport s"
  using healthy_disk [OF assms]
  by (auto simp: save_with_sessions_def ask_def on_files_def on_part_def save_state_def DaemonState_save_def)

lemma sample_direct: "all_direct (vm_transport sample_runtime)"
  by (simp add: all_direct_def sample_runtime_def bt_get_def sample_session_def)

lemma sample_active: "active_sessions (vm_transport sample_runtime) = [sample_session]"
  by (simp add: active_sessions_def sample_runtime_def bt_values_def)

lemma sample_target: "targets (vm_transport sample_runtime) [1] = Some (PeerId [9], Some (ProtocolId ''/quip/x/1''), Control)"
  by (simp add: targets_get sample_runtime_def bt_get_def sample_session_def session_target_def)

lemma reconcile_denied_run:
  assumes "all_direct (vm_transport s)" and "targets (vm_transport s) (ss_session_id x) = Some (p, Some pr, tc)"
    and "\<not> dc_allowed (explain_policy X (fst acc) p pr)"
  shows "\<exists>acc' s'. reconcile_session X ctl x acc s = (Ok acc', s') \<and> vm_files s' = vm_files s"
proof -
  let ?a = "snd (update_session_state X (ss_session_id x) SS_Reconciling None (Some ''daemon reconcile cycle'') (vm_transport s))"
  from assms(2) obtain y where y: "adapter_session_snapshot (ss_session_id x) ?a = Some y" "ss_peer y = p" "ss_protocol y = Some pr"
    using fun_cong [OF targets_update [of X "ss_session_id x" SS_Reconciling None "Some ''daemon reconcile cycle''" "vm_transport s"], of "ss_session_id x"]
    unfolding targets_def [of ?a] by (auto simp: session_target_def)
  show ?thesis
    using assms(1,3) y
    by (simp add: reconcile_session_def then_r_def bind_r_def set_session_state_run ask_def reads_def close_run
        all_direct_update return_r_def Let_def)
qed

lemma denied_reconciles:
  assumes en: "on_files (ensure_state E c) s = (Ok st, s)" and "all_direct (vm_transport s)" and "active_sessions (vm_transport s) = [x]"
    and "targets (vm_transport s) (ss_session_id x) = Some (p, Some pr, tc)" and "\<not> dc_allowed (explain_policy E st p pr)"
    and "fs_fault (vm_files s) = (\<lambda>_. None)"
  shows "\<exists>report s'. reconcile_sessions E ctl c s = (Ok report, s')"
proof -
  let ?r = "\<lparr>rcr_examined = 0, rcr_unchanged = 0, rcr_upgraded = 0, rcr_closed = 0, rcr_entries = []\<rparr>"
  obtain acc' s' where s': "reconcile_session E ctl x (st, ?r) s = (Ok acc', s')" "vm_files s' = vm_files s"
    using reconcile_denied_run [OF assms(2,4), of E "(st, ?r)" ctl] assms(5) by auto
  from save_run [of s' E c "fst acc'"] assms(6) s'(2) obtain s2 where
    "save_with_sessions E c (fst acc') s' = (Ok (), s2)" by auto
  with s'(1) show ?thesis
    by (simp add: reconcile_sessions_def bind_r_def en ask_def reads_def assms(3) then_r_def return_r_def case_prod_beta)
qed

lemma sample_reconciles:
  "\<exists>report s'. reconcile_sessions sample_env sample_ctl sample_config sample_runtime = (Ok report, s')"
proof (rule denied_reconciles [OF _ sample_direct sample_active _ sample_denied])
  show "on_files (ensure_state sample_env sample_config) sample_runtime = (Ok sample_loaded, sample_runtime)"
    using sample_ensured by (simp add: on_files_def on_part_def) (simp add: sample_runtime_def)
  show "targets (vm_transport sample_runtime) (ss_session_id sample_session) =
      Some (PeerId [9], Some (ProtocolId ''/quip/x/1''), Control)"
    using sample_target by (simp add: sample_session_def)
  show "fs_fault (vm_files sample_runtime) = (\<lambda>_. None)" using sample_files_healthy by (simp add: sample_runtime_def)
qed

theorem reconcile_exact_witness:
  "\<exists>report s'. reconcile_sessions sample_env sample_ctl sample_config sample_runtime = (Ok report, s') \<and>
     map rce_session_id (rcr_entries report) = [[1]] \<and> active_sessions (vm_transport s') = []"
proof -
  obtain report s' where r: "reconcile_sessions sample_env sample_ctl sample_config sample_runtime = (Ok report, s')"
    using sample_reconciles by blast
  have "fst (ensure_state sample_env sample_config (vm_files sample_runtime)) = Ok sample_loaded" by (simp add: sample_ensured)
  from reconcile_exact [OF sample_adapter_wf this r] sample_denied have
    "map rce_session_id (rcr_entries report) = [[1]]" "active_sessions (vm_transport s') = []"
    by (auto simp: sample_active sample_session_def)
  with r show ?thesis by (intro exI conjI)
qed

theorem realize_needs_policy_witness:
  "\<exists>e. realize_best_path sample_env sample_ctl sample_config (PeerId [9]) (ProtocolId ''/quip/x/1'') Control sample_runtime =
     (Err (DS_PolicyDenied e), sample_runtime)"
proof -
  have en: "fst (ensure_state sample_env sample_config (vm_files sample_runtime)) = Ok sample_loaded" by (simp add: sample_ensured)
  obtain q s' where q: "realize_best_path sample_env sample_ctl sample_config (PeerId [9]) (ProtocolId ''/quip/x/1'') Control sample_runtime = (q, s')"
    by fastforce
  have f: "vm_files s' = vm_files sample_runtime" if "q = Err (DS_PolicyDenied e)" for e
    using q sample_denied sample_ensured
    by (auto simp: realize_best_path_def bind_r_def on_files_def on_part_def raise_r_def sample_runtime_def)
  from realize_needs_policy [OF en, where ctl = sample_ctl and peer = "PeerId [9]" and protocol = "ProtocolId ''/quip/x/1''" and tc = Control]  q sample_denied f show ?thesis
    by (cases q) auto
qed

section \<open>Reevaluation\<close>

definition ready :: "'r runtime \<Rightarrow> bool" where
  "ready s \<longleftrightarrow> all_direct (vm_transport s) \<and> vm_files s = sample_files"

lemma runs_transport:
  assumes "\<And>a. \<exists>b. m a = (Ok v, b) \<and> qa_sessions b = qa_sessions a"
  shows "runs ready (on_transport m)"
  unfolding runs_def
proof (intro allI impI)
  fix s :: "'a runtime"
  assume "ready s"
  moreover obtain b where "m (vm_transport s) = (Ok v, b)" "qa_sessions b = qa_sessions (vm_transport s)" using assms by blast
  ultimately show "\<exists>v s'. on_transport m s = (Ok v, s') \<and> ready s'"
    by (simp add: on_transport_def on_part_def ready_def all_direct_def)
qed

lemma runs_steps:
  "runs ready (set_session_state X sid st cr sr)" "runs ready (record_event ty su d)"
  "runs ready (on_transport (suppress_reconnect X p pr tc r))" "runs ready (on_transport (adapter_close_session X ctl x))"
  "runs ready (on_registry (update_listener_state l ls lr))" "runs ready (ask f)"
  "runs ready (on_files (ensure_state sample_env sample_config))"
  for ctl :: "'r relay_control"
proof -
  show "runs ready (set_session_state X sid st cr sr)"
    by (simp add: runs_def set_session_state_run ready_def all_direct_update)
  show "runs ready (record_event ty su d)"
    unfolding record_event_def by (rule runs_transport) (simp add: record_runtime_event_def)
  show "runs ready (on_transport (suppress_reconnect X p pr tc r))"
    by (rule runs_transport) (simp add: suppress_reconnect_def Let_def case_prod_beta)
  show "runs ready (on_transport (adapter_close_session X ctl x))"
    unfolding runs_def
  proof (intro allI impI)
    fix s :: "'r runtime"
    assume "ready s"
    then show "\<exists>v s'. on_transport (adapter_close_session X ctl x) s = (Ok v, s') \<and> ready s'"
      using close_sessions(1) [of X ctl x "vm_transport s"] by (simp add: ready_def close_run all_direct_def)
  qed
  show "runs ready (on_registry (update_listener_state l ls lr))"
    unfolding runs_def
    by (auto simp: on_registry_def update_listener_state_def ready_def Let_def all_direct_def split: option.split)
  show "runs ready (ask f)" by (simp add: ask_def)
  show "runs ready (on_files (ensure_state sample_env sample_config))"
    using sample_ensured by (simp add: runs_def ready_def on_files_def on_part_def sample_runtime_def)
qed

lemma runs_enforce: "runs ready (enforce_session X ctl x pr en rep)"
  unfolding enforce_session_def Let_def by (intro runs_intros runs_steps runs_pure)

lemma runs_reevaluate_session: "runs ready (reevaluate_session X ctl st mm lr x rep)"
  if "\<And>p q. \<not> dc_allowed (explain_policy X st p q)"
  using that
  by (auto simp: reevaluate_session_def session_enforcement_def Let_def runs_enforce split: option.split)

lemma runs_reevaluate_listener: "runs ready (reevaluate_listener X st lr l rep)"
  by (auto simp: reevaluate_listener_def Let_def split: option.split intro!: runs_intros runs_steps)

definition sample_identity :: identity_keypair where
  "sample_identity = from_secret_bytes (replicate 32 12)"

lemma sample_reevaluates:
  "\<exists>report s'. reevaluate_runtime_authority sample_env sample_ctl sample_config sample_identity sample_runtime = (Ok report, s')"
proof -
  let ?E = sample_env
  have en: "on_files (ensure_state ?E sample_config) sample_runtime = (Ok sample_loaded, sample_runtime)"
    using sample_ensured by (simp add: on_files_def on_part_def) (simp add: sample_runtime_def)
  have "ready sample_runtime" using sample_direct by (simp add: ready_def) (simp add: sample_runtime_def)
  then show ?thesis
    unfolding reevaluate_runtime_authority_def Let_def bind_r_def [of "on_files _"] en prod.case result.case
    by (rule runs_Ok [rotated])
       (intro runs_intros runs_steps runs_pure runs_reevaluate_session runs_reevaluate_listener sample_denied)
qed

theorem reevaluation_enforces_witness:
  "\<exists>report s'. reevaluate_runtime_authority sample_env sample_ctl sample_config sample_identity sample_runtime = (Ok report, s') \<and>
     adapter_session_snapshot [1] (vm_transport s') = None \<and> av_reevaluated_sessions report = 1"
proof -
  obtain report s' where
    r: "reevaluate_runtime_authority sample_env sample_ctl sample_config sample_identity sample_runtime = (Ok report, s')"
    using sample_reevaluates by blast
  have "fst (ensure_state sample_env sample_config (vm_files sample_runtime)) = Ok sample_loaded" by (simp add: sample_ensured)
  from reevaluation_enforces [OF sample_adapter_wf this r refl] sample_denied have
    "adapter_session_snapshot [1] (vm_transport s') = None" "av_reevaluated_sessions report = 1"
    by (simp_all add: sample_active sample_session_def)
  with r show ?thesis by (intro exI conjI)
qed

theorem listener_reports_agree_witness:
  "\<exists>report s'. reevaluate_runtime_authority sample_env sample_ctl sample_config sample_identity sample_runtime = (Ok report, s') \<and>
     runtime_listeners sample_env sample_config s' = (Ok (active_listeners (vm_transport s')), s')"
proof -
  obtain report s' where
    r: "reevaluate_runtime_authority sample_env sample_ctl sample_config sample_identity sample_runtime = (Ok report, s')"
    using sample_reevaluates by blast
  have e: "fst (ensure_state sample_env sample_config (vm_files sample_runtime)) = Ok sample_loaded" by (simp add: sample_ensured)
  have i: "ds_local_peer_id sample_loaded = IdentityKeypair_peer_id sample_env sample_identity"
  proof -
    have "IdentityKeypair_peer_id (sample_keystore x) kp = IdentityKeypair_peer_id (sample_keystore y) kp" for x y kp
      by (simp add: IdentityKeypair_peer_id_def PublicIdentityKey_peer_id_def public_key_def PeerId_from_public_key_def
          encode_multihash_def sample_keystore_def sample_primitives_def)
    then show ?thesis unfolding sample_durable_def
      by (simp add: sample_loaded_def with_merged_candidates_def sample_state_def fixture_daemon_state_def Let_def
          sample_identity_def sample_artifact_env_def)
  qed
  from listener_reports_agree [OF sample_adapter_wf sample_present e i r]
  have "runtime_listeners sample_env sample_config s' = (Ok (active_listeners (vm_transport s')), s')" by (rule conjunct1)
  with r show ?thesis by (intro exI conjI)
qed

section \<open>Views\<close>

theorem runtime_paths_complete_witness:
  "\<exists>p \<in> set (runtime_paths_of sample_env sample_loaded (vm_transport sample_runtime)).
     px_session_id p = Some [1] \<and> px_state p = runtime_path_state_from_session SS_Active"
proof -
  have "sample_session \<in> set (active_sessions (vm_transport sample_runtime))" by (simp add: sample_active)
  with runtime_paths_complete [of sample_env sample_loaded "vm_transport sample_runtime"]
  obtain p where "p \<in> set (runtime_paths_of sample_env sample_loaded (vm_transport sample_runtime))"
      "px_session_id p = Some (ss_session_id sample_session)" "px_state p = runtime_path_state_from_session (ss_state sample_session)"
    by blast
  then show ?thesis by (intro bexI [of _ p] conjI) (simp_all add: sample_session_def)
qed

theorem health_is_worst_witness:
  "\<exists>h. runtime_health sample_env sample_config sample_runtime = (Ok h, sample_runtime) \<and> rh_path_manager_health h = HL_Ready"
proof -
  have "fst (ensure_state sample_env sample_config (vm_files sample_runtime)) = Ok sample_loaded" by (simp add: sample_ensured)
  from health_is_worst [OF this sample_present] show ?thesis by blast
qed

end
