(* ===== verification/Quip_Authority_Wire.thy ===== *)
theory Quip_Authority_Wire
  imports Quip_Authority_Sync Quip_Plane_Witness
begin

text \<open>
  Concrete serializers for the authority's state file and replies, built from the formats of
  \<open>Quip_Wire\<close>. They show that the hypotheses on \<open>serde_json\<close> and on the agent can hold, and the laws of the
  authority are applied to them.
\<close>

section \<open>Formats of the artifacts\<close>

definition w_hint :: "bootstrap_hint wire" where
  "w_hint = w_iso (\<lambda>h. (bh_peer_id h, bh_addresses h, bh_metadata h))
     (\<lambda>(p, a, m). \<lparr>bh_peer_id = p, bh_addresses = a, bh_metadata = m\<rparr>)
     (w_pair (w_option w_peer_id) (w_pair (w_list w_string) (w_list (w_pair w_string w_string))))"

definition w_token :: "enrollment_token wire" where
  "w_token = w_iso
     (\<lambda>t. (et_network_id t, et_issuer_peer_id t, et_issued_at t, et_expires_at t, et_realm t, et_subject_alias t,
           et_requested_roles t, et_bootstrap_hints t, et_nonce t, et_token_id t, et_signature t))
     (\<lambda>(n, i, ia, ea, r, al, ro, h, no, ti, s).
        \<lparr>et_network_id = n, et_issuer_peer_id = i, et_issued_at = ia, et_expires_at = ea, et_realm = r,
         et_subject_alias = al, et_requested_roles = ro, et_bootstrap_hints = h, et_nonce = no, et_token_id = ti,
         et_signature = s\<rparr>)
     (w_pair w_network_id (w_pair w_peer_id (w_pair w_word (w_pair w_word (w_pair w_string (w_pair (w_option w_string)
       (w_pair (w_list w_string) (w_pair (w_list w_hint) (w_pair w_bytes (w_pair w_bytes w_signature))))))))))"

definition w_certificate :: "membership_certificate wire" where
  "w_certificate = w_iso
     (\<lambda>m. (mc_network_id m, mc_subject_peer_id m, mc_issuer_peer_id m, mc_issued_at m, mc_expires_at m, mc_roles m, mc_signature m))
     (\<lambda>(n, s, i, ia, ea, r, sg).
        \<lparr>mc_network_id = n, mc_subject_peer_id = s, mc_issuer_peer_id = i, mc_issued_at = ia, mc_expires_at = ea,
         mc_roles = r, mc_signature = sg\<rparr>)
     (w_pair w_network_id (w_pair w_peer_id (w_pair w_peer_id (w_pair w_word (w_pair w_word (w_pair (w_list w_string) w_signature))))))"

definition w_limits :: "resource_limits wire" where
  "w_limits = w_iso (\<lambda>l. (rl_bandwidth_bps l, rl_concurrent_streams l, rl_max_object_bytes l))
     (\<lambda>(b, c, m). \<lparr>rl_bandwidth_bps = b, rl_concurrent_streams = c, rl_max_object_bytes = m\<rparr>)
     (w_pair (w_option w_word) (w_pair (w_option w_word) (w_option w_word)))"

definition w_grant :: "capability_grant wire" where
  "w_grant = w_iso
     (\<lambda>g. (cg_network_id g, cg_subject_peer_id g, cg_issuer_peer_id g, cg_capabilities g, cg_protocol_scopes g,
           cg_resource_limits g, cg_constraints g, cg_not_before g, cg_expires_at g, cg_sequence g, cg_signature g))
     (\<lambda>(n, s, i, c, p, l, k, nb, ea, q, sg).
        \<lparr>cg_network_id = n, cg_subject_peer_id = s, cg_issuer_peer_id = i, cg_capabilities = c, cg_protocol_scopes = p,
         cg_resource_limits = l, cg_constraints = k, cg_not_before = nb, cg_expires_at = ea, cg_sequence = q,
         cg_signature = sg\<rparr>)
     (w_pair w_network_id (w_pair w_peer_id (w_pair w_peer_id (w_pair (w_list w_string) (w_pair (w_list w_protocol_id)
       (w_pair w_limits (w_pair (w_list w_string) (w_pair w_word (w_pair w_word (w_pair w_word w_signature))))))))))"

text \<open>An alternative is its number, with the fields of all alternatives.\<close>

definition w_target :: "revocation_target wire" where
  "w_target = w_iso
     (\<lambda>t. case t of
        TokenTarget b \<Rightarrow> (0, b, 0) | CertificateTarget p n \<Rightarrow> (1, PeerId_as_bytes p, n)
      | GrantTarget p n \<Rightarrow> (2, PeerId_as_bytes p, n) | PeerTarget p \<Rightarrow> (3, PeerId_as_bytes p, 0))
     (\<lambda>(k, b, n).
        if k = 0 then TokenTarget b else if k = 1 then CertificateTarget (PeerId b) n
        else if k = 2 then GrantTarget (PeerId b) n else PeerTarget (PeerId b))
     (w_pair w_nat (w_pair w_bytes w_word))"

definition w_reason :: "revocation_reason wire" where
  "w_reason = w_enum [Administrative, KeyCompromise, Superseded, Unspecified]"

definition w_revocation :: "revocation_record wire" where
  "w_revocation = w_iso
     (\<lambda>r. (rr_network_id r, rr_issuer_peer_id r, rr_target r, rr_reason r, rr_issued_at r, rr_effective_at r,
           rr_sequence r, rr_note r, rr_signature r))
     (\<lambda>(n, i, t, re, ia, ea, q, no, sg).
        \<lparr>rr_network_id = n, rr_issuer_peer_id = i, rr_target = t, rr_reason = re, rr_issued_at = ia,
         rr_effective_at = ea, rr_sequence = q, rr_note = no, rr_signature = sg\<rparr>)
     (w_pair w_network_id (w_pair w_peer_id (w_pair w_target (w_pair w_reason (w_pair w_word (w_pair w_word (w_pair w_word
       (w_pair (w_option w_string) w_signature))))))))"

definition w_announcement :: "relay_announcement wire" where
  "w_announcement = w_iso
     (\<lambda>a. (an_peer_id a, an_region a, an_advertised_endpoints a, an_control_endpoint a, an_max_bandwidth_bps a,
           an_supports_quic_datagrams a, an_supports_path_migration a, an_traffic_classes a))
     (\<lambda>(p, r, e, c, b, d, m, t).
        \<lparr>an_peer_id = p, an_region = r, an_advertised_endpoints = e, an_control_endpoint = c, an_max_bandwidth_bps = b,
         an_supports_quic_datagrams = d, an_supports_path_migration = m, an_traffic_classes = t\<rparr>)
     (w_pair w_peer_id (w_pair w_string (w_pair (w_list w_string) (w_pair w_string (w_pair w_word (w_pair w_bool
       (w_pair w_bool (w_list w_string))))))))"

definition w_relay_map :: "relay_map wire" where
  "w_relay_map = w_iso (\<lambda>m. (rm_version m, rm_generated_at m, rm_relays m))
     (\<lambda>(v, g, r). \<lparr>rm_version = v, rm_generated_at = g, rm_relays = r\<rparr>)
     (w_pair w_word (w_pair w_word (w_list w_announcement)))"

definition w_snapshot :: "authority_artifact_snapshot wire" where
  "w_snapshot = w_iso
     (\<lambda>s. (as_network_id s, as_enrollment_token s, as_membership s, as_capability_grants s, as_revocations s, as_bootstrap_hints s))
     (\<lambda>(n, t, m, g, r, h).
        \<lparr>as_network_id = n, as_enrollment_token = t, as_membership = m, as_capability_grants = g, as_revocations = r,
         as_bootstrap_hints = h\<rparr>)
     (w_pair w_network_id (w_pair (w_option w_token) (w_pair (w_option w_certificate) (w_pair (w_list w_grant)
       (w_pair (w_list w_revocation) (w_list w_hint))))))"

definition w_member :: "authority_member wire" where
  "w_member = w_iso (\<lambda>m. (mb_subject_seed m, mb_peer_id m, mb_membership m))
     (\<lambda>(s, p, m). \<lparr>mb_subject_seed = s, mb_peer_id = p, mb_membership = m\<rparr>)
     (w_pair w_string (w_pair w_string w_certificate))"

definition w_authority :: "authority_state wire" where
  "w_authority = w_iso
     (\<lambda>s. (au_realm s, au_authority_peer_id s, au_active_subject_seed s, au_members s, au_capability_grants s,
           au_revocations s, au_relay_map_version s, au_relays s, au_next_capability_sequence s,
           au_next_revocation_sequence s, au_bootstrap_generation s, au_bootstrap_hints s, au_snapshot s))
     (\<lambda>(re, p, a, m, g, r, v, l, nc, nr, bg, h, s).
        \<lparr>au_realm = re, au_authority_peer_id = p, au_active_subject_seed = a, au_members = m, au_capability_grants = g,
         au_revocations = r, au_relay_map_version = v, au_relays = l, au_next_capability_sequence = nc,
         au_next_revocation_sequence = nr, au_bootstrap_generation = bg, au_bootstrap_hints = h, au_snapshot = s\<rparr>)
     (w_pair w_string (w_pair w_string (w_pair (w_option w_string) (w_pair (w_list w_member) (w_pair (w_list w_grant)
       (w_pair (w_list w_revocation) (w_pair w_word (w_pair (w_list w_announcement) (w_pair w_word (w_pair w_word
       (w_pair w_word (w_pair (w_list w_hint) w_snapshot))))))))))))"

lemma w_artifacts_ok:
  "wire_ok w_hint" "wire_ok w_token" "wire_ok w_certificate" "wire_ok w_grant" "wire_ok w_revocation" "wire_ok w_relay_map"
  "wire_ok w_snapshot" "wire_ok w_authority"
proof -
  show h: "wire_ok w_hint" unfolding w_hint_def by (rule w_iso_ok) (intro wire_oks w_identifiers_ok, simp)
  show t: "wire_ok w_token" unfolding w_token_def by (rule w_iso_ok) (intro wire_oks w_identifiers_ok h, simp)
  show c: "wire_ok w_certificate" unfolding w_certificate_def by (rule w_iso_ok) (intro wire_oks w_identifiers_ok, simp)
  have l: "wire_ok w_limits" unfolding w_limits_def by (rule w_iso_ok) (intro wire_oks, simp)
  show g: "wire_ok w_grant" unfolding w_grant_def by (rule w_iso_ok) (intro wire_oks w_identifiers_ok l, simp)
  have ta: "wire_ok w_target" unfolding w_target_def
    by (rule w_iso_ok, intro wire_oks) (simp add: PeerId_as_bytes_def split: revocation_target.split peer_id.split)
  have re: "wire_ok w_reason" unfolding w_reason_def
    by (rule w_enum_ok; case_tac a; simp)
  show r: "wire_ok w_revocation" unfolding w_revocation_def by (rule w_iso_ok) (intro wire_oks w_identifiers_ok ta re, simp)
  have a: "wire_ok w_announcement" unfolding w_announcement_def by (rule w_iso_ok) (intro wire_oks w_identifiers_ok, simp)
  show "wire_ok w_relay_map" unfolding w_relay_map_def by (rule w_iso_ok) (intro wire_oks a, simp)
  show s: "wire_ok w_snapshot" unfolding w_snapshot_def by (rule w_iso_ok) (intro wire_oks w_identifiers_ok t c g r h, simp)
  have m: "wire_ok w_member" unfolding w_member_def by (rule w_iso_ok) (intro wire_oks c, simp)
  show "wire_ok w_authority" unfolding w_authority_def by (rule w_iso_ok) (intro wire_oks m g r a h s, simp)
qed

section \<open>An altered token\<close>

text \<open>Canonical bytes that keep every signed field.\<close>

definition token_bytes :: "unsigned_enrollment_token \<Rightarrow> bytes" where
  "token_bytes u = enc w_token
     \<lparr>et_network_id = et_network_id u, et_issuer_peer_id = et_issuer_peer_id u, et_issued_at = et_issued_at u,
      et_expires_at = et_expires_at u, et_realm = et_realm u, et_subject_alias = et_subject_alias u,
      et_requested_roles = et_requested_roles u, et_bootstrap_hints = et_bootstrap_hints u, et_nonce = et_nonce u,
      et_token_id = [], et_signature = SignatureBytes []\<rparr>"

lemma inj_token_bytes: "inj token_bytes"
proof (rule injI)
  fix u v :: unsigned_enrollment_token
  assume "token_bytes u = token_bytes v"
  then show "u = v"
    using wire_okD [OF w_artifacts_ok(2), of _ "[]"] unfolding token_bytes_def
    by (cases u, cases v) (metis (no_types, lifting) enrollment_token.ext_inject option.inject prod.inject
        unsigned_enrollment_token.ext_inject unsigned_enrollment_token.select_convs)
qed

definition token_env :: artifact_env where
  "token_env = sample_artifact_env\<lparr>canonical_token := token_bytes\<rparr>"

definition issued_sample :: enrollment_token where
  "issued_sample = EnrollmentToken_issue token_env (IdentityKeypair [1]) (NetworkId [2]) 10 20 ''r'' None [] [] [9]"

theorem altered_token_rejected_witness:
  "EnrollmentToken_verify token_env (issued_sample\<lparr>et_requested_roles := [''admin'']\<rparr>)
     (public_key token_env (IdentityKeypair [1])) (NetworkId [2]) 15 = Err ArtifactIdMismatch"
proof -
  let ?t' = "issued_sample\<lparr>et_requested_roles := [''admin'']\<rparr>"
  have inj: "inj (canonical_token token_env)" by (simp add: token_env_def inj_token_bytes)
  have "length (token_bytes (UnsignedEnrollmentToken_from issued_sample)) mod 256 \<noteq>
      length (token_bytes (UnsignedEnrollmentToken_from ?t')) mod 256" by code_simp
  then have "inj_on (blake3 token_env) {canonical_token token_env (UnsignedEnrollmentToken_from issued_sample),
      canonical_token token_env (UnsignedEnrollmentToken_from ?t')}"
    by (auto simp: token_env_def sample_artifact_env_sel pad_to_def word_of_nat_eq_iff take_bit_eq_mod inj_on_def)
  from altered_token_rejected [OF inj issued_sample_def this, of "public_key token_env (IdentityKeypair [1])" "NetworkId [2]" 15]
  show ?thesis by (simp add: issued_sample_def EnrollmentToken_issue_def Let_def)
qed

section \<open>A concrete authority\<close>

definition sample_body :: "authority_body \<Rightarrow> string" where
  "sample_body b = (case b of
     JsonBody _ \<Rightarrow> [] | SnapshotBody s \<Rightarrow> w_to_string w_snapshot s | HintsBody h \<Rightarrow> w_to_string (w_list w_hint) h
   | RelayMapBody m \<Rightarrow> w_to_string w_relay_map m | RevocationsBody rs \<Rightarrow> w_to_string (w_list w_revocation) rs)"

definition sample_authority_env :: authority_env where
  "sample_authority_env = sample_keystore (artifact_env_ext (\<lambda>_. []) (\<lambda>_. []) (\<lambda>_. []) (\<lambda>_. [])
     (authority_env_ext (w_from_slice w_authority) (w_to_vec w_authority) sample_body ()))"

lemma sample_authority_sel:
  "authority_from_slice sample_authority_env = w_from_slice w_authority"
  "authority_to_vec_pretty sample_authority_env = w_to_vec w_authority"
  "body_to_vec_pretty sample_authority_env = sample_body"
  by (simp_all add: sample_authority_env_def sample_keystore_def sample_primitives_def)

lemma sample_authority_serde: "authority_serde sample_authority_env"
  by (simp add: authority_serde_def sample_authority_sel w_artifacts_ok)

definition sample_init :: init_args where
  "sample_init = \<lparr>ia_network = ''net'', ia_realm = ''r'', ia_state_path = ''a'', ia_bootstrap_addresses = []\<rparr>"

definition sample_add_relay :: add_relay_args where
  "sample_add_relay = \<lparr>al_state_path = ''a'', al_peer_id = None, al_peer_seed = Some ''s'', al_region = ''eu'',
     al_addresses = [''udp://h:1''], al_control_endpoint = ''http://h:2'', al_max_bandwidth_bps = 1,
     al_supports_quic_datagrams = True, al_supports_path_migration = True, al_traffic_classes = []\<rparr>"

theorem authority_state_invariant_witness:
  "\<exists>out fs st1 st2. authority_main sample_authority_env 5 True [] (Cmd_Init sample_init) sample_files = (Ok out, fs) \<and>
     on_disk sample_authority_env fs ''a'' st1 \<and>
     on_disk sample_authority_env (snd (authority_main sample_authority_env 6 True [] (Cmd_AddRelay sample_add_relay) fs)) ''a'' st2 \<and>
     authority_extends st1 st2"
proof -
  let ?X = sample_authority_env
  obtain out fs where i: "authority_main ?X 5 True [] (Cmd_Init sample_init) sample_files = (Ok out, fs)"
    by (simp add: authority_main_def printing_def authority_init_def Let_def then_r_def bind_r_def return_r_def
        authority_save_state_def sample_init_def healthy_disk(1) [OF sample_files_healthy])
       (simp add: fs_write_def sample_files_def return_r_def)
  have p: "ia_state_path sample_init = ''a''" by (simp add: sample_init_def)
  have run: "authority_run ?X [Cmd_AddRelay sample_add_relay] fs
      (snd (authority_main ?X 6 True [] (Cmd_AddRelay sample_add_relay) fs))"
    by (rule authority_run.command [OF authority_run.stop])
  have "roomy sample_files (ia_state_path sample_init)" using sample_files_healthy by (simp add: roomy_def)
  from authority_state_invariant [OF sample_authority_serde this i authority_run.stop run, unfolded p] i
  show ?thesis by (auto simp: reinitializes_def)
qed

section \<open>A node of the authority\<close>

definition sample_authority :: authority_state where
  "sample_authority = materialize_state ((initial_state sample_authority_env ''net'' ''r'' [])
     \<lparr>au_revocations := [RevocationRecord_issue sample_authority_env (seeded_keypair sample_authority_env ''authority:r'')
        (NetworkId []) (PeerTarget (PeerId [7])) Administrative 1 1 1 None], au_next_revocation_sequence := 2,
      au_members := [\<lparr>mb_subject_seed = ''m'', mb_peer_id = ''p'',
        mb_membership = MembershipCertificate_issue sample_authority_env (seeded_keypair sample_authority_env ''authority:r'')
          (NetworkId []) (PeerId [9]) 1 2 []\<rparr>],
      au_active_subject_seed := Some ''m''\<rparr>)"

definition sample_reader :: authority_reader where
  "sample_reader = \<lparr>hr_get = (\<lambda>url. as_http_reply (route_request sample_authority_env sample_authority 5 ''GET'' (drop 8 url))),
     hr_error_text = (\<lambda>_ _. []), ar_snapshot = w_from_str w_snapshot, ar_relay_map = w_from_str w_relay_map,
     ar_revocations = w_from_str (w_list w_revocation)\<rparr>"

lemma sample_reaches: "reaches sample_authority_env sample_authority 5 (trim_end_matches (CHR ''/'') ''http://a'') sample_reader"
  by (simp add: reaches_def sample_reader_def sample_authority_sel sample_body_def w_artifacts_ok w_list_ok)

lemma sample_authority_wf: "authority_wf sample_authority"
  by (simp add: sample_authority_def authority_wf_def fresh_sequences_def find_member_def RevocationRecord_issue_def Let_def
      initial_state_def)

theorem revocation_sync_complete_witness:
  "\<exists>node' fs'. sync_authority_revocations_origin sample_env sample_reader sample_config ''http://a'' sample_files =
     (Ok (node', 1), fs') \<and> \<not> dc_allowed (explain_policy sample_env node' (PeerId [7]) (ProtocolId ''/quip/x/1''))"
proof -
  have len: "length (au_revocations sample_authority) = 1"
    and r: "\<exists>r \<in> set (au_revocations sample_authority). rr_target r = PeerTarget (PeerId [7])"
    and n: "au_next_revocation_sequence sample_authority \<noteq> - 1"
    by (simp_all add: sample_authority_def RevocationRecord_issue_def Let_def)
  have e: "fst (ensure_state sample_env sample_config sample_files) = Ok sample_loaded"
    using sample_ensured by (simp add: sample_runtime_def)
  have l: "ds_revocations sample_loaded = []"
    by (simp add: sample_loaded_def with_merged_candidates_def sample_state_def fixture_daemon_state_def Let_def)
  from revocation_sync_complete [OF sample_reaches sample_authority_wf n e _ sample_files_healthy] r show ?thesis
    unfolding l len by auto
qed

theorem seeding_exact_witness:
  "\<exists>node fs'. seed_from_authority_origin sample_env sample_reader sample_config ''http://a'' (Some ''m'') sample_files = (Ok node, fs') \<and>
     ds_local_peer_id node = PeerId [9] \<and> ds_revocations node = au_revocations sample_authority"
proof -
  obtain member where m: "find_member sample_authority ''m'' = Some member" "mc_subject_peer_id (mb_membership member) = PeerId [9]"
    by (simp add: sample_authority_def find_member_def MembershipCertificate_issue_def Let_def)
  have "NetworkId_derive (sample_keystore x) t = NetworkId_derive (sample_keystore y) t" for x y t
    by (simp add: NetworkId_derive_def sample_keystore_def sample_primitives_def)
  then have n: "as_network_id (au_snapshot sample_authority) = NetworkId_derive sample_env (dcf_network sample_config)"
    by (simp add: sample_authority_def initial_state_def Let_def sample_config_def DaemonConfig_new_def sample_authority_env_def
        sample_durable_def)
  have "list_all query_char ''m''" by code_simp
  from seeding_exact [OF sample_reaches _ this _ sample_files_healthy, of sample_env sample_config] m n show ?thesis
    by (auto simp: seeded_from_def)
qed

end
