(* ===== verification/Quip_Api.thy ===== *)
theory Quip_Api
  imports Quip_Runtime_View
begin

text \<open>
  The crate \<open>daemonapi\<close>: the envelopes and payloads of the daemon's local control interface, and
  the two constructors of a response. A record has the fields of the struct it models. The result
  of a response is kept as the value that \<open>serde_json::to_value\<close> receives, one constructor per
  result type; the serializer itself is a parameter of the daemon.
\<close>

section \<open>Requests and errors\<close>

datatype auth_kind = LocalSocketPeer | LocalProcess | TestHarness

datatype error_code =
    InvalidRequest | Unauthorized | NotFound | RuntimeUnavailable | StaleRuntimeReference
  | EC_PolicyRejected | AuthorityMismatch | StateValidationFailed | UnsupportedOperation | InternalError

record request_auth =
  rqa_kind :: auth_kind

record request_envelope =
  rqe_request_id :: string
  rqe_operation :: string
  rqe_auth :: request_auth
  rqe_payload :: json

record error_object =
  eob_code :: error_code
  eob_message :: string
  eob_details :: "json option"

section \<open>Results and payloads\<close>

record daemon_endpoint_discovery =
  ded_endpoint :: string
  ded_network :: string
  ded_state_path :: string
  ded_identity_path :: string
  ded_runtime_instance_id :: string
  ded_pid :: u32
  ded_started_at_unix_secs :: u64

record identity_status =
  ais_status :: string
  ais_path :: string
  ais_node_id :: string

record durable_state_status =
  dss_status :: string
  dss_path :: string
  dss_schema_version :: u64

record authority_sync_status =
  ass_sync_status :: string
  ass_last_accepted_revision :: string
  ass_health :: string
  ass_local_policy_denied :: bool
  ass_authority_subject_mismatch :: bool
  ass_reevaluated_sessions :: nat
  ass_closed_sessions :: nat
  ass_degraded_sessions :: nat
  ass_migrated_sessions :: nat
  ass_unchanged_sessions :: nat
  ass_reevaluated_listeners :: nat
  ass_suppressed_listeners :: nat
  ass_restored_listeners :: nat
  ass_reconnect_suppressions_added :: nat
  ass_reconnect_suppressions_cleared :: nat
  ass_local_policy_reason :: "string option"

record runtime_summary =
  ars_session_count :: nat
  ars_active_path_count :: nat
  ars_reconnect_state :: string

record runtime_status_result =
  rsr_truth_kind :: string
  rsr_daemon_health :: string
  rsr_identity :: identity_status
  rsr_durable_state :: durable_state_status
  rsr_authority :: authority_sync_status
  rsr_runtime_summary :: runtime_summary

record identity_show_result =
  isr_truth_kind :: string
  isr_status :: string
  isr_identity_path :: string
  isr_node_id :: string
  isr_public_key_hex :: string
  isr_durable_state_peer_id :: "string option"
  isr_authority_subject_peer_id :: "string option"
  isr_state_binding_status :: string

record identity_verify_result =
  ivr_truth_kind :: string
  ivr_identity_path :: string
  ivr_expected_node_id :: "string option"
  ivr_loaded_node_id :: string
  ivr_authority_subject_peer_id :: "string option"
  ivr_match_result :: string
  ivr_mismatch_reasons :: "string list"

record durable_state_violation_entry =
  dsve_path :: string
  dsve_message :: string

record durable_state_summary_result =
  dssr_network :: string
  dssr_local_peer_id :: string
  dssr_roles :: "string list"
  dssr_bootstrap_hints :: nat
  dssr_relays :: nat
  dssr_peers :: nat
  dssr_capability_grants :: nat
  dssr_revocations :: nat
  dssr_denied_peers :: nat
  dssr_path_candidates :: nat

record state_show_result =
  ssr_truth_kind :: string
  ssr_state_path :: string
  ssr_present :: bool
  ssr_schema_version :: "u64 option"
  ssr_valid :: bool
  ssr_violations :: "durable_state_violation_entry list"
  ssr_summary :: "durable_state_summary_result option"

record state_validate_result =
  svr_truth_kind :: string
  svr_state_path :: string
  svr_present :: bool
  svr_schema_version :: "u64 option"
  svr_valid :: bool
  svr_violations :: "durable_state_violation_entry list"

record state_reset_payload =
  srp_scope :: string
  srp_confirmation :: string

record state_export_payload =
  sep_output_path :: string
  sep_passphrase :: string
  sep_hostname :: string
  sep_environment :: string
  sep_overwrite :: "bool option"

record state_reset_result =
  srr_truth_kind :: string
  srr_identity_preserved :: bool
  srr_network_state_reset :: bool
  srr_next_action :: string

record state_export_result =
  ser_truth_kind :: string
  ser_bundle_path :: string
  ser_created_at_unix_secs :: u64
  ser_hostname :: string
  ser_environment :: string
  ser_network :: string
  ser_identity_sha256_hex :: string
  ser_state_sha256_hex :: string
  ser_durable_state_present :: bool
  ser_durable_state_valid :: bool

record runtime_session_entry =
  arse_session_id :: string
  arse_peer_id :: string
  arse_state :: string
  arse_closure_reason :: "string option"
  arse_state_reason :: "string option"
  arse_active_path_class :: string
  arse_age_seconds :: u64
  arse_last_activity_seconds :: u64

record runtime_sessions_list_result =
  rslr_truth_kind :: string
  rslr_sessions :: "runtime_session_entry list"

record runtime_diagnose_payload =
  rdp_event_limit :: "nat option"

record runtime_diagnosis_issue =
  rdi_code :: string
  rdi_severity :: string
  rdi_layer :: string
  rdi_summary :: string

record runtime_listener_entry =
  rle_listener_id :: string
  rle_transport :: string
  rle_bind_summary :: string
  rle_protocol :: string
  rle_advertise :: bool
  rle_state :: string
  rle_state_reason :: "string option"
  rle_age_seconds :: u64

record runtime_path_alternative_entry =
  rpae_path_class :: string
  rpae_source :: string
  rpae_relay_peer_id :: "string option"
  rpae_score :: u32
  rpae_summary :: string

record runtime_path_entry =
  rpe_session_id :: "string option"
  rpe_peer_id :: string
  rpe_protocol :: "string option"
  rpe_class :: string
  rpe_state :: string
  rpe_path_class :: string
  rpe_source :: string
  rpe_relay_peer_id :: "string option"
  rpe_endpoint_summary :: string
  rpe_score :: "u32 option"
  rpe_state_reason :: "string option"
  rpe_decision_reason :: "string option"
  rpe_summary :: string
  rpe_alternatives :: "runtime_path_alternative_entry list"

record runtime_event_entry =
  ree_event_id :: string
  ree_event_type :: string
  ree_emitted_at :: string
  ree_truth_kind :: string
  ree_subject_kind :: string
  ree_subject_id :: string
  ree_details :: json

record runtime_health_result =
  rhr_truth_kind :: string
  rhr_daemon_readiness :: string
  rhr_authority_sync_health :: string
  rhr_authority_subject_status :: string
  rhr_authority_deny_reason :: "string option"
  rhr_runtime_registry_health :: string
  rhr_path_manager_health :: string
  rhr_reconnect_subsystem_health :: string
  rhr_active_sessions :: nat
  rhr_active_paths :: nat
  rhr_active_listeners :: nat
  rhr_reconnect_state :: string
  rhr_reconnect_attempt_count :: nat
  rhr_reconnect_next_attempt_unix_secs :: "u64 option"
  rhr_reconnect_suppression_count :: nat
  rhr_runtime_event_buffer_depth :: nat

record authority_show_result =
  asr_truth_kind :: string
  asr_configured_origin :: "string option"
  asr_configured_subject :: "string option"
  asr_configured_snapshot :: "string option"
  asr_network :: string
  asr_local_peer_id :: string
  asr_membership_subject_peer_id :: string
  asr_membership_issuer_peer_id :: string
  asr_membership_roles :: "string list"
  asr_grants :: nat
  asr_revocations :: nat
  asr_denied_peers :: nat
  asr_bootstrap_hints :: nat
  asr_relays :: nat
  asr_schema_version :: u64
  asr_authority :: authority_sync_status

record runtime_diagnose_result =
  rdr_truth_kind :: string
  rdr_primary_classification :: string
  rdr_issues :: "runtime_diagnosis_issue list"
  rdr_status :: runtime_status_result
  rdr_health :: runtime_health_result
  rdr_state :: state_show_result
  rdr_identity :: identity_verify_result
  rdr_authority_show :: authority_show_result
  rdr_sessions :: "runtime_session_entry list"
  rdr_listeners :: "runtime_listener_entry list"
  rdr_paths :: "runtime_path_entry list"
  rdr_events :: "runtime_event_entry list"

record runtime_listeners_list_result =
  rllr_truth_kind :: string
  rllr_listeners :: "runtime_listener_entry list"

record runtime_paths_list_result =
  rplr_truth_kind :: string
  rplr_paths :: "runtime_path_entry list"

record runtime_events_list_result =
  relr_truth_kind :: string
  relr_events :: "runtime_event_entry list"

record authority_membership_result =
  amr_truth_kind :: string
  amr_network :: string
  amr_subject_peer_id :: string
  amr_issuer_peer_id :: string
  amr_issued_at :: u64
  amr_expires_at :: u64
  amr_roles :: "string list"
  amr_schema_version :: u64

record authority_capability_grant_entry =
  acge_subject_peer_id :: string
  acge_issuer_peer_id :: string
  acge_sequence :: u64
  acge_not_before :: u64
  acge_expires_at :: u64
  acge_capabilities :: "string list"
  acge_protocols :: "string list"
  acge_bandwidth_bps :: "u64 option"
  acge_concurrent_streams :: "u32 option"
  acge_max_object_bytes :: "u64 option"
  acge_constraints :: "string list"

record authority_capabilities_result =
  acr_truth_kind :: string
  acr_network :: string
  acr_subject_peer_id :: string
  acr_schema_version :: u64
  acr_grants :: "authority_capability_grant_entry list"

record authority_revocation_entry =
  are_sequence :: u64
  are_issuer_peer_id :: string
  are_effective_at :: u64
  are_reason :: string
  are_target :: string
  are_note :: "string option"

record authority_revocations_result =
  arr_truth_kind :: string
  arr_network :: string
  arr_schema_version :: u64
  arr_revocations :: "authority_revocation_entry list"

record authority_sync_snapshot_payload =
  assp_authority_snapshot :: string

record authority_sync_origin_payload =
  asop_authority_origin :: string
  asop_authority_subject :: "string option"

record authority_sync_revocations_origin_payload =
  asrop_authority_origin :: string

record authority_sync_result =
  aasr_truth_kind :: string
  aasr_authority_source :: string
  aasr_authority_origin :: "string option"
  aasr_authority_subject :: "string option"
  aasr_authority_snapshot :: "string option"
  aasr_network :: string
  aasr_local_peer_id :: string
  aasr_grants_added :: nat
  aasr_grants_removed :: nat
  aasr_revocations_added :: nat
  aasr_bootstrap_hints_added :: nat
  aasr_bootstrap_hints_removed :: nat
  aasr_relay_announcements_added :: nat
  aasr_membership_changed :: bool
  aasr_authority :: authority_sync_status

record session_connect_payload =
  scp_peer_id :: string
  scp_protocol :: string
  scp_class :: "string option"
  scp_path_preference :: "string option"

record session_connect_summary =
  scs_session_id :: string
  scs_state :: string
  scs_initial_path_class :: string
  scs_state_reason :: "string option"

record session_connect_result =
  scr_truth_kind :: string
  scr_session :: session_connect_summary

record session_close_payload =
  ascp_session_id :: string
  ascp_reason :: "string option"

record session_close_result =
  ascr_truth_kind :: string
  ascr_closed_session_id :: string
  ascr_final_state :: string
  ascr_closure_reason :: "string option"

record session_upgrade_payload =
  sup_session_id :: string

record session_upgrade_result =
  sur_truth_kind :: string
  sur_session_id :: string
  sur_prior_path_class :: string
  sur_resulting_path_class :: string
  sur_state :: string

record session_reconcile_payload =
  asrp_session_id :: "string option"

record api_reconcile_entry =
  sre_session_id :: string
  sre_peer_id :: string
  sre_disposition :: string
  sre_reason :: string
  sre_path_class :: string

record session_reconcile_result =
  asrr_truth_kind :: string
  asrr_examined :: nat
  asrr_unchanged :: nat
  asrr_upgraded :: nat
  asrr_closed :: nat
  asrr_entries :: "api_reconcile_entry list"

section \<open>Responses\<close>

datatype api_result =
    RuntimeStatus_result runtime_status_result
  | IdentityShow_result identity_show_result
  | IdentityVerify_result identity_verify_result
  | StateShow_result state_show_result
  | StateValidate_result state_validate_result
  | StateReset_result state_reset_result
  | StateExport_result state_export_result
  | RuntimeSessionsList_result runtime_sessions_list_result
  | RuntimeDiagnose_result runtime_diagnose_result
  | RuntimeListenersList_result runtime_listeners_list_result
  | RuntimePathsList_result runtime_paths_list_result
  | RuntimeEventsList_result runtime_events_list_result
  | RuntimeHealth_result runtime_health_result
  | AuthorityShow_result authority_show_result
  | AuthorityMembership_result authority_membership_result
  | AuthorityCapabilities_result authority_capabilities_result
  | AuthorityRevocations_result authority_revocations_result
  | AuthoritySync_result authority_sync_result
  | SessionConnect_result session_connect_result
  | SessionClose_result session_close_result
  | SessionUpgrade_result session_upgrade_result
  | SessionReconcile_result session_reconcile_result

record response_envelope =
  rse_ok :: bool
  rse_request_id :: string
  rse_result :: "api_result option"
  rse_error :: "error_object option"

definition ResponseEnvelope_success :: "string \<Rightarrow> api_result \<Rightarrow> response_envelope" where
  "ResponseEnvelope_success request_id v =
     \<lparr>rse_ok = True, rse_request_id = request_id, rse_result = Some v, rse_error = None\<rparr>"

definition ResponseEnvelope_error :: "string \<Rightarrow> error_code \<Rightarrow> string \<Rightarrow> json option \<Rightarrow> response_envelope" where
  "ResponseEnvelope_error request_id code message details =
     \<lparr>rse_ok = False, rse_request_id = request_id, rse_result = None,
      rse_error = Some \<lparr>eob_code = code, eob_message = message, eob_details = details\<rparr>\<rparr>"

end
