(* ===== verification/Quip_Daemon_Views.thy ===== *)
theory Quip_Daemon_Views
  imports Quip_Api
begin

text \<open>
  The reporting half of \<open>cmd/quipd\<close>: the labels and entries of the control interface, the authority
  status read from the last reevaluation event, and the results of the status, health, state,
  identity and diagnosis queries. A query runs on the runtime (adapter and files) because reading
  the clock and loading the state are effects.
\<close>

section \<open>Arguments\<close>

record daemon_args =
  da_network :: string
  da_state_path :: string
  da_identity_path :: string
  da_control_discovery_path :: string
  da_control_bind :: string
  da_identity_passphrase_env :: string
  da_authority_snapshot :: "string option"
  da_authority_origin :: "string option"
  da_authority_subject :: "string option"
  da_sync :: bool
  da_revocation_sync :: bool
  da_disable_reconcile :: bool
  da_reconcile_verbose :: bool
  da_reconcile_interval_seconds :: u64
  da_change_watch_interval_ms :: u64
  da_network_change_trigger_path :: "string option"
  da_force_network_reprobe :: bool
  da_one_shot :: bool
  da_connect_protocol :: "string option"
  da_connect_peer :: "string option"
  da_connect_class :: string

section \<open>Labels\<close>

definition parse_class :: "string \<Rightarrow> traffic_class" where
  "parse_class v =
     (if v = ''control'' then Control else if v = ''bulk'' then Bulk
      else if v = ''background'' then Background else Interactive)"

definition path_source_label :: "path_source \<Rightarrow> string" where
  "path_source_label src = (case src of
     Observed \<Rightarrow> ''observed'' | Bootstrap \<Rightarrow> ''bootstrap'' | AuthorityRelay \<Rightarrow> ''authority_relay'')"

definition runtime_path_state_label :: "runtime_path_state \<Rightarrow> string" where
  "runtime_path_state_label st = (case st of
     RP_Candidate \<Rightarrow> ''candidate'' | RP_Active \<Rightarrow> ''active'' | RP_Degraded \<Rightarrow> ''degraded''
   | RP_Migrating \<Rightarrow> ''migrating'' | RP_Failed \<Rightarrow> ''failed'' | RP_Suppressed \<Rightarrow> ''suppressed'')"

definition runtime_state_label :: "runtime_session_state \<Rightarrow> string" where
  "runtime_state_label st = (case st of
     SS_Pending \<Rightarrow> ''pending'' | SS_Connecting \<Rightarrow> ''connecting'' | SS_Active \<Rightarrow> ''active''
   | SS_Degraded \<Rightarrow> ''degraded'' | SS_Migrating \<Rightarrow> ''migrating'' | SS_Reconciling \<Rightarrow> ''reconciling''
   | SS_Closing \<Rightarrow> ''closing'' | SS_Closed \<Rightarrow> ''closed'' | SS_Failed \<Rightarrow> ''failed'')"

definition runtime_listener_state_label :: "runtime_listener_state \<Rightarrow> string" where
  "runtime_listener_state_label st = (case st of
     LS_Active \<Rightarrow> ''active'' | LS_Failed \<Rightarrow> ''failed'' | LS_Suppressed \<Rightarrow> ''suppressed'')"

definition runtime_health_level_label :: "runtime_health_level \<Rightarrow> string" where
  "runtime_health_level_label level = (case level of
     HL_Ready \<Rightarrow> ''ready'' | HL_Degraded \<Rightarrow> ''degraded'' | HL_Failed \<Rightarrow> ''failed''
   | HL_Suppressed \<Rightarrow> ''suppressed'')"

definition runtime_reconnect_state_label :: "runtime_reconnect_state \<Rightarrow> string" where
  "runtime_reconnect_state_label st = (case st of
     RC_Idle \<Rightarrow> ''idle'' | RC_Active \<Rightarrow> ''active'' | RC_Suppressed \<Rightarrow> ''suppressed'' | RC_Failed \<Rightarrow> ''failed'')"

definition closure_reason_label :: "session_closure_reason \<Rightarrow> string" where
  "closure_reason_label r = (case r of
     OperatorRequested \<Rightarrow> ''operator_requested'' | LocalRuntimeFailure \<Rightarrow> ''local_runtime_failure''
   | RemoteFailure \<Rightarrow> ''remote_failure'' | PolicyRejected \<Rightarrow> ''policy_rejected''
   | PathExhaustion \<Rightarrow> ''path_exhaustion'' | DaemonShutdown \<Rightarrow> ''daemon_shutdown'')"

definition reconcile_disposition_label :: "session_reconcile_disposition \<Rightarrow> string" where
  "reconcile_disposition_label d = (case d of
     RD_Unchanged \<Rightarrow> ''unchanged'' | RD_Upgraded \<Rightarrow> ''upgraded'' | RD_Closed \<Rightarrow> ''closed'')"

text \<open>\<open>format!("{role:?}").to_lowercase()\<close>.\<close>

definition role_label :: "daemon_role \<Rightarrow> string" where
  "role_label role = (case role of
     Role_Bootstrap \<Rightarrow> ''bootstrap'' | Role_Relay \<Rightarrow> ''relay'' | Role_Observer \<Rightarrow> ''observer'' | Role_Edge \<Rightarrow> ''edge'')"

definition render_revocation_reason :: "revocation_reason \<Rightarrow> string" where
  "render_revocation_reason reason = (case reason of
     Administrative \<Rightarrow> ''administrative'' | KeyCompromise \<Rightarrow> ''key_compromise''
   | Superseded \<Rightarrow> ''superseded'' | Unspecified \<Rightarrow> ''unspecified'')"

definition render_revocation_target :: "'x codecs_scheme \<Rightarrow> revocation_target \<Rightarrow> string" where
  "render_revocation_target X target = (case target of
     TokenTarget token_id \<Rightarrow> ''enrollment_token:'' @ concat (map hex_byte token_id)
   | CertificateTarget subject issued_at \<Rightarrow>
       ''membership_certificate:'' @ PeerId_to_text X subject @ '':'' @ show_word issued_at
   | GrantTarget subject seq \<Rightarrow> ''capability_grant:'' @ PeerId_to_text X subject @ '':'' @ show_word seq
   | PeerTarget peer \<Rightarrow> ''peer:'' @ PeerId_to_text X peer)"

definition hex_public_key :: "'x primitives_scheme \<Rightarrow> identity_keypair \<Rightarrow> string" where
  "hex_public_key X identity = concat (map hex_byte (pk_bytes (public_key X identity)))"

section \<open>Entries\<close>

text \<open>\<open>into_iter().map(..).collect()\<close> with a function that reads the clock.\<close>

fun map_r :: "('x \<Rightarrow> ('s, 'b, 'e) comp) \<Rightarrow> 'x list \<Rightarrow> ('s, 'b list, 'e) comp" where
  "map_r f [] = return_r []"
| "map_r f (x # xs) = bind_r (f x) (\<lambda>y. bind_r (map_r f xs) (\<lambda>ys. return_r (y # ys)))"

definition clock_secs :: "('r, u64) plane_op" where
  "clock_secs = on_registry now_secs"

definition runtime_session_entry :: "'x codecs_scheme \<Rightarrow> session_snapshot \<Rightarrow> ('r, runtime_session_entry) plane_op" where
  "runtime_session_entry X session =
     bind_r clock_secs (\<lambda>now. return_r
       \<lparr>arse_session_id = hex_session_id (ss_session_id session),
        arse_peer_id = PeerId_to_text X (ss_peer session),
        arse_state = runtime_state_label (ss_state session),
        arse_closure_reason = map_option closure_reason_label (ss_closure_reason session),
        arse_state_reason = ss_state_reason session,
        arse_active_path_class = path_class_label (ss_path_kind session),
        arse_age_seconds = sat_sub now (ss_created_at_unix_secs session),
        arse_last_activity_seconds = sat_sub now (ss_last_activity_unix_secs session)\<rparr>)"

definition runtime_listener_entry :: "runtime_listener_snapshot \<Rightarrow> ('r, runtime_listener_entry) plane_op" where
  "runtime_listener_entry listener =
     bind_r clock_secs (\<lambda>now. return_r
       \<lparr>rle_listener_id = ln_listener_id listener, rle_transport = ln_transport listener,
        rle_bind_summary = ln_bind_summary listener, rle_protocol = ProtocolId_as_str (ln_protocol listener),
        rle_advertise = ln_advertise listener, rle_state = runtime_listener_state_label (ln_state listener),
        rle_state_reason = ln_state_reason listener,
        rle_age_seconds = sat_sub now (ln_started_at_unix_secs listener)\<rparr>)"

definition runtime_path_alternative_entry ::
  "'x codecs_scheme \<Rightarrow> runtime_path_alternative \<Rightarrow> runtime_path_alternative_entry" where
  "runtime_path_alternative_entry X alternative =
     \<lparr>rpae_path_class = path_class_label (pa_path_kind alternative),
      rpae_source = path_source_label (pa_source alternative),
      rpae_relay_peer_id = map_option (PeerId_to_text X) (pa_relay_peer alternative),
      rpae_score = pa_score alternative, rpae_summary = pa_summary alternative\<rparr>"

definition or_else :: "'a option \<Rightarrow> 'a \<Rightarrow> 'a" where
  "or_else x d = (case x of None \<Rightarrow> d | Some v \<Rightarrow> v)"

definition runtime_path_entry :: "'x codecs_scheme \<Rightarrow> runtime_path_snapshot \<Rightarrow> runtime_path_entry" where
  "runtime_path_entry X path =
     \<lparr>rpe_session_id = map_option hex_session_id (px_session_id path),
      rpe_peer_id = PeerId_to_text X (px_peer path),
      rpe_protocol = map_option ProtocolId_as_str (px_protocol path),
      rpe_class = class_label (px_class path), rpe_state = runtime_path_state_label (px_state path),
      rpe_path_class = or_else (map_option path_class_label (px_path_kind path)) ''unknown'',
      rpe_source = or_else (map_option path_source_label (px_source path)) ''runtime'',
      rpe_relay_peer_id = map_option (PeerId_to_text X) (px_relay_peer path),
      rpe_endpoint_summary = px_endpoint_summary path, rpe_score = px_score path,
      rpe_state_reason = px_state_reason path, rpe_decision_reason = px_decision_reason path,
      rpe_summary = px_summary path,
      rpe_alternatives = map (runtime_path_alternative_entry X) (px_alternatives path)\<rparr>"

definition runtime_event_entry :: "runtime_event \<Rightarrow> runtime_event_entry" where
  "runtime_event_entry event =
     \<lparr>ree_event_id = ev_event_id event, ree_event_type = ev_event_type event,
      ree_emitted_at = ev_emitted_at event, ree_truth_kind = ev_truth_kind event,
      ree_subject_kind = ev_kind (ev_subject event), ree_subject_id = ev_id (ev_subject event),
      ree_details = ev_details event\<rparr>"

definition durable_state_violation_entry :: "durable_state_violation \<Rightarrow> durable_state_violation_entry" where
  "durable_state_violation_entry violation =
     \<lparr>dsve_path = dv_path violation, dsve_message = dv_message violation\<rparr>"

definition durable_state_summary_result ::
  "'x codecs_scheme \<Rightarrow> durable_state_summary \<Rightarrow> durable_state_summary_result" where
  "durable_state_summary_result X summary =
     \<lparr>dssr_network = du_network summary, dssr_local_peer_id = PeerId_to_text X (du_local_peer_id summary),
      dssr_roles = map role_label (du_roles summary), dssr_bootstrap_hints = du_bootstrap_hints summary,
      dssr_relays = du_relays summary, dssr_peers = du_peers summary,
      dssr_capability_grants = du_capability_grants summary, dssr_revocations = du_revocations summary,
      dssr_denied_peers = du_denied_peers summary, dssr_path_candidates = du_path_candidates summary\<rparr>"

definition capability_grant_entry :: "'x codecs_scheme \<Rightarrow> capability_grant \<Rightarrow> authority_capability_grant_entry" where
  "capability_grant_entry X grant =
     \<lparr>acge_subject_peer_id = PeerId_to_text X (cg_subject_peer_id grant),
      acge_issuer_peer_id = PeerId_to_text X (cg_issuer_peer_id grant), acge_sequence = cg_sequence grant,
      acge_not_before = cg_not_before grant, acge_expires_at = cg_expires_at grant,
      acge_capabilities = cg_capabilities grant,
      acge_protocols = map ProtocolId_as_str (cg_protocol_scopes grant),
      acge_bandwidth_bps = rl_bandwidth_bps (cg_resource_limits grant),
      acge_concurrent_streams = rl_concurrent_streams (cg_resource_limits grant),
      acge_max_object_bytes = rl_max_object_bytes (cg_resource_limits grant),
      acge_constraints = cg_constraints grant\<rparr>"

definition revocation_entry :: "'x codecs_scheme \<Rightarrow> revocation_record \<Rightarrow> authority_revocation_entry" where
  "revocation_entry X revocation =
     \<lparr>are_sequence = rr_sequence revocation,
      are_issuer_peer_id = PeerId_to_text X (rr_issuer_peer_id revocation),
      are_effective_at = rr_effective_at revocation,
      are_reason = render_revocation_reason (rr_reason revocation),
      are_target = render_revocation_target X (rr_target revocation), are_note = rr_note revocation\<rparr>"

definition reconcile_api_entry :: "'x codecs_scheme \<Rightarrow> session_reconcile_entry \<Rightarrow> api_reconcile_entry" where
  "reconcile_api_entry X entry =
     \<lparr>sre_session_id = hex_session_id (rce_session_id entry), sre_peer_id = PeerId_to_text X (rce_peer entry),
      sre_disposition = reconcile_disposition_label (rce_disposition entry), sre_reason = rce_reason entry,
      sre_path_class = or_else (map_option path_class_label (rce_path_kind entry)) ''unknown''\<rparr>"

text \<open>Sessions of the state and the last terminal ones, newest activity first, ties by the peer's text.\<close>

definition runtime_session_inventory :: "'x codecs_scheme \<Rightarrow> daemon_state \<Rightarrow> ('r, session_snapshot list) plane_op" where
  "runtime_session_inventory X state =
     bind_r (ask (recent_terminal_sessions 16)) (\<lambda>terminal.
       return_r (sort_key (\<lambda>s. (- uint (ss_last_activity_unix_secs s), PeerId_to_text X (ss_peer s)))
         (ds_active_sessions state @ terminal)))"

section \<open>Authority status\<close>

definition authority_revision :: "'x codecs_scheme \<Rightarrow> daemon_state \<Rightarrow> string" where
  "authority_revision X state =
     ''membership:'' @ PeerId_to_text X (mc_subject_peer_id (ds_membership state)) @
     '':grants:'' @ show_nat (length (ds_capability_grants state)) @
     '':revocations:'' @ show_nat (length (ds_revocations state)) @
     '':max_seq:'' @ show_word (or_else (max_revocation_sequence state) 0)"

text \<open>\<open>Value::get\<close> with a string, \<open>as_bool\<close> and \<open>as_str\<close>.\<close>

definition json_get :: "string \<Rightarrow> json \<Rightarrow> json option" where
  "json_get key v = Option.bind (as_object v) (\<lambda>m. bt_get m key)"

definition as_bool :: "json \<Rightarrow> bool option" where
  "as_bool v = (case v of JBool b \<Rightarrow> Some b | _ \<Rightarrow> None)"

definition as_str :: "json \<Rightarrow> string option" where
  "as_str v = (case v of JString s \<Rightarrow> Some s | _ \<Rightarrow> None)"

definition detail_flag :: "json \<Rightarrow> string \<Rightarrow> bool \<Rightarrow> bool" where
  "detail_flag details key d = or_else (Option.bind (json_get key details) as_bool) d"

definition detail_count :: "json \<Rightarrow> string \<Rightarrow> nat" where
  "detail_count details key = unat (or_else (Option.bind (json_get key details) as_u64) 0)"

definition base_authority_status ::
  "'x codecs_scheme \<Rightarrow> daemon_state \<Rightarrow> runtime_health_report \<Rightarrow> authority_sync_status" where
  "base_authority_status X state health =
     \<lparr>ass_sync_status =
        (if rh_authority_subject_status health = ''mismatched'' then ''subject_mismatch''
         else if rh_authority_deny_reason health \<noteq> None then ''policy_enforced'' else ''in_sync''),
      ass_last_accepted_revision = authority_revision X state,
      ass_health = runtime_health_level_label (rh_authority_sync_health health),
      ass_local_policy_denied = (rh_authority_deny_reason health \<noteq> None),
      ass_authority_subject_mismatch = (rh_authority_subject_status health = ''mismatched''),
      ass_reevaluated_sessions = 0, ass_closed_sessions = 0, ass_degraded_sessions = 0,
      ass_migrated_sessions = 0, ass_unchanged_sessions = 0, ass_reevaluated_listeners = 0,
      ass_suppressed_listeners = 0, ass_restored_listeners = 0, ass_reconnect_suppressions_added = 0,
      ass_reconnect_suppressions_cleared = 0, ass_local_policy_reason = rh_authority_deny_reason health\<rparr>"

definition overlay_details :: "json \<Rightarrow> authority_sync_status \<Rightarrow> authority_sync_status" where
  "overlay_details details status = status
     \<lparr>ass_local_policy_denied :=
        detail_flag details ''local_policy_denied'' (ass_local_policy_denied status),
      ass_authority_subject_mismatch :=
        detail_flag details ''authority_subject_mismatch'' (ass_authority_subject_mismatch status),
      ass_reevaluated_sessions := detail_count details ''reevaluated_sessions'',
      ass_closed_sessions := detail_count details ''closed_sessions'',
      ass_degraded_sessions := detail_count details ''degraded_sessions'',
      ass_migrated_sessions := detail_count details ''migrated_sessions'',
      ass_unchanged_sessions := detail_count details ''unchanged_sessions'',
      ass_reevaluated_listeners := detail_count details ''reevaluated_listeners'',
      ass_suppressed_listeners := detail_count details ''suppressed_listeners'',
      ass_restored_listeners := detail_count details ''restored_listeners'',
      ass_reconnect_suppressions_added := detail_count details ''reconnect_suppressions_added'',
      ass_reconnect_suppressions_cleared := detail_count details ''reconnect_suppressions_cleared'',
      ass_local_policy_reason :=
        (case Option.bind (json_get ''local_policy_reason'' details) as_str of
           Some reason \<Rightarrow> Some reason | None \<Rightarrow> ass_local_policy_reason status)\<rparr>"

definition authority_status_of ::
  "'x codecs_scheme \<Rightarrow> daemon_state \<Rightarrow> runtime_health_report \<Rightarrow> runtime_event list \<Rightarrow> authority_sync_status" where
  "authority_status_of X state health events =
     (case find (\<lambda>event. ev_event_type event = ''authority.reevaluation_completed'') (rev events) of
        None \<Rightarrow> base_authority_status X state health
      | Some event \<Rightarrow> overlay_details (ev_details event) (base_authority_status X state health))"

definition latest_authority_status ::
  "'x codecs_scheme \<Rightarrow> daemon_state \<Rightarrow> runtime_health_report \<Rightarrow> ('r, authority_sync_status) plane_op" where
  "latest_authority_status X state health =
     bind_r (ask (recent_events 64)) (\<lambda>events. return_r (authority_status_of X state health events))"

end
