(* ===== verification/Quip_Daemon_Queries.thy ===== *)
theory Quip_Daemon_Queries
  imports Quip_Daemon_Views
begin

text \<open>
  The queries of the daemon's control interface: what \<open>runtime.*\<close>, \<open>authority.*\<close>, \<open>identity.*\<close> and
  \<open>state.*\<close> read and report, the diagnosis built from them, and the translation of a failure into
  an error code and an HTTP status. A handler consumes a request envelope and answers with a
  response envelope; it runs on the runtime and may panic.
\<close>

section \<open>Results\<close>

definition runtime_status_result ::
  "'x durable_env_scheme \<Rightarrow> daemon_args \<Rightarrow> daemon_config \<Rightarrow> identity_keypair \<Rightarrow> ('r, runtime_status_result) plane_op" where
  "runtime_status_result E args c local_identity =
     bind_r (sync_runtime_sessions E c) (\<lambda>state.
     bind_r (runtime_health E c) (\<lambda>health.
     bind_r (latest_authority_status E state health) (\<lambda>authority. return_r
       \<lparr>rsr_truth_kind = ''runtime'',
        rsr_daemon_health = runtime_health_level_label (rh_daemon_readiness health),
        rsr_identity = \<lparr>ais_status = ''loaded'', ais_path = da_identity_path args,
          ais_node_id = PeerId_to_text E (IdentityKeypair_peer_id E local_identity)\<rparr>,
        rsr_durable_state = \<lparr>dss_status = ''loaded'', dss_path = da_state_path args,
          dss_schema_version = ds_schema_version state\<rparr>,
        rsr_authority = authority,
        rsr_runtime_summary = \<lparr>ars_session_count = length (ds_active_sessions state),
          ars_active_path_count = rh_active_paths health,
          ars_reconnect_state = runtime_reconnect_state_label (rh_reconnect_state health)\<rparr>\<rparr>)))"

definition health_result_of :: "runtime_health_report \<Rightarrow> runtime_health_result" where
  "health_result_of health =
     \<lparr>rhr_truth_kind = ''runtime'',
      rhr_daemon_readiness = runtime_health_level_label (rh_daemon_readiness health),
      rhr_authority_sync_health = runtime_health_level_label (rh_authority_sync_health health),
      rhr_authority_subject_status = rh_authority_subject_status health,
      rhr_authority_deny_reason = rh_authority_deny_reason health,
      rhr_runtime_registry_health = runtime_health_level_label (rh_runtime_registry_health health),
      rhr_path_manager_health = runtime_health_level_label (rh_path_manager_health health),
      rhr_reconnect_subsystem_health = runtime_health_level_label (rh_reconnect_subsystem_health health),
      rhr_active_sessions = rh_active_sessions health, rhr_active_paths = rh_active_paths health,
      rhr_active_listeners = rh_active_listeners health,
      rhr_reconnect_state = runtime_reconnect_state_label (rh_reconnect_state health),
      rhr_reconnect_attempt_count = rh_reconnect_attempt_count health,
      rhr_reconnect_next_attempt_unix_secs = rh_reconnect_next_attempt_unix_secs health,
      rhr_reconnect_suppression_count = rh_reconnect_suppression_count health,
      rhr_runtime_event_buffer_depth = rh_runtime_event_buffer_depth health\<rparr>"

definition runtime_health_result ::
  "'x durable_env_scheme \<Rightarrow> daemon_config \<Rightarrow> ('r, runtime_health_result) plane_op" where
  "runtime_health_result E c = bind_r (runtime_health E c) (\<lambda>health. return_r (health_result_of health))"

definition authority_show_result ::
  "'x durable_env_scheme \<Rightarrow> daemon_args \<Rightarrow> daemon_config \<Rightarrow> ('r, authority_show_result) plane_op" where
  "authority_show_result E args c =
     bind_r (sync_runtime_sessions E c) (\<lambda>state.
     bind_r (runtime_health E c) (\<lambda>health.
     bind_r (latest_authority_status E state health) (\<lambda>authority. return_r
       \<lparr>asr_truth_kind = ''runtime'', asr_configured_origin = da_authority_origin args,
        asr_configured_subject = da_authority_subject args,
        asr_configured_snapshot = da_authority_snapshot args, asr_network = ds_network state,
        asr_local_peer_id = PeerId_to_text E (ds_local_peer_id state),
        asr_membership_subject_peer_id = PeerId_to_text E (mc_subject_peer_id (ds_membership state)),
        asr_membership_issuer_peer_id = PeerId_to_text E (mc_issuer_peer_id (ds_membership state)),
        asr_membership_roles = mc_roles (ds_membership state),
        asr_grants = length (ds_capability_grants state), asr_revocations = length (ds_revocations state),
        asr_denied_peers = length (ds_denied_peers state), asr_bootstrap_hints = length (ds_bootstrap state),
        asr_relays = relay_count state, asr_schema_version = ds_schema_version state,
        asr_authority = authority\<rparr>)))"

definition identity_mismatches :: "string \<Rightarrow> string \<Rightarrow> string \<Rightarrow> string list" where
  "identity_mismatches loaded expected subject =
     (if loaded \<noteq> expected
      then [''durable state expects '' @ expected @ '' but daemon loaded '' @ loaded] else []) @
     (if loaded \<noteq> subject
      then [''authority membership expects '' @ subject @ '' but daemon loaded '' @ loaded] else [])"

definition identity_verify_result ::
  "'x durable_env_scheme \<Rightarrow> daemon_args \<Rightarrow> daemon_config \<Rightarrow> identity_keypair \<Rightarrow> ('r, identity_verify_result) plane_op" where
  "identity_verify_result E args c local_identity =
     bind_r (on_files (ensure_state E c)) (\<lambda>state.
       let loaded = PeerId_to_text E (IdentityKeypair_peer_id E local_identity);
           expected = PeerId_to_text E (ds_local_peer_id state);
           subject = PeerId_to_text E (mc_subject_peer_id (ds_membership state));
           mismatch_reasons = identity_mismatches loaded expected subject
       in return_r
         \<lparr>ivr_truth_kind = ''runtime_and_durable'', ivr_identity_path = da_identity_path args,
          ivr_expected_node_id = Some expected, ivr_loaded_node_id = loaded,
          ivr_authority_subject_peer_id = Some subject,
          ivr_match_result = (if mismatch_reasons = [] then ''match'' else ''mismatch''),
          ivr_mismatch_reasons = mismatch_reasons\<rparr>)"

definition state_show_result ::
  "'x durable_env_scheme \<Rightarrow> daemon_args \<Rightarrow> daemon_config \<Rightarrow> ('r, state_show_result) plane_op" where
  "state_show_result E args c =
     bind_r (on_files (inspect_state_file E c)) (\<lambda>report. return_r
       \<lparr>ssr_truth_kind = ''durable'', ssr_state_path = da_state_path args, ssr_present = di_present report,
        ssr_schema_version = di_schema_version report, ssr_valid = di_valid report,
        ssr_violations = map durable_state_violation_entry (di_violations report),
        ssr_summary = map_option (durable_state_summary_result E) (di_summary report)\<rparr>)"

section \<open>Diagnosis\<close>

abbreviation issue :: "string \<Rightarrow> string \<Rightarrow> string \<Rightarrow> string \<Rightarrow> runtime_diagnosis_issue" where
  "issue code severity layer summary \<equiv>
     \<lparr>rdi_code = code, rdi_severity = severity, rdi_layer = layer, rdi_summary = summary\<rparr>"

definition issue_if :: "bool \<Rightarrow> runtime_diagnosis_issue \<Rightarrow> runtime_diagnosis_issue list" where
  "issue_if b i = (if b then [i] else [])"

definition durable_issues :: "state_show_result \<Rightarrow> identity_verify_result \<Rightarrow> runtime_diagnosis_issue list" where
  "durable_issues durable_state identity =
     (if \<not> ssr_present durable_state
      then [issue ''durable_state_missing'' ''error'' ''durable'' ''durable network state file is missing'']
      else issue_if (\<not> ssr_valid durable_state)
        (issue ''durable_state_invalid'' ''error'' ''durable'' ''durable network state failed validation'')) @
     issue_if (ivr_match_result identity \<noteq> ''match'')
       (issue ''identity_mismatch'' ''error'' ''durable''
         (''identity verification returned '' @ ivr_match_result identity))"

definition authority_issues :: "authority_sync_status \<Rightarrow> runtime_diagnosis_issue list" where
  "authority_issues authority =
     issue_if (ass_authority_subject_mismatch authority)
       (issue ''authority_subject_mismatch'' ''error'' ''authority''
         ''authority subject does not match the local runtime identity'') @
     (if ass_local_policy_denied authority
      then [issue ''authority_policy_denied'' ''error'' ''authority''
             (or_else (ass_local_policy_reason authority) ''authority policy denied local runtime behavior'')]
      else issue_if (ass_sync_status authority \<noteq> ''in_sync'' \<or> ass_health authority \<noteq> ''ready'')
        (issue ''authority_not_ready'' (if ass_health authority = ''failed'' then ''error'' else ''warn'') ''authority''
          (''authority reports sync_status='' @ ass_sync_status authority @ '' health='' @ ass_health authority)))"

definition runtime_issues ::
  "runtime_health_result \<Rightarrow> runtime_session_entry list \<Rightarrow> runtime_path_entry list \<Rightarrow> runtime_diagnosis_issue list" where
  "runtime_issues health sessions paths =
     issue_if (rhr_daemon_readiness health \<noteq> ''ready'')
       (issue ''daemon_not_ready'' (if rhr_daemon_readiness health = ''failed'' then ''error'' else ''warn'')
         ''runtime'' (''daemon readiness is '' @ rhr_daemon_readiness health)) @
     issue_if (rhr_reconnect_state health = ''suppressed'')
       (issue ''reconnect_suppressed'' ''warn'' ''runtime'' (''reconnect is suppressed with '' @
         show_nat (rhr_reconnect_suppression_count health) @ '' active suppression entries'')) @
     issue_if (rhr_reconnect_state health = ''failed'')
       (issue ''reconnect_failed'' ''error'' ''runtime'' (''reconnect has failed after '' @
         show_nat (rhr_reconnect_attempt_count health) @ '' tracked attempts'')) @
     issue_if (list_ex (\<lambda>s. arse_state s = ''failed'') sessions)
       (issue ''failed_sessions_present'' ''error'' ''runtime'' ''one or more runtime sessions are in failed state'') @
     issue_if (list_ex (\<lambda>s. arse_state s = ''degraded'') sessions)
       (issue ''degraded_sessions_present'' ''warn'' ''runtime'' ''one or more runtime sessions are degraded'') @
     issue_if (list_ex (\<lambda>s. arse_state s = ''closed'') sessions)
       (issue ''recently_closed_sessions_present'' ''warn'' ''runtime''
         ''recently closed runtime sessions are present in terminal history'') @
     issue_if (list_ex (\<lambda>s. arse_state s = ''closing'') sessions)
       (issue ''closing_sessions_present'' ''warn'' ''runtime'' ''one or more runtime sessions are closing'') @
     issue_if (sessions \<noteq> [] \<and> rhr_active_paths health = 0)
       (issue ''sessions_without_active_paths'' ''error'' ''runtime'' ''runtime has sessions but no active paths'') @
     issue_if (list_ex (\<lambda>p. rpe_state p = ''failed'') paths)
       (issue ''failed_paths_present'' ''warn'' ''runtime'' ''one or more runtime paths are in failed state'')"

definition runtime_diagnosis_issues ::
  "runtime_status_result \<Rightarrow> runtime_health_result \<Rightarrow> state_show_result \<Rightarrow> identity_verify_result \<Rightarrow>
   runtime_session_entry list \<Rightarrow> runtime_path_entry list \<Rightarrow> runtime_diagnosis_issue list" where
  "runtime_diagnosis_issues status health durable_state identity sessions paths =
     durable_issues durable_state identity @ authority_issues (rsr_authority status) @
     runtime_issues health sessions paths"

definition runtime_primary_classification :: "runtime_diagnosis_issue list \<Rightarrow> string" where
  "runtime_primary_classification issues =
     (if issues = [] then ''healthy''
      else case (list_ex (\<lambda>i. rdi_layer i = ''runtime'') issues, list_ex (\<lambda>i. rdi_layer i = ''authority'') issues,
                 list_ex (\<lambda>i. rdi_layer i = ''durable'') issues) of
             (True, False, False) \<Rightarrow> ''runtime_only''
           | (False, True, False) \<Rightarrow> ''authority_driven''
           | (False, False, True) \<Rightarrow> ''durable_state_only''
           | _ \<Rightarrow> ''mixed'')"

definition runtime_diagnose_result ::
  "'x durable_env_scheme \<Rightarrow> daemon_args \<Rightarrow> daemon_config \<Rightarrow> identity_keypair \<Rightarrow> nat \<Rightarrow>
   ('r, runtime_diagnose_result) plane_op" where
  "runtime_diagnose_result E args c local_identity event_limit =
     bind_r (sync_runtime_sessions E c) (\<lambda>state.
     bind_r (runtime_status_result E args c local_identity) (\<lambda>status.
     bind_r (runtime_health_result E c) (\<lambda>health.
     bind_r (state_show_result E args c) (\<lambda>durable_state.
     bind_r (identity_verify_result E args c local_identity) (\<lambda>identity.
     bind_r (authority_show_result E args c) (\<lambda>authority_show.
     bind_r (runtime_session_inventory E state) (\<lambda>inventory.
     bind_r (map_r (runtime_session_entry E) inventory) (\<lambda>sessions.
     bind_r (runtime_listeners E c) (\<lambda>ls.
     bind_r (map_r runtime_listener_entry ls) (\<lambda>listeners.
     bind_r (runtime_paths E c) (\<lambda>ps.
     bind_r (runtime_events (max event_limit 1)) (\<lambda>es.
       let paths = map (runtime_path_entry E) ps; events = map runtime_event_entry es;
           issues = runtime_diagnosis_issues status health durable_state identity sessions paths
       in return_r
         \<lparr>rdr_truth_kind = ''runtime'', rdr_primary_classification = runtime_primary_classification issues,
          rdr_issues = issues, rdr_status = status, rdr_health = health, rdr_state = durable_state,
          rdr_identity = identity, rdr_authority_show = authority_show, rdr_sessions = sessions,
          rdr_listeners = listeners, rdr_paths = paths, rdr_events = events\<rparr>))))))))))))"

section \<open>Errors\<close>

definition daemon_error_code :: "daemon_state_error \<Rightarrow> error_code \<times> json option" where
  "daemon_error_code error = (case error of
     DS_PeerNotFound peer \<Rightarrow> (NotFound, Some (json_object [(''peer_id'', JString peer)]))
   | DS_SessionNotFound session_id \<Rightarrow>
       (StaleRuntimeReference, Some (json_object [(''session_id'', JString session_id)]))
   | DS_PolicyDenied _ \<Rightarrow> (EC_PolicyRejected, None)
   | DS_NetworkMismatch \<Rightarrow> (AuthorityMismatch, None)
   | DS_MissingSchemaVersion \<Rightarrow> (StateValidationFailed, None)
   | DS_UnsupportedSchemaVersion _ _ \<Rightarrow> (StateValidationFailed, None)
   | DS_UnsupportedDurableField _ \<Rightarrow> (StateValidationFailed, None)
   | _ \<Rightarrow> (InternalError, None))"

definition daemon_error_response :: "'x codecs_scheme \<Rightarrow> string \<Rightarrow> daemon_state_error \<Rightarrow> response_envelope" where
  "daemon_error_response X request_id error =
     (case daemon_error_code error of (code, details) \<Rightarrow>
        ResponseEnvelope_error request_id code (daemon_state_error_text X error) details)"

definition map_error_status :: "response_envelope \<Rightarrow> u16" where
  "map_error_status response = (case map_option eob_code (rse_error response) of
     Some InvalidRequest \<Rightarrow> 400
   | Some Unauthorized \<Rightarrow> 401
   | Some NotFound \<Rightarrow> 404
   | Some RuntimeUnavailable \<Rightarrow> 503
   | Some StaleRuntimeReference \<Rightarrow> 409
   | Some EC_PolicyRejected \<Rightarrow> 403
   | Some AuthorityMismatch \<Rightarrow> 409
   | Some StateValidationFailed \<Rightarrow> 422
   | Some UnsupportedOperation \<Rightarrow> 404
   | Some InternalError \<Rightarrow> 500
   | None \<Rightarrow> 500)"

section \<open>Query handlers\<close>

type_synonym 'r handler = "('r runtime, response_envelope, panic) comp"

text \<open>\<open>match m { Ok(v) => ResponseEnvelope::success(id, f(v)), Err(e) => daemon_error_response(id, &e) }\<close>.\<close>

definition answer :: "'x codecs_scheme \<Rightarrow> request_envelope \<Rightarrow> ('r, 'a) plane_op \<Rightarrow> ('a \<Rightarrow> api_result) \<Rightarrow> 'r handler" where
  "answer X envelope m f =
     match_r m (\<lambda>v. return_r (ResponseEnvelope_success (rqe_request_id envelope) (f v)))
       (\<lambda>error. return_r (daemon_error_response X (rqe_request_id envelope) error))"

definition refuse :: "request_envelope \<Rightarrow> error_code \<Rightarrow> string \<Rightarrow> json option \<Rightarrow> 'r handler" where
  "refuse envelope code message details =
     return_r (ResponseEnvelope_error (rqe_request_id envelope) code message details)"

text \<open>\<open>match serde_json::from_value::<P>(envelope.payload.clone())\<close>, with the message of its failure.\<close>

definition with_payload ::
  "(json \<Rightarrow> ('p, string) result) \<Rightarrow> string \<Rightarrow> request_envelope \<Rightarrow> ('p \<Rightarrow> 'r handler) \<Rightarrow> 'r handler" where
  "with_payload decode operation envelope f =
     (case decode (rqe_payload envelope) of
        Err error \<Rightarrow> refuse envelope InvalidRequest (''invalid '' @ operation @ '' payload: '' @ error) None
      | Ok payload \<Rightarrow> f payload)"

definition runtime_status_response ::
  "'x durable_env_scheme \<Rightarrow> daemon_args \<Rightarrow> daemon_config \<Rightarrow> identity_keypair \<Rightarrow> request_envelope \<Rightarrow> 'r handler" where
  "runtime_status_response E args c local_identity envelope =
     answer E envelope (runtime_status_result E args c local_identity) RuntimeStatus_result"

definition runtime_sessions_response ::
  "'x durable_env_scheme \<Rightarrow> daemon_config \<Rightarrow> request_envelope \<Rightarrow> 'r handler" where
  "runtime_sessions_response E c envelope =
     answer E envelope
       (bind_r (sync_runtime_sessions E c) (\<lambda>state.
        bind_r (runtime_session_inventory E state) (map_r (runtime_session_entry E))))
       (\<lambda>sessions. RuntimeSessionsList_result \<lparr>rslr_truth_kind = ''runtime'', rslr_sessions = sessions\<rparr>)"

definition runtime_listeners_response ::
  "'x durable_env_scheme \<Rightarrow> daemon_config \<Rightarrow> request_envelope \<Rightarrow> 'r handler" where
  "runtime_listeners_response E c envelope =
     answer E envelope (bind_r (runtime_listeners E c) (map_r runtime_listener_entry))
       (\<lambda>listeners. RuntimeListenersList_result \<lparr>rllr_truth_kind = ''runtime'', rllr_listeners = listeners\<rparr>)"

definition runtime_paths_response ::
  "'x durable_env_scheme \<Rightarrow> daemon_config \<Rightarrow> request_envelope \<Rightarrow> 'r handler" where
  "runtime_paths_response E c envelope =
     answer E envelope (runtime_paths E c)
       (\<lambda>paths. RuntimePathsList_result \<lparr>rplr_truth_kind = ''runtime'', rplr_paths = map (runtime_path_entry E) paths\<rparr>)"

definition runtime_health_response ::
  "'x durable_env_scheme \<Rightarrow> daemon_config \<Rightarrow> request_envelope \<Rightarrow> 'r handler" where
  "runtime_health_response E c envelope =
     answer E envelope (runtime_health E c) (\<lambda>health. RuntimeHealth_result (health_result_of health))"

definition runtime_events_response :: "'x codecs_scheme \<Rightarrow> request_envelope \<Rightarrow> 'r handler" where
  "runtime_events_response X envelope =
     (let limit = unat (or_else (Option.bind (json_get ''limit'' (rqe_payload envelope)) as_u64) 32)
      in answer X envelope (runtime_events limit)
           (\<lambda>events. RuntimeEventsList_result
              \<lparr>relr_truth_kind = ''runtime'', relr_events = map runtime_event_entry events\<rparr>))"

definition authority_show_response ::
  "'x durable_env_scheme \<Rightarrow> daemon_args \<Rightarrow> daemon_config \<Rightarrow> request_envelope \<Rightarrow> 'r handler" where
  "authority_show_response E args c envelope =
     answer E envelope (authority_show_result E args c) AuthorityShow_result"

definition authority_membership_response ::
  "'x durable_env_scheme \<Rightarrow> daemon_config \<Rightarrow> request_envelope \<Rightarrow> 'r handler" where
  "authority_membership_response E c envelope =
     answer E envelope (on_files (ensure_state E c)) (\<lambda>state. AuthorityMembership_result
       \<lparr>amr_truth_kind = ''runtime'', amr_network = ds_network state,
        amr_subject_peer_id = PeerId_to_text E (mc_subject_peer_id (ds_membership state)),
        amr_issuer_peer_id = PeerId_to_text E (mc_issuer_peer_id (ds_membership state)),
        amr_issued_at = mc_issued_at (ds_membership state), amr_expires_at = mc_expires_at (ds_membership state),
        amr_roles = mc_roles (ds_membership state), amr_schema_version = ds_schema_version state\<rparr>)"

definition authority_capabilities_response ::
  "'x durable_env_scheme \<Rightarrow> daemon_config \<Rightarrow> request_envelope \<Rightarrow> 'r handler" where
  "authority_capabilities_response E c envelope =
     answer E envelope (on_files (ensure_state E c)) (\<lambda>state. AuthorityCapabilities_result
       \<lparr>acr_truth_kind = ''runtime'', acr_network = ds_network state,
        acr_subject_peer_id = PeerId_to_text E (ds_local_peer_id state),
        acr_schema_version = ds_schema_version state,
        acr_grants = map (capability_grant_entry E) (grants_for_peer state (ds_local_peer_id state))\<rparr>)"

definition authority_revocations_response ::
  "'x durable_env_scheme \<Rightarrow> daemon_config \<Rightarrow> request_envelope \<Rightarrow> 'r handler" where
  "authority_revocations_response E c envelope =
     answer E envelope (on_files (ensure_state E c)) (\<lambda>state. AuthorityRevocations_result
       \<lparr>arr_truth_kind = ''runtime'', arr_network = ds_network state,
        arr_schema_version = ds_schema_version state,
        arr_revocations = map (revocation_entry E) (ds_revocations state)\<rparr>)"

definition identity_show_response ::
  "'x durable_env_scheme \<Rightarrow> daemon_args \<Rightarrow> daemon_config \<Rightarrow> identity_keypair \<Rightarrow> request_envelope \<Rightarrow> 'r handler" where
  "identity_show_response E args c local_identity envelope =
     answer E envelope (on_files (ensure_state E c)) (\<lambda>state.
       let node = IdentityKeypair_peer_id E local_identity;
           subject = mc_subject_peer_id (ds_membership state)
       in IdentityShow_result
         \<lparr>isr_truth_kind = ''runtime_and_durable'', isr_status = ''loaded'',
          isr_identity_path = da_identity_path args, isr_node_id = PeerId_to_text E node,
          isr_public_key_hex = hex_public_key E local_identity,
          isr_durable_state_peer_id = Some (PeerId_to_text E (ds_local_peer_id state)),
          isr_authority_subject_peer_id = Some (PeerId_to_text E subject),
          isr_state_binding_status =
            (if ds_local_peer_id state = node \<and> subject = node then ''matched'' else ''mismatched'')\<rparr>)"

definition identity_verify_response ::
  "'x durable_env_scheme \<Rightarrow> daemon_args \<Rightarrow> daemon_config \<Rightarrow> identity_keypair \<Rightarrow> request_envelope \<Rightarrow> 'r handler" where
  "identity_verify_response E args c local_identity envelope =
     answer E envelope (identity_verify_result E args c local_identity) IdentityVerify_result"

definition state_show_response ::
  "'x durable_env_scheme \<Rightarrow> daemon_args \<Rightarrow> daemon_config \<Rightarrow> request_envelope \<Rightarrow> 'r handler" where
  "state_show_response E args c envelope = answer E envelope (state_show_result E args c) StateShow_result"

definition state_validate_response ::
  "'x durable_env_scheme \<Rightarrow> daemon_args \<Rightarrow> daemon_config \<Rightarrow> request_envelope \<Rightarrow> 'r handler" where
  "state_validate_response E args c envelope =
     answer E envelope (on_files (validate_state_file E c)) (\<lambda>report. StateValidate_result
       \<lparr>svr_truth_kind = ''durable'', svr_state_path = da_state_path args, svr_present = di_present report,
        svr_schema_version = di_schema_version report, svr_valid = di_valid report,
        svr_violations = map durable_state_violation_entry (di_violations report)\<rparr>)"

definition runtime_diagnose_response ::
  "'x durable_env_scheme \<Rightarrow> (json \<Rightarrow> (runtime_diagnose_payload, string) result) \<Rightarrow> daemon_args \<Rightarrow> daemon_config \<Rightarrow>
   identity_keypair \<Rightarrow> request_envelope \<Rightarrow> 'r handler" where
  "runtime_diagnose_response E decode args c local_identity envelope =
     with_payload decode ''runtime.diagnose'' envelope (\<lambda>payload.
       answer E envelope
         (runtime_diagnose_result E args c local_identity (or_else (rdp_event_limit payload) 16))
         RuntimeDiagnose_result)"

end
