(* ===== verification/Quip_Daemon_Control.thy ===== *)
theory Quip_Daemon_Control
  imports Quip_Daemon_Queries
begin

text \<open>
  The operations of the daemon's control interface that change something: exporting and resetting
  the durable state, synchronizing with the authority, connecting, closing, upgrading and
  reconciling sessions; and the router of \<open>POST /rpc\<close>. What \<open>serde_json\<close> reads and writes for the
  interface are the fields of \<open>daemon_env\<close>; the authority's HTTP service is the reader \<open>H\<close>.
\<close>

record daemon_env = durable_env +
  request_from_slice :: "bytes \<Rightarrow> (request_envelope, string) result"
  response_to_vec_pretty :: "response_envelope \<Rightarrow> bytes"
  discovery_to_vec_pretty :: "daemon_endpoint_discovery \<Rightarrow> (bytes, string) result"
  runtime_diagnose_from_value :: "json \<Rightarrow> (runtime_diagnose_payload, string) result"
  state_export_from_value :: "json \<Rightarrow> (state_export_payload, string) result"
  state_reset_from_value :: "json \<Rightarrow> (state_reset_payload, string) result"
  sync_snapshot_from_value :: "json \<Rightarrow> (authority_sync_snapshot_payload, string) result"
  sync_origin_from_value :: "json \<Rightarrow> (authority_sync_origin_payload, string) result"
  sync_revocations_origin_from_value :: "json \<Rightarrow> (authority_sync_revocations_origin_payload, string) result"
  session_connect_from_value :: "json \<Rightarrow> (session_connect_payload, string) result"
  session_close_from_value :: "json \<Rightarrow> (session_close_payload, string) result"
  session_upgrade_from_value :: "json \<Rightarrow> (session_upgrade_payload, string) result"
  session_reconcile_from_value :: "json \<Rightarrow> (session_reconcile_payload, string) result"

section \<open>Durable state\<close>

text \<open>The bundle's time, salt and nonce are the next readings of the runtime's clock and generator.\<close>

definition export_bundle ::
  "'x durable_env_scheme \<Rightarrow> durable_backup_export_request \<Rightarrow> ('r, durable_backup_export_report) plane_op" where
  "export_bundle E request =
     bind_r clock_secs (\<lambda>now. bind_r (on_registry draw_bytes) (\<lambda>salt. bind_r (on_registry draw_bytes) (\<lambda>nonce.
       on_files (export_backup_bundle E now salt nonce request))))"

definition state_export_response ::
  "'x daemon_env_scheme \<Rightarrow> daemon_args \<Rightarrow> request_envelope \<Rightarrow> 'r handler" where
  "state_export_response E args envelope =
     with_payload (state_export_from_value E) ''state export'' envelope (\<lambda>payload.
       answer E envelope
         (export_bundle E
           \<lparr>bx_output_path = sep_output_path payload, bx_passphrase = sep_passphrase payload,
            bx_hostname = sep_hostname payload, bx_environment = sep_environment payload,
            bx_identity_path = da_identity_path args, bx_state_path = da_state_path args,
            bx_network = da_network args, bx_authority_origin = da_authority_origin args,
            bx_authority_subject = da_authority_subject args,
            bx_authority_snapshot = da_authority_snapshot args,
            bx_overwrite = or_else (sep_overwrite payload) False\<rparr>)
         (\<lambda>report. StateExport_result
           \<lparr>ser_truth_kind = ''durable'', ser_bundle_path = er_bundle_path report,
            ser_created_at_unix_secs = er_created_at_unix_secs report, ser_hostname = er_hostname report,
            ser_environment = er_environment report, ser_network = er_network report,
            ser_identity_sha256_hex = er_identity_sha256_hex report,
            ser_state_sha256_hex = er_state_sha256_hex report,
            ser_durable_state_present = er_durable_state_present report,
            ser_durable_state_valid = er_durable_state_valid report\<rparr>))"

definition state_reset_response :: "'x daemon_env_scheme \<Rightarrow> daemon_config \<Rightarrow> request_envelope \<Rightarrow> 'r handler" where
  "state_reset_response E c envelope =
     with_payload (state_reset_from_value E) ''state reset'' envelope (\<lambda>payload.
       if srp_scope payload \<noteq> ''network_state_only''
       then refuse envelope InvalidRequest ''state reset scope must be network_state_only'' None
       else if srp_confirmation payload \<noteq> ''preserve-identity-reset-network-state''
       then refuse envelope InvalidRequest ''state reset confirmation token did not match required guard'' None
       else answer E envelope (on_files (reset_network_state c)) (\<lambda>was_reset. StateReset_result
         \<lparr>srr_truth_kind = ''durable'', srr_identity_preserved = True, srr_network_state_reset = was_reset,
          srr_next_action = ''daemon_restart_required''\<rparr>))"

section \<open>Authority synchronization\<close>

definition state_sync_requires_reevaluation :: "state_sync_report \<Rightarrow> bool" where
  "state_sync_requires_reevaluation report \<longleftrightarrow>
     sy_membership_changed report \<or> sy_grants_added report > 0 \<or> sy_grants_removed report > 0 \<or>
     sy_revocations_added report > 0 \<or> sy_bootstrap_hints_added report > 0 \<or>
     sy_bootstrap_hints_removed report > 0 \<or> sy_relay_announcements_added report > 0"

record sync_source =
  syn_authority_source :: string
  syn_authority_snapshot :: "string option"
  syn_authority_origin :: "string option"
  syn_authority_subject :: "string option"

definition sync_source_details :: "sync_source \<Rightarrow> (string \<times> json) list" where
  "sync_source_details src =
     [(''authority_source'', JString (syn_authority_source src)),
      (''authority_origin'', json_str_opt (syn_authority_origin src)),
      (''authority_subject'', json_str_opt (syn_authority_subject src)),
      (''authority_snapshot'', json_str_opt (syn_authority_snapshot src))]"

definition sync_report_details :: "state_sync_report \<Rightarrow> bool \<Rightarrow> (string \<times> json) list" where
  "sync_report_details report reevaluated =
     [(''membership_changed'', JBool (sy_membership_changed report)),
      (''grants_added'', json_usize (sy_grants_added report)),
      (''grants_removed'', json_usize (sy_grants_removed report)),
      (''revocations_added'', json_usize (sy_revocations_added report)),
      (''bootstrap_hints_added'', json_usize (sy_bootstrap_hints_added report)),
      (''bootstrap_hints_removed'', json_usize (sy_bootstrap_hints_removed report)),
      (''relay_announcements_added'', json_usize (sy_relay_announcements_added report)),
      (''reevaluation_triggered'', JBool reevaluated)]"

text \<open>A failed synchronization leaves an event, whose own failure is ignored.\<close>

definition sync_failed ::
  "runtime_event_subject \<Rightarrow> (string \<times> json) list \<Rightarrow> daemon_state_error \<Rightarrow> ('r, 'a) plane_op" where
  "sync_failed subject details error =
     match_r (record_event ''authority.sync_failed'' subject (json_object details))
       (\<lambda>_. raise_r error) (\<lambda>_. raise_r error)"

definition reevaluate_after_sync ::
  "'x durable_env_scheme \<Rightarrow> 'r relay_control \<Rightarrow> daemon_config \<Rightarrow> identity_keypair \<Rightarrow> runtime_event_subject \<Rightarrow>
   sync_source \<Rightarrow> state_sync_report \<Rightarrow> ('r, authority_reevaluation_report option) plane_op" where
  "reevaluate_after_sync E ctl c local_identity subject src report =
     (if state_sync_requires_reevaluation report
      then match_r (reevaluate_runtime_authority E ctl c local_identity) (\<lambda>r. return_r (Some r))
        (\<lambda>error. sync_failed subject
           (sync_source_details src @ [(''error'', JString (daemon_state_error_text E error)),
             (''phase'', JString ''reevaluation'')]) error)
      else return_r None)"

definition authority_sync ::
  "'x durable_env_scheme \<Rightarrow> 'r relay_control \<Rightarrow> daemon_config \<Rightarrow> identity_keypair \<Rightarrow> sync_source \<Rightarrow>
   (daemon_state \<times> state_sync_report) file_op \<Rightarrow> ('r, authority_sync_result) plane_op" where
  "authority_sync E ctl c local_identity src sync_fn =
     (let subject = \<lparr>ev_kind = ''authority'',
            ev_id = PeerId_to_text E (IdentityKeypair_peer_id E local_identity)\<rparr>
      in then_r (record_event ''authority.sync_started'' subject (json_object (sync_source_details src)))
        (bind_r
          (match_r (on_files sync_fn) return_r
            (\<lambda>error. sync_failed subject
               (sync_source_details src @ [(''error'', JString (daemon_state_error_text E error))]) error))
          (\<lambda>(state, report).
           bind_r (reevaluate_after_sync E ctl c local_identity subject src report) (\<lambda>reevaluated.
           bind_r (runtime_health E c) (\<lambda>health.
           bind_r (latest_authority_status E state health) (\<lambda>authority.
           then_r (record_event ''authority.sync_completed'' subject
               (json_object (sync_source_details src @ sync_report_details report (reevaluated \<noteq> None))))
             (return_r
               \<lparr>aasr_truth_kind = ''runtime'', aasr_authority_source = syn_authority_source src,
                aasr_authority_origin = syn_authority_origin src,
                aasr_authority_subject = syn_authority_subject src,
                aasr_authority_snapshot = syn_authority_snapshot src, aasr_network = ds_network state,
                aasr_local_peer_id = PeerId_to_text E (ds_local_peer_id state),
                aasr_grants_added = sy_grants_added report, aasr_grants_removed = sy_grants_removed report,
                aasr_revocations_added = sy_revocations_added report,
                aasr_bootstrap_hints_added = sy_bootstrap_hints_added report,
                aasr_bootstrap_hints_removed = sy_bootstrap_hints_removed report,
                aasr_relay_announcements_added = sy_relay_announcements_added report,
                aasr_membership_changed = sy_membership_changed report, aasr_authority = authority\<rparr>)))))))"

definition authority_sync_response ::
  "'x durable_env_scheme \<Rightarrow> 'r relay_control \<Rightarrow> daemon_config \<Rightarrow> identity_keypair \<Rightarrow> request_envelope \<Rightarrow>
   sync_source \<Rightarrow> (daemon_state \<times> state_sync_report) file_op \<Rightarrow> 'r handler" where
  "authority_sync_response E ctl c local_identity envelope src sync_fn =
     answer E envelope (authority_sync E ctl c local_identity src sync_fn) AuthoritySync_result"

definition authority_sync_snapshot_response ::
  "'x daemon_env_scheme \<Rightarrow> 'r relay_control \<Rightarrow> daemon_config \<Rightarrow> identity_keypair \<Rightarrow> request_envelope \<Rightarrow> 'r handler" where
  "authority_sync_snapshot_response E ctl c local_identity envelope =
     with_payload (sync_snapshot_from_value E) ''authority.sync_snapshot'' envelope (\<lambda>payload.
       authority_sync_response E ctl c local_identity envelope
         \<lparr>syn_authority_source = ''snapshot'', syn_authority_snapshot = Some (assp_authority_snapshot payload),
          syn_authority_origin = None, syn_authority_subject = None\<rparr>
         (plane_sync_authority_snapshot E c (assp_authority_snapshot payload)))"

definition authority_sync_origin_response ::
  "'x daemon_env_scheme \<Rightarrow> 'h authority_reader_scheme \<Rightarrow> 'r relay_control \<Rightarrow> daemon_config \<Rightarrow> identity_keypair \<Rightarrow>
   request_envelope \<Rightarrow> 'r handler" where
  "authority_sync_origin_response E H ctl c local_identity envelope =
     with_payload (sync_origin_from_value E) ''authority.sync_origin'' envelope (\<lambda>payload.
       authority_sync_response E ctl c local_identity envelope
         \<lparr>syn_authority_source = ''origin'', syn_authority_snapshot = None,
          syn_authority_origin = Some (asop_authority_origin payload),
          syn_authority_subject = asop_authority_subject payload\<rparr>
         (sync_authority_origin E H c (asop_authority_origin payload) (asop_authority_subject payload)))"

definition revocations_report :: "nat \<Rightarrow> state_sync_report" where
  "revocations_report revocations_added =
     \<lparr>sy_membership_changed = False, sy_grants_added = 0, sy_grants_removed = 0,
      sy_revocations_added = revocations_added, sy_bootstrap_hints_added = 0,
      sy_bootstrap_hints_removed = 0, sy_relay_announcements_added = 0\<rparr>"

definition authority_sync_revocations_origin_response ::
  "'x daemon_env_scheme \<Rightarrow> 'h authority_reader_scheme \<Rightarrow> 'r relay_control \<Rightarrow> daemon_config \<Rightarrow> identity_keypair \<Rightarrow>
   request_envelope \<Rightarrow> 'r handler" where
  "authority_sync_revocations_origin_response E H ctl c local_identity envelope =
     with_payload (sync_revocations_origin_from_value E) ''authority.sync_revocations_origin'' envelope (\<lambda>payload.
       authority_sync_response E ctl c local_identity envelope
         \<lparr>syn_authority_source = ''revocations_origin'', syn_authority_snapshot = None,
          syn_authority_origin = Some (asrop_authority_origin payload), syn_authority_subject = None\<rparr>
         (bind_r (sync_authority_revocations_origin E H c (asrop_authority_origin payload))
           (\<lambda>(state, revocations_added). return_r (state, revocations_report revocations_added))))"

section \<open>Sessions\<close>

datatype hex_error = Wrong_Length | Not_Hex

definition hex_error_text :: "hex_error \<Rightarrow> string" where
  "hex_error_text e = (case e of
     Wrong_Length \<Rightarrow> ''session ids supplied to daemon API must be 32 hex characters''
   | Not_Hex \<Rightarrow> ''session ids supplied to daemon API must be valid hex'')"

definition parse_hex_session_id :: "string \<Rightarrow> ((bytes, hex_error) result, panic) result" where
  "parse_hex_session_id v =
     (if length v \<noteq> 32 then Ok (Err Wrong_Length)
      else case parse_hex_pairs v of
             Err p \<Rightarrow> Err p
           | Ok None \<Rightarrow> Ok (Err Not_Hex)
           | Ok (Some session_id) \<Rightarrow> Ok (Ok session_id))"

definition with_session_id :: "request_envelope \<Rightarrow> string \<Rightarrow> (bytes \<Rightarrow> 'r handler) \<Rightarrow> 'r handler" where
  "with_session_id envelope text f =
     bind_r (from_result (parse_hex_session_id text)) (\<lambda>parsed. case parsed of
        Err error \<Rightarrow> refuse envelope InvalidRequest (hex_error_text error) None
      | Ok session_id \<Rightarrow> f session_id)"

definition session_connect_response ::
  "'x daemon_env_scheme \<Rightarrow> 'r relay_control \<Rightarrow> daemon_config \<Rightarrow> identity_keypair \<Rightarrow> request_envelope \<Rightarrow> 'r handler" where
  "session_connect_response E ctl c local_identity envelope =
     with_payload (session_connect_from_value E) ''session.connect'' envelope (\<lambda>payload.
     match_r (on_files (ensure_identity_bound_state E c local_identity))
       (\<lambda>_. case PeerId_from_str E (scp_peer_id payload) of
           Err _ \<Rightarrow> refuse envelope InvalidRequest ''session.connect peer_id must parse as a peer identifier'' None
         | Ok peer \<Rightarrow>
         case ProtocolId_new (scp_protocol payload) of
           Err error \<Rightarrow> refuse envelope InvalidRequest (type_error_text error) None
         | Ok protocol \<Rightarrow>
             answer E envelope
               (realize_best_path E ctl c peer protocol
                 (or_else (map_option parse_class (scp_class payload)) Interactive))
               (\<lambda>session. SessionConnect_result
                 \<lparr>scr_truth_kind = ''runtime'',
                  scr_session = \<lparr>scs_session_id = hex_session_id (ss_session_id session),
                    scs_state = runtime_state_label (ss_state session),
                    scs_initial_path_class = path_class_label (ss_path_kind session),
                    scs_state_reason = ss_state_reason session\<rparr>\<rparr>))
       (\<lambda>error. return_r (daemon_error_response E (rqe_request_id envelope) error)))"

definition close_result :: "session_close_payload \<Rightarrow> session_snapshot option \<Rightarrow> session_close_result" where
  "close_result payload terminal =
     \<lparr>ascr_truth_kind = ''runtime'', ascr_closed_session_id = ascp_session_id payload,
      ascr_final_state = or_else (map_option (\<lambda>s. runtime_state_label (ss_state s)) terminal) ''closed'',
      ascr_closure_reason =
        (case Option.bind terminal (\<lambda>s. map_option closure_reason_label (ss_closure_reason s)) of
           Some reason \<Rightarrow> Some reason
         | None \<Rightarrow> (case ascp_reason payload of
                      Some reason \<Rightarrow> Some reason | None \<Rightarrow> Some ''operator_requested''))\<rparr>"

definition session_close_response ::
  "'x daemon_env_scheme \<Rightarrow> 'r relay_control \<Rightarrow> daemon_config \<Rightarrow> request_envelope \<Rightarrow> 'r handler" where
  "session_close_response E ctl c envelope =
     with_payload (session_close_from_value E) ''session.close'' envelope (\<lambda>payload.
     with_session_id envelope (ascp_session_id payload) (\<lambda>session_id.
       answer E envelope
         (then_r (plane_close_session E ctl c session_id) (ask (terminal_session_snapshot session_id)))
         (\<lambda>terminal. SessionClose_result (close_result payload terminal))))"

definition session_upgrade_response ::
  "'x daemon_env_scheme \<Rightarrow> 'r relay_control \<Rightarrow> daemon_config \<Rightarrow> request_envelope \<Rightarrow> 'r handler" where
  "session_upgrade_response E ctl c envelope =
     with_payload (session_upgrade_from_value E) ''session.upgrade'' envelope (\<lambda>payload.
     with_session_id envelope (sup_session_id payload) (\<lambda>session_id.
     match_r (sync_runtime_sessions E c)
       (\<lambda>prior_state.
          case find (\<lambda>session. ss_session_id session = session_id) (ds_active_sessions prior_state) of
            None \<Rightarrow> refuse envelope StaleRuntimeReference ''session id is no longer owned by this daemon run''
              (Some (json_object [(''session_id'', JString (sup_session_id payload))]))
          | Some prior \<Rightarrow>
              answer E envelope (upgrade_session E ctl c session_id) (\<lambda>session. SessionUpgrade_result
                \<lparr>sur_truth_kind = ''runtime'', sur_session_id = sup_session_id payload,
                 sur_prior_path_class = path_class_label (ss_path_kind prior),
                 sur_resulting_path_class = path_class_label (ss_path_kind session),
                 sur_state = runtime_state_label (ss_state session)\<rparr>))
       (\<lambda>error. return_r (daemon_error_response E (rqe_request_id envelope) error))))"

definition session_reconcile_response ::
  "'x daemon_env_scheme \<Rightarrow> 'r relay_control \<Rightarrow> daemon_config \<Rightarrow> request_envelope \<Rightarrow> 'r handler" where
  "session_reconcile_response E ctl c envelope =
     with_payload (session_reconcile_from_value E) ''session.reconcile'' envelope (\<lambda>payload.
       answer E envelope (reconcile_sessions E ctl c) (\<lambda>report. SessionReconcile_result
         \<lparr>asrr_truth_kind = ''runtime'', asrr_examined = rcr_examined report,
          asrr_unchanged = rcr_unchanged report, asrr_upgraded = rcr_upgraded report,
          asrr_closed = rcr_closed report, asrr_entries = map (reconcile_api_entry E) (rcr_entries report)\<rparr>))"

section \<open>The router\<close>

record control_request =
  crq_method :: string
  crq_url :: string
  crq_body_length :: "nat option"
  crq_read_exact :: "nat \<Rightarrow> (bytes, string) result"

definition dispatch ::
  "'x daemon_env_scheme \<Rightarrow> 'h authority_reader_scheme \<Rightarrow> 'r relay_control \<Rightarrow> daemon_args \<Rightarrow> daemon_config \<Rightarrow>
   identity_keypair \<Rightarrow> request_envelope \<Rightarrow> 'r handler" where
  "dispatch E H ctl args c local_identity envelope =
     (let operation = rqe_operation envelope in
      if operation = ''runtime.status'' then runtime_status_response E args c local_identity envelope
      else if operation = ''runtime.sessions.list'' then runtime_sessions_response E c envelope
      else if operation = ''runtime.diagnose''
      then runtime_diagnose_response E (runtime_diagnose_from_value E) args c local_identity envelope
      else if operation = ''runtime.listeners.list'' then runtime_listeners_response E c envelope
      else if operation = ''runtime.paths.list'' then runtime_paths_response E c envelope
      else if operation = ''runtime.health'' then runtime_health_response E c envelope
      else if operation = ''runtime.events.list'' then runtime_events_response E envelope
      else if operation = ''authority.show'' then authority_show_response E args c envelope
      else if operation = ''authority.membership'' then authority_membership_response E c envelope
      else if operation = ''authority.capabilities'' then authority_capabilities_response E c envelope
      else if operation = ''authority.revocations'' then authority_revocations_response E c envelope
      else if operation = ''identity.show'' then identity_show_response E args c local_identity envelope
      else if operation = ''identity.verify'' then identity_verify_response E args c local_identity envelope
      else if operation = ''state.show'' then state_show_response E args c envelope
      else if operation = ''state.validate'' then state_validate_response E args c envelope
      else if operation = ''state.export'' then state_export_response E args envelope
      else if operation = ''state.reset'' then state_reset_response E c envelope
      else if operation = ''authority.sync_snapshot''
      then authority_sync_snapshot_response E ctl c local_identity envelope
      else if operation = ''authority.sync_origin''
      then authority_sync_origin_response E H ctl c local_identity envelope
      else if operation = ''authority.sync_revocations_origin''
      then authority_sync_revocations_origin_response E H ctl c local_identity envelope
      else if operation = ''session.connect'' then session_connect_response E ctl c local_identity envelope
      else if operation = ''session.close'' then session_close_response E ctl c envelope
      else if operation = ''session.upgrade'' then session_upgrade_response E ctl c envelope
      else if operation = ''session.reconcile'' then session_reconcile_response E ctl c envelope
      else refuse envelope UnsupportedOperation (''unsupported daemon operation '' @ operation) None)"

type_synonym http_answer = "u16 \<times> response_envelope"

definition unknown_request :: "u16 \<Rightarrow> error_code \<Rightarrow> string \<Rightarrow> http_answer" where
  "unknown_request status code message = (status, ResponseEnvelope_error ''unknown'' code message None)"

definition daemon_read_request_body :: "control_request \<Rightarrow> (bytes, http_answer) result" where
  "daemon_read_request_body request =
     (case crq_body_length request of
        None \<Rightarrow> Err (unknown_request 411 InvalidRequest ''daemon control requests must include Content-Length'')
      | Some limit \<Rightarrow>
          if limit > 64 * 1024
          then Err (unknown_request 413 InvalidRequest ''daemon control request body exceeds 65536 bytes'')
          else (case crq_read_exact request limit of
                  Err error \<Rightarrow> Err (unknown_request 400 InvalidRequest
                    (''daemon control request body could not be read: '' @ error))
                | Ok body \<Rightarrow> Ok body))"

definition response_status :: "response_envelope \<Rightarrow> u16" where
  "response_status response = (if rse_ok response then 200 else map_error_status response)"

definition route_control_request ::
  "'x daemon_env_scheme \<Rightarrow> 'h authority_reader_scheme \<Rightarrow> 'r relay_control \<Rightarrow> daemon_args \<Rightarrow> daemon_config \<Rightarrow>
   identity_keypair \<Rightarrow> control_request \<Rightarrow> ('r runtime, http_answer, panic) comp" where
  "route_control_request E H ctl args c local_identity request =
     (if crq_method request \<noteq> ''POST'' \<or> crq_url request \<noteq> ''/rpc''
      then return_r (unknown_request 404 NotFound
        (''no daemon control route for '' @ crq_method request @ '' '' @ crq_url request))
      else case daemon_read_request_body request of
        Err response \<Rightarrow> return_r response
      | Ok body \<Rightarrow>
      case request_from_slice E body of
        Err error \<Rightarrow> return_r (unknown_request 400 InvalidRequest (''invalid daemon control request: '' @ error))
      | Ok envelope \<Rightarrow>
          bind_r (dispatch E H ctl args c local_identity envelope) (\<lambda>response.
            return_r (response_status response, response)))"

text \<open>The body and the header that \<open>json_response\<close> puts on the wire.\<close>

record json_reply =
  jr_status :: u16
  jr_content_type :: string
  jr_body :: bytes

definition json_response :: "'x daemon_env_scheme \<Rightarrow> http_answer \<Rightarrow> json_reply" where
  "json_response E reply =
     (case reply of (status, response) \<Rightarrow>
        \<lparr>jr_status = status, jr_content_type = ''application/json'', jr_body = response_to_vec_pretty E response\<rparr>)"

end
