(* ===== verification/Quip_Daemon.thy ===== *)
theory Quip_Daemon
  imports Quip_Daemon_Control
begin

text \<open>
  The daemon process of \<open>cmd/quipd\<close>: start-up (identity, control endpoint, initial state), the cycle
  (prepare the state, reevaluate authority, reconcile, keep the target session), the wait between
  cycles and the loop around them. The environment of the process is a parameter: its variables,
  the listening socket, and, while the daemon waits, the instants it reads, the interrupt, and what
  the control thread and other processes do to the runtime between two looks at the files.
\<close>

section \<open>Types\<close>

definition RECONNECT_MAX_ATTEMPTS :: u32 where "RECONNECT_MAX_ATTEMPTS = 5"
definition RECONNECT_BASE_BACKOFF_SECS :: u64 where "RECONNECT_BASE_BACKOFF_SECS = 5"
definition RECONNECT_MAX_BACKOFF_SECS :: u64 where "RECONNECT_MAX_BACKOFF_SECS = 300"

datatype target_session_outcome =
    Target_Active session_snapshot
  | Target_Reused session_snapshot
  | Target_BackingOff string
  | Target_Suppressed string
  | Target_Failed string

datatype cycle_preparation = ReloadState | RefreshState | SyncAuthoritySnapshot | ReprobeNetwork

datatype cycle_trigger =
    Startup | IntervalElapsed | StateChanged | AuthoritySnapshotChanged | NetworkChangeRequested

record daemon_cycle_report =
  dcr_trigger :: cycle_trigger
  dcr_preparation :: cycle_preparation
  dcr_reprobe_report :: "netcheck_reprobe_report option"
  dcr_state :: daemon_state
  dcr_authority_reevaluation_report :: "authority_reevaluation_report option"
  dcr_reconcile_report :: "session_reconcile_report option"
  dcr_active_session :: "session_snapshot option"
  dcr_connect_status :: string

record file_fingerprint =
  ff_exists :: bool
  ff_len :: "nat option"
  ff_modified :: "nat option"

record daemon_trigger_monitor =
  tm_state_path :: string
  tm_authority_snapshot_path :: "string option"
  tm_network_change_trigger_path :: "string option"
  tm_state_fingerprint :: file_fingerprint
  tm_authority_snapshot_fingerprint :: "file_fingerprint option"
  tm_network_change_trigger_fingerprint :: "file_fingerprint option"

section \<open>Preparing the state\<close>

definition revocation_sync ::
  "'x durable_env_scheme \<Rightarrow> 'h authority_reader_scheme \<Rightarrow> daemon_args \<Rightarrow> daemon_config \<Rightarrow> daemon_state \<Rightarrow>
   daemon_state file_op" where
  "revocation_sync E H args c state =
     (if da_revocation_sync args
      then (case da_authority_origin args of
              Some origin \<Rightarrow> bind_r (sync_authority_revocations_origin E H c origin) (\<lambda>(state, _). return_r state)
            | None \<Rightarrow> return_r state)
      else return_r state)"

definition initialize_state ::
  "'x durable_env_scheme \<Rightarrow> 'h authority_reader_scheme \<Rightarrow> daemon_args \<Rightarrow> daemon_config \<Rightarrow> identity_keypair \<Rightarrow>
   daemon_state file_op" where
  "initialize_state E H args c local_identity =
     bind_r
       (case (da_authority_snapshot args, da_authority_origin args) of
          (Some path, None) \<Rightarrow>
            if da_sync args
            then bind_r (plane_sync_authority_snapshot E c path) (\<lambda>(state, _). return_r state)
            else seed_from_authority_snapshot E c path
        | (None, Some origin) \<Rightarrow>
            if da_sync args
            then bind_r (sync_authority_origin E H c origin (da_authority_subject args)) (\<lambda>(state, _). return_r state)
            else seed_from_authority_origin E H c origin (da_authority_subject args)
        | (None, None) \<Rightarrow> refresh_and_persist_for_local_identity E c local_identity
        | (Some _, Some _) \<Rightarrow> raise_r (DS_InvalidSession
            ''only one of --authority-snapshot or --authority-origin may be supplied''))
       (revocation_sync E H args c)"

definition refresh_state ::
  "'x durable_env_scheme \<Rightarrow> 'h authority_reader_scheme \<Rightarrow> daemon_args \<Rightarrow> daemon_config \<Rightarrow> identity_keypair \<Rightarrow>
   daemon_state file_op" where
  "refresh_state E H args c local_identity =
     bind_r
       (case (da_sync args, da_authority_snapshot args, da_authority_origin args) of
          (True, Some path, None) \<Rightarrow>
            bind_r (plane_sync_authority_snapshot E c path) (\<lambda>(state, _). return_r state)
        | (True, None, Some origin) \<Rightarrow>
            bind_r (sync_authority_origin E H c origin (da_authority_subject args)) (\<lambda>(state, _). return_r state)
        | _ \<Rightarrow> refresh_and_persist_for_local_identity E c local_identity)
       (revocation_sync E H args c)"

definition prepare_state_for_trigger ::
  "'x durable_env_scheme \<Rightarrow> 'h authority_reader_scheme \<Rightarrow> daemon_args \<Rightarrow> daemon_config \<Rightarrow> identity_keypair \<Rightarrow>
   cycle_trigger \<Rightarrow> (cycle_preparation \<times> netcheck_reprobe_report option \<times> daemon_state) file_op" where
  "prepare_state_for_trigger E H args c local_identity trigger = (case trigger of
     StateChanged \<Rightarrow> bind_r (ensure_state E c) (\<lambda>state. return_r (ReloadState, None, state))
   | AuthoritySnapshotChanged \<Rightarrow>
       bind_r (case da_authority_snapshot args of
                 Some path \<Rightarrow> bind_r (plane_sync_authority_snapshot E c path) (\<lambda>(state, _). return_r state)
               | None \<Rightarrow> ensure_state E c)
         (\<lambda>state. return_r (SyncAuthoritySnapshot, None, state))
   | NetworkChangeRequested \<Rightarrow>
       bind_r (reprobe_network_change E c ''network change trigger observed'') (\<lambda>reprobe_report.
       bind_r (ensure_state E c) (\<lambda>state. return_r (ReprobeNetwork, Some reprobe_report, state)))
   | _ \<Rightarrow> bind_r (refresh_state E H args c local_identity) (\<lambda>state. return_r (RefreshState, None, state)))"

section \<open>The target session\<close>

definition connect_target :: "'x codecs_scheme \<Rightarrow> daemon_args \<Rightarrow> daemon_state \<Rightarrow> peer_id option" where
  "connect_target X args state =
     (case Option.bind (da_connect_peer args)
             (\<lambda>v. case PeerId_from_str X v of Ok p \<Rightarrow> Some p | Err _ \<Rightarrow> None) of
        Some peer \<Rightarrow> Some peer
      | None \<Rightarrow> map_option (\<lambda>p. ps_peer (pi_snapshot p)) (first_peer state))"

definition existing_target_session ::
  "'x codecs_scheme \<Rightarrow> daemon_args \<Rightarrow> daemon_state \<Rightarrow> string \<Rightarrow> 'r quic_adapter \<Rightarrow> session_snapshot option" where
  "existing_target_session X args state protocol transport =
     Option.bind (connect_target X args state) (\<lambda>target.
       find (\<lambda>session. ss_peer session = target \<and> ss_class session = parse_class (da_connect_class args) \<and>
               owns_session transport (ss_session_id session) \<and>
               (case ss_protocol session of None \<Rightarrow> False | Some v \<Rightarrow> ProtocolId_as_str v = protocol))
         (ds_active_sessions state))"

definition backoff_text :: "u64 \<Rightarrow> runtime_reconnect_attempt \<Rightarrow> string" where
  "backoff_text now attempt =
     ''backoff:attempts='' @ show_word (at_attempt_count attempt) @ '' next_retry_in='' @
     show_word (sat_sub (at_next_attempt_unix_secs attempt) now) @ ''s reason='' @ at_reason attempt"

definition failed_text :: "runtime_reconnect_attempt \<Rightarrow> string" where
  "failed_text attempt =
     ''failed:attempts='' @ show_word (at_attempt_count attempt) @ '' reason='' @ at_reason attempt"

definition pending_outcome :: "u64 \<Rightarrow> runtime_reconnect_attempt option \<Rightarrow> target_session_outcome option" where
  "pending_outcome now attempt = (case attempt of
     None \<Rightarrow> None
   | Some attempt \<Rightarrow>
       (case at_state attempt of
          Attempt_Failed \<Rightarrow> Some (Target_Failed (failed_text attempt))
        | BackingOff \<Rightarrow>
            if now < at_next_attempt_unix_secs attempt then Some (Target_BackingOff (backoff_text now attempt)) else None))"

definition scheduled_outcome :: "u64 \<Rightarrow> runtime_reconnect_attempt \<Rightarrow> target_session_outcome" where
  "scheduled_outcome now scheduled = (case at_state scheduled of
     BackingOff \<Rightarrow> Target_BackingOff (backoff_text now scheduled)
   | Attempt_Failed \<Rightarrow> Target_Failed (failed_text scheduled))"

definition attempt_target ::
  "'x durable_env_scheme \<Rightarrow> 'r relay_control \<Rightarrow> daemon_config \<Rightarrow> u64 \<Rightarrow> peer_id \<Rightarrow> protocol_id \<Rightarrow> traffic_class \<Rightarrow>
   ('r, target_session_outcome) plane_op" where
  "attempt_target E ctl c now target protocol tc =
     then_r (record_event ''reconnect.started'' \<lparr>ev_kind = ''peer'', ev_id = PeerId_to_text E target\<rparr>
       (json_object [(''protocol'', JString (ProtocolId_as_str protocol)), (''class'', JString (class_label tc))]))
     (match_r (realize_best_path E ctl c target protocol tc)
       (\<lambda>session. then_r
          (on_transport (clear_reconnect_attempt E target (Some protocol) tc (Some ''reconnect succeeded'')))
          (return_r (Target_Active session)))
       (\<lambda>error. bind_r
          (on_transport (schedule_reconnect E target (Some protocol) tc (daemon_state_error_text E error)
             RECONNECT_MAX_ATTEMPTS RECONNECT_BASE_BACKOFF_SECS RECONNECT_MAX_BACKOFF_SECS))
          (\<lambda>scheduled. return_r (scheduled_outcome now scheduled))))"

definition ensure_target_session ::
  "'x durable_env_scheme \<Rightarrow> 'r relay_control \<Rightarrow> daemon_args \<Rightarrow> daemon_config \<Rightarrow> daemon_state \<Rightarrow> string \<Rightarrow>
   ('r, target_session_outcome) plane_op" where
  "ensure_target_session E ctl args c state protocol =
     bind_r (ask (existing_target_session E args state protocol)) (\<lambda>existing. case existing of
       Some session \<Rightarrow>
         then_r (on_transport (clear_reconnect_attempt E (ss_peer session) (ss_protocol session) (ss_class session)
                   (Some ''session already active'')))
           (return_r (Target_Reused session))
     | None \<Rightarrow>
     (case connect_target E args state of
       None \<Rightarrow> raise_r (DS_InvalidSession ''a peer is required or daemon state must contain at least one peer'')
     | Some target \<Rightarrow>
     (case ProtocolId_new protocol of
       Err error \<Rightarrow> raise_r (DS_InvalidSession (type_error_text error))
     | Ok protocol \<Rightarrow>
         let tc = parse_class (da_connect_class args)
         in bind_r (ask (\<lambda>a. find (\<lambda>s. sp_key s = (target, Some protocol, tc)) (qa_suppressions a))) (\<lambda>suppression.
            case suppression of
              Some s \<Rightarrow>
                then_r (on_transport (clear_reconnect_attempt E target (Some protocol) tc
                          (Some ''reconnect suppressed by policy'')))
                  (return_r (Target_Suppressed (''suppressed:'' @ sp_reason s)))
            | None \<Rightarrow>
                bind_r clock_secs (\<lambda>now.
                bind_r (ask (\<lambda>a. find (\<lambda>s. at_key s = (target, Some protocol, tc)) (qa_attempts a))) (\<lambda>attempt.
                  case pending_outcome now attempt of
                    Some outcome \<Rightarrow> return_r outcome
                  | None \<Rightarrow> attempt_target E ctl c now target protocol tc))))))"

section \<open>The cycle\<close>

definition reevaluates :: "cycle_trigger \<Rightarrow> bool" where
  "reevaluates trigger = (trigger \<in> {Startup, IntervalElapsed, AuthoritySnapshotChanged, StateChanged})"

definition cycle_reevaluation ::
  "'x durable_env_scheme \<Rightarrow> 'r relay_control \<Rightarrow> daemon_config \<Rightarrow> identity_keypair \<Rightarrow> cycle_trigger \<Rightarrow>
   ('r, authority_reevaluation_report option) plane_op" where
  "cycle_reevaluation E ctl c local_identity trigger =
     (if reevaluates trigger
      then bind_r (reevaluate_runtime_authority E ctl c local_identity) (\<lambda>report. return_r (Some report))
      else return_r None)"

definition cycle_reconcile ::
  "'x durable_env_scheme \<Rightarrow> 'r relay_control \<Rightarrow> daemon_args \<Rightarrow> daemon_config \<Rightarrow> daemon_state \<Rightarrow>
   ('r, session_reconcile_report option \<times> daemon_state) plane_op" where
  "cycle_reconcile E ctl args c state =
     (if da_disable_reconcile args then return_r (None, state)
      else if ds_active_sessions state = []
      then return_r (Some \<lparr>rcr_examined = 0, rcr_unchanged = 0, rcr_upgraded = 0, rcr_closed = 0, rcr_entries = []\<rparr>,
                     state)
      else bind_r (reconcile_sessions E ctl c) (\<lambda>report.
           bind_r (on_files (ensure_state E c)) (\<lambda>state. return_r (Some report, state))))"

definition cycle_connect ::
  "'x durable_env_scheme \<Rightarrow> 'r relay_control \<Rightarrow> daemon_args \<Rightarrow> daemon_config \<Rightarrow> daemon_state \<Rightarrow>
   ('r, session_snapshot option \<times> string \<times> daemon_state) plane_op" where
  "cycle_connect E ctl args c state = (case da_connect_protocol args of
     None \<Rightarrow> return_r (None, ''disabled'', state)
   | Some protocol \<Rightarrow>
       match_r (ensure_target_session E ctl args c state protocol)
         (\<lambda>outcome. case outcome of
            Target_Active session \<Rightarrow>
              bind_r (on_files (ensure_state E c)) (\<lambda>state. return_r (Some session, ''active'', state))
          | Target_Reused session \<Rightarrow> return_r (Some session, ''reused'', state)
          | Target_BackingOff status \<Rightarrow> return_r (None, status, state)
          | Target_Suppressed status \<Rightarrow> return_r (None, status, state)
          | Target_Failed status \<Rightarrow> return_r (None, status, state))
         (\<lambda>error. return_r (None, ''connect-failed:'' @ daemon_state_error_text E error, state)))"

definition run_cycle ::
  "'x durable_env_scheme \<Rightarrow> 'h authority_reader_scheme \<Rightarrow> 'r relay_control \<Rightarrow> daemon_args \<Rightarrow> daemon_config \<Rightarrow>
   identity_keypair \<Rightarrow> cycle_trigger \<Rightarrow> ('r, daemon_cycle_report) plane_op" where
  "run_cycle E H ctl args c local_identity trigger =
     bind_r (on_files (prepare_state_for_trigger E H args c local_identity trigger))
       (\<lambda>(preparation, reprobe_report, _).
     then_r (sync_runtime_sessions E c)
    (bind_r (cycle_reevaluation E ctl c local_identity trigger) (\<lambda>reevaluation.
     bind_r (sync_runtime_sessions E c) (\<lambda>state.
     bind_r (cycle_reconcile E ctl args c state) (\<lambda>(reconcile_report, state).
     bind_r (cycle_connect E ctl args c state) (\<lambda>(active_session, connect_status, state). return_r
       \<lparr>dcr_trigger = trigger, dcr_preparation = preparation, dcr_reprobe_report = reprobe_report,
        dcr_state = state, dcr_authority_reevaluation_report = reevaluation,
        dcr_reconcile_report = reconcile_report, dcr_active_session = active_session,
        dcr_connect_status = connect_status\<rparr>))))))"

end
