(* ===== verification/Quip_Daemon_Process.thy ===== *)
theory Quip_Daemon_Process
  imports Quip_Daemon
begin

text \<open>
  The daemon as a process: watching files between cycles, reporting a cycle, start-up, and the main
  loop. Waiting and running may go on for ever, so both are partial functions; an outcome of \<open>None\<close>
  is a process that never gets there. A panic is a value of its own.
\<close>

section \<open>Watching files\<close>

text \<open>
  What the process meets while it waits, by the number of the look at the files: how much time has
  passed since the last reading of the clock, how long a sleep of a given length takes, whether the
  interrupt arrives first, the modification times of files, and what the control thread and other
  processes do to the runtime meanwhile. Times are in nanoseconds.
\<close>

record 'r waiting =
  wt_lag :: "nat \<Rightarrow> nat"
  wt_sleep :: "nat \<Rightarrow> nat \<Rightarrow> nat"
  wt_interrupt :: "nat \<Rightarrow> (unit, string) result option"
  wt_modified :: "nat \<Rightarrow> string \<Rightarrow> nat option"
  wt_interlude :: "nat \<Rightarrow> 'r runtime \<Rightarrow> 'r runtime"

text \<open>A sleep lasts at least as long as it was asked to, up to the longest one the timer supports.\<close>

definition sleeps_fully :: "nat \<Rightarrow> 'r waiting \<Rightarrow> bool" where
  "sleeps_fully longest W \<longleftrightarrow> 0 < longest \<and> (\<forall>n d. min d longest \<le> wt_sleep W n d)"

definition file_fingerprint :: "(string \<Rightarrow> nat option) \<Rightarrow> filesystem \<Rightarrow> string \<Rightarrow> file_fingerprint" where
  "file_fingerprint modified fs path =
     (if fs_exists fs path
      then \<lparr>ff_exists = True, ff_len = map_option length (fs_files fs path), ff_modified = modified path\<rparr>
      else \<lparr>ff_exists = False, ff_len = None, ff_modified = None\<rparr>)"

abbreviation look :: "'r waiting \<Rightarrow> nat \<Rightarrow> 'r runtime \<Rightarrow> string \<Rightarrow> file_fingerprint" where
  "look W n s \<equiv> file_fingerprint (wt_modified W n) (vm_files s)"

definition DaemonTriggerMonitor_new :: "(string \<Rightarrow> file_fingerprint) \<Rightarrow> daemon_args \<Rightarrow> daemon_trigger_monitor" where
  "DaemonTriggerMonitor_new fingerprint args =
     \<lparr>tm_state_path = da_state_path args, tm_authority_snapshot_path = da_authority_snapshot args,
      tm_network_change_trigger_path = da_network_change_trigger_path args,
      tm_state_fingerprint = fingerprint (da_state_path args),
      tm_authority_snapshot_fingerprint = map_option fingerprint (da_authority_snapshot args),
      tm_network_change_trigger_fingerprint = map_option fingerprint (da_network_change_trigger_path args)\<rparr>"

definition refresh_baseline :: "(string \<Rightarrow> file_fingerprint) \<Rightarrow> daemon_trigger_monitor \<Rightarrow> daemon_trigger_monitor" where
  "refresh_baseline fingerprint m = m
     \<lparr>tm_state_fingerprint := fingerprint (tm_state_path m),
      tm_authority_snapshot_fingerprint := map_option fingerprint (tm_authority_snapshot_path m),
      tm_network_change_trigger_fingerprint := map_option fingerprint (tm_network_change_trigger_path m)\<rparr>"

definition path_changed ::
  "(string \<Rightarrow> file_fingerprint) \<Rightarrow> string option \<Rightarrow> file_fingerprint option \<Rightarrow> file_fingerprint option" where
  "path_changed fingerprint path known = (case path of
     None \<Rightarrow> None
   | Some p \<Rightarrow> if known \<noteq> Some (fingerprint p) then Some (fingerprint p) else None)"

definition detect_trigger ::
  "(string \<Rightarrow> file_fingerprint) \<Rightarrow> daemon_trigger_monitor \<Rightarrow> cycle_trigger option \<times> daemon_trigger_monitor" where
  "detect_trigger fingerprint m =
     (case path_changed fingerprint (tm_network_change_trigger_path m) (tm_network_change_trigger_fingerprint m) of
        Some current \<Rightarrow>
          (Some NetworkChangeRequested, m\<lparr>tm_network_change_trigger_fingerprint := Some current\<rparr>)
      | None \<Rightarrow>
          let current_state = fingerprint (tm_state_path m)
          in if tm_state_fingerprint m \<noteq> current_state
             then (Some StateChanged, m\<lparr>tm_state_fingerprint := current_state\<rparr>)
             else case path_changed fingerprint (tm_authority_snapshot_path m) (tm_authority_snapshot_fingerprint m) of
                    Some current \<Rightarrow>
                      (Some AuthoritySnapshotChanged, m\<lparr>tm_authority_snapshot_fingerprint := Some current\<rparr>)
                  | None \<Rightarrow> (None, m))"

section \<open>Waiting for the next cycle\<close>

datatype wait_outcome = Interrupted | SignalError string

text \<open>Where a wait has come to: the monitor, the runtime, the number of the look and the instant.\<close>

record 'r watch =
  wa_monitor :: daemon_trigger_monitor
  wa_runtime :: "'r runtime"
  wa_look :: nat
  wa_instant :: nat

definition sleep_duration :: "nat \<Rightarrow> nat \<Rightarrow> nat \<Rightarrow> nat" where
  "sleep_duration deadline poll_interval now = min (deadline - now) poll_interval"

definition sleep_until_next ::
  "'r waiting \<Rightarrow> nat \<Rightarrow> nat \<Rightarrow> nat \<Rightarrow> daemon_trigger_monitor \<Rightarrow> 'r watch \<Rightarrow> 'r watch" where
  "sleep_until_next W deadline poll_interval now m w =
     \<lparr>wa_monitor = m, wa_runtime = wt_interlude W (wa_look w) (wa_runtime w), wa_look = Suc (wa_look w),
      wa_instant = now + wt_sleep W (wa_look w) (sleep_duration deadline poll_interval now)\<rparr>"

text \<open>One turn of the loop: an outcome with the monitor and the instant, or the monitor to go on with.\<close>

definition wait_turn ::
  "'r waiting \<Rightarrow> nat \<Rightarrow> 'r watch \<Rightarrow> (cycle_trigger, wait_outcome) result option \<times> daemon_trigger_monitor \<times> nat" where
  "wait_turn W deadline w =
     (let n = wa_look w
      in case detect_trigger (look W n (wa_runtime w)) (wa_monitor w) of
           (Some trigger, m) \<Rightarrow> (Some (Ok trigger), m, wa_instant w)
         | (None, m) \<Rightarrow>
             let now = wa_instant w + wt_lag W n
             in if deadline \<le> now then (Some (Ok IntervalElapsed), m, now)
                else (case wt_interrupt W n of
                        Some (Ok _) \<Rightarrow> (Some (Err Interrupted), m, now)
                      | Some (Err error) \<Rightarrow> (Some (Err (SignalError error)), m, now)
                      | None \<Rightarrow> (None, m, now)))"

partial_function (option) wait_loop ::
  "'r waiting \<Rightarrow> nat \<Rightarrow> nat \<Rightarrow> 'r watch \<Rightarrow> ((cycle_trigger, wait_outcome) result \<times> 'r watch) option" where
  "wait_loop W deadline poll_interval w =
     (case wait_turn W deadline w of
        (Some outcome, m, now) \<Rightarrow> Some (outcome, w\<lparr>wa_monitor := m, wa_instant := now\<rparr>)
      | (None, m, now) \<Rightarrow> wait_loop W deadline poll_interval (sleep_until_next W deadline poll_interval now m w))"

definition interval_nanos :: "daemon_args \<Rightarrow> nat" where
  "interval_nanos args = unat (max (da_reconcile_interval_seconds args) 1) * 10 ^ 9"

definition poll_nanos :: "daemon_args \<Rightarrow> nat" where
  "poll_nanos args = unat (max (da_change_watch_interval_ms args) 1) * 10 ^ 6"

text \<open>An instant keeps its seconds in 64 signed bits, and adding a duration to it panics past the last one.\<close>

definition instant_add :: "nat \<Rightarrow> nat \<Rightarrow> (nat, panic) result" where
  "instant_add instant duration =
     (if (instant + duration) div 10 ^ 9 \<le> 2 ^ 63 - 1 then Ok (instant + duration)
      else Err (Panic ''overflow when adding duration to instant''))"

definition wait_for_next_cycle ::
  "'r waiting \<Rightarrow> daemon_args \<Rightarrow> 'r watch \<Rightarrow> ((cycle_trigger, wait_outcome) result \<times> 'r watch, panic) result option" where
  "wait_for_next_cycle W args w =
     (case instant_add (wa_instant w) (interval_nanos args) of
        Err p \<Rightarrow> Some (Err p)
      | Ok deadline \<Rightarrow> map_option Ok (wait_loop W deadline (poll_nanos args) w))"

section \<open>Reporting a cycle\<close>

definition cycle_trigger_label :: "cycle_trigger \<Rightarrow> string" where
  "cycle_trigger_label trigger = (case trigger of
     Startup \<Rightarrow> ''startup'' | IntervalElapsed \<Rightarrow> ''interval'' | StateChanged \<Rightarrow> ''state-changed''
   | AuthoritySnapshotChanged \<Rightarrow> ''authority-snapshot-changed'' | NetworkChangeRequested \<Rightarrow> ''network-change'')"

definition cycle_preparation_label :: "cycle_preparation \<Rightarrow> string" where
  "cycle_preparation_label preparation = (case preparation of
     ReloadState \<Rightarrow> ''reload'' | RefreshState \<Rightarrow> ''refresh''
   | SyncAuthoritySnapshot \<Rightarrow> ''sync-authority-snapshot'' | ReprobeNetwork \<Rightarrow> ''reprobe-network'')"

definition reconcile_summary_line :: "session_reconcile_report \<Rightarrow> string" where
  "reconcile_summary_line report =
     ''examined='' @ show_nat (rcr_examined report) @ '' upgraded='' @ show_nat (rcr_upgraded report) @
     '' closed='' @ show_nat (rcr_closed report) @ '' unchanged='' @ show_nat (rcr_unchanged report)"

definition reprobe_summary_line :: "netcheck_reprobe_report \<Rightarrow> string" where
  "reprobe_summary_line report =
     ''udp='' @ show_bool (nb_udp_reachable report) @ '' ipv6='' @ show_bool (nb_ipv6_reachable report) @
     '' relay_required='' @ show_bool (nb_relay_required report) @
     '' probes='' @ show_nat (nb_probe_observations report) @ '' paths='' @ show_nat (nb_path_candidates report)"

definition authority_reevaluation_summary_line :: "authority_reevaluation_report \<Rightarrow> string" where
  "authority_reevaluation_summary_line report =
     ''reevaluated='' @ show_nat (av_reevaluated_sessions report) @
     '' closed='' @ show_nat (av_closed_sessions report) @
     '' degraded='' @ show_nat (av_degraded_sessions report) @
     '' migrated='' @ show_nat (av_migrated_sessions report) @
     '' unchanged='' @ show_nat (av_unchanged_sessions report) @
     '' listeners_reevaluated='' @ show_nat (av_reevaluated_listeners report) @
     '' listeners_suppressed='' @ show_nat (av_suppressed_listeners report) @
     '' listeners_restored='' @ show_nat (av_restored_listeners report) @
     '' suppressed_added='' @ show_nat (av_reconnect_suppressions_added report) @
     '' suppressed_cleared='' @ show_nat (av_reconnect_suppressions_cleared report) @
     '' local_policy_denied='' @ show_bool (av_local_policy_denied report) @
     '' subject_mismatch='' @ show_bool (av_authority_subject_mismatch report) @
     '' local_membership_denied='' @ show_nat (av_local_membership_denied_sessions report) @
     '' peer_membership_denied='' @ show_nat (av_peer_membership_denied_sessions report) @
     '' capability_denied='' @ show_nat (av_capability_denied_sessions report) @
     '' reason='' @ or_else (av_local_policy_reason report) ''none''"

definition reconcile_line :: "'x codecs_scheme \<Rightarrow> session_reconcile_entry \<Rightarrow> string" where
  "reconcile_line X entry =
     ''quipd reconcile session_id='' @ hex_session_id (rce_session_id entry) @
     '' peer='' @ PeerId_to_text X (rce_peer entry) @
     '' disposition='' @ reconcile_disposition_label (rce_disposition entry) @
     '' path='' @ or_else (map_option path_kind_debug (rce_path_kind entry)) ''none'' @
     '' reason='' @ rce_reason entry"

text \<open>The lines a cycle prints.\<close>

definition emit_cycle_report :: "'x codecs_scheme \<Rightarrow> daemon_args \<Rightarrow> daemon_cycle_report \<Rightarrow> string list" where
  "emit_cycle_report X args report =
     (let selected_path = or_else (map_option (\<lambda>d. pe_summary (pd_explanation d))
            (Option.bind (first_peer (dcr_state report))
              (\<lambda>peer. best_path X (dcr_state report) (ps_peer (pi_snapshot peer)) Interactive)))
            ''no routing candidates''
      in (case dcr_reconcile_report report of
            Some r \<Rightarrow> if da_reconcile_verbose args then map (reconcile_line X) (rcr_entries r) else []
          | None \<Rightarrow> []) @
         [''quipd active: '' @ DaemonState_status_line X (dcr_state report) @
          '' selected_path='' @ selected_path @
          '' active_session='' @ or_else (map_option
             (\<lambda>s. hex_session_id (ss_session_id s) @ ''@'' @ PeerId_to_text X (ss_peer s))
             (dcr_active_session report)) ''none'' @
          '' preparation='' @ cycle_preparation_label (dcr_preparation report) @
          '' reprobe='' @ or_else (map_option reprobe_summary_line (dcr_reprobe_report report)) ''none'' @
          '' authority_reevaluation='' @ or_else (map_option authority_reevaluation_summary_line
             (dcr_authority_reevaluation_report report)) ''none'' @
          '' reconcile='' @ or_else (map_option reconcile_summary_line (dcr_reconcile_report report)) ''disabled'' @
          '' connect='' @ dcr_connect_status report @
          '' trigger='' @ cycle_trigger_label (dcr_trigger report) @
          '' state_path='' @ da_state_path args])"

section \<open>Start-up\<close>

datatype daemon_failure = DF_Io string | DF_Identity identity_error | DF_State daemon_state_error

text \<open>The process's variables and id, and the outcome of binding and serving an address.\<close>

record host =
  ho_var :: "string \<Rightarrow> string option"
  ho_pid :: u32
  ho_bind :: "string \<Rightarrow> (string, string) result"
  ho_server :: "string \<Rightarrow> (unit, string) result"

definition expand_home_path :: "host \<Rightarrow> string \<Rightarrow> string" where
  "expand_home_path host path = (case strip_prefix ''~/'' path of
     Some rest \<Rightarrow> (case ho_var host ''HOME'' of Some home \<Rightarrow> home @ ''/'' @ rest | None \<Rightarrow> path)
   | None \<Rightarrow> path)"

definition normalize_args_paths :: "host \<Rightarrow> daemon_args \<Rightarrow> daemon_args" where
  "normalize_args_paths host args = args
     \<lparr>da_state_path := expand_home_path host (da_state_path args),
      da_identity_path := expand_home_path host (da_identity_path args),
      da_control_discovery_path := expand_home_path host (da_control_discovery_path args),
      da_network_change_trigger_path := map_option (expand_home_path host) (da_network_change_trigger_path args),
      da_authority_snapshot := map_option (expand_home_path host) (da_authority_snapshot args)\<rparr>"

text \<open>The random bytes of a fresh key, and the salt and nonce of its file, are arguments.\<close>

definition load_or_init_identity ::
  "'x keystore_env_scheme \<Rightarrow> host \<Rightarrow> bytes \<Rightarrow> bytes \<Rightarrow> bytes \<Rightarrow> string \<Rightarrow> string \<Rightarrow>
   (filesystem, identity_keypair, daemon_failure) comp" where
  "load_or_init_identity X host fresh salt nonce identity_path passphrase_env fs =
     (case ho_var host passphrase_env of
        None \<Rightarrow> (Err (DF_Io (''identity passphrase env var '' @ passphrase_env @ '' must be set'')), fs)
      | Some passphrase \<Rightarrow>
          (case FileKeystore_load X fs identity_path passphrase of
             Ok identity \<Rightarrow> (Ok identity, fs)
           | Err _ \<Rightarrow>
               (case fs_create_parent fs identity_path of
                  Err e \<Rightarrow> (Err (DF_Io e), fs)
                | Ok _ \<Rightarrow>
                    let identity = from_secret_bytes fresh
                    in (case FileKeystore_store X salt nonce fs identity_path identity passphrase of
                          (Err e, fs) \<Rightarrow> (Err (DF_Identity e), fs)
                        | (Ok _, fs) \<Rightarrow> (Ok identity, fs)))))"

definition daemon_transport ::
  "'x codecs_scheme \<Rightarrow> 'r \<Rightarrow> bytes \<Rightarrow> clockwork \<Rightarrow> daemon_args \<Rightarrow> identity_keypair \<Rightarrow> 'r quic_adapter" where
  "daemon_transport X relay instance_rand clock args local_identity =
     with_identity relay instance_rand clock (NetworkId_derive X (da_network args)) local_identity"

definition write_control_discovery ::
  "'x daemon_env_scheme \<Rightarrow> string \<Rightarrow> daemon_endpoint_discovery \<Rightarrow> (filesystem, unit, string) comp" where
  "write_control_discovery E path discovery fs =
     (case fs_create_parent fs path of
        Err e \<Rightarrow> (Err e, fs)
      | Ok _ \<Rightarrow> (case discovery_to_vec_pretty E discovery of
                   Err e \<Rightarrow> (Err e, fs)
                 | Ok content \<Rightarrow> fs_write fs path content))"

text \<open>The endpoint the control thread serves; the guard that is dropped at the end is its discovery path.\<close>

definition start_control_server ::
  "'x daemon_env_scheme \<Rightarrow> host \<Rightarrow> daemon_args \<Rightarrow> ('r runtime, string \<times> string, daemon_failure) comp" where
  "start_control_server E host args =
     (case ho_bind host (da_control_bind args) of
        Err e \<Rightarrow> raise_r (DF_Io e)
      | Ok local_addr \<Rightarrow>
     (case ho_server host local_addr of
        Err e \<Rightarrow> raise_r (DF_Io (''control server init failed: '' @ e))
      | Ok _ \<Rightarrow>
          let endpoint = ''http://'' @ local_addr @ ''/rpc''
          in (\<lambda>s. case now_secs (vm_transport s) of (now, a) \<Rightarrow>
                (case write_control_discovery E (da_control_discovery_path args)
                        \<lparr>ded_endpoint = endpoint, ded_network = da_network args,
                         ded_state_path = da_state_path args, ded_identity_path = da_identity_path args,
                         ded_runtime_instance_id = qa_runtime_instance_id (vm_transport s),
                         ded_pid = ho_pid host, ded_started_at_unix_secs = now\<rparr> (vm_files s) of
                   (Err e, fs) \<Rightarrow> (Err (DF_Io e), s\<lparr>vm_transport := a, vm_files := fs\<rparr>)
                 | (Ok _, fs) \<Rightarrow>
                     (Ok (da_control_discovery_path args,
                          ''quipd control ready endpoint='' @ endpoint @
                          '' discovery_path='' @ da_control_discovery_path args),
                      s\<lparr>vm_transport := a, vm_files := fs\<rparr>)))))"

definition drop_guard :: "string \<Rightarrow> 'r runtime \<Rightarrow> 'r runtime" where
  "drop_guard discovery_path s = s\<lparr>vm_files := snd (fs_remove (vm_files s) discovery_path)\<rparr>"

section \<open>The main loop\<close>

record 'r ending =
  en_result :: "((unit, daemon_failure) result, panic) result"
  en_runtime :: "'r runtime"
  en_printed :: "string list"

partial_function (option) daemon_loop ::
  "'x durable_env_scheme \<Rightarrow> 'h authority_reader_scheme \<Rightarrow> 'r relay_control \<Rightarrow> 'r waiting \<Rightarrow> daemon_args \<Rightarrow>
   daemon_config \<Rightarrow> identity_keypair \<Rightarrow> cycle_trigger \<Rightarrow> 'r watch \<Rightarrow> string list \<Rightarrow> 'r ending option" where
  "daemon_loop E H ctl W args c local_identity trigger w printed =
     (case run_cycle E H ctl args c local_identity trigger (wa_runtime w) of
        (Err error, s) \<Rightarrow> Some \<lparr>en_result = Ok (Err (DF_State error)), en_runtime = s, en_printed = printed\<rparr>
      | (Ok report, s) \<Rightarrow>
          let printed = printed @ emit_cycle_report E args report
          in if da_one_shot args then Some \<lparr>en_result = Ok (Ok ()), en_runtime = s, en_printed = printed\<rparr>
             else Option.bind
               (wait_for_next_cycle W args (w\<lparr>wa_runtime := s,
                  wa_monitor := refresh_baseline (look W (wa_look w) s) (wa_monitor w)\<rparr>))
               (\<lambda>waited. case waited of
                  Err p \<Rightarrow> Some \<lparr>en_result = Err p, en_runtime = s, en_printed = printed\<rparr>
                | Ok (outcome, w) \<Rightarrow>
                    (case outcome of
                       Ok trigger \<Rightarrow> daemon_loop E H ctl W args c local_identity trigger w printed
                     | Err Interrupted \<Rightarrow>
                         Some \<lparr>en_result = Ok (Ok ()), en_runtime = wa_runtime w,
                           en_printed = printed @ [''quipd stopping: received interrupt'']\<rparr>
                     | Err (SignalError error) \<Rightarrow>
                         Some \<lparr>en_result = Ok (Err (DF_Io error)), en_runtime = wa_runtime w, en_printed = printed\<rparr>)))"

definition first_trigger :: "daemon_args \<Rightarrow> cycle_trigger" where
  "first_trigger args = (if da_force_network_reprobe args then NetworkChangeRequested else Startup)"

text \<open>Everything of the run after the control endpoint is up, under its guard.\<close>

definition run_guarded ::
  "'x durable_env_scheme \<Rightarrow> 'h authority_reader_scheme \<Rightarrow> 'r relay_control \<Rightarrow> 'r waiting \<Rightarrow> nat \<Rightarrow> daemon_args \<Rightarrow>
   daemon_config \<Rightarrow> identity_keypair \<Rightarrow> string list \<Rightarrow> 'r runtime \<Rightarrow> 'r ending option" where
  "run_guarded E H ctl W instant args c local_identity printed s =
     (case on_files (then_r (initialize_state E H args c local_identity)
              (ensure_identity_bound_state E c local_identity)) s of
        (Err error, s) \<Rightarrow> Some \<lparr>en_result = Ok (Err (DF_State error)), en_runtime = s, en_printed = printed\<rparr>
      | (Ok _, s) \<Rightarrow>
          daemon_loop E H ctl W args c local_identity (first_trigger args)
            \<lparr>wa_monitor = DaemonTriggerMonitor_new (look W 0 s) args, wa_runtime = s, wa_look = 0,
             wa_instant = instant\<rparr> printed)"

record seeds =
  sd_fresh_key :: bytes
  sd_salt :: bytes
  sd_nonce :: bytes
  sd_instance :: bytes

definition daemon_run ::
  "'x daemon_env_scheme \<Rightarrow> 'h authority_reader_scheme \<Rightarrow> 'r relay_control \<Rightarrow> host \<Rightarrow> 'r waiting \<Rightarrow> nat \<Rightarrow> seeds \<Rightarrow>
   clockwork \<Rightarrow> 'r \<Rightarrow> daemon_args \<Rightarrow> filesystem \<Rightarrow> 'r ending option" where
  "daemon_run E H ctl host W instant sd clock relay args fs =
     (let args = normalize_args_paths host args
      in case load_or_init_identity E host (sd_fresh_key sd) (sd_salt sd) (sd_nonce sd)
                (da_identity_path args) (da_identity_passphrase_env args) fs of
           (Err e, fs) \<Rightarrow>
             Some \<lparr>en_result = Ok (Err e),
               en_runtime = \<lparr>vm_transport = QuicTransportAdapter_default relay (sd_instance sd) clock, vm_files = fs\<rparr>,
               en_printed = []\<rparr>
         | (Ok local_identity, fs) \<Rightarrow>
             let s = \<lparr>vm_transport = daemon_transport E relay (sd_instance sd) clock args local_identity, vm_files = fs\<rparr>;
                 c = DaemonConfig_new (da_network args) (da_state_path args)
             in (case start_control_server E host args s of
                   (Err e, s) \<Rightarrow> Some \<lparr>en_result = Ok (Err e), en_runtime = s, en_printed = []\<rparr>
                 | (Ok (guard, line), s) \<Rightarrow>
                     map_option (\<lambda>ending. ending\<lparr>en_runtime := drop_guard guard (en_runtime ending)\<rparr>)
                       (run_guarded E H ctl W instant args c local_identity [line] s)))"

text \<open>\<open>main\<close>: an error is printed and the process exits with status 1; a panic unwinds, dropping the guard, to status 101.\<close>

definition exit_status :: "'r ending \<Rightarrow> nat" where
  "exit_status ending = (case en_result ending of Ok (Ok _) \<Rightarrow> 0 | Ok (Err _) \<Rightarrow> 1 | Err _ \<Rightarrow> 101)"

end
