(* ===== verification/Quip_Process_Laws.thy ===== *)
theory Quip_Process_Laws
  imports Quip_Daemon_Process
begin

text \<open>
  Laws of the daemon process: the wait between two cycles ends within a bounded number of looks and
  for the reason it reports, or panics at once if the deadline cannot be represented, and start-up binds the process to the key in its identity file.
\<close>

section \<open>Waiting\<close>

lemma detect_trigger_None: "detect_trigger f m = (None, m') \<Longrightarrow> m' = m"
  by (auto simp: detect_trigger_def Let_def split: option.splits if_splits)

lemma detect_trigger_not_interval: "fst (detect_trigger f m) \<noteq> Some IntervalElapsed"
  by (simp add: detect_trigger_def Let_def split: option.splits)

text \<open>What an outcome says about the watched files, the instant and the interrupt.\<close>

definition explained ::
  "'r waiting \<Rightarrow> nat \<Rightarrow> daemon_trigger_monitor \<Rightarrow> (cycle_trigger, wait_outcome) result \<Rightarrow> 'r watch \<Rightarrow> bool" where
  "explained W deadline baseline outcome w \<longleftrightarrow>
     (let seen = detect_trigger (look W (wa_look w) (wa_runtime w)) baseline
      in case outcome of
           Ok IntervalElapsed \<Rightarrow> seen = (None, wa_monitor w) \<and> deadline \<le> wa_instant w
         | Ok trigger \<Rightarrow> seen = (Some trigger, wa_monitor w)
         | Err Interrupted \<Rightarrow> seen = (None, wa_monitor w) \<and> wt_interrupt W (wa_look w) = Some (Ok ())
         | Err (SignalError e) \<Rightarrow> seen = (None, wa_monitor w) \<and> wt_interrupt W (wa_look w) = Some (Err e))"

lemma wait_turn_cases [consumes 1, case_names ends sleep]:
  assumes "wait_turn W deadline w = (r, m, now)"
  obtains outcome where "r = Some outcome"
    "explained W deadline (wa_monitor w) outcome (w\<lparr>wa_monitor := m, wa_instant := now\<rparr>)"
  | "r = None" "m = wa_monitor w" "now < deadline" "wa_instant w \<le> now"
proof (cases "detect_trigger (look W (wa_look w) (wa_runtime w)) (wa_monitor w)")
  case (Pair t m')
  show thesis
  proof (cases t)
    case (Some trigger)
    moreover have "trigger \<noteq> IntervalElapsed"
      using detect_trigger_not_interval [of "look W (wa_look w) (wa_runtime w)" "wa_monitor w"] Pair Some by auto
    ultimately have "explained W deadline (wa_monitor w) (Ok trigger) (w\<lparr>wa_monitor := m, wa_instant := now\<rparr>)"
      "r = Some (Ok trigger)"
      using assms Pair by (cases trigger; auto simp: wait_turn_def explained_def)+
    then show thesis using that(1) by blast
  next
    case None
    note m' = detect_trigger_None [OF Pair [unfolded None]]
    show thesis
      using assms Pair None m' that
      by (auto simp: wait_turn_def explained_def Let_def split: if_splits option.splits result.splits)
  qed
qed

lemma ceiling_step:
  fixes r r' poll :: nat
  assumes "0 < poll" "0 < r" "r' \<le> r - poll"
  shows "Suc ((r' + poll - 1) div poll) \<le> (r + poll - 1) div poll"
proof (cases "poll \<le> r")
  case True
  then have "Suc ((r' + poll - 1) div poll) \<le> Suc ((r - 1) div poll)"
    using assms by (intro Suc_le_mono [THEN iffD2] div_le_mono) simp
  also have "\<dots> = (r - 1 + poll) div poll" using assms(1) by (simp only: div_add_self2 Suc_eq_plus1)
  also have "r - 1 + poll = r + poll - 1" using assms by simp
  finally show ?thesis .
next
  case False
  then have "r' = 0" using assms by simp
  moreover have "poll div poll \<le> (r + poll - 1) div poll" using assms by (intro div_le_mono) simp
  ultimately show ?thesis using assms by simp
qed

lemma wait_loop_ends:
  assumes "sleeps_fully longest W" and "0 < poll0" and "poll = min poll0 longest"
  shows "\<exists>outcome w'. wait_loop W deadline poll0 w = Some (outcome, w') \<and>
           wa_look w' \<le> wa_look w + (deadline - wa_instant w + poll - 1) div poll \<and>
           explained W deadline (wa_monitor w) outcome w'"
proof -
  have poll: "0 < poll" using assms by (simp add: sleeps_fully_def)
  show ?thesis
  proof (induction "deadline - wa_instant w" arbitrary: w rule: less_induct)
    case less
    obtain r m now where turn: "wait_turn W deadline w = (r, m, now)" by (cases "wait_turn W deadline w")
    then show ?case
    proof (cases rule: wait_turn_cases)
      case (ends outcome)
      then show ?thesis by (simp add: wait_loop.simps [of W deadline poll0 w] turn)
    next
      case sleep
      let ?w = "sleep_until_next W deadline poll0 now m w" and ?d = "sleep_duration deadline poll0 now"
      have "min ?d longest \<le> wt_sleep W (wa_look w) ?d" using assms(1) by (simp add: sleeps_fully_def)
      then have rest: "deadline - wa_instant ?w \<le> deadline - wa_instant w - poll"
        using sleep assms(3) by (simp add: sleep_until_next_def sleep_duration_def min_def split: if_splits)
      have pos: "0 < deadline - wa_instant w" using sleep by simp
      have "deadline - wa_instant ?w < deadline - wa_instant w" using rest pos poll by linarith
      from less [OF this] obtain outcome w' where w':
        "wait_loop W deadline poll0 ?w = Some (outcome, w')" "explained W deadline (wa_monitor ?w) outcome w'"
        "wa_look w' \<le> wa_look ?w + (deadline - wa_instant ?w + poll - 1) div poll"
        by blast
      have "wa_look w' \<le> wa_look w + Suc ((deadline - wa_instant ?w + poll - 1) div poll)"
        using w'(3) by (simp add: sleep_until_next_def)
      also have "\<dots> \<le> wa_look w + (deadline - wa_instant w + poll - 1) div poll"
        using ceiling_step [OF poll pos rest] by simp
      finally show ?thesis
        using w' sleep by (simp add: wait_loop.simps [of W deadline poll0 w] turn) (simp add: sleep_until_next_def)
    qed
  qed
qed

lemma poll_nanos_pos: "0 < poll_nanos args"
proof -
  have "(1 :: u64) \<le> max (da_change_watch_interval_ms args) 1" by simp
  then have "1 \<le> unat (max (da_change_watch_interval_ms args) 1)" by (simp only: word_le_nat_alt unat_1)
  then show ?thesis by (simp add: poll_nanos_def)
qed

text \<open>C8: The wait between two cycles ends. The deadline is the reconcile interval from now; if its seconds
  do not fit into 63 bits the process panics at once, and otherwise the wait returns: if a sleep
  lasts at least as long as asked, up to the longest one the timer supports, then after at most as
  many looks at the files as poll intervals (or longest sleeps) fit into the reconcile interval,
  rounded up. Its outcome is explained by the last look: a trigger is a difference from the baseline
  there, the elapsed interval comes with the deadline and unchanged files, and an interrupt with the
  signal.\<close>

theorem wait_ends:
  assumes "sleeps_fully longest W"
  shows "let deadline = wa_instant w + interval_nanos args; turn = min (poll_nanos args) longest
         in if 2 ^ 63 \<le> deadline div 10 ^ 9
            then wait_for_next_cycle W args w = Some (Err (Panic ''overflow when adding duration to instant''))
            else \<exists>outcome w'. wait_for_next_cycle W args w = Some (Ok (outcome, w')) \<and>
                   wa_look w' \<le> wa_look w + (interval_nanos args + turn - 1) div turn \<and>
                   explained W deadline (wa_monitor w) outcome w'"
proof -
  obtain outcome w' where "wait_loop W (wa_instant w + interval_nanos args) (poll_nanos args) w = Some (outcome, w')"
    "wa_look w' \<le> wa_look w + (interval_nanos args + min (poll_nanos args) longest - 1) div min (poll_nanos args) longest"
    "explained W (wa_instant w + interval_nanos args) (wa_monitor w) outcome w'"
    using wait_loop_ends [OF assms poll_nanos_pos [of args] refl, of "wa_instant w + interval_nanos args" w] by auto
  then show ?thesis by (simp add: wait_for_next_cycle_def instant_add_def Let_def)
qed

section \<open>The identity at start-up\<close>

text \<open>What a start with an unreadable file does: the file is replaced by one of a fresh key, and no other changes.\<close>

lemma identity_created:
  assumes "keystore_ok X" and "length fresh = 32" and "ho_var host v = Some pass"
    and "FileKeystore_load X fs path pass = Err e"
    and "load_or_init_identity X host fresh salt nonce path v fs = (Ok identity, fs')"
  shows "identity = from_secret_bytes fresh" and "FileKeystore_load X fs' path pass = Ok identity"
    and "\<forall>p. p \<noteq> path \<longrightarrow> fs_read fs' p = fs_read fs p"
proof -
  from assms(3-5) have store: "FileKeystore_store X salt nonce fs path identity pass = (Ok (), fs')"
    and fresh: "identity = from_secret_bytes fresh"
    by (auto simp: load_or_init_identity_def Let_def split: result.splits prod.splits)
  show "identity = from_secret_bytes fresh" by (rule fresh)
  have "length (signing_key identity) = 32" using assms(2) fresh by (simp add: from_secret_bytes_def)
  from FileKeystore_store_load [OF assms(1) this store] show "FileKeystore_load X fs' path pass = Ok identity"
    "\<forall>p. p \<noteq> path \<longrightarrow> fs_read fs' p = fs_read fs p" by blast+
qed

text \<open>C10: The process keeps its identity. A start with an identity file that can be read takes the key in
  it and changes no file. Where there is no identity file, a start that succeeds takes the fresh key
  and leaves it in the file, every other file is as it was, and from then on every start with the
  passphrase, whatever it would draw for a fresh key, has the same identity and changes nothing.\<close>

theorem startup_identity:
  assumes "keystore_ok X" and "length fresh = 32" and "ho_var host v = Some pass"
  shows "(\<forall>known. FileKeystore_load X fs path pass = Ok known \<longrightarrow>
            load_or_init_identity X host fresh salt nonce path v fs = (Ok known, fs)) \<and>
         (\<forall>identity fs'. fs_files fs path = None \<longrightarrow>
            load_or_init_identity X host fresh salt nonce path v fs = (Ok identity, fs') \<longrightarrow>
            identity = from_secret_bytes fresh \<and> FileKeystore_load X fs' path pass = Ok identity \<and>
            (\<forall>p. p \<noteq> path \<longrightarrow> fs_read fs' p = fs_read fs p) \<and>
            (\<forall>fresh' salt' nonce'. load_or_init_identity X host fresh' salt' nonce' path v fs' = (Ok identity, fs')))"
proof -
  have known: "load_or_init_identity X host f s n path v gs = (Ok k, gs)" if "FileKeystore_load X gs path pass = Ok k" for f s n gs k
    using that assms(3) by (simp add: load_or_init_identity_def)
  have absent: "\<exists>e. FileKeystore_load X fs path pass = Err e" if "fs_files fs path = None"
    using that by (simp add: FileKeystore_load_def fs_read_def split: option.splits)
  have "identity = from_secret_bytes fresh \<and> FileKeystore_load X fs' path pass = Ok identity \<and>
      (\<forall>p. p \<noteq> path \<longrightarrow> fs_read fs' p = fs_read fs p)"
    if "fs_files fs path = None" "load_or_init_identity X host fresh salt nonce path v fs = (Ok identity, fs')" for identity fs'
    using absent [OF that(1)] identity_created [OF assms _ that(2)] by blast
  then show ?thesis by (auto intro: known)
qed

end
