(* ===== verification/Quip_Api_Laws.thy ===== *)
theory Quip_Api_Laws
  imports Quip_Daemon_Control Quip_Reevaluation_Laws
begin

text \<open>
  Laws of the daemon's control interface: every response is well typed for the operation it answers,
  and the queries read the runtime without changing it.
\<close>

section \<open>Typed responses\<close>

text \<open>The type of result each operation is documented to return.\<close>

definition result_of_operation :: "string \<Rightarrow> api_result \<Rightarrow> bool" where
  "result_of_operation operation v = (case v of
     RuntimeStatus_result _ \<Rightarrow> operation = ''runtime.status''
   | RuntimeSessionsList_result _ \<Rightarrow> operation = ''runtime.sessions.list''
   | RuntimeDiagnose_result _ \<Rightarrow> operation = ''runtime.diagnose''
   | RuntimeListenersList_result _ \<Rightarrow> operation = ''runtime.listeners.list''
   | RuntimePathsList_result _ \<Rightarrow> operation = ''runtime.paths.list''
   | RuntimeHealth_result _ \<Rightarrow> operation = ''runtime.health''
   | RuntimeEventsList_result _ \<Rightarrow> operation = ''runtime.events.list''
   | AuthorityShow_result _ \<Rightarrow> operation = ''authority.show''
   | AuthorityMembership_result _ \<Rightarrow> operation = ''authority.membership''
   | AuthorityCapabilities_result _ \<Rightarrow> operation = ''authority.capabilities''
   | AuthorityRevocations_result _ \<Rightarrow> operation = ''authority.revocations''
   | IdentityShow_result _ \<Rightarrow> operation = ''identity.show''
   | IdentityVerify_result _ \<Rightarrow> operation = ''identity.verify''
   | StateShow_result _ \<Rightarrow> operation = ''state.show''
   | StateValidate_result _ \<Rightarrow> operation = ''state.validate''
   | StateExport_result _ \<Rightarrow> operation = ''state.export''
   | StateReset_result _ \<Rightarrow> operation = ''state.reset''
   | AuthoritySync_result _ \<Rightarrow>
       operation \<in> {''authority.sync_snapshot'', ''authority.sync_origin'', ''authority.sync_revocations_origin''}
   | SessionConnect_result _ \<Rightarrow> operation = ''session.connect''
   | SessionClose_result _ \<Rightarrow> operation = ''session.close''
   | SessionUpgrade_result _ \<Rightarrow> operation = ''session.upgrade''
   | SessionReconcile_result _ \<Rightarrow> operation = ''session.reconcile'')"

definition typed_response :: "(api_result \<Rightarrow> bool) \<Rightarrow> string \<Rightarrow> response_envelope \<Rightarrow> bool" where
  "typed_response P request_id r \<longleftrightarrow>
     rse_request_id r = request_id \<and>
     (if rse_ok r then rse_error r = None \<and> (\<exists>v. rse_result r = Some v \<and> P v)
      else rse_result r = None \<and> (\<exists>e. rse_error r = Some e))"

text \<open>Every value a handler returns has the property.\<close>

definition yields :: "('a \<Rightarrow> bool) \<Rightarrow> ('s, 'a, 'e) comp \<Rightarrow> bool" where
  "yields P m \<longleftrightarrow> (\<forall>s v s'. m s = (Ok v, s') \<longrightarrow> P v)"

lemma yields_bind: "(\<And>v. yields P (f v)) \<Longrightarrow> yields P (bind_r m f)"
  by (auto simp: yields_def bind_r_Ok)

lemma yields_match: "(\<And>v. yields P (f v)) \<Longrightarrow> (\<And>e. yields P (h e)) \<Longrightarrow> yields P (match_r m f h)"
  by (fastforce simp: yields_def match_r_Ok)

lemma yields_return: "P v \<Longrightarrow> yields P (return_r v)"
  by (simp add: yields_def pure_Ok)

lemma typed_error:
  "typed_response P (rqe_request_id env) (ResponseEnvelope_error (rqe_request_id env) code msg d)"
  "typed_response P (rqe_request_id env) (daemon_error_response X (rqe_request_id env) e)"
  by (simp_all add: typed_response_def ResponseEnvelope_error_def daemon_error_response_def case_prod_beta)

lemma yields_error: "yields (typed_response P (rqe_request_id env)) (return_r (daemon_error_response X (rqe_request_id env) e))"
  by (intro yields_return typed_error)

lemma yields_refuse: "yields (typed_response P (rqe_request_id env)) (refuse env code msg d)"
  unfolding refuse_def by (intro yields_return typed_error)

lemma yields_answer: "(\<And>v. P (f v)) \<Longrightarrow> yields (typed_response P (rqe_request_id env)) (answer X env m f)"
  unfolding answer_def
  by (intro yields_match yields_error yields_return) (simp add: typed_response_def ResponseEnvelope_success_def)

lemma yields_payload:
  "(\<And>p. yields (typed_response P (rqe_request_id env)) (f p)) \<Longrightarrow>
   yields (typed_response P (rqe_request_id env)) (with_payload decode op env f)"
  by (simp add: with_payload_def yields_refuse split: result.split)

lemma yields_session_id:
  "(\<And>p. yields (typed_response P (rqe_request_id env)) (f p)) \<Longrightarrow>
   yields (typed_response P (rqe_request_id env)) (with_session_id env text f)"
  unfolding with_session_id_def by (intro yields_bind) (simp add: yields_refuse split: result.split)

lemmas yields_intros = yields_payload yields_session_id yields_answer yields_refuse yields_match yields_error

lemmas query_handlers = runtime_status_response_def runtime_sessions_response_def runtime_diagnose_response_def
  runtime_listeners_response_def runtime_paths_response_def runtime_health_response_def runtime_events_response_def
  authority_show_response_def authority_membership_response_def authority_capabilities_response_def
  authority_revocations_response_def identity_show_response_def identity_verify_response_def
  state_show_response_def state_validate_response_def

lemmas control_handlers = state_export_response_def state_reset_response_def authority_sync_snapshot_response_def
  authority_sync_origin_response_def authority_sync_revocations_origin_response_def authority_sync_response_def
  session_connect_response_def session_close_response_def session_upgrade_response_def session_reconcile_response_def

lemma connect_typed:
  "yields (typed_response (result_of_operation ''session.connect'') (rqe_request_id env))
     (session_connect_response E ctl c me env)"
  unfolding session_connect_response_def
  by (intro yields_payload yields_match yields_error)
     (auto simp: result_of_operation_def split: result.split intro!: yields_refuse yields_answer)

lemma upgrade_typed:
  "yields (typed_response (result_of_operation ''session.upgrade'') (rqe_request_id env))
     (session_upgrade_response E ctl c env)"
  unfolding session_upgrade_response_def
  by (intro yields_payload yields_session_id yields_match yields_error)
     (auto simp: result_of_operation_def split: option.split intro!: yields_refuse yields_answer)

lemma reset_typed:
  "yields (typed_response (result_of_operation ''state.reset'') (rqe_request_id env)) (state_reset_response E c env)"
  unfolding state_reset_response_def
  by (intro yields_payload) (auto simp: result_of_operation_def intro!: yields_refuse yields_answer)

lemma dispatch_typed:
  "yields (typed_response (result_of_operation (rqe_operation env)) (rqe_request_id env)) (dispatch E H ctl args c me env)"
proof -
  have step: "yields Q (if op = name then h else h')"
    if "op = name \<Longrightarrow> yields Q h" "yields Q h'" for op name :: string and Q and h h' :: "'r handler"
    using that by simp
  show ?thesis
    unfolding dispatch_def Let_def
    by (intro step yields_refuse)
       (simp_all only: connect_typed upgrade_typed reset_typed,
        (simp only: query_handlers control_handlers Let_def,
         (intro yields_payload yields_session_id)?, rule yields_answer, simp add: result_of_operation_def)+)
qed

lemma map_error_status_not_200: "map_error_status r \<noteq> 200"
  by (simp add: map_error_status_def split: option.split error_code.split)

text \<open>The envelope of a request, where the method, the path and the body are right.\<close>

definition decoded_request :: "'x daemon_env_scheme \<Rightarrow> control_request \<Rightarrow> request_envelope option" where
  "decoded_request E request =
     (if crq_method request = ''POST'' \<and> crq_url request = ''/rpc''
      then (case daemon_read_request_body request of
              Err _ \<Rightarrow> None
            | Ok body \<Rightarrow> (case request_from_slice E body of Err _ \<Rightarrow> None | Ok env \<Rightarrow> Some env))
      else None)"

text \<open>C7: Responses are well typed. A request that is not a readable envelope is refused with a status of
  its own and the runtime is not touched. Any other is answered under its own identifier: with
  status 200 and exactly a result of the type its operation documents, or with an error object, no
  result and the status of the error's code.\<close>

theorem responses_typed:
  assumes "route_control_request E H ctl args c me request s = (Ok (status, response), s')"
  shows "case decoded_request E request of
           None \<Rightarrow> \<not> rse_ok response \<and> rse_result response = None \<and> status \<in> {400, 404, 411, 413} \<and> s' = s
         | Some env \<Rightarrow>
             rse_request_id response = rqe_request_id env \<and> (status = 200 \<longleftrightarrow> rse_ok response) \<and>
             (if rse_ok response
              then rse_error response = None \<and>
                (\<exists>v. rse_result response = Some v \<and> result_of_operation (rqe_operation env) v)
              else rse_result response = None \<and> rse_error response \<noteq> None \<and> status = map_error_status response)"
proof (cases "decoded_request E request")
  case None
  then show ?thesis
    using assms
    by (auto simp: route_control_request_def decoded_request_def daemon_read_request_body_def unknown_request_def
        ResponseEnvelope_error_def return_r_def split: if_splits option.splits result.splits)
next
  case (Some env)
  then obtain body where b: "crq_method request = ''POST''" "crq_url request = ''/rpc''"
    "daemon_read_request_body request = Ok body" "request_from_slice E body = Ok env"
    by (auto simp: decoded_request_def split: if_splits result.splits)
  with assms have "dispatch E H ctl args c me env s = (Ok response, s')" and status: "status = response_status response"
    by (auto simp: route_control_request_def bind_r_Ok pure_Ok)
  with dispatch_typed [of env E H ctl args c me]
  have "typed_response (result_of_operation (rqe_operation env)) (rqe_request_id env) response"
    by (auto simp: yields_def)
  then show ?thesis
    using Some status by (auto simp: typed_response_def response_status_def map_error_status_not_200 split: if_splits)
qed

section \<open>Queries\<close>

text \<open>Nothing but the reading of the clock has moved.\<close>

definition undisturbed :: "'r runtime \<Rightarrow> 'r runtime \<Rightarrow> bool" where
  "undisturbed s0 s \<longleftrightarrow>
     vm_files s = vm_files s0 \<and> (\<exists>ck. vm_transport s = (vm_transport s0)\<lparr>qa_clock := ck\<rparr>)"

lemma undisturbed_refl [simp]: "undisturbed s s"
  by (auto simp: undisturbed_def intro: exI [of _ "qa_clock (vm_transport s)"])

lemma keeps_map_r: "(\<And>x. keeps I (f x)) \<Longrightarrow> keeps I (map_r f xs)"
  by (induction xs) (auto intro!: keeps_bind)

lemma keeps_clock: "keeps (undisturbed s0) clock_secs"
  by (auto simp: keeps_def clock_secs_def on_registry_def undisturbed_def now_secs_def current_unix_secs_def
      case_prod_beta)

lemma keeps_ask: "keeps I (ask f)"
  by (simp add: ask_def)

lemma keeps_files:
  assumes "\<And>fs. fs = vm_files s0 \<Longrightarrow> snd (m fs) = fs"
  shows "keeps (undisturbed s0) (on_files m)"
  using assms by (auto simp: keeps_def undisturbed_def on_files_def on_part_def case_prod_beta)


lemma keeps_ensured:
  assumes "fs_exists (vm_files s0) (dcf_state_path c)"
  shows "keeps (undisturbed s0) (on_files (ensure_state E c))"
  using ensure_state_present [OF assms] by (intro keeps_files) simp

lemma keeps_inspections:
  "keeps (undisturbed s0) (on_files (inspect_state_file E c))" "keeps (undisturbed s0) (on_files (validate_state_file E c))"
  by (intro keeps_files, simp add: inspect_state_file_def validate_state_file_def)+

lemmas query_steps = keeps_bind keeps_map_r keeps_clock keeps_ask keeps_inspections keeps_pure

lemma keeps_views:
  assumes "fs_exists (vm_files s0) (dcf_state_path c)"
  shows "keeps (undisturbed s0) (sync_runtime_sessions E c)" "keeps (undisturbed s0) (runtime_listeners E c)"
    "keeps (undisturbed s0) (runtime_paths E c)" "keeps (undisturbed s0) (runtime_events n)"
    "keeps (undisturbed s0) (runtime_health E c)"
proof -
  note step = query_steps keeps_ensured [OF assms]
  show "keeps (undisturbed s0) (sync_runtime_sessions E c)" unfolding sync_runtime_sessions_def by (intro step)
  show ls: "keeps (undisturbed s0) (runtime_listeners E c)" unfolding runtime_listeners_def by (intro step)
  show ps: "keeps (undisturbed s0) (runtime_paths E c)" unfolding runtime_paths_def by (intro step)
  show "keeps (undisturbed s0) (runtime_events n)" unfolding runtime_events_def by (intro step)
  show "keeps (undisturbed s0) (runtime_health E c)" unfolding runtime_health_def Let_def by (intro step ls ps)
qed

lemma keeps_entries:
  "keeps (undisturbed s0) (runtime_session_entry X x)" "keeps (undisturbed s0) (runtime_listener_entry l)"
  "keeps (undisturbed s0) (runtime_session_inventory X st)" "keeps (undisturbed s0) (latest_authority_status X st h)"
  unfolding runtime_session_entry_def runtime_listener_entry_def runtime_session_inventory_def latest_authority_status_def
  by (intro query_steps)+

lemma keeps_results:
  assumes "fs_exists (vm_files s0) (dcf_state_path c)"
  shows "keeps (undisturbed s0) (runtime_status_result E args c me)" "keeps (undisturbed s0) (runtime_health_result E c)"
    "keeps (undisturbed s0) (authority_show_result E args c)" "keeps (undisturbed s0) (identity_verify_result E args c me)"
    "keeps (undisturbed s0) (state_show_result E args c)"
  unfolding runtime_status_result_def runtime_health_result_def authority_show_result_def identity_verify_result_def
    state_show_result_def Let_def
  by (intro query_steps keeps_ensured [OF assms] keeps_views [OF assms] keeps_entries)+

lemma keeps_diagnose:
  assumes "fs_exists (vm_files s0) (dcf_state_path c)"
  shows "keeps (undisturbed s0) (runtime_diagnose_result E args c me n)"
  unfolding runtime_diagnose_result_def Let_def
  by (intro query_steps keeps_views [OF assms] keeps_entries keeps_results [OF assms])

lemma keeps_answer: "keeps I m \<Longrightarrow> keeps I (answer X env m f)"
  unfolding answer_def by (intro keeps_match keeps_pure)

definition query_operations :: "string list" where
  "query_operations = [''runtime.status'', ''runtime.sessions.list'', ''runtime.diagnose'', ''runtime.listeners.list'',
     ''runtime.paths.list'', ''runtime.health'', ''runtime.events.list'', ''authority.show'', ''authority.membership'',
     ''authority.capabilities'', ''authority.revocations'', ''identity.show'', ''identity.verify'', ''state.show'',
     ''state.validate'']"

lemma keeps_queries:
  assumes "fs_exists (vm_files s0) (dcf_state_path c)" and "rqe_operation env \<in> set query_operations"
  shows "keeps (undisturbed s0) (dispatch E H ctl args c me env)"
proof -
  note step = keeps_bind keeps_map_r keeps_ensured [OF assms(1)] keeps_inspections keeps_views [OF assms(1)] keeps_entries
    keeps_results [OF assms(1)] keeps_diagnose [OF assms(1)]
  have diagnose: "keeps (undisturbed s0) (runtime_diagnose_response E decode args c me env)" for decode
    unfolding runtime_diagnose_response_def with_payload_def refuse_def
    by (simp add: keeps_answer step split: result.split)
  have handlers: "keeps (undisturbed s0) (runtime_status_response E args c me env)"
    "keeps (undisturbed s0) (runtime_sessions_response E c env)" "keeps (undisturbed s0) (runtime_listeners_response E c env)"
    "keeps (undisturbed s0) (runtime_paths_response E c env)" "keeps (undisturbed s0) (runtime_health_response E c env)"
    "keeps (undisturbed s0) (runtime_events_response E env)" "keeps (undisturbed s0) (authority_show_response E args c env)"
    "keeps (undisturbed s0) (authority_membership_response E c env)"
    "keeps (undisturbed s0) (authority_capabilities_response E c env)"
    "keeps (undisturbed s0) (authority_revocations_response E c env)"
    "keeps (undisturbed s0) (identity_show_response E args c me env)"
    "keeps (undisturbed s0) (identity_verify_response E args c me env)"
    "keeps (undisturbed s0) (state_show_response E args c env)" "keeps (undisturbed s0) (state_validate_response E args c env)"
    unfolding query_handlers Let_def by (intro keeps_answer step)+
  from assms(2) show ?thesis
    unfolding query_operations_def set_simps insert_iff empty_iff dispatch_def
    by (elim disjE) (simp_all add: handlers diagnose)
qed

lemma runs_answer: "runs (\<lambda>_. True) (answer X env m f)"
  by (auto simp: runs_def answer_def match_r_def return_r_def split: prod.split result.split)

lemma runs_queries:
  assumes "rqe_operation env \<in> set query_operations"
  shows "runs (\<lambda>_. True) (dispatch E H ctl args c me env)"
proof -
  have diagnose: "runs (\<lambda>_. True) (runtime_diagnose_response E decode args c me env)" for decode
    by (simp add: runtime_diagnose_response_def with_payload_def refuse_def runs_answer split: result.split)
  from assms show ?thesis
    unfolding query_operations_def set_simps insert_iff empty_iff dispatch_def
    by (elim disjE) (simp_all add: diagnose, simp_all add: query_handlers runs_answer Let_def)
qed

text \<open>C9: Queries only read. On a node whose state file exists, each of the fifteen query operations returns
  a response, never a panic, and leaves every file and the whole transport (sessions, listeners,
  events, suppressions, attempts) as they were, but for the clock.\<close>

theorem queries_only_read:
  assumes "fs_exists (vm_files s) (dcf_state_path c)" and "rqe_operation env \<in> set query_operations"
  shows "\<exists>response s'. dispatch E H ctl args c me env s = (Ok response, s') \<and> vm_files s' = vm_files s \<and>
           (\<exists>ck. vm_transport s' = (vm_transport s)\<lparr>qa_clock := ck\<rparr>)"
proof -
  obtain response s' where r: "dispatch E H ctl args c me env s = (Ok response, s')"
    using runs_Ok [OF runs_queries [OF assms(2)] TrueI] by blast
  have "undisturbed s s'" by (rule keepsD [OF keeps_queries [OF assms] undisturbed_refl r])
  with r show ?thesis by (auto simp: undisturbed_def)
qed

end
