(* ===== verification/Quip_Cycle_Laws.thy ===== *)
theory Quip_Cycle_Laws
  imports Quip_Daemon_Process Quip_Reevaluation_Laws Quip_Durable_Laws
begin

text \<open>
  Laws of the daemon cycle. The parts of the state file the policy reads survive each save of the
  cycle, so the sessions that reconciliation leaves and the one the cycle opens are all judged by
  the same policy, and it is the one of the state the cycle reports.
\<close>

section \<open>The policy on disk\<close>

definition policy_of ::
  "daemon_state \<Rightarrow> string \<times> peer_id \<times> capability_grant list \<times> revocation_record list \<times> denied_peer list" where
  "policy_of st = (ds_network st, ds_local_peer_id st, ds_capability_grants st, ds_revocations st, ds_denied_peers st)"

lemma explain_policy_cong:
  assumes "policy_of st = policy_of st'"
  shows "explain_policy X st p pr = explain_policy X st' p pr"
proof -
  have "explain_local_protocol_policy X st pr = explain_local_protocol_policy X st' pr" "deny_reason st p = deny_reason st' p"
    using assms by (simp_all add: policy_of_def explain_local_protocol_policy_def deny_reason_def grants_for_peer_def
        is_capability_revoked_def Let_def)
  then show ?thesis by (simp add: explain_policy_def split: option.split)
qed

lemma policy_of_simps [simp]:
  "policy_of (st\<lparr>ds_active_sessions := ss\<rparr>) = policy_of st" "policy_of (st\<lparr>ds_roles := rs\<rparr>) = policy_of st"
  "policy_of (with_merged_candidates st) = policy_of st" "policy_of (with_active_session st x) = policy_of st"
  by (simp_all add: policy_of_def with_merged_candidates_def with_active_session_def)

text \<open>What the cycle needs of the serializer: a state that was saved can be loaded with its policy.\<close>

definition policy_survives :: "'x durable_env_scheme \<Rightarrow> daemon_config \<Rightarrow> bool" where
  "policy_survives E c \<longleftrightarrow>
     (\<forall>st fs fs'. save_state E c st fs = (Ok (), fs') \<longrightarrow>
        (\<exists>st'. DaemonState_load E fs' (dcf_state_path c) = Ok st' \<and> policy_of st' = policy_of st))"

text \<open>Reading the state again gives this policy and changes no file.\<close>

definition has_policy :: "'x durable_env_scheme \<Rightarrow> daemon_config \<Rightarrow> daemon_state \<Rightarrow> filesystem \<Rightarrow> bool" where
  "has_policy E c st fs \<longleftrightarrow> (\<exists>st'. ensure_state E c fs = (Ok st', fs) \<and> policy_of st' = policy_of st)"

lemma has_policy_saved:
  assumes "policy_survives E c" and "save_state E c st fs = (Ok u, fs')"
  shows "has_policy E c st fs'"
proof -
  from assms obtain st' where "DaemonState_load E fs' (dcf_state_path c) = Ok st'" "policy_of st' = policy_of st"
    unfolding policy_survives_def unit_eq [of u] by blast
  moreover from assms(2) have "state_exists c fs'"
    by (auto simp: save_state_def DaemonState_save_def state_exists_def fs_exists_def
        dest!: write_with_parent_Ok fs_write_Ok)
  ultimately show ?thesis
    by (auto simp: has_policy_def ensure_state_def load_state_def bind_r_def return_r_def reads_def)
qed

lemma has_policy_ensured:
  assumes "policy_survives E c" and "ensure_state E c fs = (Ok st, fs')"
  shows "has_policy E c st fs'"
proof (cases "state_exists c fs")
  case True
  with assms(2) have "fs' = fs" using ensure_state_present [of fs c E] by (simp add: state_exists_def)
  with assms(2) show ?thesis by (auto simp: has_policy_def)
next
  case False
  with assms(2) have "save_state E c st fs = (Ok (), fs')"
    by (auto simp: ensure_state_def bind_r_Ok then_r_Ok pure_Ok Let_def)
  then show ?thesis by (rule has_policy_saved [OF assms(1)])
qed

lemma has_policy_again:
  "has_policy E c st fs \<Longrightarrow> on_files (ensure_state E c) s = (Ok st', s') \<Longrightarrow> vm_files s = fs \<Longrightarrow>
   policy_of st' = policy_of st \<and> s' = s"
  by (auto simp: has_policy_def on_files_Ok)

lemma has_policy_cong: "policy_of st = policy_of st' \<Longrightarrow> has_policy E c st fs = has_policy E c st' fs"
  by (simp add: has_policy_def)

section \<open>Permitted sessions\<close>

text \<open>Every registered session has a protocol that the policy allows for its peer.\<close>

definition allowed_target :: "'x codecs_scheme \<Rightarrow> daemon_state \<Rightarrow> reconnect_key \<Rightarrow> bool" where
  "allowed_target X st key = (case key of (p, pr, tc) \<Rightarrow> \<exists>q. pr = Some q \<and> dc_allowed (explain_policy X st p q))"

definition permitted :: "'x codecs_scheme \<Rightarrow> daemon_state \<Rightarrow> 'r quic_adapter \<Rightarrow> bool" where
  "permitted X st a \<longleftrightarrow> adapter_wf a \<and> (\<forall>k key. targets a k = Some key \<longrightarrow> allowed_target X st key)"

lemma permitted_cong: "policy_of st = policy_of st' \<Longrightarrow> permitted X st a = permitted X st' a"
  by (simp add: permitted_def allowed_target_def explain_policy_cong [of st st'])

lemma permitted_sessions:
  assumes "permitted X st a" and "session \<in> set (active_sessions a)"
  shows "\<exists>protocol. ss_protocol session = Some protocol \<and> dc_allowed (explain_policy X st (ss_peer session) protocol)"
proof -
  have wf: "adapter_wf a" using assms(1) by (simp add: permitted_def)
  then have "targets a (ss_session_id session) = Some (session_target session)"
    using assms(2) active_session_ids(3) [OF wf] by (simp add: targets_def)
  with assms(1) have "allowed_target X st (session_target session)" unfolding permitted_def by blast
  then show ?thesis by (simp add: allowed_target_def session_target_def)
qed

lemma permitted_frame:
  assumes "permitted X st a" and "adapter_wf a \<Longrightarrow> adapter_wf b" and "qa_sessions b = qa_sessions a"
  shows "permitted X st b"
  using assms by (simp add: permitted_def targets_get)

lemma reconcile_leaves:
  assumes wf: "adapter_wf (vm_transport s)" and "reconcile_sessions E ctl c s = (Ok report, s')"
  obtains st st1 fs where "on_files (ensure_state E c) s = (Ok st, s\<lparr>vm_files := fs\<rparr>)"
    "permitted E st (vm_transport s')" "policy_of st1 = policy_of st" "save_state E c st1 fs = (Ok (), vm_files s')"
proof -
  let ?a = "vm_transport s" and ?a' = "vm_transport s'"
  from assms(2) obtain st fs rep acc s2 where
    en: "on_files (ensure_state E c) s = (Ok st, s\<lparr>vm_files := fs\<rparr>)" and
    loop: "for_each (reconcile_session E ctl) (active_sessions ?a) (st, rep) (s\<lparr>vm_files := fs\<rparr>) = (Ok acc, s2)" and
    sv: "save_with_sessions E c (fst acc) s2 = (Ok (), s')"
    by (fastforce simp: reconcile_sessions_def ok_iff on_files_Ok ask_Ok case_prod_beta)
  have wf1: "adapter_wf (vm_transport (s\<lparr>vm_files := fs\<rparr>))" using wf by simp
  from reconcile_loop [OF wf1 active_session_ids(2) [OF wf] loop] obtain es ss where
    ids: "map rce_session_id es = map ss_session_id (active_sessions ?a)" and acc: "fst acc = st\<lparr>ds_active_sessions := ss\<rparr>" and
    ev: "evolves (\<lambda>m k. if k \<in> dropped es then None else m k) (\<lambda>k. k) (s\<lparr>vm_files := fs\<rparr>) s2" and
    al: "\<And>e. e \<in> set es \<Longrightarrow> rce_disposition e \<noteq> RD_Closed \<Longrightarrow>
        (\<exists>p pr tc. targets ?a (rce_session_id e) = Some (p, Some pr, tc) \<and> dc_allowed (explain_policy E st p pr))"
    by auto
  have t: "?a' = vm_transport s2" using save_with_sessions_Ok [OF sv] .
  have wf': "adapter_wf ?a'" and t': "targets ?a' k = (if k \<in> dropped es then None else targets ?a k)" for k
    using ev wf1 t by (auto simp: evolves_def)
  have "allowed_target E st key" if "targets ?a' k = Some key" for k key
  proof -
    from that t' [of k] have k: "k \<notin> dropped es" "targets ?a k = Some key" by (auto split: if_splits)
    from k(2) have "k \<in> set (map rce_session_id es)" unfolding ids using targets_registered [OF wf, of k] by simp
    then obtain e where "e \<in> set es" "rce_session_id e = k" by auto
    with k al [of e] show ?thesis by (auto simp: dropped_def allowed_target_def)
  qed
  with wf' have perm: "permitted E st ?a'" by (simp add: permitted_def)
  from sv obtain ss' where "save_state E c ((fst acc)\<lparr>ds_active_sessions := ss'\<rparr>) (vm_files s2) = (Ok (), vm_files s')"
    by (auto simp: save_with_sessions_def ok_iff ask_Ok on_files_Ok)
  moreover have "vm_files s2 = fs" using ev by (simp add: evolves_def)
  ultimately show thesis using that [OF en perm, of "st\<lparr>ds_active_sessions := ss'\<rparr>"] acc by simp
qed

section \<open>Opening the target session\<close>

lemma connect_targets:
  assumes "adapter_connect X ctl route a = (res, a')" and "targets a' k = Some key"
  shows "targets a k = Some key \<or> key = route_target route"
proof (cases "find_reconnect_suppression a (rt_peer route) (rt_protocol route) (rt_class route)")
  case (Some x)
  then show ?thesis using assms by (auto simp: adapter_connect_def targets_get)
next
  case None
  obtain q a1 where s: "session_snapshot_for_route X ctl route a = (q, a1)" by (cases "session_snapshot_for_route X ctl route a")
  have a1: "qa_sessions a1 = qa_sessions a" using snapshot_for_route_frame(2) [of X ctl route a] s by simp
  show ?thesis
  proof (cases q)
    case (Err e)
    then show ?thesis using assms None s a1 by (simp add: adapter_connect_def targets_get)
  next
    case (Ok session)
    let ?r = "\<lparr>sx_snapshot = session, sx_alpn_protocol = alpn route\<rparr>"
    have "a' = snd (upsert_runtime_session X ctl ?r a1)"
      using assms(1) None s Ok by (auto simp: adapter_connect_def split: prod.splits result.splits)
    then have "qa_sessions a' = bt_insert (ss_session_id session) ?r (qa_sessions a)" by (simp add: a1)
    moreover have "session_target session = route_target route" using snapshot_for_route_target [of X ctl route a] s Ok by simp
    ultimately show ?thesis using assms(2) by (auto simp: targets_get split: if_splits)
  qed
qed

lemma connect_permitted:
  assumes "permitted X st a" and "adapter_connect X' ctl route a = (res, a')" and "allowed_target X st (route_target route)"
  shows "permitted X st a'"
  using assms adapter_wf_connect [of a X' ctl route] connect_targets [OF assms(2)] by (fastforce simp: permitted_def)

lemma save_with_sessions_transport: "vm_transport (snd (save_with_sessions E c st s)) = vm_transport s"
  by (simp add: save_with_sessions_def on_files_def on_part_def ask_def case_prod_beta)

lemma realize_permitted:
  assumes sv: "policy_survives E c" and p: "permitted E st (vm_transport s)" and h: "has_policy E c st (vm_files s)"
    and run: "realize_best_path E ctl c peer pr tc s = (res, s')"
  shows "permitted E st (vm_transport s') \<and> (is_ok res \<longrightarrow> has_policy E c st (vm_files s'))"
proof -
  from h obtain st0 where en: "on_files (ensure_state E c) s = (Ok st0, s)" and st0: "policy_of st0 = policy_of st"
    by (auto simp: has_policy_def on_files_Ok)
  note run = run [unfolded realize_best_path_def bind_r_def [of "on_files _"] en prod.case result.case Let_def]
  show ?thesis
  proof (cases "dc_allowed (explain_policy E st0 peer pr)")
    case False
    then show ?thesis using run p h by (simp add: raise_r_def)
  next
    case True
    note ok = True
    show ?thesis
    proof (cases "route_plan E st0 peer (Some pr) tc")
      case (Err e)
      then show ?thesis using run ok p h by (simp add: raise_r_def)
    next
      case (Ok route)
      obtain q a where conn: "adapter_connect E ctl route (vm_transport s) = (q, a)"
        by (cases "adapter_connect E ctl route (vm_transport s)")
      have "allowed_target E st (route_target route)"
        using ok route_plan_target [OF Ok] explain_policy_cong [OF st0, of E peer pr] by (simp add: allowed_target_def)
      from connect_permitted [OF p conn this] have pa: "permitted E st a" .
      show ?thesis
      proof (cases q)
        case (Err e)
        then show ?thesis
          using run ok Ok conn pa by (auto simp: bind_r_def on_transport_def on_part_def map_err_def is_ok_def)
      next
        fix handle assume q: "q = Ok handle"
        let ?s = "s\<lparr>vm_transport := a\<rparr>" and ?st = "with_active_session st0 (qc_session handle)"
        obtain u s2 where save: "save_with_sessions E c ?st ?s = (u, s2)" by (cases "save_with_sessions E c ?st ?s")
        then have s2: "s' = s2" "is_ok res \<longleftrightarrow> is_ok u" "vm_transport s2 = a"
          using run ok Ok conn q save_with_sessions_transport [of E c ?st ?s]
          by (auto simp: bind_r_def then_r_def on_transport_def on_part_def map_err_def is_ok_def return_r_def
              split: result.splits)
        have "has_policy E c st (vm_files s2)" if "is_ok u"
        proof -
          from that save obtain ss where "save_state E c (?st\<lparr>ds_active_sessions := ss\<rparr>) (vm_files ?s) = (Ok (), vm_files s2)"
            by (auto simp: is_ok_def save_with_sessions_def ask_Ok ok_iff on_files_Ok split: result.splits)
          from has_policy_saved [OF sv this] st0 show ?thesis by (simp cong: has_policy_cong add: has_policy_def)
        qed
        with s2 pa show ?thesis by simp
      qed
    qed
  qed
qed

text \<open>Steps that leave the sessions and files alone keep any property of both.\<close>

definition judged :: "'x codecs_scheme \<Rightarrow> daemon_state \<Rightarrow> (filesystem \<Rightarrow> bool) \<Rightarrow> 'r runtime \<Rightarrow> bool" where
  "judged X st P s \<longleftrightarrow> permitted X st (vm_transport s) \<and> P (vm_files s)"

lemma keeps_snd: "keeps I m \<Longrightarrow> I s \<Longrightarrow> I (snd (m s))"
  by (simp add: keeps_def)

lemma keeps_judged:
  assumes "\<And>a. adapter_wf a \<Longrightarrow> adapter_wf (snd (m a))" and "\<And>a. qa_sessions (snd (m a)) = qa_sessions a"
  shows "keeps (judged X st P) (on_transport m)"
  using assms permitted_frame by (fastforce simp: keeps_def judged_def on_transport_def on_part_def case_prod_beta)

lemma clear_attempt_sessions: "qa_sessions (snd (clear_reconnect_attempt X p pr tc r a)) = qa_sessions a"
  by (simp add: clear_reconnect_attempt_def Let_def split: option.split)

lemma keeps_judged_steps:
  "keeps (judged X st P) (on_transport (clear_reconnect_attempt X' p pr tc r))"
  "keeps (judged X st P) (on_transport (schedule_reconnect X' p pr tc r' m b x))"
  "keeps (judged X st P) (record_event ty su d)" "keeps (judged X st P) clock_secs" "keeps (judged X st P) (ask f)"
proof -
  show "keeps (judged X st P) (on_transport (clear_reconnect_attempt X' p pr tc r))"
    by (intro keeps_judged adapter_wf_clear_attempt clear_attempt_sessions)
  show "keeps (judged X st P) (on_transport (schedule_reconnect X' p pr tc r' m b x))"
    by (intro keeps_judged adapter_wf_schedule schedule_frame)
  show "keeps (judged X st P) (record_event ty su d)"
    unfolding record_event_def by (intro keeps_judged) (simp_all add: record_runtime_event_def adapter_wf_emit)
  show "keeps (judged X st P) clock_secs"
    by (auto simp: keeps_def judged_def clock_secs_def on_registry_def case_prod_beta intro: permitted_frame
        [where b = "snd (now_secs _)"])
  show "keeps (judged X st P) (ask f)" by (simp add: ask_def)
qed

text \<open>Whatever a step returns, the sessions are permitted; if it opened one, the files have the policy.\<close>

definition opens_permitted ::
  "'x durable_env_scheme \<Rightarrow> daemon_config \<Rightarrow> daemon_state \<Rightarrow> ('r, target_session_outcome) plane_op \<Rightarrow> bool" where
  "opens_permitted E c st m \<longleftrightarrow>
     (\<forall>s. judged E st (has_policy E c st) s \<longrightarrow> (case m s of (r, s') \<Rightarrow>
        permitted E st (vm_transport s') \<and> (\<forall>x. r = Ok (Target_Active x) \<longrightarrow> has_policy E c st (vm_files s'))))"

lemma opens_bind:
  assumes "keeps (judged E st (has_policy E c st)) m" and "\<And>v. opens_permitted E c st (f v)"
  shows "opens_permitted E c st (bind_r m f)"
  unfolding opens_permitted_def
proof (intro allI impI, goal_cases)
  case (1 s)
  then have j: "judged E st (has_policy E c st) (snd (m s))" by (rule keeps_snd [OF assms(1)])
  obtain r s1 where ms: "m s = (r, s1)" by (cases "m s")
  show ?case using j assms(2) ms by (cases r) (simp_all add: bind_r_def judged_def opens_permitted_def)
qed

lemma opens_then: "keeps (judged E st (has_policy E c st)) m \<Longrightarrow> opens_permitted E c st n \<Longrightarrow> opens_permitted E c st (then_r m n)"
  unfolding then_r_def by (rule opens_bind)

lemma opens_pure: "opens_permitted E c st (return_r v)" "opens_permitted E c st (raise_r e)"
  by (simp_all add: opens_permitted_def judged_def return_r_def raise_r_def)

lemma attempt_permitted:
  assumes "policy_survives E c"
  shows "opens_permitted E c st (attempt_target E ctl c now p pr tc)"
proof -
  let ?realize = "realize_best_path E ctl c p pr tc"
  let ?good = "\<lambda>x. then_r (on_transport (clear_reconnect_attempt E p (Some pr) tc (Some ''reconnect succeeded'')))
          (return_r (Target_Active x)) :: ('r, target_session_outcome) plane_op"
  have good: "judged E st (has_policy E c st) (snd (?good x s))" if "judged E st (has_policy E c st) s" for x and s :: "'r runtime"
    using that by (rule keeps_snd [OF keeps_then [OF keeps_judged_steps(1) keeps_pure(1)]])
  have bad: "permitted E st (vm_transport (snd (bind_r (on_transport (schedule_reconnect E p (Some pr) tc r
      RECONNECT_MAX_ATTEMPTS RECONNECT_BASE_BACKOFF_SECS RECONNECT_MAX_BACKOFF_SECS))
      (\<lambda>scheduled. return_r (scheduled_outcome now scheduled)) s)))" if "permitted E st (vm_transport s)" for r and s :: "'r runtime"
    using that keeps_snd [OF keeps_bind [OF keeps_judged_steps(2) [where P = "\<lambda>_. True"] keeps_pure(1)], of E st s]
    by (simp add: judged_def)
  have inactive: "fst (bind_r (on_transport (schedule_reconnect E p (Some pr) tc r m b x)) (\<lambda>scheduled. return_r (scheduled_outcome now scheduled)) s)
      \<noteq> Ok (Target_Active y)" for r m b x y and s :: "'r runtime"
    by (auto simp: bind_r_def return_r_def scheduled_outcome_def split: prod.split result.split runtime_reconnect_attempt_state.split)
  have "opens_permitted E c st (match_r ?realize ?good (\<lambda>error. bind_r
      (on_transport (schedule_reconnect E p (Some pr) tc (daemon_state_error_text E error)
         RECONNECT_MAX_ATTEMPTS RECONNECT_BASE_BACKOFF_SECS RECONNECT_MAX_BACKOFF_SECS))
      (\<lambda>scheduled. return_r (scheduled_outcome now scheduled))))"
    unfolding opens_permitted_def
  proof (intro allI impI, goal_cases)
    case (1 s)
    obtain r s1 where run: "?realize s = (r, s1)" by (cases "?realize s")
    from realize_permitted [OF assms _ _ run] 1 have
      s1: "permitted E st (vm_transport s1)" "is_ok r \<longrightarrow> has_policy E c st (vm_files s1)" by (auto simp: judged_def)
    show ?case
    proof (cases r)
      case (Ok x)
      then show ?thesis using run s1 good [of s1 x] by (simp add: match_r_def is_ok_def judged_def case_prod_beta)
    next
      case (Err e)
      then show ?thesis using run s1 by (simp add: match_r_def case_prod_beta bad inactive)
    qed
  qed
  then show ?thesis unfolding attempt_target_def by (intro opens_then keeps_judged_steps)
qed

lemma target_session_permitted:
  assumes "policy_survives E c"
  shows "opens_permitted E c st (ensure_target_session E ctl args c state protocol)"
  unfolding ensure_target_session_def Let_def
  by (intro opens_bind keeps_judged_steps)
     (auto split: option.split result.split
       intro!: opens_bind opens_then opens_pure keeps_judged_steps attempt_permitted [OF assms])

section \<open>The cycle\<close>

text \<open>Reevaluation keeps the registries of the transport well formed.\<close>

definition sound :: "'r runtime \<Rightarrow> bool" where
  "sound s \<longleftrightarrow> adapter_wf (vm_transport s)"

lemma keeps_sound_parts:
  "(\<And>a. adapter_wf a \<Longrightarrow> adapter_wf (snd (m a))) \<Longrightarrow> keeps sound (on_transport m)"
  "(\<And>a. adapter_wf a \<Longrightarrow> adapter_wf (snd (m a))) \<Longrightarrow> keeps sound (try_transport m)"
  "(\<And>a. adapter_wf a \<Longrightarrow> adapter_wf (snd (n a))) \<Longrightarrow> keeps sound (on_registry n)"
  "keeps sound (on_files k)" "keeps sound (ask f)"
  by (auto simp: keeps_def sound_def on_transport_def try_transport_def on_registry_def on_files_def on_part_def ask_def
      reads_def case_prod_beta)

lemma keeps_sound_steps:
  "keeps sound (record_event ty su d)" "keeps sound (set_session_state X sid st cr sr)"
  "keeps sound (on_transport (adapter_close_session X' ctl x))" "keeps sound (try_transport (adapter_migrate X' ctl x route))"
  "keeps sound (on_transport (suppress_reconnect X p pr tc r))" "keeps sound (on_transport (clear_reconnect_suppression X p pr tc))"
  "keeps sound (on_registry (update_listener_state i ls lr))"
  unfolding record_event_def set_session_state_def
  by (intro keeps_sound_parts, simp add: record_runtime_event_def adapter_wf_ops)+

lemmas sound_steps = keeps_sound_steps keeps_sound_parts(4,5) keeps_intros keeps_pure

lemma keeps_sound_sessions:
  "keeps sound (enforce_session X ctl x pr en rep)" "keeps sound (degrade_session X x pr why rep)"
  "keeps sound (migrate_session X ctl x pr route rep)"
  unfolding enforce_session_def degrade_session_def migrate_session_def fail_and_close_session_def
    record_path_failure_event_def Let_def
  by (intro sound_steps)+

lemma keeps_sound_keep: "keeps sound (keep_session X ctl st x pr rep)"
  unfolding keep_session_def Let_def
  by (intro keeps_bind keeps_then sound_steps)
     (auto split: result.split daemon_state_error.split intro!: sound_steps keeps_sound_sessions)

lemma keeps_sound_reevaluate: "keeps sound (reevaluate_runtime_authority E ctl c me)"
proof -
  have s: "keeps sound (reevaluate_session E ctl st mm lr x rep)" for st mm lr x rep
    unfolding reevaluate_session_def Let_def
    by (auto split: option.split intro!: keeps_sound_sessions keeps_sound_keep)
  have l: "keeps sound (reevaluate_listener E st lr li rep)" for st lr li rep
    unfolding reevaluate_listener_def Let_def by (auto split: option.split intro!: sound_steps)
  show ?thesis
    unfolding reevaluate_runtime_authority_def Let_def by (intro sound_steps s l)
qed

lemma sync_sessions_Ok:
  assumes "sync_runtime_sessions E c s = (Ok state, s')"
  obtains st where "on_files (ensure_state E c) s = (Ok st, s')" "vm_transport s' = vm_transport s"
    "state = st\<lparr>ds_active_sessions := active_sessions (vm_transport s')\<rparr>"
  using assms by (auto simp: sync_runtime_sessions_def ok_iff on_files_Ok ask_Ok)

lemma no_sessions_permitted: "adapter_wf a \<Longrightarrow> active_sessions a = [] \<Longrightarrow> permitted X st a"
  using targets_registered [of a] by (force simp: permitted_def)

lemma reconcile_permitted:
  assumes "policy_survives E c" and "\<not> da_disable_reconcile args" and "sound s"
    and sync: "sync_runtime_sessions E c s = (Ok state, s1)"
    and run: "cycle_reconcile E ctl args c state s1 = (Ok (rep, state'), s2)"
  shows "judged E state' (has_policy E c state') s2"
proof -
  from sync obtain st where en: "on_files (ensure_state E c) s = (Ok st, s1)" and t: "vm_transport s1 = vm_transport s" and
    st: "state = st\<lparr>ds_active_sessions := active_sessions (vm_transport s1)\<rparr>" by (rule sync_sessions_Ok)
  have wf: "adapter_wf (vm_transport s1)" using assms(3) t by (simp add: sound_def)
  have h: "has_policy E c state (vm_files s1)"
    using en has_policy_ensured [OF assms(1)] by (auto simp: on_files_Ok st has_policy_def)
  show ?thesis
  proof (cases "ds_active_sessions state = []")
    case True
    then show ?thesis
      using run assms(2) h no_sessions_permitted [OF wf] by (auto simp: cycle_reconcile_def pure_Ok judged_def st)
  next
    case False
    with run assms(2) obtain report s3 where
      r: "reconcile_sessions E ctl c s1 = (Ok report, s3)" and en': "on_files (ensure_state E c) s3 = (Ok state', s2)"
      by (auto simp: cycle_reconcile_def ok_iff)
    from reconcile_leaves [OF wf r] obtain st0 st1 fs where
      "permitted E st0 (vm_transport s3)" "policy_of st1 = policy_of st0" "save_state E c st1 fs = (Ok (), vm_files s3)" .
    moreover from this has_policy_saved [OF assms(1)] have h3: "has_policy E c st1 (vm_files s3)" by blast
    moreover note again = has_policy_again [OF h3 en' refl]
    ultimately show ?thesis
      using permitted_cong [of state' st0 E "vm_transport s3"] has_policy_cong [of state' st1 E c] by (simp add: judged_def)
  qed
qed

lemma cycle_connect_permitted:
  assumes "policy_survives E c" and j: "judged E state (has_policy E c state) s"
    and run: "cycle_connect E ctl args c state s = (Ok (active, status, state'), s')"
  shows "permitted E state' (vm_transport s')"
proof (cases "da_connect_protocol args")
  case None
  then show ?thesis using run j by (simp add: cycle_connect_def pure_Ok judged_def)
next
  case (Some protocol)
  obtain r s1 where t: "ensure_target_session E ctl args c state protocol s = (r, s1)"
    by (cases "ensure_target_session E ctl args c state protocol s")
  from target_session_permitted [OF assms(1), of state ctl args state protocol] t j have
    p: "permitted E state (vm_transport s1)" and h: "\<And>x. r = Ok (Target_Active x) \<Longrightarrow> has_policy E c state (vm_files s1)"
    by (fastforce simp: opens_permitted_def)+
  have same: ?thesis if "state' = state" "s' = s1" using that p by simp
  show ?thesis
  proof (cases "\<exists>x. r = Ok (Target_Active x)")
    case True
    then obtain x where x: "r = Ok (Target_Active x)" ..
    with run Some t have "on_files (ensure_state E c) s1 = (Ok state', s')"
      by (auto simp: cycle_connect_def match_r_def ok_iff)
    from has_policy_again [OF h [OF x] this refl] p permitted_cong [of state' state E "vm_transport s1"] show ?thesis by simp
  next
    case False
    then have "state' = state \<and> s' = s1"
      using run Some t by (auto simp: cycle_connect_def match_r_def pure_Ok split: result.splits target_session_outcome.splits)
    then show ?thesis using same by blast
  qed
qed

text \<open>C6: A cycle leaves only permitted sessions. When a cycle of a reconciling daemon completes, whatever
  triggered it and whatever it synchronised, closed, migrated or opened, every session registered
  with the transport carries a protocol that the policy of the state the cycle reports allows for
  its peer, and the registries are well formed for the next cycle.\<close>

theorem cycle_leaves_permitted:
  assumes "policy_survives E c" and "\<not> da_disable_reconcile args" and "adapter_wf (vm_transport s)"
    and "run_cycle E H ctl args c me trigger s = (Ok report, s')"
  shows "adapter_wf (vm_transport s') \<and>
         (\<forall>session \<in> set (active_sessions (vm_transport s')). \<exists>protocol.
            ss_protocol session = Some protocol \<and>
            dc_allowed (explain_policy E (dcr_state report) (ss_peer session) protocol))"
proof -
  from assms(4) obtain prep s1 u s2 re s3 state s4 rep state' s5 active status where
    a: "on_files (prepare_state_for_trigger E H args c me trigger) s = (Ok prep, s1)" and
    b: "sync_runtime_sessions E c s1 = (Ok u, s2)" and
    d: "cycle_reevaluation E ctl c me trigger s2 = (Ok re, s3)" and
    e: "sync_runtime_sessions E c s3 = (Ok state, s4)" and
    f: "cycle_reconcile E ctl args c state s4 = (Ok (rep, state'), s5)" and
    g: "cycle_connect E ctl args c state' s5 = (Ok (active, status, dcr_state report), s')"
    by (fastforce simp: run_cycle_def ok_iff case_prod_beta)
  have "sound s1" using assms(3) a by (auto simp: sound_def on_files_Ok)
  then have "sound s2" using b by (auto simp: sound_def elim: sync_sessions_Ok)
  then have "sound s3"
    using keepsD [OF keeps_sound_reevaluate] d by (auto simp: cycle_reevaluation_def ok_iff split: if_splits)
  from cycle_connect_permitted [OF assms(1) reconcile_permitted [OF assms(1,2) this e f] g]
  have ok: "permitted E (dcr_state report) (vm_transport s')" .
  have "adapter_wf (vm_transport s')" using ok by (simp add: permitted_def)
  with permitted_sessions [OF ok] show ?thesis by blast
qed

end
