(* ===== verification/Quip_Daemon_Witness.thy ===== *)
theory Quip_Daemon_Witness
  imports Quip_Process_Laws Quip_Api_Laws Quip_Cycle_Laws Quip_Authority_Wire
begin

text \<open>
  Concrete daemons for the laws of the process, of the control interface and of the cycle: a serializer
  that keeps the policy of a state, a request, and a world in which sleeps last exactly as long as
  asked.
\<close>

definition sample_args :: daemon_args where
  "sample_args = \<lparr>da_network = ''net'', da_state_path = ''state'', da_identity_path = ''id'',
     da_control_discovery_path = ''control.json'', da_control_bind = ''127.0.0.1:0'', da_identity_passphrase_env = ''PASS'',
     da_authority_snapshot = None, da_authority_origin = None, da_authority_subject = None, da_sync = False,
     da_revocation_sync = False, da_disable_reconcile = False, da_reconcile_verbose = False,
     da_reconcile_interval_seconds = 30, da_change_watch_interval_ms = 1000, da_network_change_trigger_path = None,
     da_force_network_reprobe = False, da_one_shot = False, da_connect_protocol = None, da_connect_peer = None,
     da_connect_class = ''interactive''\<rparr>"

section \<open>Waiting and start-up\<close>

definition calm :: "'r waiting" where
  "calm = \<lparr>wt_lag = (\<lambda>_. 0), wt_sleep = (\<lambda>_ d. d), wt_interrupt = (\<lambda>_. None), wt_modified = (\<lambda>_ _. None),
     wt_interlude = (\<lambda>_ s. s)\<rparr>"

definition sample_watch :: "relay_world watch" where
  "sample_watch = \<lparr>wa_monitor = DaemonTriggerMonitor_new (look calm 0 sample_runtime) sample_args,
     wa_runtime = sample_runtime, wa_look = 0, wa_instant = 0\<rparr>"

theorem wait_ends_witness:
  "(\<exists>outcome w'. wait_for_next_cycle calm sample_args sample_watch = Some (Ok (outcome, w')) \<and> wa_look w' \<le> 30) \<and>
   wait_for_next_cycle calm (sample_args\<lparr>da_reconcile_interval_seconds := 18446744073709551615\<rparr>) sample_watch =
     Some (Err (Panic ''overflow when adding duration to instant''))"
proof
  have sleeps: "sleeps_fully (10 ^ 12) calm" by (simp add: sleeps_fully_def calm_def)
  from wait_ends [OF sleeps, of sample_watch sample_args]
  show "\<exists>outcome w'. wait_for_next_cycle calm sample_args sample_watch = Some (Ok (outcome, w')) \<and> wa_look w' \<le> 30"
    by (auto simp: interval_nanos_def poll_nanos_def sample_args_def sample_watch_def)
  have "interval_nanos (sample_args\<lparr>da_reconcile_interval_seconds := 18446744073709551615\<rparr>) = 18446744073709551615 * 10 ^ 9"
    "wa_instant sample_watch = 0"
    by (simp_all add: interval_nanos_def max_def word_le_nat_alt sample_watch_def)
  with wait_ends [OF sleeps, of sample_watch "sample_args\<lparr>da_reconcile_interval_seconds := 18446744073709551615\<rparr>"]
  show "wait_for_next_cycle calm (sample_args\<lparr>da_reconcile_interval_seconds := 18446744073709551615\<rparr>) sample_watch =
     Some (Err (Panic ''overflow when adding duration to instant''))"
    by (simp add: Let_def)
qed

definition sample_host :: host where
  "sample_host = \<lparr>ho_var = (\<lambda>v. Some ''pw''), ho_pid = 1, ho_bind = (\<lambda>b. Ok b), ho_server = (\<lambda>_. Ok ())\<rparr>"

theorem startup_identity_witness:
  "\<exists>fs'. load_or_init_identity (sample_keystore ()) sample_host (replicate 32 7) [1] [2] ''key'' ''PASS'' sample_files =
           (Ok (IdentityKeypair (replicate 32 7)), fs') \<and>
         load_or_init_identity (sample_keystore ()) sample_host (replicate 32 8) [3] [4] ''key'' ''PASS'' fs' =
           (Ok (IdentityKeypair (replicate 32 7)), fs')"
proof -
  let ?k = "sample_keystore ()" and ?kp = "from_secret_bytes (replicate 32 7)"
  have "\<exists>e. FileKeystore_load ?k sample_files ''key'' ''pw'' = Err e"
    by (simp add: FileKeystore_load_def fs_read_def sample_files_def sample_keystore_sel unframe_key_file_def unframe.simps)
  moreover have "\<exists>fs'. FileKeystore_store ?k [1] [2] sample_files ''key'' ?kp ''pw'' = (Ok (), fs')"
    by (simp add: FileKeystore_store_def derive_file_key_def sample_keystore_sel fs_write_def Let_def sample_files_def)
  ultimately obtain fs' where
    run: "load_or_init_identity ?k sample_host (replicate 32 7) [1] [2] ''key'' ''PASS'' sample_files = (Ok ?kp, fs')"
    by (auto simp: load_or_init_identity_def sample_host_def healthy_disk(1) [OF sample_files_healthy])
  have "ho_var sample_host ''PASS'' = Some ''pw''" by (simp add: sample_host_def)
  note spec = startup_identity [OF sample_keystore_ok [of "()"] length_replicate [of 32 7] this, where fs = sample_files
      and path = "''key''" and salt = "[1]" and nonce = "[2]"]
  have "\<forall>fresh' salt' nonce'. load_or_init_identity ?k sample_host fresh' salt' nonce' ''key'' ''PASS'' fs' = (Ok ?kp, fs')"
    if "fs_files sample_files ''key'' = None"
    using spec [THEN conjunct2] that run by blast
  moreover have "fs_files sample_files ''key'' = None" by (simp add: sample_files_def)
  ultimately show ?thesis using run by (auto simp: from_secret_bytes_def)
qed

section \<open>The control interface\<close>

definition sample_request :: "string \<Rightarrow> request_envelope" where
  "sample_request op = \<lparr>rqe_request_id = ''r1'', rqe_operation = op, rqe_auth = \<lparr>rqa_kind = LocalProcess\<rparr>, rqe_payload = JNull\<rparr>"

definition sample_daemon_env :: "string \<Rightarrow> daemon_env" where
  "sample_daemon_env op = durable_env.extend sample_env
     (daemon_env.fields (\<lambda>_. Ok (sample_request op)) (\<lambda>_. []) (\<lambda>_. Ok []) (\<lambda>_. Err ''x'') (\<lambda>_. Err ''x'') (\<lambda>_. Err ''x'')
        (\<lambda>_. Err ''x'') (\<lambda>_. Err ''x'') (\<lambda>_. Err ''x'') (\<lambda>_. Err ''x'') (\<lambda>_. Err ''x'') (\<lambda>_. Err ''x'') (\<lambda>_. Err ''x''))"

definition silent_authority :: authority_reader where
  "silent_authority = \<lparr>hr_get = (\<lambda>_. Transport ''down''), hr_error_text = (\<lambda>_ _. ''down''),
     ar_snapshot = (\<lambda>_. Err ''x''), ar_relay_map = (\<lambda>_. Err ''x''), ar_revocations = (\<lambda>_. Err ''x'')\<rparr>"

definition rpc :: control_request where
  "rpc = \<lparr>crq_method = ''POST'', crq_url = ''/rpc'', crq_body_length = Some 2, crq_read_exact = (\<lambda>n. Ok (replicate n 0))\<rparr>"

theorem responses_typed_witness:
  "\<exists>status response s'.
     route_control_request (sample_daemon_env ''runtime.events.list'') silent_authority sample_ctl sample_args sample_config
       sample_identity rpc sample_runtime = (Ok (status, response), s') \<and>
     rse_request_id response = ''r1'' \<and> (status = 200 \<longleftrightarrow> rse_ok response)"
proof -
  let ?E = "sample_daemon_env ''runtime.events.list''" and ?env = "sample_request ''runtime.events.list''"
  have rd: "request_from_slice ?E b = Ok ?env" for b
    by (simp add: sample_daemon_env_def durable_env.extend_def daemon_env.fields_def)
  then have dec: "decoded_request ?E rpc = Some ?env"
    by (simp add: decoded_request_def rpc_def daemon_read_request_body_def)
  have "rqe_operation ?env \<in> set query_operations" by (simp add: sample_request_def query_operations_def)
  from runs_Ok [OF runs_queries [OF this] TrueI, of ?E silent_authority sample_ctl sample_args sample_config sample_identity]
  obtain response s' where
    d: "dispatch ?E silent_authority sample_ctl sample_args sample_config sample_identity ?env sample_runtime = (Ok response, s')"
    by blast
  then have run: "route_control_request ?E silent_authority sample_ctl sample_args sample_config sample_identity rpc
      sample_runtime = (Ok (response_status response, response), s')"
    by (simp add: route_control_request_def rd rpc_def daemon_read_request_body_def bind_r_def return_r_def)
  from responses_typed [OF run] dec run show ?thesis by (auto simp: sample_request_def)
qed

theorem queries_only_read_witness:
  "\<exists>response s'. dispatch (sample_daemon_env ''runtime.status'') silent_authority sample_ctl sample_args sample_config
     sample_identity (sample_request ''runtime.status'') sample_runtime = (Ok response, s') \<and>
     vm_files s' = sample_files \<and> active_sessions (vm_transport s') = [sample_session]"
proof -
  have "rqe_operation (sample_request ''runtime.status'') \<in> set query_operations"
    by (simp add: sample_request_def query_operations_def)
  from queries_only_read [OF sample_present this, of "sample_daemon_env ''runtime.status''" silent_authority sample_ctl
      sample_args sample_identity]
  obtain response s' ck where
    "dispatch (sample_daemon_env ''runtime.status'') silent_authority sample_ctl sample_args sample_config
       sample_identity (sample_request ''runtime.status'') sample_runtime = (Ok response, s')"
    "vm_files s' = sample_files" and t: "vm_transport s' = (vm_transport sample_runtime)\<lparr>qa_clock := ck\<rparr>"
    by (auto simp: sample_runtime_def)
  moreover have "active_sessions (vm_transport s') = [sample_session]"
    using sample_active by (simp add: t active_sessions_def)
  ultimately show ?thesis by blast
qed

section \<open>A cycle\<close>

text \<open>The policy is written into the file; everything else is read back from a fixed state.\<close>

definition w_denied :: "denied_peer wire" where
  "w_denied = w_iso (\<lambda>d. (dp_peer d, dp_reason d)) (\<lambda>(p, r). \<lparr>dp_peer = p, dp_reason = r\<rparr>) (w_pair w_peer_id w_string)"

definition w_policy ::
  "(string \<times> peer_id \<times> capability_grant list \<times> revocation_record list \<times> denied_peer list) wire" where
  "w_policy = w_pair w_string (w_pair w_peer_id (w_pair (w_list w_grant) (w_pair (w_list w_revocation) (w_list w_denied))))"

lemma w_policy_ok: "wire_ok w_policy"
proof -
  have d: "wire_ok w_denied" unfolding w_denied_def by (rule w_iso_ok) (intro wire_oks w_identifiers_ok, simp)
  show ?thesis unfolding w_policy_def by (intro wire_oks w_identifiers_ok w_artifacts_ok d)
qed

definition read_policy :: "json \<Rightarrow> (daemon_state, string) result" where
  "read_policy v = (case Option.bind (json_get ''network'' v) as_str of
     None \<Rightarrow> Err ''missing field''
   | Some t \<Rightarrow> (case w_from_str w_policy t of
       Err e \<Rightarrow> Err e
     | Ok (n, p, g, r, d) \<Rightarrow> Ok (sample_state\<lparr>ds_network := n, ds_local_peer_id := p, ds_capability_grants := g,
         ds_revocations := r, ds_denied_peers := d\<rparr>)))"

definition policy_env :: durable_env where
  "policy_env = sample_env
     \<lparr>value_from_slice := (\<lambda>bs. Ok (JObject [(''network'', JString (bytes_text bs)),
         (''schema_version'', json_u64 DAEMON_STATE_SCHEMA_VERSION)])),
      state_to_vec_pretty := (\<lambda>s. enc w_policy (policy_of s)), state_from_value := read_policy\<rparr>"

lemma policy_env_loads:
  assumes "fs_read fs path = Ok (enc w_policy (policy_of st))"
  shows "\<exists>st'. DaemonState_load policy_env fs path = Ok st' \<and> policy_of st' = policy_of st"
proof -
  let ?v = "JObject [(''network'', JString (bytes_text (enc w_policy (policy_of st)))),
    (''schema_version'', json_u64 DAEMON_STATE_SCHEMA_VERSION)]"
  have v: "validate_durable_state_value ?v = Ok ()"
    by (simp add: validate_Ok bt_get_def bt_keys_def allowed_fields_def)
  have "w_from_str w_policy (bytes_text (enc w_policy (policy_of st))) = Ok (policy_of st)"
    using w_roundtrips(2) [OF w_policy_ok, of "policy_of st"] by (simp add: w_to_string_def)
  then have "\<exists>st'. read_policy ?v = Ok st' \<and> policy_of st' = policy_of st"
    by (simp add: read_policy_def json_get_def bt_get_def as_str_def policy_of_def)
  with assms v show ?thesis
    by (auto simp: DaemonState_load_def policy_env_def)
qed

lemma policy_env_survives: "policy_survives policy_env c"
  unfolding policy_survives_def
proof (intro allI impI)
  fix st fs fs' assume "save_state policy_env c st fs = (Ok (), fs')"
  then have "fs_write fs (dcf_state_path c) (enc w_policy (policy_of st)) = (Ok (), fs')"
    by (auto simp: save_state_def DaemonState_save_def policy_env_def policy_of_def dest: write_with_parent_Ok)
  from fs_read_write [OF this, of "dcf_state_path c"] policy_env_loads show
    "\<exists>st'. DaemonState_load policy_env fs' (dcf_state_path c) = Ok st' \<and> policy_of st' = policy_of st" by simp
qed

lemma save_healthy:
  assumes "fs_fault fs = (\<lambda>_. None)"
  shows "\<exists>fs'. save_state E c st fs = (Ok (), fs') \<and> fs_fault fs' = (\<lambda>_. None)"
  using healthy_disk(2) [OF assms] assms by (simp add: save_state_def DaemonState_save_def)

definition policy_runtime :: "relay_world runtime" where
  "policy_runtime = sample_runtime\<lparr>vm_files := snd (save_state policy_env sample_config sample_state sample_files)\<rparr>"

abbreviation policed :: "filesystem \<Rightarrow> bool" where
  "policed fs \<equiv> has_policy policy_env sample_config sample_state fs \<and> fs_fault fs = (\<lambda>_. None)"

lemma policed_save:
  assumes "fs_fault fs = (\<lambda>_. None)" and "policy_of st = policy_of sample_state"
  shows "\<exists>fs'. save_state policy_env sample_config st fs = (Ok (), fs') \<and> policed fs'"
proof -
  obtain fs' where s: "save_state policy_env sample_config st fs = (Ok (), fs')" "fs_fault fs' = (\<lambda>_. None)"
    using save_healthy [OF assms(1)] by blast
  from has_policy_saved [OF policy_env_survives s(1)] s assms(2) show ?thesis by (simp add: has_policy_def)
qed

lemma policed_runtime: "policed (vm_files policy_runtime)"
  using policed_save [OF sample_files_healthy refl] by (auto simp: policy_runtime_def)

lemma policed_ensure:
  "policed fs \<Longrightarrow> \<exists>st. ensure_state policy_env sample_config fs = (Ok st, fs) \<and> policy_of st = policy_of sample_state"
  by (auto simp: has_policy_def)

lemma policed_prepare:
  assumes "policed fs"
  shows "\<exists>prep fs'. prepare_state_for_trigger policy_env H args sample_config me NetworkChangeRequested fs = (Ok prep, fs') \<and> policed fs'"
proof -
  obtain st where st: "ensure_state policy_env sample_config fs = (Ok st, fs)" "policy_of st = policy_of sample_state"
    using policed_ensure [OF assms] by blast
  let ?st = "with_merged_candidates (st\<lparr>ds_netcheck := reprobe_netcheck st ''network change trigger observed''\<rparr>)"
  have "policy_of ?st = policy_of sample_state" using st(2) by (simp add: policy_of_def with_merged_candidates_def)
  then obtain fs' where "save_state policy_env sample_config ?st fs = (Ok (), fs')" "policed fs'"
    using policed_save assms by blast
  moreover from this(2) obtain st' where "ensure_state policy_env sample_config fs' = (Ok st', fs')" using policed_ensure by blast
  ultimately show ?thesis
    using st(1) by (simp add: prepare_state_for_trigger_def reprobe_network_change_def Let_def bind_r_def then_r_def return_r_def)
qed

lemma sample_state_denies: "policy_of st = policy_of sample_state \<Longrightarrow> \<not> dc_allowed (explain_policy X st p pr)"
  using explain_policy_cong [of st sample_state X p pr]
  by (simp add: explain_policy_def explain_local_protocol_policy_def grants_for_peer_def sample_state_def
      fixture_daemon_state_def Let_def deny_reason_def has_capability_def evaluate.simps)

lemma sample_cycle:
  "\<exists>report s'. run_cycle policy_env silent_authority sample_ctl sample_args sample_config sample_identity
     NetworkChangeRequested policy_runtime = (Ok report, s')"
proof -
  let ?E = policy_env and ?c = sample_config
  obtain prep fs where prep: "prepare_state_for_trigger ?E silent_authority sample_args ?c sample_identity NetworkChangeRequested
      (vm_files policy_runtime) = (Ok prep, fs)" "policed fs"
    using policed_prepare [OF policed_runtime] by blast
  let ?s = "policy_runtime\<lparr>vm_files := fs\<rparr>"
  obtain st where st: "ensure_state ?E ?c fs = (Ok st, fs)" "policy_of st = policy_of sample_state"
    using policed_ensure [OF prep(2)] by blast
  have en: "on_files (ensure_state ?E ?c) ?s = (Ok st, ?s)" using st(1) by (simp add: on_files_def on_part_def)
  have t: "vm_transport ?s = vm_transport sample_runtime" by (simp add: policy_runtime_def)
  have "targets (vm_transport ?s) (ss_session_id sample_session) = Some (PeerId [9], Some (ProtocolId ''/quip/x/1''), Control)"
    unfolding t using sample_target by (simp add: sample_session_def)
  from denied_reconciles [OF en _ _ this sample_state_denies [OF st(2)], of sample_ctl] t sample_direct sample_active prep(2)
  obtain rep s2 where rec: "reconcile_sessions ?E sample_ctl ?c ?s = (Ok rep, s2)" by auto
  have "adapter_wf (vm_transport ?s)" unfolding t by (rule sample_adapter_wf)
  from reconcile_leaves [OF this rec] obtain st1 fs1 where "save_state ?E ?c st1 fs1 = (Ok (), vm_files s2)" by blast
  from has_policy_saved [OF policy_env_survives this] obtain st2 where
    "on_files (ensure_state ?E ?c) s2 = (Ok st2, s2)" by (auto simp: has_policy_def on_files_Ok)
  moreover have "sync_runtime_sessions ?E ?c ?s = (Ok (st\<lparr>ds_active_sessions := [sample_session]\<rparr>), ?s)"
    using en t sample_active by (simp add: sync_runtime_sessions_def bind_r_def ask_def reads_def return_r_def)
  moreover have "on_files (prepare_state_for_trigger ?E silent_authority sample_args ?c sample_identity NetworkChangeRequested)
      policy_runtime = (Ok prep, ?s)" using prep(1) by (simp add: on_files_def on_part_def)
  moreover have "da_connect_protocol sample_args = None" "\<not> da_disable_reconcile sample_args" by (simp_all add: sample_args_def)
  ultimately show ?thesis
    using rec by (simp add: run_cycle_def cycle_reevaluation_def reevaluates_def cycle_reconcile_def cycle_connect_def
        bind_r_def then_r_def return_r_def case_prod_beta)
qed

theorem cycle_leaves_permitted_witness:
  "\<exists>report s'. run_cycle policy_env silent_authority sample_ctl sample_args sample_config sample_identity
     NetworkChangeRequested policy_runtime = (Ok report, s') \<and> adapter_wf (vm_transport s') \<and>
     active_sessions (vm_transport policy_runtime) = [sample_session]"
proof -
  obtain report s' where run: "run_cycle policy_env silent_authority sample_ctl sample_args sample_config sample_identity
     NetworkChangeRequested policy_runtime = (Ok report, s')" using sample_cycle by blast
  have t: "vm_transport policy_runtime = vm_transport sample_runtime" by (simp add: policy_runtime_def)
  have "adapter_wf (vm_transport policy_runtime)" "\<not> da_disable_reconcile sample_args"
    using sample_adapter_wf t by (simp_all add: sample_args_def)
  from cycle_leaves_permitted [OF policy_env_survives this(2,1) run] run show ?thesis
    using sample_active by (auto simp: t)
qed

end
