(* ===== verification/Quip_Cli.thy ===== *)
theory Quip_Cli
  imports Quip_Daemon_Process
begin

text \<open>
  The command line client \<open>cmd/quip\<close>: its commands, the lines it prints and its requests to the
  daemon. The client runs on the files it shares with the daemon, on whatever answers behind the
  HTTP agent, and on its output. The serializers of the interface on the client's side are the
  fields of \<open>cli_env\<close>; the agent, the process environment, the clock and the random bytes are those
  of \<open>process\<close>.
\<close>

section \<open>Commands\<close>

datatype path_command =
    PC_Show "string option" string
  | PC_Watch "string option" string u64 u32

datatype runtime_command =
    RC_Target
  | RC_Diagnose nat
  | RC_Sessions
  | RC_Listeners
  | RC_Paths
  | RC_Health
  | RC_Events nat

datatype session_command =
    SC_List
  | SC_Connect string "string option" string string
  | SC_Close "string option"
  | SC_Upgrade "string option"
  | SC_Reconcile

datatype state_command =
    StC_Show
  | StC_Backup "string option" string string "string option" bool
  | StC_Export string string string "string option" bool
  | StC_Validate
  | StC_Migrate bool
  | StC_Restore string string bool bool
  | StC_Reset bool

datatype authority_command =
    AC_Show
  | AC_Membership
  | AC_Capabilities
  | AC_Revocations
  | AC_SyncSnapshot string
  | AC_SyncOrigin string "string option"
  | AC_SyncRevocationsOrigin string

datatype identity_command = IC_Path | IC_Show | IC_Verify | IC_Init bool

datatype command =
    C_Join string
  | C_JoinOrigin string "string option"
  | C_Status
  | C_Peers
  | C_PeerInspect "string option"
  | C_PolicyExplain string "string option"
  | C_Netcheck
  | C_Runtime runtime_command
  | C_Session session_command
  | C_Path path_command
  | C_Connect string "string option" string
  | C_SessionStatus
  | C_SessionClose "string option"
  | C_SessionUpgrade "string option"
  | C_SessionReconcile
  | C_State state_command
  | C_Authority authority_command
  | C_Identity identity_command
  | C_RelayStatus

record cli =
  cli_network :: string
  cli_state_path :: string
  cli_identity_path :: string
  cli_control_discovery_path :: string
  cli_identity_passphrase_env :: string
  cli_command :: "command option"

section \<open>The world of the client\<close>

text \<open>A \<open>ResponseEnvelope\<close> as it is received: the result is still a JSON value.\<close>

record received_envelope =
  rcv_ok :: bool
  rcv_request_id :: string
  rcv_result :: "json option"
  rcv_error :: "error_object option"

record cli_env = daemon_env +
  request_to_text :: "request_envelope \<Rightarrow> (string, string) result"
  envelope_from_text :: "string \<Rightarrow> (received_envelope, string) result"
  discovery_from_slice :: "bytes \<Rightarrow> (daemon_endpoint_discovery, string) result"
  json_to_text :: "json \<Rightarrow> (string, string) result"
  session_connect_to_value :: "session_connect_payload \<Rightarrow> (json, string) result"
  session_close_to_value :: "session_close_payload \<Rightarrow> (json, string) result"
  session_upgrade_to_value :: "session_upgrade_payload \<Rightarrow> (json, string) result"
  session_reconcile_to_value :: "session_reconcile_payload \<Rightarrow> (json, string) result"
  state_export_to_value :: "state_export_payload \<Rightarrow> (json, string) result"
  state_reset_to_value :: "state_reset_payload \<Rightarrow> (json, string) result"
  sync_snapshot_to_value :: "authority_sync_snapshot_payload \<Rightarrow> (json, string) result"
  sync_origin_to_value :: "authority_sync_origin_payload \<Rightarrow> (json, string) result"
  sync_revocations_origin_to_value :: "authority_sync_revocations_origin_payload \<Rightarrow> (json, string) result"
  runtime_status_from_value :: "json \<Rightarrow> (runtime_status_result, string) result"
  runtime_diagnose_result_from_value :: "json \<Rightarrow> (runtime_diagnose_result, string) result"
  runtime_sessions_from_value :: "json \<Rightarrow> (runtime_sessions_list_result, string) result"
  runtime_listeners_from_value :: "json \<Rightarrow> (runtime_listeners_list_result, string) result"
  runtime_paths_from_value :: "json \<Rightarrow> (runtime_paths_list_result, string) result"
  runtime_health_from_value :: "json \<Rightarrow> (runtime_health_result, string) result"
  runtime_events_from_value :: "json \<Rightarrow> (runtime_events_list_result, string) result"
  session_connect_result_from_value :: "json \<Rightarrow> (session_connect_result, string) result"
  session_close_result_from_value :: "json \<Rightarrow> (session_close_result, string) result"
  session_upgrade_result_from_value :: "json \<Rightarrow> (session_upgrade_result, string) result"
  session_reconcile_result_from_value :: "json \<Rightarrow> (session_reconcile_result, string) result"
  state_show_from_value :: "json \<Rightarrow> (state_show_result, string) result"
  state_export_result_from_value :: "json \<Rightarrow> (state_export_result, string) result"
  state_validate_from_value :: "json \<Rightarrow> (state_validate_result, string) result"
  state_reset_result_from_value :: "json \<Rightarrow> (state_reset_result, string) result"
  authority_show_from_value :: "json \<Rightarrow> (authority_show_result, string) result"
  authority_membership_from_value :: "json \<Rightarrow> (authority_membership_result, string) result"
  authority_capabilities_from_value :: "json \<Rightarrow> (authority_capabilities_result, string) result"
  authority_revocations_from_value :: "json \<Rightarrow> (authority_revocations_result, string) result"
  authority_sync_from_value :: "json \<Rightarrow> (authority_sync_result, string) result"
  identity_show_from_value :: "json \<Rightarrow> (identity_show_result, string) result"
  identity_verify_from_value :: "json \<Rightarrow> (identity_verify_result, string) result"

datatype file_kind = FK_File | FK_Dir | FK_Other

record file_metadata =
  fm_kind :: file_kind
  fm_len :: u64
  fm_mode :: u32

text \<open>What runs beside the client while it sleeps acts on the files and on the daemon.\<close>

record 'd process = host +
  pr_agent :: "(filesystem \<times> 'd) http_agent"
  pr_now :: u64
  pr_pause :: "u32 \<Rightarrow> filesystem \<times> 'd \<Rightarrow> filesystem \<times> 'd"
  pr_metadata :: "filesystem \<Rightarrow> string \<Rightarrow> file_metadata option"
  pr_fresh_key :: bytes
  pr_salt :: bytes
  pr_nonce :: bytes

record 'd cli_world =
  cw_files :: filesystem
  cw_daemon :: 'd
  cw_out :: "string list"

text \<open>The errors behind \<open>Box<dyn Error>\<close>, by the type the source boxes.\<close>

datatype cli_error =
    Usage string
  | Cli_Json string
  | Reply_Decode string
  | Cli_Io string
  | Cli_State daemon_state_error
  | Cli_Identity identity_error
  | Cli_Http string

definition cli_error_text :: "'x codecs_scheme \<Rightarrow> cli_error \<Rightarrow> string" where
  "cli_error_text X e = (case e of
     Usage s \<Rightarrow> s | Cli_Json s \<Rightarrow> s | Reply_Decode s \<Rightarrow> s | Cli_Io s \<Rightarrow> s
   | Cli_State e \<Rightarrow> daemon_state_error_text X e
   | Cli_Identity e \<Rightarrow> identity_error_text e
   | Cli_Http s \<Rightarrow> s)"

type_synonym ('d, 'a) cli_op = "('d cli_world, 'a, cli_error) comp"

definition usage_error :: "string \<Rightarrow> cli_error" where
  "usage_error message = Usage message"

definition println :: "string \<Rightarrow> ('d, unit) cli_op" where
  "println line w = (Ok (), w\<lparr>cw_out := cw_out w @ [line]\<rparr>)"

definition print_all :: "string list \<Rightarrow> ('d, unit) cli_op" where
  "print_all lines = for_each (\<lambda>line _. println line) lines ()"

definition on_disk :: "'a file_op \<Rightarrow> ('d, 'a) cli_op" where
  "on_disk = on_part cw_files (\<lambda>fs w. w\<lparr>cw_files := fs\<rparr>) Cli_State"

text \<open>\<open>serde_json::to_value(..)?\<close> and \<open>serde_json::to_string(..)?\<close>.\<close>

definition encoded :: "('a, string) result \<Rightarrow> ('d, 'a) cli_op" where
  "encoded r = from_result (map_err Cli_Json r)"

definition http_post :: "('d, 'p) process_scheme \<Rightarrow> string \<Rightarrow> string \<Rightarrow> ('d, http_reply) cli_op" where
  "http_post P endpoint body w =
     (case pr_agent P ''POST'' endpoint (Some body) (cw_files w, cw_daemon w) of
        (reply, fs, d) \<Rightarrow> (Ok reply, w\<lparr>cw_files := fs, cw_daemon := d\<rparr>))"

definition sleep_between :: "('d, 'p) process_scheme \<Rightarrow> u32 \<Rightarrow> ('d, unit) cli_op" where
  "sleep_between P index w =
     (case pr_pause P index (cw_files w, cw_daemon w) of
        (fs, d) \<Rightarrow> (Ok (), w\<lparr>cw_files := fs, cw_daemon := d\<rparr>))"

section \<open>Paths and variables\<close>

definition cli_expand_home_path :: "'p host_scheme \<Rightarrow> string \<Rightarrow> string" where
  "cli_expand_home_path P path = (case strip_prefix ''~/'' path of
     Some rest \<Rightarrow> (case ho_var P ''HOME'' of Some home \<Rightarrow> home @ ''/'' @ rest | None \<Rightarrow> path)
   | None \<Rightarrow> path)"

definition normalize_cli_paths :: "'p host_scheme \<Rightarrow> cli \<Rightarrow> cli" where
  "normalize_cli_paths P c = c
     \<lparr>cli_state_path := cli_expand_home_path P (cli_state_path c),
      cli_identity_path := cli_expand_home_path P (cli_identity_path c),
      cli_control_discovery_path := cli_expand_home_path P (cli_control_discovery_path c)\<rparr>"

definition default_hostname :: "'p host_scheme \<Rightarrow> string" where
  "default_hostname P = (case ho_var P ''HOSTNAME'' of
     Some name \<Rightarrow> name
   | None \<Rightarrow> (case ho_var P ''COMPUTERNAME'' of Some name \<Rightarrow> name | None \<Rightarrow> ''unknown-host''))"

definition default_backup_output_path :: "('d, 'p) process_scheme \<Rightarrow> string \<Rightarrow> string" where
  "default_backup_output_path P network =
     cli_expand_home_path P (''~/.quip/backup/'' @ network @ ''-'' @ show_word (pr_now P) @ ''.qbk'')"

definition required_env_value :: "'p host_scheme \<Rightarrow> string \<Rightarrow> (string, cli_error) result" where
  "required_env_value P name = (case ho_var P name of
     Some v \<Rightarrow> Ok v
   | None \<Rightarrow> Err (usage_error (''required environment variable '' @ name @ '' is not set'')))"

definition cli_class_label :: "traffic_class \<Rightarrow> string" where
  "cli_class_label c = (case c of
     Control \<Rightarrow> ''control'' | Interactive \<Rightarrow> ''interactive'' | Bulk \<Rightarrow> ''bulk'' | Background \<Rightarrow> ''background'')"

definition cli_parse_class :: "string \<Rightarrow> traffic_class" where
  "cli_parse_class v =
     (if v = ''control'' then Control else if v = ''bulk'' then Bulk
      else if v = ''background'' then Background else Interactive)"

definition resolve_peer :: "'x codecs_scheme \<Rightarrow> string option \<Rightarrow> daemon_state \<Rightarrow> (peer_id, cli_error) result" where
  "resolve_peer X peer state =
     (case Option.bind peer (\<lambda>v. case PeerId_from_str X v of Ok p \<Rightarrow> Some p | Err _ \<Rightarrow> None) of
        Some p \<Rightarrow> Ok p
      | None \<Rightarrow> (case first_peer state of
          Some entry \<Rightarrow> Ok (ps_peer (pi_snapshot entry))
        | None \<Rightarrow> Err (usage_error ''a peer is required or daemon state must contain at least one peer'')))"

definition resolve_daemon_session_id ::
  "string option \<Rightarrow> runtime_session_entry list \<Rightarrow> (string, cli_error) result" where
  "resolve_daemon_session_id session sessions = (case session of
     Some session \<Rightarrow>
       if length session \<noteq> 32 then Err (usage_error ''session ids supplied to CLI must be 32 hex characters'')
       else Ok session
   | None \<Rightarrow> (case sessions of
       entry # _ \<Rightarrow> Ok (arse_session_id entry)
     | [] \<Rightarrow> Err (usage_error ''a session id is required or an active session must exist'')))"

section \<open>Requests to the daemon\<close>

definition load_daemon_discovery :: "'x cli_env_scheme \<Rightarrow> string \<Rightarrow> ('d, daemon_endpoint_discovery) cli_op" where
  "load_daemon_discovery E path w =
     ((case fs_read (cw_files w) path of
         Err e \<Rightarrow> Err (Cli_Io e)
       | Ok bytes \<Rightarrow> map_err Cli_Json (discovery_from_slice E bytes)), w)"

definition error_code_debug :: "error_code \<Rightarrow> string" where
  "error_code_debug code = (case code of
     InvalidRequest \<Rightarrow> ''InvalidRequest'' | Unauthorized \<Rightarrow> ''Unauthorized'' | NotFound \<Rightarrow> ''NotFound''
   | RuntimeUnavailable \<Rightarrow> ''RuntimeUnavailable'' | StaleRuntimeReference \<Rightarrow> ''StaleRuntimeReference''
   | EC_PolicyRejected \<Rightarrow> ''PolicyRejected'' | AuthorityMismatch \<Rightarrow> ''AuthorityMismatch''
   | StateValidationFailed \<Rightarrow> ''StateValidationFailed'' | UnsupportedOperation \<Rightarrow> ''UnsupportedOperation''
   | InternalError \<Rightarrow> ''InternalError'')"

definition envelope_error :: "error_object option \<Rightarrow> cli_error" where
  "envelope_error error = usage_error (case error of
     Some e \<Rightarrow> error_code_debug (eob_code e) @ '': '' @ eob_message e
   | None \<Rightarrow> ''daemon request failed'')"

definition client_request :: "'p host_scheme \<Rightarrow> string \<Rightarrow> string \<Rightarrow> json \<Rightarrow> request_envelope" where
  "client_request P kind operation payload =
     \<lparr>rqe_request_id = kind @ ''-'' @ show_word (ho_pid P), rqe_operation = operation,
      rqe_auth = \<lparr>rqa_kind = LocalProcess\<rparr>, rqe_payload = payload\<rparr>"

definition read_envelope :: "'x cli_env_scheme \<Rightarrow> (string, string) result \<Rightarrow> (received_envelope, cli_error) result" where
  "read_envelope E body = map_err Reply_Decode (into_json (envelope_from_text E) body)"

definition read_reply ::
  "'x cli_env_scheme \<Rightarrow> (json \<Rightarrow> ('a, string) result) \<Rightarrow> http_reply \<Rightarrow> ('a, cli_error) result" where
  "read_reply E decode reply = (case reply of
     Response body \<Rightarrow> (case read_envelope E body of
         Err e \<Rightarrow> Err e
       | Ok envelope \<Rightarrow>
           if \<not> rcv_ok envelope then Err (envelope_error (rcv_error envelope))
           else (case rcv_result envelope of
                   None \<Rightarrow> Err (usage_error ''daemon response did not include a result'')
                 | Some v \<Rightarrow> map_err Reply_Decode (decode v)))
   | Status _ body \<Rightarrow> (case read_envelope E body of
         Err e \<Rightarrow> Err e
       | Ok envelope \<Rightarrow> Err (envelope_error (rcv_error envelope)))
   | Transport error \<Rightarrow> Err (Cli_Http error))"

definition daemon_request ::
  "'x cli_env_scheme \<Rightarrow> ('d, 'p) process_scheme \<Rightarrow> cli \<Rightarrow> (json \<Rightarrow> ('a, string) result) \<Rightarrow> string \<Rightarrow> json \<Rightarrow>
   ('d, 'a) cli_op" where
  "daemon_request E P c decode operation payload =
     bind_r (load_daemon_discovery E (cli_control_discovery_path c)) (\<lambda>discovery.
     bind_r (encoded (request_to_text E (client_request P ''req'' operation payload))) (\<lambda>body.
     bind_r (http_post P (ded_endpoint discovery) body) (\<lambda>reply.
       from_result (read_reply E decode reply))))"

definition daemon_endpoint_is_live ::
  "'x cli_env_scheme \<Rightarrow> ('d, 'p) process_scheme \<Rightarrow> cli \<Rightarrow> ('d, bool) cli_op" where
  "daemon_endpoint_is_live E P c =
     match_r (load_daemon_discovery E (cli_control_discovery_path c))
       (\<lambda>discovery.
          bind_r (encoded (request_to_text E (client_request P ''probe'' ''runtime.health'' (JObject [])))) (\<lambda>body.
          bind_r (http_post P (ded_endpoint discovery) body) (\<lambda>reply.
            return_r (case reply of Transport _ \<Rightarrow> False | _ \<Rightarrow> True))))
       (\<lambda>_. return_r False)"

end
