(* ===== verification/Quip_Cli_Views.thy ===== *)
theory Quip_Cli_Views
  imports Quip_Cli
begin

text \<open>
  The lines the client prints. A line is a sequence of \<open>key=value\<close> fields; the definitions follow the
  format strings of \<open>cmd/quip/src/main.rs\<close>.
\<close>

section \<open>Fields\<close>

definition field_line :: "(string \<times> string) list \<Rightarrow> string" where
  "field_line kvs = join '' '' (map (\<lambda>(k, v). k @ ''='' @ v) kvs)"

abbreviation or_none :: "string option \<Rightarrow> string" where
  "or_none x \<equiv> or_else x ''none''"

definition none_or :: "('a \<Rightarrow> string) \<Rightarrow> 'a option \<Rightarrow> string" where
  "none_or f x = or_else (map_option f x) ''none''"

definition render_csv :: "string list \<Rightarrow> string" where
  "render_csv values = (if values = [] then ''none'' else join '','' values)"

definition render_roles :: "string list \<Rightarrow> string" where
  "render_roles roles = render_csv roles"

definition render_structured_limits :: "u64 option \<Rightarrow> u32 option \<Rightarrow> u64 option \<Rightarrow> string" where
  "render_structured_limits bandwidth_bps concurrent_streams max_object_bytes =
     ''bandwidth_bps:'' @ none_or show_word bandwidth_bps @
     ''|concurrent_streams:'' @ none_or show_word concurrent_streams @
     ''|max_object_bytes:'' @ none_or show_word max_object_bytes"

text \<open>\<open>{:?}\<close> of strings and lists of them. A character beyond ASCII is printed as it is.\<close>

definition debug_char :: "char \<Rightarrow> string" where
  "debug_char c = (let n = of_char c :: nat in
     if c = CHR 0x22 then [CHR 0x5C, CHR 0x22] else if c = CHR 0x5C then [CHR 0x5C, CHR 0x5C]
     else if n = 0 then [CHR 0x5C, CHR ''0''] else if n = 9 then [CHR 0x5C, CHR ''t'']
     else if n = 10 then [CHR 0x5C, CHR ''n''] else if n = 13 then [CHR 0x5C, CHR ''r'']
     else if n < 16 then [CHR 0x5C] @ ''u{'' @ [hex_digit n] @ ''}''
     else if n < 32 \<or> n = 127 then [CHR 0x5C] @ ''u{'' @ [hex_digit (n div 16), hex_digit (n mod 16)] @ ''}''
     else [c])"

definition debug_string :: "string \<Rightarrow> string" where
  "debug_string s = [CHR 0x22] @ concat (map debug_char s) @ [CHR 0x22]"

definition debug_strings :: "string list \<Rightarrow> string" where
  "debug_strings ss = ''['' @ join '', '' (map debug_string ss) @ '']''"

definition peer_source_debug :: "peer_source \<Rightarrow> string" where
  "peer_source_debug s = (case s of
     PS_Bootstrap \<Rightarrow> ''Bootstrap'' | PS_RelayMap \<Rightarrow> ''RelayMap'' | PS_Discovery \<Rightarrow> ''Discovery''
   | PS_Manual \<Rightarrow> ''Manual'' | PS_Observed \<Rightarrow> ''Observed'')"

definition peer_reachability_debug :: "peer_reachability \<Rightarrow> string" where
  "peer_reachability_debug r = (case r of
     PR_Unknown \<Rightarrow> ''Unknown'' | PR_Direct \<Rightarrow> ''Direct'' | PR_Relayed \<Rightarrow> ''Relayed''
   | PR_Unreachable \<Rightarrow> ''Unreachable'')"

section \<open>Peers and relays\<close>

definition peer_columns :: "'x codecs_scheme \<Rightarrow> peer_inspection \<Rightarrow> string" where
  "peer_columns X peer =
     PeerId_to_text X (ps_peer (pi_snapshot peer)) @ '' '' @ peer_source_debug (pst_source (pi_status peer)) @ '' '' @
     peer_reachability_debug (pst_reachability (pi_status peer)) @ '' '' @
     debug_strings (ps_addresses (pi_snapshot peer))"

definition peer_line :: "'x codecs_scheme \<Rightarrow> daemon_state \<Rightarrow> peer_inspection \<Rightarrow> string" where
  "peer_line X state peer =
     peer_columns X peer @ (case deny_reason state (ps_peer (pi_snapshot peer)) of
       Some reason \<Rightarrow> '' denied='' @ reason | None \<Rightarrow> [])"

definition inspection_lines ::
  "'x codecs_scheme \<Rightarrow> daemon_state \<Rightarrow> peer_inspection \<Rightarrow> path_decision option \<Rightarrow> string list" where
  "inspection_lines X state entry best =
     [peer_columns X entry @ '' records='' @ show_nat (pi_record_count entry)] @
     (case deny_reason state (ps_peer (pi_snapshot entry)) of
        Some reason \<Rightarrow> [''denied: '' @ reason] | None \<Rightarrow> []) @
     (case best of Some path \<Rightarrow> [pe_summary (pd_explanation path)] | None \<Rightarrow> [])"

definition relay_line :: "'x codecs_scheme \<Rightarrow> relay_announcement \<Rightarrow> string" where
  "relay_line X relay = field_line
     [(''peer'', PeerId_to_text X (an_peer_id relay)), (''region'', an_region relay),
      (''endpoints'', debug_strings (an_advertised_endpoints relay)),
      (''control_endpoint'', an_control_endpoint relay),
      (''max_bandwidth_bps'', show_word (an_max_bandwidth_bps relay)),
      (''datagrams'', show_bool (an_supports_quic_datagrams relay)),
      (''migration'', show_bool (an_supports_path_migration relay)),
      (''classes'', join '','' (an_traffic_classes relay))]"

definition relay_lines :: "'x codecs_scheme \<Rightarrow> daemon_state \<Rightarrow> string list" where
  "relay_lines X state =
     (if relay_announcements state = [] then [''no relay announcements available'']
      else map (relay_line X) (relay_announcements state))"

section \<open>Runtime\<close>

text \<open>The authority fields of \<open>status\<close> and \<open>authority show\<close>, and the shorter ones after a synchronization.\<close>

definition authority_effect_fields :: "authority_sync_status \<Rightarrow> (string \<times> string) list" where
  "authority_effect_fields a =
     [(''authority_subject_mismatch'', show_bool (ass_authority_subject_mismatch a)),
      (''authority_local_policy_denied'', show_bool (ass_local_policy_denied a)),
      (''authority_reason'', or_none (ass_local_policy_reason a)),
      (''authority_reevaluated_sessions'', show_nat (ass_reevaluated_sessions a)),
      (''authority_closed_sessions'', show_nat (ass_closed_sessions a)),
      (''authority_degraded_sessions'', show_nat (ass_degraded_sessions a)),
      (''authority_migrated_sessions'', show_nat (ass_migrated_sessions a)),
      (''authority_unchanged_sessions'', show_nat (ass_unchanged_sessions a)),
      (''authority_reevaluated_listeners'', show_nat (ass_reevaluated_listeners a)),
      (''authority_suppressed_listeners'', show_nat (ass_suppressed_listeners a)),
      (''authority_restored_listeners'', show_nat (ass_restored_listeners a)),
      (''authority_reconnect_suppressions_added'', show_nat (ass_reconnect_suppressions_added a)),
      (''authority_reconnect_suppressions_cleared'', show_nat (ass_reconnect_suppressions_cleared a)),
      (''authority_revision'', ass_last_accepted_revision a)]"

definition sync_effect_fields :: "authority_sync_status \<Rightarrow> (string \<times> string) list" where
  "sync_effect_fields a =
     [(''authority_revision'', ass_last_accepted_revision a), (''authority_sync'', ass_sync_status a),
      (''authority_health'', ass_health a),
      (''authority_reevaluated_sessions'', show_nat (ass_reevaluated_sessions a)),
      (''authority_closed_sessions'', show_nat (ass_closed_sessions a)),
      (''authority_degraded_sessions'', show_nat (ass_degraded_sessions a)),
      (''authority_migrated_sessions'', show_nat (ass_migrated_sessions a)),
      (''authority_reconnect_suppressions_added'', show_nat (ass_reconnect_suppressions_added a))]"

definition status_report_line :: "runtime_status_result \<Rightarrow> string" where
  "status_report_line status = field_line
     ([(''daemon_health'', rsr_daemon_health status), (''identity_status'', ais_status (rsr_identity status)),
       (''identity_peer'', ais_node_id (rsr_identity status)),
       (''durable_state_status'', dss_status (rsr_durable_state status)),
       (''schema_version'', show_word (dss_schema_version (rsr_durable_state status))),
       (''authority_sync'', ass_sync_status (rsr_authority status)),
       (''authority_health'', ass_health (rsr_authority status))] @
      authority_effect_fields (rsr_authority status) @
      [(''runtime_sessions'', show_nat (ars_session_count (rsr_runtime_summary status))),
       (''active_paths'', show_nat (ars_active_path_count (rsr_runtime_summary status))),
       (''reconnect_state'', ars_reconnect_state (rsr_runtime_summary status)),
       (''truth_kind'', rsr_truth_kind status)])"

definition target_line :: "cli \<Rightarrow> daemon_endpoint_discovery \<Rightarrow> string" where
  "target_line c discovery = field_line
     [(''endpoint'', ded_endpoint discovery), (''discovery_path'', cli_control_discovery_path c),
      (''network'', ded_network discovery), (''state_path'', ded_state_path discovery),
      (''identity_path'', ded_identity_path discovery),
      (''runtime_instance_id'', ded_runtime_instance_id discovery), (''pid'', show_word (ded_pid discovery)),
      (''started_at_unix_secs'', show_word (ded_started_at_unix_secs discovery))]"

definition diagnose_line :: "daemon_endpoint_discovery \<Rightarrow> runtime_diagnose_result \<Rightarrow> string" where
  "diagnose_line discovery d = field_line
     [(''classification'', rdr_primary_classification d), (''issues'', show_nat (length (rdr_issues d))),
      (''endpoint'', ded_endpoint discovery), (''runtime_instance_id'', ded_runtime_instance_id discovery),
      (''pid'', show_word (ded_pid discovery)), (''discovery_network'', ded_network discovery),
      (''discovery_state_path'', ded_state_path discovery),
      (''discovery_identity_path'', ded_identity_path discovery),
      (''daemon_health'', rsr_daemon_health (rdr_status d)),
      (''durable_state_valid'', show_bool (ssr_valid (rdr_state d))),
      (''identity_match'', ivr_match_result (rdr_identity d)),
      (''authority_sync'', ass_sync_status (asr_authority (rdr_authority_show d))),
      (''authority_health'', ass_health (asr_authority (rdr_authority_show d))),
      (''reconnect_state'', rhr_reconnect_state (rdr_health d)),
      (''sessions'', show_nat (length (rdr_sessions d))), (''paths'', show_nat (length (rdr_paths d))),
      (''listeners'', show_nat (length (rdr_listeners d))), (''events'', show_nat (length (rdr_events d))),
      (''truth_kind'', rdr_truth_kind d)]"

definition issue_line :: "runtime_diagnosis_issue \<Rightarrow> string" where
  "issue_line i = field_line
     [(''issue_code'', rdi_code i), (''severity'', rdi_severity i), (''layer'', rdi_layer i), (''summary'', rdi_summary i)]"

definition session_line :: "string \<Rightarrow> runtime_session_entry \<Rightarrow> string" where
  "session_line truth_kind session = field_line
     [(''session_id'', arse_session_id session), (''peer'', arse_peer_id session), (''state'', arse_state session),
      (''closure_reason'', or_none (arse_closure_reason session)),
      (''state_reason'', or_none (arse_state_reason session)), (''path'', arse_active_path_class session),
      (''age_seconds'', show_word (arse_age_seconds session)),
      (''last_activity_seconds'', show_word (arse_last_activity_seconds session)), (''truth_kind'', truth_kind)]"

definition sessions_lines :: "runtime_sessions_list_result \<Rightarrow> string list" where
  "sessions_lines sessions =
     (if rslr_sessions sessions = [] then [''truth_kind='' @ rslr_truth_kind sessions @ '' sessions=0'']
      else map (session_line (rslr_truth_kind sessions)) (rslr_sessions sessions))"

definition render_runtime_listener_line :: "runtime_listener_entry \<Rightarrow> string \<Rightarrow> string" where
  "render_runtime_listener_line listener truth_kind = field_line
     [(''listener_id'', rle_listener_id listener), (''transport'', rle_transport listener),
      (''protocol'', rle_protocol listener), (''advertise'', show_bool (rle_advertise listener)),
      (''state'', rle_state listener), (''state_reason'', or_none (rle_state_reason listener)),
      (''bind_summary'', rle_bind_summary listener), (''age_seconds'', show_word (rle_age_seconds listener)),
      (''truth_kind'', truth_kind)]"

definition emit_runtime_listeners :: "runtime_listeners_list_result \<Rightarrow> string list" where
  "emit_runtime_listeners listeners =
     (if rllr_listeners listeners = [] then [''truth_kind='' @ rllr_truth_kind listeners @ '' listeners=0'']
      else map (\<lambda>l. render_runtime_listener_line l (rllr_truth_kind listeners)) (rllr_listeners listeners))"

definition render_runtime_path_alternatives :: "runtime_path_alternative_entry list \<Rightarrow> string" where
  "render_runtime_path_alternatives alternatives =
     (if alternatives = [] then ''none''
      else join '', '' (map (\<lambda>a.
        rpae_path_class a @ ''/score='' @ show_word (rpae_score a) @ ''/source='' @ rpae_source a @
        ''/relay='' @ or_else (rpae_relay_peer_id a) ''direct'') alternatives))"

definition render_runtime_path_line :: "runtime_path_entry \<Rightarrow> string \<Rightarrow> string" where
  "render_runtime_path_line p truth_kind = field_line
     [(''session_id'', or_none (rpe_session_id p)), (''peer'', rpe_peer_id p),
      (''protocol'', or_none (rpe_protocol p)), (''class'', rpe_class p), (''state'', rpe_state p),
      (''path'', rpe_path_class p), (''source'', rpe_source p), (''relay_peer'', or_none (rpe_relay_peer_id p)),
      (''endpoint'', rpe_endpoint_summary p), (''score'', none_or show_word (rpe_score p)),
      (''state_reason'', or_none (rpe_state_reason p)), (''decision_reason'', or_none (rpe_decision_reason p)),
      (''summary'', [CHR 0x22] @ rpe_summary p @ [CHR 0x22]),
      (''alternatives'', ''['' @ render_runtime_path_alternatives (rpe_alternatives p) @ '']''),
      (''truth_kind'', truth_kind)]"

definition emit_filtered_runtime_paths :: "string \<Rightarrow> runtime_path_entry list \<Rightarrow> string list" where
  "emit_filtered_runtime_paths truth_kind paths =
     (if paths = [] then [''truth_kind='' @ truth_kind @ '' paths=0'']
      else map (\<lambda>p. render_runtime_path_line p truth_kind) paths)"

definition emit_runtime_paths :: "runtime_paths_list_result \<Rightarrow> string list" where
  "emit_runtime_paths paths = emit_filtered_runtime_paths (rplr_truth_kind paths) (rplr_paths paths)"

definition emit_runtime_health :: "runtime_health_result \<Rightarrow> string" where
  "emit_runtime_health h = field_line
     [(''daemon_readiness'', rhr_daemon_readiness h), (''authority_sync_health'', rhr_authority_sync_health h),
      (''authority_subject_status'', rhr_authority_subject_status h),
      (''authority_deny_reason'', or_none (rhr_authority_deny_reason h)),
      (''runtime_registry_health'', rhr_runtime_registry_health h),
      (''path_manager_health'', rhr_path_manager_health h),
      (''reconnect_subsystem_health'', rhr_reconnect_subsystem_health h),
      (''active_sessions'', show_nat (rhr_active_sessions h)), (''active_paths'', show_nat (rhr_active_paths h)),
      (''active_listeners'', show_nat (rhr_active_listeners h)), (''reconnect_state'', rhr_reconnect_state h),
      (''reconnect_attempts'', show_nat (rhr_reconnect_attempt_count h)),
      (''reconnect_next_attempt_unix_secs'', none_or show_word (rhr_reconnect_next_attempt_unix_secs h)),
      (''reconnect_suppressions'', show_nat (rhr_reconnect_suppression_count h)),
      (''runtime_event_buffer_depth'', show_nat (rhr_runtime_event_buffer_depth h)),
      (''truth_kind'', rhr_truth_kind h)]"

definition event_line :: "string \<Rightarrow> runtime_event_entry \<Rightarrow> string \<Rightarrow> string" where
  "event_line truth_kind e details = field_line
     [(''event_id'', ree_event_id e), (''event_type'', ree_event_type e), (''emitted_at'', ree_emitted_at e),
      (''event_truth_kind'', ree_truth_kind e), (''subject_kind'', ree_subject_kind e),
      (''subject_id'', ree_subject_id e), (''details'', details), (''truth_kind'', truth_kind)]"

definition filter_runtime_paths ::
  "runtime_path_entry list \<Rightarrow> string option \<Rightarrow> traffic_class option \<Rightarrow> runtime_path_entry list" where
  "filter_runtime_paths paths peer class =
     filter (\<lambda>p. or_else (map_option (\<lambda>v. rpe_class p = cli_class_label v) class) True)
       (filter (\<lambda>p. or_else (map_option (\<lambda>v. rpe_peer_id p = v) peer) True) paths)"

definition render_runtime_path_watch_snapshot ::
  "string \<Rightarrow> runtime_path_entry list \<Rightarrow> string option \<Rightarrow> traffic_class \<Rightarrow> string" where
  "render_runtime_path_watch_snapshot truth_kind paths peer class =
     (if paths = []
      then field_line [(''peer'', or_else peer ''all''), (''class'', cli_class_label class),
             (''truth_kind'', truth_kind), (''paths'', ''0'')]
      else join '' || '' (map (\<lambda>p. render_runtime_path_line p truth_kind) paths))"

section \<open>Sessions\<close>

definition connect_line :: "session_connect_result \<Rightarrow> string" where
  "connect_line r = field_line
     [(''session_id'', scs_session_id (scr_session r)), (''state'', scs_state (scr_session r)),
      (''state_reason'', or_none (scs_state_reason (scr_session r))),
      (''path'', scs_initial_path_class (scr_session r)), (''truth_kind'', scr_truth_kind r)]"

definition close_line :: "session_close_result \<Rightarrow> string" where
  "close_line r = field_line
     [(''session_id'', ascr_closed_session_id r), (''final_state'', ascr_final_state r),
      (''closure_reason'', or_none (ascr_closure_reason r)), (''truth_kind'', ascr_truth_kind r)]"

definition upgrade_line :: "session_upgrade_result \<Rightarrow> string" where
  "upgrade_line r = field_line
     [(''session_id'', sur_session_id r), (''prior_path'', sur_prior_path_class r),
      (''resulting_path'', sur_resulting_path_class r), (''state'', sur_state r), (''truth_kind'', sur_truth_kind r)]"

definition reconcile_lines :: "session_reconcile_result \<Rightarrow> string list" where
  "reconcile_lines r =
     field_line [(''examined'', show_nat (asrr_examined r)), (''unchanged'', show_nat (asrr_unchanged r)),
       (''upgraded'', show_nat (asrr_upgraded r)), (''closed'', show_nat (asrr_closed r)),
       (''truth_kind'', asrr_truth_kind r)] #
     map (\<lambda>e. field_line
       [(''session_id'', sre_session_id e), (''peer'', sre_peer_id e), (''disposition'', sre_disposition e),
        (''path'', sre_path_class e), (''reason'', sre_reason e)]) (asrr_entries r)"

section \<open>Durable state\<close>

definition violations_field :: "durable_state_violation_entry list \<Rightarrow> string" where
  "violations_field violations =
     (if violations = [] then ''none''
      else join '';'' (map (\<lambda>v. dsve_path v @ ''='' @ dsve_message v) violations))"

definition summary_count :: "(durable_state_summary_result \<Rightarrow> nat) \<Rightarrow> state_show_result \<Rightarrow> string" where
  "summary_count f r = or_else (map_option (\<lambda>s. show_nat (f s)) (ssr_summary r)) ''0''"

definition state_show_line :: "state_show_result \<Rightarrow> string" where
  "state_show_line r = field_line
     [(''state_path'', ssr_state_path r), (''present'', show_bool (ssr_present r)),
      (''schema_version'', none_or show_word (ssr_schema_version r)), (''valid'', show_bool (ssr_valid r)),
      (''summary_network'', none_or dssr_network (ssr_summary r)),
      (''summary_local_peer'', none_or dssr_local_peer_id (ssr_summary r)),
      (''summary_roles'', none_or (\<lambda>s. join '','' (dssr_roles s)) (ssr_summary r)),
      (''summary_bootstrap'', summary_count dssr_bootstrap_hints r),
      (''summary_relays'', summary_count dssr_relays r), (''summary_peers'', summary_count dssr_peers r),
      (''summary_grants'', summary_count dssr_capability_grants r),
      (''summary_revocations'', summary_count dssr_revocations r),
      (''summary_denied'', summary_count dssr_denied_peers r),
      (''summary_path_candidates'', summary_count dssr_path_candidates r),
      (''violations'', violations_field (ssr_violations r)), (''truth_kind'', ssr_truth_kind r)]"

definition state_export_line :: "state_export_result \<Rightarrow> string" where
  "state_export_line r = field_line
     [(''bundle_path'', ser_bundle_path r), (''created_at_unix_secs'', show_word (ser_created_at_unix_secs r)),
      (''hostname'', ser_hostname r), (''environment'', ser_environment r), (''network'', ser_network r),
      (''identity_sha256'', ser_identity_sha256_hex r), (''state_sha256'', ser_state_sha256_hex r),
      (''durable_state_present'', show_bool (ser_durable_state_present r)),
      (''durable_state_valid'', show_bool (ser_durable_state_valid r)), (''truth_kind'', ser_truth_kind r)]"

definition state_validate_line :: "state_validate_result \<Rightarrow> string" where
  "state_validate_line r = field_line
     [(''state_path'', svr_state_path r), (''present'', show_bool (svr_present r)),
      (''schema_version'', none_or show_word (svr_schema_version r)), (''valid'', show_bool (svr_valid r)),
      (''violations'', violations_field (svr_violations r)), (''truth_kind'', svr_truth_kind r)]"

definition migrate_line :: "durable_state_migration_report \<Rightarrow> string" where
  "migrate_line r = field_line
     [(''state_path'', dg_state_path r), (''from_schema_version'', show_word (dg_from_schema_version r)),
      (''to_schema_version'', show_word (dg_to_schema_version r)),
      (''migrated_fields'', if dg_migrated_fields r = [] then ''none'' else join '','' (dg_migrated_fields r))]"

definition restore_line :: "durable_backup_restore_report \<Rightarrow> string" where
  "restore_line r = field_line
     [(''bundle_path'', bz_input_path r), (''restored_identity_path'', bz_restored_identity_path r),
      (''restored_state_path'', bz_restored_state_path r),
      (''created_at_unix_secs'', show_word (bz_created_at_unix_secs r)), (''hostname'', bz_hostname r),
      (''environment'', bz_environment r), (''network'', bz_network r),
      (''identity_sha256'', bz_identity_sha256_hex r), (''state_sha256'', bz_state_sha256_hex r),
      (''next_action'', ''daemon_start_required''), (''truth_kind'', ''durable'')]"

definition reset_line :: "cli \<Rightarrow> state_reset_result \<Rightarrow> string" where
  "reset_line c r = field_line
     [(''state_path'', cli_state_path c), (''identity_preserved'', show_bool (srr_identity_preserved r)),
      (''network_state_reset'', show_bool (srr_network_state_reset r)), (''next_action'', srr_next_action r),
      (''truth_kind'', srr_truth_kind r)]"

section \<open>Authority and identity\<close>

definition authority_show_line :: "authority_show_result \<Rightarrow> string" where
  "authority_show_line r = field_line
     ([(''network'', asr_network r), (''local_peer'', asr_local_peer_id r),
       (''membership_subject'', asr_membership_subject_peer_id r),
       (''membership_issuer'', asr_membership_issuer_peer_id r), (''roles'', render_csv (asr_membership_roles r)),
       (''grants'', show_nat (asr_grants r)), (''revocations'', show_nat (asr_revocations r)),
       (''denied'', show_nat (asr_denied_peers r)), (''bootstrap'', show_nat (asr_bootstrap_hints r)),
       (''relays'', show_nat (asr_relays r)), (''schema_version'', show_word (asr_schema_version r)),
       (''authority_sync'', ass_sync_status (asr_authority r)), (''authority_health'', ass_health (asr_authority r))] @
      authority_effect_fields (asr_authority r) @
      [(''configured_origin'', or_none (asr_configured_origin r)),
       (''configured_subject'', or_none (asr_configured_subject r)),
       (''configured_snapshot'', or_none (asr_configured_snapshot r)), (''truth_kind'', asr_truth_kind r)])"

definition membership_line :: "authority_membership_result \<Rightarrow> string" where
  "membership_line m = field_line
     [(''network'', amr_network m), (''subject_peer'', amr_subject_peer_id m),
      (''issuer_peer'', amr_issuer_peer_id m), (''issued_at'', show_word (amr_issued_at m)),
      (''expires_at'', show_word (amr_expires_at m)), (''roles'', render_roles (amr_roles m)),
      (''schema_version'', show_word (amr_schema_version m)), (''truth_kind'', amr_truth_kind m)]"

definition grant_line :: "authority_capabilities_result \<Rightarrow> authority_capability_grant_entry \<Rightarrow> string" where
  "grant_line r g = field_line
     [(''network'', acr_network r), (''subject_peer'', acge_subject_peer_id g),
      (''issuer_peer'', acge_issuer_peer_id g), (''sequence'', show_word (acge_sequence g)),
      (''not_before'', show_word (acge_not_before g)), (''expires_at'', show_word (acge_expires_at g)),
      (''capabilities'', render_csv (acge_capabilities g)), (''protocols'', render_csv (acge_protocols g)),
      (''limits'', render_structured_limits (acge_bandwidth_bps g) (acge_concurrent_streams g) (acge_max_object_bytes g)),
      (''constraints'', render_csv (acge_constraints g)), (''schema_version'', show_word (acr_schema_version r)),
      (''truth_kind'', acr_truth_kind r)]"

definition capabilities_lines :: "authority_capabilities_result \<Rightarrow> string list" where
  "capabilities_lines r =
     (if acr_grants r = []
      then [field_line [(''network'', acr_network r), (''subject_peer'', acr_subject_peer_id r),
              (''active_grants'', ''0''), (''schema_version'', show_word (acr_schema_version r)),
              (''truth_kind'', acr_truth_kind r)]]
      else map (grant_line r) (acr_grants r))"

definition revocation_line :: "authority_revocations_result \<Rightarrow> authority_revocation_entry \<Rightarrow> string" where
  "revocation_line r v = field_line
     [(''network'', arr_network r), (''sequence'', show_word (are_sequence v)),
      (''issuer_peer'', are_issuer_peer_id v), (''effective_at'', show_word (are_effective_at v)),
      (''reason'', are_reason v), (''target'', are_target v), (''note'', or_none (are_note v)),
      (''schema_version'', show_word (arr_schema_version r)), (''truth_kind'', arr_truth_kind r)]"

definition revocations_lines :: "authority_revocations_result \<Rightarrow> string list" where
  "revocations_lines r =
     (if arr_revocations r = []
      then [field_line [(''network'', arr_network r), (''revocations'', ''0''),
              (''schema_version'', show_word (arr_schema_version r)), (''truth_kind'', arr_truth_kind r)]]
      else map (revocation_line r) (arr_revocations r))"

definition sync_change_fields :: "authority_sync_result \<Rightarrow> (string \<times> string) list" where
  "sync_change_fields r =
     [(''local_peer'', aasr_local_peer_id r), (''grants_added'', show_nat (aasr_grants_added r)),
      (''grants_removed'', show_nat (aasr_grants_removed r)),
      (''revocations_added'', show_nat (aasr_revocations_added r)),
      (''bootstrap_hints_added'', show_nat (aasr_bootstrap_hints_added r)),
      (''bootstrap_hints_removed'', show_nat (aasr_bootstrap_hints_removed r)),
      (''relay_announcements_added'', show_nat (aasr_relay_announcements_added r)),
      (''membership_changed'', show_bool (aasr_membership_changed r)),
      (''authority_source'', aasr_authority_source r)]"

definition sync_snapshot_line :: "authority_sync_result \<Rightarrow> string" where
  "sync_snapshot_line r = ''synced '' @ field_line
     ((''network'', aasr_network r) # sync_change_fields r @ sync_effect_fields (aasr_authority r) @
      [(''truth_kind'', aasr_truth_kind r)])"

definition sync_origin_line :: "authority_sync_result \<Rightarrow> string" where
  "sync_origin_line r = ''synced '' @ field_line
     ((''network'', aasr_network r) # sync_change_fields r @
      [(''authority_origin'', or_none (aasr_authority_origin r)),
       (''authority_subject'', or_else (aasr_authority_subject r) ''active'')] @
      sync_effect_fields (aasr_authority r) @ [(''truth_kind'', aasr_truth_kind r)])"

definition sync_revocations_line :: "authority_sync_result \<Rightarrow> string" where
  "sync_revocations_line r = ''synced-revocations '' @ field_line
     ([(''network'', aasr_network r), (''local_peer'', aasr_local_peer_id r),
       (''revocations_added'', show_nat (aasr_revocations_added r)),
       (''membership_changed'', show_bool (aasr_membership_changed r)),
       (''authority_source'', aasr_authority_source r),
       (''authority_origin'', or_none (aasr_authority_origin r))] @
      sync_effect_fields (aasr_authority r) @ [(''truth_kind'', aasr_truth_kind r)])"

definition octal_mode :: "u32 \<Rightarrow> string" where
  "octal_mode mode = (let n = unat mode mod 512 in
     if n < 8 then [hex_digit n]
     else if n < 64 then [hex_digit (n div 8), hex_digit (n mod 8)]
     else [hex_digit (n div 64), hex_digit (n div 8 mod 8), hex_digit (n mod 8)])"

definition identity_path_line :: "cli \<Rightarrow> file_metadata option \<Rightarrow> string" where
  "identity_path_line c metadata = field_line
     [(''identity_path'', cli_identity_path c), (''exists'', show_bool (metadata \<noteq> None)),
      (''kind'', or_else (map_option (\<lambda>m. case fm_kind m of
          FK_File \<Rightarrow> ''file'' | FK_Dir \<Rightarrow> ''dir'' | FK_Other \<Rightarrow> ''other'') metadata) ''missing''),
      (''bytes'', show_word (or_else (map_option fm_len metadata) 0)),
      (''mode'', none_or (\<lambda>m. octal_mode (fm_mode m)) metadata),
      (''passphrase_env'', cli_identity_passphrase_env c),
      (''control_discovery_path'', cli_control_discovery_path c)]"

definition identity_show_line :: "identity_show_result \<Rightarrow> string" where
  "identity_show_line r = field_line
     [(''identity_path'', isr_identity_path r), (''load_status'', isr_status r), (''peer'', isr_node_id r),
      (''public_key_hex'', isr_public_key_hex r),
      (''durable_state_peer'', or_none (isr_durable_state_peer_id r)),
      (''authority_subject_peer'', or_none (isr_authority_subject_peer_id r)),
      (''state_binding'', isr_state_binding_status r), (''truth_kind'', isr_truth_kind r)]"

definition identity_verify_line :: "identity_verify_result \<Rightarrow> string" where
  "identity_verify_line r = field_line
     [(''identity_path'', ivr_identity_path r), (''expected_peer'', or_none (ivr_expected_node_id r)),
      (''loaded_peer'', ivr_loaded_node_id r),
      (''authority_subject_peer'', or_none (ivr_authority_subject_peer_id r)),
      (''match_result'', ivr_match_result r),
      (''mismatch_reasons'', if ivr_mismatch_reasons r = [] then ''none'' else join ''|'' (ivr_mismatch_reasons r)),
      (''truth_kind'', ivr_truth_kind r)]"

definition cli_hex_public_key :: "'x primitives_scheme \<Rightarrow> identity_keypair \<Rightarrow> string" where
  "cli_hex_public_key X identity = concat (map hex_byte (pk_bytes (public_key X identity)))"

definition identity_init_line :: "'x primitives_scheme \<Rightarrow> cli \<Rightarrow> identity_keypair \<Rightarrow> string" where
  "identity_init_line X c identity = field_line
     [(''identity_path'', cli_identity_path c), (''peer'', PeerId_to_text X (IdentityKeypair_peer_id X identity)),
      (''public_key_hex'', cli_hex_public_key X identity)]"

definition join_line :: "'x codecs_scheme \<Rightarrow> cli \<Rightarrow> daemon_state \<Rightarrow> (string \<times> string) list \<Rightarrow> string" where
  "join_line X c state extra = ''joined '' @ field_line
     ([(''network'', ds_network state), (''local_peer'', PeerId_to_text X (ds_local_peer_id state)),
       (''bootstrap'', show_nat (length (ds_bootstrap state))), (''state_path'', cli_state_path c)] @ extra)"

end
