(* ===== verification/Quip_Cli_Commands.thy ===== *)
theory Quip_Cli_Commands
  imports Quip_Cli_Views
begin

text \<open>
  The commands of the client, one definition per arm of \<open>run\<close> in \<open>cmd/quip/src/main.rs\<close>. Joining,
  inspecting peers and explaining policy work on the state file itself; migrating and restoring
  rewrite files and ask first whether a daemon answers; everything else is a request to the daemon.
  The authority's HTTP service is the reader \<open>H\<close>.
\<close>

abbreviation cli_config :: "cli \<Rightarrow> daemon_config" where
  "cli_config c \<equiv> DaemonConfig_new (cli_network c) (cli_state_path c)"

text \<open>A request whose result is printed.\<close>

definition show_reply ::
  "'x cli_env_scheme \<Rightarrow> ('d, 'p) process_scheme \<Rightarrow> cli \<Rightarrow> (json \<Rightarrow> ('a, string) result) \<Rightarrow> string \<Rightarrow> json \<Rightarrow>
   ('a \<Rightarrow> string list) \<Rightarrow> ('d, unit) cli_op" where
  "show_reply E P c decode operation payload render =
     bind_r (daemon_request E P c decode operation payload) (\<lambda>result. print_all (render result))"

section \<open>Commands on the state file\<close>

definition run_join :: "'x cli_env_scheme \<Rightarrow> cli \<Rightarrow> string \<Rightarrow> ('d, unit) cli_op" where
  "run_join E c snapshot_path =
     bind_r (on_disk (seed_from_authority_snapshot E (cli_config c) snapshot_path)) (\<lambda>state.
       println (join_line E c state []))"

definition run_join_origin ::
  "'x cli_env_scheme \<Rightarrow> 'h authority_reader_scheme \<Rightarrow> cli \<Rightarrow> string \<Rightarrow> string option \<Rightarrow> ('d, unit) cli_op" where
  "run_join_origin E H c authority_origin authority_subject =
     bind_r (on_disk (seed_from_authority_origin E H (cli_config c) authority_origin authority_subject)) (\<lambda>state.
       println (join_line E c state
         [(''authority_origin'', authority_origin), (''authority_subject'', or_else authority_subject ''active'')]))"

definition run_status :: "'x cli_env_scheme \<Rightarrow> ('d, 'p) process_scheme \<Rightarrow> cli \<Rightarrow> ('d, unit) cli_op" where
  "run_status E P c =
     match_r (daemon_request E P c (runtime_status_from_value E) ''runtime.status'' (JObject []))
       (\<lambda>status. println (status_report_line status))
       (\<lambda>_. bind_r (on_disk (ensure_state E (cli_config c))) (\<lambda>state.
          println (DaemonState_status_line E state @ '' daemon_health=unavailable truth_kind=durable'')))"

definition run_peers :: "'x cli_env_scheme \<Rightarrow> cli \<Rightarrow> ('d, unit) cli_op" where
  "run_peers E c =
     bind_r (on_disk (ensure_state E (cli_config c))) (\<lambda>state.
       print_all (map (peer_line E state) (ds_peers state)))"

definition run_peer_inspect :: "'x cli_env_scheme \<Rightarrow> cli \<Rightarrow> string option \<Rightarrow> ('d, unit) cli_op" where
  "run_peer_inspect E c peer =
     bind_r (on_disk (ensure_state E (cli_config c))) (\<lambda>state.
     bind_r (from_result (resolve_peer E peer state)) (\<lambda>target.
     bind_r (on_disk (inspect_peer E (cli_config c) target)) (\<lambda>(entry, best).
       print_all (inspection_lines E state entry best))))"

definition run_policy_explain :: "'x cli_env_scheme \<Rightarrow> cli \<Rightarrow> string \<Rightarrow> string option \<Rightarrow> ('d, unit) cli_op" where
  "run_policy_explain E c protocol peer =
     bind_r (on_disk (ensure_state E (cli_config c))) (\<lambda>state.
     bind_r (from_result (resolve_peer E peer state)) (\<lambda>target.
     bind_r (from_result (map_err (\<lambda>e. usage_error (type_error_text e)) (ProtocolId_new protocol))) (\<lambda>protocol.
     bind_r (on_disk (plane_explain_policy E (cli_config c) target protocol)) (\<lambda>d.
       println (field_line [(''peer'', PeerId_to_text E target), (''protocol'', ProtocolId_as_str protocol),
         (''allowed'', show_bool (dc_allowed d)), (''reason'', dc_reason d)])))))"

definition run_netcheck :: "'x cli_env_scheme \<Rightarrow> cli \<Rightarrow> ('d, unit) cli_op" where
  "run_netcheck E c =
     bind_r (on_disk (ensure_state E (cli_config c))) (\<lambda>state.
       print_all (NetcheckReport_summary (ds_netcheck state) #
         map (\<lambda>w. ''warning: '' @ w) (NetcheckReport_warnings (ds_netcheck state))))"

definition run_relay_status :: "'x cli_env_scheme \<Rightarrow> cli \<Rightarrow> ('d, unit) cli_op" where
  "run_relay_status E c =
     bind_r (on_disk (ensure_state E (cli_config c))) (\<lambda>state. print_all (relay_lines E state))"

section \<open>Runtime commands\<close>

text \<open>The details of an event are serialized when its line is printed, so a failure leaves the lines before it.\<close>

definition print_event :: "'x cli_env_scheme \<Rightarrow> string \<Rightarrow> runtime_event_entry \<Rightarrow> ('d, unit) cli_op" where
  "print_event E truth_kind event =
     bind_r (encoded (json_to_text E (ree_details event))) (\<lambda>details.
       println (event_line truth_kind event details))"

definition run_diagnose :: "'x cli_env_scheme \<Rightarrow> ('d, 'p) process_scheme \<Rightarrow> cli \<Rightarrow> nat \<Rightarrow> ('d, unit) cli_op" where
  "run_diagnose E P c events_limit =
     bind_r (load_daemon_discovery E (cli_control_discovery_path c)) (\<lambda>discovery.
     bind_r (daemon_request E P c (runtime_diagnose_result_from_value E) ''runtime.diagnose''
               (json_object [(''event_limit'', json_usize events_limit)])) (\<lambda>d.
     then_r (print_all
       (diagnose_line discovery d # map issue_line (rdr_issues d) @
        map (session_line (rdr_truth_kind d)) (rdr_sessions d) @
        emit_runtime_listeners \<lparr>rllr_truth_kind = rdr_truth_kind d, rllr_listeners = rdr_listeners d\<rparr> @
        emit_runtime_paths \<lparr>rplr_truth_kind = rdr_truth_kind d, rplr_paths = rdr_paths d\<rparr> @
        [emit_runtime_health (rdr_health d)]))
     (if rdr_events d = [] then println (''event_truth_kind='' @ rdr_truth_kind d @ '' events=0'')
      else for_each (\<lambda>event _. print_event E (rdr_truth_kind d) event) (rdr_events d) ())))"

definition run_events :: "'x cli_env_scheme \<Rightarrow> ('d, 'p) process_scheme \<Rightarrow> cli \<Rightarrow> nat \<Rightarrow> ('d, unit) cli_op" where
  "run_events E P c limit =
     bind_r (daemon_request E P c (runtime_events_from_value E) ''runtime.events.list''
               (json_object [(''limit'', json_usize limit)])) (\<lambda>events.
       if relr_events events = [] then println (''truth_kind='' @ relr_truth_kind events @ '' events=0'')
       else for_each (\<lambda>event _. print_event E (relr_truth_kind events) event) (relr_events events) ())"

definition run_sessions :: "'x cli_env_scheme \<Rightarrow> ('d, 'p) process_scheme \<Rightarrow> cli \<Rightarrow> ('d, unit) cli_op" where
  "run_sessions E P c =
     show_reply E P c (runtime_sessions_from_value E) ''runtime.sessions.list'' (JObject []) sessions_lines"

definition run_runtime ::
  "'x cli_env_scheme \<Rightarrow> ('d, 'p) process_scheme \<Rightarrow> cli \<Rightarrow> runtime_command \<Rightarrow> ('d, unit) cli_op" where
  "run_runtime E P c cmd = (case cmd of
     RC_Target \<Rightarrow> bind_r (load_daemon_discovery E (cli_control_discovery_path c)) (\<lambda>discovery.
       println (target_line c discovery))
   | RC_Diagnose events_limit \<Rightarrow> run_diagnose E P c events_limit
   | RC_Sessions \<Rightarrow> run_sessions E P c
   | RC_Listeners \<Rightarrow>
       show_reply E P c (runtime_listeners_from_value E) ''runtime.listeners.list'' (JObject []) emit_runtime_listeners
   | RC_Paths \<Rightarrow>
       show_reply E P c (runtime_paths_from_value E) ''runtime.paths.list'' (JObject []) emit_runtime_paths
   | RC_Health \<Rightarrow>
       show_reply E P c (runtime_health_from_value E) ''runtime.health'' (JObject []) (\<lambda>h. [emit_runtime_health h])
   | RC_Events limit \<Rightarrow> run_events E P c limit)"

section \<open>Session commands\<close>

definition run_connect ::
  "'x cli_env_scheme \<Rightarrow> ('d, 'p) process_scheme \<Rightarrow> cli \<Rightarrow> string \<Rightarrow> string option \<Rightarrow> string \<Rightarrow> string \<Rightarrow> ('d, unit) cli_op" where
  "run_connect E P c protocol peer class path_preference =
     bind_r (on_disk (ensure_state E (cli_config c))) (\<lambda>state.
     bind_r (from_result (resolve_peer E peer state)) (\<lambda>target.
     bind_r (encoded (session_connect_to_value E
        \<lparr>scp_peer_id = PeerId_to_text E target, scp_protocol = protocol, scp_class = Some class,
         scp_path_preference = Some path_preference\<rparr>)) (\<lambda>payload.
       show_reply E P c (session_connect_result_from_value E) ''session.connect'' payload
         (\<lambda>r. [connect_line r]))))"

text \<open>The session named on the command line, or the first one the daemon lists.\<close>

definition chosen_session ::
  "'x cli_env_scheme \<Rightarrow> ('d, 'p) process_scheme \<Rightarrow> cli \<Rightarrow> string option \<Rightarrow> ('d, string) cli_op" where
  "chosen_session E P c session =
     bind_r (daemon_request E P c (runtime_sessions_from_value E) ''runtime.sessions.list'' (JObject [])) (\<lambda>sessions.
       from_result (resolve_daemon_session_id session (rslr_sessions sessions)))"

definition run_close ::
  "'x cli_env_scheme \<Rightarrow> ('d, 'p) process_scheme \<Rightarrow> cli \<Rightarrow> string option \<Rightarrow> ('d, unit) cli_op" where
  "run_close E P c session =
     bind_r (chosen_session E P c session) (\<lambda>session_id.
     bind_r (encoded (session_close_to_value E
        \<lparr>ascp_session_id = session_id, ascp_reason = Some ''operator_requested''\<rparr>)) (\<lambda>payload.
       show_reply E P c (session_close_result_from_value E) ''session.close'' payload (\<lambda>r. [close_line r])))"

definition run_upgrade ::
  "'x cli_env_scheme \<Rightarrow> ('d, 'p) process_scheme \<Rightarrow> cli \<Rightarrow> string option \<Rightarrow> ('d, unit) cli_op" where
  "run_upgrade E P c session =
     bind_r (chosen_session E P c session) (\<lambda>session_id.
     bind_r (encoded (session_upgrade_to_value E \<lparr>sup_session_id = session_id\<rparr>)) (\<lambda>payload.
       show_reply E P c (session_upgrade_result_from_value E) ''session.upgrade'' payload (\<lambda>r. [upgrade_line r])))"

definition run_reconcile :: "'x cli_env_scheme \<Rightarrow> ('d, 'p) process_scheme \<Rightarrow> cli \<Rightarrow> ('d, unit) cli_op" where
  "run_reconcile E P c =
     bind_r (encoded (session_reconcile_to_value E \<lparr>asrp_session_id = None\<rparr>)) (\<lambda>payload.
       show_reply E P c (session_reconcile_result_from_value E) ''session.reconcile'' payload reconcile_lines)"

definition run_session ::
  "'x cli_env_scheme \<Rightarrow> ('d, 'p) process_scheme \<Rightarrow> cli \<Rightarrow> session_command \<Rightarrow> ('d, unit) cli_op" where
  "run_session E P c cmd = (case cmd of
     SC_List \<Rightarrow> run_sessions E P c
   | SC_Connect protocol peer class path_preference \<Rightarrow> run_connect E P c protocol peer class path_preference
   | SC_Close session \<Rightarrow> run_close E P c session
   | SC_Upgrade session \<Rightarrow> run_upgrade E P c session
   | SC_Reconcile \<Rightarrow> run_reconcile E P c)"

section \<open>Paths\<close>

definition path_sample ::
  "'x cli_env_scheme \<Rightarrow> ('d, 'p) process_scheme \<Rightarrow> cli \<Rightarrow> string option \<Rightarrow> traffic_class \<Rightarrow> ('d, string) cli_op" where
  "path_sample E P c peer class =
     bind_r (daemon_request E P c (runtime_paths_from_value E) ''runtime.paths.list'' (JObject [])) (\<lambda>paths.
       return_r (render_runtime_path_watch_snapshot (rplr_truth_kind paths)
         (filter_runtime_paths (rplr_paths paths) peer (Some class)) peer class))"

text \<open>The loop of \<open>path watch\<close> with the number of samples still to take.\<close>

fun watch_samples ::
  "'x cli_env_scheme \<Rightarrow> ('d, 'p) process_scheme \<Rightarrow> cli \<Rightarrow> string option \<Rightarrow> traffic_class \<Rightarrow> nat \<Rightarrow> u32 \<Rightarrow>
   string option \<Rightarrow> ('d, unit) cli_op" where
  "watch_samples E P c peer class 0 index previous = return_r ()"
| "watch_samples E P c peer class (Suc k) index previous =
     bind_r (path_sample E P c peer class) (\<lambda>snapshot.
     then_r (if previous \<noteq> Some snapshot then println (''sample='' @ show_word (index + 1) @ '' '' @ snapshot)
             else return_r ())
    (then_r (if 0 < k then sleep_between P index else return_r ())
       (watch_samples E P c peer class k (index + 1) (Some snapshot))))"

definition run_path ::
  "'x cli_env_scheme \<Rightarrow> ('d, 'p) process_scheme \<Rightarrow> cli \<Rightarrow> path_command \<Rightarrow> ('d, unit) cli_op" where
  "run_path E P c cmd = (case cmd of
     PC_Show peer class \<Rightarrow>
       show_reply E P c (runtime_paths_from_value E) ''runtime.paths.list'' (JObject []) (\<lambda>paths.
         emit_filtered_runtime_paths (rplr_truth_kind paths)
           (filter_runtime_paths (rplr_paths paths) peer (Some (cli_parse_class class))))
   | PC_Watch peer class interval_ms sample_limit \<Rightarrow>
       watch_samples E P c peer (cli_parse_class class) (unat (max sample_limit 1)) 0 None)"

section \<open>Durable state\<close>

definition run_export ::
  "'x cli_env_scheme \<Rightarrow> ('d, 'p) process_scheme \<Rightarrow> cli \<Rightarrow> string \<Rightarrow> string \<Rightarrow> string \<Rightarrow> string option \<Rightarrow> bool \<Rightarrow>
   ('d, unit) cli_op" where
  "run_export E P c output_path backup_passphrase_env environment hostname overwrite =
     bind_r (from_result (required_env_value P backup_passphrase_env)) (\<lambda>passphrase.
     bind_r (encoded (state_export_to_value E
        \<lparr>sep_output_path = output_path, sep_passphrase = passphrase,
         sep_hostname = or_else hostname (default_hostname P), sep_environment = environment,
         sep_overwrite = Some overwrite\<rparr>)) (\<lambda>payload.
       show_reply E P c (state_export_result_from_value E) ''state.export'' payload (\<lambda>r. [state_export_line r])))"

text \<open>A command that rewrites files in place is refused without confirmation and while a daemon answers.\<close>

definition stopped_daemon ::
  "'x cli_env_scheme \<Rightarrow> ('d, 'p) process_scheme \<Rightarrow> cli \<Rightarrow> bool \<Rightarrow> string \<Rightarrow> string \<Rightarrow> ('d, unit) cli_op" where
  "stopped_daemon E P c confirm unconfirmed running =
     (if \<not> confirm then raise_r (usage_error unconfirmed)
      else bind_r (daemon_endpoint_is_live E P c) (\<lambda>live.
        if live then raise_r (usage_error running) else return_r ()))"

definition run_migrate ::
  "'x cli_env_scheme \<Rightarrow> ('d, 'p) process_scheme \<Rightarrow> cli \<Rightarrow> bool \<Rightarrow> ('d, unit) cli_op" where
  "run_migrate E P c confirm =
     then_r (stopped_daemon E P c confirm
        ''state migrate is destructive; rerun with --confirm after stopping quipd to rewrite durable network state to the current schema''
        ''state migrate requires quipd to be stopped before durable state is rewritten in place'')
     (bind_r (on_disk (migrate_durable_state_file E (cli_state_path c))) (\<lambda>report.
       println (migrate_line report)))"

definition run_restore ::
  "'x cli_env_scheme \<Rightarrow> ('d, 'p) process_scheme \<Rightarrow> cli \<Rightarrow> string \<Rightarrow> string \<Rightarrow> bool \<Rightarrow> bool \<Rightarrow> ('d, unit) cli_op" where
  "run_restore E P c input backup_passphrase_env confirm overwrite =
     then_r (stopped_daemon E P c confirm
        ''state restore is destructive; rerun with --confirm after stopping quipd to restore the same logical node''
        ''state restore requires quipd to be stopped before identity and durable state are replaced'')
     (bind_r (from_result (required_env_value P backup_passphrase_env)) (\<lambda>passphrase.
      bind_r (on_disk (restore_backup_bundle E
         \<lparr>bq_input_path = cli_expand_home_path P input, bq_passphrase = passphrase,
          bq_identity_path = cli_identity_path c, bq_state_path = cli_state_path c, bq_overwrite = overwrite\<rparr>)) (\<lambda>report.
        println (restore_line report))))"

definition run_reset :: "'x cli_env_scheme \<Rightarrow> ('d, 'p) process_scheme \<Rightarrow> cli \<Rightarrow> bool \<Rightarrow> ('d, unit) cli_op" where
  "run_reset E P c confirm =
     (if \<not> confirm
      then raise_r (usage_error
        ''state reset is destructive; rerun with --confirm to preserve identity and remove only durable network state'')
      else bind_r (encoded (state_reset_to_value E
        \<lparr>srp_scope = ''network_state_only'', srp_confirmation = ''preserve-identity-reset-network-state''\<rparr>)) (\<lambda>payload.
          show_reply E P c (state_reset_result_from_value E) ''state.reset'' payload (\<lambda>r. [reset_line c r])))"

definition run_state ::
  "'x cli_env_scheme \<Rightarrow> ('d, 'p) process_scheme \<Rightarrow> cli \<Rightarrow> state_command \<Rightarrow> ('d, unit) cli_op" where
  "run_state E P c cmd = (case cmd of
     StC_Show \<Rightarrow> show_reply E P c (state_show_from_value E) ''state.show'' (JObject []) (\<lambda>r. [state_show_line r])
   | StC_Backup output backup_passphrase_env environment hostname overwrite \<Rightarrow>
       run_export E P c
         (or_else (map_option (cli_expand_home_path P) output) (default_backup_output_path P (cli_network c)))
         backup_passphrase_env environment hostname overwrite
   | StC_Export output backup_passphrase_env environment hostname overwrite \<Rightarrow>
       run_export E P c (cli_expand_home_path P output) backup_passphrase_env environment hostname overwrite
   | StC_Validate \<Rightarrow>
       show_reply E P c (state_validate_from_value E) ''state.validate'' (JObject []) (\<lambda>r. [state_validate_line r])
   | StC_Migrate confirm \<Rightarrow> run_migrate E P c confirm
   | StC_Restore input backup_passphrase_env confirm overwrite \<Rightarrow>
       run_restore E P c input backup_passphrase_env confirm overwrite
   | StC_Reset confirm \<Rightarrow> run_reset E P c confirm)"

section \<open>Authority\<close>

definition run_sync ::
  "'x cli_env_scheme \<Rightarrow> ('d, 'p) process_scheme \<Rightarrow> cli \<Rightarrow> string \<Rightarrow> (json, string) result \<Rightarrow>
   (authority_sync_result \<Rightarrow> string) \<Rightarrow> ('d, unit) cli_op" where
  "run_sync E P c operation payload render =
     bind_r (encoded payload) (\<lambda>payload.
       show_reply E P c (authority_sync_from_value E) operation payload (\<lambda>r. [render r]))"

definition run_authority ::
  "'x cli_env_scheme \<Rightarrow> ('d, 'p) process_scheme \<Rightarrow> cli \<Rightarrow> authority_command \<Rightarrow> ('d, unit) cli_op" where
  "run_authority E P c cmd = (case cmd of
     AC_Show \<Rightarrow>
       show_reply E P c (authority_show_from_value E) ''authority.show'' (JObject []) (\<lambda>r. [authority_show_line r])
   | AC_Membership \<Rightarrow>
       show_reply E P c (authority_membership_from_value E) ''authority.membership'' (JObject []) (\<lambda>r. [membership_line r])
   | AC_Capabilities \<Rightarrow>
       show_reply E P c (authority_capabilities_from_value E) ''authority.capabilities'' (JObject []) capabilities_lines
   | AC_Revocations \<Rightarrow>
       show_reply E P c (authority_revocations_from_value E) ''authority.revocations'' (JObject []) revocations_lines
   | AC_SyncSnapshot snapshot_path \<Rightarrow>
       run_sync E P c ''authority.sync_snapshot''
         (sync_snapshot_to_value E \<lparr>assp_authority_snapshot = snapshot_path\<rparr>) sync_snapshot_line
   | AC_SyncOrigin authority_origin authority_subject \<Rightarrow>
       run_sync E P c ''authority.sync_origin''
         (sync_origin_to_value E
            \<lparr>asop_authority_origin = authority_origin, asop_authority_subject = authority_subject\<rparr>) sync_origin_line
   | AC_SyncRevocationsOrigin authority_origin \<Rightarrow>
       run_sync E P c ''authority.sync_revocations_origin''
         (sync_revocations_origin_to_value E \<lparr>asrop_authority_origin = authority_origin\<rparr>) sync_revocations_line)"

section \<open>Identity\<close>

definition init_identity ::
  "'x keystore_env_scheme \<Rightarrow> ('d, 'p) process_scheme \<Rightarrow> string \<Rightarrow> string \<Rightarrow> bool \<Rightarrow> ('d, identity_keypair) cli_op" where
  "init_identity X P identity_path passphrase_env overwrite w =
     (let fs = cw_files w in
      if fs_exists fs identity_path \<and> \<not> overwrite
      then (Err (usage_error ''identity path already exists; rerun with --overwrite to replace it''), w)
      else case ho_var P passphrase_env of
        None \<Rightarrow> (Err (usage_error (''identity passphrase env var '' @ passphrase_env @ '' must be set'')), w)
      | Some passphrase \<Rightarrow>
      case fs_create_parent fs identity_path of
        Err e \<Rightarrow> (Err (Cli_Io e), w)
      | Ok _ \<Rightarrow>
          let identity = from_secret_bytes (pr_fresh_key P)
          in (case FileKeystore_store X (pr_salt P) (pr_nonce P) fs identity_path identity passphrase of
                (Err e, fs) \<Rightarrow> (Err (Cli_Identity e), w\<lparr>cw_files := fs\<rparr>)
              | (Ok _, fs) \<Rightarrow> (Ok identity, w\<lparr>cw_files := fs\<rparr>)))"

definition run_identity ::
  "'x cli_env_scheme \<Rightarrow> ('d, 'p) process_scheme \<Rightarrow> cli \<Rightarrow> identity_command \<Rightarrow> ('d, unit) cli_op" where
  "run_identity E P c cmd = (case cmd of
     IC_Path \<Rightarrow> bind_r (reads (\<lambda>w. pr_metadata P (cw_files w) (cli_identity_path c))) (\<lambda>metadata.
       println (identity_path_line c metadata))
   | IC_Show \<Rightarrow> show_reply E P c (identity_show_from_value E) ''identity.show'' (JObject []) (\<lambda>r. [identity_show_line r])
   | IC_Verify \<Rightarrow>
       show_reply E P c (identity_verify_from_value E) ''identity.verify'' (JObject []) (\<lambda>r. [identity_verify_line r])
   | IC_Init overwrite \<Rightarrow>
       bind_r (init_identity E P (cli_identity_path c) (cli_identity_passphrase_env c) overwrite) (\<lambda>identity.
         println (identity_init_line E c identity)))"

section \<open>The program\<close>

definition run_command ::
  "'x cli_env_scheme \<Rightarrow> 'h authority_reader_scheme \<Rightarrow> ('d, 'p) process_scheme \<Rightarrow> cli \<Rightarrow> command \<Rightarrow> ('d, unit) cli_op" where
  "run_command E H P c cmd = (case cmd of
     C_Join snapshot_path \<Rightarrow> run_join E c snapshot_path
   | C_JoinOrigin authority_origin authority_subject \<Rightarrow> run_join_origin E H c authority_origin authority_subject
   | C_Status \<Rightarrow> run_status E P c
   | C_Peers \<Rightarrow> run_peers E c
   | C_PeerInspect peer \<Rightarrow> run_peer_inspect E c peer
   | C_PolicyExplain protocol peer \<Rightarrow> run_policy_explain E c protocol peer
   | C_Netcheck \<Rightarrow> run_netcheck E c
   | C_Runtime cmd \<Rightarrow> run_runtime E P c cmd
   | C_Session cmd \<Rightarrow> run_session E P c cmd
   | C_Path cmd \<Rightarrow> run_path E P c cmd
   | C_Connect protocol peer class \<Rightarrow> run_connect E P c protocol peer class ''direct_preferred''
   | C_SessionStatus \<Rightarrow> run_sessions E P c
   | C_SessionClose session \<Rightarrow> run_close E P c session
   | C_SessionUpgrade session \<Rightarrow> run_upgrade E P c session
   | C_SessionReconcile \<Rightarrow> run_reconcile E P c
   | C_State cmd \<Rightarrow> run_state E P c cmd
   | C_Authority cmd \<Rightarrow> run_authority E P c cmd
   | C_Identity cmd \<Rightarrow> run_identity E P c cmd
   | C_RelayStatus \<Rightarrow> run_relay_status E c)"

definition run_cli ::
  "'x cli_env_scheme \<Rightarrow> 'h authority_reader_scheme \<Rightarrow> ('d, 'p) process_scheme \<Rightarrow> cli \<Rightarrow> ('d, unit) cli_op" where
  "run_cli E H P c = run_command E H P (normalize_cli_paths P c) (or_else (cli_command c) C_Status)"

text \<open>\<open>main\<close>: the exit status, the line on the standard error, and the world.\<close>

definition quip_main ::
  "'x cli_env_scheme \<Rightarrow> 'h authority_reader_scheme \<Rightarrow> ('d, 'p) process_scheme \<Rightarrow> cli \<Rightarrow> 'd cli_world \<Rightarrow>
   nat \<times> string option \<times> 'd cli_world" where
  "quip_main E H P c w = (case run_cli E H P c w of
     (Ok _, w) \<Rightarrow> (0, None, w)
   | (Err error, w) \<Rightarrow> (1, Some (cli_error_text E error), w))"

end
