(* ===== verification/Quip_Cli_Laws.thy ===== *)
theory Quip_Cli_Laws
  imports Quip_Cli_Commands Quip_Api_Laws
begin

text \<open>
  The client against the daemon. An HTTP agent that delivers carries a request of the client to the
  router of \<open>Quip_Daemon_Control\<close> and its reply back; the locale \<open>interface_operation\<close> states what makes
  a decoder of the client fit an operation of the daemon, and is interpreted on every pair the
  client uses. Then: no command misreads a reply, and closing a session from the command line
  closes it in the daemon.
\<close>

section \<open>The wire\<close>

text \<open>The agent takes the path of the URL to the router and reports statuses from 400 on as errors, as
  \<open>ureq\<close> documents; a panic of the control thread closes the connection.\<close>

definition daemon_wire ::
  "'x daemon_env_scheme \<Rightarrow> 'h authority_reader_scheme \<Rightarrow> 'r relay_control \<Rightarrow> daemon_args \<Rightarrow> daemon_config \<Rightarrow>
   identity_keypair \<Rightarrow> string \<Rightarrow> (filesystem \<times> 'r quic_adapter) http_agent" where
  "daemon_wire E H ctl args dc me base method url payload w =
     (case strip_prefix base url of
        None \<Rightarrow> (Transport ''unknown host'', w)
      | Some path \<Rightarrow>
          let body = (case payload of None \<Rightarrow> [] | Some p \<Rightarrow> as_bytes p)
          in (case route_control_request E H ctl args dc me
                     \<lparr>crq_method = method, crq_url = path, crq_body_length = Some (length body),
                      crq_read_exact = (\<lambda>n. Ok (take n body))\<rparr>
                     \<lparr>vm_transport = snd w, vm_files = fst w\<rparr> of
                (Err _, s) \<Rightarrow> (Transport ''connection closed'', vm_files s, vm_transport s)
              | (Ok ans, s) \<Rightarrow>
                  let reply = json_response E ans; text = bytes_text (jr_body reply)
                  in (if jr_status reply < 400 then Response (Ok text) else Status (jr_status reply) (Ok text),
                      vm_files s, vm_transport s)))"

text \<open>The envelope as the client receives it, when \<open>V\<close> is how results become JSON values.\<close>

definition received :: "(api_result \<Rightarrow> json) \<Rightarrow> response_envelope \<Rightarrow> received_envelope" where
  "received V r =
     \<lparr>rcv_ok = rse_ok r, rcv_request_id = rse_request_id r, rcv_result = map_option V (rse_result r),
      rcv_error = rse_error r\<rparr>"

text \<open>What the two sides rely on of serde: each reads what the other wrote.\<close>

definition envelopes_serde :: "'x cli_env_scheme \<Rightarrow> (api_result \<Rightarrow> json) \<Rightarrow> bool" where
  "envelopes_serde E V \<longleftrightarrow>
     (\<forall>r. envelope_from_text E (bytes_text (response_to_vec_pretty E r)) = Ok (received V r)) \<and>
     (\<forall>q text. request_to_text E q = Ok text \<longrightarrow> request_from_slice E (as_bytes text) = Ok q)"

definition results_serde :: "'x cli_env_scheme \<Rightarrow> (api_result \<Rightarrow> json) \<Rightarrow> bool" where
  "results_serde E V \<longleftrightarrow>
     (\<forall>x. runtime_status_from_value E (V (RuntimeStatus_result x)) = Ok x) \<and>
     (\<forall>x. runtime_diagnose_result_from_value E (V (RuntimeDiagnose_result x)) = Ok x) \<and>
     (\<forall>x. runtime_sessions_from_value E (V (RuntimeSessionsList_result x)) = Ok x) \<and>
     (\<forall>x. runtime_listeners_from_value E (V (RuntimeListenersList_result x)) = Ok x) \<and>
     (\<forall>x. runtime_paths_from_value E (V (RuntimePathsList_result x)) = Ok x) \<and>
     (\<forall>x. runtime_health_from_value E (V (RuntimeHealth_result x)) = Ok x) \<and>
     (\<forall>x. runtime_events_from_value E (V (RuntimeEventsList_result x)) = Ok x) \<and>
     (\<forall>x. session_connect_result_from_value E (V (SessionConnect_result x)) = Ok x) \<and>
     (\<forall>x. session_close_result_from_value E (V (SessionClose_result x)) = Ok x) \<and>
     (\<forall>x. session_upgrade_result_from_value E (V (SessionUpgrade_result x)) = Ok x) \<and>
     (\<forall>x. session_reconcile_result_from_value E (V (SessionReconcile_result x)) = Ok x) \<and>
     (\<forall>x. state_show_from_value E (V (StateShow_result x)) = Ok x) \<and>
     (\<forall>x. state_export_result_from_value E (V (StateExport_result x)) = Ok x) \<and>
     (\<forall>x. state_validate_from_value E (V (StateValidate_result x)) = Ok x) \<and>
     (\<forall>x. state_reset_result_from_value E (V (StateReset_result x)) = Ok x) \<and>
     (\<forall>x. authority_show_from_value E (V (AuthorityShow_result x)) = Ok x) \<and>
     (\<forall>x. authority_membership_from_value E (V (AuthorityMembership_result x)) = Ok x) \<and>
     (\<forall>x. authority_capabilities_from_value E (V (AuthorityCapabilities_result x)) = Ok x) \<and>
     (\<forall>x. authority_revocations_from_value E (V (AuthorityRevocations_result x)) = Ok x) \<and>
     (\<forall>x. authority_sync_from_value E (V (AuthoritySync_result x)) = Ok x) \<and>
     (\<forall>x. identity_show_from_value E (V (IdentityShow_result x)) = Ok x) \<and>
     (\<forall>x. identity_verify_from_value E (V (IdentityVerify_result x)) = Ok x)"

definition interface_serde :: "'x cli_env_scheme \<Rightarrow> (api_result \<Rightarrow> json) \<Rightarrow> bool" where
  "interface_serde E V \<longleftrightarrow> envelopes_serde E V \<and> results_serde E V"

section \<open>Errors a computation can raise\<close>

definition raises :: "('e \<Rightarrow> bool) \<Rightarrow> ('s, 'a, 'e) comp \<Rightarrow> bool" where
  "raises Q m \<longleftrightarrow> (\<forall>s e s'. m s = (Err e, s') \<longrightarrow> Q e)"

lemma raises_bind: "raises Q m \<Longrightarrow> (\<And>v. raises Q (f v)) \<Longrightarrow> raises Q (bind_r m f)"
  by (fastforce simp: raises_def bind_r_def split: prod.splits result.splits)

lemma raises_then: "raises Q m \<Longrightarrow> raises Q n \<Longrightarrow> raises Q (then_r m n)"
  by (simp add: then_r_def raises_bind)

lemma raises_match: "(\<And>v. raises Q (f v)) \<Longrightarrow> (\<And>e. raises Q (h e)) \<Longrightarrow> raises Q (match_r m f h)"
  by (fastforce simp: raises_def match_r_def split: prod.splits result.splits)

lemma raises_for_each: "(\<And>x acc. raises Q (f x acc)) \<Longrightarrow> raises Q (for_each f xs acc)"
proof (induction xs arbitrary: acc)
  case Nil
  then show ?case by (simp add: raises_def return_r_def)
next
  case (Cons x xs)
  then show ?case by (simp add: raises_bind)
qed

lemma raises_pure:
  "raises Q (return_r v)" "raises Q (reads g)" "Q e \<Longrightarrow> raises Q (raise_r e)"
  "(\<And>e. r = Err e \<Longrightarrow> Q e) \<Longrightarrow> raises Q (from_result r)"
  by (simp_all add: raises_def return_r_def reads_def raise_r_def from_result_def)

lemma raises_println: "raises Q (println line)"
  by (simp add: raises_def println_def)

lemma raises_if: "raises Q m \<Longrightarrow> raises Q n \<Longrightarrow> raises Q (if b then m else n)"
  by simp

lemmas raises_intros =
  raises_bind raises_then raises_match raises_for_each raises_if raises_pure(1,2) raises_println

section \<open>Requests over the wire\<close>

text \<open>The error of a reply that the client cannot read.\<close>

fun misread :: "cli_error \<Rightarrow> bool" where
  "misread (Reply_Decode _) = True"
| "misread _ = False"

abbreviation readable :: "('s, 'a, cli_error) comp \<Rightarrow> bool" where
  "readable m \<equiv> raises (\<lambda>e. \<not> misread e) m"

lemma readable_print: "raises Q (print_all lines)"
  unfolding print_all_def by (intro raises_for_each raises_println)

lemma readable_effects:
  "readable (on_disk m)" "readable (encoded r)" "readable (load_daemon_discovery E path)"
  "readable (http_post P endpoint body)" "readable (sleep_between P index)"
  "readable (raise_r (usage_error text))"
  by (auto simp: raises_def on_disk_def on_part_def encoded_def from_result_def load_daemon_discovery_def
      http_post_def sleep_between_def raise_r_def usage_error_def map_err_def
      split: prod.splits result.splits)

text \<open>What the client makes of a response the wire brings.\<close>

definition reply_of :: "'x daemon_env_scheme \<Rightarrow> u16 \<times> response_envelope \<Rightarrow> http_reply" where
  "reply_of E ans = (let text = bytes_text (response_to_vec_pretty E (snd ans))
     in if fst ans < 400 then Response (Ok text) else Status (fst ans) (Ok text))"

lemma daemon_wire_rpc:
  "daemon_wire E H ctl args dc me base ''POST'' (base @ ''/rpc'') (Some text) (fs, a) =
     (case route_control_request E H ctl args dc me
             \<lparr>crq_method = ''POST'', crq_url = ''/rpc'', crq_body_length = Some (length (as_bytes text)),
              crq_read_exact = (\<lambda>n. Ok (take n (as_bytes text)))\<rparr> \<lparr>vm_transport = a, vm_files = fs\<rparr> of
        (Err _, s) \<Rightarrow> (Transport ''connection closed'', vm_files s, vm_transport s)
      | (Ok ans, s) \<Rightarrow> (reply_of E ans, vm_files s, vm_transport s))"
  unfolding daemon_wire_def strip_prefix_append
  by (simp add: reply_of_def json_response_def Let_def case_prod_beta split: result.split)

lemma map_error_status_400: "400 \<le> map_error_status r"
  by (simp add: map_error_status_def split: option.split error_code.split)

lemma read_envelope_sent:
  "envelopes_serde E V \<Longrightarrow> read_envelope E (Ok (bytes_text (response_to_vec_pretty E r))) = Ok (received V r)"
  by (simp add: read_envelope_def into_json_def envelopes_serde_def map_err_def)

lemma http_post_succeeds [simp]: "http_post P endpoint body w \<noteq> (Err e, w')"
  by (simp add: http_post_def split: prod.split)

text \<open>Every reply to a request of the client: none, a typed success, or an error status.\<close>

lemma wire_reply:
  assumes "envelopes_serde E V" and "request_to_text E q = Ok text"
    and "daemon_wire E H ctl args dc me base ''POST'' url (Some text) w = (reply, w')"
  shows "(\<exists>e. reply = Transport e) \<or>
         (\<exists>status r. reply = reply_of E (status, r) \<and>
            (status < 400 \<longrightarrow> rse_ok r \<and> typed_response (result_of_operation (rqe_operation q)) (rqe_request_id q) r \<and>
               dispatch E H ctl args dc me q \<lparr>vm_transport = snd w, vm_files = fst w\<rparr> =
                 (Ok r, \<lparr>vm_transport = snd w', vm_files = fst w'\<rparr>)))"
proof (cases "strip_prefix base url")
  case None
  then show ?thesis using assms(3) by (auto simp: daemon_wire_def)
next
  case (Some path)
  let ?req = "\<lparr>crq_method = ''POST'', crq_url = path, crq_body_length = Some (length (as_bytes text)),
    crq_read_exact = (\<lambda>n. Ok (take n (as_bytes text)))\<rparr>"
  let ?s = "\<lparr>vm_transport = snd w, vm_files = fst w\<rparr>"
  obtain x s where route: "route_control_request E H ctl args dc me ?req ?s = (x, s)" by force
  have from_q: "request_from_slice E (as_bytes text) = Ok q"
    using assms(1,2) by (simp add: envelopes_serde_def)
  show ?thesis
  proof (cases x)
    case (Err p)
    then show ?thesis using assms(3) Some route by (auto simp: daemon_wire_def)
  next
    case (Ok ans)
    then have reply: "reply = reply_of E ans" and w': "\<lparr>vm_transport = snd w', vm_files = fst w'\<rparr> = s"
      using assms(3) Some route by (auto simp: daemon_wire_def reply_of_def json_response_def Let_def case_prod_beta)
    have "fst ans < 400 \<longrightarrow> rse_ok (snd ans) \<and>
        typed_response (result_of_operation (rqe_operation q)) (rqe_request_id q) (snd ans) \<and>
        dispatch E H ctl args dc me q ?s = (Ok (snd ans), s)"
    proof (cases "path = ''/rpc'' \<and> length (as_bytes text) \<le> 65536")
      case True
      then obtain r where d: "dispatch E H ctl args dc me q ?s = (Ok r, s)" and a: "ans = (response_status r, r)"
        using route Ok from_q
        by (auto simp: route_control_request_def daemon_read_request_body_def bind_r_Ok pure_Ok)
      have "typed_response (result_of_operation (rqe_operation q)) (rqe_request_id q) r"
        using dispatch_typed [of q E H ctl args dc me] d by (auto simp: yields_def)
      then show ?thesis
        using a d map_error_status_400 [of r] by (auto simp: response_status_def split: if_splits)
    next
      case False
      then have "400 \<le> fst ans"
        using route Ok
        by (auto simp: route_control_request_def daemon_read_request_body_def unknown_request_def pure_Ok
            split: if_splits)
      then show ?thesis by auto
    qed
    with reply show ?thesis unfolding w' by (metis prod.collapse)
  qed
qed

lemma http_post_reply:
  assumes "pr_agent P = daemon_wire E H ctl args dc me base" and "envelopes_serde E V"
    and "request_to_text E q = Ok text" and "http_post P endpoint text w = (Ok reply, w')"
  shows "(\<exists>e. reply = Transport e) \<or>
         (\<exists>status r. reply = reply_of E (status, r) \<and>
            (status < 400 \<longrightarrow> rse_ok r \<and> typed_response (result_of_operation (rqe_operation q)) (rqe_request_id q) r \<and>
               dispatch E H ctl args dc me q \<lparr>vm_transport = cw_daemon w, vm_files = cw_files w\<rparr> =
                 (Ok r, \<lparr>vm_transport = cw_daemon w', vm_files = cw_files w'\<rparr>)))"
proof (rule wire_reply [OF assms(2,3), of H ctl args dc me base endpoint "(cw_files w, cw_daemon w)" reply
      "(cw_files w', cw_daemon w')", unfolded fst_conv snd_conv])
  show "daemon_wire E H ctl args dc me base ''POST'' endpoint (Some text) (cw_files w, cw_daemon w) =
      (reply, cw_files w', cw_daemon w')"
    using assms(1,4) by (auto simp: http_post_def split: prod.splits)
qed

section \<open>The contract of an operation\<close>

text \<open>A decoder of the client fits an operation of the daemon: it reads every result the operation is
  documented to return.\<close>

locale interface_operation =
  fixes E :: "'x cli_env_scheme" and V :: "api_result \<Rightarrow> json" and decode :: "json \<Rightarrow> ('t, string) result"
    and inject :: "'t \<Rightarrow> api_result" and operation :: string
  assumes decodes: "results_serde E V \<Longrightarrow> decode (V (inject x)) = Ok x"
    and documented: "result_of_operation operation v \<Longrightarrow> \<exists>x. v = inject x"
begin

lemma read_typed:
  assumes "interface_serde E V" and "rse_ok r" and "typed_response (result_of_operation operation) rid r"
  shows "\<exists>x. rse_result r = Some (inject x) \<and>
           read_reply E decode (Response (Ok (bytes_text (response_to_vec_pretty E r)))) = Ok x"
proof -
  from assms(2,3) obtain v where "rse_result r = Some v" "result_of_operation operation v"
    by (auto simp: typed_response_def)
  then obtain x where "rse_result r = Some (inject x)" using documented by blast
  then show ?thesis
    using assms(1,2) decodes
    by (auto simp: interface_serde_def read_reply_def read_envelope_sent [of E V] received_def map_err_def)
qed

lemma read_error:
  assumes "interface_serde E V"
  shows "read_reply E decode (Status code (Ok (bytes_text (response_to_vec_pretty E r)))) =
           Err (envelope_error (rse_error r))"
  using assms by (simp add: interface_serde_def read_reply_def read_envelope_sent [of E V] received_def)

text \<open>A request that succeeds is a dispatch that succeeds, and it hands over the daemon's own result.\<close>

lemma request_Ok:
  assumes "pr_agent P = daemon_wire E H ctl args dc me base" and "interface_serde E V"
    and "daemon_request E P c decode operation payload w = (Ok x, w')"
  shows "\<exists>r. dispatch E H ctl args dc me (client_request P ''req'' operation payload)
             \<lparr>vm_transport = cw_daemon w, vm_files = cw_files w\<rparr> =
             (Ok r, \<lparr>vm_transport = cw_daemon w', vm_files = cw_files w'\<rparr>) \<and>
           rse_ok r \<and> rse_result r = Some (inject x) \<and> cw_out w' = cw_out w"
proof -
  let ?q = "client_request P ''req'' operation payload"
  have op: "rqe_operation ?q = operation" by (simp add: client_request_def)
  have serde: "envelopes_serde E V" using assms(2) by (simp add: interface_serde_def)
  from assms(3) obtain body endpoint reply where sent: "request_to_text E ?q = Ok body"
    and post: "http_post P endpoint body w = (Ok reply, w')" and x: "read_reply E decode reply = Ok x"
    by (auto simp: daemon_request_def bind_r_Ok pure_Ok encoded_def load_daemon_discovery_def map_err_eq_Ok)
  have out: "cw_out w' = cw_out w" using post by (auto simp: http_post_def split: prod.splits)
  from x have "\<nexists>e. reply = Transport e" by (auto simp: read_reply_def)
  with http_post_reply [OF assms(1) serde sent post, unfolded op] obtain status r where
    reply: "reply = reply_of E (status, r)" and
    r: "status < 400 \<longrightarrow> rse_ok r \<and> typed_response (result_of_operation operation) (rqe_request_id ?q) r \<and>
      dispatch E H ctl args dc me ?q \<lparr>vm_transport = cw_daemon w, vm_files = cw_files w\<rparr> =
        (Ok r, \<lparr>vm_transport = cw_daemon w', vm_files = cw_files w'\<rparr>)" by blast
  have "status < 400"
    using x read_error [OF assms(2), of status r] by (auto simp: reply reply_of_def Let_def split: if_splits)
  with r reply x out show ?thesis
    using read_typed [OF assms(2), of r "rqe_request_id ?q"] by (auto simp: reply_of_def)
qed

text \<open>Conversely, a dispatch that succeeds is a request that succeeds, if the discovery file leads to it and
  the request is not too long.\<close>

lemma request_runs:
  assumes "pr_agent P = daemon_wire E H ctl args dc me base" and "interface_serde E V"
    and "load_daemon_discovery E (cli_control_discovery_path c) w = (Ok d, w)" and "ded_endpoint d = base @ ''/rpc''"
    and "request_to_text E (client_request P ''req'' operation payload) = Ok body" and "length body \<le> 65536"
    and "dispatch E H ctl args dc me (client_request P ''req'' operation payload)
           \<lparr>vm_transport = cw_daemon w, vm_files = cw_files w\<rparr> = (Ok r, s')" and "rse_ok r"
  shows "\<exists>x. rse_result r = Some (inject x) \<and>
           daemon_request E P c decode operation payload w =
             (Ok x, w\<lparr>cw_files := vm_files s', cw_daemon := vm_transport s'\<rparr>)"
proof -
  let ?q = "client_request P ''req'' operation payload" and ?s = "\<lparr>vm_transport = cw_daemon w, vm_files = cw_files w\<rparr>"
  have "request_from_slice E (as_bytes body) = Ok ?q"
    using assms(2,5) by (simp add: interface_serde_def envelopes_serde_def)
  with assms(6-8) have "route_control_request E H ctl args dc me
      \<lparr>crq_method = ''POST'', crq_url = ''/rpc'', crq_body_length = Some (length (as_bytes body)),
       crq_read_exact = (\<lambda>n. Ok (take n (as_bytes body)))\<rparr> ?s = (Ok (200, r), s')"
    by (simp add: route_control_request_def daemon_read_request_body_def as_bytes_def bind_r_def return_r_def
        response_status_def)
  then have post: "http_post P (ded_endpoint d) body w =
      (Ok (Response (Ok (bytes_text (response_to_vec_pretty E r)))), w\<lparr>cw_files := vm_files s', cw_daemon := vm_transport s'\<rparr>)"
    by (simp add: http_post_def assms(1,4) daemon_wire_rpc reply_of_def)
  have "typed_response (result_of_operation operation) (rqe_request_id ?q) r"
    using dispatch_typed [of ?q E H ctl args dc me] assms(7) by (auto simp: yields_def client_request_def)
  from read_typed [OF assms(2,8) this] post assms(3,5) show ?thesis
    by (auto simp: daemon_request_def bind_r_def encoded_def from_result_def map_err_def)
qed

lemma request_readable:
  assumes "pr_agent P = daemon_wire E H ctl args dc me base" and "interface_serde E V"
  shows "readable (daemon_request E P c decode operation payload)"
proof -
  have "\<not> misread e" if sent: "request_to_text E (client_request P ''req'' operation payload) = Ok body"
      and post: "http_post P endpoint body w = (Ok reply, w')" and e: "read_reply E decode reply = Err e"
    for body endpoint w reply w' e
  proof -
    have serde: "envelopes_serde E V" using assms(2) by (simp add: interface_serde_def)
    have op: "rqe_operation (client_request P ''req'' operation payload) = operation"
      by (simp add: client_request_def)
    from http_post_reply [OF assms(1) serde sent post]
    consider e' where "reply = Transport e'"
      | status r where "reply = reply_of E (status, r)" "status < 400" "rse_ok r"
          "typed_response (result_of_operation operation) (rqe_request_id (client_request P ''req'' operation payload)) r"
      | status r where "reply = reply_of E (status, r)" "\<not> status < 400"
      unfolding op by blast
    then show ?thesis
    proof cases
      case 1
      then show ?thesis using e by (auto simp: read_reply_def)
    next
      case 2
      then show ?thesis using e read_typed [OF assms(2)] by (force simp: reply_of_def)
    next
      case 3
      then show ?thesis
        using e read_error [OF assms(2)] by (auto simp: reply_of_def envelope_error_def usage_error_def)
    qed
  qed
  then show ?thesis
    unfolding daemon_request_def raises_def bind_r_def
    by (auto simp: load_daemon_discovery_def encoded_def from_result_def map_err_def
        split: prod.splits result.splits)
qed

end

text \<open>Every decoder the client applies fits the operation it asks for.\<close>

interpretation op_status: interface_operation E V "runtime_status_from_value E" RuntimeStatus_result "''runtime.status''"
  for E V by unfold_locales (auto simp: results_serde_def result_of_operation_def split: api_result.splits)

interpretation op_diagnose: interface_operation E V "runtime_diagnose_result_from_value E" RuntimeDiagnose_result "''runtime.diagnose''"
  for E V by unfold_locales (auto simp: results_serde_def result_of_operation_def split: api_result.splits)

interpretation op_sessions: interface_operation E V "runtime_sessions_from_value E" RuntimeSessionsList_result "''runtime.sessions.list''"
  for E V by unfold_locales (auto simp: results_serde_def result_of_operation_def split: api_result.splits)

interpretation op_listeners: interface_operation E V "runtime_listeners_from_value E" RuntimeListenersList_result "''runtime.listeners.list''"
  for E V by unfold_locales (auto simp: results_serde_def result_of_operation_def split: api_result.splits)

interpretation op_paths: interface_operation E V "runtime_paths_from_value E" RuntimePathsList_result "''runtime.paths.list''"
  for E V by unfold_locales (auto simp: results_serde_def result_of_operation_def split: api_result.splits)

interpretation op_health: interface_operation E V "runtime_health_from_value E" RuntimeHealth_result "''runtime.health''"
  for E V by unfold_locales (auto simp: results_serde_def result_of_operation_def split: api_result.splits)

interpretation op_events: interface_operation E V "runtime_events_from_value E" RuntimeEventsList_result "''runtime.events.list''"
  for E V by unfold_locales (auto simp: results_serde_def result_of_operation_def split: api_result.splits)

interpretation op_connect: interface_operation E V "session_connect_result_from_value E" SessionConnect_result "''session.connect''"
  for E V by unfold_locales (auto simp: results_serde_def result_of_operation_def split: api_result.splits)

interpretation op_close: interface_operation E V "session_close_result_from_value E" SessionClose_result "''session.close''"
  for E V by unfold_locales (auto simp: results_serde_def result_of_operation_def split: api_result.splits)

interpretation op_upgrade: interface_operation E V "session_upgrade_result_from_value E" SessionUpgrade_result "''session.upgrade''"
  for E V by unfold_locales (auto simp: results_serde_def result_of_operation_def split: api_result.splits)

interpretation op_reconcile: interface_operation E V "session_reconcile_result_from_value E" SessionReconcile_result "''session.reconcile''"
  for E V by unfold_locales (auto simp: results_serde_def result_of_operation_def split: api_result.splits)

interpretation op_show: interface_operation E V "state_show_from_value E" StateShow_result "''state.show''"
  for E V by unfold_locales (auto simp: results_serde_def result_of_operation_def split: api_result.splits)

interpretation op_export: interface_operation E V "state_export_result_from_value E" StateExport_result "''state.export''"
  for E V by unfold_locales (auto simp: results_serde_def result_of_operation_def split: api_result.splits)

interpretation op_validate: interface_operation E V "state_validate_from_value E" StateValidate_result "''state.validate''"
  for E V by unfold_locales (auto simp: results_serde_def result_of_operation_def split: api_result.splits)

interpretation op_reset: interface_operation E V "state_reset_result_from_value E" StateReset_result "''state.reset''"
  for E V by unfold_locales (auto simp: results_serde_def result_of_operation_def split: api_result.splits)

interpretation op_authority: interface_operation E V "authority_show_from_value E" AuthorityShow_result "''authority.show''"
  for E V by unfold_locales (auto simp: results_serde_def result_of_operation_def split: api_result.splits)

interpretation op_membership: interface_operation E V "authority_membership_from_value E" AuthorityMembership_result "''authority.membership''"
  for E V by unfold_locales (auto simp: results_serde_def result_of_operation_def split: api_result.splits)

interpretation op_capabilities: interface_operation E V "authority_capabilities_from_value E" AuthorityCapabilities_result "''authority.capabilities''"
  for E V by unfold_locales (auto simp: results_serde_def result_of_operation_def split: api_result.splits)

interpretation op_revocations: interface_operation E V "authority_revocations_from_value E" AuthorityRevocations_result "''authority.revocations''"
  for E V by unfold_locales (auto simp: results_serde_def result_of_operation_def split: api_result.splits)

interpretation op_sync_snapshot: interface_operation E V "authority_sync_from_value E" AuthoritySync_result "''authority.sync_snapshot''"
  for E V by unfold_locales (auto simp: results_serde_def result_of_operation_def split: api_result.splits)

interpretation op_sync_origin: interface_operation E V "authority_sync_from_value E" AuthoritySync_result "''authority.sync_origin''"
  for E V by unfold_locales (auto simp: results_serde_def result_of_operation_def split: api_result.splits)

interpretation op_sync_revocations: interface_operation E V "authority_sync_from_value E" AuthoritySync_result "''authority.sync_revocations_origin''"
  for E V by unfold_locales (auto simp: results_serde_def result_of_operation_def split: api_result.splits)

interpretation op_identity: interface_operation E V "identity_show_from_value E" IdentityShow_result "''identity.show''"
  for E V by unfold_locales (auto simp: results_serde_def result_of_operation_def split: api_result.splits)

interpretation op_verify: interface_operation E V "identity_verify_from_value E" IdentityVerify_result "''identity.verify''"
  for E V by unfold_locales (auto simp: results_serde_def result_of_operation_def split: api_result.splits)

lemmas readable_requests =
  op_status.request_readable
  op_diagnose.request_readable
  op_sessions.request_readable
  op_listeners.request_readable
  op_paths.request_readable
  op_health.request_readable
  op_events.request_readable
  op_connect.request_readable
  op_close.request_readable
  op_upgrade.request_readable
  op_reconcile.request_readable
  op_show.request_readable
  op_export.request_readable
  op_validate.request_readable
  op_reset.request_readable
  op_authority.request_readable
  op_membership.request_readable
  op_capabilities.request_readable
  op_revocations.request_readable
  op_sync_snapshot.request_readable
  op_sync_origin.request_readable
  op_sync_revocations.request_readable
  op_identity.request_readable
  op_verify.request_readable

section \<open>No command misreads a reply\<close>

lemma readable_resolutions:
  "resolve_peer E peer state = Err e \<Longrightarrow> \<not> misread e"
  "resolve_daemon_session_id session sessions = Err e \<Longrightarrow> \<not> misread e"
  "required_env_value P name = Err e \<Longrightarrow> \<not> misread e"
  "map_err (\<lambda>e. usage_error (f e)) r = Err e' \<Longrightarrow> \<not> misread e'"
  by (auto simp: resolve_peer_def resolve_daemon_session_id_def required_env_value_def usage_error_def map_err_def
      split: option.splits if_splits list.splits result.splits)

lemma readable_init: "readable (init_identity X P path var overwrite)"
  by (auto simp: raises_def init_identity_def Let_def usage_error_def
      split: if_splits option.splits result.splits prod.splits)

lemma readable_show_reply:
  "readable (daemon_request E P c decode operation payload) \<Longrightarrow>
   readable (show_reply E P c decode operation payload render)"
  unfolding show_reply_def by (intro raises_bind readable_print)

lemma readable_event: "readable (print_event E truth_kind event)"
  unfolding print_event_def by (intro raises_intros readable_effects)

lemmas readable_rules =
  raises_intros readable_effects readable_print readable_show_reply readable_event readable_init
  raises_pure(4)

lemma readable_files:
  "readable (run_join E c snapshot)" "readable (run_join_origin E H c origin subject)" "readable (run_peers E c)"
  "readable (run_peer_inspect E c peer)" "readable (run_policy_explain E c protocol peer)"
  "readable (run_netcheck E c)" "readable (run_relay_status E c)"
  unfolding run_join_def run_join_origin_def run_peers_def run_peer_inspect_def run_policy_explain_def
    run_netcheck_def run_relay_status_def case_prod_beta
  by (intro readable_rules; erule readable_resolutions)+

lemma readable_daemon:
  assumes "pr_agent P = daemon_wire E H ctl args dc me base" and "interface_serde E V"
  shows "readable (run_status E P c)" "readable (run_runtime E P c rc)" "readable (run_sessions E P c)"
    "readable (run_connect E P c protocol peer class preference)" "readable (run_close E P c session)"
    "readable (run_upgrade E P c session)" "readable (run_reconcile E P c)"
proof -
  note rules = readable_rules readable_requests [OF assms]
  have chosen: "readable (chosen_session E P c session)" for session
    unfolding chosen_session_def by (intro rules; erule readable_resolutions)
  show "readable (run_status E P c)" unfolding run_status_def by (intro rules)
  show sessions: "readable (run_sessions E P c)" unfolding run_sessions_def by (intro rules)
  show "readable (run_runtime E P c rc)"
    by (cases rc) (simp_all add: run_runtime_def sessions, simp_all add: run_diagnose_def run_events_def, (intro rules)+)
  show "readable (run_connect E P c protocol peer class preference)"
    unfolding run_connect_def by (intro rules; erule readable_resolutions)
  show "readable (run_close E P c session)" "readable (run_upgrade E P c session)"
    unfolding run_close_def run_upgrade_def by (intro rules chosen)+
  show "readable (run_reconcile E P c)" unfolding run_reconcile_def by (intro rules)
qed

lemma readable_watch:
  assumes "pr_agent P = daemon_wire E H ctl args dc me base" and "interface_serde E V"
  shows "readable (watch_samples E P c peer class k index previous)"
proof (induction k arbitrary: index previous)
  case 0
  then show ?case by (simp add: raises_pure)
next
  case (Suc k)
  have "readable (path_sample E P c peer class)"
    unfolding path_sample_def by (intro readable_rules readable_requests [OF assms])
  with Suc show ?case by (simp only: watch_samples.simps) (intro readable_rules)
qed

lemma readable_groups:
  assumes "pr_agent P = daemon_wire E H ctl args dc me base" and "interface_serde E V"
  shows "readable (run_path E P c pc)" "readable (run_state E P c sc)" "readable (run_authority E P c ac)"
    "readable (run_identity E P c ic)"
proof -
  note rules = readable_rules readable_requests [OF assms]
  show "readable (run_path E P c pc)"
    by (cases pc) (simp_all add: run_path_def readable_watch [OF assms], (intro rules)+)
  have live: "readable (stopped_daemon E P c confirm unconfirmed running)" for confirm unconfirmed running
    unfolding stopped_daemon_def daemon_endpoint_is_live_def by (intro rules)
  have export: "readable (run_export E P c out var env hostname overwrite)" for out var env hostname overwrite
    unfolding run_export_def by (intro rules; erule readable_resolutions)
  have offline: "readable (run_migrate E P c confirm)" "readable (run_restore E P c input var confirm overwrite)"
    "readable (run_reset E P c confirm)" for confirm input var overwrite
    unfolding run_migrate_def run_restore_def run_reset_def
    by (intro rules live; (erule readable_resolutions)?)+
  show "readable (run_state E P c sc)"
    by (cases sc) (simp_all add: run_state_def export offline, (intro rules)+)
  show "readable (run_authority E P c ac)"
    by (cases ac) (simp_all add: run_authority_def run_sync_def, (intro rules)+)
  show "readable (run_identity E P c ic)"
    by (cases ic) (simp_all add: run_identity_def, (intro rules)+)
qed

text \<open>C11: The client and the daemon agree on the interface. When the requests of the client reach a quipd
  and serde reads what it wrote, then no command of the client, whatever its arguments, the files
  and the state of the daemon, fails because it cannot read a reply: every reply of the daemon,
  success or error, is one the command that asked for it can decode.\<close>

theorem client_never_misreads:
  assumes "interface_serde E V" and "pr_agent P = daemon_wire E H ctl args dc me base"
    and "run_cli E R P c w = (Err e, w')"
  shows "\<not> misread e"
proof -
  have "readable (run_command E R P c cmd)" for c cmd
    by (cases cmd)
       (simp_all add: run_command_def readable_files readable_daemon [OF assms(2,1)] readable_groups [OF assms(2,1)],
        rename_tac sc, case_tac sc, simp_all add: run_session_def readable_daemon [OF assms(2,1)])
  then show ?thesis
    using assms(3) unfolding run_cli_def raises_def by blast
qed

section \<open>Closing a session from the command line\<close>

text \<open>The daemon reads the payloads the client writes.\<close>

definition payloads_serde :: "'x cli_env_scheme \<Rightarrow> bool" where
  "payloads_serde E \<longleftrightarrow>
     (\<forall>x v. session_connect_to_value E x = Ok v \<longrightarrow> session_connect_from_value E v = Ok x) \<and>
     (\<forall>x v. session_close_to_value E x = Ok v \<longrightarrow> session_close_from_value E v = Ok x) \<and>
     (\<forall>x v. session_upgrade_to_value E x = Ok v \<longrightarrow> session_upgrade_from_value E v = Ok x) \<and>
     (\<forall>x v. state_export_to_value E x = Ok v \<longrightarrow> state_export_from_value E v = Ok x) \<and>
     (\<forall>x v. state_reset_to_value E x = Ok v \<longrightarrow> state_reset_from_value E v = Ok x)"

text \<open>The session is gone from the registry, every other is the same in every field, and it is remembered as
  closed on the request of the operator.\<close>

definition closed_in :: "bytes \<Rightarrow> 'r quic_adapter \<Rightarrow> 'r quic_adapter \<Rightarrow> bool" where
  "closed_in sid a a' \<longleftrightarrow>
     adapter_session_snapshot sid a \<noteq> None \<and>
     (\<forall>k. adapter_session_snapshot k a' = (if k = sid then None else adapter_session_snapshot k a)) \<and>
     (\<exists>t. terminal_session_snapshot sid a' = Some t \<and> ss_state t = SS_Closed \<and> ss_closure_reason t = Some OperatorRequested)"

lemma plane_close_Ok:
  assumes "adapter_wf (vm_transport s)" and "plane_close_session E ctl c sid s = (Ok v, s')"
  shows "closed_in sid (vm_transport s) (vm_transport s')"
proof -
  from assms(2) obtain state s1 session u s2 u' s3 where
    en: "on_files (ensure_state E c) s = (Ok state, s1)" and
    found: "adapter_session_snapshot sid (vm_transport s1) = Some session" and
    mark: "set_session_state E sid SS_Closing (Some OperatorRequested) (Some ''operator requested close'') s1 = (Ok u, s2)" and
    close: "on_transport (adapter_close_session E ctl session) s2 = (Ok u', s3)" and
    save: "save_with_sessions E c state s3 = (Ok v, s')"
    by (auto simp: plane_close_session_def bind_r_Ok then_r_Ok ask_Ok pure_Ok split: option.splits)
  let ?a = "vm_transport s" and ?b = "vm_transport s2"
  have s1: "vm_transport s1 = ?a" using en by (auto simp: on_files_Ok)
  from found obtain r where r: "bt_get (qa_sessions ?a) sid = Some r" "session = sx_snapshot r"
    by (auto simp: s1 adapter_session_snapshot_def)
  then have id: "ss_session_id session = sid" "ss_session_id (sx_snapshot r) = sid" using assms(1) by (auto simp: adapter_wf_def)
  have b: "?b = snd (update_session_state E sid SS_Closing (Some OperatorRequested) (Some ''operator requested close'') ?a)"
    using mark s1 by (auto simp: set_session_state_def on_registry_def split: prod.splits)
  then obtain m where m: "bt_get (qa_sessions ?b) (ss_session_id session) = Some m"
    "ss_closure_reason (sx_snapshot m) = Some OperatorRequested" "ss_session_id (sx_snapshot m) = sid"
    using r id by (simp add: update_session_state_get)
  have cl: "adapter_close_session E ctl session ?b = (Ok u', vm_transport s')"
    using close save_with_sessions_Ok [OF save] by (auto simp: on_transport_def on_part_def split: prod.splits)
  have "\<exists>u c. close_removed E ctl (closing_record session ?b m) (closing_adapter E session m ?b) = (Ok u, c)"
    using cl unfolding adapter_close_present [OF m(1)] by (auto split: prod.splits result.splits)
  with adapter_close_Ok [OF m(1)] cl m id obtain t where
    "terminal_session_snapshot sid (vm_transport s') = Some t" "ss_state t = SS_Closed" "ss_closure_reason t = Some OperatorRequested"
    by (fastforce simp: or_opt_def)
  moreover have "adapter_session_snapshot k (vm_transport s') = (if k = sid then None else adapter_session_snapshot k ?a)" for k
    using close_sessions(1) [of E ctl session ?b k] cl id by (simp add: adapter_session_snapshot_def b update_session_state_get)
  ultimately show ?thesis using r by (simp add: closed_in_def adapter_session_snapshot_def)
qed

lemma daemon_error_not_ok [simp]: "\<not> rse_ok (daemon_error_response X rid e)"
  by (simp add: daemon_error_response_def ResponseEnvelope_error_def split: prod.split)

lemma close_dispatch_Ok:
  assumes "rqe_operation env = ''session.close''" and "session_close_from_value E (rqe_payload env) = Ok p"
    and "ascp_session_id p = hex_session_id sid" and "length sid = 16" and "adapter_wf (vm_transport s)"
    and "dispatch E H ctl args dc me env s = (Ok r, s')" and "rse_ok r" and "rse_result r = Some (SessionClose_result x)"
  shows "closed_in sid (vm_transport s) (vm_transport s') \<and> ascr_closed_session_id x = hex_session_id sid"
proof -
  have "parse_hex_session_id (hex_session_id sid) = Ok (Ok sid)"
    using assms(4) by (simp add: parse_hex_session_id_def parse_hex_pairs_hex)
  with assms(1-3) have "dispatch E H ctl args dc me env s =
      answer E env (then_r (plane_close_session E ctl dc sid) (ask (terminal_session_snapshot sid)))
        (\<lambda>terminal. SessionClose_result (close_result p terminal)) s"
    by (simp add: dispatch_def session_close_response_def with_payload_def with_session_id_def)
  with assms(6) obtain v t where close: "plane_close_session E ctl dc sid s = (Ok v, s')" and
    r: "r = ResponseEnvelope_success (rqe_request_id env) (SessionClose_result (close_result p t))"
    using assms(7) by (auto simp: answer_def match_r_Ok then_r_Ok ask_Ok pure_Ok)
  with assms(3,8) plane_close_Ok [OF assms(5) close] show ?thesis
    by (auto simp: ResponseEnvelope_success_def close_result_def)
qed

lemma println_Ok: "println line w = (Ok u, w') \<longleftrightarrow> w' = w\<lparr>cw_out := cw_out w @ [line]\<rparr>"
  by (auto simp: println_def)

lemma print_one: "print_all [line] = println line"
  by (rule ext) (simp add: print_all_def bind_r_def return_r_def println_def)

text \<open>A query the client makes first leaves the registrations of the daemon alone.\<close>

lemma query_leaves_sessions:
  assumes "dispatch E H ctl args dc me env s = (Ok r, s')" and "rqe_operation env \<in> set query_operations"
    and "fs_exists (vm_files s) (dcf_state_path dc)"
  shows "adapter_session_snapshot k (vm_transport s') = adapter_session_snapshot k (vm_transport s)"
    and "adapter_wf (vm_transport s) \<Longrightarrow> adapter_wf (vm_transport s')"
proof -
  have "undisturbed s s'" by (rule keepsD [OF keeps_queries [OF assms(3,2)] undisturbed_refl assms(1)])
  then obtain ck where a: "vm_transport s' = (vm_transport s)\<lparr>qa_clock := ck\<rparr>" by (auto simp: undisturbed_def)
  show "adapter_session_snapshot k (vm_transport s') = adapter_session_snapshot k (vm_transport s)"
    by (simp add: a adapter_session_snapshot_def)
  show "adapter_wf (vm_transport s) \<Longrightarrow> adapter_wf (vm_transport s')" by (simp add: a adapter_wf_def terminal_ids_def)
qed

text \<open>C12: Closing a session from the command line closes it in the daemon. When the client's requests reach a
  quipd whose state file exists and the command "session close" with the printed form of a session
  identifier succeeds, then the session was registered with the daemon's transport before, it is
  not registered afterwards but remembered as closed on the request of the operator, every other
  registered session is as it was in every field, none is added, and the client prints one line,
  about that session.\<close>

theorem cli_close_effective:
  assumes "interface_serde E V" and "payloads_serde E" and "pr_agent P = daemon_wire E H ctl args dc me base"
    and "adapter_wf (cw_daemon w)" and "fs_exists (cw_files w) (dcf_state_path dc)" and "length sid = 16"
    and "run_close E P c (Some (hex_session_id sid)) w = (Ok (), w')"
  shows "adapter_session_snapshot sid (cw_daemon w) \<noteq> None \<and>
         (\<forall>k. adapter_session_snapshot k (cw_daemon w') = (if k = sid then None else adapter_session_snapshot k (cw_daemon w))) \<and>
         (\<exists>t. terminal_session_snapshot sid (cw_daemon w') = Some t \<and> ss_state t = SS_Closed \<and>
              ss_closure_reason t = Some OperatorRequested) \<and>
         (\<exists>x. cw_out w' = cw_out w @ [close_line x] \<and> ascr_closed_session_id x = hex_session_id sid)"
proof -
  from assms(6,7) obtain sessions w1 payload x w2 where
    listed: "daemon_request E P c (runtime_sessions_from_value E) ''runtime.sessions.list'' (JObject []) w = (Ok sessions, w1)" and
    payload: "session_close_to_value E
      \<lparr>ascp_session_id = hex_session_id sid, ascp_reason = Some ''operator_requested''\<rparr> = Ok payload" and
    closed: "daemon_request E P c (session_close_result_from_value E) ''session.close'' payload w1 = (Ok x, w2)" and
    w': "w' = w2\<lparr>cw_out := cw_out w2 @ [close_line x]\<rparr>"
    by (auto simp: run_close_def chosen_session_def resolve_daemon_session_id_def show_reply_def bind_r_Ok pure_Ok
        encoded_def map_err_eq_Ok print_one println_Ok)
  from op_sessions.request_Ok [OF assms(3,1) listed] obtain r1 where
    d1: "dispatch E H ctl args dc me (client_request P ''req'' ''runtime.sessions.list'' (JObject []))
      \<lparr>vm_transport = cw_daemon w, vm_files = cw_files w\<rparr> = (Ok r1, \<lparr>vm_transport = cw_daemon w1, vm_files = cw_files w1\<rparr>)"
    and o1: "cw_out w1 = cw_out w" by blast
  have q: "rqe_operation (client_request P ''req'' ''runtime.sessions.list'' (JObject [])) \<in> set query_operations"
    by (simp add: client_request_def query_operations_def)
  note t1 = query_leaves_sessions [OF d1 q, unfolded runtime.simps, OF assms(5)]
  from op_close.request_Ok [OF assms(3,1) closed] obtain r2 where
    d2: "dispatch E H ctl args dc me (client_request P ''req'' ''session.close'' payload)
      \<lparr>vm_transport = cw_daemon w1, vm_files = cw_files w1\<rparr> = (Ok r2, \<lparr>vm_transport = cw_daemon w2, vm_files = cw_files w2\<rparr>)"
    "rse_ok r2" "rse_result r2 = Some (SessionClose_result x)" and o2: "cw_out w2 = cw_out w1" by blast
  have p: "session_close_from_value E (rqe_payload (client_request P ''req'' ''session.close'' payload)) =
      Ok \<lparr>ascp_session_id = hex_session_id sid, ascp_reason = Some ''operator_requested''\<rparr>"
    using payload assms(2) by (simp add: client_request_def payloads_serde_def)
  from close_dispatch_Ok [OF _ p _ assms(6) _ d2] t1 assms(4) o1 o2 w' show ?thesis
    by (auto simp: client_request_def closed_in_def)
qed

end
