(* ===== verification/Quip_Cli_Safety.thy ===== *)
theory Quip_Cli_Safety
  imports Quip_Cli_Commands Quip_Process_Laws
begin

text \<open>
  What the client does by itself: the files a command may write, the identity it creates for the
  daemon, and the samples that \<open>path watch\<close> prints.
\<close>

section \<open>Files a command may write\<close>

definition same_outside :: "string set \<Rightarrow> filesystem \<Rightarrow> filesystem \<Rightarrow> bool" where
  "same_outside F fs0 fs \<longleftrightarrow> (\<forall>p. p \<notin> F \<longrightarrow> fs_read fs p = fs_read fs0 p)"

abbreviation confined :: "string set \<Rightarrow> filesystem \<Rightarrow> ('d, 'a) cli_op \<Rightarrow> bool" where
  "confined F fs0 m \<equiv> keeps (\<lambda>w. same_outside F fs0 (cw_files w)) m"

lemma fs_exists_read: "fs_exists fs p \<longleftrightarrow> (\<exists>content. fs_read fs p = Ok content)"
  by (auto simp: fs_exists_def fs_read_def split: option.splits)

lemma same_outside_write:
  "fs_write fs path content = (r, fs') \<Longrightarrow> path \<in> F \<Longrightarrow> same_outside F fs0 fs \<Longrightarrow> same_outside F fs0 fs'"
  unfolding same_outside_def by (metis fs_write_kept(3))

lemma same_outside_write_parent:
  "write_with_parent fs path content = (r, fs') \<Longrightarrow> path \<in> F \<Longrightarrow> same_outside F fs0 fs \<Longrightarrow> same_outside F fs0 fs'"
  by (auto simp: write_with_parent_def dest: same_outside_write split: result.splits prod.splits)

lemma keeps_save: "dcf_state_path c \<in> F \<Longrightarrow> keeps (same_outside F fs0) (save_state E c state)"
  by (auto simp: keeps_def save_state_def DaemonState_save_def intro: same_outside_write_parent [OF prod.collapse [symmetric]])

lemma keeps_load: "keeps I (load_state E c)" "keeps I (load_authority_snapshot E path)"
  by (simp_all add: keeps_def load_state_def load_authority_snapshot_def bind_r_def from_result_def split: result.split)

text \<open>The state file is only written where there was none.\<close>

lemma keeps_ensure:
  assumes "dcf_state_path c \<in> F \<or> fs_exists fs0 (dcf_state_path c)"
  shows "keeps (same_outside F fs0) (ensure_state E c)"
proof -
  have "same_outside F fs0 (snd (ensure_state E c fs))" if "same_outside F fs0 fs" for fs
  proof (cases "state_exists c fs")
    case True
    then have "ensure_state E c fs = bind_r (load_state E c) (\<lambda>state.
         return_r (with_merged_candidates (state\<lparr>ds_roles := dcf_roles c\<rparr>))) fs"
      by (simp add: ensure_state_def)
    then show ?thesis
      using keeps_bind [OF keeps_load(1) keeps_pure(1)] that unfolding keeps_def by metis
  next
    case False
    then have "dcf_state_path c \<in> F"
      using assms that by (auto simp: state_exists_def fs_exists_read same_outside_def)
    then have "keeps (same_outside F fs0) (then_r (save_state E c st) (return_r st))" for st
      by (intro keeps_then keeps_save keeps_pure)
    with that False show ?thesis by (simp add: ensure_state_def keeps_def Let_def)
  qed
  then show ?thesis by (simp add: keeps_def)
qed

lemma keeps_seed:
  assumes "dcf_state_path c \<in> F"
  shows "keeps (same_outside F fs0) (seed_from_authority_snapshot E c path)"
    and "keeps (same_outside F fs0) (seed_from_authority_origin E H c origin subject)"
  unfolding seed_from_authority_snapshot_def seed_from_authority_origin_def control_result_def Let_def case_prod_beta
  by (intro keeps_bind keeps_then keeps_load keeps_save [OF assms] keeps_pure)+

lemma keeps_queries_on_file:
  assumes "dcf_state_path c \<in> F \<or> fs_exists fs0 (dcf_state_path c)"
  shows "keeps (same_outside F fs0) (inspect_peer E c peer)"
    and "keeps (same_outside F fs0) (plane_explain_policy E c peer protocol)"
  unfolding inspect_peer_def plane_explain_policy_def
  by (intro keeps_bind keeps_ensure [OF assms] keeps_option keeps_pure)+

lemma keeps_migrate: "path \<in> F \<Longrightarrow> keeps (same_outside F fs0) (migrate_durable_state_file E path)"
  by (auto simp: keeps_def migrate_durable_state_file_def split: result.splits option.splits prod.splits
      dest: same_outside_write_parent)

lemma keeps_restore:
  "bq_identity_path q \<in> F \<Longrightarrow> bq_state_path q \<in> F \<Longrightarrow> keeps (same_outside F fs0) (restore_backup_bundle E q)"
  by (auto simp: keeps_def restore_backup_bundle_def split: result.splits prod.splits
      dest: same_outside_write)

text \<open>The files the command may write, by command: the destructive ones only when they are confirmed and
  no daemon answers, a key only where there is none or replacing it is asked for, and the state file
  where a command needs one and there is none.\<close>

definition no_daemon :: "'x cli_env_scheme \<Rightarrow> ('d, 'p) process_scheme \<Rightarrow> cli \<Rightarrow> 'd cli_world \<Rightarrow> bool" where
  "no_daemon E P c w \<longleftrightarrow> fst (daemon_endpoint_is_live E P c w) = Ok False"

definition missing_state :: "cli \<Rightarrow> 'd cli_world \<Rightarrow> string set" where
  "missing_state c w = (if fs_exists (cw_files w) (cli_state_path c) then {} else {cli_state_path c})"

definition writable_files ::
  "'x cli_env_scheme \<Rightarrow> ('d, 'p) process_scheme \<Rightarrow> cli \<Rightarrow> command \<Rightarrow> 'd cli_world \<Rightarrow> string set" where
  "writable_files E P c cmd w = (case cmd of
     C_Join _ \<Rightarrow> {cli_state_path c}
   | C_JoinOrigin _ _ \<Rightarrow> {cli_state_path c}
   | C_State (StC_Migrate confirm) \<Rightarrow> if confirm \<and> no_daemon E P c w then {cli_state_path c} else {}
   | C_State (StC_Restore _ _ confirm _) \<Rightarrow>
       if confirm \<and> no_daemon E P c w then {cli_identity_path c, cli_state_path c} else {}
   | C_Identity (IC_Init overwrite) \<Rightarrow>
       if overwrite \<or> \<not> fs_exists (cw_files w) (cli_identity_path c) then {cli_identity_path c} else {}
   | C_Status \<Rightarrow> missing_state c w
   | C_Peers \<Rightarrow> missing_state c w
   | C_PeerInspect _ \<Rightarrow> missing_state c w
   | C_PolicyExplain _ _ \<Rightarrow> missing_state c w
   | C_Netcheck \<Rightarrow> missing_state c w
   | C_RelayStatus \<Rightarrow> missing_state c w
   | C_Connect _ _ _ \<Rightarrow> missing_state c w
   | C_Session (SC_Connect _ _ _ _) \<Rightarrow> missing_state c w
   | _ \<Rightarrow> {})"

text \<open>Nothing else writes files meanwhile.\<close>

definition undisturbed_files :: "('d, 'p) process_scheme \<Rightarrow> bool" where
  "undisturbed_files P \<longleftrightarrow>
     (\<forall>m u b v. fst (snd (pr_agent P m u b v)) = fst v) \<and> (\<forall>i v. fst (pr_pause P i v) = fst v)"

lemma confined_effects:
  "keeps (\<lambda>w. I (cw_files w)) (println line)" "keeps (\<lambda>w. I (cw_files w)) (print_all lines)"
  "keeps (\<lambda>w. I (cw_files w)) (load_daemon_discovery E path)" "keeps (\<lambda>w. I (cw_files w)) (encoded r)"
proof -
  show p: "keeps (\<lambda>w. I (cw_files w)) (println line)" for line by (simp add: keeps_def println_def)
  show "keeps (\<lambda>w. I (cw_files w)) (print_all lines)" unfolding print_all_def by (intro keeps_for_each p)
  show "keeps (\<lambda>w. I (cw_files w)) (load_daemon_discovery E path)" by (simp add: keeps_def load_daemon_discovery_def)
  show "keeps (\<lambda>w. I (cw_files w)) (encoded r)" by (simp add: encoded_def)
qed

lemma confined_disk: "keeps I m \<Longrightarrow> keeps (\<lambda>w. I (cw_files w)) (on_disk m)"
  by (auto simp: keeps_def on_disk_def on_part_def case_prod_beta)

lemma confined_network:
  assumes "undisturbed_files P"
  shows "keeps (\<lambda>w. I (cw_files w)) (http_post P endpoint body)" "keeps (\<lambda>w. I (cw_files w)) (sleep_between P index)"
proof -
  have agent: "fs' = fs" if "pr_agent P m u b (fs, d) = (r, fs', d')" for m u b fs d r fs' d'
    using assms that unfolding undisturbed_files_def by (metis fst_conv snd_conv)
  show "keeps (\<lambda>w. I (cw_files w)) (http_post P endpoint body)"
    by (auto simp: keeps_def http_post_def split: prod.split dest!: agent)
  have pause: "fs' = fs" if "pr_pause P i (fs, d) = (fs', d')" for i fs d fs' d'
    using assms that unfolding undisturbed_files_def by (metis fst_conv)
  show "keeps (\<lambda>w. I (cw_files w)) (sleep_between P index)"
    by (auto simp: keeps_def sleep_between_def split: prod.split dest!: pause)
qed

lemma confined_request:
  assumes "undisturbed_files P"
  shows "keeps (\<lambda>w. I (cw_files w)) (daemon_request E P c decode operation payload)"
    "keeps (\<lambda>w. I (cw_files w)) (show_reply E P c decode operation payload render)"
    "keeps (\<lambda>w. I (cw_files w)) (daemon_endpoint_is_live E P c)"
proof -
  show r: "keeps (\<lambda>w. I (cw_files w)) (daemon_request E P c decode operation payload)"
    unfolding daemon_request_def by (intro keeps_bind confined_effects confined_network [OF assms] keeps_pure)
  show "keeps (\<lambda>w. I (cw_files w)) (show_reply E P c decode operation payload render)"
    unfolding show_reply_def by (intro keeps_bind r confined_effects)
  show "keeps (\<lambda>w. I (cw_files w)) (daemon_endpoint_is_live E P c)"
    unfolding daemon_endpoint_is_live_def
    by (intro keeps_match keeps_bind confined_effects confined_network [OF assms] keeps_pure)
qed

lemma confined_daemon:
  assumes "undisturbed_files P"
  shows "keeps (\<lambda>w. I (cw_files w)) (run_runtime E P c rc)" "keeps (\<lambda>w. I (cw_files w)) (run_sessions E P c)"
    "keeps (\<lambda>w. I (cw_files w)) (run_close E P c session)" "keeps (\<lambda>w. I (cw_files w)) (run_upgrade E P c session)"
    "keeps (\<lambda>w. I (cw_files w)) (run_reconcile E P c)" "keeps (\<lambda>w. I (cw_files w)) (run_authority E P c ac)"
    "keeps (\<lambda>w. I (cw_files w)) (run_export E P c out var env hostname overwrite)"
    "keeps (\<lambda>w. I (cw_files w)) (run_reset E P c confirm)"
proof -
  note rules = keeps_bind keeps_then keeps_for_each confined_effects confined_request [OF assms] keeps_pure
  show sessions: "keeps (\<lambda>w. I (cw_files w)) (run_sessions E P c)" unfolding run_sessions_def by (intro rules)
  have event: "keeps (\<lambda>w. I (cw_files w)) (print_event E tk event)" for tk event
    unfolding print_event_def by (intro rules)
  show "keeps (\<lambda>w. I (cw_files w)) (run_runtime E P c rc)"
    by (cases rc) (simp_all add: run_runtime_def sessions, simp_all add: run_diagnose_def run_events_def,
        (intro rules keeps_if event)+)
  have chosen: "keeps (\<lambda>w. I (cw_files w)) (chosen_session E P c session)"
    unfolding chosen_session_def by (intro rules)
  show "keeps (\<lambda>w. I (cw_files w)) (run_close E P c session)" "keeps (\<lambda>w. I (cw_files w)) (run_upgrade E P c session)"
    "keeps (\<lambda>w. I (cw_files w)) (run_reconcile E P c)"
    "keeps (\<lambda>w. I (cw_files w)) (run_export E P c out var env hostname overwrite)"
    "keeps (\<lambda>w. I (cw_files w)) (run_reset E P c confirm)"
    unfolding run_close_def run_upgrade_def run_reconcile_def run_export_def run_reset_def
    by (intro rules keeps_if chosen)+
  show "keeps (\<lambda>w. I (cw_files w)) (run_authority E P c ac)"
    by (cases ac) (simp_all add: run_authority_def run_sync_def, (intro rules)+)
qed

lemma confined_watch:
  assumes "undisturbed_files P"
  shows "keeps (\<lambda>w. I (cw_files w)) (watch_samples E P c peer class k index previous)"
proof (induction k arbitrary: index previous)
  case (Suc k)
  have "keeps (\<lambda>w. I (cw_files w)) (path_sample E P c peer class)"
    unfolding path_sample_def by (intro keeps_bind confined_request [OF assms] keeps_pure)
  with Suc show ?case
    by (simp only: watch_samples.simps)
       (intro keeps_bind keeps_then keeps_if confined_effects confined_network [OF assms] keeps_pure)
qed simp

lemma confined_needing_state:
  assumes "undisturbed_files P" and "cli_state_path c \<in> F \<or> fs_exists fs0 (cli_state_path c)"
  shows "confined F fs0 (run_status E P c)" "confined F fs0 (run_peers E c)" "confined F fs0 (run_peer_inspect E c peer)"
    "confined F fs0 (run_policy_explain E c protocol peer)" "confined F fs0 (run_netcheck E c)"
    "confined F fs0 (run_relay_status E c)" "confined F fs0 (run_connect E P c protocol peer class preference)"
proof -
  have st: "dcf_state_path (cli_config c) \<in> F \<or> fs_exists fs0 (dcf_state_path (cli_config c))"
    using assms(2) by (simp add: DaemonConfig_new_def)
  note rules = keeps_bind keeps_match confined_effects confined_disk confined_request [OF assms(1)] keeps_ensure [OF st]
    keeps_queries_on_file [OF st] keeps_pure
  show "confined F fs0 (run_status E P c)" "confined F fs0 (run_peers E c)" "confined F fs0 (run_peer_inspect E c peer)"
    "confined F fs0 (run_policy_explain E c protocol peer)" "confined F fs0 (run_netcheck E c)"
    "confined F fs0 (run_relay_status E c)" "confined F fs0 (run_connect E P c protocol peer class preference)"
    unfolding run_status_def run_peers_def run_peer_inspect_def run_policy_explain_def run_netcheck_def
      run_relay_status_def run_connect_def case_prod_beta
    by (intro rules)+
qed

text \<open>A guarded command either stops with the files as they were, or the guard let it pass.\<close>

lemma confined_guarded:
  assumes "undisturbed_files P" and "\<And>F fs0. G \<subseteq> F \<Longrightarrow> confined F fs0 m"
    and "then_r (stopped_daemon E P c confirm a b) m w = (r, w')"
    and "p \<notin> (if confirm \<and> no_daemon E P c w then G else {})"
  shows "fs_read (cw_files w') p = fs_read (cw_files w) p"
proof (cases "confirm \<and> no_daemon E P c w")
  case True
  then have "p \<notin> G" using assms(4) by simp
  have "confined G (cw_files w) (then_r (stopped_daemon E P c confirm a b) m)"
    unfolding stopped_daemon_def
    by (intro keeps_then keeps_if keeps_bind confined_request [OF assms(1)] keeps_pure assms(2) subset_refl)
  from keepsD [OF this _ assms(3)] \<open>p \<notin> G\<close> show ?thesis by (simp add: same_outside_def)
next
  case False
  obtain l v where live: "daemon_endpoint_is_live E P c w = (l, v)" by fastforce
  have "cw_files v = cw_files w"
    using keepsD [OF confined_request(3) [OF assms(1), of "\<lambda>fs. fs = cw_files w"] _ live] by simp
  with False live assms(3) show ?thesis
    by (auto simp: stopped_daemon_def no_daemon_def then_r_def bind_r_def raise_r_def return_r_def
        split: if_splits result.splits)
qed

lemma confinedD:
  "confined F (cw_files w) m \<Longrightarrow> m w = (r, w') \<Longrightarrow> p \<notin> F \<Longrightarrow> fs_read (cw_files w') p = fs_read (cw_files w) p"
  using keepsD [of "\<lambda>w'. same_outside F (cw_files w) (cw_files w')" m w r w'] by (simp add: same_outside_def)

lemma init_identity_confined:
  assumes "init_identity X P path var overwrite w = (r, w')"
    and "p \<notin> (if overwrite \<or> \<not> fs_exists (cw_files w) path then {path} else {})"
  shows "fs_read (cw_files w') p = fs_read (cw_files w) p"
proof -
  have "same_outside {path} fs (snd (FileKeystore_store X salt nonce fs path kp pass))" for salt nonce fs kp pass
    by (auto simp: FileKeystore_store_def Let_def same_outside_def split: result.splits option.splits prod.splits
        dest: same_outside_write [of _ _ _ _ _ "{path}" fs, unfolded same_outside_def, rule_format])
  then show ?thesis
    using assms
    by (auto simp: init_identity_def Let_def same_outside_def split: if_splits option.splits result.splits prod.splits)
       (metis snd_conv)+
qed

lemma state_command_confined:
  assumes "undisturbed_files P" and "run_state E P c sc w = (r, w')" and "p \<notin> writable_files E P c (C_State sc) w"
  shows "fs_read (cw_files w') p = fs_read (cw_files w) p"
proof -
  note rules = keeps_bind confined_effects confined_disk confined_request [OF assms(1)] keeps_pure
  have migrate: "confined F fs0 (bind_r (on_disk (migrate_durable_state_file E (cli_state_path c))) (\<lambda>report.
      println (migrate_line report)))" if "{cli_state_path c} \<subseteq> F" for F fs0
    using that by (intro rules keeps_migrate) simp_all
  have restore: "confined F fs0 (bind_r (from_result x) (\<lambda>pass. bind_r (on_disk (restore_backup_bundle E
      \<lparr>bq_input_path = i, bq_passphrase = pass, bq_identity_path = cli_identity_path c,
       bq_state_path = cli_state_path c, bq_overwrite = ow\<rparr>)) (\<lambda>report. println (restore_line report))))"
    if "{cli_identity_path c, cli_state_path c} \<subseteq> F" for F fs0 x i ow
    using that by (intro rules keeps_restore) simp_all
  have same: ?thesis if "confined {} (cw_files w) (run_state E P c sc)"
    using confinedD [OF that assms(2)] by simp
  show ?thesis
  proof (cases sc)
    case (StC_Migrate confirm)
    then show ?thesis
      using assms(2,3) by (intro confined_guarded [OF assms(1) migrate])
        (auto simp: run_state_def run_migrate_def writable_files_def)
  next
    case (StC_Restore input var confirm overwrite)
    then show ?thesis
      using assms(2,3) by (intro confined_guarded [OF assms(1) restore])
        (auto simp: run_state_def run_restore_def writable_files_def)
  qed (rule same, simp_all add: run_state_def confined_request [OF assms(1)] confined_daemon [OF assms(1)])+
qed

lemma command_confined:
  assumes "undisturbed_files P" and "run_command E H P c cmd w = (r, w')" and "p \<notin> writable_files E P c cmd w"
  shows "fs_read (cw_files w') p = fs_read (cw_files w) p"
proof -
  have kept: ?thesis if "confined F (cw_files w) (run_command E H P c cmd)" "p \<notin> F" for F
    using confinedD [OF that(1) assms(2) that(2)] .
  have same: ?thesis if "confined {} (cw_files w) (run_command E H P c cmd)"
    using kept [OF that] by simp
  have needing: ?thesis if "cli_state_path c \<in> missing_state c w \<or> fs_exists (cw_files w) (cli_state_path c) \<Longrightarrow>
      confined (missing_state c w) (cw_files w) (run_command E H P c cmd)" "p \<notin> missing_state c w"
    using kept [OF that(1) that(2)] by (simp add: missing_state_def)
  have seed: "dcf_state_path (cli_config c) \<in> {cli_state_path c}" by (simp add: DaemonConfig_new_def)
  note state = confined_needing_state [OF assms(1)] and daemon = confined_daemon [OF assms(1)]
  show ?thesis
  proof (cases cmd)
    case (C_Session sc)
    then show ?thesis
    proof (cases sc)
      case (SC_Connect a b d e)
      then show ?thesis
        using C_Session assms(3) by (intro needing) (auto simp: run_command_def run_session_def writable_files_def state)
    qed (rule same, simp_all add: run_command_def run_session_def daemon)+
  next
    case (C_Path pc)
    then show ?thesis
      by (intro same) (cases pc; simp add: run_command_def run_path_def confined_request [OF assms(1)] confined_watch [OF assms(1)])
  next
    case (C_State sc)
    then show ?thesis using state_command_confined [OF assms(1)] assms(2,3) by (simp add: run_command_def)
  next
    case (C_Identity ic)
    then show ?thesis
    proof (cases ic)
      case (IC_Init overwrite)
      obtain x v where i: "init_identity E P (cli_identity_path c) (cli_identity_passphrase_env c) overwrite w = (x, v)"
        by fastforce
      have "cw_files w' = cw_files v"
        using assms(2) i by (auto simp: C_Identity IC_Init run_command_def run_identity_def bind_r_def println_def
            split: result.splits)
      then show ?thesis
        using init_identity_confined [OF i] assms(3) by (simp add: C_Identity IC_Init writable_files_def)
    qed (rule same, simp add: run_command_def run_identity_def confined_request [OF assms(1)] keeps_bind confined_effects)+
  next
    case (C_Join a)
    then show ?thesis
      using assms(3) by (intro kept [of "{cli_state_path c}"])
        (auto simp: run_command_def run_join_def writable_files_def intro!: keeps_bind confined_disk keeps_seed [OF seed] confined_effects)
  next
    case (C_JoinOrigin a b)
    then show ?thesis
      using assms(3) by (intro kept [of "{cli_state_path c}"])
        (auto simp: run_command_def run_join_origin_def writable_files_def intro!: keeps_bind confined_disk keeps_seed [OF seed] confined_effects)
  qed (use assms(3) in \<open>(intro same, simp add: run_command_def daemon; fail) |
        (intro needing; simp add: run_command_def writable_files_def state)\<close>)+
qed

text \<open>C13: The client writes no file it should not. While nothing else writes, a command changes only these:
  joining writes the state file; migrating the state file and restoring the identity and state
  files, only when confirmed and only if no daemon answered the probe; creating an identity its
  file, only if there was none or replacing it was asked for; and the commands that need a state the
  state file, only if there was none. Every other command changes no file, also when it fails.\<close>

theorem cli_writes_confined:
  assumes "undisturbed_files P" and "run_cli E H P c w = (r, w')"
    and "fs_read (cw_files w') p \<noteq> fs_read (cw_files w) p"
  shows "p \<in> writable_files E P (normalize_cli_paths P c) (or_else (cli_command c) C_Status) w"
  using command_confined [OF assms(1) assms(2) [unfolded run_cli_def]] assms(3) by blast

section \<open>The identity the client creates is the daemon's\<close>

text \<open>C14: An identity created on the command line is the one the daemon starts with. When "identity init"
  succeeds, the key is the fresh one, no key was there or replacing it was asked for, and a daemon
  that starts with the same path and passphrase has that identity and leaves every file as it is.\<close>

theorem init_then_start:
  assumes "keystore_ok X" and "length (pr_fresh_key P) = 32" and "ho_var host var = ho_var P var"
    and "init_identity X P path var overwrite w = (Ok identity, w')"
  shows "identity = from_secret_bytes (pr_fresh_key P) \<and> (overwrite \<or> \<not> fs_exists (cw_files w) path) \<and>
         load_or_init_identity X host fresh salt nonce path var (cw_files w') = (Ok identity, cw_files w')"
proof -
  from assms(4) obtain pass where pass: "ho_var P var = Some pass" and
    store: "FileKeystore_store X (pr_salt P) (pr_nonce P) (cw_files w) path (from_secret_bytes (pr_fresh_key P)) pass =
      (Ok (), cw_files w')" and
    id: "identity = from_secret_bytes (pr_fresh_key P)" "overwrite \<or> \<not> fs_exists (cw_files w) path"
    by (auto simp: init_identity_def Let_def split: if_splits option.splits result.splits prod.splits)
  have "length (signing_key (from_secret_bytes (pr_fresh_key P))) = 32" using assms(2) by (simp add: from_secret_bytes_def)
  from FileKeystore_store_load(1) [OF assms(1) this store] id pass assms(3) show ?thesis
    by (simp add: load_or_init_identity_def)
qed

section \<open>Watching paths\<close>

text \<open>The samples that are taken, with nothing printed.\<close>

fun take_samples ::
  "'x cli_env_scheme \<Rightarrow> ('d, 'p) process_scheme \<Rightarrow> cli \<Rightarrow> string option \<Rightarrow> traffic_class \<Rightarrow> nat \<Rightarrow> u32 \<Rightarrow>
   'd cli_world \<Rightarrow> string list \<times> (unit, cli_error) result" where
  "take_samples E P c peer class 0 index w = ([], Ok ())"
| "take_samples E P c peer class (Suc k) index w =
     (case path_sample E P c peer class w of
        (Err e, w) \<Rightarrow> ([], Err e)
      | (Ok s, w) \<Rightarrow>
          (case take_samples E P c peer class k (index + 1) (if 0 < k then snd (sleep_between P index w) else w) of
             (ss, r) \<Rightarrow> (s # ss, r)))"

text \<open>A line for each sample that differs from the one before it.\<close>

definition change_lines :: "u32 \<Rightarrow> string option \<Rightarrow> string list \<Rightarrow> string list" where
  "change_lines index previous ss =
     concat (map (\<lambda>i. if (if i = 0 then previous else Some (ss ! (i - 1))) = Some (ss ! i) then []
                      else [''sample='' @ show_word (index + word_of_nat i + 1) @ '' '' @ ss ! i]) [0..<length ss])"

lemma change_lines_Nil [simp]: "change_lines index previous [] = []"
  by (simp add: change_lines_def)

lemma change_lines_Cons:
  "change_lines index previous (s # ss) =
     (if previous = Some s then [] else [''sample='' @ show_word (index + 1) @ '' '' @ s]) @
     change_lines (index + 1) (Some s) ss"
proof -
  let ?line = "\<lambda>i index previous ss. if (if i = 0 then previous else Some (ss ! (i - 1))) = Some (ss ! i) then []
    else [''sample='' @ show_word (index + word_of_nat i + 1) @ '' '' @ ss ! i]"
  have upt: "[0..<length (s # ss)] = 0 # map Suc [0..<length ss]"
    by (simp add: map_Suc_upt upt_conv_Cons del: upt_Suc)
  have later: "?line (Suc i) index previous (s # ss) = ?line i (index + 1) (Some s) ss" for i
    by (cases i) (simp_all add: algebra_simps)
  have "map (\<lambda>i. ?line i index previous (s # ss)) [0..<length (s # ss)] =
      ?line 0 index previous (s # ss) # map (\<lambda>i. ?line i (index + 1) (Some s) ss) [0..<length ss]"
    unfolding upt list.map map_map o_def later ..
  then show ?thesis by (simp add: change_lines_def)
qed

text \<open>What was printed before has no influence on requests and pauses.\<close>

lemma request_frame:
  "daemon_request E P c decode operation payload (w\<lparr>cw_out := out\<rparr>) =
     (case daemon_request E P c decode operation payload w of (r, v) \<Rightarrow> (r, v\<lparr>cw_out := out\<rparr>))"
  by (simp add: daemon_request_def bind_r_def load_daemon_discovery_def encoded_def from_result_def http_post_def
      split: result.split prod.split)

lemma output_frame:
  "path_sample E P c peer class (w\<lparr>cw_out := out\<rparr>) =
     (case path_sample E P c peer class w of (r, v) \<Rightarrow> (r, v\<lparr>cw_out := out\<rparr>))"
  "snd (sleep_between P index (w\<lparr>cw_out := out\<rparr>)) = (snd (sleep_between P index w))\<lparr>cw_out := out\<rparr>"
  by (simp_all add: path_sample_def bind_r_def return_r_def request_frame sleep_between_def case_prod_beta
      split: result.split)

lemma take_samples_frame:
  "take_samples E P c peer class k index (w\<lparr>cw_out := out\<rparr>) = take_samples E P c peer class k index w"
proof (induction k arbitrary: index w)
  case (Suc k)
  then show ?case by (auto simp: output_frame split: prod.splits result.splits)
qed simp

lemma output_kept:
  "path_sample E P c peer class w = (r, v) \<Longrightarrow> cw_out v = cw_out w" "cw_out (snd (sleep_between P index w)) = cw_out w"
  by (auto simp: path_sample_def daemon_request_def bind_r_def return_r_def load_daemon_discovery_def encoded_def
      from_result_def http_post_def sleep_between_def split: prod.splits result.splits)

lemma sleep_between_Ok: "sleep_between P index w = (Ok (), snd (sleep_between P index w))"
  by (simp add: sleep_between_def split: prod.split)

lemma watch_samples_exact:
  "take_samples E P c peer class k index w = (ss, r) \<Longrightarrow>
   \<exists>w'. watch_samples E P c peer class k index previous w = (r, w') \<and>
        cw_out w' = cw_out w @ change_lines index previous ss"
proof (induction k arbitrary: index previous w ss r)
  case 0
  then show ?case by (simp add: return_r_def)
next
  case (Suc k)
  show ?case
  proof (cases "path_sample E P c peer class w")
    case (Pair x w1)
    show ?thesis
    proof (cases x)
      case (Err e)
      with Suc.prems Pair output_kept(1) [OF Pair] show ?thesis by (auto simp: bind_r_def)
    next
      case (Ok s)
      let ?pause = "\<lambda>v. if 0 < k then snd (sleep_between P index v) else v"
      let ?new = "if previous = Some s then [] else [''sample='' @ show_word (index + 1) @ '' '' @ s]"
      let ?v = "w1\<lparr>cw_out := cw_out w @ ?new\<rparr>"
      from Suc.prems Pair Ok obtain ss' where ss: "ss = s # ss'"
        and rest: "take_samples E P c peer class k (index + 1) (?pause w1) = (ss', r)"
        by (auto split: prod.splits)
      have out: "cw_out w1 = cw_out w" by (rule output_kept(1) [OF Pair])
      have printed: "(if previous \<noteq> Some s then println (''sample='' @ show_word (index + 1) @ '' '' @ s) else return_r ()) w1 =
          (Ok (), ?v)"
        using out by (simp add: println_def return_r_def)
      have "?pause ?v = (?pause w1)\<lparr>cw_out := cw_out w @ ?new\<rparr>" by (simp add: output_frame)
      then have "take_samples E P c peer class k (index + 1) (?pause ?v) = (ss', r)"
        using rest by (simp add: take_samples_frame)
      from Suc.IH [OF this, of "Some s"] obtain w' where
        w': "watch_samples E P c peer class k (index + 1) (Some s) (?pause ?v) = (r, w')"
        "cw_out w' = cw_out (?pause ?v) @ change_lines (index + 1) (Some s) ss'" by blast
      have paused: "(if 0 < k then sleep_between P index else return_r ()) ?v = (Ok (), ?pause ?v)"
        by (cases "0 < k") (simp_all only: if_True if_False return_r_def, rule sleep_between_Ok)
      have "watch_samples E P c peer class (Suc k) index previous w = (r, w')"
        unfolding watch_samples.simps then_r_def bind_r_def Pair Ok prod.case result.case printed paused w'(1) ..
      moreover have "cw_out (?pause ?v) = cw_out w @ ?new" by (simp add: output_kept(2))
      ultimately show ?thesis using w'(2) by (simp add: ss change_lines_Cons)
    qed
  qed
qed

lemma take_samples_length:
  "take_samples E P c peer class k index w = (ss, Ok ()) \<Longrightarrow> length ss = k"
  by (induction k arbitrary: index w ss) (auto split: prod.splits result.splits)

text \<open>C15: Watching prints exactly the changes. "path watch" takes as many samples as the limit says and one if it
  says none, unless a request fails, and stops with that failure; of the samples taken it prints,
  numbered from 1 by their position, the first one and every one that differs from its
  predecessor, and nothing else.\<close>

theorem watch_prints_changes:
  assumes "take_samples E P c peer (cli_parse_class class) (unat (max sample_limit 1)) 0 w = (ss, r)"
  shows "\<exists>w'. run_path E P c (PC_Watch peer class interval_ms sample_limit) w = (r, w') \<and>
           cw_out w' = cw_out w @ change_lines 0 None ss \<and>
           (r = Ok () \<longrightarrow> length ss = unat (max sample_limit 1) \<and> ss \<noteq> [])"
proof -
  have "0 < unat (max sample_limit 1)"
    by (auto simp: max_def unat_gt_0)
  then show ?thesis
    using watch_samples_exact [OF assms, of None] take_samples_length assms
    by (fastforce simp: run_path_def)
qed

end
