(* ===== verification/Quip_Cli_Wire.thy ===== *)
theory Quip_Cli_Wire
  imports Quip_Cli_Laws Quip_Cli_Safety Quip_Daemon_Witness Quip_Json_Wire
begin

text \<open>
  Concrete serializers for the interface between client and daemon, built from the formats of
  \<open>Quip_Wire\<close> and \<open>Quip_Json_Wire\<close>: the envelopes, and one format per payload and result. They show that the
  hypotheses on serde can hold.
\<close>

section \<open>Payloads and results\<close>

definition w_error_code :: "error_code wire" where
  "w_error_code = w_enum [InvalidRequest, Unauthorized, NotFound, RuntimeUnavailable, StaleRuntimeReference,
     EC_PolicyRejected, AuthorityMismatch, StateValidationFailed, UnsupportedOperation, InternalError]"

lemma w_error_code_ok: "wire_ok w_error_code"
  unfolding w_error_code_def by (rule w_enum_ok; case_tac a; simp)

definition w_auth_kind :: "auth_kind wire" where
  "w_auth_kind = w_enum [LocalSocketPeer, LocalProcess, TestHarness]"

lemma w_auth_kind_ok: "wire_ok w_auth_kind"
  unfolding w_auth_kind_def by (rule w_enum_ok; case_tac a; simp)

definition w_request_auth :: "request_auth wire" where
  "w_request_auth = w_iso rqa_kind (\<lambda>x0. \<lparr>rqa_kind = x0\<rparr>) w_auth_kind"

lemma w_request_auth_ok: "wire_ok w_request_auth"
  unfolding w_request_auth_def by (rule w_iso_ok) (intro wire_oks w_auth_kind_ok, simp)

definition w_request_envelope :: "request_envelope wire" where
  "w_request_envelope = w_iso
     (\<lambda>r. (rqe_request_id r, rqe_operation r, rqe_auth r, rqe_payload r))
     (\<lambda>(x0, x1, x2, x3).
        \<lparr>rqe_request_id = x0, rqe_operation = x1, rqe_auth = x2, rqe_payload = x3\<rparr>)
     (w_pair w_string (w_pair w_string (w_pair w_request_auth w_json)))"

lemma w_request_envelope_ok: "wire_ok w_request_envelope"
  unfolding w_request_envelope_def by (rule w_iso_ok) (intro wire_oks w_json_ok w_request_auth_ok, simp)

definition w_error_object :: "error_object wire" where
  "w_error_object = w_iso
     (\<lambda>r. (eob_code r, eob_message r, eob_details r))
     (\<lambda>(x0, x1, x2).
        \<lparr>eob_code = x0, eob_message = x1, eob_details = x2\<rparr>)
     (w_pair w_error_code (w_pair w_string (w_option w_json)))"

lemma w_error_object_ok: "wire_ok w_error_object"
  unfolding w_error_object_def by (rule w_iso_ok) (intro wire_oks w_error_code_ok w_json_ok, simp)

definition w_daemon_endpoint_discovery :: "daemon_endpoint_discovery wire" where
  "w_daemon_endpoint_discovery = w_iso
     (\<lambda>r. (ded_endpoint r, ded_network r, ded_state_path r, ded_identity_path r, ded_runtime_instance_id r, ded_pid r,
        ded_started_at_unix_secs r))
     (\<lambda>(x0, x1, x2, x3, x4, x5, x6).
        \<lparr>ded_endpoint = x0, ded_network = x1, ded_state_path = x2, ded_identity_path = x3, ded_runtime_instance_id = x4,
         ded_pid = x5, ded_started_at_unix_secs = x6\<rparr>)
     (w_pair w_string (w_pair w_string (w_pair w_string (w_pair w_string (w_pair w_string (w_pair w_word w_word))))))"

lemma w_daemon_endpoint_discovery_ok: "wire_ok w_daemon_endpoint_discovery"
  unfolding w_daemon_endpoint_discovery_def by (rule w_iso_ok) (intro wire_oks, simp)

definition w_identity_status :: "identity_status wire" where
  "w_identity_status = w_iso
     (\<lambda>r. (ais_status r, ais_path r, ais_node_id r))
     (\<lambda>(x0, x1, x2).
        \<lparr>ais_status = x0, ais_path = x1, ais_node_id = x2\<rparr>)
     (w_pair w_string (w_pair w_string w_string))"

lemma w_identity_status_ok: "wire_ok w_identity_status"
  unfolding w_identity_status_def by (rule w_iso_ok) (intro wire_oks, simp)

definition w_durable_state_status :: "durable_state_status wire" where
  "w_durable_state_status = w_iso
     (\<lambda>r. (dss_status r, dss_path r, dss_schema_version r))
     (\<lambda>(x0, x1, x2).
        \<lparr>dss_status = x0, dss_path = x1, dss_schema_version = x2\<rparr>)
     (w_pair w_string (w_pair w_string w_word))"

lemma w_durable_state_status_ok: "wire_ok w_durable_state_status"
  unfolding w_durable_state_status_def by (rule w_iso_ok) (intro wire_oks, simp)

definition w_authority_sync_status :: "authority_sync_status wire" where
  "w_authority_sync_status = w_iso
     (\<lambda>r. (ass_sync_status r, ass_last_accepted_revision r, ass_health r, ass_local_policy_denied r,
        ass_authority_subject_mismatch r, ass_reevaluated_sessions r, ass_closed_sessions r, ass_degraded_sessions r,
        ass_migrated_sessions r, ass_unchanged_sessions r, ass_reevaluated_listeners r, ass_suppressed_listeners r,
        ass_restored_listeners r, ass_reconnect_suppressions_added r, ass_reconnect_suppressions_cleared r,
        ass_local_policy_reason r))
     (\<lambda>(x0, x1, x2, x3, x4, x5, x6, x7, x8, x9, x10, x11, x12, x13, x14, x15).
        \<lparr>ass_sync_status = x0, ass_last_accepted_revision = x1, ass_health = x2, ass_local_policy_denied = x3,
         ass_authority_subject_mismatch = x4, ass_reevaluated_sessions = x5, ass_closed_sessions = x6,
         ass_degraded_sessions = x7, ass_migrated_sessions = x8, ass_unchanged_sessions = x9, ass_reevaluated_listeners =
         x10, ass_suppressed_listeners = x11, ass_restored_listeners = x12, ass_reconnect_suppressions_added = x13,
         ass_reconnect_suppressions_cleared = x14, ass_local_policy_reason = x15\<rparr>)
     (w_pair w_string (w_pair w_string (w_pair w_string (w_pair w_bool (w_pair w_bool (w_pair w_nat (w_pair w_nat
       (w_pair w_nat (w_pair w_nat (w_pair w_nat (w_pair w_nat (w_pair w_nat (w_pair w_nat (w_pair w_nat (w_pair w_nat
       (w_option w_string))))))))))))))))"

lemma w_authority_sync_status_ok: "wire_ok w_authority_sync_status"
  unfolding w_authority_sync_status_def by (rule w_iso_ok) (intro wire_oks, simp)

definition w_runtime_summary :: "runtime_summary wire" where
  "w_runtime_summary = w_iso
     (\<lambda>r. (ars_session_count r, ars_active_path_count r, ars_reconnect_state r))
     (\<lambda>(x0, x1, x2).
        \<lparr>ars_session_count = x0, ars_active_path_count = x1, ars_reconnect_state = x2\<rparr>)
     (w_pair w_nat (w_pair w_nat w_string))"

lemma w_runtime_summary_ok: "wire_ok w_runtime_summary"
  unfolding w_runtime_summary_def by (rule w_iso_ok) (intro wire_oks, simp)

definition w_runtime_status_result :: "runtime_status_result wire" where
  "w_runtime_status_result = w_iso
     (\<lambda>r. (rsr_truth_kind r, rsr_daemon_health r, rsr_identity r, rsr_durable_state r, rsr_authority r, rsr_runtime_summary
        r))
     (\<lambda>(x0, x1, x2, x3, x4, x5).
        \<lparr>rsr_truth_kind = x0, rsr_daemon_health = x1, rsr_identity = x2, rsr_durable_state = x3, rsr_authority = x4,
         rsr_runtime_summary = x5\<rparr>)
     (w_pair w_string (w_pair w_string (w_pair w_identity_status (w_pair w_durable_state_status (w_pair
       w_authority_sync_status w_runtime_summary)))))"

lemma w_runtime_status_result_ok: "wire_ok w_runtime_status_result"
  unfolding w_runtime_status_result_def by (rule w_iso_ok) (intro wire_oks w_authority_sync_status_ok w_durable_state_status_ok w_identity_status_ok w_runtime_summary_ok, simp)

definition w_identity_show_result :: "identity_show_result wire" where
  "w_identity_show_result = w_iso
     (\<lambda>r. (isr_truth_kind r, isr_status r, isr_identity_path r, isr_node_id r, isr_public_key_hex r,
        isr_durable_state_peer_id r, isr_authority_subject_peer_id r, isr_state_binding_status r))
     (\<lambda>(x0, x1, x2, x3, x4, x5, x6, x7).
        \<lparr>isr_truth_kind = x0, isr_status = x1, isr_identity_path = x2, isr_node_id = x3, isr_public_key_hex = x4,
         isr_durable_state_peer_id = x5, isr_authority_subject_peer_id = x6, isr_state_binding_status = x7\<rparr>)
     (w_pair w_string (w_pair w_string (w_pair w_string (w_pair w_string (w_pair w_string (w_pair (w_option w_string)
       (w_pair (w_option w_string) w_string)))))))"

lemma w_identity_show_result_ok: "wire_ok w_identity_show_result"
  unfolding w_identity_show_result_def by (rule w_iso_ok) (intro wire_oks, simp)

definition w_identity_verify_result :: "identity_verify_result wire" where
  "w_identity_verify_result = w_iso
     (\<lambda>r. (ivr_truth_kind r, ivr_identity_path r, ivr_expected_node_id r, ivr_loaded_node_id r,
        ivr_authority_subject_peer_id r, ivr_match_result r, ivr_mismatch_reasons r))
     (\<lambda>(x0, x1, x2, x3, x4, x5, x6).
        \<lparr>ivr_truth_kind = x0, ivr_identity_path = x1, ivr_expected_node_id = x2, ivr_loaded_node_id = x3,
         ivr_authority_subject_peer_id = x4, ivr_match_result = x5, ivr_mismatch_reasons = x6\<rparr>)
     (w_pair w_string (w_pair w_string (w_pair (w_option w_string) (w_pair w_string (w_pair (w_option w_string)
       (w_pair w_string (w_list w_string)))))))"

lemma w_identity_verify_result_ok: "wire_ok w_identity_verify_result"
  unfolding w_identity_verify_result_def by (rule w_iso_ok) (intro wire_oks, simp)

definition w_durable_state_violation_entry :: "durable_state_violation_entry wire" where
  "w_durable_state_violation_entry = w_iso
     (\<lambda>r. (dsve_path r, dsve_message r))
     (\<lambda>(x0, x1).
        \<lparr>dsve_path = x0, dsve_message = x1\<rparr>)
     (w_pair w_string w_string)"

lemma w_durable_state_violation_entry_ok: "wire_ok w_durable_state_violation_entry"
  unfolding w_durable_state_violation_entry_def by (rule w_iso_ok) (intro wire_oks, simp)

definition w_durable_state_summary_result :: "durable_state_summary_result wire" where
  "w_durable_state_summary_result = w_iso
     (\<lambda>r. (dssr_network r, dssr_local_peer_id r, dssr_roles r, dssr_bootstrap_hints r, dssr_relays r, dssr_peers r,
        dssr_capability_grants r, dssr_revocations r, dssr_denied_peers r, dssr_path_candidates r))
     (\<lambda>(x0, x1, x2, x3, x4, x5, x6, x7, x8, x9).
        \<lparr>dssr_network = x0, dssr_local_peer_id = x1, dssr_roles = x2, dssr_bootstrap_hints = x3, dssr_relays = x4,
         dssr_peers = x5, dssr_capability_grants = x6, dssr_revocations = x7, dssr_denied_peers = x8,
         dssr_path_candidates = x9\<rparr>)
     (w_pair w_string (w_pair w_string (w_pair (w_list w_string) (w_pair w_nat (w_pair w_nat (w_pair w_nat (w_pair
       w_nat (w_pair w_nat (w_pair w_nat w_nat)))))))))"

lemma w_durable_state_summary_result_ok: "wire_ok w_durable_state_summary_result"
  unfolding w_durable_state_summary_result_def by (rule w_iso_ok) (intro wire_oks, simp)

definition w_state_show_result :: "state_show_result wire" where
  "w_state_show_result = w_iso
     (\<lambda>r. (ssr_truth_kind r, ssr_state_path r, ssr_present r, ssr_schema_version r, ssr_valid r, ssr_violations r,
        ssr_summary r))
     (\<lambda>(x0, x1, x2, x3, x4, x5, x6).
        \<lparr>ssr_truth_kind = x0, ssr_state_path = x1, ssr_present = x2, ssr_schema_version = x3, ssr_valid = x4,
         ssr_violations = x5, ssr_summary = x6\<rparr>)
     (w_pair w_string (w_pair w_string (w_pair w_bool (w_pair (w_option w_word) (w_pair w_bool (w_pair (w_list
       w_durable_state_violation_entry) (w_option w_durable_state_summary_result)))))))"

lemma w_state_show_result_ok: "wire_ok w_state_show_result"
  unfolding w_state_show_result_def by (rule w_iso_ok) (intro wire_oks w_durable_state_summary_result_ok w_durable_state_violation_entry_ok, simp)

definition w_state_validate_result :: "state_validate_result wire" where
  "w_state_validate_result = w_iso
     (\<lambda>r. (svr_truth_kind r, svr_state_path r, svr_present r, svr_schema_version r, svr_valid r, svr_violations r))
     (\<lambda>(x0, x1, x2, x3, x4, x5).
        \<lparr>svr_truth_kind = x0, svr_state_path = x1, svr_present = x2, svr_schema_version = x3, svr_valid = x4,
         svr_violations = x5\<rparr>)
     (w_pair w_string (w_pair w_string (w_pair w_bool (w_pair (w_option w_word) (w_pair w_bool (w_list
       w_durable_state_violation_entry))))))"

lemma w_state_validate_result_ok: "wire_ok w_state_validate_result"
  unfolding w_state_validate_result_def by (rule w_iso_ok) (intro wire_oks w_durable_state_violation_entry_ok, simp)

definition w_state_reset_payload :: "state_reset_payload wire" where
  "w_state_reset_payload = w_iso
     (\<lambda>r. (srp_scope r, srp_confirmation r))
     (\<lambda>(x0, x1).
        \<lparr>srp_scope = x0, srp_confirmation = x1\<rparr>)
     (w_pair w_string w_string)"

lemma w_state_reset_payload_ok: "wire_ok w_state_reset_payload"
  unfolding w_state_reset_payload_def by (rule w_iso_ok) (intro wire_oks, simp)

definition w_state_export_payload :: "state_export_payload wire" where
  "w_state_export_payload = w_iso
     (\<lambda>r. (sep_output_path r, sep_passphrase r, sep_hostname r, sep_environment r, sep_overwrite r))
     (\<lambda>(x0, x1, x2, x3, x4).
        \<lparr>sep_output_path = x0, sep_passphrase = x1, sep_hostname = x2, sep_environment = x3, sep_overwrite = x4\<rparr>)
     (w_pair w_string (w_pair w_string (w_pair w_string (w_pair w_string (w_option w_bool)))))"

lemma w_state_export_payload_ok: "wire_ok w_state_export_payload"
  unfolding w_state_export_payload_def by (rule w_iso_ok) (intro wire_oks, simp)

definition w_state_reset_result :: "state_reset_result wire" where
  "w_state_reset_result = w_iso
     (\<lambda>r. (srr_truth_kind r, srr_identity_preserved r, srr_network_state_reset r, srr_next_action r))
     (\<lambda>(x0, x1, x2, x3).
        \<lparr>srr_truth_kind = x0, srr_identity_preserved = x1, srr_network_state_reset = x2, srr_next_action = x3\<rparr>)
     (w_pair w_string (w_pair w_bool (w_pair w_bool w_string)))"

lemma w_state_reset_result_ok: "wire_ok w_state_reset_result"
  unfolding w_state_reset_result_def by (rule w_iso_ok) (intro wire_oks, simp)

definition w_state_export_result :: "state_export_result wire" where
  "w_state_export_result = w_iso
     (\<lambda>r. (ser_truth_kind r, ser_bundle_path r, ser_created_at_unix_secs r, ser_hostname r, ser_environment r, ser_network
        r, ser_identity_sha256_hex r, ser_state_sha256_hex r, ser_durable_state_present r, ser_durable_state_valid r))
     (\<lambda>(x0, x1, x2, x3, x4, x5, x6, x7, x8, x9).
        \<lparr>ser_truth_kind = x0, ser_bundle_path = x1, ser_created_at_unix_secs = x2, ser_hostname = x3, ser_environment =
         x4, ser_network = x5, ser_identity_sha256_hex = x6, ser_state_sha256_hex = x7, ser_durable_state_present = x8,
         ser_durable_state_valid = x9\<rparr>)
     (w_pair w_string (w_pair w_string (w_pair w_word (w_pair w_string (w_pair w_string (w_pair w_string (w_pair
       w_string (w_pair w_string (w_pair w_bool w_bool)))))))))"

lemma w_state_export_result_ok: "wire_ok w_state_export_result"
  unfolding w_state_export_result_def by (rule w_iso_ok) (intro wire_oks, simp)

definition w_runtime_session_entry :: "runtime_session_entry wire" where
  "w_runtime_session_entry = w_iso
     (\<lambda>r. (arse_session_id r, arse_peer_id r, arse_state r, arse_closure_reason r, arse_state_reason r,
        arse_active_path_class r, arse_age_seconds r, arse_last_activity_seconds r))
     (\<lambda>(x0, x1, x2, x3, x4, x5, x6, x7).
        \<lparr>arse_session_id = x0, arse_peer_id = x1, arse_state = x2, arse_closure_reason = x3, arse_state_reason = x4,
         arse_active_path_class = x5, arse_age_seconds = x6, arse_last_activity_seconds = x7\<rparr>)
     (w_pair w_string (w_pair w_string (w_pair w_string (w_pair (w_option w_string) (w_pair (w_option w_string)
       (w_pair w_string (w_pair w_word w_word)))))))"

lemma w_runtime_session_entry_ok: "wire_ok w_runtime_session_entry"
  unfolding w_runtime_session_entry_def by (rule w_iso_ok) (intro wire_oks, simp)

definition w_runtime_sessions_list_result :: "runtime_sessions_list_result wire" where
  "w_runtime_sessions_list_result = w_iso
     (\<lambda>r. (rslr_truth_kind r, rslr_sessions r))
     (\<lambda>(x0, x1).
        \<lparr>rslr_truth_kind = x0, rslr_sessions = x1\<rparr>)
     (w_pair w_string (w_list w_runtime_session_entry))"

lemma w_runtime_sessions_list_result_ok: "wire_ok w_runtime_sessions_list_result"
  unfolding w_runtime_sessions_list_result_def by (rule w_iso_ok) (intro wire_oks w_runtime_session_entry_ok, simp)

definition w_runtime_diagnose_payload :: "runtime_diagnose_payload wire" where
  "w_runtime_diagnose_payload = w_iso rdp_event_limit (\<lambda>x0. \<lparr>rdp_event_limit = x0\<rparr>) (w_option w_nat)"

lemma w_runtime_diagnose_payload_ok: "wire_ok w_runtime_diagnose_payload"
  unfolding w_runtime_diagnose_payload_def by (rule w_iso_ok) (intro wire_oks, simp)

definition w_runtime_diagnosis_issue :: "runtime_diagnosis_issue wire" where
  "w_runtime_diagnosis_issue = w_iso
     (\<lambda>r. (rdi_code r, rdi_severity r, rdi_layer r, rdi_summary r))
     (\<lambda>(x0, x1, x2, x3).
        \<lparr>rdi_code = x0, rdi_severity = x1, rdi_layer = x2, rdi_summary = x3\<rparr>)
     (w_pair w_string (w_pair w_string (w_pair w_string w_string)))"

lemma w_runtime_diagnosis_issue_ok: "wire_ok w_runtime_diagnosis_issue"
  unfolding w_runtime_diagnosis_issue_def by (rule w_iso_ok) (intro wire_oks, simp)

definition w_runtime_listener_entry :: "runtime_listener_entry wire" where
  "w_runtime_listener_entry = w_iso
     (\<lambda>r. (rle_listener_id r, rle_transport r, rle_bind_summary r, rle_protocol r, rle_advertise r, rle_state r,
        rle_state_reason r, rle_age_seconds r))
     (\<lambda>(x0, x1, x2, x3, x4, x5, x6, x7).
        \<lparr>rle_listener_id = x0, rle_transport = x1, rle_bind_summary = x2, rle_protocol = x3, rle_advertise = x4,
         rle_state = x5, rle_state_reason = x6, rle_age_seconds = x7\<rparr>)
     (w_pair w_string (w_pair w_string (w_pair w_string (w_pair w_string (w_pair w_bool (w_pair w_string (w_pair
       (w_option w_string) w_word)))))))"

lemma w_runtime_listener_entry_ok: "wire_ok w_runtime_listener_entry"
  unfolding w_runtime_listener_entry_def by (rule w_iso_ok) (intro wire_oks, simp)

definition w_runtime_path_alternative_entry :: "runtime_path_alternative_entry wire" where
  "w_runtime_path_alternative_entry = w_iso
     (\<lambda>r. (rpae_path_class r, rpae_source r, rpae_relay_peer_id r, rpae_score r, rpae_summary r))
     (\<lambda>(x0, x1, x2, x3, x4).
        \<lparr>rpae_path_class = x0, rpae_source = x1, rpae_relay_peer_id = x2, rpae_score = x3, rpae_summary = x4\<rparr>)
     (w_pair w_string (w_pair w_string (w_pair (w_option w_string) (w_pair w_word w_string))))"

lemma w_runtime_path_alternative_entry_ok: "wire_ok w_runtime_path_alternative_entry"
  unfolding w_runtime_path_alternative_entry_def by (rule w_iso_ok) (intro wire_oks, simp)

definition w_runtime_path_entry :: "runtime_path_entry wire" where
  "w_runtime_path_entry = w_iso
     (\<lambda>r. (rpe_session_id r, rpe_peer_id r, rpe_protocol r, rpe_class r, rpe_state r, rpe_path_class r, rpe_source r,
        rpe_relay_peer_id r, rpe_endpoint_summary r, rpe_score r, rpe_state_reason r, rpe_decision_reason r, rpe_summary
        r, rpe_alternatives r))
     (\<lambda>(x0, x1, x2, x3, x4, x5, x6, x7, x8, x9, x10, x11, x12, x13).
        \<lparr>rpe_session_id = x0, rpe_peer_id = x1, rpe_protocol = x2, rpe_class = x3, rpe_state = x4, rpe_path_class = x5,
         rpe_source = x6, rpe_relay_peer_id = x7, rpe_endpoint_summary = x8, rpe_score = x9, rpe_state_reason = x10,
         rpe_decision_reason = x11, rpe_summary = x12, rpe_alternatives = x13\<rparr>)
     (w_pair (w_option w_string) (w_pair w_string (w_pair (w_option w_string) (w_pair w_string (w_pair w_string
       (w_pair w_string (w_pair w_string (w_pair (w_option w_string) (w_pair w_string (w_pair (w_option w_word) (w_pair
       (w_option w_string) (w_pair (w_option w_string) (w_pair w_string (w_list
       w_runtime_path_alternative_entry))))))))))))))"

lemma w_runtime_path_entry_ok: "wire_ok w_runtime_path_entry"
  unfolding w_runtime_path_entry_def by (rule w_iso_ok) (intro wire_oks w_runtime_path_alternative_entry_ok, simp)

definition w_runtime_event_entry :: "runtime_event_entry wire" where
  "w_runtime_event_entry = w_iso
     (\<lambda>r. (ree_event_id r, ree_event_type r, ree_emitted_at r, ree_truth_kind r, ree_subject_kind r, ree_subject_id r,
        ree_details r))
     (\<lambda>(x0, x1, x2, x3, x4, x5, x6).
        \<lparr>ree_event_id = x0, ree_event_type = x1, ree_emitted_at = x2, ree_truth_kind = x3, ree_subject_kind = x4,
         ree_subject_id = x5, ree_details = x6\<rparr>)
     (w_pair w_string (w_pair w_string (w_pair w_string (w_pair w_string (w_pair w_string (w_pair w_string
       w_json))))))"

lemma w_runtime_event_entry_ok: "wire_ok w_runtime_event_entry"
  unfolding w_runtime_event_entry_def by (rule w_iso_ok) (intro wire_oks w_json_ok, simp)

definition w_runtime_health_result :: "runtime_health_result wire" where
  "w_runtime_health_result = w_iso
     (\<lambda>r. (rhr_truth_kind r, rhr_daemon_readiness r, rhr_authority_sync_health r, rhr_authority_subject_status r,
        rhr_authority_deny_reason r, rhr_runtime_registry_health r, rhr_path_manager_health r,
        rhr_reconnect_subsystem_health r, rhr_active_sessions r, rhr_active_paths r, rhr_active_listeners r,
        rhr_reconnect_state r, rhr_reconnect_attempt_count r, rhr_reconnect_next_attempt_unix_secs r,
        rhr_reconnect_suppression_count r, rhr_runtime_event_buffer_depth r))
     (\<lambda>(x0, x1, x2, x3, x4, x5, x6, x7, x8, x9, x10, x11, x12, x13, x14, x15).
        \<lparr>rhr_truth_kind = x0, rhr_daemon_readiness = x1, rhr_authority_sync_health = x2, rhr_authority_subject_status =
         x3, rhr_authority_deny_reason = x4, rhr_runtime_registry_health = x5, rhr_path_manager_health = x6,
         rhr_reconnect_subsystem_health = x7, rhr_active_sessions = x8, rhr_active_paths = x9, rhr_active_listeners =
         x10, rhr_reconnect_state = x11, rhr_reconnect_attempt_count = x12, rhr_reconnect_next_attempt_unix_secs = x13,
         rhr_reconnect_suppression_count = x14, rhr_runtime_event_buffer_depth = x15\<rparr>)
     (w_pair w_string (w_pair w_string (w_pair w_string (w_pair w_string (w_pair (w_option w_string) (w_pair w_string
       (w_pair w_string (w_pair w_string (w_pair w_nat (w_pair w_nat (w_pair w_nat (w_pair w_string (w_pair w_nat
       (w_pair (w_option w_word) (w_pair w_nat w_nat)))))))))))))))"

lemma w_runtime_health_result_ok: "wire_ok w_runtime_health_result"
  unfolding w_runtime_health_result_def by (rule w_iso_ok) (intro wire_oks, simp)

definition w_authority_show_result :: "authority_show_result wire" where
  "w_authority_show_result = w_iso
     (\<lambda>r. (asr_truth_kind r, asr_configured_origin r, asr_configured_subject r, asr_configured_snapshot r, asr_network r,
        asr_local_peer_id r, asr_membership_subject_peer_id r, asr_membership_issuer_peer_id r, asr_membership_roles r,
        asr_grants r, asr_revocations r, asr_denied_peers r, asr_bootstrap_hints r, asr_relays r, asr_schema_version r,
        asr_authority r))
     (\<lambda>(x0, x1, x2, x3, x4, x5, x6, x7, x8, x9, x10, x11, x12, x13, x14, x15).
        \<lparr>asr_truth_kind = x0, asr_configured_origin = x1, asr_configured_subject = x2, asr_configured_snapshot = x3,
         asr_network = x4, asr_local_peer_id = x5, asr_membership_subject_peer_id = x6, asr_membership_issuer_peer_id =
         x7, asr_membership_roles = x8, asr_grants = x9, asr_revocations = x10, asr_denied_peers = x11,
         asr_bootstrap_hints = x12, asr_relays = x13, asr_schema_version = x14, asr_authority = x15\<rparr>)
     (w_pair w_string (w_pair (w_option w_string) (w_pair (w_option w_string) (w_pair (w_option w_string) (w_pair
       w_string (w_pair w_string (w_pair w_string (w_pair w_string (w_pair (w_list w_string) (w_pair w_nat (w_pair
       w_nat (w_pair w_nat (w_pair w_nat (w_pair w_nat (w_pair w_word w_authority_sync_status)))))))))))))))"

lemma w_authority_show_result_ok: "wire_ok w_authority_show_result"
  unfolding w_authority_show_result_def by (rule w_iso_ok) (intro wire_oks w_authority_sync_status_ok, simp)

definition w_runtime_diagnose_result :: "runtime_diagnose_result wire" where
  "w_runtime_diagnose_result = w_iso
     (\<lambda>r. (rdr_truth_kind r, rdr_primary_classification r, rdr_issues r, rdr_status r, rdr_health r, rdr_state r,
        rdr_identity r, rdr_authority_show r, rdr_sessions r, rdr_listeners r, rdr_paths r, rdr_events r))
     (\<lambda>(x0, x1, x2, x3, x4, x5, x6, x7, x8, x9, x10, x11).
        \<lparr>rdr_truth_kind = x0, rdr_primary_classification = x1, rdr_issues = x2, rdr_status = x3, rdr_health = x4,
         rdr_state = x5, rdr_identity = x6, rdr_authority_show = x7, rdr_sessions = x8, rdr_listeners = x9, rdr_paths =
         x10, rdr_events = x11\<rparr>)
     (w_pair w_string (w_pair w_string (w_pair (w_list w_runtime_diagnosis_issue) (w_pair w_runtime_status_result
       (w_pair w_runtime_health_result (w_pair w_state_show_result (w_pair w_identity_verify_result (w_pair
       w_authority_show_result (w_pair (w_list w_runtime_session_entry) (w_pair (w_list w_runtime_listener_entry)
       (w_pair (w_list w_runtime_path_entry) (w_list w_runtime_event_entry))))))))))))"

lemma w_runtime_diagnose_result_ok: "wire_ok w_runtime_diagnose_result"
  unfolding w_runtime_diagnose_result_def by (rule w_iso_ok) (intro wire_oks w_authority_show_result_ok w_identity_verify_result_ok w_runtime_diagnosis_issue_ok w_runtime_event_entry_ok w_runtime_health_result_ok w_runtime_listener_entry_ok w_runtime_path_entry_ok w_runtime_session_entry_ok w_runtime_status_result_ok w_state_show_result_ok, simp)

definition w_runtime_listeners_list_result :: "runtime_listeners_list_result wire" where
  "w_runtime_listeners_list_result = w_iso
     (\<lambda>r. (rllr_truth_kind r, rllr_listeners r))
     (\<lambda>(x0, x1).
        \<lparr>rllr_truth_kind = x0, rllr_listeners = x1\<rparr>)
     (w_pair w_string (w_list w_runtime_listener_entry))"

lemma w_runtime_listeners_list_result_ok: "wire_ok w_runtime_listeners_list_result"
  unfolding w_runtime_listeners_list_result_def by (rule w_iso_ok) (intro wire_oks w_runtime_listener_entry_ok, simp)

definition w_runtime_paths_list_result :: "runtime_paths_list_result wire" where
  "w_runtime_paths_list_result = w_iso
     (\<lambda>r. (rplr_truth_kind r, rplr_paths r))
     (\<lambda>(x0, x1).
        \<lparr>rplr_truth_kind = x0, rplr_paths = x1\<rparr>)
     (w_pair w_string (w_list w_runtime_path_entry))"

lemma w_runtime_paths_list_result_ok: "wire_ok w_runtime_paths_list_result"
  unfolding w_runtime_paths_list_result_def by (rule w_iso_ok) (intro wire_oks w_runtime_path_entry_ok, simp)

definition w_runtime_events_list_result :: "runtime_events_list_result wire" where
  "w_runtime_events_list_result = w_iso
     (\<lambda>r. (relr_truth_kind r, relr_events r))
     (\<lambda>(x0, x1).
        \<lparr>relr_truth_kind = x0, relr_events = x1\<rparr>)
     (w_pair w_string (w_list w_runtime_event_entry))"

lemma w_runtime_events_list_result_ok: "wire_ok w_runtime_events_list_result"
  unfolding w_runtime_events_list_result_def by (rule w_iso_ok) (intro wire_oks w_runtime_event_entry_ok, simp)

definition w_authority_membership_result :: "authority_membership_result wire" where
  "w_authority_membership_result = w_iso
     (\<lambda>r. (amr_truth_kind r, amr_network r, amr_subject_peer_id r, amr_issuer_peer_id r, amr_issued_at r, amr_expires_at r,
        amr_roles r, amr_schema_version r))
     (\<lambda>(x0, x1, x2, x3, x4, x5, x6, x7).
        \<lparr>amr_truth_kind = x0, amr_network = x1, amr_subject_peer_id = x2, amr_issuer_peer_id = x3, amr_issued_at = x4,
         amr_expires_at = x5, amr_roles = x6, amr_schema_version = x7\<rparr>)
     (w_pair w_string (w_pair w_string (w_pair w_string (w_pair w_string (w_pair w_word (w_pair w_word (w_pair
       (w_list w_string) w_word)))))))"

lemma w_authority_membership_result_ok: "wire_ok w_authority_membership_result"
  unfolding w_authority_membership_result_def by (rule w_iso_ok) (intro wire_oks, simp)

definition w_authority_capability_grant_entry :: "authority_capability_grant_entry wire" where
  "w_authority_capability_grant_entry = w_iso
     (\<lambda>r. (acge_subject_peer_id r, acge_issuer_peer_id r, acge_sequence r, acge_not_before r, acge_expires_at r,
        acge_capabilities r, acge_protocols r, acge_bandwidth_bps r, acge_concurrent_streams r, acge_max_object_bytes r,
        acge_constraints r))
     (\<lambda>(x0, x1, x2, x3, x4, x5, x6, x7, x8, x9, x10).
        \<lparr>acge_subject_peer_id = x0, acge_issuer_peer_id = x1, acge_sequence = x2, acge_not_before = x3, acge_expires_at =
         x4, acge_capabilities = x5, acge_protocols = x6, acge_bandwidth_bps = x7, acge_concurrent_streams = x8,
         acge_max_object_bytes = x9, acge_constraints = x10\<rparr>)
     (w_pair w_string (w_pair w_string (w_pair w_word (w_pair w_word (w_pair w_word (w_pair (w_list w_string) (w_pair
       (w_list w_string) (w_pair (w_option w_word) (w_pair (w_option w_word) (w_pair (w_option w_word) (w_list
       w_string)))))))))))"

lemma w_authority_capability_grant_entry_ok: "wire_ok w_authority_capability_grant_entry"
  unfolding w_authority_capability_grant_entry_def by (rule w_iso_ok) (intro wire_oks, simp)

definition w_authority_capabilities_result :: "authority_capabilities_result wire" where
  "w_authority_capabilities_result = w_iso
     (\<lambda>r. (acr_truth_kind r, acr_network r, acr_subject_peer_id r, acr_schema_version r, acr_grants r))
     (\<lambda>(x0, x1, x2, x3, x4).
        \<lparr>acr_truth_kind = x0, acr_network = x1, acr_subject_peer_id = x2, acr_schema_version = x3, acr_grants = x4\<rparr>)
     (w_pair w_string (w_pair w_string (w_pair w_string (w_pair w_word (w_list
       w_authority_capability_grant_entry)))))"

lemma w_authority_capabilities_result_ok: "wire_ok w_authority_capabilities_result"
  unfolding w_authority_capabilities_result_def by (rule w_iso_ok) (intro wire_oks w_authority_capability_grant_entry_ok, simp)

definition w_authority_revocation_entry :: "authority_revocation_entry wire" where
  "w_authority_revocation_entry = w_iso
     (\<lambda>r. (are_sequence r, are_issuer_peer_id r, are_effective_at r, are_reason r, are_target r, are_note r))
     (\<lambda>(x0, x1, x2, x3, x4, x5).
        \<lparr>are_sequence = x0, are_issuer_peer_id = x1, are_effective_at = x2, are_reason = x3, are_target = x4, are_note =
         x5\<rparr>)
     (w_pair w_word (w_pair w_string (w_pair w_word (w_pair w_string (w_pair w_string (w_option w_string))))))"

lemma w_authority_revocation_entry_ok: "wire_ok w_authority_revocation_entry"
  unfolding w_authority_revocation_entry_def by (rule w_iso_ok) (intro wire_oks, simp)

definition w_authority_revocations_result :: "authority_revocations_result wire" where
  "w_authority_revocations_result = w_iso
     (\<lambda>r. (arr_truth_kind r, arr_network r, arr_schema_version r, arr_revocations r))
     (\<lambda>(x0, x1, x2, x3).
        \<lparr>arr_truth_kind = x0, arr_network = x1, arr_schema_version = x2, arr_revocations = x3\<rparr>)
     (w_pair w_string (w_pair w_string (w_pair w_word (w_list w_authority_revocation_entry))))"

lemma w_authority_revocations_result_ok: "wire_ok w_authority_revocations_result"
  unfolding w_authority_revocations_result_def by (rule w_iso_ok) (intro wire_oks w_authority_revocation_entry_ok, simp)

definition w_authority_sync_snapshot_payload :: "authority_sync_snapshot_payload wire" where
  "w_authority_sync_snapshot_payload = w_iso assp_authority_snapshot (\<lambda>x0. \<lparr>assp_authority_snapshot = x0\<rparr>) w_string"

lemma w_authority_sync_snapshot_payload_ok: "wire_ok w_authority_sync_snapshot_payload"
  unfolding w_authority_sync_snapshot_payload_def by (rule w_iso_ok) (intro wire_oks, simp)

definition w_authority_sync_origin_payload :: "authority_sync_origin_payload wire" where
  "w_authority_sync_origin_payload = w_iso
     (\<lambda>r. (asop_authority_origin r, asop_authority_subject r))
     (\<lambda>(x0, x1).
        \<lparr>asop_authority_origin = x0, asop_authority_subject = x1\<rparr>)
     (w_pair w_string (w_option w_string))"

lemma w_authority_sync_origin_payload_ok: "wire_ok w_authority_sync_origin_payload"
  unfolding w_authority_sync_origin_payload_def by (rule w_iso_ok) (intro wire_oks, simp)

definition w_authority_sync_revocations_origin_payload :: "authority_sync_revocations_origin_payload wire" where
  "w_authority_sync_revocations_origin_payload = w_iso asrop_authority_origin (\<lambda>x0. \<lparr>asrop_authority_origin = x0\<rparr>) w_string"

lemma w_authority_sync_revocations_origin_payload_ok: "wire_ok w_authority_sync_revocations_origin_payload"
  unfolding w_authority_sync_revocations_origin_payload_def by (rule w_iso_ok) (intro wire_oks, simp)

definition w_authority_sync_result :: "authority_sync_result wire" where
  "w_authority_sync_result = w_iso
     (\<lambda>r. (aasr_truth_kind r, aasr_authority_source r, aasr_authority_origin r, aasr_authority_subject r,
        aasr_authority_snapshot r, aasr_network r, aasr_local_peer_id r, aasr_grants_added r, aasr_grants_removed r,
        aasr_revocations_added r, aasr_bootstrap_hints_added r, aasr_bootstrap_hints_removed r,
        aasr_relay_announcements_added r, aasr_membership_changed r, aasr_authority r))
     (\<lambda>(x0, x1, x2, x3, x4, x5, x6, x7, x8, x9, x10, x11, x12, x13, x14).
        \<lparr>aasr_truth_kind = x0, aasr_authority_source = x1, aasr_authority_origin = x2, aasr_authority_subject = x3,
         aasr_authority_snapshot = x4, aasr_network = x5, aasr_local_peer_id = x6, aasr_grants_added = x7,
         aasr_grants_removed = x8, aasr_revocations_added = x9, aasr_bootstrap_hints_added = x10,
         aasr_bootstrap_hints_removed = x11, aasr_relay_announcements_added = x12, aasr_membership_changed = x13,
         aasr_authority = x14\<rparr>)
     (w_pair w_string (w_pair w_string (w_pair (w_option w_string) (w_pair (w_option w_string) (w_pair (w_option
       w_string) (w_pair w_string (w_pair w_string (w_pair w_nat (w_pair w_nat (w_pair w_nat (w_pair w_nat (w_pair
       w_nat (w_pair w_nat (w_pair w_bool w_authority_sync_status))))))))))))))"

lemma w_authority_sync_result_ok: "wire_ok w_authority_sync_result"
  unfolding w_authority_sync_result_def by (rule w_iso_ok) (intro wire_oks w_authority_sync_status_ok, simp)

definition w_session_connect_payload :: "session_connect_payload wire" where
  "w_session_connect_payload = w_iso
     (\<lambda>r. (scp_peer_id r, scp_protocol r, scp_class r, scp_path_preference r))
     (\<lambda>(x0, x1, x2, x3).
        \<lparr>scp_peer_id = x0, scp_protocol = x1, scp_class = x2, scp_path_preference = x3\<rparr>)
     (w_pair w_string (w_pair w_string (w_pair (w_option w_string) (w_option w_string))))"

lemma w_session_connect_payload_ok: "wire_ok w_session_connect_payload"
  unfolding w_session_connect_payload_def by (rule w_iso_ok) (intro wire_oks, simp)

definition w_session_connect_summary :: "session_connect_summary wire" where
  "w_session_connect_summary = w_iso
     (\<lambda>r. (scs_session_id r, scs_state r, scs_initial_path_class r, scs_state_reason r))
     (\<lambda>(x0, x1, x2, x3).
        \<lparr>scs_session_id = x0, scs_state = x1, scs_initial_path_class = x2, scs_state_reason = x3\<rparr>)
     (w_pair w_string (w_pair w_string (w_pair w_string (w_option w_string))))"

lemma w_session_connect_summary_ok: "wire_ok w_session_connect_summary"
  unfolding w_session_connect_summary_def by (rule w_iso_ok) (intro wire_oks, simp)

definition w_session_connect_result :: "session_connect_result wire" where
  "w_session_connect_result = w_iso
     (\<lambda>r. (scr_truth_kind r, scr_session r))
     (\<lambda>(x0, x1).
        \<lparr>scr_truth_kind = x0, scr_session = x1\<rparr>)
     (w_pair w_string w_session_connect_summary)"

lemma w_session_connect_result_ok: "wire_ok w_session_connect_result"
  unfolding w_session_connect_result_def by (rule w_iso_ok) (intro wire_oks w_session_connect_summary_ok, simp)

definition w_session_close_payload :: "session_close_payload wire" where
  "w_session_close_payload = w_iso
     (\<lambda>r. (ascp_session_id r, ascp_reason r))
     (\<lambda>(x0, x1).
        \<lparr>ascp_session_id = x0, ascp_reason = x1\<rparr>)
     (w_pair w_string (w_option w_string))"

lemma w_session_close_payload_ok: "wire_ok w_session_close_payload"
  unfolding w_session_close_payload_def by (rule w_iso_ok) (intro wire_oks, simp)

definition w_session_close_result :: "session_close_result wire" where
  "w_session_close_result = w_iso
     (\<lambda>r. (ascr_truth_kind r, ascr_closed_session_id r, ascr_final_state r, ascr_closure_reason r))
     (\<lambda>(x0, x1, x2, x3).
        \<lparr>ascr_truth_kind = x0, ascr_closed_session_id = x1, ascr_final_state = x2, ascr_closure_reason = x3\<rparr>)
     (w_pair w_string (w_pair w_string (w_pair w_string (w_option w_string))))"

lemma w_session_close_result_ok: "wire_ok w_session_close_result"
  unfolding w_session_close_result_def by (rule w_iso_ok) (intro wire_oks, simp)

definition w_session_upgrade_payload :: "session_upgrade_payload wire" where
  "w_session_upgrade_payload = w_iso sup_session_id (\<lambda>x0. \<lparr>sup_session_id = x0\<rparr>) w_string"

lemma w_session_upgrade_payload_ok: "wire_ok w_session_upgrade_payload"
  unfolding w_session_upgrade_payload_def by (rule w_iso_ok) (intro wire_oks, simp)

definition w_session_upgrade_result :: "session_upgrade_result wire" where
  "w_session_upgrade_result = w_iso
     (\<lambda>r. (sur_truth_kind r, sur_session_id r, sur_prior_path_class r, sur_resulting_path_class r, sur_state r))
     (\<lambda>(x0, x1, x2, x3, x4).
        \<lparr>sur_truth_kind = x0, sur_session_id = x1, sur_prior_path_class = x2, sur_resulting_path_class = x3, sur_state =
         x4\<rparr>)
     (w_pair w_string (w_pair w_string (w_pair w_string (w_pair w_string w_string))))"

lemma w_session_upgrade_result_ok: "wire_ok w_session_upgrade_result"
  unfolding w_session_upgrade_result_def by (rule w_iso_ok) (intro wire_oks, simp)

definition w_session_reconcile_payload :: "session_reconcile_payload wire" where
  "w_session_reconcile_payload = w_iso asrp_session_id (\<lambda>x0. \<lparr>asrp_session_id = x0\<rparr>) (w_option w_string)"

lemma w_session_reconcile_payload_ok: "wire_ok w_session_reconcile_payload"
  unfolding w_session_reconcile_payload_def by (rule w_iso_ok) (intro wire_oks, simp)

definition w_api_reconcile_entry :: "api_reconcile_entry wire" where
  "w_api_reconcile_entry = w_iso
     (\<lambda>r. (sre_session_id r, sre_peer_id r, sre_disposition r, sre_reason r, sre_path_class r))
     (\<lambda>(x0, x1, x2, x3, x4).
        \<lparr>sre_session_id = x0, sre_peer_id = x1, sre_disposition = x2, sre_reason = x3, sre_path_class = x4\<rparr>)
     (w_pair w_string (w_pair w_string (w_pair w_string (w_pair w_string w_string))))"

lemma w_api_reconcile_entry_ok: "wire_ok w_api_reconcile_entry"
  unfolding w_api_reconcile_entry_def by (rule w_iso_ok) (intro wire_oks, simp)

definition w_session_reconcile_result :: "session_reconcile_result wire" where
  "w_session_reconcile_result = w_iso
     (\<lambda>r. (asrr_truth_kind r, asrr_examined r, asrr_unchanged r, asrr_upgraded r, asrr_closed r, asrr_entries r))
     (\<lambda>(x0, x1, x2, x3, x4, x5).
        \<lparr>asrr_truth_kind = x0, asrr_examined = x1, asrr_unchanged = x2, asrr_upgraded = x3, asrr_closed = x4,
         asrr_entries = x5\<rparr>)
     (w_pair w_string (w_pair w_nat (w_pair w_nat (w_pair w_nat (w_pair w_nat (w_list w_api_reconcile_entry))))))"

lemma w_session_reconcile_result_ok: "wire_ok w_session_reconcile_result"
  unfolding w_session_reconcile_result_def by (rule w_iso_ok) (intro wire_oks w_api_reconcile_entry_ok, simp)

end
