(* ===== verification/Quip_Cli_Witness.thy ===== *)
theory Quip_Cli_Witness
  imports Quip_Cli_Wire
begin

text \<open>
  The client and a daemon on one concrete node, with the serializers of \<open>Quip_Cli_Wire\<close>: the laws of the
  client are applied to them.
\<close>

section \<open>Serializers\<close>

definition json_text :: "'a wire \<Rightarrow> 'a \<Rightarrow> json" where
  "json_text c x = JString (w_to_string c x)"

definition text_json :: "'a wire \<Rightarrow> json \<Rightarrow> ('a, string) result" where
  "text_json c v = (case v of JString s \<Rightarrow> w_from_str c s | _ \<Rightarrow> Err ''expected a string'')"

lemma text_json_text [simp]: "wire_ok c \<Longrightarrow> text_json c (json_text c x) = Ok x"
  by (simp add: text_json_def json_text_def)

definition sample_value :: "api_result \<Rightarrow> json" where
  "sample_value v = (case v of
     RuntimeStatus_result x \<Rightarrow> json_text w_runtime_status_result x
   | RuntimeDiagnose_result x \<Rightarrow> json_text w_runtime_diagnose_result x
   | RuntimeSessionsList_result x \<Rightarrow> json_text w_runtime_sessions_list_result x
   | RuntimeListenersList_result x \<Rightarrow> json_text w_runtime_listeners_list_result x
   | RuntimePathsList_result x \<Rightarrow> json_text w_runtime_paths_list_result x
   | RuntimeHealth_result x \<Rightarrow> json_text w_runtime_health_result x
   | RuntimeEventsList_result x \<Rightarrow> json_text w_runtime_events_list_result x
   | SessionConnect_result x \<Rightarrow> json_text w_session_connect_result x
   | SessionClose_result x \<Rightarrow> json_text w_session_close_result x
   | SessionUpgrade_result x \<Rightarrow> json_text w_session_upgrade_result x
   | SessionReconcile_result x \<Rightarrow> json_text w_session_reconcile_result x
   | StateShow_result x \<Rightarrow> json_text w_state_show_result x
   | StateExport_result x \<Rightarrow> json_text w_state_export_result x
   | StateValidate_result x \<Rightarrow> json_text w_state_validate_result x
   | StateReset_result x \<Rightarrow> json_text w_state_reset_result x
   | AuthorityShow_result x \<Rightarrow> json_text w_authority_show_result x
   | AuthorityMembership_result x \<Rightarrow> json_text w_authority_membership_result x
   | AuthorityCapabilities_result x \<Rightarrow> json_text w_authority_capabilities_result x
   | AuthorityRevocations_result x \<Rightarrow> json_text w_authority_revocations_result x
   | AuthoritySync_result x \<Rightarrow> json_text w_authority_sync_result x
   | IdentityShow_result x \<Rightarrow> json_text w_identity_show_result x
   | IdentityVerify_result x \<Rightarrow> json_text w_identity_verify_result x)"

definition w_received :: "received_envelope wire" where
  "w_received = w_iso (\<lambda>r. (rcv_ok r, rcv_request_id r, rcv_result r, rcv_error r))
     (\<lambda>(a, b, c, d). \<lparr>rcv_ok = a, rcv_request_id = b, rcv_result = c, rcv_error = d\<rparr>)
     (w_pair w_bool (w_pair w_string (w_pair (w_option w_json) (w_option w_error_object))))"

lemma w_received_ok: "wire_ok w_received"
  unfolding w_received_def by (rule w_iso_ok) (intro wire_oks w_json_ok w_error_object_ok, simp)

definition sample_cli_env :: cli_env where
  "sample_cli_env = daemon_env.extend (durable_env.extend sample_env
     (daemon_env.fields (w_from_slice w_request_envelope) (\<lambda>r. enc w_received (received sample_value r))
        (\<lambda>d. Ok (w_to_vec w_daemon_endpoint_discovery d)) (text_json w_runtime_diagnose_payload)
        (text_json w_state_export_payload) (text_json w_state_reset_payload)
        (text_json w_authority_sync_snapshot_payload) (text_json w_authority_sync_origin_payload)
        (text_json w_authority_sync_revocations_origin_payload) (text_json w_session_connect_payload)
        (text_json w_session_close_payload) (text_json w_session_upgrade_payload)
        (text_json w_session_reconcile_payload)))
     (cli_env.fields (\<lambda>q. Ok (w_to_string w_request_envelope q)) (w_from_str w_received)
        (w_from_slice w_daemon_endpoint_discovery) (\<lambda>v. Ok (w_to_string w_json v))
        (\<lambda>x. Ok (json_text w_session_connect_payload x))
        (\<lambda>x. Ok (json_text w_session_close_payload x))
        (\<lambda>x. Ok (json_text w_session_upgrade_payload x))
        (\<lambda>x. Ok (json_text w_session_reconcile_payload x))
        (\<lambda>x. Ok (json_text w_state_export_payload x))
        (\<lambda>x. Ok (json_text w_state_reset_payload x))
        (\<lambda>x. Ok (json_text w_authority_sync_snapshot_payload x))
        (\<lambda>x. Ok (json_text w_authority_sync_origin_payload x))
        (\<lambda>x. Ok (json_text w_authority_sync_revocations_origin_payload x))
        (text_json w_runtime_status_result)
        (text_json w_runtime_diagnose_result)
        (text_json w_runtime_sessions_list_result)
        (text_json w_runtime_listeners_list_result)
        (text_json w_runtime_paths_list_result)
        (text_json w_runtime_health_result)
        (text_json w_runtime_events_list_result)
        (text_json w_session_connect_result)
        (text_json w_session_close_result)
        (text_json w_session_upgrade_result)
        (text_json w_session_reconcile_result)
        (text_json w_state_show_result)
        (text_json w_state_export_result)
        (text_json w_state_validate_result)
        (text_json w_state_reset_result)
        (text_json w_authority_show_result)
        (text_json w_authority_membership_result)
        (text_json w_authority_capabilities_result)
        (text_json w_authority_revocations_result)
        (text_json w_authority_sync_result)
        (text_json w_identity_show_result)
        (text_json w_identity_verify_result))"

lemma sample_cli_sel:
  "request_from_slice sample_cli_env = w_from_slice w_request_envelope"
  "response_to_vec_pretty sample_cli_env = (\<lambda>r. enc w_received (received sample_value r))"
  "request_to_text sample_cli_env = (\<lambda>q. Ok (w_to_string w_request_envelope q))"
  "envelope_from_text sample_cli_env = w_from_str w_received"
  "discovery_from_slice sample_cli_env = w_from_slice w_daemon_endpoint_discovery"
  "session_connect_to_value sample_cli_env = (\<lambda>x. Ok (json_text w_session_connect_payload x))"
  "session_close_to_value sample_cli_env = (\<lambda>x. Ok (json_text w_session_close_payload x))"
  "session_upgrade_to_value sample_cli_env = (\<lambda>x. Ok (json_text w_session_upgrade_payload x))"
  "session_reconcile_to_value sample_cli_env = (\<lambda>x. Ok (json_text w_session_reconcile_payload x))"
  "state_export_to_value sample_cli_env = (\<lambda>x. Ok (json_text w_state_export_payload x))"
  "state_reset_to_value sample_cli_env = (\<lambda>x. Ok (json_text w_state_reset_payload x))"
  "sync_snapshot_to_value sample_cli_env = (\<lambda>x. Ok (json_text w_authority_sync_snapshot_payload x))"
  "sync_origin_to_value sample_cli_env = (\<lambda>x. Ok (json_text w_authority_sync_origin_payload x))"
  "sync_revocations_origin_to_value sample_cli_env = (\<lambda>x. Ok (json_text w_authority_sync_revocations_origin_payload x))"
  "session_connect_from_value sample_cli_env = text_json w_session_connect_payload"
  "session_close_from_value sample_cli_env = text_json w_session_close_payload"
  "session_upgrade_from_value sample_cli_env = text_json w_session_upgrade_payload"
  "session_reconcile_from_value sample_cli_env = text_json w_session_reconcile_payload"
  "state_export_from_value sample_cli_env = text_json w_state_export_payload"
  "state_reset_from_value sample_cli_env = text_json w_state_reset_payload"
  "sync_snapshot_from_value sample_cli_env = text_json w_authority_sync_snapshot_payload"
  "sync_origin_from_value sample_cli_env = text_json w_authority_sync_origin_payload"
  "sync_revocations_origin_from_value sample_cli_env = text_json w_authority_sync_revocations_origin_payload"
  "runtime_status_from_value sample_cli_env = text_json w_runtime_status_result"
  "runtime_diagnose_result_from_value sample_cli_env = text_json w_runtime_diagnose_result"
  "runtime_sessions_from_value sample_cli_env = text_json w_runtime_sessions_list_result"
  "runtime_listeners_from_value sample_cli_env = text_json w_runtime_listeners_list_result"
  "runtime_paths_from_value sample_cli_env = text_json w_runtime_paths_list_result"
  "runtime_health_from_value sample_cli_env = text_json w_runtime_health_result"
  "runtime_events_from_value sample_cli_env = text_json w_runtime_events_list_result"
  "session_connect_result_from_value sample_cli_env = text_json w_session_connect_result"
  "session_close_result_from_value sample_cli_env = text_json w_session_close_result"
  "session_upgrade_result_from_value sample_cli_env = text_json w_session_upgrade_result"
  "session_reconcile_result_from_value sample_cli_env = text_json w_session_reconcile_result"
  "state_show_from_value sample_cli_env = text_json w_state_show_result"
  "state_export_result_from_value sample_cli_env = text_json w_state_export_result"
  "state_validate_from_value sample_cli_env = text_json w_state_validate_result"
  "state_reset_result_from_value sample_cli_env = text_json w_state_reset_result"
  "authority_show_from_value sample_cli_env = text_json w_authority_show_result"
  "authority_membership_from_value sample_cli_env = text_json w_authority_membership_result"
  "authority_capabilities_from_value sample_cli_env = text_json w_authority_capabilities_result"
  "authority_revocations_from_value sample_cli_env = text_json w_authority_revocations_result"
  "authority_sync_from_value sample_cli_env = text_json w_authority_sync_result"
  "identity_show_from_value sample_cli_env = text_json w_identity_show_result"
  "identity_verify_from_value sample_cli_env = text_json w_identity_verify_result"
  by (simp_all add: sample_cli_env_def daemon_env.extend_def durable_env.extend_def daemon_env.fields_def cli_env.fields_def)

lemmas sample_formats_ok =
  w_received_ok w_request_envelope_ok w_daemon_endpoint_discovery_ok
  w_session_connect_payload_ok
  w_session_close_payload_ok
  w_session_upgrade_payload_ok
  w_session_reconcile_payload_ok
  w_state_export_payload_ok
  w_state_reset_payload_ok
  w_authority_sync_snapshot_payload_ok
  w_authority_sync_origin_payload_ok
  w_authority_sync_revocations_origin_payload_ok
  w_runtime_status_result_ok
  w_runtime_diagnose_result_ok
  w_runtime_sessions_list_result_ok
  w_runtime_listeners_list_result_ok
  w_runtime_paths_list_result_ok
  w_runtime_health_result_ok
  w_runtime_events_list_result_ok
  w_session_connect_result_ok
  w_session_close_result_ok
  w_session_upgrade_result_ok
  w_session_reconcile_result_ok
  w_state_show_result_ok
  w_state_export_result_ok
  w_state_validate_result_ok
  w_state_reset_result_ok
  w_authority_show_result_ok
  w_authority_membership_result_ok
  w_authority_capabilities_result_ok
  w_authority_revocations_result_ok
  w_authority_sync_result_ok
  w_identity_show_result_ok
  w_identity_verify_result_ok

lemma sample_interface_serde: "interface_serde sample_cli_env sample_value"
proof -
  have "w_from_str w_received (bytes_text (enc w_received r)) = Ok r" for r
    using w_roundtrips(2) [OF w_received_ok, of r] by (simp add: w_to_string_def)
  then have "envelopes_serde sample_cli_env sample_value"
    by (simp add: envelopes_serde_def sample_cli_sel sample_formats_ok)
  moreover have "results_serde sample_cli_env sample_value"
    by (simp add: results_serde_def sample_cli_sel sample_value_def sample_formats_ok)
  ultimately show ?thesis by (simp add: interface_serde_def)
qed

lemma sample_payloads_serde: "payloads_serde sample_cli_env"
  by (auto simp: payloads_serde_def sample_cli_sel sample_formats_ok)



section \<open>A node\<close>

definition cli_sid :: bytes where
  "cli_sid = replicate 16 1"

definition other_sid :: bytes where
  "other_sid = replicate 16 2"

definition cli_transport :: "relay_world quic_adapter" where
  "cli_transport = sample_adapter\<lparr>qa_sessions := map (\<lambda>sid. (sid,
     \<lparr>sx_snapshot = sample_session\<lparr>ss_session_id := sid\<rparr>, sx_alpn_protocol = None\<rparr>)) [cli_sid, other_sid]\<rparr>"

definition sample_discovery :: daemon_endpoint_discovery where
  "sample_discovery = \<lparr>ded_endpoint = ''http://d/rpc'', ded_network = ''net'', ded_state_path = ''state'',
     ded_identity_path = ''id'', ded_runtime_instance_id = ''i'', ded_pid = 1, ded_started_at_unix_secs = 1\<rparr>"

definition cli_files :: filesystem where
  "cli_files = sample_files\<lparr>fs_files := (fs_files sample_files)(''control.json'' \<mapsto> w_to_vec w_daemon_endpoint_discovery sample_discovery)\<rparr>"

definition sample_world :: "relay_world quic_adapter cli_world" where
  "sample_world = \<lparr>cw_files = cli_files, cw_daemon = cli_transport, cw_out = []\<rparr>"

definition sample_process :: "relay_world quic_adapter process" where
  "sample_process = \<lparr>ho_var = (\<lambda>v. if v = ''PASS'' then Some ''pw'' else None), ho_pid = 1, ho_bind = (\<lambda>b. Ok b),
     ho_server = (\<lambda>_. Ok ()),
     pr_agent = daemon_wire sample_cli_env silent_authority sample_ctl sample_args sample_config sample_identity ''http://d'',
     pr_now = 5, pr_pause = (\<lambda>_ v. v), pr_metadata = (\<lambda>_ _. None), pr_fresh_key = replicate 32 7, pr_salt = [1],
     pr_nonce = [2]\<rparr>"

definition sample_cli :: "command \<Rightarrow> cli" where
  "sample_cli cmd = \<lparr>cli_network = ''net'', cli_state_path = ''state'', cli_identity_path = ''id'',
     cli_control_discovery_path = ''control.json'', cli_identity_passphrase_env = ''PASS'', cli_command = Some cmd\<rparr>"

lemma sample_wire:
  "pr_agent sample_process =
     daemon_wire sample_cli_env silent_authority sample_ctl sample_args sample_config sample_identity ''http://d''"
  by (simp add: sample_process_def)

lemma sids_ordered: "cli_sid < other_sid"
  by code_simp

lemma cli_transport_wf: "adapter_wf cli_transport"
  using sids_ordered by (auto simp: cli_transport_def adapter_wf_def sample_adapter_def QuicTransportAdapter_default_def terminal_ids_def
      bt_get_def bt_wf_def split: if_splits)

lemma cli_files_state: "fs_exists cli_files (dcf_state_path sample_config)" "fs_fault cli_files = (\<lambda>_. None)"
  by (simp_all add: fs_exists_def cli_files_def sample_files_def sample_config_def DaemonConfig_new_def)

lemma cli_discovery:
  "load_daemon_discovery sample_cli_env (cli_control_discovery_path (sample_cli cmd)) (w\<lparr>cw_files := cli_files\<rparr>) =
     (Ok sample_discovery, w\<lparr>cw_files := cli_files\<rparr>)"
  by (simp add: load_daemon_discovery_def sample_cli_def cli_files_def sample_files_def fs_read_def sample_cli_sel
      sample_formats_ok map_err_def)

lemma cli_env_read:
  "value_from_slice sample_cli_env = value_from_slice sample_env" "state_from_value sample_cli_env = state_from_value sample_env"
  by (simp_all add: sample_cli_env_def daemon_env.extend_def durable_env.extend_def)

lemma cli_ensured: "\<exists>st. ensure_state sample_cli_env sample_config cli_files = (Ok st, cli_files)"
proof -
  have v: "validate_durable_state_value (JObject [(''schema_version'', json_u64 DAEMON_STATE_SCHEMA_VERSION)]) = Ok ()"
    by (simp add: validate_Ok bt_get_def bt_keys_def allowed_fields_def)
  have "\<exists>st. DaemonState_load sample_cli_env cli_files ''state'' = Ok st"
    using v by (simp add: DaemonState_load_def fs_read_def cli_files_def sample_files_def cli_env_read sample_durable_sel)
  moreover have "dcf_state_path sample_config = ''state''" by (simp add: sample_config_def DaemonConfig_new_def)
  ultimately show ?thesis
    using cli_files_state(1)
    by (auto simp: ensure_state_def state_exists_def bind_r_def reads_def load_state_def return_r_def)
qed

section \<open>The operations of the daemon\<close>

lemma map_r_runs: "(\<And>x. runs I (f x)) \<Longrightarrow> runs I (map_r f xs)"
  by (induction xs) (simp_all add: runs_bind)

lemma sessions_listed:
  assumes "rqe_operation env = ''runtime.sessions.list''" and "on_files (ensure_state E c) s = (Ok st, s1)"
  shows "\<exists>r s'. dispatch E H ctl args c me env s = (Ok r, s') \<and> rse_ok r"
proof -
  have "runs (\<lambda>_. True) (runtime_session_entry E x)" for x :: session_snapshot
    by (auto simp: runs_def runtime_session_entry_def bind_r_def return_r_def clock_secs_def on_registry_def
        split: prod.split)
  then have "runs (\<lambda>_. True) (bind_r (runtime_session_inventory E st') (map_r (runtime_session_entry E)))" for st'
    unfolding runtime_session_inventory_def ask_def by (intro runs_bind map_r_runs runs_pure)
  from runs_Ok [OF this TrueI, of "st\<lparr>ds_active_sessions := active_sessions (vm_transport s1)\<rparr>" s1] assms
  show ?thesis
    by (auto simp: dispatch_def runtime_sessions_response_def answer_def match_r_def sync_runtime_sessions_def bind_r_def
        ask_def reads_def return_r_def ResponseEnvelope_success_def)
qed

lemma closes:
  assumes "on_files (ensure_state E c) s = (Ok st, s)" and "all_direct (vm_transport s)"
    and "adapter_session_snapshot sid (vm_transport s) = Some x" and "fs_fault (vm_files s) = (\<lambda>_. None)"
  shows "\<exists>s'. plane_close_session E ctl c sid s = (Ok (), s')"
proof -
  let ?s = "s\<lparr>vm_transport := snd (adapter_close_session E ctl x
    (snd (update_session_state E sid SS_Closing (Some OperatorRequested) (Some ''operator requested close'') (vm_transport s))))\<rparr>"
  obtain s' where "save_with_sessions E c st ?s = (Ok (), s')" using save_run [of ?s E c st] assms(4) by auto
  with assms show ?thesis
    by (simp add: plane_close_session_def bind_r_def then_r_def ask_def reads_def set_session_state_run close_run all_direct_update)
qed

section \<open>Closing a session\<close>

abbreviation close_payload :: session_close_payload where
  "close_payload \<equiv> \<lparr>ascp_session_id = hex_session_id cli_sid, ascp_reason = Some ''operator_requested''\<rparr>"

abbreviation cli_call :: "string \<Rightarrow> json \<Rightarrow> request_envelope" where
  "cli_call \<equiv> client_request sample_process ''req''"

lemma length_framed: "length (framed bs) = 2 * length bs + 1"
  by (induction bs) simp_all

lemma length_w_to_string: "length (w_to_string c x) = length (enc c x)"
  by (simp add: w_to_string_def bytes_text_def)

lemma length_w_basic: "length (enc w_string t) = 2 * length t + 1" "length (enc w_nat n) = 2 * n + 1"
  by (simp_all add: w_string_def w_nat_def w_iso_def w_bytes_def length_framed as_bytes_def)

lemma length_w_pair: "length (enc (w_pair c d) (a, b)) = length (enc c a) + length (enc d b)"
  by (simp add: w_pair_def)

lemma enc_w_iso: "enc (w_iso f g c) a = enc c (f a)"
  by (simp add: w_iso_def)

lemma length_w_some: "length (enc (w_option c) (Some a)) = length (enc c a) + 1"
  by (simp add: w_option_def)

lemmas format_lengths = length_w_to_string length_w_basic length_w_pair enc_w_iso length_w_some

lemma request_length:
  "length (w_to_string w_request_envelope (cli_call operation payload)) = 2 * length operation + length (json_enc payload) + 15"
proof -
  have "show_word (1 :: u32) = ''1''" by code_simp
  then show ?thesis
    by (simp add: w_request_envelope_def w_request_auth_def w_auth_kind_def w_enum_def w_json_def format_lengths
        client_request_def sample_process_def)
qed

lemma short_requests:
  "length (w_to_string w_request_envelope (cli_call ''runtime.sessions.list'' (JObject []))) \<le> 65536"
  "length (w_to_string w_request_envelope (cli_call ''session.close'' (json_text w_session_close_payload close_payload))) \<le> 65536"
  unfolding request_length by (simp_all add: json_text_def format_lengths length_framed w_session_close_payload_def cli_sid_def)

abbreviation listed_world :: "clockwork \<Rightarrow> relay_world quic_adapter cli_world" where
  "listed_world ck \<equiv> sample_world\<lparr>cw_files := cli_files, cw_daemon := cli_transport\<lparr>qa_clock := ck\<rparr>\<rparr>"

lemma client_reaches:
  "load_daemon_discovery sample_cli_env (cli_control_discovery_path (sample_cli cmd)) sample_world = (Ok sample_discovery, sample_world)"
  "load_daemon_discovery sample_cli_env (cli_control_discovery_path (sample_cli cmd)) (listed_world ck) =
     (Ok sample_discovery, listed_world ck)"
  "ded_endpoint sample_discovery = ''http://d'' @ ''/rpc''"
  "request_to_text sample_cli_env q = Ok (w_to_string w_request_envelope q)"
  using cli_discovery [of cmd sample_world] cli_discovery [of cmd "listed_world ck"]
  by (simp_all add: sample_world_def sample_discovery_def sample_cli_sel)

lemma sample_lists:
  "\<exists>x ck. daemon_request sample_cli_env sample_process (sample_cli cmd) (runtime_sessions_from_value sample_cli_env)
     ''runtime.sessions.list'' (JObject []) sample_world = (Ok x, listed_world ck)"
proof -
  let ?E = sample_cli_env and ?dc = sample_config
  let ?q1 = "cli_call ''runtime.sessions.list'' (JObject [])" and ?s0 = "\<lparr>vm_transport = cli_transport, vm_files = cli_files\<rparr>"
  obtain st where "ensure_state ?E ?dc cli_files = (Ok st, cli_files)" using cli_ensured by blast
  then have "on_files (ensure_state ?E ?dc) ?s0 = (Ok st, ?s0)" by (simp add: on_files_def on_part_def)
  moreover have "rqe_operation ?q1 = ''runtime.sessions.list''" by (simp add: client_request_def)
  ultimately obtain r1 s1 where
    d1: "dispatch ?E silent_authority sample_ctl sample_args ?dc sample_identity ?q1 ?s0 = (Ok r1, s1)" "rse_ok r1"
    using sessions_listed by blast
  have "rqe_operation ?q1 \<in> set query_operations" by (simp add: client_request_def query_operations_def)
  from keepsD [OF keeps_queries [OF _ this] undisturbed_refl d1(1)] cli_files_state(1)
  obtain ck where s1: "s1 = \<lparr>vm_transport = cli_transport\<lparr>qa_clock := ck\<rparr>, vm_files = cli_files\<rparr>"
    by (cases s1) (auto simp: undisturbed_def)
  have w0: "\<lparr>vm_transport = cw_daemon sample_world, vm_files = cw_files sample_world\<rparr> = ?s0" by (simp add: sample_world_def)
  from op_sessions.request_runs [OF sample_wire sample_interface_serde client_reaches(1) [of cmd] client_reaches(3,4)
      short_requests(1), unfolded w0, OF d1]
  show ?thesis unfolding s1 by auto
qed

theorem cli_close_effective_witness:
  "\<exists>w'. run_close sample_cli_env sample_process (sample_cli C_Status) (Some (hex_session_id cli_sid)) sample_world = (Ok (), w') \<and>
        adapter_session_snapshot cli_sid (cw_daemon sample_world) \<noteq> None \<and> adapter_session_snapshot cli_sid (cw_daemon w') = None \<and>
        adapter_session_snapshot other_sid (cw_daemon sample_world) \<noteq> None \<and>
        adapter_session_snapshot other_sid (cw_daemon w') = adapter_session_snapshot other_sid (cw_daemon sample_world)"
proof -
  let ?E = sample_cli_env and ?H = silent_authority and ?ctl = sample_ctl and ?args = sample_args
    and ?dc = sample_config and ?me = sample_identity and ?c = "sample_cli C_Status"
  let ?p = "json_text w_session_close_payload close_payload"
  let ?q2 = "cli_call ''session.close'' ?p"
  obtain st where en: "ensure_state ?E ?dc cli_files = (Ok st, cli_files)" using cli_ensured by blast
  obtain x ck where x: "daemon_request ?E sample_process ?c (runtime_sessions_from_value ?E) ''runtime.sessions.list'' (JObject [])
      sample_world = (Ok x, listed_world ck)" using sample_lists by blast
  let ?w1 = "listed_world ck" and ?s1 = "\<lparr>vm_transport = cli_transport\<lparr>qa_clock := ck\<rparr>, vm_files = cli_files\<rparr>"
  have "on_files (ensure_state ?E ?dc) ?s1 = (Ok st, ?s1)" using en by (simp add: on_files_def on_part_def)
  moreover have "all_direct (vm_transport ?s1)"
    by (simp add: all_direct_def cli_transport_def bt_get_def sample_session_def)
  moreover have "\<exists>y. adapter_session_snapshot cli_sid (vm_transport ?s1) = Some y"
    by (simp add: adapter_session_snapshot_def cli_transport_def bt_get_def)
  moreover have "fs_fault (vm_files ?s1) = (\<lambda>_. None)" using cli_files_state(2) by simp
  ultimately obtain s2 where cl: "plane_close_session ?E ?ctl ?dc cli_sid ?s1 = (Ok (), s2)" using closes by blast
  have hex: "parse_hex_session_id (hex_session_id cli_sid) = Ok (Ok cli_sid)"
    by (simp add: parse_hex_session_id_def parse_hex_pairs_hex cli_sid_def)
  obtain r2 where d2: "dispatch ?E ?H ?ctl ?args ?dc ?me ?q2 ?s1 = (Ok r2, s2)" "rse_ok r2"
    using cl hex by (simp add: dispatch_def client_request_def session_close_response_def with_payload_def sample_cli_sel
        sample_formats_ok with_session_id_def answer_def match_r_def then_r_def bind_r_def ask_def reads_def return_r_def
        ResponseEnvelope_success_def)
  have w1: "\<lparr>vm_transport = cw_daemon ?w1, vm_files = cw_files ?w1\<rparr> = ?s1" by simp
  from op_close.request_runs [OF sample_wire sample_interface_serde client_reaches(2) [of C_Status ck] client_reaches(3,4)
      short_requests(2), unfolded w1, OF d2]
  obtain y w2 where y: "daemon_request ?E sample_process ?c (session_close_result_from_value ?E) ''session.close'' ?p ?w1 = (Ok y, w2)"
    by blast
  have run: "run_close ?E sample_process ?c (Some (hex_session_id cli_sid)) sample_world =
      (Ok (), w2\<lparr>cw_out := cw_out w2 @ [close_line y]\<rparr>)"
    using x y by (simp add: run_close_def chosen_session_def resolve_daemon_session_id_def show_reply_def bind_r_def
        from_result_def encoded_def sample_cli_sel map_err_def print_one println_def cli_sid_def)
  have "length cli_sid = 16" by (simp add: cli_sid_def)
  from cli_close_effective [OF sample_interface_serde sample_payloads_serde sample_wire _ _ this run] run
  have effect: "adapter_session_snapshot cli_sid (cw_daemon sample_world) \<noteq> None"
    "adapter_session_snapshot k (cw_daemon w2) = (if k = cli_sid then None else adapter_session_snapshot k (cw_daemon sample_world))" for k
    using cli_transport_wf cli_files_state(1) by (auto simp: sample_world_def)
  have "other_sid \<noteq> cli_sid" using sids_ordered by auto
  moreover from this have "adapter_session_snapshot other_sid (cw_daemon sample_world) \<noteq> None"
    by (simp add: sample_world_def adapter_session_snapshot_def cli_transport_def bt_get_def)
  ultimately show ?thesis using run effect by simp
qed

section \<open>The other laws\<close>

lemma homeless_paths: "ho_var P ''HOME'' = None \<Longrightarrow> normalize_cli_paths P c = c"
  by (simp add: normalize_cli_paths_def cli_expand_home_path_def split: option.split)

theorem client_never_misreads_witness:
  "\<exists>e w'. run_cli sample_cli_env silent_authority sample_process (sample_cli (C_SessionClose (Some ''abc''))) sample_world =
     (Err e, w') \<and> \<not> misread e"
proof -
  let ?c = "sample_cli (C_SessionClose (Some ''abc''))"
  obtain x ck where x: "daemon_request sample_cli_env sample_process ?c (runtime_sessions_from_value sample_cli_env)
      ''runtime.sessions.list'' (JObject []) sample_world = (Ok x, listed_world ck)" using sample_lists by blast
  have "normalize_cli_paths sample_process ?c = ?c"
    by (rule homeless_paths) (simp add: sample_process_def)
  then have run: "\<exists>e w'. run_cli sample_cli_env silent_authority sample_process ?c sample_world = (Err e, w')"
    using x by (simp add: run_cli_def run_command_def sample_cli_def or_else_def run_close_def chosen_session_def
        resolve_daemon_session_id_def bind_r_def from_result_def)
  then obtain e w' where r: "run_cli sample_cli_env silent_authority sample_process ?c sample_world = (Err e, w')" by blast
  from client_never_misreads [OF sample_interface_serde sample_wire r] r show ?thesis by blast
qed

text \<open>Listing the peers of a node without a state file creates it.\<close>

definition quiet_process :: "relay_world quic_adapter process" where
  "quiet_process = sample_process\<lparr>pr_agent := (\<lambda>_ _ _ v. (Transport ''down'', v))\<rparr>"

lemma print_all_runs: "\<exists>w'. print_all ls w = (Ok (), w') \<and> cw_files w' = cw_files w"
proof (induction ls arbitrary: w)
  case (Cons a ls)
  from Cons.IH [of "w\<lparr>cw_out := cw_out w @ [a]\<rparr>"] show ?case by (auto simp: print_all_def bind_r_def println_def)
qed (simp add: print_all_def return_r_def)

theorem cli_writes_confined_witness:
  "\<exists>w'. run_cli sample_cli_env silent_authority quiet_process ((sample_cli C_Peers)\<lparr>cli_state_path := ''new''\<rparr>) sample_world =
     (Ok (), w') \<and> fs_read (cw_files w') ''new'' \<noteq> fs_read (cw_files sample_world) ''new'' \<and>
     ''new'' \<in> writable_files sample_cli_env quiet_process ((sample_cli C_Peers)\<lparr>cli_state_path := ''new''\<rparr>) C_Peers sample_world"
proof -
  let ?c = "(sample_cli C_Peers)\<lparr>cli_state_path := ''new''\<rparr>"
  have q: "undisturbed_files quiet_process" by (simp add: undisturbed_files_def quiet_process_def sample_process_def)
  have n: "normalize_cli_paths quiet_process ?c = ?c"
    by (rule homeless_paths) (simp add: quiet_process_def sample_process_def)
  have cmd: "or_else (cli_command ?c) C_Status = C_Peers" by (simp add: sample_cli_def or_else_def)
  have absent: "fs_files cli_files ''new'' = None" by (simp add: cli_files_def sample_files_def)
  have "state_to_vec_pretty sample_cli_env st = [2]" for st
    by (simp add: sample_cli_env_def daemon_env.extend_def durable_env.extend_def sample_durable_sel)
  then have en: "\<exists>st fs. ensure_state sample_cli_env (cli_config ?c) cli_files = (Ok st, fs) \<and> fs_read fs ''new'' = Ok [2]"
    using healthy_disk [OF cli_files_state(2)] absent cli_files_state(2)
    by (auto simp: ensure_state_def state_exists_def fs_exists_def bind_r_def reads_def DaemonConfig_new_def sample_cli_def
        then_r_def save_state_def DaemonState_save_def return_r_def Let_def fs_read_def)
  from en obtain st fs where e: "ensure_state sample_cli_env (cli_config ?c) cli_files = (Ok st, fs)" "fs_read fs ''new'' = Ok [2]" by blast
  obtain w' where "print_all (map (peer_line sample_cli_env st) (ds_peers st)) (sample_world\<lparr>cw_files := fs\<rparr>) = (Ok (), w')"
    "cw_files w' = fs" using print_all_runs [of _ "sample_world\<lparr>cw_files := fs\<rparr>"] by auto
  then have run: "run_cli sample_cli_env silent_authority quiet_process ?c sample_world = (Ok (), w')"
    unfolding run_cli_def n cmd
    using e by (simp add: run_command_def run_peers_def bind_r_def Quip_Cli.on_disk_def on_part_def sample_world_def map_err_def)
  moreover have diff: "fs_read (cw_files w') ''new'' \<noteq> fs_read (cw_files sample_world) ''new''"
    using \<open>cw_files w' = fs\<close> e(2) absent cli_files_state(2) by (simp add: sample_world_def fs_read_def)
  ultimately show ?thesis using cli_writes_confined [OF q run diff] unfolding n cmd by blast
qed

theorem init_then_start_witness:
  "\<exists>w'. init_identity (sample_keystore ()) sample_process ''id'' ''PASS'' True sample_world =
          (Ok (IdentityKeypair (replicate 32 7)), w') \<and>
        load_or_init_identity (sample_keystore ()) sample_host [] [] [] ''id'' ''PASS'' (cw_files w') =
          (Ok (IdentityKeypair (replicate 32 7)), cw_files w')"
proof -
  let ?k = "sample_keystore ()" and ?kp = "from_secret_bytes (replicate 32 7)"
  have "\<exists>fs'. FileKeystore_store ?k [1] [2] cli_files ''id'' ?kp ''pw'' = (Ok (), fs')"
    using cli_files_state(2)
    by (simp add: FileKeystore_store_def derive_file_key_def sample_keystore_sel fs_write_def Let_def)
  then obtain w' where run: "init_identity ?k sample_process ''id'' ''PASS'' True sample_world = (Ok ?kp, w')"
    by (auto simp: init_identity_def sample_process_def sample_world_def Let_def healthy_disk(1) [OF cli_files_state(2)])
  have "length (pr_fresh_key sample_process) = 32" "ho_var sample_host ''PASS'' = ho_var sample_process ''PASS''"
    by (simp_all add: sample_process_def sample_host_def)
  from init_then_start [OF sample_keystore_ok this run] run show ?thesis by (auto simp: from_secret_bytes_def)
qed

text \<open>Three samples of a daemon without paths are one line.\<close>

definition pathless_process :: "relay_world quic_adapter process" where
  "pathless_process = sample_process\<lparr>pr_agent := (\<lambda>_ _ _ v. (Response (Ok (w_to_string w_received
     \<lparr>rcv_ok = True, rcv_request_id = ''req'',
      rcv_result = Some (json_text w_runtime_paths_list_result \<lparr>rplr_truth_kind = ''runtime'', rplr_paths = []\<rparr>),
      rcv_error = None\<rparr>)), v))\<rparr>"

lemma pathless_sample:
  "path_sample sample_cli_env pathless_process (sample_cli cmd) None class sample_world =
     (Ok (render_runtime_path_watch_snapshot ''runtime'' [] None class), sample_world)"
proof -
  have "http_post pathless_process endpoint body sample_world = (Ok (pr_reply), sample_world)"
    if "pr_agent pathless_process ''POST'' endpoint (Some body) (cli_files, cli_transport) = (pr_reply, cli_files, cli_transport)"
    for endpoint body pr_reply using that by (simp add: http_post_def sample_world_def)
  then show ?thesis
    by (simp add: path_sample_def daemon_request_def bind_r_def client_reaches encoded_def map_err_def from_result_def
        pathless_process_def read_reply_def read_envelope_def into_json_def sample_cli_sel sample_formats_ok return_r_def
        filter_runtime_paths_def)
qed

theorem watch_prints_changes_witness:
  "\<exists>w'. run_path sample_cli_env pathless_process (sample_cli C_Status) (PC_Watch None ''bulk'' 1000 3) sample_world = (Ok (), w') \<and>
        cw_out w' = [''sample=1 peer=all class=bulk truth_kind=runtime paths=0'']"
proof -
  let ?s = "render_runtime_path_watch_snapshot ''runtime'' [] None Bulk"
  have shown: "''sample='' @ show_word (1 :: u32) @ '' '' @ ?s = ''sample=1 peer=all class=bulk truth_kind=runtime paths=0''"
    by code_simp
  have parsed: "cli_parse_class ''bulk'' = Bulk" by (simp add: cli_parse_class_def)
  have pause: "snd (sleep_between pathless_process i sample_world) = sample_world" for i
    by (simp add: sleep_between_def pathless_process_def sample_process_def sample_world_def)
  have three: "unat (max (3 :: u32) 1) = Suc (Suc (Suc 0))" by code_simp
  have "take_samples sample_cli_env pathless_process (sample_cli C_Status) None (cli_parse_class ''bulk'') (unat (max (3 :: u32) 1)) 0
      sample_world = ([?s, ?s, ?s], Ok ())"
    unfolding parsed three by (simp add: pathless_sample pause)
  from watch_prints_changes [OF this, of 1000] shown show ?thesis
    by (auto simp: change_lines_Cons sample_world_def)
qed

end
