(* ===== verification/Quip_Tools.thy ===== *)
theory Quip_Tools
  imports Quip_Plane Quip_Relay_Http "HOL-Library.Product_Lexorder"
begin

text \<open>
  The small programs and crates beside the node: the bootstrap service (\<open>cmd/bootstrap\<close>), the
  experiment runner \<open>cmd/lab\<close>, the network simulator of the crate \<open>testkit\<close>, the node snapshot of
  the crate \<open>observability\<close> and the version number of the crate \<open>ffi\<close>. The random generator and the
  JSON serializers are parameters.
\<close>

section \<open>The bootstrap service\<close>

record bootstrap_service_config =
  bsc_network_id :: network_id
  bsc_bind_addr :: string
  bsc_advertised_origin :: string

record bootstrap_realm_state =
  brs_realm :: string
  brs_hints :: "bootstrap_hint list"
  brs_metadata :: "(string, string) btree_map"

record bootstrap_snapshot =
  bsn_config :: bootstrap_service_config
  bsn_realms :: "bootstrap_realm_state list"

record bootstrap_service =
  bsv_config :: bootstrap_service_config
  bsv_realms :: "(string, bootstrap_realm_state) btree_map"

definition BootstrapService_new :: "bootstrap_service_config \<Rightarrow> bootstrap_service" where
  "BootstrapService_new config = \<lparr>bsv_config = config, bsv_realms = []\<rparr>"

definition stage_hint :: "string \<Rightarrow> bootstrap_hint \<Rightarrow> bootstrap_service \<Rightarrow> bootstrap_service" where
  "stage_hint realm hint sv =
     (let state = (case bt_get (bsv_realms sv) realm of
                     Some state \<Rightarrow> state
                   | None \<Rightarrow> \<lparr>brs_realm = realm, brs_hints = [], brs_metadata = []\<rparr>)
      in sv\<lparr>bsv_realms := bt_insert realm (state\<lparr>brs_hints := brs_hints state @ [hint]\<rparr>) (bsv_realms sv)\<rparr>)"

definition set_realm_metadata :: "string \<Rightarrow> (string, string) btree_map \<Rightarrow> bootstrap_service \<Rightarrow> bootstrap_service" where
  "set_realm_metadata realm metadata sv =
     sv\<lparr>bsv_realms :=
       (case bt_get (bsv_realms sv) realm of
          Some _ \<Rightarrow> bt_modify realm (\<lambda>state. state\<lparr>brs_metadata := metadata\<rparr>) (bsv_realms sv)
        | None \<Rightarrow> bt_insert realm \<lparr>brs_realm = realm, brs_hints = [], brs_metadata = metadata\<rparr> (bsv_realms sv))\<rparr>"

definition BootstrapService_snapshot :: "bootstrap_service \<Rightarrow> bootstrap_snapshot" where
  "BootstrapService_snapshot sv = \<lparr>bsn_config = bsv_config sv, bsn_realms = bt_values (bsv_realms sv)\<rparr>"

record bootstrap_args =
  ba_port :: u16
  ba_realm :: string

definition bootstrap_main_service :: "'x codecs_scheme \<Rightarrow> bootstrap_args \<Rightarrow> bootstrap_service" where
  "bootstrap_main_service X args =
     (let service = BootstrapService_new
            \<lparr>bsc_network_id = NetworkId_derive X (''bootstrap:'' @ ba_realm args),
             bsc_bind_addr = ''0.0.0.0:'' @ show_word (ba_port args),
             bsc_advertised_origin = ''https://bootstrap.example.invalid:'' @ show_word (ba_port args)\<rparr>;
          service = stage_hint (ba_realm args)
            \<lparr>bh_peer_id = None, bh_addresses = [''quic://127.0.0.1:'' @ show_word (ba_port args)],
             bh_metadata = [(''source'', ''bootstrap-service'')]\<rparr> service
      in set_realm_metadata (ba_realm args) [(''status'', ''active'')] service)"

definition bootstrap_main :: "'x codecs_scheme \<Rightarrow> bootstrap_args \<Rightarrow> string" where
  "bootstrap_main X args =
     ''bootstrap listening on '' @ show_word (ba_port args) @ '' with '' @
     show_nat (length (bsn_realms (BootstrapService_snapshot (bootstrap_main_service X args)))) @ '' configured realm(s)''"

section \<open>The experiment runner\<close>

datatype lab_command = LC_Status | LC_Netcheck | LC_PathExplain string

record lab_args =
  la_experiment :: string
  la_network :: string
  la_json :: bool
  la_command :: "lab_command option"

record lab_serde =
  netcheck_to_pretty :: "netcheck_report \<Rightarrow> (string, string) result"
  decision_to_pretty :: "path_decision \<Rightarrow> (string, string) result"

definition lab_parse_class :: "string \<Rightarrow> traffic_class" where
  "lab_parse_class v =
     (if v = ''control'' then Control else if v = ''bulk'' then Bulk
      else if v = ''background'' then Background else Interactive)"

definition print_output :: "bool \<Rightarrow> ('a \<Rightarrow> (string, string) result) \<Rightarrow> 'a \<Rightarrow> string \<Rightarrow> (string, panic) result" where
  "print_output json to_string_pretty v t =
     (if json then map_err (\<lambda>_. Panic ''json serialization'') (to_string_pretty v) else Ok t)"

definition lab_main :: "'x codecs_scheme \<Rightarrow> 'z lab_serde_scheme \<Rightarrow> lab_args \<Rightarrow> (string, panic) result" where
  "lab_main X J args =
     (let node = LocalNode_fixture X (la_network args)
      in case (case la_command args of Some c \<Rightarrow> c | None \<Rightarrow> LC_Status) of
           LC_Status \<Rightarrow> print_output (la_json args) (netcheck_to_pretty J) (nd_netcheck node)
             (''experiment='' @ la_experiment args @ '' '' @ LocalNode_status_line X node)
         | LC_Netcheck \<Rightarrow> print_output (la_json args) (netcheck_to_pretty J) (nd_netcheck node)
             (NetcheckReport_summary (nd_netcheck node))
         | LC_PathExplain class_name \<Rightarrow>
             (case best_path_for X node (lab_parse_class class_name) of
                None \<Rightarrow> Err (Panic ''fixture state should provide routing decisions'')
              | Some decision \<Rightarrow> print_output (la_json args) (decision_to_pretty J) decision
                  (pe_summary (pd_explanation decision))))"

section \<open>The network simulator\<close>

record link_profile =
  lp_latency_ms :: u32
  lp_jitter_ms :: u32
  lp_loss_pct :: f32
  lp_bandwidth_mbps :: u32

record 'r network_sim =
  sim_rng :: 'r
  sim_links :: "(peer_id \<times> peer_id, link_profile) btree_map"

text \<open>The generator: its state from a seed, and a draw from \<open>0..=n\<close>.\<close>

record 'r rng_env =
  seed_from_u64 :: "u64 \<Rightarrow> 'r"
  gen_range :: "u32 \<Rightarrow> 'r \<Rightarrow> u32 \<times> 'r"

definition DeterministicNetworkSim_new :: "('r, 'x) rng_env_scheme \<Rightarrow> u64 \<Rightarrow> 'r network_sim" where
  "DeterministicNetworkSim_new G seed = \<lparr>sim_rng = seed_from_u64 G seed, sim_links = []\<rparr>"

definition add_link :: "peer_id \<Rightarrow> peer_id \<Rightarrow> link_profile \<Rightarrow> 'r network_sim \<Rightarrow> 'r network_sim" where
  "add_link left right profile sim =
     sim\<lparr>sim_links := bt_insert (right, left) profile (bt_insert (left, right) profile (sim_links sim))\<rparr>"

definition sample_latency ::
  "('r, 'x) rng_env_scheme \<Rightarrow> peer_id \<Rightarrow> peer_id \<Rightarrow> 'r network_sim \<Rightarrow> u32 option \<times> 'r network_sim" where
  "sample_latency G left right sim =
     (case bt_get (sim_links sim) (left, right) of
        None \<Rightarrow> (None, sim)
      | Some link \<Rightarrow>
          (case gen_range G (lp_jitter_ms link) (sim_rng sim) of
             (jitter, rng) \<Rightarrow> (Some (lp_latency_ms link + jitter), sim\<lparr>sim_rng := rng\<rparr>)))"

section \<open>Observability and the foreign interface\<close>

record path_stats =
  pt_peer :: peer_id
  pt_path_kind :: path_kind
  pt_rtt_ms :: u32
  pt_jitter_ms :: u32
  pt_loss_pct :: f32
  pt_relay_peer :: "peer_id option"

record node_snapshot =
  ns_active_peers :: nat
  ns_relayed_connections :: nat
  ns_direct_connections :: nat
  ns_path_stats :: "path_stats list"

definition ffi_version :: u32 where
  "ffi_version = 1"

section \<open>Laws\<close>

text \<open>The service against a log of its operations: a realm is listed once it is named, with the
  hints staged for it in their order and the metadata set last; the listing is in the order of the
  names.\<close>

datatype bootstrap_op = Stage string bootstrap_hint | Describe string "(string, string) btree_map"

fun run_bootstrap :: "bootstrap_op \<Rightarrow> bootstrap_service \<Rightarrow> bootstrap_service" where
  "run_bootstrap (Stage r h) sv = stage_hint r h sv"
| "run_bootstrap (Describe r m) sv = set_realm_metadata r m sv"

fun op_realm :: "bootstrap_op \<Rightarrow> string" where
  "op_realm (Stage r h) = r"
| "op_realm (Describe r m) = r"

definition staged :: "string \<Rightarrow> bootstrap_op list \<Rightarrow> bootstrap_hint list" where
  "staged r ops = List.map_filter (\<lambda>op. case op of Stage r' h \<Rightarrow> if r' = r then Some h else None | Describe _ _ \<Rightarrow> None) ops"

definition described :: "string \<Rightarrow> bootstrap_op list \<Rightarrow> (string, string) btree_map" where
  "described r ops = fold (\<lambda>op m. case op of Describe r' m' \<Rightarrow> if r' = r then m' else m | Stage _ _ \<Rightarrow> m) ops []"

definition realm_spec :: "bootstrap_op list \<Rightarrow> string \<Rightarrow> bootstrap_realm_state" where
  "realm_spec ops r = \<lparr>brs_realm = r, brs_hints = staged r ops, brs_metadata = described r ops\<rparr>"

lemma log_snoc:
  "staged r (ops @ [Stage r' h]) = staged r ops @ (if r' = r then [h] else [])"
  "staged r (ops @ [Describe r' m]) = staged r ops"
  "described r (ops @ [Stage r' h]) = described r ops"
  "described r (ops @ [Describe r' m]) = (if r' = r then m else described r ops)"
  by (simp_all add: staged_def described_def List.map_filter_def)

lemma log_unnamed: "r \<notin> op_realm ` set ops \<Longrightarrow> staged r ops = [] \<and> described r ops = []"
proof (induction ops rule: rev_induct)
  case Nil
  show ?case by (simp add: staged_def described_def List.map_filter_def)
next
  case (snoc op ops)
  then show ?case by (cases op) (auto simp: log_snoc)
qed

lemma realms_of_log:
  fixes ops :: "bootstrap_op list" and config :: bootstrap_service_config
  defines "sv \<equiv> fold run_bootstrap ops (BootstrapService_new config)"
  shows "bt_wf (bsv_realms sv) \<and> bsv_config sv = config \<and>
    (\<forall>r. bt_get (bsv_realms sv) r = (if r \<in> op_realm ` set ops then Some (realm_spec ops r) else None))"
  unfolding sv_def
proof (induction ops rule: rev_induct)
  case Nil
  show ?case by (simp add: BootstrapService_new_def bt_wf_def bt_get_def)
next
  case (snoc op ops)
  let ?sv = "fold run_bootstrap ops (BootstrapService_new config)"
  have get: "bt_get (bsv_realms ?sv) r = (if r \<in> op_realm ` set ops then Some (realm_spec ops r) else None)" for r
    using snoc by blast
  have wf: "bt_wf (bsv_realms ?sv)" "bsv_config ?sv = config" using snoc by auto
  show ?case
  proof (cases op)
    case (Stage r h)
    show ?thesis
      using wf log_unnamed [of r ops]
      by (auto simp: Stage  stage_hint_def Let_def bt_get_insert bt_wf_insert get
          realm_spec_def log_snoc split: option.splits)
  next
    case (Describe r m)
    show ?thesis
      using wf log_unnamed [of r ops]
      by (auto simp: Describe set_realm_metadata_def bt_get_insert bt_get_modify bt_wf_insert
          bt_wf_modify get realm_spec_def log_snoc split: option.splits)
  qed
qed

text \<open>The snapshot of the bootstrap service lists every realm named so far exactly once, in the
  order of the names, each with its staged hints in order and its latest metadata.\<close>

theorem bootstrap_snapshot_exact:
  "BootstrapService_snapshot (fold run_bootstrap ops (BootstrapService_new config)) =
     \<lparr>bsn_config = config, bsn_realms = map (realm_spec ops) (btree_set (map op_realm ops))\<rparr>"
proof -
  let ?m = "bsv_realms (fold run_bootstrap ops (BootstrapService_new config))"
  have wf: "bt_wf ?m" and get: "\<And>r. bt_get ?m r = (if r \<in> op_realm ` set ops then Some (realm_spec ops r) else None)"
    using realms_of_log [of ops config] by blast+
  have "set (bt_keys ?m) = op_realm ` set ops"
    using bt_get_keys [of ?m] get by (metis (mono_tags) option.distinct(1) subsetI subset_antisym)
  then have keys: "map fst ?m = btree_set (map op_realm ops)"
    using wf sorted_btree_set [of "map op_realm ops"]
    by (intro strict_sorted_equal) (auto simp: bt_wf_def bt_keys_def)
  have "snd e = realm_spec ops (fst e)" if "e \<in> set ?m" for e
    using that bt_mem_get [OF wf, of "fst e" "snd e"] get [of "fst e"] by (auto split: if_splits)
  then have "map snd ?m = map (realm_spec ops) (map fst ?m)" by simp
  then show ?thesis
    using realms_of_log [of ops config] by (simp add: BootstrapService_snapshot_def bt_values_def keys)
qed

corollary bootstrap_main_lists_one_realm:
  "length (bsn_realms (BootstrapService_snapshot (bootstrap_main_service X args))) = 1"
proof -
  obtain h m config where
    "bootstrap_main_service X args =
       set_realm_metadata (ba_realm args) m (stage_hint (ba_realm args) h (BootstrapService_new config))"
    unfolding bootstrap_main_service_def Let_def by blast
  then have "bootstrap_main_service X args =
      fold run_bootstrap [Stage (ba_realm args) h, Describe (ba_realm args) m] (BootstrapService_new config)"
    by simp
  then show ?thesis by (simp only: bootstrap_snapshot_exact) (simp add: btree_set_def)
qed

text \<open>A link is the same in both directions: after it is added, either end measures its latency with
  a jitter within its bound, and no other pair is touched.\<close>

theorem sample_latency_of_link:
  assumes "\<And>n r. fst (gen_range G n r) \<le> n" and "unat (lp_latency_ms p) + unat (lp_jitter_ms p) < 2 ^ 32"
    and "(a, b) = (left, right) \<or> (a, b) = (right, left)"
  shows "\<exists>ms. fst (sample_latency G a b (add_link left right p sim)) = Some ms \<and>
           lp_latency_ms p \<le> ms \<and> ms \<le> lp_latency_ms p + lp_jitter_ms p"
proof -
  have get: "bt_get (sim_links (add_link left right p sim)) (a, b) = Some p"
    using assms(3) by (auto simp: add_link_def bt_get_insert)
  obtain j rng where j: "gen_range G (lp_jitter_ms p) (sim_rng (add_link left right p sim)) = (j, rng)" by fastforce
  with assms(1) [of "lp_jitter_ms p" "sim_rng (add_link left right p sim)"] have "j \<le> lp_jitter_ms p" by simp
  then have le: "unat j \<le> unat (lp_jitter_ms p)" by (simp add: word_le_nat_alt)
  have sum: "unat (lp_latency_ms p + k) = unat (lp_latency_ms p) + unat k" if "unat k \<le> unat (lp_jitter_ms p)" for k
    using that assms(2) by (subst unat_add_lem [symmetric]) simp_all
  have "lp_latency_ms p \<le> lp_latency_ms p + j" "lp_latency_ms p + j \<le> lp_latency_ms p + lp_jitter_ms p"
    using sum [OF le] sum [OF order_refl] le by (simp_all add: word_le_nat_alt)
  with get j show ?thesis by (simp add: sample_latency_def)
qed

lemma add_link_other:
  "(a, b) \<noteq> (left, right) \<Longrightarrow> (a, b) \<noteq> (right, left) \<Longrightarrow>
   bt_get (sim_links (add_link left right p sim)) (a, b) = bt_get (sim_links sim) (a, b)"
  by (simp add: add_link_def bt_get_insert del: prod.inject)

text \<open>The experiment runner explains a path for every class but one: no path of the fixture carries
  background traffic, so that asking for it ends in a panic.\<close>

lemma fixture_classes:
  "best_path_for X (LocalNode_fixture X network) tc = None \<longleftrightarrow> tc = Background"
proof -
  have "concat (map pc_traffic_classes (nd_candidate_paths (LocalNode_fixture X network))) =
      [Interactive, Control, Interactive, Bulk]"
    by (simp add: LocalNode_fixture_def Let_def split: prod.split)
  then have "set (concat (map pc_traffic_classes (nd_candidate_paths (LocalNode_fixture X network)))) =
      {Interactive, Control, Interactive, Bulk}" by (simp only: list.set)
  then have "(\<exists>c \<in> set (nd_candidate_paths (LocalNode_fixture X network)). supports_class c tc) \<longleftrightarrow>
      tc \<in> {Interactive, Control, Interactive, Bulk}"
    unfolding supports_class_def by auto
  then show ?thesis by (cases tc) (auto simp: best_path_for_def select_best_path_None)
qed

theorem lab_panics_on_background:
  assumes "\<And>r. \<exists>t. netcheck_to_pretty J r = Ok t" and "\<And>d. \<exists>t. decision_to_pretty J d = Ok t"
  shows "(\<exists>p. lab_main X J args = Err p) \<longleftrightarrow> la_command args = Some (LC_PathExplain ''background'')"
proof -
  have cls: "lab_parse_class v = Background \<longleftrightarrow> v = ''background''" for v by (auto simp: lab_parse_class_def)
  have prints: "\<exists>t. print_output j (netcheck_to_pretty J) r t' = Ok t" "\<exists>t. print_output j (decision_to_pretty J) d t' = Ok t"
    for j r d t' using assms(1) [of r] assms(2) [of d] by (auto simp: print_output_def map_err_def)
  show ?thesis
  proof (cases "la_command args")
    case None
    with prints(1) show ?thesis by (auto simp: lab_main_def Let_def) (metis result.distinct(1))
  next
    case (Some c)
    then show ?thesis
      using prints fixture_classes [of X "la_network args" "lab_parse_class v" for v] cls
      by (cases c) (auto simp: lab_main_def Let_def split: option.splits, (metis result.distinct(1) option.distinct(1))+)
  qed
qed

end
