(* ===== verification/Spec2Isabelle.thy ===== *)
theory Spec2Isabelle
  imports Quip_Membership Quip_Records Quip_Policy Quip_Netcheck Quip_Routing Quip_Relay_Http Quip_Control
    Quip_State_Laws Quip_Durable_Laws
    Quip_Relay_Path Quip_Relay_Daemon Quip_Authority_Wire Quip_Daemon_Witness Quip_Cli_Witness Quip_Tools
begin

text \<open>
  A verification library for \<open>quipnet\<close>, a peer-to-peer network fabric in Rust.

  \<^bold>\<open>The program.\<close> A peer is an Ed25519 key; its identifier is a multihash of the key
  (\<open>crates/model\<close>, \<open>crates/crypto\<close>). An authority signs artifacts: enrollment tokens, membership
  certificates, capability grants and revocations (\<open>crates/membership\<close>). A node fetches them as a
  snapshot over HTTP and merges it into what it holds (\<open>crates/control\<close>). It learns peers from
  bootstrap hints (\<open>crates/discovery\<close>, \<open>crates/peerstore\<close>), decides who may speak which protocol
  (\<open>crates/policy\<close>, \<open>crates/protocol\<close>), scores candidate paths (\<open>crates/routing\<close>) and opens
  sessions through a transport adapter (\<open>crates/quic\<close>, interface in \<open>crates/transport\<close>). Where no
  direct path exists the adapter asks a relay for a session, presenting a signed session
  credential (\<open>crates/identity\<close>); the relay (\<open>crates/relay\<close>, \<open>crates/relaywire\<close>, \<open>cmd/relay\<close>)
  admits it against its destinations and quotas and serves the same operations over HTTP.

  A node keeps one durable state (\<open>DaemonState\<close> of \<open>crates/fabric\<close>): artifacts, peers, candidate
  paths, policy, reports of its sessions. \<open>LocalControlPlane\<close> is the set of operations on that file
  and on the transport adapter: load, migrate, save, back up and restore; merge what the authority
  (\<open>cmd/authority\<close>, its own state file and HTTP routes) serves; realize, reconcile and close
  sessions; reconsider every session and listener after the authority changed something. The
  daemon (\<open>cmd/quipd\<close>) runs these in cycles that a timer, a changed file or an interrupt starts, and
  answers requests of its API (\<open>crates/daemonapi\<close>) from a control thread. The operator uses the
  command line client (\<open>cmd/quip\<close>): some commands work on the files themselves, most send one request
  to the daemon that a discovery file points to and print the reply. A bootstrap service, an
  experiment runner and a network simulator stand beside the node.

  \<^bold>\<open>Theories and sources.\<close>
  \<^item> \<open>Quip_Prelude\<close>: results, ordered maps (\<open>bt_*\<close> for \<open>BTreeMap\<close>), bounded buffers, saturating
    words, strings and decimal numbers, \<open>min_by_key\<close>, merging of logs; the shared lemmas.
    \<open>Quip_Json\<close>, \<open>Quip_Files\<close>, \<open>Quip_Http\<close>, \<open>Quip_Float\<close>, \<open>Quip_Calendar\<close>: JSON values, a file
    system as a map, HTTP replies, the \<open>f32\<close> operations of the path score and the calendar of event
    timestamps. A file that cannot be accessed refuses every operation; a disk that fills up
    (\<open>Room\<close>) cuts a write short and leaves the prefix, as \<open>std::fs::write\<close> truncates before it writes.
    \<open>Quip_Wire\<close> and \<open>Quip_Json_Wire\<close> give concrete invertible serializers, used only to show that the
    hypotheses on serde can hold.
  \<^item> \<open>Quip_Model\<close> (\<open>crates/model\<close>), \<open>Quip_Crypto\<close> (\<open>crates/crypto\<close>), \<open>Quip_Identity\<close>
    (\<open>crates/identity\<close>: session credentials, key files), \<open>Quip_Membership\<close> (\<open>crates/membership\<close>),
    \<open>Quip_Records\<close> (\<open>crates/records\<close>, \<open>crates/peerstore\<close>, \<open>crates/discovery\<close>), \<open>Quip_Policy\<close>
    (\<open>crates/policy\<close>, \<open>crates/protocol\<close>, \<open>crates/scheduler\<close>), \<open>Quip_Netcheck\<close> (\<open>crates/netcheck\<close>),
    \<open>Quip_Routing\<close> (\<open>crates/routing\<close>), \<open>Quip_Control\<close> (\<open>crates/control\<close>).
  \<^item> \<open>Quip_Relay\<close> (\<open>crates/relaywire\<close>, \<open>crates/relay\<close>: session table, admission, registry, in-process
    control), \<open>Quip_Relay_Http\<close> (its HTTP handler and client), \<open>Quip_Relay_Daemon\<close> (\<open>cmd/relay\<close>: start and
    server loop).
  \<^item> \<open>Quip_Transport\<close> (\<open>crates/transport\<close>), \<open>Quip_Quic\<close> and \<open>Quip_Reconnect\<close> (\<open>crates/quic\<close>: sessions,
    listeners, events; suppressions, attempts, health), \<open>Quip_Quic_Laws\<close> (their laws) and
    \<open>Quip_Relay_Path\<close> (adapter, identity and relay together).
  \<^item> \<open>Quip_State\<close> (\<open>crates/fabric\<close>: the records of \<open>DaemonState\<close> and its methods, merging of authority
    data, policy decisions, candidates and route plans) with \<open>Quip_State_Laws\<close>; \<open>Quip_Durable\<close> (state
    file, migrations, inspection, backup bundles) with \<open>Quip_Durable_Laws\<close>.
  \<^item> \<open>Quip_Effect\<close> (the computations of the control plane: an operation reads and writes the files and
    the adapter and returns a result, and what it wrote before an error stays written; the
    judgements \<open>keeps\<close>, \<open>runs\<close> and \<open>yields\<close>), \<open>Quip_Plane\<close> (synchronisation with the authority),
    \<open>Quip_Sessions\<close> (realizing, reconciling, closing and enforcing), \<open>Quip_Runtime_View\<close> (status,
    health, diagnostics); \<open>Quip_Plane_Laws\<close>, \<open>Quip_Reevaluation_Laws\<close>, \<open>Quip_View_Laws\<close> and the concrete
    nodes of \<open>Quip_Plane_Witness\<close>.
  \<^item> \<open>Quip_Authority\<close> (\<open>cmd/authority\<close>: state, commands, projection of a snapshot, HTTP routes) over the
    number formats of \<open>Quip_Numbers\<close>; \<open>Quip_Authority_Laws\<close>, \<open>Quip_Authority_Sync\<close> (the authority
    against the client of \<open>crates/control\<close>) and \<open>Quip_Authority_Wire\<close> (concrete serializers).
  \<^item> \<open>Quip_Api\<close> (\<open>crates/daemonapi\<close>: envelopes, payloads, results), \<open>Quip_Daemon_Views\<close>,
    \<open>Quip_Daemon_Queries\<close> and \<open>Quip_Daemon_Control\<close> (\<open>cmd/quipd\<close>: renderings, read-only handlers, handlers
    that change the node, dispatch and routing of a request), \<open>Quip_Daemon\<close> (one cycle) and
    \<open>Quip_Daemon_Process\<close> (start-up, file watch, waiting, the main loop); \<open>Quip_Api_Laws\<close>,
    \<open>Quip_Cycle_Laws\<close>, \<open>Quip_Process_Laws\<close> and the concrete daemons of \<open>Quip_Daemon_Witness\<close>.
  \<^item> \<open>Quip_Cli\<close> (\<open>cmd/quip\<close>: commands, options, the request to the daemon), \<open>Quip_Cli_Views\<close> (the lines it
    prints), \<open>Quip_Cli_Commands\<close> (every arm of \<open>run\<close>, and \<open>main\<close>). The world of the client
    (\<open>cli_world\<close>) is the file system it shares with the daemon, the state of the daemon behind the
    HTTP agent, and the lines printed. \<open>Quip_Cli_Laws\<close> (the client against the handlers of the daemon),
    \<open>Quip_Cli_Safety\<close> (files, identities, watching), \<open>Quip_Cli_Wire\<close> and \<open>Quip_Cli_Witness\<close> (concrete
    serializers and runs).
  \<^item> \<open>Quip_Tools\<close>: \<open>cmd/bootstrap\<close>, \<open>cmd/lab\<close>, \<open>crates/testkit\<close>, the records of \<open>crates/observability\<close>
    and \<open>crates/ffi\<close>.

  A struct is a record, an enum a datatype, each with the fields and constructors of the source; a
  \<open>u32\<close> or \<open>u64\<close> is a word of that width, and arithmetic wraps or saturates as the source writes it
  (release semantics). A method that changes its receiver returns the new state beside the result,
  also when it fails. The clock and the random generator are sequences that a state consumes
  (\<open>clockwork\<close>) or explicit arguments. A panic is a value, that of adding a duration to an instant past the
  last one included. The two loops of the daemon that may run
  forever, waiting for the next cycle and the main loop, are \<open>partial_function (option)\<close>: not
  returning is \<open>None\<close>, and that waiting returns is a theorem. Nothing is bounded by fuel.

  \<^bold>\<open>Parameters.\<close> Ed25519, X25519, HKDF, BLAKE3, scrypt, the AEAD, base58, base64, serde and ureq
  are third-party code: fields of the records \<open>codecs\<close>, \<open>primitives\<close>, \<open>keystore_env\<close>,
  \<open>artifact_env\<close>, \<open>durable_env\<close>, \<open>authority_env\<close>, \<open>daemon_env\<close>, \<open>cli_env\<close> and of the relay serializers; the replies
  of the authority are an \<open>authority_reader\<close>. What is used of them are named predicates such as
  \<open>ed25519_ok\<close> (a signature made with a key verifies under its public key), stated as hypotheses,
  with concrete instances that satisfy them. The operating system is a parameter too: \<open>waiting\<close>
  gives how long a look at the clock and a sleep take, interrupts, modification times and what the
  control thread does meanwhile; \<open>host\<close> gives environment and addresses; \<open>process\<close> adds what the
  client meets: the agent, file metadata, fresh keys and what happens while it sleeps. \<open>interface_serde\<close>
  and \<open>payloads_serde\<close> say that what one side of the daemon interface serializes the other reads back,
  \<open>undisturbed_files\<close> that nothing else writes files while the client runs. \<open>sleeps_fully\<close> says that a
  sleep lasts at least as long as asked, up to the longest the timer supports, \<open>policy_survives\<close> that the
  policy in a saved state is read back unchanged, \<open>roomy\<close> that the disk does not fill up while a file is
  written, and \<open>reaches\<close> that the HTTP agent delivers the request targets a URL carries unchanged (those of
  \<open>carried\<close>: no spaces, quotes, angle brackets or fragments, which the agent encodes or drops).

  \<^bold>\<open>Interfaces.\<close> \<open>signed_artifact\<close> (what issue and verify promise) is interpreted for credentials,
  tokens, certificates, grants, revocations and records; \<open>relay_control_laws\<close> (the contract of the
  trait \<open>RelayControl\<close>) for the in-process control, with the adapter's relay laws proved inside it;
  \<open>session_lifecycle\<close> (what the control plane relies on of a transport) for the adapter; \<open>identity_log\<close>
  for revocations and candidates; \<open>keyed_vector\<close> for attempts, suppressions, members and relays;
  \<open>ordered_map\<close> for the \<open>BTreeMap\<close> operations; \<open>interface_operation\<close> (a request of the client, the result
  the daemon gives for it and the decoder the client applies) for each of the twenty-four operations
  the client uses.

  \<^bold>\<open>What is shown.\<close> Relay: admission is characterised exactly, quotas hold in every reachable
  state, the HTTP client against the handler behaves as the service, opened sessions can be closed, and a
  relay daemon holds sessions only to destinations its operator allowed.
  Adapter: from the start with an identity registries stay keyed, bounded and free of duplicates; a
  suppressed target stays blocked until the suppression is cleared; closing and backoff behave as
  specified; a route over a relay that serves it connects, and closing it releases the
  relay session. Control: a merge never loses a revocation. Artifacts: what is issued verifies
  exactly in its network, subject and window, and a token altered in any signed field is refused. Policy, negotiation,
  path selection, ingestion and the bootstrap listing equal their declarative descriptions. Node: a peer
  is allowed only under an unrevoked grant and always under one in force, route plans carry the
  endpoints and relay of a best path, a revoked peer stays denied, the state file and backup bundles
  round trip, a migration leaves a valid file or none of its work, and a save, migration or restore
  that fails damages at most the file the disk cut short. Control plane: reconciliation and reevaluation close
  exactly the sessions the policy no longer permits, and the reports say so. Authority: its
  state stays well formed under every command and loses nothing unless it is initialized again,
  and a client that synchronises holds every revocation.
  Daemon: a cycle that completes leaves only permitted sessions, every readable request is answered
  under its identifier with a result of its operation's type or an error, queries on an existing
  state change nothing but the clock, waiting panics on an interval past the end of the clock and
  otherwise ends within a bounded number of looks, and start-up keeps the key of a readable identity
  file or creates one where there is none (an unreadable file is replaced, see \<open>identity_created\<close>). Client: no command fails because it cannot
  read a reply of the daemon, closing a session on the command line closes it in the daemon and no other, a
  command changes no file but those it is for, the identity it creates is the one a daemon starts
  with, and watching prints exactly the changes.

  \<^bold>\<open>Not modelled.\<close> Locks (each operation takes and releases its own), sockets and argument parsing
  (clap); requests that the control thread serves in the middle of a cycle (they are served between
  steps of the wait); the rewriting of a URL that does not carry its text unchanged; the set-up of
  logging (\<open>init_tracing\<close>), which only configures a third-party crate; helpers that only the tests call
  (under \<open>cfg(test)\<close>, and four renderers of \<open>cmd/quip\<close>).
\<close>

end
